(* ===== verification/Prelude.thy ===== *)
theory Prelude
  imports
    Main
    "HOL-Library.AList"
    "HOL-Library.Char_ord"
    "HOL-Library.List_Lexorder"
    "HOL-Library.Product_Lexorder"
begin

text \<open>
  What the components share: the part of Go's standard library the code uses (strings, strconv,
  errors, time), SQL tables as lists of rows with SELECT, UPDATE and DELETE, and the lemmas about
  them that the component proofs reuse.

  Go strings are byte lists. Case mapping and white space are those of ASCII: the code applies
  them to identifiers, host names, paths and enumeration values.  A Go map from strings to strings
  is an association list with distinct keys; a nil slice or map is the empty list.  Instants are
  integers (nanoseconds since the epoch) wrapped in a type of their own.
\<close>

named_theorems res_simps \<open>results of the form error + value\<close>
named_theorems table_simps \<open>rows of a table after an update\<close>

section \<open>Errors\<close>

text \<open>
  A Go error: a package-level sentinel, a one-off message, an error wrapped by fmt.Errorf with
  %w between two pieces of text, errors.Join, or an error that comes from outside (an SDK or a
  driver), with the SDK error code when it has one.  The last form is the CloudPlaneError of
  internal/nodeagent/client: the operation that failed, the gRPC code and the message.
\<close>

datatype goerr =
    Sentinel string
  | Errorf string
  | Wrapf string goerr string
  | Join "goerr list"
  | ExtErr "string option" string
  | CloudPlaneError string string string

type_synonym 'a res = "goerr + 'a"

fun joinStr :: "string \<Rightarrow> string list \<Rightarrow> string" where
  "joinStr sep [] = []"
| "joinStr sep [x] = x"
| "joinStr sep (x # y # xs) = x @ sep @ joinStr sep (y # xs)"

text \<open>The text of an error: its Error method.\<close>

fun errText :: "goerr \<Rightarrow> string" where
  "errText (Sentinel s) = s"
| "errText (Errorf s) = s"
| "errText (Wrapf pre e post) = pre @ errText e @ post"
| "errText (Join es) = joinStr [CHR 0x0A] (map errText es)"
| "errText (ExtErr code s) = s"
| "errText (CloudPlaneError op code msg) =
     (if msg \<noteq> [] then op @ '' failed: '' @ msg else op @ '' failed with grpc code '' @ code)"

text \<open>errors.Is for a sentinel target.\<close>

fun errorsIs :: "goerr \<Rightarrow> goerr \<Rightarrow> bool" where
  "errorsIs (Wrapf pre e post) t \<longleftrightarrow> Wrapf pre e post = t \<or> errorsIs e t"
| "errorsIs (Join es) t \<longleftrightarrow> Join es = t \<or> list_ex (\<lambda>e. errorsIs e t) es"
| "errorsIs e t \<longleftrightarrow> e = t"

text \<open>errors.Join: nil errors are dropped, and nothing is left of no errors.\<close>

definition errorsJoin :: "goerr option list \<Rightarrow> goerr option" where
  "errorsJoin es = (case List.map_filter id es of [] \<Rightarrow> None | xs \<Rightarrow> Some (Join xs))"

definition wrap :: "string \<Rightarrow> goerr \<Rightarrow> goerr" where
  "wrap pre e = Wrapf (pre @ '': '') e []"

lemma errorsIs_wrap [simp]: "errorsIs (wrap pre e) (Sentinel s) = errorsIs e (Sentinel s)"
  by (simp add: wrap_def)

lemma errorsJoin_None_iff [res_simps]: "errorsJoin es = None \<longleftrightarrow> set es \<subseteq> {None}"
  by (induction es) (auto simp: errorsJoin_def List.map_filter_def split: list.splits)

definition bindR :: "'a res \<Rightarrow> ('a \<Rightarrow> 'b res) \<Rightarrow> 'b res" where
  "bindR r f = (case r of Inl e \<Rightarrow> Inl e | Inr x \<Rightarrow> f x)"

lemma bindR_simps [simp]: "bindR (Inl e) f = Inl e" "bindR (Inr x) f = f x"
  by (simp_all add: bindR_def)

lemma bindR_Inr_iff [res_simps]: "bindR r f = Inr y \<longleftrightarrow> (\<exists>x. r = Inr x \<and> f x = Inr y)"
  by (cases r) simp_all

definition orErr :: "bool \<Rightarrow> goerr \<Rightarrow> unit res" where
  "orErr ok e = (if ok then Inr () else Inl e)"

lemma orErr_Inr_iff [res_simps]: "orErr ok e = Inr u \<longleftrightarrow> ok"
  by (simp add: orErr_def)

lemma orErr_True [simp]: "orErr True e = Inr ()"
  by (simp add: orErr_def)

section \<open>Strings\<close>

definition isSpace :: "char \<Rightarrow> bool" where
  "isSpace c \<longleftrightarrow> c \<in> {CHR 0x09, CHR 0x0A, CHR 0x0B, CHR 0x0C, CHR 0x0D, CHR 0x20}"

definition trimBoth :: "(char \<Rightarrow> bool) \<Rightarrow> string \<Rightarrow> string" where
  "trimBoth p s = rev (dropWhile p (rev (dropWhile p s)))"

definition trimSpace :: "string \<Rightarrow> string" where
  "trimSpace = trimBoth isSpace"

definition trimDots :: "string \<Rightarrow> string" where
  "trimDots = trimBoth (\<lambda>c. c = CHR ''.'')"

definition trimRightSlash :: "string \<Rightarrow> string" where
  "trimRightSlash s = rev (dropWhile (\<lambda>c. c = CHR ''/'') (rev s))"

definition lowerChar :: "char \<Rightarrow> char" where
  "lowerChar c = (if CHR ''A'' \<le> c \<and> c \<le> CHR ''Z'' then char_of (of_char c + (32::nat)) else c)"

definition upperChar :: "char \<Rightarrow> char" where
  "upperChar c = (if CHR ''a'' \<le> c \<and> c \<le> CHR ''z'' then char_of (of_char c - (32::nat)) else c)"

definition toLower :: "string \<Rightarrow> string" where
  "toLower = map lowerChar"

definition toUpper :: "string \<Rightarrow> string" where
  "toUpper = map upperChar"

definition equalFold :: "string \<Rightarrow> string \<Rightarrow> bool" where
  "equalFold a b \<longleftrightarrow> toLower a = toLower b"

definition hasPrefix :: "string \<Rightarrow> string \<Rightarrow> bool" where
  "hasPrefix s p \<longleftrightarrow> take (length p) s = p"

definition hasSuffix :: "string \<Rightarrow> string \<Rightarrow> bool" where
  "hasSuffix s p \<longleftrightarrow> hasPrefix (rev s) (rev p)"

fun containsStr :: "string \<Rightarrow> string \<Rightarrow> bool" where
  "containsStr [] p \<longleftrightarrow> p = []"
| "containsStr (c # s) p \<longleftrightarrow> hasPrefix (c # s) p \<or> containsStr s p"

function fieldsOf :: "string \<Rightarrow> string list" where
  "fieldsOf s = (let t = dropWhile isSpace s in
     if t = [] then [] else takeWhile (\<lambda>c. \<not> isSpace c) t # fieldsOf (dropWhile (\<lambda>c. \<not> isSpace c) t))"
  by pat_completeness auto
termination
proof (relation "measure length", simp_all add: Let_def)
  fix s assume "\<exists>c\<in>set s. \<not> isSpace c"
  then have "dropWhile isSpace s \<noteq> []" by simp
  then obtain c t where ct: "dropWhile isSpace s = c # t" and "\<not> isSpace c"
    using hd_dropWhile by (metis list.exhaust list.sel(1))
  have "length (dropWhile (\<lambda>c. \<not> isSpace c) (dropWhile isSpace s)) \<le> length t"
    using ct \<open>\<not> isSpace c\<close> by (simp add: length_dropWhile_le)
  also have "\<dots> < length (dropWhile isSpace s)" using ct by simp
  also have "\<dots> \<le> length s" by (rule length_dropWhile_le)
  finally show "length (dropWhile (\<lambda>c. \<not> isSpace c) (dropWhile isSpace s)) < length s" .
qed

declare fieldsOf.simps [simp del]

text \<open>strings.Split for a one-character separator.\<close>

fun splitOn :: "char \<Rightarrow> string \<Rightarrow> string list" where
  "splitOn sep [] = [[]]"
| "splitOn sep (c # s) =
     (if c = sep then [] # splitOn sep s
      else (case splitOn sep s of [] \<Rightarrow> [[c]] | p # ps \<Rightarrow> (c # p) # ps))"

fun decDigits :: "nat \<Rightarrow> string" where
  "decDigits n = (if n < 10 then [char_of (48 + n)] else decDigits (n div 10) @ [char_of (48 + n mod 10)])"

declare decDigits.simps [simp del]

text \<open>Decimal text of an integer: the verb %d, strconv.Itoa and the SQL cast to text.\<close>

definition itoa :: "int \<Rightarrow> string" where
  "itoa i = (if i < 0 then CHR ''-'' # decDigits (nat (- i)) else decDigits (nat i))"

text \<open>The same digits computed on binary integers, for evaluation.\<close>

function intDigits :: "int \<Rightarrow> string" where
  "intDigits i = (if i < 10 then [char_of (48 + nat i)] else intDigits (i div 10) @ [char_of (48 + nat (i mod 10))])"
  by pat_completeness auto
termination by (relation "measure nat") auto

declare intDigits.simps [simp del]

lemma intDigits_nat: "intDigits (int n) = decDigits n"
proof (induction n rule: decDigits.induct)
  case (1 n)
  show ?case
    using 1 by (subst intDigits.simps, subst decDigits.simps)
      (auto simp: nat_mod_distrib zdiv_int)
qed

lemma itoa_code [code]:
  "itoa i = (if i < 0 then CHR ''-'' # intDigits (- i) else intDigits i)"
  by (cases "i < 0") (simp_all add: itoa_def flip: intDigits_nat)

definition hexDigit :: "nat \<Rightarrow> char" where
  "hexDigit d = (if d < 10 then char_of (48 + d) else char_of (87 + d))"

text \<open>hex.EncodeToString of a byte list; a byte is a number modulo 256.\<close>

definition hexEncode :: "nat list \<Rightarrow> string" where
  "hexEncode bs = concat (map (\<lambda>b. [hexDigit (b div 16 mod 16), hexDigit (b mod 16)]) bs)"

lemma hexDigit_plain: "n < 16 \<Longrightarrow> \<not> isSpace (hexDigit n)"
proof -
  have "list_all (\<lambda>n. \<not> isSpace (hexDigit n)) [0..<16]" by code_simp
  then show "n < 16 \<Longrightarrow> \<not> isSpace (hexDigit n)" by (simp add: list_all_iff)
qed

lemma hexEncode_plain: "c \<in> set (hexEncode bs) \<Longrightarrow> \<not> isSpace c"
  by (auto simp: hexEncode_def hexDigit_plain)

definition nonBlank :: "string \<Rightarrow> bool" where
  "nonBlank s \<longleftrightarrow> trimSpace s \<noteq> []"

text \<open>The domain normalisation that the cloud-plane and the control-plane both use.\<close>

definition cleanDomain :: "string \<Rightarrow> string" where
  "cleanDomain v = trimDots (toLower (trimSpace v))"

lemma trimBoth_Nil [simp]: "trimBoth p [] = []"
  by (simp add: trimBoth_def)

lemma trimSpace_Nil [simp]: "trimSpace [] = []"
  by (simp add: trimSpace_def)

lemma cleanDomain_Nil [simp]: "cleanDomain [] = []"
  by (simp add: cleanDomain_def toLower_def trimDots_def)

lemma nonBlank_Nil [simp]: "\<not> nonBlank []"
  by (simp add: nonBlank_def)

lemma dropWhile_hd: "dropWhile p s = s \<longleftrightarrow> s = [] \<or> \<not> p (hd s)"
proof (cases s)
  case (Cons c t)
  have "length (dropWhile p t) < length s" using Cons length_dropWhile_le [of p t] by simp
  then have "dropWhile p t \<noteq> s" by auto
  then show ?thesis using Cons by simp
qed simp

lemma trimBoth_hd: "trimBoth p s \<noteq> [] \<Longrightarrow> \<not> p (hd (trimBoth p s))"
proof -
  assume ne: "trimBoth p s \<noteq> []"
  let ?d = "dropWhile p s"
  obtain xs where xs: "?d = rev (dropWhile p (rev ?d)) @ xs"
    by (metis rev_append rev_rev_ident takeWhile_dropWhile_id)
  have "hd (trimBoth p s) = hd ?d"
    using ne by (subst xs) (simp add: trimBoth_def)
  moreover have "?d \<noteq> []" using ne by (metis dropWhile.simps(1) rev.simps(1) trimBoth_def)
  ultimately show ?thesis using hd_dropWhile [of p s] by simp
qed

lemma trimBoth_last: "trimBoth p s \<noteq> [] \<Longrightarrow> \<not> p (last (trimBoth p s))"
  using hd_dropWhile [of p "rev (dropWhile p s)"] by (simp add: trimBoth_def last_rev)

lemma trimBoth_id: "s = [] \<or> (\<not> p (hd s) \<and> \<not> p (last s)) \<Longrightarrow> trimBoth p s = s"
proof -
  assume a: "s = [] \<or> (\<not> p (hd s) \<and> \<not> p (last s))"
  then have d: "dropWhile p s = s" by (auto simp: dropWhile_hd)
  moreover have "dropWhile p (rev s) = rev s" using a by (auto simp: dropWhile_hd hd_rev)
  ultimately show ?thesis by (simp add: trimBoth_def)
qed

lemma trimBoth_idem [simp]: "trimBoth p (trimBoth p s) = trimBoth p s"
  by (rule trimBoth_id) (metis trimBoth_hd trimBoth_last)

lemma trimSpace_idem [simp]: "trimSpace (trimSpace s) = trimSpace s"
  by (simp add: trimSpace_def)

lemma set_dropWhile_subset: "set (dropWhile p s) \<subseteq> set s"
  by (induction s) auto

lemma set_trimBoth_subset: "set (trimBoth p s) \<subseteq> set s"
  using set_dropWhile_subset [of p "rev (dropWhile p s)"] set_dropWhile_subset [of p s]
  by (simp add: trimBoth_def)

lemma trimBoth_eq_Nil_iff: "trimBoth p s = [] \<longleftrightarrow> (\<forall>c\<in>set s. p c)"
proof -
  have "(\<forall>c\<in>set (dropWhile p s). p c) \<longleftrightarrow> (\<forall>c\<in>set s. p c)"
  proof (cases "dropWhile p s")
    case (Cons c t)
    then have "\<not> p c" using hd_dropWhile [of p s] by simp
    moreover have "c \<in> set s" using Cons set_dropWhileD [of c p s] by simp
    ultimately show ?thesis using Cons by auto
  qed (auto dest: set_dropWhileD)
  then show ?thesis by (simp add: trimBoth_def)
qed

lemma length_trimBoth_le: "length (trimBoth p s) \<le> length s"
  by (metis length_dropWhile_le length_rev order_trans trimBoth_def)

lemma length_trimSpace_le: "length (trimSpace s) \<le> length s"
  by (simp add: trimSpace_def length_trimBoth_le)

lemma nonBlank_trimSpace [simp]: "nonBlank (trimSpace s) = nonBlank s"
  by (simp add: nonBlank_def)

section \<open>Fixed-width integers\<close>

text \<open>Conversion to int32 and the wrap-around of int64 arithmetic.\<close>

definition goInt32 :: "int \<Rightarrow> int" where
  "goInt32 i = signed_take_bit 31 i"

definition goInt64 :: "int \<Rightarrow> int" where
  "goInt64 i = signed_take_bit 63 i"

lemma goInt32_id: "- (2 ^ 31) \<le> i \<Longrightarrow> i < 2 ^ 31 \<Longrightarrow> goInt32 i = i"
  unfolding goInt32_def by (rule signed_take_bit_int_eq_self) auto

lemma goInt64_id: "- (2 ^ 63) \<le> i \<Longrightarrow> i < 2 ^ 63 \<Longrightarrow> goInt64 i = i"
  unfolding goInt64_def by (rule signed_take_bit_int_eq_self) auto

section \<open>Instants\<close>

datatype instant = Instant (nanos: int)

instantiation instant :: linorder
begin
definition less_eq_instant :: "instant \<Rightarrow> instant \<Rightarrow> bool" where
  "a \<le> b \<longleftrightarrow> nanos a \<le> nanos b"
definition less_instant :: "instant \<Rightarrow> instant \<Rightarrow> bool" where
  "a < b \<longleftrightarrow> nanos a < nanos b"
instance
  by standard (auto simp: less_eq_instant_def less_instant_def instant.expand)
end

definition addDur :: "instant \<Rightarrow> int \<Rightarrow> instant" where
  "addDur t d = Instant (nanos t + d)"

definition secondsDur :: "int \<Rightarrow> int" where
  "secondsDur s = s * 1000000000"

text \<open>The two clocks an operation reads: time.Now in the process and now() in the database.\<close>

record clock =
  goNow :: instant
  dbNow :: instant

definition pad2 :: "nat \<Rightarrow> string" where
  "pad2 n = (if n < 10 then CHR ''0'' # decDigits n else decDigits n)"

definition pad4 :: "nat \<Rightarrow> string" where
  "pad4 n = replicate (4 - length (decDigits n)) (CHR ''0'') @ decDigits n"

text \<open>Year, month and day of a day number counted from 1970-01-01 (proleptic Gregorian).\<close>

definition civilOf :: "int \<Rightarrow> int \<times> int \<times> int" where
  "civilOf days =
     (let z = days + 719468;
          era = z div 146097;
          doe = z mod 146097;
          yoe = (doe - doe div 1460 + doe div 36524 - doe div 146096) div 365;
          doy = doe - (365 * yoe + yoe div 4 - yoe div 100);
          mp = (5 * doy + 2) div 153;
          d = doy - (153 * mp + 2) div 5 + 1;
          m = (if mp < 10 then mp + 3 else mp - 9);
          y = yoe + era * 400 + (if m \<le> 2 then 1 else 0)
      in (y, m, d))"

text \<open>time.RFC3339 of an instant in UTC.\<close>

definition rfc3339 :: "instant \<Rightarrow> string" where
  "rfc3339 t =
     (let secs = nanos t div 1000000000; sod = nat (secs mod 86400)
      in (case civilOf (secs div 86400) of (y, m, d) \<Rightarrow>
        pad4 (nat y) @ ''-'' @ pad2 (nat m) @ ''-'' @ pad2 (nat d) @ ''T'' @
        pad2 (sod div 3600) @ '':'' @ pad2 (sod div 60 mod 60) @ '':'' @ pad2 (sod mod 60) @ ''Z''))"

section \<open>Tables\<close>

text \<open>
  A table is the list of its rows.  SELECT with WHERE and ORDER BY filters and sorts; UPDATE and
  DELETE with WHERE act on every row that satisfies the condition.
\<close>

definition selectWhere :: "('r \<Rightarrow> bool) \<Rightarrow> ('r \<Rightarrow> 'k::linorder) \<Rightarrow> 'r list \<Rightarrow> 'r list" where
  "selectWhere p k rows = sort_key k (filter p rows)"

definition selectFirst :: "('r \<Rightarrow> bool) \<Rightarrow> ('r \<Rightarrow> 'k::linorder) \<Rightarrow> 'r list \<Rightarrow> 'r option" where
  "selectFirst p k rows = (case selectWhere p k rows of [] \<Rightarrow> None | r # _ \<Rightarrow> Some r)"

definition updateWhere :: "('r \<Rightarrow> bool) \<Rightarrow> ('r \<Rightarrow> 'r) \<Rightarrow> 'r list \<Rightarrow> 'r list" where
  "updateWhere p f rows = map (\<lambda>r. if p r then f r else r) rows"

definition deleteWhere :: "('r \<Rightarrow> bool) \<Rightarrow> 'r list \<Rightarrow> 'r list" where
  "deleteWhere p rows = filter (\<lambda>r. \<not> p r) rows"

definition findBy :: "('r \<Rightarrow> 'k) \<Rightarrow> 'k \<Rightarrow> 'r list \<Rightarrow> 'r option" where
  "findBy key k rows = List.find (\<lambda>r. key r = k) rows"

lemma set_selectWhere [simp]: "set (selectWhere p k rows) = {r \<in> set rows. p r}"
  by (simp add: selectWhere_def)

lemma selectFirst_SomeD: "selectFirst p k rows = Some r \<Longrightarrow> r \<in> set rows \<and> p r"
proof -
  assume "selectFirst p k rows = Some r"
  then have "r \<in> set (selectWhere p k rows)"
    by (cases "selectWhere p k rows") (auto simp: selectFirst_def simp del: set_selectWhere)
  then show ?thesis by simp
qed

lemma selectFirst_None_iff: "selectFirst p k rows = None \<longleftrightarrow> (\<forall>r\<in>set rows. \<not> p r)"
proof -
  have "selectFirst p k rows = None \<longleftrightarrow> set (selectWhere p k rows) = {}"
    by (cases "selectWhere p k rows") (auto simp: selectFirst_def simp del: set_selectWhere)
  then show ?thesis by auto
qed

lemma selectFirst_least:
  "selectFirst p k rows = Some r \<Longrightarrow> r' \<in> set rows \<Longrightarrow> p r' \<Longrightarrow> k r \<le> k r'"
proof -
  assume a: "selectFirst p k rows = Some r" "r' \<in> set rows" "p r'"
  then obtain rs where rs: "sort_key k (filter p rows) = r # rs"
    by (auto simp: selectFirst_def selectWhere_def split: list.splits)
  have "sorted (map k (r # rs))" unfolding rs [symmetric] by (rule sorted_sort_key)
  moreover have "r' \<in> set (r # rs)" unfolding rs [symmetric] using a by simp
  ultimately show ?thesis by auto
qed

lemma updateWhere_iff: "r' \<in> set (updateWhere p f rows) \<longleftrightarrow>
    (\<exists>r\<in>set rows. r' = (if p r then f r else r))"
  by (auto simp: updateWhere_def)

lemma map_updateWhere [table_simps]:
  "(\<And>r. p r \<Longrightarrow> key (f r) = key r) \<Longrightarrow> map key (updateWhere p f rows) = map key rows"
  by (auto simp: updateWhere_def)

lemma set_deleteWhere [simp]: "set (deleteWhere p rows) = {r \<in> set rows. \<not> p r}"
  by (auto simp: deleteWhere_def)

lemma distinct_map_deleteWhere: "distinct (map key rows) \<Longrightarrow> distinct (map key (deleteWhere p rows))"
  by (simp add: deleteWhere_def distinct_map_filter)

lemma findBy_None_iff: "findBy key k rows = None \<longleftrightarrow> k \<notin> key ` set rows"
  by (auto simp: findBy_def find_None_iff)

lemma findBy_SomeD: "findBy key k rows = Some r \<Longrightarrow> r \<in> set rows \<and> key r = k"
  by (auto simp: findBy_def find_Some_iff)

lemma find_SomeD: "List.find p rows = Some r \<Longrightarrow> r \<in> set rows \<and> p r"
  by (auto simp: find_Some_iff)

lemma findBy_Some_iff: "distinct (map key rows) \<Longrightarrow>
    findBy key k rows = Some r \<longleftrightarrow> r \<in> set rows \<and> key r = k"
  by (induction rows) (auto simp: findBy_def)

lemma findBy_updateWhere [table_simps]:
  "(\<And>r. p r \<Longrightarrow> key (f r) = key r) \<Longrightarrow>
   findBy key k (updateWhere p f rows) = map_option (\<lambda>r. if p r then f r else r) (findBy key k rows)"
  by (induction rows) (auto simp: findBy_def updateWhere_def)

lemma findBy_append [table_simps]:
  "findBy key k (rows @ [r]) = (case findBy key k rows of Some r' \<Rightarrow> Some r'
     | None \<Rightarrow> if key r = k then Some r else None)"
  by (induction rows) (auto simp: findBy_def)

lemma findBy_deleteWhere_other [table_simps]:
  "(\<And>r. key r = k \<Longrightarrow> \<not> p r) \<Longrightarrow> findBy key k (deleteWhere p rows) = findBy key k rows"
  by (induction rows) (auto simp: findBy_def deleteWhere_def)

lemma findBy_deleteWhere_gone [table_simps]:
  "(\<And>r. key r = k \<Longrightarrow> p r) \<Longrightarrow> findBy key k (deleteWhere p rows) = None"
  by (auto simp: findBy_None_iff)

lemma distinct_map_updateWhere_key:
  assumes "distinct (map key rows)" "distinct (map g rows)"
    and "\<And>r. r \<in> set rows \<Longrightarrow> key r \<noteq> k \<Longrightarrow> g r \<noteq> c" "\<And>r. key r = k \<Longrightarrow> g (f r) = c"
  shows "distinct (map g (updateWhere (\<lambda>r. key r = k) f rows))"
  using assms
proof (induction rows)
  case (Cons a rows)
  have tl: "distinct (map g (updateWhere (\<lambda>r. key r = k) f rows))"
    using Cons by simp
  have sub: "set (map g (updateWhere (\<lambda>r. key r = k) f rows)) \<subseteq>
      insert c (g ` set rows)" using Cons.prems(4) by (auto simp: updateWhere_def)
  show ?case
  proof (cases "key a = k")
    case True
    then have other: "key r \<noteq> k" if "r \<in> set rows" for r
      using Cons.prems(1) that by (auto simp: image_iff)
    then have "updateWhere (\<lambda>r. key r = k) f rows = rows"
      by (auto simp: updateWhere_def intro!: map_idI)
    moreover have "c \<notin> g ` set rows" using Cons.prems(3) other by auto
    ultimately show ?thesis using True Cons.prems tl by (simp add: updateWhere_def)
  next
    case False
    then have "g a \<noteq> c" "g a \<notin> g ` set rows" using Cons.prems by auto
    then show ?thesis using False tl sub by (auto simp: updateWhere_def)
  qed
qed (simp add: updateWhere_def)

lemma updateWhere_none: "(\<And>r. r \<in> set rows \<Longrightarrow> \<not> p r) \<Longrightarrow> updateWhere p f rows = rows"
  by (auto simp: updateWhere_def intro!: map_idI)

lemma deleteWhere_none: "(\<And>r. r \<in> set rows \<Longrightarrow> \<not> p r) \<Longrightarrow> deleteWhere p rows = rows"
  by (auto simp: deleteWhere_def intro!: filter_True)

lemma updateWhere_Cons: "updateWhere p f (r # rows) = (if p r then f r else r) # updateWhere p f rows"
  by (simp add: updateWhere_def)

lemma deleteWhere_Cons: "deleteWhere p (r # rows) = (if p r then deleteWhere p rows else r # deleteWhere p rows)"
  by (simp add: deleteWhere_def)

text \<open>SELECT SUM(g) WHERE p, and how the update or the removal of the one row with a key changes it.\<close>

fun sumOf :: "('r \<Rightarrow> int) \<Rightarrow> ('r \<Rightarrow> bool) \<Rightarrow> 'r list \<Rightarrow> int" where
  "sumOf g p [] = 0"
| "sumOf g p (r # rows) = (if p r then g r else 0) + sumOf g p rows"

lemma sumOf_append [simp]: "sumOf g p (xs @ ys) = sumOf g p xs + sumOf g p ys"
  by (induction xs) auto

lemma sumOf_nonneg: "(\<And>r. r \<in> set rows \<Longrightarrow> p r \<Longrightarrow> 0 \<le> g r) \<Longrightarrow> 0 \<le> sumOf g p rows"
  by (induction rows) (auto intro!: add_nonneg_nonneg)

lemma sumOf_none: "(\<And>r. r \<in> set rows \<Longrightarrow> \<not> p r) \<Longrightarrow> sumOf g p rows = 0"
  by (induction rows) auto

lemma sumOf_updateWhere_same:
  "(\<And>r. r \<in> set rows \<Longrightarrow> q r \<Longrightarrow> p (f r) = p r \<and> (p r \<longrightarrow> g (f r) = g r)) \<Longrightarrow>
   sumOf g p (updateWhere q f rows) = sumOf g p rows"
  by (induction rows) (auto simp: updateWhere_def)

lemma sumOf_member_le:
  "r \<in> set rows \<Longrightarrow> p r \<Longrightarrow> (\<And>x. x \<in> set rows \<Longrightarrow> p x \<Longrightarrow> 0 \<le> g x) \<Longrightarrow> g r \<le> sumOf g p rows"
proof (induction rows)
  case (Cons a rows)
  have nn: "0 \<le> sumOf g p rows" using Cons.prems(3) by (intro sumOf_nonneg) simp
  show ?case
  proof (cases "r \<in> set rows")
    case True
    then have "g r \<le> sumOf g p rows" using Cons by simp
    then show ?thesis using Cons.prems(3) [of a] by (cases "p a") auto
  next
    case False
    then show ?thesis using Cons.prems nn by simp
  qed
qed simp

lemma sumOf_updateWhere_key:
  assumes "distinct (map key rows)" and "r \<in> set rows" and "\<And>x. x \<in> set rows \<Longrightarrow> q x \<longleftrightarrow> key x = key r"
  shows "sumOf g p (updateWhere q f rows) =
    sumOf g p rows - (if p r then g r else 0) + (if p (f r) then g (f r) else 0)"
  using assms
proof (induction rows)
  case (Cons a rows)
  show ?case
  proof (cases "a = r")
    case True
    have "updateWhere q f rows = rows"
      using Cons.prems True by (intro updateWhere_none) (auto simp: image_iff)
    then show ?thesis using True Cons.prems(3) by (simp add: updateWhere_Cons)
  next
    case False
    with Cons.prems have "key a \<noteq> key r" and "r \<in> set rows" by (auto simp: image_iff)
    with Cons show ?thesis by (simp add: updateWhere_Cons)
  qed
qed simp

lemma sumOf_deleteWhere_key:
  assumes "distinct (map key rows)" and "r \<in> set rows" and "\<And>x. x \<in> set rows \<Longrightarrow> q x \<longleftrightarrow> key x = key r"
  shows "sumOf g p (deleteWhere q rows) = sumOf g p rows - (if p r then g r else 0)"
  using assms
proof (induction rows)
  case (Cons a rows)
  show ?case
  proof (cases "a = r")
    case True
    have "deleteWhere q rows = rows"
      using Cons.prems True by (intro deleteWhere_none) (auto simp: image_iff)
    then show ?thesis using True Cons.prems(3) by (simp add: deleteWhere_Cons)
  next
    case False
    with Cons.prems have "key a \<noteq> key r" and "r \<in> set rows" by (auto simp: image_iff)
    with Cons show ?thesis by (simp add: deleteWhere_Cons)
  qed
qed simp

section \<open>Journals\<close>

text \<open>
  Operations on a state that also write down what happens: the state comes with the list of events
  so far.  What an operation does whatever its surroundings answer is then stated of the events.
\<close>

definition quietly :: "('a \<Rightarrow> 'r \<times> 'a) \<Rightarrow> 'a \<times> 'e list \<Rightarrow> 'r \<times> 'a \<times> 'e list" where
  "quietly f al = (case f (fst al) of (r, a) \<Rightarrow> (r, a, snd al))"

definition noting :: "('a \<Rightarrow> 'r \<times> 'a) \<Rightarrow> ('r \<Rightarrow> 'e list) \<Rightarrow> 'a \<times> 'e list \<Rightarrow> 'r \<times> 'a \<times> 'e list" where
  "noting f ev al = (case f (fst al) of (r, a) \<Rightarrow> (r, a, snd al @ ev r))"

text \<open>The events of an operation are es.\<close>

abbreviation grows :: "'a \<times> 'e list \<Rightarrow> 'e list \<Rightarrow> 'a \<times> 'e list \<Rightarrow> bool" where
  "grows al es al' \<equiv> snd al' = snd al @ es"

lemma quietly_D: "quietly f al = (r, al') \<Longrightarrow> snd al' = snd al"
  by (auto simp: quietly_def split: prod.splits)

lemma noting_D: "noting f ev al = (r, al') \<Longrightarrow> grows al (ev r) al'"
  by (auto simp: noting_def split: prod.splits)

end
