(* ===== verification/GoNet.thy ===== *)
theory GoNet
  imports Prelude
begin

text \<open>
  The part of Go's package net the code relies on: which texts net.ParseIP accepts (the grammar of
  netip.ParseAddr without a zone), net.JoinHostPort, net.SplitHostPort, and of net/url the host of a URL.
\<close>

definition isDigit :: "char \<Rightarrow> bool" where
  "isDigit c \<longleftrightarrow> CHR ''0'' \<le> c \<and> c \<le> CHR ''9''"

definition digitVal :: "char \<Rightarrow> nat" where
  "digitVal c = of_char c - 48"

definition isHex :: "char \<Rightarrow> bool" where
  "isHex c \<longleftrightarrow> isDigit c \<or> (CHR ''a'' \<le> c \<and> c \<le> CHR ''f'') \<or> (CHR ''A'' \<le> c \<and> c \<le> CHR ''F'')"

text \<open>
  The four decimal fields of an IPv4 address: the value and the number of digits of the current
  field, the number of fields complete so far, and the text that is left.
\<close>

fun v4Fields :: "nat \<Rightarrow> nat \<Rightarrow> nat \<Rightarrow> string \<Rightarrow> bool" where
  "v4Fields val digLen pos [] \<longleftrightarrow> pos = 3"
| "v4Fields val digLen pos (c # s) \<longleftrightarrow>
     (if isDigit c then
        (if digLen = 1 \<and> val = 0 then False
         else if val * 10 + digitVal c > 255 then False
         else v4Fields (val * 10 + digitVal c) (Suc digLen) pos s)
      else if c = CHR ''.'' then
        (if digLen = 0 \<or> s = [] then False
         else if pos = 3 then False
         else v4Fields 0 0 (Suc pos) s)
      else False)"

text \<open>The end of an IPv6 address after i bytes, with the position of the double colon if any.\<close>

definition v6End :: "nat \<Rightarrow> nat option \<Rightarrow> bool" where
  "v6End i ell \<longleftrightarrow> (if i < 16 then ell \<noteq> None else ell = None)"

text \<open>The groups of an IPv6 address; nine units of fuel are enough for eight groups.\<close>

fun v6Groups :: "nat \<Rightarrow> nat \<Rightarrow> nat option \<Rightarrow> string \<Rightarrow> bool" where
  "v6Groups 0 i ell s \<longleftrightarrow> False"
| "v6Groups (Suc fuel) i ell s \<longleftrightarrow>
     (if 16 \<le> i then s = [] \<and> ell = None
      else let h = takeWhile isHex s; r = drop (length h) s in
        if h = [] \<or> 4 < length h then False
        else (case r of
          [] \<Rightarrow> v6End (i + 2) ell
        | c # r' \<Rightarrow>
            (if c = CHR ''.'' then
               (if ell = None \<and> i \<noteq> 12 then False
                else if 16 < i + 4 then False
                else v4Fields 0 0 0 s \<and> v6End (i + 4) ell)
             else if c \<noteq> CHR '':'' then False
             else (case r' of
                [] \<Rightarrow> False
              | c' # r'' \<Rightarrow>
                  (if c' = CHR '':'' then
                     (if ell \<noteq> None then False
                      else if r'' = [] then v6End (i + 2) (Some (i + 2))
                      else v6Groups fuel (i + 2) (Some (i + 2)) r'')
                   else v6Groups fuel (i + 2) ell r')))))"

definition validIPv6 :: "string \<Rightarrow> bool" where
  "validIPv6 s \<longleftrightarrow>
     (if CHR ''%'' \<in> set s then False
      else if hasPrefix s ''::'' then drop 2 s = [] \<or> v6Groups 9 0 (Some 0) (drop 2 s)
      else v6Groups 9 0 None s)"

text \<open>net.ParseIP s is not nil.\<close>

definition validIP :: "string \<Rightarrow> bool" where
  "validIP s \<longleftrightarrow>
     (case dropWhile (\<lambda>c. c \<notin> {CHR ''.'', CHR '':'', CHR ''%''}) s of
        [] \<Rightarrow> False
      | c # _ \<Rightarrow> if c = CHR ''.'' then v4Fields 0 0 0 s
               else if c = CHR '':'' then validIPv6 s
               else False)"

definition joinHostPort :: "string \<Rightarrow> string \<Rightarrow> string" where
  "joinHostPort host port =
     (if CHR '':'' \<in> set host then ''['' @ host @ '']:'' @ port else host @ '':'' @ port)"

lemma not_validIP_Nil [simp]: "\<not> validIP []"
  by (simp add: validIP_def)

lemma validIP_examples:
  "validIP ''10.0.0.7''" "validIP ''::1''" "validIP ''fe80::1:2''" "validIP ''::ffff:1.2.3.4''"
  "\<not> validIP ''10.0.0''" "\<not> validIP ''10.0.0.256''" "\<not> validIP ''10.0.01.2''" "\<not> validIP ''1:2''"
  "\<not> validIP ''fe80::1%eth0''"
  by code_simp+

section \<open>Texts with a port\<close>

text \<open>What the code reads of a URL; net/url itself is a parameter wherever it is used.\<close>

record url_parts =
  urlScheme :: string
  urlHost :: string
  urlPort :: string

text \<open>net.SplitHostPort, with None for its errors.\<close>

definition splitHostPort :: "string \<Rightarrow> (string \<times> string) option" where
  "splitHostPort s =
     (if CHR '':'' \<notin> set s then None
      else
        (let port = rev (takeWhile (\<lambda>c. c \<noteq> CHR '':'') (rev s));
             i = length s - Suc (length port)
         in if hasPrefix s ''['' then
              (let inside = takeWhile (\<lambda>c. c \<noteq> CHR '']'') s; e = length inside
               in if e = length s then None
                  else if Suc e \<noteq> i then None
                  else if CHR ''['' \<in> set (drop 1 s) \<or> CHR '']'' \<in> set (drop (Suc e) s) then None
                  else Some (drop 1 inside, port))
            else if CHR '':'' \<in> set (take i s) then None
            else if CHR ''['' \<in> set s \<or> CHR '']'' \<in> set s then None
            else Some (take i s, port)))"

section \<open>Hosts of URLs\<close>

text \<open>
  What the code uses of net/url and net on the host of a URL: the method Hostname and IsLoopback of the
  address a text stands for.
\<close>

text \<open>The host of a URL without its port and brackets: the method Hostname of net/url.\<close>

definition stripPort :: "string \<Rightarrow> string" where
  "stripPort hostPort =
     (let tl = takeWhile (\<lambda>c. c \<noteq> CHR '':'') (rev hostPort);
          host = (if CHR '':'' \<in> set hostPort \<and> list_all isDigit tl
                  then take (length hostPort - Suc (length tl)) hostPort else hostPort)
      in if hasPrefix host ''['' \<and> hasSuffix host '']'' then take (length host - 2) (drop 1 host) else host)"

definition hexVal :: "char \<Rightarrow> nat" where
  "hexVal c = (if isDigit c then digitVal c else of_char (lowerChar c) - 87)"

text \<open>The bytes that a part of an IPv6 address stands for: a group of hexadecimal digits or a dotted part.\<close>

definition v6Part :: "string \<Rightarrow> nat list" where
  "v6Part t =
     (if t = [] then []
      else if CHR ''.'' \<in> set t then map (foldl (\<lambda>n c. 10 * n + digitVal c) 0) (splitOn (CHR ''.'') t)
      else (case map hexVal (replicate (4 - length t) (CHR ''0'') @ t) of
              [a, b, c, d] \<Rightarrow> [16 * a + b, 16 * c + d]
            | _ \<Rightarrow> []))"

fun splitEllipsis :: "string \<Rightarrow> string \<times> string option" where
  "splitEllipsis (a # b # s) =
     (if a = CHR '':'' \<and> b = CHR '':'' then ([], Some s)
      else (case splitEllipsis (b # s) of (l, r) \<Rightarrow> (a # l, r)))"
| "splitEllipsis s = (s, None)"

definition v6Value :: "string \<Rightarrow> nat list" where
  "v6Value s =
     (case splitEllipsis s of
        (l, None) \<Rightarrow> concat (map v6Part (splitOn (CHR '':'') l))
      | (l, Some r) \<Rightarrow>
          (let a = concat (map v6Part (splitOn (CHR '':'') l)); b = concat (map v6Part (splitOn (CHR '':'') r))
           in a @ replicate (16 - length a - length b) 0 @ b))"

text \<open>
  net.ParseIP s is an address and IsLoopback holds of it: 127.0.0.0/8, also in the IPv6 form of an
  IPv4 address, and the address one.
\<close>

definition isLoopbackIP :: "string \<Rightarrow> bool" where
  "isLoopbackIP s \<longleftrightarrow> validIP s \<and>
     (if CHR '':'' \<in> set s then
        (let g = v6Value s in
         if take 12 g = replicate 10 0 @ [255, 255] then g ! 12 = 127 else g = replicate 15 0 @ [1])
      else hasPrefix s ''127.'')"

lemma isLoopbackIP_examples:
  "isLoopbackIP ''127.0.0.1''" "isLoopbackIP ''::1''" "\<not> isLoopbackIP ''10.0.0.1''" "\<not> isLoopbackIP ''::2''"
  "stripPort ''[::1]:2019'' = ''::1''" "stripPort ''localhost:2019'' = ''localhost''"
  by code_simp+

end
