(* ===== verification/CloudModel.thy ===== *)
theory CloudModel
  imports GoNet
begin

text \<open>
  internal/cloudplane/model: the status and action constants, the inputs of the cloud-plane with
  their Validate methods, the resource requests of the instance classes and the route types.
  A validation is a result: \<open>Inr ()\<close> for the nil error.
\<close>

section \<open>Constants (execution.go, node.go, service.go)\<close>

definition StatusPending :: string where "StatusPending = ''pending''"
definition StatusDeploying :: string where "StatusDeploying = ''deploying''"
definition StatusRunning :: string where "StatusRunning = ''running''"
definition StatusSucceeded :: string where "StatusSucceeded = ''succeeded''"
definition StatusFailed :: string where "StatusFailed = ''failed''"

definition WorkActionRun :: string where "WorkActionRun = ''run''"
definition WorkActionDelete :: string where "WorkActionDelete = ''delete''"

definition ExposurePublic :: string where "ExposurePublic = ''public''"
definition ExposurePrivate :: string where "ExposurePrivate = ''private''"

definition StatusProvisioning :: string where "StatusProvisioning = ''provisioning''"
definition StatusRegistering :: string where "StatusRegistering = ''registering''"
definition StatusReady :: string where "StatusReady = ''ready''"
definition StatusDraining :: string where "StatusDraining = ''draining''"
definition StatusOffline :: string where "StatusOffline = ''offline''"
definition StatusDeleted :: string where "StatusDeleted = ''deleted''"

definition ServiceDesiredActive :: string where "ServiceDesiredActive = ''active''"
definition ServiceDesiredDeleted :: string where "ServiceDesiredDeleted = ''deleted''"

lemmas run_status_defs =
  StatusPending_def StatusDeploying_def StatusRunning_def StatusSucceeded_def StatusFailed_def
lemmas node_status_defs =
  StatusProvisioning_def StatusRegistering_def StatusReady_def StatusDraining_def
  StatusOffline_def StatusDeleted_def
lemmas const_defs =
  run_status_defs node_status_defs WorkActionRun_def WorkActionDelete_def ExposurePublic_def
  ExposurePrivate_def ServiceDesiredActive_def ServiceDesiredDeleted_def

lemma run_status_distinct [simp]:
  "StatusPending \<noteq> StatusDeploying" "StatusDeploying \<noteq> StatusPending"
  "StatusPending \<noteq> StatusRunning" "StatusRunning \<noteq> StatusPending"
  "StatusPending \<noteq> StatusSucceeded" "StatusSucceeded \<noteq> StatusPending"
  "StatusPending \<noteq> StatusFailed" "StatusFailed \<noteq> StatusPending"
  "StatusDeploying \<noteq> StatusRunning" "StatusRunning \<noteq> StatusDeploying"
  "StatusDeploying \<noteq> StatusSucceeded" "StatusSucceeded \<noteq> StatusDeploying"
  "StatusDeploying \<noteq> StatusFailed" "StatusFailed \<noteq> StatusDeploying"
  "StatusRunning \<noteq> StatusSucceeded" "StatusSucceeded \<noteq> StatusRunning"
  "StatusRunning \<noteq> StatusFailed" "StatusFailed \<noteq> StatusRunning"
  "StatusSucceeded \<noteq> StatusFailed" "StatusFailed \<noteq> StatusSucceeded"
  by (simp_all add: run_status_defs)

lemma node_status_distinct [simp]:
  "StatusProvisioning \<noteq> StatusRegistering" "StatusRegistering \<noteq> StatusProvisioning"
  "StatusProvisioning \<noteq> StatusReady" "StatusReady \<noteq> StatusProvisioning"
  "StatusProvisioning \<noteq> StatusDraining" "StatusDraining \<noteq> StatusProvisioning"
  "StatusProvisioning \<noteq> StatusOffline" "StatusOffline \<noteq> StatusProvisioning"
  "StatusProvisioning \<noteq> StatusDeleted" "StatusDeleted \<noteq> StatusProvisioning"
  "StatusRegistering \<noteq> StatusReady" "StatusReady \<noteq> StatusRegistering"
  "StatusRegistering \<noteq> StatusDraining" "StatusDraining \<noteq> StatusRegistering"
  "StatusRegistering \<noteq> StatusOffline" "StatusOffline \<noteq> StatusRegistering"
  "StatusRegistering \<noteq> StatusDeleted" "StatusDeleted \<noteq> StatusRegistering"
  "StatusReady \<noteq> StatusDraining" "StatusDraining \<noteq> StatusReady"
  "StatusReady \<noteq> StatusOffline" "StatusOffline \<noteq> StatusReady"
  "StatusReady \<noteq> StatusDeleted" "StatusDeleted \<noteq> StatusReady"
  "StatusDraining \<noteq> StatusOffline" "StatusOffline \<noteq> StatusDraining"
  "StatusDraining \<noteq> StatusDeleted" "StatusDeleted \<noteq> StatusDraining"
  "StatusOffline \<noteq> StatusDeleted" "StatusDeleted \<noteq> StatusOffline"
  by (simp_all add: node_status_defs)

lemma other_const_distinct [simp]:
  "ServiceDesiredActive \<noteq> ServiceDesiredDeleted" "ServiceDesiredDeleted \<noteq> ServiceDesiredActive"
  "ExposurePublic \<noteq> ExposurePrivate" "ExposurePrivate \<noteq> ExposurePublic"
  "WorkActionRun \<noteq> WorkActionDelete" "WorkActionDelete \<noteq> WorkActionRun"
  by (simp_all add: const_defs)

section \<open>execution.go\<close>

definition ResourceRequestForInstanceClass :: "string \<Rightarrow> (int \<times> int) res" where
  "ResourceRequestForInstanceClass class =
     (let c = trimSpace class in
      if c = [] \<or> c = ''small'' then Inr (500, 512)
      else if c = ''medium'' then Inr (1000, 1024)
      else if c = ''large'' then Inr (1500, 1536)
      else Inl (Errorf ''instanceClass must be one of small, medium, large''))"

definition ParseExposure :: "string \<Rightarrow> string res" where
  "ParseExposure value =
     (let v = toLower (trimSpace value) in
      if v = [] \<or> v = ExposurePublic then Inr ExposurePublic
      else if v = ExposurePrivate then Inr ExposurePrivate
      else Inl (Errorf ''exposure must be public or private''))"

type_synonym env = "(string \<times> string) list"

record work_item =
  wiAction :: string
  wiExecutionID :: string
  wiNodeID :: string
  wiServiceID :: string
  wiServiceName :: string
  wiImage :: string
  wiCommand :: "string list"
  wiArgs :: "string list"
  wiEnv :: env
  wiContainerPort :: int
  wiReadinessPath :: string
  wiContainerName :: string
  wiContainerID :: string
  wiHostPort :: int

record execution_record =
  erID :: string
  erNodeID :: string
  erImage :: string
  erContainerName :: string
  erContainerID :: string
  erContainerPort :: int
  erHostPort :: int
  erReadinessPath :: string
  erStatus :: string
  erStatusReason :: string
  erStartedAt :: instant
  erFinishedAt :: "instant option"
  erCreatedAt :: instant
  erUpdatedAt :: instant

record report_input =
  riStatus :: string
  riReason :: string
  riContainerID :: string
  riContainerName :: string
  riHostPort :: int

definition IsExecutionStatus :: "string \<Rightarrow> bool" where
  "IsExecutionStatus s \<longleftrightarrow>
     s = StatusDeploying \<or> s = StatusRunning \<or> s = StatusSucceeded \<or> s = StatusFailed"

definition validateReportInput :: "report_input \<Rightarrow> unit res" where
  "validateReportInput i =
     (if \<not> IsExecutionStatus (riStatus i) then
        Inl (Errorf ''status must be one of deploying, running, succeeded, failed'')
      else if \<not> nonBlank (riReason i) then Inl (Errorf ''reason is required'')
      else if \<not> nonBlank (riContainerName i) then Inl (Errorf ''containerName is required'')
      else if riStatus i = StatusRunning \<and> riHostPort i \<le> 0 then
        Inl (Errorf ''hostPort must be greater than 0 when status is running'')
      else Inr ())"

section \<open>node.go\<close>

record provisioning_input =
  piProvider :: string
  piRegion :: string
  piName :: string
  piInstanceType :: string
  piStatusReason :: string

definition validateProvisioningInput :: "provisioning_input \<Rightarrow> unit res" where
  "validateProvisioningInput i =
     (if \<not> nonBlank (piProvider i) then Inl (Errorf ''provider is required'')
      else if \<not> nonBlank (piRegion i) then Inl (Errorf ''region is required'')
      else if \<not> nonBlank (piName i) then Inl (Errorf ''name is required'')
      else if \<not> nonBlank (piInstanceType i) then Inl (Errorf ''instanceType is required'')
      else Inr ())"

record register_input =
  rgProvider :: string
  rgRegion :: string
  rgName :: string
  rgPrivateIP :: string
  rgInstanceID :: string
  rgInstanceType :: string
  rgCPUMilliTotal :: int
  rgMemoryMiTotal :: int

definition validateRegisterInput :: "register_input \<Rightarrow> unit res" where
  "validateRegisterInput i =
     (if \<not> nonBlank (rgProvider i) then Inl (Errorf ''provider is required'')
      else if \<not> nonBlank (rgRegion i) then Inl (Errorf ''region is required'')
      else if \<not> nonBlank (rgName i) then Inl (Errorf ''name is required'')
      else if \<not> nonBlank (rgPrivateIP i) then Inl (Errorf ''privateIP is required'')
      else if \<not> validIP (trimSpace (rgPrivateIP i)) then
        Inl (Errorf ''privateIP must be a valid IP address'')
      else if \<not> nonBlank (rgInstanceID i) then Inl (Errorf ''instanceID is required'')
      else if \<not> nonBlank (rgInstanceType i) then Inl (Errorf ''instanceType is required'')
      else if rgCPUMilliTotal i \<le> 0 then Inl (Errorf ''cpuMilliTotal must be greater than 0'')
      else if rgMemoryMiTotal i \<le> 0 then Inl (Errorf ''memoryMiTotal must be greater than 0'')
      else Inr ())"

record heartbeat_input =
  hbCPUMilliAllocatable :: int
  hbMemoryMiAllocatable :: int

definition validateHeartbeatInput :: "heartbeat_input \<Rightarrow> unit res" where
  "validateHeartbeatInput i =
     (if hbCPUMilliAllocatable i \<le> 0 then
        Inl (Errorf ''cpuMilliAllocatable must be greater than 0'')
      else if hbMemoryMiAllocatable i \<le> 0 then
        Inl (Errorf ''memoryMiAllocatable must be greater than 0'')
      else Inr ())"

section \<open>service.go\<close>

record service_spec =
  specInstanceClass :: string
  specExposure :: string
  specImage :: string
  specCommand :: "string list"
  specArgs :: "string list"
  specEnv :: env
  specContainerPort :: int
  specReadinessPath :: string

record upsert_service_input =
  usID :: string
  usName :: string
  usDisplayName :: string
  usHost :: string
  usGeneration :: int
  usSpec :: service_spec

record delete_service_input =
  dsID :: string
  dsGeneration :: int

definition lowerAlnum :: "char \<Rightarrow> bool" where
  "lowerAlnum c \<longleftrightarrow> (CHR ''a'' \<le> c \<and> c \<le> CHR ''z'') \<or> isDigit c"

text \<open>serviceNamePattern: one to 63 letters, digits and hyphens, with no hyphen at either end.\<close>

definition serviceNamePattern :: "string \<Rightarrow> bool" where
  "serviceNamePattern s \<longleftrightarrow>
     s \<noteq> [] \<and> length s \<le> 63 \<and> lowerAlnum (hd s) \<and> lowerAlnum (last s) \<and>
     list_all (\<lambda>c. lowerAlnum c \<or> c = CHR ''-'') s"

definition validateServiceSpec :: "service_spec \<Rightarrow> unit res" where
  "validateServiceSpec s =
     bindR (ResourceRequestForInstanceClass (specInstanceClass s)) (\<lambda>_.
     bindR (ParseExposure (specExposure s)) (\<lambda>_.
       if \<not> nonBlank (specImage s) then Inl (Errorf ''image is required'')
       else if specContainerPort s \<le> 0 \<or> 65535 < specContainerPort s then
         Inl (Errorf ''containerPort must be between 1 and 65535'')
       else if \<not> nonBlank (specReadinessPath s) then Inl (Errorf ''readinessPath is required'')
       else if \<not> hasPrefix (trimSpace (specReadinessPath s)) ''/'' then
         Inl (Errorf ''readinessPath must start with /'')
       else if list_ex (\<lambda>(k, v). \<not> nonBlank k) (specEnv s) then
         Inl (Errorf ''env keys must not be empty'')
       else Inr ()))"

definition validateUpsertServiceInput :: "upsert_service_input \<Rightarrow> unit res" where
  "validateUpsertServiceInput i =
     (if \<not> nonBlank (usID i) then Inl (Errorf ''serviceID is required'')
      else if \<not> nonBlank (usName i) then Inl (Errorf ''serviceName is required'')
      else if \<not> serviceNamePattern (trimSpace (usName i)) then
        Inl (Errorf ''serviceName must use lowercase letters, digits, and hyphens'')
      else if \<not> nonBlank (usDisplayName i) then Inl (Errorf ''displayName is required'')
      else if \<not> nonBlank (usHost i) then Inl (Errorf ''host is required'')
      else if usGeneration i \<le> 0 then Inl (Errorf ''serviceGeneration must be greater than 0'')
      else validateServiceSpec (usSpec i))"

definition validateDeleteServiceInput :: "delete_service_input \<Rightarrow> unit res" where
  "validateDeleteServiceInput i =
     (if \<not> nonBlank (dsID i) then Inl (Errorf ''serviceID is required'')
      else if dsGeneration i \<le> 0 then Inl (Errorf ''serviceGeneration must be greater than 0'')
      else Inr ())"

section \<open>ingress.go\<close>

record route =
  routeHost :: string
  routeBackends :: "string list"

record route_source =
  rsServiceName :: string
  rsHost :: string
  rsNodeID :: string
  rsHostPort :: int
  rsHasBackend :: bool

record frontdoor_record =
  fdrSubdomain :: string
  fdrType :: string
  fdrValue :: string

record frontdoor_status =
  fdsCNAME :: string
  fdsVerification :: "frontdoor_record option"

section \<open>Facts about the inputs\<close>

lemma ResourceRequest_cases:
  "ResourceRequestForInstanceClass c = Inr (cpu, mem) \<Longrightarrow>
   (cpu, mem) \<in> {(500, 512), (1000, 1024), (1500, 1536)}"
  by (auto simp: ResourceRequestForInstanceClass_def Let_def split: if_splits)

lemma ResourceRequest_pos:
  "ResourceRequestForInstanceClass c = Inr (cpu, mem) \<Longrightarrow> 0 < cpu \<and> 0 < mem"
  by (auto dest: ResourceRequest_cases)

lemma ParseExposure_cases:
  "ParseExposure v = Inr e \<Longrightarrow> e = ExposurePublic \<or> e = ExposurePrivate"
  by (auto simp: ParseExposure_def Let_def split: if_splits)

lemma ParseExposure_const [simp]:
  "ParseExposure ExposurePublic = Inr ExposurePublic"
  "ParseExposure ExposurePrivate = Inr ExposurePrivate"
  by code_simp+

lemma ParseExposure_idem: "ParseExposure v = Inr e \<Longrightarrow> ParseExposure e = Inr e"
  by (auto dest: ParseExposure_cases)

lemma validateReportInput_iff [res_simps]:
  "validateReportInput i = Inr u \<longleftrightarrow>
     IsExecutionStatus (riStatus i) \<and> nonBlank (riReason i) \<and> nonBlank (riContainerName i) \<and>
     (riStatus i = StatusRunning \<longrightarrow> 0 < riHostPort i)"
  by (auto simp: validateReportInput_def)

lemma validateHeartbeatInput_iff [res_simps]:
  "validateHeartbeatInput i = Inr u \<longleftrightarrow> 0 < hbCPUMilliAllocatable i \<and> 0 < hbMemoryMiAllocatable i"
  by (auto simp: validateHeartbeatInput_def)

lemma validateRegisterInput_iff [res_simps]:
  "validateRegisterInput i = Inr u \<longleftrightarrow>
     nonBlank (rgProvider i) \<and> nonBlank (rgRegion i) \<and> nonBlank (rgName i) \<and>
     nonBlank (rgPrivateIP i) \<and> validIP (trimSpace (rgPrivateIP i)) \<and> nonBlank (rgInstanceID i) \<and>
     nonBlank (rgInstanceType i) \<and> 0 < rgCPUMilliTotal i \<and> 0 < rgMemoryMiTotal i"
  by (auto simp: validateRegisterInput_def)

lemma validateServiceSpec_InrD:
  "validateServiceSpec s = Inr u \<Longrightarrow>
     (\<exists>r. ResourceRequestForInstanceClass (specInstanceClass s) = Inr r) \<and>
     (\<exists>e. ParseExposure (specExposure s) = Inr e) \<and> nonBlank (specImage s) \<and>
     0 < specContainerPort s \<and> specContainerPort s \<le> 65535 \<and>
     hasPrefix (trimSpace (specReadinessPath s)) ''/''"
  by (auto simp: validateServiceSpec_def res_simps split: if_splits)

lemma validateUpsertServiceInput_InrD:
  "validateUpsertServiceInput i = Inr u \<Longrightarrow>
     nonBlank (usID i) \<and> serviceNamePattern (trimSpace (usName i)) \<and> nonBlank (usDisplayName i) \<and>
     nonBlank (usHost i) \<and> 0 < usGeneration i \<and> validateServiceSpec (usSpec i) = Inr ()"
  by (auto simp: validateUpsertServiceInput_def split: if_splits)

lemma validateDeleteServiceInput_iff [res_simps]:
  "validateDeleteServiceInput i = Inr u \<longleftrightarrow> nonBlank (dsID i) \<and> 0 < dsGeneration i"
  by (auto simp: validateDeleteServiceInput_def)

end
