(* ===== verification/StoreState.thy ===== *)
theory StoreState
  imports CloudModel
begin

text \<open>
  The database of a cloud-plane (internal/cloudplane/infra/store/migrations): the rows of its
  three tables and the state of the store, which is the three tables.  A nullable column is an
  option; the JSON columns hold the lists and maps they encode.  Also newID (id.go) and scanService
  (service.go), which reads a row of services into the model's Service.

  An operation of the store is one transaction, a function from a database to an error or a value
  with the new database: an error rolls back, so no database comes with it.
\<close>

record node =
  nodeID :: string
  nodeProvider :: string
  nodeRegion :: string
  nodeName :: string
  nodePrivateIP :: string
  nodeInstanceID :: "string option"
  nodeInstanceType :: string
  nodeCPUTotal :: int
  nodeMemTotal :: int
  nodeCPUAllocatable :: int
  nodeMemAllocatable :: int
  nodeCPUAllocated :: int
  nodeMemAllocated :: int
  nodeStatus :: string
  nodeStatusReason :: string
  nodeSchedulable :: bool
  nodeElastic :: bool
  nodeLastHeartbeatAt :: "instant option"
  nodeCreatedAt :: instant
  nodeUpdatedAt :: instant

record service_row =
  serviceID :: string
  serviceName :: string
  serviceDisplayName :: string
  serviceHost :: string
  serviceGeneration :: int
  serviceDesired :: string
  serviceSpec :: service_spec
  fdCNAME :: string
  fdVerifySubdomain :: string
  fdVerifyType :: string
  fdVerifyValue :: string
  serviceCreatedAt :: instant
  serviceUpdatedAt :: instant

record run_row =
  runID :: string
  runServiceID :: string
  runServiceName :: string
  runExposure :: string
  runGeneration :: int
  runNodeID :: "string option"
  runImage :: string
  runCommand :: "string list"
  runArgs :: "string list"
  runEnv :: env
  runContainerName :: string
  runContainerID :: string
  runContainerPort :: int
  runHostPort :: int
  runReadinessPath :: string
  runCPU :: int
  runMem :: int
  runStatus :: string
  runStatusReason :: string
  runStartedAt :: "instant option"
  runFinishedAt :: "instant option"
  runCreatedAt :: instant
  runUpdatedAt :: instant

record db =
  nodes :: "node list"
  services :: "service_row list"
  runs :: "run_row list"

definition emptyDB :: db where
  "emptyDB = \<lparr>nodes = [], services = [], runs = []\<rparr>"

text \<open>The error a statement gets from Postgres when a unique constraint stops it.\<close>

definition uniqueViolation :: goerr where
  "uniqueViolation = ExtErr (Some ''23505'') ''duplicate key value violates unique constraint''"

definition foreignKeyViolation :: goerr where
  "foreignKeyViolation = ExtErr (Some ''23503'') ''insert violates foreign key constraint''"

definition nullScanError :: goerr where
  "nullScanError = ExtErr None ''unsupported Scan, storing driver.Value type <nil> into type *time.Time''"

text \<open>id.go: the prefix, an underscore and the hexadecimal text of the random bytes.\<close>

definition newID :: "string \<Rightarrow> nat list res \<Rightarrow> string res" where
  "newID prefix entropy =
     (case entropy of Inl e \<Rightarrow> Inl (wrap ''generate id'' e)
      | Inr raw \<Rightarrow> Inr (prefix @ ''_'' @ hexEncode raw))"

text \<open>The instance id of a node as the Go struct holds it: empty for NULL.\<close>

definition instanceIDText :: "node \<Rightarrow> string" where
  "instanceIDText n = (case nodeInstanceID n of None \<Rightarrow> [] | Some i \<Rightarrow> i)"

definition nullIfEmpty :: "string \<Rightarrow> string option" where
  "nullIfEmpty s = (if s = [] then None else Some s)"

record service =
  svcID :: string
  svcName :: string
  svcDisplayName :: string
  svcHost :: string
  svcGeneration :: int
  svcDesiredState :: string
  svcSpec :: service_spec
  svcFrontDoor :: frontdoor_status
  svcCreatedAt :: instant
  svcUpdatedAt :: instant

definition scanService :: "service_row \<Rightarrow> service" where
  "scanService r =
     \<lparr>svcID = serviceID r, svcName = serviceName r, svcDisplayName = serviceDisplayName r,
      svcHost = serviceHost r, svcGeneration = serviceGeneration r,
      svcDesiredState = serviceDesired r, svcSpec = serviceSpec r,
      svcFrontDoor =
        \<lparr>fdsCNAME = cleanDomain (fdCNAME r),
         fdsVerification =
           (if fdVerifySubdomain r \<noteq> [] \<and> fdVerifyType r \<noteq> [] \<and> fdVerifyValue r \<noteq> []
            then Some \<lparr>fdrSubdomain = cleanDomain (fdVerifySubdomain r),
                       fdrType = toUpper (trimSpace (fdVerifyType r)),
                       fdrValue = trimSpace (fdVerifyValue r)\<rparr>
            else None)\<rparr>,
      svcCreatedAt = serviceCreatedAt r, svcUpdatedAt = serviceUpdatedAt r\<rparr>"

lemma newID_Inr_iff [res_simps]:
  "newID p e = Inr i \<longleftrightarrow> (\<exists>raw. e = Inr raw \<and> i = p @ ''_'' @ hexEncode raw)"
  by (auto simp: newID_def split: sum.splits)

lemma newID_not_Nil: "newID p e = Inr i \<Longrightarrow> i \<noteq> []"
  by (auto simp: res_simps)

section \<open>Capacity held on a node\<close>

text \<open>A run holds capacity on its node while its container is being started or is running.\<close>

definition activeOn :: "string \<Rightarrow> run_row \<Rightarrow> bool" where
  "activeOn n r \<longleftrightarrow> runNodeID r = Some n \<and> (runStatus r = StatusDeploying \<or> runStatus r = StatusRunning)"

abbreviation activeCPU :: "string \<Rightarrow> db \<Rightarrow> int" where
  "activeCPU n s \<equiv> sumOf runCPU (activeOn n) (runs s)"

abbreviation activeMem :: "string \<Rightarrow> db \<Rightarrow> int" where
  "activeMem n s \<equiv> sumOf runMem (activeOn n) (runs s)"

end
