(* ===== verification/StoreRuns.thy ===== *)
theory StoreRuns
  imports StoreState
begin

text \<open>
  internal/cloudplane/infra/store/service_run.go: one run per service, from the accepted spec
  through its claim by a node agent to the report of its outcome.
\<close>

section \<open>Capacity\<close>

definition freeNodeAllocation :: "clock \<Rightarrow> string \<Rightarrow> int \<Rightarrow> int \<Rightarrow> db \<Rightarrow> db" where
  "freeNodeAllocation clk nid cpu mem s =
     s\<lparr>nodes := updateWhere (\<lambda>n. nodeID n = nid)
        (\<lambda>n. n\<lparr>nodeCPUAllocated := max (nodeCPUAllocated n - cpu) 0,
               nodeMemAllocated := max (nodeMemAllocated n - mem) 0,
               nodeUpdatedAt := dbNow clk\<rparr>) (nodes s)\<rparr>"

definition reserveNodeAllocation :: "clock \<Rightarrow> string \<Rightarrow> int \<Rightarrow> int \<Rightarrow> db \<Rightarrow> db" where
  "reserveNodeAllocation clk nid cpu mem s =
     s\<lparr>nodes := updateWhere (\<lambda>n. nodeID n = nid)
        (\<lambda>n. n\<lparr>nodeCPUAllocated := nodeCPUAllocated n + cpu,
               nodeMemAllocated := nodeMemAllocated n + mem,
               nodeUpdatedAt := dbNow clk\<rparr>) (nodes s)\<rparr>"

section \<open>Accepting a spec\<close>

record service_run_input =
  sriServiceID :: string
  sriServiceName :: string
  sriGeneration :: int
  sriImage :: string
  sriCommand :: "string list"
  sriArgs :: "string list"
  sriEnv :: env
  sriContainerPort :: int
  sriReadinessPath :: string
  sriCPU :: int
  sriMem :: int
  sriExposure :: string

definition validateServiceRunInput :: "service_run_input \<Rightarrow> unit res" where
  "validateServiceRunInput i =
     (if sriServiceID i = [] then Inl (Errorf ''serviceID is required'')
      else if sriServiceName i = [] then Inl (Errorf ''serviceName is required'')
      else if sriGeneration i \<le> 0 then Inl (Errorf ''serviceGeneration must be greater than 0'')
      else if sriImage i = [] then Inl (Errorf ''image is required'')
      else if sriContainerPort i \<le> 0 \<or> 65535 < sriContainerPort i then
        Inl (Errorf ''containerPort must be between 1 and 65535'')
      else if sriCPU i \<le> 0 \<or> sriMem i \<le> 0 then
        Inl (Errorf ''cpuMilliRequest and memoryMiRequest must be greater than 0'')
      else if sriExposure i \<noteq> ExposurePublic \<and> sriExposure i \<noteq> ExposurePrivate then
        Inl (Errorf ''exposure must be public or private'')
      else Inr ())"

text \<open>
  The row that INSERT ... ON CONFLICT (service_id) DO UPDATE writes: the node of a run that is
  running is kept, and its container too when it has one, so that the replacement stays there.
\<close>

definition insertedRun :: "clock \<Rightarrow> string \<Rightarrow> service_run_input \<Rightarrow> run_row" where
  "insertedRun clk rid i =
     \<lparr>runID = rid, runServiceID = sriServiceID i, runServiceName = sriServiceName i,
      runExposure = sriExposure i, runGeneration = sriGeneration i, runNodeID = None,
      runImage = sriImage i, runCommand = sriCommand i, runArgs = sriArgs i, runEnv = sriEnv i,
      runContainerName = [], runContainerID = [], runContainerPort = sriContainerPort i,
      runHostPort = 0, runReadinessPath = sriReadinessPath i, runCPU = sriCPU i, runMem = sriMem i,
      runStatus = StatusPending, runStatusReason = ''service run accepted'', runStartedAt = None,
      runFinishedAt = None, runCreatedAt = dbNow clk, runUpdatedAt = dbNow clk\<rparr>"

definition preserveNode :: "run_row \<Rightarrow> bool" where
  "preserveNode cur \<longleftrightarrow> runNodeID cur \<noteq> None \<and> runStatus cur = StatusRunning"

definition preserveContainer :: "run_row \<Rightarrow> bool" where
  "preserveContainer cur \<longleftrightarrow> preserveNode cur \<and> runContainerID cur \<noteq> []"

definition replacedRun :: "clock \<Rightarrow> service_run_input \<Rightarrow> run_row \<Rightarrow> run_row" where
  "replacedRun clk i cur =
     cur\<lparr>runServiceName := sriServiceName i, runExposure := sriExposure i,
         runGeneration := sriGeneration i,
         runNodeID := (if preserveNode cur then runNodeID cur else None),
         runImage := sriImage i, runCommand := sriCommand i, runArgs := sriArgs i,
         runEnv := sriEnv i,
         runContainerName := (if preserveContainer cur then runContainerName cur else []),
         runContainerID := (if preserveContainer cur then runContainerID cur else []),
         runContainerPort := sriContainerPort i,
         runHostPort := (if preserveContainer cur then runHostPort cur else 0),
         runReadinessPath := sriReadinessPath i, runCPU := sriCPU i, runMem := sriMem i,
         runStatus := StatusPending, runStatusReason := ''service run accepted'',
         runStartedAt := None, runFinishedAt := None, runUpdatedAt := dbNow clk\<rparr>"

definition upsertServiceRunTx ::
  "clock \<Rightarrow> nat list res \<Rightarrow> service_run_input \<Rightarrow> db \<Rightarrow> db res" where
  "upsertServiceRunTx clk entropy i s =
     bindR (validateServiceRunInput i) (\<lambda>_.
       case findBy runServiceID (sriServiceID i) (runs s) of
         None \<Rightarrow>
           bindR (newID ''run'' entropy) (\<lambda>rid.
             if findBy runID rid (runs s) \<noteq> None then Inl (wrap ''upsert service run'' uniqueViolation)
             else if findBy serviceID (sriServiceID i) (services s) = None then
               Inl (wrap ''upsert service run'' foreignKeyViolation)
             else Inr (s\<lparr>runs := runs s @ [insertedRun clk rid i]\<rparr>))
       | Some cur \<Rightarrow>
           if sriGeneration i \<le> runGeneration cur then Inr s
           else
             (let s1 = (case runNodeID cur of
                          Some n \<Rightarrow> if runStatus cur = StatusRunning
                                    then freeNodeAllocation clk n (runCPU cur) (runMem cur) s else s
                        | None \<Rightarrow> s)
              in bindR (newID ''run'' entropy) (\<lambda>_.
                   Inr (s1\<lparr>runs := updateWhere (\<lambda>r. runServiceID r = sriServiceID i)
                                     (replacedRun clk i) (runs s1)\<rparr>))))"

section \<open>Deleting\<close>

definition deleteServiceRunTx :: "clock \<Rightarrow> string \<Rightarrow> int \<Rightarrow> db \<Rightarrow> db" where
  "deleteServiceRunTx clk sid gen s =
     (case findBy runServiceID sid (runs s) of
        None \<Rightarrow> s
      | Some run \<Rightarrow>
          if runStatus run = StatusRunning \<and> runNodeID run \<noteq> None \<and> runContainerID run \<noteq> [] then
            s\<lparr>runs := updateWhere (\<lambda>r. runServiceID r = sid)
                (\<lambda>r. r\<lparr>runGeneration := gen, runStatus := StatusPending,
                       runStatusReason := ''service deletion requested'',
                       runUpdatedAt := dbNow clk\<rparr>) (runs s)\<rparr>
          else
            (let s1 = (case runNodeID run of
                         Some n \<Rightarrow>
                           if runStatus run = StatusDeploying \<or> runStatus run = StatusPending
                           then freeNodeAllocation clk n (runCPU run) (runMem run) s else s
                       | None \<Rightarrow> s)
             in s1\<lparr>runs := deleteWhere (\<lambda>r. runServiceID r = sid) (runs s1)\<rparr>))"

section \<open>Reading\<close>

definition ListIngressRouteSources :: "db \<Rightarrow> route_source list" where
  "ListIngressRouteSources s =
     concat (map (\<lambda>v.
         (case filter (\<lambda>r. runServiceID r = serviceID v \<and> runGeneration r = serviceGeneration v
                           \<and> runStatus r = StatusRunning \<and> runNodeID r \<noteq> None \<and> 0 < runHostPort r)
                 (runs s) of
            [] \<Rightarrow> [\<lparr>rsServiceName = serviceName v, rsHost = serviceHost v, rsNodeID = [],
                     rsHostPort = 0, rsHasBackend = False\<rparr>]
          | rs \<Rightarrow> map (\<lambda>r. \<lparr>rsServiceName = serviceName v, rsHost = serviceHost v,
                            rsNodeID = (case runNodeID r of None \<Rightarrow> [] | Some n \<Rightarrow> n),
                            rsHostPort = runHostPort r, rsHasBackend = True\<rparr>) rs))
       (selectWhere (\<lambda>v. serviceDesired v = ServiceDesiredActive
                         \<and> specExposure (serviceSpec v) = ExposurePublic)
          (\<lambda>v. (serviceName v, serviceID v)) (services s)))"

record execution_snapshot =
  esServiceID :: string
  esServiceName :: string
  esGeneration :: int
  esStatus :: string
  esReason :: string
  esObservedAt :: instant

definition ListExecutionSnapshots :: "db \<Rightarrow> execution_snapshot list" where
  "ListExecutionSnapshots s =
     map (\<lambda>r. \<lparr>esServiceID = runServiceID r, esServiceName = runServiceName r,
                esGeneration = runGeneration r, esStatus = runStatus r,
                esReason = runStatusReason r, esObservedAt = runUpdatedAt r\<rparr>)
       (selectWhere (\<lambda>_. True) (\<lambda>r. (- nanos (runUpdatedAt r), runServiceID r)) (runs s))"

section \<open>Failing\<close>

definition failRun :: "clock \<Rightarrow> string \<Rightarrow> run_row \<Rightarrow> run_row" where
  "failRun clk reason r =
     r\<lparr>runStatus := StatusFailed, runStatusReason := reason,
       runFinishedAt := (case runFinishedAt r of None \<Rightarrow> Some (dbNow clk) | Some t \<Rightarrow> Some t),
       runUpdatedAt := dbNow clk\<rparr>"

definition MarkServiceRunFailed :: "clock \<Rightarrow> string \<Rightarrow> string \<Rightarrow> db \<Rightarrow> db res" where
  "MarkServiceRunFailed clk sid reason s =
     (if sid = [] then Inl (Errorf ''serviceID is required'')
      else if reason = [] then Inl (Errorf ''reason is required'')
      else Inr (s\<lparr>runs := updateWhere
        (\<lambda>r. runServiceID r = sid \<and> (runStatus r = StatusPending \<or> runStatus r = StatusDeploying))
        (failRun clk reason) (runs s)\<rparr>))"

text \<open>
  The name of the node that is provisioned for a run: the prefix and the first ten characters of
  the md5 hash, a function of Postgres and so a parameter, of the service id and the generation.
\<close>

definition provisioningNodeName :: "(string \<Rightarrow> string) \<Rightarrow> string \<Rightarrow> run_row \<Rightarrow> string" where
  "provisioningNodeName md5 prefix r =
     prefix @ ''-'' @ toLower (take 10 (md5 (runServiceID r @ ''-'' @ itoa (runGeneration r))))"

definition MarkPendingServiceRunFailedForProvisioningNode ::
  "(string \<Rightarrow> string) \<Rightarrow> clock \<Rightarrow> string \<Rightarrow> string \<Rightarrow> string \<Rightarrow> db \<Rightarrow> db res" where
  "MarkPendingServiceRunFailedForProvisioningNode md5 clk prefix name reason s =
     (if prefix = [] \<or> name = [] then Inl (Errorf ''name is required'')
      else if reason = [] then Inl (Errorf ''reason is required'')
      else Inr (s\<lparr>runs := updateWhere
        (\<lambda>r. runStatus r = StatusPending \<and> name = provisioningNodeName md5 prefix r)
        (failRun clk reason) (runs s)\<rparr>))"

section \<open>Claiming\<close>

text \<open>The work item that loadClaimableServiceRun reads from a run and its service.\<close>

definition workItemOf :: "run_row \<Rightarrow> service_row \<Rightarrow> work_item" where
  "workItemOf r v =
     (let action = (if serviceDesired v = ServiceDesiredDeleted then WorkActionDelete else WorkActionRun)
      in \<lparr>wiAction = action, wiExecutionID = runID r,
          wiNodeID = (case runNodeID r of None \<Rightarrow> [] | Some n \<Rightarrow> n),
          wiServiceID = runServiceID r, wiServiceName = runServiceName r, wiImage = runImage r,
          wiCommand = runCommand r, wiArgs = runArgs r, wiEnv = runEnv r,
          wiContainerPort = runContainerPort r, wiReadinessPath = runReadinessPath r,
          wiContainerName = (if action = WorkActionRun
            then ''mini-cloud-'' @ runServiceID r @ ''-g'' @ itoa (runGeneration r)
            else runContainerName r),
          wiContainerID = runContainerID r, wiHostPort = runHostPort r\<rparr>)"

definition loadClaimableServiceRun ::
  "(run_row \<Rightarrow> service_row \<Rightarrow> bool) \<Rightarrow> (run_row \<Rightarrow> instant \<times> string) \<Rightarrow> db \<Rightarrow> (work_item \<times> int \<times> int) option"
  where
  "loadClaimableServiceRun p order s =
     (case selectFirst (\<lambda>r. case findBy serviceID (runServiceID r) (services s) of
                               None \<Rightarrow> False | Some v \<Rightarrow> p r v) order (runs s) of
        None \<Rightarrow> None
      | Some r \<Rightarrow> (case findBy serviceID (runServiceID r) (services s) of
                     None \<Rightarrow> None
                   | Some v \<Rightarrow> Some (workItemOf r v, runCPU r, runMem r)))"

definition claimPendingDeleteRun :: "string \<Rightarrow> db \<Rightarrow> (work_item \<times> int \<times> int) option" where
  "claimPendingDeleteRun nid s =
     loadClaimableServiceRun
       (\<lambda>r v. runStatus r = StatusPending \<and> serviceDesired v = ServiceDesiredDeleted
              \<and> runNodeID r = Some nid \<and> runContainerID r \<noteq> [])
       (\<lambda>r. (runUpdatedAt r, runID r)) s"

definition claimPendingRun :: "string \<Rightarrow> int \<Rightarrow> int \<Rightarrow> db \<Rightarrow> (work_item \<times> int \<times> int) option" where
  "claimPendingRun nid availableCPU availableMemory s =
     loadClaimableServiceRun
       (\<lambda>r v. runStatus r = StatusPending \<and> serviceDesired v = ServiceDesiredActive
              \<and> runCPU r \<le> availableCPU \<and> runMem r \<le> availableMemory
              \<and> (runNodeID r = None \<or> runNodeID r = Some nid))
       (\<lambda>r. (runCreatedAt r, runID r)) s"

definition markServiceRunDeploying :: "clock \<Rightarrow> string \<Rightarrow> string \<Rightarrow> string \<Rightarrow> string \<Rightarrow> db \<Rightarrow> db" where
  "markServiceRunDeploying clk rid nid containerName action s =
     s\<lparr>runs := updateWhere (\<lambda>r. runID r = rid)
        (\<lambda>r. r\<lparr>runNodeID := Some nid, runContainerName := containerName,
               runStatus := StatusDeploying,
               runStatusReason := (if action = WorkActionDelete
                 then ''agent on node '' @ nid @ '' claimed service delete''
                 else ''agent on node '' @ nid @ '' claimed service run''),
               runStartedAt := Some (goNow clk), runUpdatedAt := dbNow clk\<rparr>) (runs s)\<rparr>"

definition ClaimServiceRun :: "clock \<Rightarrow> string \<Rightarrow> db \<Rightarrow> (work_item option \<times> db) res" where
  "ClaimServiceRun clk nid s =
     (case findBy nodeID nid (nodes s) of
        None \<Rightarrow> Inr (None, s)
      | Some n \<Rightarrow>
          if nodeStatus n \<noteq> StatusReady then Inr (None, s)
          else
            (case claimPendingDeleteRun nid s of
               Some (work, _, _) \<Rightarrow>
                 Inr (Some work, markServiceRunDeploying clk (wiExecutionID work) nid
                                   (wiContainerName work) (wiAction work) s)
             | None \<Rightarrow>
                 if \<not> nodeSchedulable n then Inr (None, s)
                 else
                   (case claimPendingRun nid (nodeCPUAllocatable n - nodeCPUAllocated n)
                           (nodeMemAllocatable n - nodeMemAllocated n) s of
                      None \<Rightarrow> Inr (None, s)
                    | Some (work, cpu, mem) \<Rightarrow>
                        (let work' = work\<lparr>wiNodeID := nid\<rparr>
                         in Inr (Some work', reserveNodeAllocation clk nid cpu mem
                              (markServiceRunDeploying clk (wiExecutionID work') nid
                                 (wiContainerName work') (wiAction work') s))))))"

section \<open>Reports\<close>

definition ErrExecutionNotFound :: goerr where
  "ErrExecutionNotFound = Sentinel ''execution not found''"

definition executionRecord :: "run_row \<Rightarrow> instant \<Rightarrow> execution_record" where
  "executionRecord r started =
     \<lparr>erID = runID r, erNodeID = (case runNodeID r of None \<Rightarrow> [] | Some n \<Rightarrow> n),
      erImage = runImage r, erContainerName = runContainerName r,
      erContainerID = runContainerID r, erContainerPort = runContainerPort r,
      erHostPort = runHostPort r, erReadinessPath = runReadinessPath r, erStatus = runStatus r,
      erStatusReason = runStatusReason r, erStartedAt = started,
      erFinishedAt = runFinishedAt r, erCreatedAt = runCreatedAt r, erUpdatedAt = runUpdatedAt r\<rparr>"

text \<open>The run of an execution on a node, with its start and its service's desired state.\<close>

definition loadServiceRunRecord :: "string \<Rightarrow> string \<Rightarrow> db \<Rightarrow> (run_row \<times> instant \<times> string) res" where
  "loadServiceRunRecord nid eid s =
     (case List.find (\<lambda>r. runID r = eid \<and> runNodeID r = Some nid
                          \<and> findBy serviceID (runServiceID r) (services s) \<noteq> None) (runs s) of
        None \<Rightarrow> Inl ErrExecutionNotFound
      | Some r \<Rightarrow>
          (case findBy serviceID (runServiceID r) (services s) of
             None \<Rightarrow> Inl ErrExecutionNotFound
           | Some v \<Rightarrow>
               (case runStartedAt r of
                  None \<Rightarrow> Inl (wrap ''load service run'' nullScanError)
                | Some t \<Rightarrow> Inr (r, t, serviceDesired v))))"

definition reportedRun :: "clock \<Rightarrow> report_input \<Rightarrow> instant option \<Rightarrow> run_row \<Rightarrow> run_row" where
  "reportedRun clk i finished r =
     r\<lparr>runContainerName := riContainerName i, runContainerID := riContainerID i,
       runHostPort := riHostPort i, runStatus := riStatus i, runStatusReason := riReason i,
       runFinishedAt := finished, runUpdatedAt := dbNow clk\<rparr>"

definition updateServiceRunReport ::
  "clock \<Rightarrow> string \<Rightarrow> report_input \<Rightarrow> instant option \<Rightarrow> db \<Rightarrow> db" where
  "updateServiceRunReport clk eid i finished s =
     s\<lparr>runs := updateWhere (\<lambda>r. runID r = eid) (reportedRun clk i finished) (runs s)\<rparr>"

definition isFinal :: "string \<Rightarrow> bool" where
  "isFinal st \<longleftrightarrow> st = StatusFailed \<or> st = StatusSucceeded"

definition UpdateExecutionFromNodeReport ::
  "clock \<Rightarrow> string \<Rightarrow> string \<Rightarrow> report_input \<Rightarrow> db \<Rightarrow> ((execution_record \<times> instant) \<times> db) res" where
  "UpdateExecutionFromNodeReport clk nid eid i s =
     bindR (validateReportInput i) (\<lambda>_.
     bindR (loadServiceRunRecord nid eid s) (\<lambda>(cur, started, desired).
       if runStatus cur \<noteq> StatusDeploying then
         (if runStatus cur = riStatus i then Inr ((executionRecord cur started, goNow clk), s)
          else Inl (Errorf (''service run '' @ eid @ '' is already '' @ runStatus cur @
                            '' and cannot transition to '' @ riStatus i)))
       else
         (let finished = (if isFinal (riStatus i) then Some (goNow clk) else None);
              s1 = updateServiceRunReport clk eid i finished s;
              s2 = (if isFinal (riStatus i)
                    then freeNodeAllocation clk nid (runCPU cur) (runMem cur) s1 else s1);
              s3 = (if riStatus i = StatusSucceeded \<and> desired = ServiceDesiredDeleted
                    then s2\<lparr>runs := deleteWhere (\<lambda>r. runID r = eid) (runs s2)\<rparr> else s2)
          in Inr ((executionRecord (reportedRun clk i finished cur) started, goNow clk), s3))))"

end
