(* ===== verification/StoreNodes.thy ===== *)
theory StoreNodes
  imports StoreRuns
begin

text \<open>
  internal/cloudplane/infra/store/node.go: worker nodes from provisioning through registration and
  heartbeats to draining and deletion, and the runs that fail with a node that goes silent.
  A parameter \<open>observedAt\<close> is an option: None is Go's zero time, which the code replaces by
  the current one.
\<close>

definition ErrNodeNotFound :: goerr where
  "ErrNodeNotFound = Sentinel ''node not found''"

definition ErrHeartbeatCPUMilliAllocatableTooLarge :: goerr where
  "ErrHeartbeatCPUMilliAllocatableTooLarge =
     Sentinel ''heartbeat cpuMilliAllocatable exceeds node cpuMilliTotal''"

definition ErrHeartbeatMemoryMiAllocatableTooLarge :: goerr where
  "ErrHeartbeatMemoryMiAllocatableTooLarge =
     Sentinel ''heartbeat memoryMiAllocatable exceeds node memoryMiTotal''"

definition ErrNodeProviderInstanceAlreadyExists :: goerr where
  "ErrNodeProviderInstanceAlreadyExists =
     Sentinel ''node with this provider and instanceID already exists''"

definition ErrHeartbeatStaleAfterInvalid :: goerr where
  "ErrHeartbeatStaleAfterInvalid = Sentinel ''staleAfter must be greater than 0''"

definition orNow :: "clock \<Rightarrow> instant option \<Rightarrow> instant" where
  "orNow clk t = (case t of None \<Rightarrow> goNow clk | Some t \<Rightarrow> t)"

section \<open>Provisioning and registration\<close>

definition CreateProvisioningNode ::
  "clock \<Rightarrow> nat list res \<Rightarrow> provisioning_input \<Rightarrow> db \<Rightarrow> (node \<times> db) res" where
  "CreateProvisioningNode clk entropy i s =
     bindR (validateProvisioningInput i) (\<lambda>_.
     bindR (newID ''node'' entropy) (\<lambda>nid.
       if findBy nodeID nid (nodes s) \<noteq> None then
         Inl (wrap ''create provisioning node'' uniqueViolation)
       else
         (let n = \<lparr>nodeID = nid, nodeProvider = piProvider i, nodeRegion = piRegion i,
                   nodeName = piName i, nodePrivateIP = [], nodeInstanceID = None,
                   nodeInstanceType = piInstanceType i, nodeCPUTotal = 0, nodeMemTotal = 0,
                   nodeCPUAllocatable = 0, nodeMemAllocatable = 0, nodeCPUAllocated = 0,
                   nodeMemAllocated = 0, nodeStatus = StatusProvisioning,
                   nodeStatusReason = piStatusReason i, nodeSchedulable = False,
                   nodeElastic = True, nodeLastHeartbeatAt = None, nodeCreatedAt = dbNow clk,
                   nodeUpdatedAt = dbNow clk\<rparr>
          in Inr (n, s\<lparr>nodes := nodes s @ [n]\<rparr>))))"

text \<open>Whether a row other than the one with this id holds the pair of provider and instance.\<close>

definition instanceTaken :: "string \<Rightarrow> string option \<Rightarrow> string \<Rightarrow> db \<Rightarrow> bool" where
  "instanceTaken provider inst nid s \<longleftrightarrow>
     inst \<noteq> None \<and>
     list_ex (\<lambda>m. nodeID m \<noteq> nid \<and> nodeProvider m = provider \<and> nodeInstanceID m = inst) (nodes s)"

definition BindProvisionedNode ::
  "clock \<Rightarrow> string \<Rightarrow> string \<Rightarrow> string \<Rightarrow> string \<Rightarrow> string \<Rightarrow> instant option \<Rightarrow> db \<Rightarrow> (node \<times> db) res"
  where
  "BindProvisionedNode clk nid inst name ityp reason observedAt s =
     (let obs = orNow clk observedAt; inst' = nullIfEmpty (trimSpace inst) in
      case List.find (\<lambda>n. nodeID n = nid \<and> nodeStatus n = StatusProvisioning) (nodes s) of
        None \<Rightarrow> Inl ErrNodeNotFound
      | Some n \<Rightarrow>
          if instanceTaken (nodeProvider n) inst' nid s then
            Inl (wrap ''bind provisioned node'' uniqueViolation)
          else
            (let bind = (\<lambda>n. n\<lparr>nodeInstanceID := inst', nodeName := trimSpace name,
                               nodeInstanceType := trimSpace ityp, nodeStatusReason := reason,
                               nodeUpdatedAt := obs\<rparr>)
             in Inr (bind n, s\<lparr>nodes := updateWhere
                  (\<lambda>n. nodeID n = nid \<and> nodeStatus n = StatusProvisioning) bind (nodes s)\<rparr>)))"

text \<open>
  The two rows RegisterNode can write: a new one, and the DO UPDATE of the row that already holds
  the pair of provider and instance, which leaves a draining or deleted node as it is.
\<close>

definition registeredRow :: "clock \<Rightarrow> string \<Rightarrow> register_input \<Rightarrow> node" where
  "registeredRow clk nid i =
     \<lparr>nodeID = nid, nodeProvider = rgProvider i, nodeRegion = rgRegion i, nodeName = rgName i,
      nodePrivateIP = rgPrivateIP i, nodeInstanceID = nullIfEmpty (rgInstanceID i),
      nodeInstanceType = rgInstanceType i, nodeCPUTotal = rgCPUMilliTotal i,
      nodeMemTotal = rgMemoryMiTotal i, nodeCPUAllocatable = 0, nodeMemAllocatable = 0,
      nodeCPUAllocated = 0, nodeMemAllocated = 0, nodeStatus = StatusRegistering,
      nodeStatusReason = [], nodeSchedulable = True, nodeElastic = False,
      nodeLastHeartbeatAt = None, nodeCreatedAt = dbNow clk, nodeUpdatedAt = dbNow clk\<rparr>"

definition reRegistered :: "clock \<Rightarrow> register_input \<Rightarrow> node \<Rightarrow> node" where
  "reRegistered clk i n =
     (let retired = (nodeStatus n = StatusDraining \<or> nodeStatus n = StatusDeleted)
      in n\<lparr>nodeRegion := rgRegion i, nodeName := rgName i, nodePrivateIP := rgPrivateIP i,
           nodeInstanceType := rgInstanceType i, nodeCPUTotal := rgCPUMilliTotal i,
           nodeMemTotal := rgMemoryMiTotal i,
           nodeStatus := (if retired then nodeStatus n else StatusRegistering),
           nodeStatusReason := (if retired then nodeStatusReason n else []),
           nodeSchedulable := \<not> retired, nodeUpdatedAt := dbNow clk\<rparr>)"

definition sameInstance :: "register_input \<Rightarrow> node \<Rightarrow> bool" where
  "sameInstance i n \<longleftrightarrow>
     nodeProvider n = rgProvider i \<and> nodeInstanceID n \<noteq> None \<and>
     nodeInstanceID n = nullIfEmpty (rgInstanceID i)"

definition RegisterNode :: "clock \<Rightarrow> nat list res \<Rightarrow> register_input \<Rightarrow> db \<Rightarrow> (node \<times> db) res" where
  "RegisterNode clk entropy i s =
     bindR (validateRegisterInput i) (\<lambda>_.
     bindR (newID ''node'' entropy) (\<lambda>nid.
       case List.find (sameInstance i) (nodes s) of
         Some n \<Rightarrow>
           Inr (reRegistered clk i n,
                s\<lparr>nodes := updateWhere (sameInstance i) (reRegistered clk i) (nodes s)\<rparr>)
       | None \<Rightarrow>
           if findBy nodeID nid (nodes s) \<noteq> None then Inl ErrNodeProviderInstanceAlreadyExists
           else Inr (registeredRow clk nid i, s\<lparr>nodes := nodes s @ [registeredRow clk nid i]\<rparr>)))"

section \<open>Reading\<close>

definition nodeOrder :: "node \<Rightarrow> instant \<times> string" where
  "nodeOrder n = (nodeCreatedAt n, nodeID n)"

definition ListNodes :: "db \<Rightarrow> node list" where
  "ListNodes s = selectWhere (\<lambda>_. True) nodeOrder (nodes s)"

definition ListElasticNodesByStatuses :: "string list \<Rightarrow> db \<Rightarrow> node list" where
  "ListElasticNodesByStatuses statuses s =
     (if statuses = [] then []
      else selectWhere (\<lambda>n. nodeStatus n \<in> set statuses \<and> nodeElastic n) nodeOrder (nodes s))"

definition GetNode :: "string \<Rightarrow> db \<Rightarrow> node res" where
  "GetNode nid s =
     (case findBy nodeID nid (nodes s) of None \<Rightarrow> Inl ErrNodeNotFound | Some n \<Rightarrow> Inr n)"

record provisioning_candidate =
  pcServiceID :: string
  pcCPUMilli :: int
  pcMemoryMi :: int
  pcNodeName :: string
  pcInstanceType :: string
  pcClientToken :: string
  pcHasCapacity :: bool
  pcHasProvisioning :: bool

definition hasCapacityFor :: "run_row \<Rightarrow> node \<Rightarrow> bool" where
  "hasCapacityFor r n \<longleftrightarrow>
     nodeStatus n = StatusReady \<and> nodeSchedulable n \<and>
     runCPU r \<le> nodeCPUAllocatable n - nodeCPUAllocated n \<and>
     runMem r \<le> nodeMemAllocatable n - nodeMemAllocated n"

definition GetNodeProvisioningCandidate ::
  "(string \<Rightarrow> string) \<Rightarrow> string \<Rightarrow> string \<Rightarrow> db \<Rightarrow> provisioning_candidate option" where
  "GetNodeProvisioningCandidate md5 prefix ityp s =
     (case selectFirst (\<lambda>r. runStatus r = StatusPending) (\<lambda>r. (runCreatedAt r, runID r)) (runs s) of
        None \<Rightarrow> None
      | Some r \<Rightarrow>
          (let name = provisioningNodeName md5 prefix r in
           Some \<lparr>pcServiceID = runServiceID r, pcCPUMilli = runCPU r, pcMemoryMi = runMem r,
                 pcNodeName = name, pcInstanceType = ityp,
                 pcClientToken = runServiceID r @ ''-'' @ itoa (runGeneration r),
                 pcHasCapacity = list_ex (hasCapacityFor r) (nodes s),
                 pcHasProvisioning =
                   list_ex (\<lambda>n. nodeStatus n = StatusProvisioning \<and> nodeName n = name
                                \<and> nodeInstanceType n = ityp) (nodes s)\<rparr>))"

definition HasUnsettledServiceRuns :: "db \<Rightarrow> bool" where
  "HasUnsettledServiceRuns s \<longleftrightarrow>
     list_ex (\<lambda>r. runStatus r = StatusPending \<or> runStatus r = StatusDeploying) (runs s)"

section \<open>Heartbeats\<close>

definition heartbeatStatus :: "string \<Rightarrow> string \<times> bool" where
  "heartbeatStatus current =
     (if current = StatusDraining then (StatusDraining, False)
      else if current = StatusDeleted then (StatusDeleted, False)
      else (StatusReady, True))"

definition heartbeatRow :: "clock \<Rightarrow> heartbeat_input \<Rightarrow> node \<Rightarrow> node" where
  "heartbeatRow clk i n =
     (case heartbeatStatus (nodeStatus n) of (next, sched) \<Rightarrow>
        n\<lparr>nodeCPUAllocatable := hbCPUMilliAllocatable i,
          nodeMemAllocatable := hbMemoryMiAllocatable i, nodeStatus := next,
          nodeStatusReason := [], nodeSchedulable := sched,
          nodeLastHeartbeatAt := Some (goNow clk),
          nodeUpdatedAt :=
            (if nodeCPUAllocatable n \<noteq> hbCPUMilliAllocatable i
                \<or> nodeMemAllocatable n \<noteq> hbMemoryMiAllocatable i
                \<or> nodeStatus n \<noteq> next \<or> nodeSchedulable n \<noteq> sched
             then dbNow clk else nodeUpdatedAt n)\<rparr>)"

definition RecordNodeHeartbeat ::
  "clock \<Rightarrow> string \<Rightarrow> heartbeat_input \<Rightarrow> db \<Rightarrow> (string \<times> db) res" where
  "RecordNodeHeartbeat clk nid i s =
     bindR (validateHeartbeatInput i) (\<lambda>_.
       case findBy nodeID nid (nodes s) of
         None \<Rightarrow> Inl ErrNodeNotFound
       | Some n \<Rightarrow>
           if nodeCPUTotal n < hbCPUMilliAllocatable i then
             Inl ErrHeartbeatCPUMilliAllocatableTooLarge
           else if nodeMemTotal n < hbMemoryMiAllocatable i then
             Inl ErrHeartbeatMemoryMiAllocatableTooLarge
           else Inr (fst (heartbeatStatus (nodeStatus n)),
                     s\<lparr>nodes := updateWhere (\<lambda>n. nodeID n = nid) (heartbeatRow clk i) (nodes s)\<rparr>))"

section \<open>Deletion\<close>

definition PrepareNodeDeletion ::
  "clock \<Rightarrow> string \<Rightarrow> string \<Rightarrow> instant option \<Rightarrow> db \<Rightarrow> ((node \<times> bool) \<times> db) res" where
  "PrepareNodeDeletion clk nid reason observedAt s =
     (let obs = orNow clk observedAt in
      case findBy nodeID nid (nodes s) of
        None \<Rightarrow> Inl ErrNodeNotFound
      | Some current \<Rightarrow>
          if nodeStatus current = StatusDraining then Inr ((current, True), s)
          else if nodeStatus current \<noteq> StatusReady \<or> \<not> nodeElastic current
                  \<or> \<not> nonBlank (instanceIDText current) then
            Inr ((current, False), s)
          else if list_ex (activeOn (nodeID current)) (runs s) then Inr ((current, False), s)
          else
            (let drain = (\<lambda>n. n\<lparr>nodeStatus := StatusDraining, nodeStatusReason := reason,
                               nodeSchedulable := False, nodeUpdatedAt := obs\<rparr>)
             in Inr ((drain current, True),
                     s\<lparr>nodes := updateWhere (\<lambda>n. nodeID n = nid) drain (nodes s)\<rparr>)))"

definition deletedRow :: "instant \<Rightarrow> string \<Rightarrow> node \<Rightarrow> node" where
  "deletedRow obs reason n =
     n\<lparr>nodePrivateIP := [], nodeInstanceID := None, nodeStatus := StatusDeleted,
       nodeStatusReason := reason, nodeSchedulable := False, nodeCPUAllocated := 0,
       nodeMemAllocated := 0, nodeUpdatedAt := obs\<rparr>"

definition MarkNodeDeleted ::
  "clock \<Rightarrow> string \<Rightarrow> string \<Rightarrow> instant option \<Rightarrow> db \<Rightarrow> (node \<times> db) res" where
  "MarkNodeDeleted clk nid reason observedAt s =
     (let obs = orNow clk observedAt in
      case findBy nodeID nid (nodes s) of
        None \<Rightarrow> Inl ErrNodeNotFound
      | Some n \<Rightarrow> Inr (deletedRow obs reason n,
           s\<lparr>nodes := updateWhere (\<lambda>n. nodeID n = nid) (deletedRow obs reason) (nodes s)\<rparr>))"

section \<open>Nodes that went silent\<close>

definition failServiceRunsForOfflineNode :: "clock \<Rightarrow> node \<Rightarrow> string \<Rightarrow> db \<Rightarrow> nat \<times> db" where
  "failServiceRunsForOfflineNode clk staleNode reason s =
     (let impacted = selectWhere
            (\<lambda>r. runNodeID r = Some (nodeID staleNode)
                 \<and> (runStatus r = StatusPending \<or> runStatus r = StatusDeploying
                     \<or> runStatus r = StatusRunning))
            (\<lambda>r. (runUpdatedAt r, runID r)) (runs s)
      in (length impacted,
          fold (\<lambda>item s.
                 freeNodeAllocation clk (nodeID staleNode) (runCPU item) (runMem item)
                   (s\<lparr>runs := updateWhere (\<lambda>r. runID r = runID item) (failRun clk reason) (runs s)\<rparr>))
            impacted s))"

definition markNodeOffline :: "clock \<Rightarrow> string \<Rightarrow> db \<Rightarrow> db" where
  "markNodeOffline clk nid s =
     s\<lparr>nodes := updateWhere (\<lambda>n. nodeID n = nid)
        (\<lambda>n. n\<lparr>nodeStatus := StatusOffline, nodeStatusReason := ''node heartbeat timed out'',
               nodeSchedulable := False, nodeUpdatedAt := dbNow clk\<rparr>) (nodes s)\<rparr>"

definition staleNode :: "instant \<Rightarrow> node \<Rightarrow> bool" where
  "staleNode cutoff n \<longleftrightarrow>
     (case nodeLastHeartbeatAt n of None \<Rightarrow> False | Some t \<Rightarrow> t < cutoff) \<and>
     nodeStatus n \<noteq> StatusOffline \<and> nodeStatus n \<noteq> StatusDraining \<and> nodeStatus n \<noteq> StatusDeleted"

definition heartbeatKey :: "node \<Rightarrow> instant \<times> string" where
  "heartbeatKey n =
     ((case nodeLastHeartbeatAt n of None \<Rightarrow> Instant 0 | Some t \<Rightarrow> t), nodeID n)"

definition offlineReason :: "instant \<Rightarrow> node \<Rightarrow> string" where
  "offlineReason cutoff n =
     ''node '' @ nodeName n @ '' marked offline because no heartbeat arrived after '' @ rfc3339 cutoff"

fun offlineLoop :: "clock \<Rightarrow> instant \<Rightarrow> node list \<Rightarrow> nat \<times> nat \<Rightarrow> db \<Rightarrow> (nat \<times> nat) \<times> db" where
  "offlineLoop clk cutoff [] counts s = (counts, s)"
| "offlineLoop clk cutoff (n # ns) (offline, failed) s =
     (case failServiceRunsForOfflineNode clk n (offlineReason cutoff n) (markNodeOffline clk (nodeID n) s) of
        (k, s') \<Rightarrow> offlineLoop clk cutoff ns (Suc offline, failed + k) s')"

definition MarkStaleNodeHeartbeatsOffline :: "clock \<Rightarrow> int \<Rightarrow> db \<Rightarrow> ((nat \<times> nat) \<times> db) res" where
  "MarkStaleNodeHeartbeatsOffline clk staleAfter s =
     (if staleAfter \<le> 0 then Inl ErrHeartbeatStaleAfterInvalid
      else
        (let cutoff = addDur (goNow clk) (- staleAfter)
         in Inr (offlineLoop clk cutoff (selectWhere (staleNode cutoff) heartbeatKey (nodes s)) (0, 0) s)))"

end
