(* ===== verification/StoreServices.thy ===== *)
theory StoreServices
  imports StoreNodes
begin

text \<open>
  internal/cloudplane/infra/store/service.go and observability.go: the desired state of the
  services, with a generation per service, the front-door columns, and the alert signal.
\<close>

definition ErrServiceNotFound :: goerr where
  "ErrServiceNotFound = Sentinel ''service not found''"

definition getServiceTx :: "string \<Rightarrow> db \<Rightarrow> service_row res" where
  "getServiceTx sid s =
     (case findBy serviceID (trimSpace sid) (services s) of
        None \<Rightarrow> Inl ErrServiceNotFound | Some v \<Rightarrow> Inr v)"

section \<open>Upsert\<close>

text \<open>The columns of the INSERT, from a validated input and its parsed exposure.\<close>

definition serviceRowOf :: "clock \<Rightarrow> string \<Rightarrow> upsert_service_input \<Rightarrow> service_row" where
  "serviceRowOf clk exposure i =
     \<lparr>serviceID = trimSpace (usID i), serviceName = trimSpace (usName i),
      serviceDisplayName = trimSpace (usDisplayName i), serviceHost = cleanDomain (usHost i),
      serviceGeneration = usGeneration i, serviceDesired = ServiceDesiredActive,
      serviceSpec =
        \<lparr>specInstanceClass = trimSpace (specInstanceClass (usSpec i)), specExposure = exposure,
         specImage = trimSpace (specImage (usSpec i)), specCommand = specCommand (usSpec i),
         specArgs = specArgs (usSpec i), specEnv = specEnv (usSpec i),
         specContainerPort = specContainerPort (usSpec i),
         specReadinessPath = trimSpace (specReadinessPath (usSpec i))\<rparr>,
      fdCNAME = [], fdVerifySubdomain = [], fdVerifyType = [], fdVerifyValue = [],
      serviceCreatedAt = dbNow clk, serviceUpdatedAt = dbNow clk\<rparr>"

text \<open>DO UPDATE SET: everything but the id, the front-door columns and the creation time.\<close>

definition updatedServiceRow :: "service_row \<Rightarrow> service_row \<Rightarrow> service_row" where
  "updatedServiceRow excluded v =
     v\<lparr>serviceName := serviceName excluded, serviceDisplayName := serviceDisplayName excluded,
       serviceHost := serviceHost excluded, serviceGeneration := serviceGeneration excluded,
       serviceDesired := serviceDesired excluded, serviceSpec := serviceSpec excluded,
       serviceUpdatedAt := serviceUpdatedAt excluded\<rparr>"

definition acceptsGeneration :: "service_row \<Rightarrow> service_row \<Rightarrow> bool" where
  "acceptsGeneration excluded v \<longleftrightarrow>
     serviceGeneration v < serviceGeneration excluded \<or>
     (serviceGeneration v = serviceGeneration excluded \<and> serviceDesired v \<noteq> ServiceDesiredDeleted)"

text \<open>Whether another service holds the name or the host.\<close>

definition nameOrHostTaken :: "service_row \<Rightarrow> db \<Rightarrow> bool" where
  "nameOrHostTaken e s \<longleftrightarrow>
     list_ex (\<lambda>v. serviceID v \<noteq> serviceID e \<and>
                  (serviceName v = serviceName e \<or> serviceHost v = serviceHost e)) (services s)"

definition runInputOf :: "service_row \<Rightarrow> int \<Rightarrow> int \<Rightarrow> string \<Rightarrow> service_run_input" where
  "runInputOf v cpu mem exposure =
     \<lparr>sriServiceID = serviceID v, sriServiceName = serviceName v,
      sriGeneration = serviceGeneration v, sriImage = specImage (serviceSpec v),
      sriCommand = specCommand (serviceSpec v), sriArgs = specArgs (serviceSpec v),
      sriEnv = specEnv (serviceSpec v), sriContainerPort = specContainerPort (serviceSpec v),
      sriReadinessPath = specReadinessPath (serviceSpec v), sriCPU = cpu, sriMem = mem,
      sriExposure = exposure\<rparr>"

definition UpsertService ::
  "clock \<Rightarrow> nat list res \<Rightarrow> upsert_service_input \<Rightarrow> db \<Rightarrow> (service \<times> db) res" where
  "UpsertService clk entropy i s =
     bindR (validateUpsertServiceInput i) (\<lambda>_.
     bindR (ResourceRequestForInstanceClass (specInstanceClass (usSpec i))) (\<lambda>(cpu, mem).
     bindR (ParseExposure (specExposure (usSpec i))) (\<lambda>exposure.
       let e = serviceRowOf clk exposure i;
           store = (\<lambda>v s1. bindR (upsertServiceRunTx clk entropy (runInputOf v cpu mem exposure) s1)
                             (\<lambda>s2. Inr (scanService v, s2)))
       in case findBy serviceID (serviceID e) (services s) of
            None \<Rightarrow>
              if nameOrHostTaken e s then Inl (wrap ''upsert service'' uniqueViolation)
              else store e (s\<lparr>services := services s @ [e]\<rparr>)
          | Some v \<Rightarrow>
              if acceptsGeneration e v then
                (if nameOrHostTaken e s then Inl (wrap ''upsert service'' uniqueViolation)
                 else store (updatedServiceRow e v)
                        (s\<lparr>services := updateWhere (\<lambda>v. serviceID v = serviceID e)
                             (updatedServiceRow e) (services s)\<rparr>))
              else bindR (getServiceTx (usID i) s) (\<lambda>cur. Inr (scanService cur, s)))))"

section \<open>Delete\<close>

definition DeleteService :: "clock \<Rightarrow> delete_service_input \<Rightarrow> db \<Rightarrow> db res" where
  "DeleteService clk i s =
     bindR (validateDeleteServiceInput i) (\<lambda>_.
     bindR (getServiceTx (dsID i) s) (\<lambda>cur.
       let generation = (if dsGeneration i < serviceGeneration cur then serviceGeneration cur
                         else dsGeneration i);
           s1 = s\<lparr>services := updateWhere (\<lambda>v. serviceID v = dsID i)
                   (\<lambda>v. v\<lparr>serviceGeneration := generation, serviceDesired := ServiceDesiredDeleted,
                          serviceUpdatedAt := dbNow clk\<rparr>) (services s)\<rparr>
       in Inr (deleteServiceRunTx clk (dsID i) generation s1)))"

section \<open>Reading and the front door\<close>

definition ListServices :: "db \<Rightarrow> service list" where
  "ListServices s =
     map scanService (selectWhere (\<lambda>v. serviceDesired v = ServiceDesiredActive)
       (\<lambda>v. (serviceCreatedAt v, serviceID v)) (services s))"

definition ListServiceFrontDoors :: "db \<Rightarrow> service list" where
  "ListServiceFrontDoors s =
     map scanService (selectWhere (\<lambda>v. fdCNAME v \<noteq> [] \<or> fdVerifySubdomain v \<noteq> [])
       serviceHost (services s))"

definition SaveServiceFrontDoor :: "clock \<Rightarrow> string \<Rightarrow> frontdoor_status \<Rightarrow> db \<Rightarrow> db" where
  "SaveServiceFrontDoor clk host0 st s =
     (let host = cleanDomain host0 in
      if host = [] then s
      else
        (let (sub, typ, val) =
           (case fdsVerification st of
              None \<Rightarrow> ([], [], [])
            | Some v \<Rightarrow> (cleanDomain (fdrSubdomain v), toUpper (trimSpace (fdrType v)),
                         trimSpace (fdrValue v)))
         in s\<lparr>services := updateWhere (\<lambda>v. serviceHost v = host)
              (\<lambda>v. v\<lparr>fdCNAME := cleanDomain (fdsCNAME st), fdVerifySubdomain := sub,
                     fdVerifyType := typ, fdVerifyValue := val, serviceUpdatedAt := dbNow clk\<rparr>)
              (services s)\<rparr>))"

definition ClearServiceFrontDoor :: "clock \<Rightarrow> string \<Rightarrow> db \<Rightarrow> db" where
  "ClearServiceFrontDoor clk host0 s =
     (let host = cleanDomain host0 in
      if host = [] then s
      else s\<lparr>services := updateWhere (\<lambda>v. serviceHost v = host)
             (\<lambda>v. v\<lparr>fdCNAME := [], fdVerifySubdomain := [], fdVerifyType := [],
                    fdVerifyValue := [], serviceUpdatedAt := dbNow clk\<rparr>) (services s)\<rparr>)"

section \<open>observability.go\<close>

definition ServiceRunStuckThresholdSeconds :: int where
  "ServiceRunStuckThresholdSeconds = 600"

definition NodeRegistrationTimeoutSeconds :: int where
  "NodeRegistrationTimeoutSeconds = 600"

text \<open>
  The number of alerts that fire: failed runs; runs pending or deploying with no update of any run
  for the threshold (MAX of no rows is NULL, and a comparison with NULL is not true); offline
  nodes; nodes that have been provisioning for too long.
\<close>

definition GetAlertSignal :: "clock \<Rightarrow> db \<Rightarrow> nat" where
  "GetAlertSignal clk s =
     (let count = (\<lambda>st. length (filter (\<lambda>r. runStatus r = st) (runs s)));
          stuckLimit = addDur (dbNow clk) (- secondsDur ServiceRunStuckThresholdSeconds);
          bootLimit = addDur (dbNow clk) (- secondsDur NodeRegistrationTimeoutSeconds);
          executionFailures = 0 < count StatusFailed;
          stuckExecutions = count StatusFailed = 0
            \<and> (0 < count StatusPending \<or> 0 < count StatusDeploying)
            \<and> runs s \<noteq> [] \<and> list_all (\<lambda>r. runUpdatedAt r \<le> stuckLimit) (runs s);
          offlineNodes = list_ex (\<lambda>n. nodeStatus n = StatusOffline) (nodes s);
          bootstrapStuck = list_ex (\<lambda>n. nodeStatus n = StatusProvisioning
                                        \<and> nodeCreatedAt n \<le> bootLimit) (nodes s)
      in length (filter id [executionFailures, stuckExecutions, offlineNodes, bootstrapStuck]))"

end
