(* ===== verification/StoreInv.thy ===== *)
theory StoreInv
  imports StoreServices
begin

text \<open>
  The invariant of the store: keys are unique, every CHECK and every foreign key of the schema
  holds, and the columns of one row agree (a node that can be scheduled is registering or ready, a
  deleted node holds no instance and no capacity, an active run has a node and a start, a run is
  never ahead of its service).  Each write of the code is an update, an append or a removal of
  rows; one lemma per kind of write carries the proofs of the operations.
\<close>

definition nodeStatuses :: "string list" where
  "nodeStatuses = [StatusProvisioning, StatusRegistering, StatusReady, StatusDraining,
                   StatusOffline, StatusDeleted]"

definition runStatuses :: "string list" where
  "runStatuses = [StatusPending, StatusDeploying, StatusRunning, StatusSucceeded, StatusFailed]"

definition node_ok :: "node \<Rightarrow> bool" where
  "node_ok n \<longleftrightarrow>
     0 \<le> nodeCPUTotal n \<and> 0 \<le> nodeMemTotal n \<and> 0 \<le> nodeCPUAllocatable n \<and>
     0 \<le> nodeMemAllocatable n \<and> 0 \<le> nodeCPUAllocated n \<and> 0 \<le> nodeMemAllocated n \<and>
     nodeStatus n \<in> set nodeStatuses \<and>
     (nodeSchedulable n \<longrightarrow> nodeStatus n = StatusRegistering \<or> nodeStatus n = StatusReady) \<and>
     (nodeStatus n = StatusDeleted \<longrightarrow>
        nodeInstanceID n = None \<and> nodeCPUAllocated n = 0 \<and> nodeMemAllocated n = 0)"

definition service_ok :: "service_row \<Rightarrow> bool" where
  "service_ok v \<longleftrightarrow>
     serviceID v \<noteq> [] \<and> trimSpace (serviceID v) = serviceID v \<and>
     serviceNamePattern (serviceName v) \<and> 0 < serviceGeneration v \<and>
     0 < specContainerPort (serviceSpec v) \<and> specContainerPort (serviceSpec v) \<le> 65535 \<and>
     (specExposure (serviceSpec v) = ExposurePublic \<or> specExposure (serviceSpec v) = ExposurePrivate) \<and>
     (serviceDesired v = ServiceDesiredActive \<or> serviceDesired v = ServiceDesiredDeleted)"

definition nodeIDs :: "db \<Rightarrow> string set" where
  "nodeIDs s = nodeID ` set (nodes s)"

definition run_ok :: "db \<Rightarrow> run_row \<Rightarrow> bool" where
  "run_ok s r \<longleftrightarrow>
     (\<exists>v\<in>set (services s). serviceID v = runServiceID r \<and> runGeneration r \<le> serviceGeneration v) \<and>
     (\<forall>n\<in>set_option (runNodeID r). n \<in> nodeIDs s) \<and>
     0 < runGeneration r \<and> 0 < runContainerPort r \<and> runContainerPort r \<le> 65535 \<and>
     0 < runCPU r \<and> 0 < runMem r \<and>
     runStatus r \<in> set runStatuses \<and>
     (runStatus r = StatusDeploying \<or> runStatus r = StatusRunning \<or> runStatus r = StatusSucceeded \<longrightarrow>
        runNodeID r \<noteq> None \<and> runStartedAt r \<noteq> None) \<and>
     (runStatus r = StatusRunning \<longrightarrow> 0 < runHostPort r)"

definition instance_unique :: "node list \<Rightarrow> bool" where
  "instance_unique ns \<longleftrightarrow>
     (\<forall>n\<in>set ns. \<forall>m\<in>set ns. nodeInstanceID n \<noteq> None \<longrightarrow> nodeInstanceID n = nodeInstanceID m \<longrightarrow>
        nodeProvider n = nodeProvider m \<longrightarrow> nodeID n = nodeID m)"

definition keys_ok :: "db \<Rightarrow> bool" where
  "keys_ok s \<longleftrightarrow>
     distinct (map nodeID (nodes s)) \<and> instance_unique (nodes s) \<and>
     distinct (map serviceID (services s)) \<and> distinct (map serviceName (services s)) \<and>
     distinct (map serviceHost (services s)) \<and>
     distinct (map runID (runs s)) \<and> distinct (map runServiceID (runs s))"

definition store_inv :: "db \<Rightarrow> bool" where
  "store_inv s \<longleftrightarrow>
     keys_ok s \<and> (\<forall>n\<in>set (nodes s). node_ok n) \<and> (\<forall>v\<in>set (services s). service_ok v) \<and>
     (\<forall>r\<in>set (runs s). run_ok s r)"

lemma store_inv_empty: "store_inv emptyDB"
  by (simp add: store_inv_def keys_ok_def instance_unique_def emptyDB_def)

lemma store_invD:
  assumes "store_inv s"
  shows "distinct (map nodeID (nodes s))" "instance_unique (nodes s)"
    "distinct (map serviceID (services s))" "distinct (map serviceName (services s))"
    "distinct (map serviceHost (services s))" "distinct (map runID (runs s))"
    "distinct (map runServiceID (runs s))"
    "\<And>n. n \<in> set (nodes s) \<Longrightarrow> node_ok n" "\<And>v. v \<in> set (services s) \<Longrightarrow> service_ok v"
    "\<And>r. r \<in> set (runs s) \<Longrightarrow> run_ok s r"
  using assms by (auto simp: store_inv_def keys_ok_def)

lemma inv_find_node: "store_inv s \<Longrightarrow> findBy nodeID k (nodes s) = Some n \<longleftrightarrow> n \<in> set (nodes s) \<and> nodeID n = k"
  by (simp add: findBy_Some_iff store_invD)

lemma inv_find_service:
  "store_inv s \<Longrightarrow> findBy serviceID k (services s) = Some v \<longleftrightarrow> v \<in> set (services s) \<and> serviceID v = k"
  by (simp add: findBy_Some_iff store_invD)

lemma inv_find_run:
  "store_inv s \<Longrightarrow> findBy runServiceID k (runs s) = Some r \<longleftrightarrow> r \<in> set (runs s) \<and> runServiceID r = k"
  by (simp add: findBy_Some_iff store_invD)

lemma inv_node_eqI: "store_inv s \<Longrightarrow> n \<in> set (nodes s) \<Longrightarrow> m \<in> set (nodes s) \<Longrightarrow> nodeID n = nodeID m \<Longrightarrow> n = m"
  using store_invD(1) [of s] by (auto simp: distinct_map dest: inj_onD)

lemma inv_run_eqI: "store_inv s \<Longrightarrow> r \<in> set (runs s) \<Longrightarrow> q \<in> set (runs s) \<Longrightarrow> runID r = runID q \<Longrightarrow> r = q"
  using store_invD(6) [of s] by (auto simp: distinct_map dest: inj_onD)

lemma run_ok_cong:
  "nodeIDs s \<subseteq> nodeIDs s' \<Longrightarrow>
   (\<And>v. v \<in> set (services s) \<Longrightarrow> \<exists>v'\<in>set (services s'). serviceID v' = serviceID v
        \<and> serviceGeneration v \<le> serviceGeneration v') \<Longrightarrow>
   run_ok s r \<Longrightarrow> run_ok s' r"
proof -
  assume sub: "nodeIDs s \<subseteq> nodeIDs s'"
    and gen: "\<And>v. v \<in> set (services s) \<Longrightarrow> \<exists>v'\<in>set (services s'). serviceID v' = serviceID v
        \<and> serviceGeneration v \<le> serviceGeneration v'"
    and r: "run_ok s r"
  obtain v where "v \<in> set (services s)" "serviceID v = runServiceID r"
    "runGeneration r \<le> serviceGeneration v"
    using r by (auto simp: run_ok_def)
  then obtain v' where "v' \<in> set (services s')" "serviceID v' = runServiceID r"
    "runGeneration r \<le> serviceGeneration v'"
    using gen [of v] by (metis order_trans)
  then show ?thesis using r sub unfolding run_ok_def by blast
qed

section \<open>Writes to nodes\<close>

lemma inv_update_nodes:
  assumes inv: "store_inv s"
    and keep: "\<And>n. n \<in> set (nodes s) \<Longrightarrow> p n \<Longrightarrow> nodeID (f n) = nodeID n \<and> node_ok (f n)"
    and inst: "\<And>n m. n \<in> set (nodes s) \<Longrightarrow> p n \<Longrightarrow> m \<in> set (nodes s) \<Longrightarrow> nodeInstanceID (f n) \<noteq> None \<Longrightarrow>
       nodeProvider (f n) = nodeProvider (if p m then f m else m) \<Longrightarrow>
       nodeInstanceID (f n) = nodeInstanceID (if p m then f m else m) \<Longrightarrow> nodeID n = nodeID m"
  shows "store_inv (s\<lparr>nodes := updateWhere p f (nodes s)\<rparr>)" (is "store_inv ?s'")
proof -
  note d = store_invD [OF inv]
  have ids: "map nodeID (updateWhere p f (nodes s)) = map nodeID (nodes s)"
    using keep by (auto simp: updateWhere_def)
  then have "nodeIDs ?s' = nodeIDs s"
    by (simp add: nodeIDs_def) (metis list.set_map)
  moreover have "instance_unique (updateWhere p f (nodes s))"
    unfolding instance_unique_def
  proof (intro ballI impI)
    fix a b assume ab: "a \<in> set (updateWhere p f (nodes s))" "b \<in> set (updateWhere p f (nodes s))"
      and h: "nodeInstanceID a \<noteq> None" "nodeInstanceID a = nodeInstanceID b" "nodeProvider a = nodeProvider b"
    obtain n m where n: "n \<in> set (nodes s)" "a = (if p n then f n else n)"
      and m: "m \<in> set (nodes s)" "b = (if p m then f m else m)"
      using ab by (auto simp: updateWhere_iff)
    note hn = h [unfolded n(2) m(2)]
    consider "p n" | "\<not> p n" "p m" | "\<not> p n" "\<not> p m" by blast
    then have "nodeID n = nodeID m"
    proof cases
      case 1
      then show ?thesis using inst [OF n(1) 1 m(1)] hn by simp
    next
      case 2
      then have "nodeID m = nodeID n"
        using hn by (intro inst [OF m(1) 2(2) n(1)]) simp_all
      then show ?thesis by simp
    next
      case 3
      then have "nodeInstanceID n \<noteq> None" "nodeInstanceID n = nodeInstanceID m" "nodeProvider n = nodeProvider m"
        using hn by simp_all
      then show ?thesis using d(2) n(1) m(1) unfolding instance_unique_def by blast
    qed
    then show "nodeID a = nodeID b" using keep n m by simp
  qed
  moreover have "\<forall>n\<in>set (updateWhere p f (nodes s)). node_ok n"
    using keep d(8) by (auto simp: updateWhere_iff)
  ultimately show ?thesis
    using d ids by (auto simp: store_inv_def keys_ok_def run_ok_def)
qed

text \<open>The usual update: identity and instance of the row stay, or the instance is dropped.\<close>

lemma inv_update_nodes_frame:
  assumes inv: "store_inv s"
    and "\<And>n. n \<in> set (nodes s) \<Longrightarrow> p n \<Longrightarrow> nodeID (f n) = nodeID n \<and> nodeProvider (f n) = nodeProvider n
       \<and> (nodeInstanceID (f n) = nodeInstanceID n \<or> nodeInstanceID (f n) = None) \<and> node_ok (f n)"
  shows "store_inv (s\<lparr>nodes := updateWhere p f (nodes s)\<rparr>)"
proof (rule inv_update_nodes [OF inv])
  fix n m
  assume h: "n \<in> set (nodes s)" "p n" "m \<in> set (nodes s)" "nodeInstanceID (f n) \<noteq> None"
    "nodeProvider (f n) = nodeProvider (if p m then f m else m)"
    "nodeInstanceID (f n) = nodeInstanceID (if p m then f m else m)"
  note n = assms(2) [OF h(1,2)]
  have m: "nodeProvider (if p m then f m else m) = nodeProvider m"
    "nodeInstanceID (if p m then f m else m) = nodeInstanceID m \<or>
     nodeInstanceID (if p m then f m else m) = None"
    using assms(2) [OF h(3)] by simp_all
  have ni: "nodeInstanceID (f n) = nodeInstanceID n" using n h(4) by blast
  then have "nodeInstanceID n \<noteq> None" using h(4) by simp
  moreover have "nodeInstanceID n = nodeInstanceID m" using m(2) ni h(4,6) by metis
  moreover have "nodeProvider n = nodeProvider m" using m(1) n h(5) by simp
  ultimately have "nodeInstanceID n \<noteq> None" "nodeInstanceID n = nodeInstanceID m"
    "nodeProvider n = nodeProvider m" by blast+
  then show "nodeID n = nodeID m"
    using store_invD(2) [OF inv] h(1,3) unfolding instance_unique_def by blast
qed (use assms(2) in blast)

lemma inv_append_node:
  assumes inv: "store_inv s" and ok: "node_ok n" and fresh: "findBy nodeID (nodeID n) (nodes s) = None"
    and inst: "\<And>m. m \<in> set (nodes s) \<Longrightarrow> nodeProvider m = nodeProvider n \<Longrightarrow>
       nodeInstanceID m = nodeInstanceID n \<Longrightarrow> nodeInstanceID n = None"
  shows "store_inv (s\<lparr>nodes := nodes s @ [n]\<rparr>)" (is "store_inv ?s'")
proof -
  note d = store_invD [OF inv]
  have "instance_unique (nodes s @ [n])"
    unfolding instance_unique_def
  proof (intro ballI impI)
    fix a b assume ab: "a \<in> set (nodes s @ [n])" "b \<in> set (nodes s @ [n])"
      and h: "nodeInstanceID a \<noteq> None" "nodeInstanceID a = nodeInstanceID b" "nodeProvider a = nodeProvider b"
    have old: "a \<in> set (nodes s) \<longleftrightarrow> a \<noteq> n" "b \<in> set (nodes s) \<longleftrightarrow> b \<noteq> n"
      using ab fresh by (auto simp: findBy_None_iff)
    have "a = n \<longleftrightarrow> b = n" using inst [of a] inst [of b] old h by metis
    then show "nodeID a = nodeID b" using d(2) old h unfolding instance_unique_def by metis
  qed
  moreover have "\<forall>r\<in>set (runs s). run_ok ?s' r"
  proof
    fix r assume "r \<in> set (runs s)"
    then have "run_ok s r" by (rule d(10))
    then show "run_ok ?s' r" by (rule run_ok_cong [rotated 2]) (auto simp: nodeIDs_def)
  qed
  ultimately show ?thesis
    using d ok fresh by (auto simp: store_inv_def keys_ok_def findBy_None_iff)
qed

section \<open>Writes to runs\<close>

lemma inv_update_runs:
  assumes inv: "store_inv s"
    and keep: "\<And>r. r \<in> set (runs s) \<Longrightarrow> p r \<Longrightarrow> runID (f r) = runID r \<and> runServiceID (f r) = runServiceID r
       \<and> run_ok s (f r)"
  shows "store_inv (s\<lparr>runs := updateWhere p f (runs s)\<rparr>)" (is "store_inv ?s'")
proof -
  note d = store_invD [OF inv]
  have "map runID (updateWhere p f (runs s)) = map runID (runs s)"
    "map runServiceID (updateWhere p f (runs s)) = map runServiceID (runs s)"
    using keep by (auto simp: updateWhere_def)
  moreover have "\<forall>r\<in>set (updateWhere p f (runs s)). run_ok ?s' r"
  proof
    fix r assume "r \<in> set (updateWhere p f (runs s))"
    then have "run_ok s r" using keep d(10) by (auto simp: updateWhere_iff)
    then show "run_ok ?s' r" by (simp add: run_ok_def nodeIDs_def)
  qed
  ultimately show ?thesis using d by (auto simp: store_inv_def keys_ok_def)
qed

lemma inv_append_run:
  assumes inv: "store_inv s" and ok: "run_ok s r"
    and fresh: "findBy runID (runID r) (runs s) = None"
      "findBy runServiceID (runServiceID r) (runs s) = None"
  shows "store_inv (s\<lparr>runs := runs s @ [r]\<rparr>)"
proof -
  note d = store_invD [OF inv]
  show ?thesis
    using d ok fresh by (auto simp: store_inv_def keys_ok_def findBy_None_iff run_ok_def nodeIDs_def)
qed

lemma inv_delete_runs:
  assumes inv: "store_inv s"
  shows "store_inv (s\<lparr>runs := deleteWhere p (runs s)\<rparr>)"
proof -
  note d = store_invD [OF inv]
  show ?thesis
    using d by (auto simp: store_inv_def keys_ok_def run_ok_def nodeIDs_def distinct_map_deleteWhere)
qed

section \<open>Writes to services\<close>

lemma inv_update_services:
  assumes inv: "store_inv s"
    and keep: "\<And>v. v \<in> set (services s) \<Longrightarrow> p v \<Longrightarrow> serviceID (f v) = serviceID v
       \<and> serviceGeneration v \<le> serviceGeneration (f v) \<and> service_ok (f v)"
    and names: "distinct (map serviceName (updateWhere p f (services s)))"
      "distinct (map serviceHost (updateWhere p f (services s)))"
  shows "store_inv (s\<lparr>services := updateWhere p f (services s)\<rparr>)" (is "store_inv ?s'")
proof -
  note d = store_invD [OF inv]
  have "map serviceID (updateWhere p f (services s)) = map serviceID (services s)"
    using keep by (auto simp: updateWhere_def)
  moreover have "\<forall>v\<in>set (updateWhere p f (services s)). service_ok v"
    using keep d(9) by (auto simp: updateWhere_iff)
  moreover have "\<forall>r\<in>set (runs s). run_ok ?s' r"
  proof
    fix r assume "r \<in> set (runs s)"
    then show "run_ok ?s' r"
    proof (rule run_ok_cong [OF _ _ d(10), rotated 2])
      fix v assume "v \<in> set (services s)"
      then show "\<exists>v'\<in>set (services ?s'). serviceID v' = serviceID v \<and> serviceGeneration v \<le> serviceGeneration v'"
        using keep [of v] by (intro bexI [of _ "if p v then f v else v"]) (auto simp: updateWhere_iff)
    qed (auto simp: nodeIDs_def)
  qed
  ultimately show ?thesis using d names by (auto simp: store_inv_def keys_ok_def)
qed

lemma inv_append_service:
  assumes inv: "store_inv s" and ok: "service_ok v"
    and fresh: "findBy serviceID (serviceID v) (services s) = None" "\<not> nameOrHostTaken v s"
  shows "store_inv (s\<lparr>services := services s @ [v]\<rparr>)" (is "store_inv ?s'")
proof -
  note d = store_invD [OF inv]
  have "\<forall>x\<in>set (services s). serviceID x \<noteq> serviceID v"
    using fresh(1) unfolding findBy_None_iff by (metis imageI)
  then have "\<forall>x\<in>set (services s). serviceName x \<noteq> serviceName v \<and> serviceHost x \<noteq> serviceHost v"
    using fresh(2) by (auto simp: nameOrHostTaken_def list_ex_iff)
  then have "serviceName v \<notin> serviceName ` set (services s)" "serviceHost v \<notin> serviceHost ` set (services s)"
    by (metis imageE)+
  moreover have "\<forall>r\<in>set (runs s). run_ok ?s' r"
  proof
    fix r assume "r \<in> set (runs s)"
    then have "run_ok s r" by (rule d(10))
    then show "run_ok ?s' r" by (rule run_ok_cong [rotated 2]) (auto simp: nodeIDs_def)
  qed
  ultimately show ?thesis
    using d ok fresh by (auto simp: store_inv_def keys_ok_def findBy_None_iff)
qed

end
