(* ===== verification/StoreOps.thy ===== *)
theory StoreOps
  imports StoreInv
begin

text \<open>
  Every operation of the store keeps its invariant: one lemma per operation, in the order of
  node.go, service_run.go and service.go, collected in \<open>op_inv\<close>.
\<close>

named_theorems op_inv \<open>an operation of the store keeps the invariant\<close>

lemma node_ok_simps:
  "node_ok n \<Longrightarrow> 0 \<le> nodeCPUAllocated n" "node_ok n \<Longrightarrow> 0 \<le> nodeMemAllocated n"
  "node_ok n \<Longrightarrow> nodeSchedulable n \<Longrightarrow> nodeStatus n = StatusRegistering \<or> nodeStatus n = StatusReady"
  "node_ok n \<Longrightarrow> nodeStatus n = StatusDeleted \<Longrightarrow> nodeInstanceID n = None"
  by (auto simp: node_ok_def)

lemma run_ok_simps:
  "run_ok s r \<Longrightarrow> 0 < runCPU r" "run_ok s r \<Longrightarrow> 0 < runMem r"
  "run_ok s r \<Longrightarrow> runNodeID r = Some n \<Longrightarrow> n \<in> nodeIDs s"
  "run_ok s r \<Longrightarrow> runStatus r = StatusDeploying \<Longrightarrow> runNodeID r \<noteq> None"
  "run_ok s r \<Longrightarrow> runStatus r = StatusRunning \<Longrightarrow> runNodeID r \<noteq> None"
  by (auto simp: run_ok_def)

section \<open>Nodes\<close>

lemma CreateProvisioningNode_inv [op_inv]:
  "store_inv s \<Longrightarrow> CreateProvisioningNode clk e i s = Inr (n, s') \<Longrightarrow> store_inv s'"
  by (auto simp: CreateProvisioningNode_def res_simps Let_def node_ok_def nodeStatuses_def
      intro!: inv_append_node split: if_splits)

lemma BindProvisionedNode_inv [op_inv]:
  assumes inv: "store_inv s" and op: "BindProvisionedNode clk nid inst name ityp reason obs s = Inr (n, s')"
  shows "store_inv s'"
proof -
  let ?p = "\<lambda>n. nodeID n = nid \<and> nodeStatus n = StatusProvisioning"
  let ?i = "nullIfEmpty (trimSpace inst)"
  let ?f = "\<lambda>n. n\<lparr>nodeInstanceID := ?i, nodeName := trimSpace name,
     nodeInstanceType := trimSpace ityp, nodeStatusReason := reason, nodeUpdatedAt := orNow clk obs\<rparr>"
  obtain n0 where n0: "n0 \<in> set (nodes s)" "?p n0" "\<not> instanceTaken (nodeProvider n0) ?i nid s"
    and s': "s' = s\<lparr>nodes := updateWhere ?p ?f (nodes s)\<rparr>"
    using op by (auto simp: BindProvisionedNode_def Let_def dest!: find_SomeD split: option.splits if_splits)
  have one: "n = n0" if "n \<in> set (nodes s)" "?p n" for n
    using inv_node_eqI [OF inv that(1) n0(1)] that(2) n0(2) by simp
  show ?thesis unfolding s'
  proof (rule inv_update_nodes [OF inv])
    fix n assume "n \<in> set (nodes s)" "?p n"
    then show "nodeID (?f n) = nodeID n \<and> node_ok (?f n)"
      using store_invD(8) [OF inv, of n] by (auto simp: node_ok_def)
  next
    fix n m
    assume h: "n \<in> set (nodes s)" "?p n" "m \<in> set (nodes s)" "nodeInstanceID (?f n) \<noteq> None"
      "nodeProvider (?f n) = nodeProvider (if ?p m then ?f m else m)"
      "nodeInstanceID (?f n) = nodeInstanceID (if ?p m then ?f m else m)"
    show "nodeID n = nodeID m"
    proof (rule ccontr)
      assume ne: "nodeID n \<noteq> nodeID m"
      then have "\<not> ?p m" using h(2) by auto
      then have m: "(if ?p m then ?f m else m) = m" by (rule if_not_P)
      have "nodeProvider m = nodeProvider n0" "nodeInstanceID m = ?i" "?i \<noteq> None"
        using h(4-6) [unfolded m] one [OF h(1,2)] by simp_all
      then show False using n0(3) h(2,3) ne by (auto simp: instanceTaken_def list_ex_iff)
    qed
  qed
qed

lemma reRegistered_frame [simp]:
  "nodeID (reRegistered clk i n) = nodeID n" "nodeProvider (reRegistered clk i n) = nodeProvider n"
  "nodeInstanceID (reRegistered clk i n) = nodeInstanceID n"
  "nodeElastic (reRegistered clk i n) = nodeElastic n"
  by (simp_all add: reRegistered_def Let_def)

lemma RegisterNode_inv [op_inv]:
  assumes inv: "store_inv s" and op: "RegisterNode clk e i s = Inr (n, s')"
  shows "store_inv s'"
proof -
  have v: "validateRegisterInput i = Inr ()" using op by (auto simp: RegisterNode_def bindR_Inr_iff)
  then have pos: "0 < rgCPUMilliTotal i" "0 < rgMemoryMiTotal i" "rgInstanceID i \<noteq> []"
    by (auto simp: res_simps)
  consider (old) "s' = s\<lparr>nodes := updateWhere (sameInstance i) (reRegistered clk i) (nodes s)\<rparr>"
    | (new) nid where "List.find (sameInstance i) (nodes s) = None" "findBy nodeID nid (nodes s) = None"
        "s' = s\<lparr>nodes := nodes s @ [registeredRow clk nid i]\<rparr>"
    using op unfolding RegisterNode_def
    by (cases "List.find (sameInstance i) (nodes s)") (auto simp: bindR_Inr_iff split: if_splits)
  then show ?thesis
  proof cases
    case old
    have "node_ok (reRegistered clk i n)" if "n \<in> set (nodes s)" for n
      using store_invD(8) [OF inv that] pos
      by (auto simp: node_ok_def reRegistered_def Let_def nodeStatuses_def)
    then show ?thesis unfolding old by (intro inv_update_nodes_frame [OF inv]) simp
  next
    case new
    have "node_ok (registeredRow clk nid i)"
      using pos by (simp add: node_ok_def registeredRow_def nodeStatuses_def)
    moreover have "nodeInstanceID (registeredRow clk nid i) = None"
      if "m \<in> set (nodes s)" "nodeProvider m = nodeProvider (registeredRow clk nid i)"
        "nodeInstanceID m = nodeInstanceID (registeredRow clk nid i)" for m
      using new(1) that by (auto simp: find_None_iff sameInstance_def registeredRow_def)
    ultimately show ?thesis unfolding new(3)
      using new(2) by (intro inv_append_node [OF inv]) (simp_all add: registeredRow_def)
  qed
qed

lemma RecordNodeHeartbeat_inv [op_inv]:
  assumes inv: "store_inv s" and op: "RecordNodeHeartbeat clk nid i s = Inr (st, s')"
  shows "store_inv s'"
proof -
  have pos: "0 < hbCPUMilliAllocatable i" "0 < hbMemoryMiAllocatable i"
    and s': "s' = s\<lparr>nodes := updateWhere (\<lambda>n. nodeID n = nid) (heartbeatRow clk i) (nodes s)\<rparr>"
    using op by (auto simp: RecordNodeHeartbeat_def res_simps split: option.splits if_splits)
  have "node_ok (heartbeatRow clk i n)" if "n \<in> set (nodes s)" for n
    using store_invD(8) [OF inv that] pos
    by (auto simp: node_ok_def heartbeatRow_def heartbeatStatus_def Let_def nodeStatuses_def)
  then show ?thesis unfolding s'
    by (intro inv_update_nodes_frame [OF inv]) (simp add: heartbeatRow_def Let_def split: prod.splits)
qed

definition drainedRow :: "clock \<Rightarrow> string \<Rightarrow> instant option \<Rightarrow> node \<Rightarrow> node" where
  "drainedRow clk reason obs n =
     n\<lparr>nodeStatus := StatusDraining, nodeStatusReason := reason, nodeSchedulable := False,
       nodeUpdatedAt := orNow clk obs\<rparr>"

lemma PrepareNodeDeletion_cases [consumes 1, case_names draining refused drained]:
  assumes op: "PrepareNodeDeletion clk nid reason obs s = Inr (r, s')"
  obtains n where "findBy nodeID nid (nodes s) = Some n" "nodeStatus n = StatusDraining"
      "r = (n, True)" "s' = s"
  | n where "findBy nodeID nid (nodes s) = Some n" "nodeStatus n \<noteq> StatusDraining"
      "nodeStatus n \<noteq> StatusReady \<or> \<not> nodeElastic n \<or> \<not> nonBlank (instanceIDText n)
         \<or> list_ex (activeOn nid) (runs s)"
      "r = (n, False)" "s' = s"
  | n where "n \<in> set (nodes s)" "nodeID n = nid" "nodeStatus n = StatusReady" "nodeElastic n"
      "nonBlank (instanceIDText n)" "\<not> list_ex (activeOn nid) (runs s)"
      "r = (drainedRow clk reason obs n, True)"
      "s' = s\<lparr>nodes := updateWhere (\<lambda>n. nodeID n = nid) (drainedRow clk reason obs) (nodes s)\<rparr>"
proof -
  obtain n where n: "findBy nodeID nid (nodes s) = Some n"
    using op by (auto simp: PrepareNodeDeletion_def Let_def split: option.splits)
  have nid: "n \<in> set (nodes s)" "nodeID n = nid" using findBy_SomeD [OF n] by simp_all
  let ?no = "nodeStatus n \<noteq> StatusReady \<or> \<not> nodeElastic n \<or> \<not> nonBlank (instanceIDText n)
         \<or> list_ex (activeOn nid) (runs s)"
  consider "nodeStatus n = StatusDraining" | "nodeStatus n \<noteq> StatusDraining" ?no
    | "nodeStatus n \<noteq> StatusDraining" "\<not> ?no" by blast
  then show thesis
  proof cases
    case 1
    show thesis by (rule that(1) [OF n 1]) (use op n 1 in \<open>simp_all add: PrepareNodeDeletion_def\<close>)
  next
    case 2
    have "r = (n, False) \<and> s' = s"
      using op n nid 2 by (auto simp: PrepareNodeDeletion_def Let_def split: if_splits)
    then show thesis using that(2) [OF n 2] by blast
  next
    case 3
    then have "r = (drainedRow clk reason obs n, True) \<and>
        s' = s\<lparr>nodes := updateWhere (\<lambda>n. nodeID n = nid) (drainedRow clk reason obs) (nodes s)\<rparr>"
      using op n nid by (auto simp: PrepareNodeDeletion_def Let_def drainedRow_def [abs_def])
    then show thesis using that(3) [OF nid] 3 by blast
  qed
qed

lemma PrepareNodeDeletion_inv [op_inv]:
  assumes inv: "store_inv s" and op: "PrepareNodeDeletion clk nid reason obs s = Inr (r, s')"
  shows "store_inv s'"
  using op
proof (cases rule: PrepareNodeDeletion_cases)
  case (drained n)
  show ?thesis unfolding drained(8)
    using store_invD(8) [OF inv]
    by (intro inv_update_nodes_frame [OF inv]) (simp add: node_ok_def nodeStatuses_def drainedRow_def)
qed (simp_all add: inv)

lemma MarkNodeDeleted_inv [op_inv]:
  "store_inv s \<Longrightarrow> MarkNodeDeleted clk nid reason obs s = Inr (n, s') \<Longrightarrow> store_inv s'"
  by (auto simp: MarkNodeDeleted_def Let_def deletedRow_def node_ok_def nodeStatuses_def
      dest: store_invD(8) intro!: inv_update_nodes_frame split: option.splits)

section \<open>Runs\<close>

lemma store_frame [simp]:
  "services (freeNodeAllocation clk n c m s) = services s"
  "runs (freeNodeAllocation clk n c m s) = runs s"
  "services (reserveNodeAllocation clk n c m s) = services s"
  "runs (reserveNodeAllocation clk n c m s) = runs s"
  "services (markNodeOffline clk n s) = services s" "runs (markNodeOffline clk n s) = runs s"
  "nodes (markServiceRunDeploying clk rid n cn a s) = nodes s"
  "services (markServiceRunDeploying clk rid n cn a s) = services s"
  "nodes (updateServiceRunReport clk eid i fin s) = nodes s"
  "services (updateServiceRunReport clk eid i fin s) = services s"
  by (simp_all add: freeNodeAllocation_def reserveNodeAllocation_def markNodeOffline_def
      markServiceRunDeploying_def updateServiceRunReport_def)

lemma nodeIDs_alt: "nodeIDs s = set (map nodeID (nodes s))"
  by (simp add: nodeIDs_def)

lemma nodeIDs_frame [simp]:
  "nodeIDs (freeNodeAllocation clk n c m s) = nodeIDs s"
  "nodeIDs (reserveNodeAllocation clk n c m s) = nodeIDs s"
  "nodeIDs (markNodeOffline clk n s) = nodeIDs s"
  unfolding nodeIDs_alt freeNodeAllocation_def reserveNodeAllocation_def markNodeOffline_def
  by (simp_all add: map_updateWhere del: set_map)

lemma freeNodeAllocation_inv [op_inv]:
  "store_inv s \<Longrightarrow> 0 \<le> c \<Longrightarrow> 0 \<le> m \<Longrightarrow> store_inv (freeNodeAllocation clk nid c m s)"
  unfolding freeNodeAllocation_def
  by (rule inv_update_nodes_frame) (auto simp: node_ok_def dest: store_invD(8))

lemma reserveNodeAllocation_inv [op_inv]:
  assumes inv: "store_inv s" and pos: "0 \<le> c" "0 \<le> m"
    and live: "\<And>n. n \<in> set (nodes s) \<Longrightarrow> nodeID n = nid \<Longrightarrow> nodeStatus n \<noteq> StatusDeleted"
  shows "store_inv (reserveNodeAllocation clk nid c m s)"
  unfolding reserveNodeAllocation_def
  using store_invD(8) [OF inv] live pos
  by (intro inv_update_nodes_frame [OF inv]) (auto simp: node_ok_def)

lemma markNodeOffline_inv [op_inv]: "store_inv s \<Longrightarrow> store_inv (markNodeOffline clk nid s)"
  unfolding markNodeOffline_def
  by (rule inv_update_nodes_frame) (auto simp: node_ok_def nodeStatuses_def dest: store_invD(8))

lemma failRun_ok [simp]: "run_ok s r \<Longrightarrow> run_ok s (failRun clk reason r)"
  by (auto simp: run_ok_def failRun_def runStatuses_def)

lemma failRun_keys [simp]:
  "runID (failRun clk reason r) = runID r" "runServiceID (failRun clk reason r) = runServiceID r"
  by (simp_all add: failRun_def)

lemma failRuns_inv [op_inv]:
  "store_inv s \<Longrightarrow> store_inv (s\<lparr>runs := updateWhere p (failRun clk reason) (runs s)\<rparr>)"
  by (rule inv_update_runs) (auto dest: store_invD(10))

lemma MarkServiceRunFailed_inv [op_inv]:
  "store_inv s \<Longrightarrow> MarkServiceRunFailed clk sid reason s = Inr s' \<Longrightarrow> store_inv s'"
  by (auto simp: MarkServiceRunFailed_def failRuns_inv split: if_splits)

lemma MarkPending_inv [op_inv]:
  "store_inv s \<Longrightarrow> MarkPendingServiceRunFailedForProvisioningNode md5 clk prefix name reason s = Inr s' \<Longrightarrow>
   store_inv s'"
  by (auto simp: MarkPendingServiceRunFailedForProvisioningNode_def failRuns_inv split: if_splits)

lemma failOffline_fold_inv:
  "store_inv s \<Longrightarrow> (\<And>i. i \<in> set items \<Longrightarrow> 0 \<le> runCPU i \<and> 0 \<le> runMem i) \<Longrightarrow>
   store_inv (fold (\<lambda>item s. freeNodeAllocation clk nid (runCPU item) (runMem item)
     (s\<lparr>runs := updateWhere (\<lambda>r. runID r = runID item) (failRun clk reason) (runs s)\<rparr>)) items s)"
  by (induction items arbitrary: s) (simp_all add: freeNodeAllocation_inv failRuns_inv)

lemma failServiceRunsForOfflineNode_inv [op_inv]:
  assumes inv: "store_inv s"
  shows "store_inv (snd (failServiceRunsForOfflineNode clk n reason s))"
proof -
  have "0 \<le> runCPU i \<and> 0 \<le> runMem i" if "i \<in> set (runs s)" for i
    using store_invD(10) [OF inv that] by (simp add: run_ok_def)
  then show ?thesis
    unfolding failServiceRunsForOfflineNode_def Let_def snd_conv
    by (intro failOffline_fold_inv [OF inv]) simp
qed

lemma offlineLoop_inv: "store_inv s \<Longrightarrow> store_inv (snd (offlineLoop clk cutoff ns counts s))"
proof (induction clk cutoff ns counts s rule: offlineLoop.induct)
  case (2 clk cutoff n ns offline failed s)
  then show ?case
    using failServiceRunsForOfflineNode_inv [OF markNodeOffline_inv [OF 2(2)]]
    by (simp split: prod.split) (metis snd_conv)
qed simp

lemma MarkStale_inv [op_inv]:
  assumes "store_inv s" "MarkStaleNodeHeartbeatsOffline clk stale s = Inr (r, s')"
  shows "store_inv s'"
  using assms(2) offlineLoop_inv [OF assms(1)]
  by (auto simp: MarkStaleNodeHeartbeatsOffline_def Let_def split: if_splits) (metis snd_conv)

lemma loadClaimable_SomeD:
  assumes "loadClaimableServiceRun p order s = Some (w, c, m)"
  obtains r v where "r \<in> set (runs s)" "findBy serviceID (runServiceID r) (services s) = Some v" "p r v"
    "w = workItemOf r v" "c = runCPU r" "m = runMem r"
    "\<And>r' v'. r' \<in> set (runs s) \<Longrightarrow> findBy serviceID (runServiceID r') (services s) = Some v' \<Longrightarrow>
       p r' v' \<Longrightarrow> order r \<le> order r'"
proof -
  let ?q = "\<lambda>r. case findBy serviceID (runServiceID r) (services s) of None \<Rightarrow> False | Some v \<Rightarrow> p r v"
  obtain r where r: "selectFirst ?q order (runs s) = Some r"
    using assms by (auto simp: loadClaimableServiceRun_def split: option.splits)
  then obtain v where v: "findBy serviceID (runServiceID r) (services s) = Some v"
    "w = workItemOf r v" "c = runCPU r" "m = runMem r"
    using assms by (auto simp: loadClaimableServiceRun_def split: option.splits)
  show thesis
  proof (rule that [OF _ v(1) _ v(2-4)])
    show "r \<in> set (runs s)" "p r v" using selectFirst_SomeD [OF r] v(1) by simp_all
    show "order r \<le> order r'" if "r' \<in> set (runs s)"
      "findBy serviceID (runServiceID r') (services s) = Some v'" "p r' v'" for r' v'
      using selectFirst_least [OF r that(1)] that(2,3) by simp
  qed
qed

lemma workItemOf_sel [simp]:
  "wiExecutionID (workItemOf r v) = runID r" "wiServiceID (workItemOf r v) = runServiceID r"
  "wiContainerPort (workItemOf r v) = runContainerPort r"
  "wiContainerID (workItemOf r v) = runContainerID r"
  "wiAction (workItemOf r v) =
     (if serviceDesired v = ServiceDesiredDeleted then WorkActionDelete else WorkActionRun)"
  by (simp_all add: workItemOf_def Let_def)

text \<open>The three outcomes of a claim: nothing, the deletion of a container, or a run to start.\<close>

lemma ClaimServiceRun_cases [consumes 1, case_names idle delete run]:
  assumes op: "ClaimServiceRun clk nid s = Inr (w, s')"
  obtains "w = None" "s' = s"
  | n r v where "findBy nodeID nid (nodes s) = Some n" "nodeStatus n = StatusReady"
      "r \<in> set (runs s)" "findBy serviceID (runServiceID r) (services s) = Some v"
      "serviceDesired v = ServiceDesiredDeleted" "runStatus r = StatusPending"
      "runNodeID r = Some nid" "runContainerID r \<noteq> []" "w = Some (workItemOf r v)"
      "s' = markServiceRunDeploying clk (runID r) nid (wiContainerName (workItemOf r v)) WorkActionDelete s"
  | n r v where "findBy nodeID nid (nodes s) = Some n" "nodeStatus n = StatusReady" "nodeSchedulable n"
      "claimPendingDeleteRun nid s = None"
      "r \<in> set (runs s)" "findBy serviceID (runServiceID r) (services s) = Some v"
      "serviceDesired v = ServiceDesiredActive" "runStatus r = StatusPending"
      "runNodeID r = None \<or> runNodeID r = Some nid"
      "nodeCPUAllocated n + runCPU r \<le> nodeCPUAllocatable n"
      "nodeMemAllocated n + runMem r \<le> nodeMemAllocatable n"
      "\<And>r' v'. r' \<in> set (runs s) \<Longrightarrow> findBy serviceID (runServiceID r') (services s) = Some v' \<Longrightarrow>
         serviceDesired v' = ServiceDesiredActive \<Longrightarrow> runStatus r' = StatusPending \<Longrightarrow>
         runNodeID r' = None \<or> runNodeID r' = Some nid \<Longrightarrow>
         nodeCPUAllocated n + runCPU r' \<le> nodeCPUAllocatable n \<Longrightarrow>
         nodeMemAllocated n + runMem r' \<le> nodeMemAllocatable n \<Longrightarrow>
         (runCreatedAt r, runID r) \<le> (runCreatedAt r', runID r')"
      "w = Some ((workItemOf r v)\<lparr>wiNodeID := nid\<rparr>)"
      "s' = reserveNodeAllocation clk nid (runCPU r) (runMem r)
         (markServiceRunDeploying clk (runID r) nid (wiContainerName (workItemOf r v)) WorkActionRun s)"
proof (cases "w = None")
  case True
  then have "s' = s"
    using op by (auto simp: ClaimServiceRun_def Let_def split: option.splits if_splits)
  with True show thesis using that(1) by blast
next
  case False
  then obtain n where n: "findBy nodeID nid (nodes s) = Some n" "nodeStatus n = StatusReady"
    using op by (auto simp: ClaimServiceRun_def split: option.splits if_splits)
  show thesis
  proof (cases "claimPendingDeleteRun nid s")
    case (Some item)
    obtain work c m where item: "item = (work, c, m)" by (cases item) auto
    obtain r v where r: "r \<in> set (runs s)" "findBy serviceID (runServiceID r) (services s) = Some v"
      "runStatus r = StatusPending" "serviceDesired v = ServiceDesiredDeleted"
      "runNodeID r = Some nid" "runContainerID r \<noteq> []" "work = workItemOf r v"
      using Some unfolding item claimPendingDeleteRun_def by (elim loadClaimable_SomeD) blast
    show thesis
      using op n Some r by (intro that(2) [of n r v]) (simp_all add: ClaimServiceRun_def item)
  next
    case None
    then obtain work c m where sched: "nodeSchedulable n"
      and claim: "claimPendingRun nid (nodeCPUAllocatable n - nodeCPUAllocated n)
        (nodeMemAllocatable n - nodeMemAllocated n) s = Some (work, c, m)"
      and w: "w = Some (work\<lparr>wiNodeID := nid\<rparr>)"
        "s' = reserveNodeAllocation clk nid c m (markServiceRunDeploying clk (wiExecutionID work) nid
           (wiContainerName work) (wiAction work) s)"
      using op n False by (auto simp: ClaimServiceRun_def Let_def split: option.splits if_splits)
    from claim obtain r v where r: "r \<in> set (runs s)"
      "findBy serviceID (runServiceID r) (services s) = Some v"
      "runStatus r = StatusPending \<and> serviceDesired v = ServiceDesiredActive
         \<and> runCPU r \<le> nodeCPUAllocatable n - nodeCPUAllocated n
         \<and> runMem r \<le> nodeMemAllocatable n - nodeMemAllocated n
         \<and> (runNodeID r = None \<or> runNodeID r = Some nid)"
      "work = workItemOf r v" "c = runCPU r" "m = runMem r"
      and least: "\<And>r' v'. r' \<in> set (runs s) \<Longrightarrow> findBy serviceID (runServiceID r') (services s) = Some v' \<Longrightarrow>
        runStatus r' = StatusPending \<and> serviceDesired v' = ServiceDesiredActive
         \<and> runCPU r' \<le> nodeCPUAllocatable n - nodeCPUAllocated n
         \<and> runMem r' \<le> nodeMemAllocatable n - nodeMemAllocated n
         \<and> (runNodeID r' = None \<or> runNodeID r' = Some nid) \<Longrightarrow>
        (runCreatedAt r, runID r) \<le> (runCreatedAt r', runID r')"
      unfolding claimPendingRun_def by (elim loadClaimable_SomeD) blast
    show thesis
    proof (rule that(3) [OF n sched None r(1,2)])
      show "(runCreatedAt r, runID r) \<le> (runCreatedAt r', runID r')"
        if "r' \<in> set (runs s)" "findBy serviceID (runServiceID r') (services s) = Some v'"
          "serviceDesired v' = ServiceDesiredActive" "runStatus r' = StatusPending"
          "runNodeID r' = None \<or> runNodeID r' = Some nid"
          "nodeCPUAllocated n + runCPU r' \<le> nodeCPUAllocatable n"
          "nodeMemAllocated n + runMem r' \<le> nodeMemAllocatable n" for r' v'
        by (rule least [OF that(1,2)]) (use that(3-) in auto)
      show "nodeCPUAllocated n + runCPU r \<le> nodeCPUAllocatable n"
        "nodeMemAllocated n + runMem r \<le> nodeMemAllocatable n" using r(3) by linarith+
      show "w = Some ((workItemOf r v)\<lparr>wiNodeID := nid\<rparr>)" using w(1) r(4) by simp
      show "s' = reserveNodeAllocation clk nid (runCPU r) (runMem r)
         (markServiceRunDeploying clk (runID r) nid (wiContainerName (workItemOf r v)) WorkActionRun s)"
        using w(2) r(3-6) by simp
      show "serviceDesired v = ServiceDesiredActive" "runStatus r = StatusPending"
        "runNodeID r = None \<or> runNodeID r = Some nid" using r(3) by simp_all
    qed
  qed
qed

lemma markServiceRunDeploying_inv [op_inv]:
  assumes inv: "store_inv s" and nid: "nid \<in> nodeIDs s"
  shows "store_inv (markServiceRunDeploying clk rid nid cn act s)"
  unfolding markServiceRunDeploying_def
  using store_invD(10) [OF inv] nid
  by (intro inv_update_runs [OF inv]) (simp add: run_ok_def runStatuses_def)

lemma ClaimServiceRun_inv [op_inv]:
  assumes inv: "store_inv s" and op: "ClaimServiceRun clk nid s = Inr (w, s')"
  shows "store_inv s'"
  using op
proof (cases rule: ClaimServiceRun_cases)
  case (delete n r v)
  have "nid \<in> nodeIDs s" using findBy_SomeD [OF delete(1)] by (auto simp: nodeIDs_def)
  then show ?thesis unfolding delete(10) by (rule markServiceRunDeploying_inv [OF inv])
next
  case (run n r v)
  have n: "n \<in> set (nodes s)" "nodeID n = nid" using findBy_SomeD [OF run(1)] by simp_all
  then have "nid \<in> nodeIDs s" by (auto simp: nodeIDs_def)
  moreover have "0 \<le> runCPU r" "0 \<le> runMem r"
    using store_invD(10) [OF inv run(5)] by (simp_all add: run_ok_def)
  moreover have "nodeStatus m \<noteq> StatusDeleted" if "m \<in> set (nodes s)" "nodeID m = nid" for m
    using inv_node_eqI [OF inv that(1) n(1)] that(2) n(2) run(2) by simp
  ultimately show ?thesis
    unfolding run(14) by (intro reserveNodeAllocation_inv markServiceRunDeploying_inv inv) simp_all
qed (simp add: inv)

section \<open>Reports\<close>

lemma loadServiceRunRecord_SomeD:
  assumes "loadServiceRunRecord nid eid s = Inr (r, t, d)"
  shows "r \<in> set (runs s)" "runID r = eid" "runNodeID r = Some nid" "runStartedAt r = Some t"
    "\<exists>v. findBy serviceID (runServiceID r) (services s) = Some v \<and> serviceDesired v = d"
  using assms by (auto simp: loadServiceRunRecord_def dest!: find_SomeD split: option.splits)

lemma reportedRun_keys [simp]:
  "runID (reportedRun clk i fin r) = runID r" "runServiceID (reportedRun clk i fin r) = runServiceID r"
  "runNodeID (reportedRun clk i fin r) = runNodeID r" "runCPU (reportedRun clk i fin r) = runCPU r"
  "runMem (reportedRun clk i fin r) = runMem r" "runStatus (reportedRun clk i fin r) = riStatus i"
  "runStartedAt (reportedRun clk i fin r) = runStartedAt r"
  "runGeneration (reportedRun clk i fin r) = runGeneration r"
  by (simp_all add: reportedRun_def)

text \<open>What an accepted report does: nothing, or the outcome of a run that was deploying.\<close>

lemma Report_cases [consumes 1, case_names repeated outcome]:
  assumes op: "UpdateExecutionFromNodeReport clk nid eid i s = Inr ((rec, t), s')"
  obtains r where "r \<in> set (runs s)" "runID r = eid" "runNodeID r = Some nid"
      "runStatus r \<noteq> StatusDeploying" "runStatus r = riStatus i" "s' = s"
  | r d fin where "r \<in> set (runs s)" "runID r = eid" "runNodeID r = Some nid" "runStartedAt r \<noteq> None"
      "runStatus r = StatusDeploying" "IsExecutionStatus (riStatus i)"
      "riStatus i = StatusRunning \<longrightarrow> 0 < riHostPort i"
      "\<exists>v. findBy serviceID (runServiceID r) (services s) = Some v \<and> serviceDesired v = d"
      "fin = (if isFinal (riStatus i) then Some (goNow clk) else None)"
      "s' = (let s2 = (if isFinal (riStatus i)
               then freeNodeAllocation clk nid (runCPU r) (runMem r) (updateServiceRunReport clk eid i fin s)
               else updateServiceRunReport clk eid i fin s)
             in if riStatus i = StatusSucceeded \<and> d = ServiceDesiredDeleted
                then s2\<lparr>runs := deleteWhere (\<lambda>r. runID r = eid) (runs s2)\<rparr> else s2)"
proof -
  obtain r st d where v: "validateReportInput i = Inr ()" and l: "loadServiceRunRecord nid eid s = Inr (r, st, d)"
    using op by (auto simp: UpdateExecutionFromNodeReport_def bindR_Inr_iff)
  note ld = loadServiceRunRecord_SomeD [OF l]
  show thesis
  proof (cases "runStatus r = StatusDeploying")
    case False
    then show thesis
      using op v l ld by (intro that(1) [of r]) (auto simp: UpdateExecutionFromNodeReport_def split: if_splits)
  next
    case True
    then show thesis
      using op v l ld
      by (intro that(2) [OF ld(1-3) _ True _ _ ld(5) refl])
        (simp_all add: UpdateExecutionFromNodeReport_def Let_def res_simps)
  qed
qed

lemma updateServiceRunReport_inv [op_inv]:
  assumes inv: "store_inv s" and r: "r \<in> set (runs s)" "runID r = eid" "runStatus r = StatusDeploying"
    and i: "IsExecutionStatus (riStatus i)" "riStatus i = StatusRunning \<longrightarrow> 0 < riHostPort i"
  shows "store_inv (updateServiceRunReport clk eid i fin s)"
  unfolding updateServiceRunReport_def
proof (rule inv_update_runs [OF inv], intro conjI)
  fix q assume "q \<in> set (runs s)" "runID q = eid"
  then have "q = r" using inv_run_eqI [OF inv _ r(1)] r(2) by simp
  then show "run_ok s (reportedRun clk i fin q)"
    using store_invD(10) [OF inv r(1)] r(3) i
    by (auto simp: run_ok_def reportedRun_def IsExecutionStatus_def runStatuses_def)
qed simp_all

lemma Report_inv [op_inv]:
  assumes inv: "store_inv s" and op: "UpdateExecutionFromNodeReport clk nid eid i s = Inr ((rec, t), s')"
  shows "store_inv s'"
  using op
proof (cases rule: Report_cases)
  case (outcome r d fin)
  have u: "store_inv (updateServiceRunReport clk eid i fin s)"
    using outcome by (intro updateServiceRunReport_inv [OF inv, of r])
  moreover have "0 \<le> runCPU r" "0 \<le> runMem r"
    using store_invD(10) [OF inv outcome(1)] by (simp_all add: run_ok_def)
  ultimately have "store_inv (freeNodeAllocation clk nid (runCPU r) (runMem r) (updateServiceRunReport clk eid i fin s))"
    by (intro freeNodeAllocation_inv)
  with u show ?thesis unfolding outcome(10) Let_def by (simp add: inv_delete_runs)
qed (simp add: inv)

section \<open>Services\<close>

lemma replacedRun_keys [simp]:
  "runID (replacedRun clk i r) = runID r" "runServiceID (replacedRun clk i r) = runServiceID r"
  "runGeneration (replacedRun clk i r) = sriGeneration i"
  "runStatus (replacedRun clk i r) = StatusPending"
  "runNodeID (replacedRun clk i r) = (if preserveNode r then runNodeID r else None)"
  "runCPU (replacedRun clk i r) = sriCPU i" "runMem (replacedRun clk i r) = sriMem i"
  by (simp_all add: replacedRun_def)

lemma insertedRun_keys [simp]:
  "runID (insertedRun clk rid i) = rid" "runServiceID (insertedRun clk rid i) = sriServiceID i"
  "runGeneration (insertedRun clk rid i) = sriGeneration i"
  "runStatus (insertedRun clk rid i) = StatusPending" "runNodeID (insertedRun clk rid i) = None"
  "runCPU (insertedRun clk rid i) = sriCPU i" "runMem (insertedRun clk rid i) = sriMem i"
  by (simp_all add: insertedRun_def)

lemma validateServiceRunInput_iff [res_simps]:
  "validateServiceRunInput i = Inr u \<longleftrightarrow>
     sriServiceID i \<noteq> [] \<and> sriServiceName i \<noteq> [] \<and> 0 < sriGeneration i \<and> sriImage i \<noteq> [] \<and>
     0 < sriContainerPort i \<and> sriContainerPort i \<le> 65535 \<and> 0 < sriCPU i \<and> 0 < sriMem i \<and>
     (sriExposure i = ExposurePublic \<or> sriExposure i = ExposurePrivate)"
  by (auto simp: validateServiceRunInput_def)

text \<open>The three outcomes of storing a run: a new row, an older or equal generation, a replacement.\<close>

lemma upsertServiceRunTx_cases [consumes 1, case_names insert stale replace]:
  assumes op: "upsertServiceRunTx clk e i s = Inr s'"
  obtains rid where "validateServiceRunInput i = Inr ()" "findBy runServiceID (sriServiceID i) (runs s) = None"
      "findBy runID rid (runs s) = None" "findBy serviceID (sriServiceID i) (services s) \<noteq> None"
      "s' = s\<lparr>runs := runs s @ [insertedRun clk rid i]\<rparr>"
  | cur where "findBy runServiceID (sriServiceID i) (runs s) = Some cur"
      "sriGeneration i \<le> runGeneration cur" "s' = s"
  | cur s1 where "validateServiceRunInput i = Inr ()"
      "findBy runServiceID (sriServiceID i) (runs s) = Some cur"
      "runGeneration cur < sriGeneration i"
      "s1 = s \<and> (runNodeID cur = None \<or> runStatus cur \<noteq> StatusRunning) \<or>
       (\<exists>n. runNodeID cur = Some n \<and> runStatus cur = StatusRunning \<and>
            s1 = freeNodeAllocation clk n (runCPU cur) (runMem cur) s)"
      "s' = s1\<lparr>runs := updateWhere (\<lambda>r. runServiceID r = sriServiceID i) (replacedRun clk i) (runs s1)\<rparr>"
proof -
  have v: "validateServiceRunInput i = Inr ()" using op by (auto simp: upsertServiceRunTx_def bindR_Inr_iff)
  show thesis
  proof (cases "findBy runServiceID (sriServiceID i) (runs s)")
    case None
    then obtain rid where "findBy runID rid (runs s) = None"
      "findBy serviceID (sriServiceID i) (services s) \<noteq> None"
      "s' = s\<lparr>runs := runs s @ [insertedRun clk rid i]\<rparr>"
      using op v by (auto simp: upsertServiceRunTx_def bindR_Inr_iff split: if_splits)
    then show thesis by (rule that(1) [OF v None])
  next
    case (Some cur)
    show thesis
    proof (cases "sriGeneration i \<le> runGeneration cur")
      case True
      then have "s' = s" using op v Some by (simp add: upsertServiceRunTx_def)
      then show thesis by (rule that(2) [OF Some True])
    next
      case False
      let ?s1 = "case runNodeID cur of None \<Rightarrow> s
        | Some n \<Rightarrow> if runStatus cur = StatusRunning then freeNodeAllocation clk n (runCPU cur) (runMem cur) s else s"
      have "s' = ?s1\<lparr>runs := updateWhere (\<lambda>r. runServiceID r = sriServiceID i) (replacedRun clk i) (runs ?s1)\<rparr>"
        using op v Some False by (cases e) (simp_all add: upsertServiceRunTx_def Let_def newID_def)
      moreover have "?s1 = s \<and> (runNodeID cur = None \<or> runStatus cur \<noteq> StatusRunning) \<or>
        (\<exists>n. runNodeID cur = Some n \<and> runStatus cur = StatusRunning \<and>
            ?s1 = freeNodeAllocation clk n (runCPU cur) (runMem cur) s)"
        by (simp split: option.split)
      ultimately show thesis using False v Some by (intro that(3) [of cur ?s1]) simp_all
    qed
  qed
qed

lemma upsertServiceRunTx_inv [op_inv]:
  assumes inv: "store_inv s" and op: "upsertServiceRunTx clk e i s = Inr s'"
    and v: "v \<in> set (services s)" "serviceID v = sriServiceID i" "sriGeneration i \<le> serviceGeneration v"
  shows "store_inv s'"
  using op
proof (cases rule: upsertServiceRunTx_cases)
  case (insert rid)
  have "run_ok s (insertedRun clk rid i)"
    using insert(1) v by (auto simp: run_ok_def res_simps runStatuses_def insertedRun_def)
  then show ?thesis using insert inv by (simp add: inv_append_run)
next
  case (replace cur s1)
  have cur: "cur \<in> set (runs s)" using findBy_SomeD [OF replace(2)] by simp
  have s1: "store_inv s1" "runs s1 = runs s" "services s1 = services s" "nodeIDs s1 = nodeIDs s"
    using replace(4) inv store_invD(10) [OF inv cur]
    by (auto simp: run_ok_def intro!: freeNodeAllocation_inv)
  have "run_ok s1 (replacedRun clk i r)" if "r \<in> set (runs s)" "runServiceID r = sriServiceID i" for r
    using store_invD(10) [OF inv that(1)] replace(1) v that(2) s1
    by (auto simp: run_ok_def replacedRun_def res_simps runStatuses_def preserveNode_def)
  then show ?thesis unfolding replace(5) by (intro inv_update_runs) (simp_all add: s1)
qed (use inv in simp)

lemma scanService_sel [simp]:
  "svcID (scanService v) = serviceID v" "svcGeneration (scanService v) = serviceGeneration v"
  "svcDesiredState (scanService v) = serviceDesired v" "svcHost (scanService v) = serviceHost v"
  "svcName (scanService v) = serviceName v"
  by (simp_all add: scanService_def)

lemma serviceRowOf_sel [simp]:
  "serviceID (serviceRowOf clk x i) = trimSpace (usID i)"
  "serviceGeneration (serviceRowOf clk x i) = usGeneration i"
  "serviceDesired (serviceRowOf clk x i) = ServiceDesiredActive"
  "serviceName (serviceRowOf clk x i) = trimSpace (usName i)"
  "serviceHost (serviceRowOf clk x i) = cleanDomain (usHost i)"
  "specExposure (serviceSpec (serviceRowOf clk x i)) = x"
  "specContainerPort (serviceSpec (serviceRowOf clk x i)) = specContainerPort (usSpec i)"
  by (simp_all add: serviceRowOf_def)

lemma updatedServiceRow_sel [simp]:
  "serviceID (updatedServiceRow e v) = serviceID v"
  "serviceGeneration (updatedServiceRow e v) = serviceGeneration e"
  "serviceDesired (updatedServiceRow e v) = serviceDesired e"
  "serviceName (updatedServiceRow e v) = serviceName e"
  "serviceHost (updatedServiceRow e v) = serviceHost e"
  "serviceSpec (updatedServiceRow e v) = serviceSpec e"
  by (simp_all add: updatedServiceRow_def)

lemma runInputOf_sel [simp]:
  "sriServiceID (runInputOf v c m x) = serviceID v"
  "sriGeneration (runInputOf v c m x) = serviceGeneration v"
  by (simp_all add: runInputOf_def)

text \<open>The three outcomes of an upsert: a new service, a newer spec, a generation that is refused.\<close>

lemma UpsertService_cases [consumes 1, case_names create update refused]:
  assumes op: "UpsertService clk e i s = Inr (v', s')"
  obtains c m x where "validateUpsertServiceInput i = Inr ()"
      "ResourceRequestForInstanceClass (specInstanceClass (usSpec i)) = Inr (c, m)"
      "ParseExposure (specExposure (usSpec i)) = Inr x"
      "findBy serviceID (trimSpace (usID i)) (services s) = None"
      "\<not> nameOrHostTaken (serviceRowOf clk x i) s"
      "upsertServiceRunTx clk e (runInputOf (serviceRowOf clk x i) c m x)
         (s\<lparr>services := services s @ [serviceRowOf clk x i]\<rparr>) = Inr s'"
      "v' = scanService (serviceRowOf clk x i)"
  | c m x v where "validateUpsertServiceInput i = Inr ()"
      "ResourceRequestForInstanceClass (specInstanceClass (usSpec i)) = Inr (c, m)"
      "ParseExposure (specExposure (usSpec i)) = Inr x"
      "findBy serviceID (trimSpace (usID i)) (services s) = Some v"
      "acceptsGeneration (serviceRowOf clk x i) v" "\<not> nameOrHostTaken (serviceRowOf clk x i) s"
      "upsertServiceRunTx clk e (runInputOf (updatedServiceRow (serviceRowOf clk x i) v) c m x)
         (s\<lparr>services := updateWhere (\<lambda>v. serviceID v = trimSpace (usID i))
            (updatedServiceRow (serviceRowOf clk x i)) (services s)\<rparr>) = Inr s'"
      "v' = scanService (updatedServiceRow (serviceRowOf clk x i) v)"
  | v where "validateUpsertServiceInput i = Inr ()"
      "findBy serviceID (trimSpace (usID i)) (services s) = Some v"
      "usGeneration i < serviceGeneration v \<or>
         usGeneration i = serviceGeneration v \<and> serviceDesired v = ServiceDesiredDeleted"
      "v' = scanService v" "s' = s"
proof -
  obtain c m x where v: "validateUpsertServiceInput i = Inr ()"
    and c: "ResourceRequestForInstanceClass (specInstanceClass (usSpec i)) = Inr (c, m)"
    and x: "ParseExposure (specExposure (usSpec i)) = Inr x"
    using op by (auto simp: UpsertService_def bindR_Inr_iff)
  let ?e = "serviceRowOf clk x i"
  show thesis
  proof (cases "findBy serviceID (trimSpace (usID i)) (services s)")
    case None
    show thesis
      by (rule that(1) [OF v c x None])
        (use op None in \<open>auto simp: UpsertService_def v c x Let_def bindR_Inr_iff split: if_splits\<close>)
  next
    case (Some cur)
    show thesis
    proof (cases "acceptsGeneration ?e cur")
      case True
      show thesis
        by (rule that(2) [OF v c x Some True])
          (use op Some True in \<open>auto simp: UpsertService_def v c x Let_def bindR_Inr_iff split: if_splits\<close>)
    next
      case False
      then have g: "usGeneration i < serviceGeneration cur \<or>
         usGeneration i = serviceGeneration cur \<and> serviceDesired cur = ServiceDesiredDeleted"
        by (auto simp: acceptsGeneration_def)
      show thesis
        by (rule that(3) [OF v Some g])
          (use op Some False in \<open>auto simp: UpsertService_def v c x Let_def getServiceTx_def\<close>)
    qed
  qed
qed

lemma serviceRowOf_ok:
  "validateUpsertServiceInput i = Inr () \<Longrightarrow> ParseExposure (specExposure (usSpec i)) = Inr x \<Longrightarrow>
   service_ok (serviceRowOf clk x i)"
  using ParseExposure_cases [of _ x]
  by (auto simp: service_ok_def nonBlank_def dest!: validateUpsertServiceInput_InrD validateServiceSpec_InrD)

lemma UpsertService_inv [op_inv]:
  assumes inv: "store_inv s" and op: "UpsertService clk e i s = Inr (v', s')"
  shows "store_inv s'"
  using op
proof (cases rule: UpsertService_cases)
  case (create c m x)
  let ?e = "serviceRowOf clk x i"
  have "store_inv (s\<lparr>services := services s @ [?e]\<rparr>)"
    using create serviceRowOf_ok by (intro inv_append_service [OF inv]) simp_all
  then show ?thesis by (rule upsertServiceRunTx_inv [OF _ create(6), of ?e]) simp_all
next
  case (update c m x v)
  let ?e = "serviceRowOf clk x i"
  let ?s1 = "s\<lparr>services := updateWhere (\<lambda>v. serviceID v = trimSpace (usID i)) (updatedServiceRow ?e) (services s)\<rparr>"
  note d = store_invD [OF inv]
  have v: "v \<in> set (services s)" "serviceID v = trimSpace (usID i)" using findBy_SomeD [OF update(4)] by simp_all
  have one: "w = v" if "w \<in> set (services s)" "serviceID w = trimSpace (usID i)" for w
    using inv_find_service [OF inv, of "trimSpace (usID i)" w] that update(4) by simp
  have ok: "service_ok (updatedServiceRow ?e w)" if "w \<in> set (services s)" for w
    using serviceRowOf_ok [OF update(1,3), of clk] d(9) [OF that] by (simp add: service_ok_def)
  have fresh: "serviceName w \<noteq> serviceName ?e" "serviceHost w \<noteq> serviceHost ?e"
    if "w \<in> set (services s)" "serviceID w \<noteq> trimSpace (usID i)" for w
    using update(6) that by (auto simp: nameOrHostTaken_def list_ex_iff)
  have "store_inv ?s1"
  proof (rule inv_update_services [OF inv])
    fix w assume w: "w \<in> set (services s)" "serviceID w = trimSpace (usID i)"
    have "serviceGeneration w \<le> serviceGeneration ?e"
      using update(5) one [OF w] by (auto simp: acceptsGeneration_def)
    then show "serviceID (updatedServiceRow ?e w) = serviceID w \<and>
        serviceGeneration w \<le> serviceGeneration (updatedServiceRow ?e w) \<and> service_ok (updatedServiceRow ?e w)"
      using ok [OF w(1)] by simp
  next
    show "distinct (map serviceName (updateWhere (\<lambda>v. serviceID v = trimSpace (usID i)) (updatedServiceRow ?e) (services s)))"
      by (rule distinct_map_updateWhere_key [OF d(3,4), of _ "serviceName ?e"]) (use fresh in simp_all)
    show "distinct (map serviceHost (updateWhere (\<lambda>v. serviceID v = trimSpace (usID i)) (updatedServiceRow ?e) (services s)))"
      by (rule distinct_map_updateWhere_key [OF d(3,5), of _ "serviceHost ?e"]) (use fresh in simp_all)
  qed
  moreover have "updatedServiceRow ?e v \<in> set (services ?s1)" using v by (auto simp: updateWhere_iff)
  ultimately show ?thesis by (rule upsertServiceRunTx_inv [OF _ update(7)]) simp_all
qed (use inv in simp)

text \<open>The row that deleteServiceRunTx keeps for the agent to stop, and the one it removes.\<close>

definition markedForDelete :: "clock \<Rightarrow> int \<Rightarrow> run_row \<Rightarrow> run_row" where
  "markedForDelete clk gen r =
     r\<lparr>runGeneration := gen, runStatus := StatusPending,
       runStatusReason := ''service deletion requested'', runUpdatedAt := dbNow clk\<rparr>"

lemma deleteServiceRunTx_cases [case_names none stop remove]:
  obtains "findBy runServiceID sid (runs s) = None" "deleteServiceRunTx clk sid gen s = s"
  | run where "findBy runServiceID sid (runs s) = Some run" "runStatus run = StatusRunning"
      "runNodeID run \<noteq> None" "runContainerID run \<noteq> []"
      "deleteServiceRunTx clk sid gen s =
         s\<lparr>runs := updateWhere (\<lambda>r. runServiceID r = sid) (markedForDelete clk gen) (runs s)\<rparr>"
  | run s1 where "findBy runServiceID sid (runs s) = Some run"
      "runStatus run \<noteq> StatusRunning \<or> runNodeID run = None \<or> runContainerID run = []"
      "s1 = s \<and> (runNodeID run = None \<or> runStatus run \<noteq> StatusDeploying \<and> runStatus run \<noteq> StatusPending) \<or>
       (\<exists>n. runNodeID run = Some n \<and> (runStatus run = StatusDeploying \<or> runStatus run = StatusPending) \<and>
          s1 = freeNodeAllocation clk n (runCPU run) (runMem run) s)"
      "deleteServiceRunTx clk sid gen s = s1\<lparr>runs := deleteWhere (\<lambda>r. runServiceID r = sid) (runs s1)\<rparr>"
proof (cases "findBy runServiceID sid (runs s)")
  case None
  then show thesis by (intro that(1)) (simp_all add: deleteServiceRunTx_def)
next
  case (Some run)
  show thesis
  proof (cases "runStatus run = StatusRunning \<and> runNodeID run \<noteq> None \<and> runContainerID run \<noteq> []")
    case True
    show thesis
      by (rule that(2) [OF Some]) (use True Some in \<open>simp_all add: deleteServiceRunTx_def markedForDelete_def [abs_def]\<close>)
  next
    case False
    let ?s1 = "case runNodeID run of None \<Rightarrow> s
      | Some n \<Rightarrow> if runStatus run = StatusDeploying \<or> runStatus run = StatusPending
                  then freeNodeAllocation clk n (runCPU run) (runMem run) s else s"
    show thesis
    proof (rule that(3) [OF Some])
      show "runStatus run \<noteq> StatusRunning \<or> runNodeID run = None \<or> runContainerID run = []" using False by blast
      show "?s1 = s \<and> (runNodeID run = None \<or> runStatus run \<noteq> StatusDeploying \<and> runStatus run \<noteq> StatusPending) \<or>
        (\<exists>n. runNodeID run = Some n \<and> (runStatus run = StatusDeploying \<or> runStatus run = StatusPending) \<and>
          ?s1 = freeNodeAllocation clk n (runCPU run) (runMem run) s)"
        by (simp split: option.split)
      show "deleteServiceRunTx clk sid gen s = ?s1\<lparr>runs := deleteWhere (\<lambda>r. runServiceID r = sid) (runs ?s1)\<rparr>"
        unfolding deleteServiceRunTx_def Some option.case Let_def if_not_P [OF False] ..
    qed
  qed
qed

lemma deleteServiceRunTx_inv [op_inv]:
  assumes inv: "store_inv s"
    and gen: "\<And>v. v \<in> set (services s) \<Longrightarrow> serviceID v = sid \<Longrightarrow> gen \<le> serviceGeneration v" "0 < gen"
  shows "store_inv (deleteServiceRunTx clk sid gen s)"
proof (cases rule: deleteServiceRunTx_cases [of sid s clk gen])
  case (stop run)
  have "run_ok s (markedForDelete clk gen r)" if r: "r \<in> set (runs s)" "runServiceID r = sid" for r
  proof -
    have ok: "run_ok s r" by (rule store_invD(10) [OF inv r(1)])
    then obtain v where "v \<in> set (services s)" "serviceID v = runServiceID r" by (auto simp: run_ok_def)
    then have "\<exists>v\<in>set (services s). serviceID v = runServiceID r \<and> gen \<le> serviceGeneration v"
      using gen(1) [of v] r(2) by auto
    then show ?thesis using ok gen(2) by (simp add: run_ok_def markedForDelete_def runStatuses_def)
  qed
  then show ?thesis unfolding stop(5)
    by (intro inv_update_runs [OF inv]) (simp add: markedForDelete_def)
next
  case (remove run s1)
  have "run \<in> set (runs s)" using findBy_SomeD [OF remove(1)] by simp
  then have "0 \<le> runCPU run" "0 \<le> runMem run"
    using store_invD(10) [OF inv, of run] by (simp_all add: run_ok_def)
  then have "store_inv s1" using remove(3) inv by (auto intro!: freeNodeAllocation_inv)
  then show ?thesis unfolding remove(4) by (rule inv_delete_runs)
qed (simp add: inv)

definition deletedService :: "clock \<Rightarrow> int \<Rightarrow> service_row \<Rightarrow> service_row" where
  "deletedService clk gen v =
     v\<lparr>serviceGeneration := gen, serviceDesired := ServiceDesiredDeleted, serviceUpdatedAt := dbNow clk\<rparr>"

lemma DeleteService_InrD:
  assumes op: "DeleteService clk i s = Inr s'"
  obtains cur gen where "validateDeleteServiceInput i = Inr ()"
    "findBy serviceID (trimSpace (dsID i)) (services s) = Some cur"
    "gen = max (dsGeneration i) (serviceGeneration cur)"
    "s' = deleteServiceRunTx clk (dsID i) gen (s\<lparr>services :=
       updateWhere (\<lambda>v. serviceID v = dsID i) (deletedService clk gen) (services s)\<rparr>)"
proof -
  obtain cur where v: "validateDeleteServiceInput i = Inr ()"
    and cur: "findBy serviceID (trimSpace (dsID i)) (services s) = Some cur"
    using op by (auto simp: DeleteService_def bindR_Inr_iff getServiceTx_def split: option.splits)
  show thesis
    by (rule that [OF v cur refl])
      (use op in \<open>auto simp: DeleteService_def v cur getServiceTx_def Let_def deletedService_def [abs_def] max_def
         split: if_splits\<close>)
qed

lemma DeleteService_inv [op_inv]:
  assumes inv: "store_inv s" and op: "DeleteService clk i s = Inr s'"
  shows "store_inv s'"
proof -
  obtain cur gen where v: "validateDeleteServiceInput i = Inr ()"
    and cur: "findBy serviceID (trimSpace (dsID i)) (services s) = Some cur"
    and gen: "gen = max (dsGeneration i) (serviceGeneration cur)"
    and s': "s' = deleteServiceRunTx clk (dsID i) gen (s\<lparr>services :=
       updateWhere (\<lambda>v. serviceID v = dsID i) (deletedService clk gen) (services s)\<rparr>)"
    using DeleteService_InrD [OF op] by blast
  note d = store_invD [OF inv]
  have pos: "0 < gen" using v gen by (simp add: res_simps less_max_iff_disj)
  have one: "w = cur" if w: "w \<in> set (services s)" "serviceID w = dsID i" for w
  proof -
    have "trimSpace (dsID i) = dsID i" using d(9) [OF w(1)] w(2) by (simp add: service_ok_def)
    then have "findBy serviceID (trimSpace (dsID i)) (services s) = Some w"
      using w inv_find_service [OF inv] by simp
    then show ?thesis using cur by simp
  qed
  have "store_inv (s\<lparr>services := updateWhere (\<lambda>v. serviceID v = dsID i) (deletedService clk gen) (services s)\<rparr>)"
  proof (rule inv_update_services [OF inv])
    fix w assume w: "w \<in> set (services s)" "serviceID w = dsID i"
    have "serviceGeneration w \<le> gen" using gen one [OF w] by simp
    then show "serviceID (deletedService clk gen w) = serviceID w \<and>
       serviceGeneration w \<le> serviceGeneration (deletedService clk gen w) \<and> service_ok (deletedService clk gen w)"
      using d(9) [OF w(1)] pos by (simp add: deletedService_def service_ok_def)
  qed (use d(4,5) in \<open>simp_all add: map_updateWhere deletedService_def\<close>)
  then show ?thesis unfolding s'
    by (rule deleteServiceRunTx_inv) (auto simp: updateWhere_iff deletedService_def pos)
qed

lemma inv_frontdoor_update:
  "store_inv s \<Longrightarrow>
   (\<And>v. serviceID (f v) = serviceID v \<and> serviceName (f v) = serviceName v \<and> serviceHost (f v) = serviceHost v
     \<and> serviceGeneration (f v) = serviceGeneration v \<and> serviceDesired (f v) = serviceDesired v
     \<and> serviceSpec (f v) = serviceSpec v) \<Longrightarrow>
   store_inv (s\<lparr>services := updateWhere p f (services s)\<rparr>)"
  by (rule inv_update_services) (auto simp: map_updateWhere service_ok_def dest: store_invD)

lemma SaveServiceFrontDoor_inv [op_inv]: "store_inv s \<Longrightarrow> store_inv (SaveServiceFrontDoor clk h st s)"
  by (simp add: SaveServiceFrontDoor_def Let_def inv_frontdoor_update split: prod.split)

lemma ClearServiceFrontDoor_inv [op_inv]: "store_inv s \<Longrightarrow> store_inv (ClearServiceFrontDoor clk h s)"
  by (simp add: ClearServiceFrontDoor_def Let_def inv_frontdoor_update)

end
