(* ===== verification/StoreMachine.thy ===== *)
theory StoreMachine
  imports StoreOps
begin

text \<open>
  The store as a machine: a step is one transaction of any of its operations that commits, called
  with any arguments, at any time, by the API of the cloud-plane, by its reconcilers or by a node
  agent.  Reachable states are those the steps lead to from the empty database.
\<close>

inductive store_step :: "db \<Rightarrow> db \<Rightarrow> bool" where
  step_create: "CreateProvisioningNode clk e i s = Inr (n, s') \<Longrightarrow> store_step s s'"
| step_bind: "BindProvisionedNode clk nid inst name ityp reason obs s = Inr (n, s') \<Longrightarrow> store_step s s'"
| step_register: "RegisterNode clk e i s = Inr (n, s') \<Longrightarrow> store_step s s'"
| step_heartbeat: "RecordNodeHeartbeat clk nid i s = Inr (st, s') \<Longrightarrow> store_step s s'"
| step_prepare: "PrepareNodeDeletion clk nid reason obs s = Inr (r, s') \<Longrightarrow> store_step s s'"
| step_deleted: "MarkNodeDeleted clk nid reason obs s = Inr (n, s') \<Longrightarrow> store_step s s'"
| step_offline: "MarkStaleNodeHeartbeatsOffline clk stale s = Inr (r, s') \<Longrightarrow> store_step s s'"
| step_claim: "ClaimServiceRun clk nid s = Inr (w, s') \<Longrightarrow> store_step s s'"
| step_report: "UpdateExecutionFromNodeReport clk nid eid i s = Inr ((rec, t), s') \<Longrightarrow> store_step s s'"
| step_upsert: "UpsertService clk e i s = Inr (v, s') \<Longrightarrow> store_step s s'"
| step_delete: "DeleteService clk i s = Inr s' \<Longrightarrow> store_step s s'"
| step_save: "store_step s (SaveServiceFrontDoor clk h st s)"
| step_clear: "store_step s (ClearServiceFrontDoor clk h s)"
| step_run_failed: "MarkServiceRunFailed clk sid reason s = Inr s' \<Longrightarrow> store_step s s'"
| step_pending_failed:
    "MarkPendingServiceRunFailedForProvisioningNode md5 clk prefix name reason s = Inr s' \<Longrightarrow> store_step s s'"

inductive store_reachable :: "db \<Rightarrow> bool" where
  reach_init: "store_reachable emptyDB"
| reach_step: "store_reachable s \<Longrightarrow> store_step s s' \<Longrightarrow> store_reachable s'"

lemma store_step_inv: "store_step s s' \<Longrightarrow> store_inv s \<Longrightarrow> store_inv s'"
  by (induction rule: store_step.induct)
    ((rule op_inv, assumption, assumption) | (rule op_inv, assumption))+

lemma store_steps_inv: "store_step\<^sup>*\<^sup>* s s' \<Longrightarrow> store_inv s \<Longrightarrow> store_inv s'"
  by (induction rule: rtranclp_induct) (auto intro: store_step_inv)

lemma store_reachable_inv: "store_reachable s \<Longrightarrow> store_inv s"
  by (induction rule: store_reachable.induct) (auto intro: store_step_inv store_inv_empty)

lemma store_reachable_steps: "store_step\<^sup>*\<^sup>* s s' \<Longrightarrow> store_reachable s \<Longrightarrow> store_reachable s'"
  by (induction rule: rtranclp_induct) (auto intro: reach_step)

section \<open>The life of a node\<close>

definition retired :: "string \<Rightarrow> bool" where
  "retired st \<longleftrightarrow> st = StatusDraining \<or> st = StatusDeleted"

definition node_evolves :: "node \<Rightarrow> node \<Rightarrow> bool" where
  "node_evolves a b \<longleftrightarrow>
     nodeID b = nodeID a \<and> nodeProvider b = nodeProvider a \<and> nodeElastic b = nodeElastic a \<and>
     nodeCreatedAt b = nodeCreatedAt a \<and>
     (retired (nodeStatus a) \<longrightarrow> retired (nodeStatus b)) \<and>
     (nodeStatus a = StatusDeleted \<longrightarrow> nodeStatus b = StatusDeleted) \<and>
     (nodeStatus b = StatusProvisioning \<longrightarrow> nodeStatus a = StatusProvisioning) \<and>
     (nodeStatus a \<noteq> StatusProvisioning \<longrightarrow>
        nodeInstanceID b = nodeInstanceID a \<or> nodeStatus b = StatusDeleted \<and> nodeInstanceID b = None)"

definition nodes_evolve :: "node list \<Rightarrow> node list \<Rightarrow> bool" where
  "nodes_evolve ns ms \<longleftrightarrow> (\<forall>n\<in>set ns. \<exists>m\<in>set ms. node_evolves n m)"

lemma retired_const [simp]:
  "retired StatusDraining" "retired StatusDeleted" "\<not> retired StatusProvisioning"
  "\<not> retired StatusRegistering" "\<not> retired StatusReady" "\<not> retired StatusOffline"
  by (simp_all add: retired_def)

lemma node_evolves_refl [simp]: "node_evolves n n"
  by (simp add: node_evolves_def)

lemma nodes_evolve_refl [simp]: "nodes_evolve ns ns"
  unfolding nodes_evolve_def using node_evolves_refl by blast

lemma nodes_evolve_append [simp]: "nodes_evolve ns (ns @ ms)"
  unfolding nodes_evolve_def set_append using node_evolves_refl by blast

lemma nodes_evolve_update:
  "(\<And>n. n \<in> set ns \<Longrightarrow> p n \<Longrightarrow> node_evolves n (f n)) \<Longrightarrow> nodes_evolve ns (updateWhere p f ns)"
  unfolding nodes_evolve_def updateWhere_iff [abs_def] Bex_def updateWhere_iff
  by (metis node_evolves_refl)

lemma retired_not_provisioning: "retired st \<Longrightarrow> st \<noteq> StatusProvisioning"
  by (auto simp: retired_def)

lemma node_evolves_trans:
  assumes ab: "node_evolves a b" and bc: "node_evolves b c"
  shows "node_evolves a c"
proof -
  have "nodeInstanceID c = nodeInstanceID a \<or> nodeStatus c = StatusDeleted \<and> nodeInstanceID c = None"
    if np: "nodeStatus a \<noteq> StatusProvisioning"
  proof -
    have b: "nodeStatus b \<noteq> StatusProvisioning" using ab np by (auto simp: node_evolves_def)
    consider "nodeInstanceID b = nodeInstanceID a" | "nodeStatus b = StatusDeleted" "nodeInstanceID b = None"
      using ab np by (auto simp: node_evolves_def)
    then show ?thesis
    proof cases
      case 1
      then show ?thesis using bc b by (simp add: node_evolves_def)
    next
      case 2
      then have "nodeStatus c = StatusDeleted" "nodeInstanceID c = None"
        using bc b by (auto simp: node_evolves_def)
      then show ?thesis by simp
    qed
  qed
  moreover have "nodeID c = nodeID a" "nodeProvider c = nodeProvider a" "nodeElastic c = nodeElastic a"
    "nodeCreatedAt c = nodeCreatedAt a"
    using ab bc unfolding node_evolves_def by presburger+
  moreover have "retired (nodeStatus a) \<longrightarrow> retired (nodeStatus c)"
    "nodeStatus a = StatusDeleted \<longrightarrow> nodeStatus c = StatusDeleted"
    "nodeStatus c = StatusProvisioning \<longrightarrow> nodeStatus a = StatusProvisioning"
    using ab bc unfolding node_evolves_def by blast+
  ultimately show ?thesis unfolding node_evolves_def by blast
qed

lemma nodes_evolve_trans: "nodes_evolve a b \<Longrightarrow> nodes_evolve b c \<Longrightarrow> nodes_evolve a c"
  unfolding nodes_evolve_def by (meson node_evolves_trans)

lemma heartbeatRow_evolves: "node_evolves n (heartbeatRow clk i n)"
  by (auto simp: node_evolves_def heartbeatRow_def heartbeatStatus_def retired_def)

lemma reRegistered_evolves: "node_evolves n (reRegistered clk i n)"
  by (auto simp: node_evolves_def reRegistered_def retired_def Let_def)

lemma deletedRow_evolves: "node_evolves n (deletedRow obs reason n)"
  by (auto simp: node_evolves_def deletedRow_def)

lemma freeNodeAllocation_evolves [simp]: "nodes_evolve (nodes s) (nodes (freeNodeAllocation clk nid c m s))"
  by (auto simp: freeNodeAllocation_def node_evolves_def intro!: nodes_evolve_update)

lemma reserveNodeAllocation_evolves [simp]: "nodes_evolve (nodes s) (nodes (reserveNodeAllocation clk nid c m s))"
  by (auto simp: reserveNodeAllocation_def node_evolves_def intro!: nodes_evolve_update)

lemma upsertServiceRunTx_evolves:
  "upsertServiceRunTx clk e i s = Inr s' \<Longrightarrow> nodes_evolve (nodes s) (nodes s')"
proof (erule upsertServiceRunTx_cases)
  fix cur s1
  assume "s1 = s \<and> (runNodeID cur = None \<or> runStatus cur \<noteq> StatusRunning) \<or>
       (\<exists>n. runNodeID cur = Some n \<and> runStatus cur = StatusRunning \<and>
            s1 = freeNodeAllocation clk n (runCPU cur) (runMem cur) s)"
  then have "nodes_evolve (nodes s) (nodes s1)" by auto
  moreover assume "s' = s1\<lparr>runs := updateWhere (\<lambda>r. runServiceID r = sriServiceID i) (replacedRun clk i) (runs s1)\<rparr>"
  ultimately show "nodes_evolve (nodes s) (nodes s')" by simp
qed simp_all

lemma deleteServiceRunTx_evolves: "nodes_evolve (nodes s) (nodes (deleteServiceRunTx clk sid gen s))"
  by (cases rule: deleteServiceRunTx_cases [of sid s clk gen]) auto

text \<open>The nodes that MarkStaleNodeHeartbeatsOffline visits are live when their turn comes.\<close>

definition liveAll :: "node list \<Rightarrow> db \<Rightarrow> bool" where
  "liveAll ns s \<longleftrightarrow> (\<forall>m\<in>set (nodes s). \<forall>n\<in>set ns. nodeID m = nodeID n \<longrightarrow> \<not> retired (nodeStatus m))"

lemma liveAll_update:
  assumes "liveAll ns s" "\<And>n. nodeID (f n) = nodeID n"
    "\<And>n. \<not> retired (nodeStatus n) \<Longrightarrow> \<not> retired (nodeStatus (f n))"
  shows "liveAll ns (s\<lparr>nodes := updateWhere p f (nodes s)\<rparr>)"
  unfolding liveAll_def
proof (intro ballI impI)
  fix m n assume m: "m \<in> set (nodes (s\<lparr>nodes := updateWhere p f (nodes s)\<rparr>))" "n \<in> set ns" "nodeID m = nodeID n"
  then obtain r where r: "r \<in> set (nodes s)" "m = (if p r then f r else r)" by (auto simp: updateWhere_iff)
  then have "nodeID r = nodeID n" using m(3) assms(2) [of r] by (cases "p r") simp_all
  then have "\<not> retired (nodeStatus r)" using assms(1) m(2) r(1) unfolding liveAll_def by blast
  then show "\<not> retired (nodeStatus m)" using r(2) assms(3) by simp
qed

lemma failServiceRunsForOfflineNode_nodes:
  "nodes_evolve (nodes s) (nodes (snd (failServiceRunsForOfflineNode clk n reason s)))"
  "liveAll ns s \<Longrightarrow> liveAll ns (snd (failServiceRunsForOfflineNode clk n reason s))"
proof -
  have fold: "nodes_evolve (nodes s) (nodes (fold (\<lambda>item s. freeNodeAllocation clk nid (runCPU item) (runMem item)
     (s\<lparr>runs := updateWhere (\<lambda>r. runID r = runID item) (failRun clk reason) (runs s)\<rparr>)) items s)) \<and>
     (liveAll ns s \<longrightarrow> liveAll ns (fold (\<lambda>item s. freeNodeAllocation clk nid (runCPU item) (runMem item)
     (s\<lparr>runs := updateWhere (\<lambda>r. runID r = runID item) (failRun clk reason) (runs s)\<rparr>)) items s))" for nid items s
  proof (induction items arbitrary: s)
    case (Cons i items)
    let ?s1 = "freeNodeAllocation clk nid (runCPU i) (runMem i)
     (s\<lparr>runs := updateWhere (\<lambda>r. runID r = runID i) (failRun clk reason) (runs s)\<rparr>)"
    have "nodes_evolve (nodes s) (nodes ?s1)"
      using freeNodeAllocation_evolves [of "s\<lparr>runs := updateWhere (\<lambda>r. runID r = runID i) (failRun clk reason) (runs s)\<rparr>"]
      by simp
    moreover have "liveAll ns s \<longrightarrow> liveAll ns ?s1"
      unfolding freeNodeAllocation_def by (intro impI liveAll_update) (simp_all add: liveAll_def)
    ultimately show ?case using Cons.IH [of ?s1] nodes_evolve_trans by auto
  qed simp
  show "nodes_evolve (nodes s) (nodes (snd (failServiceRunsForOfflineNode clk n reason s)))"
    "liveAll ns s \<Longrightarrow> liveAll ns (snd (failServiceRunsForOfflineNode clk n reason s))"
    unfolding failServiceRunsForOfflineNode_def Let_def snd_conv
    by (rule conjunct1 [OF fold], rule mp [OF conjunct2 [OF fold]])
qed

lemma markNodeOffline_evolves:
  "liveAll (n # ns) s \<Longrightarrow> nodes_evolve (nodes s) (nodes (markNodeOffline clk (nodeID n) s))"
  unfolding markNodeOffline_def liveAll_def
  by (auto intro!: nodes_evolve_update simp: node_evolves_def retired_def)

lemma markNodeOffline_live: "liveAll (n # ns) s \<Longrightarrow> liveAll ns (markNodeOffline clk (nodeID n) s)"
  unfolding markNodeOffline_def by (rule liveAll_update) (simp_all add: liveAll_def)

lemma offlineLoop_evolves:
  "liveAll ns s \<Longrightarrow> nodes_evolve (nodes s) (nodes (snd (offlineLoop clk cutoff ns counts s)))"
proof (induction clk cutoff ns counts s rule: offlineLoop.induct)
  case (2 clk cutoff n ns offline failed s)
  let ?s1 = "markNodeOffline clk (nodeID n) s"
  let ?reason = "offlineReason cutoff n"
  obtain k s2 where s2: "failServiceRunsForOfflineNode clk n ?reason ?s1 = (k, s2)" by fastforce
  have "nodes_evolve (nodes s) (nodes ?s1)" using 2(2) by (rule markNodeOffline_evolves)
  moreover have "nodes_evolve (nodes ?s1) (nodes s2)"
    using failServiceRunsForOfflineNode_nodes(1) [of ?s1 clk n ?reason] s2 by simp
  moreover have "liveAll ns s2"
    using failServiceRunsForOfflineNode_nodes(2) [OF markNodeOffline_live [OF 2(2), of clk], of clk n ?reason] s2 by simp
  then have "nodes_evolve (nodes s2) (nodes (snd (offlineLoop clk cutoff ns (Suc offline, failed + k) s2)))"
    using 2(1) [OF s2 [symmetric]] by simp
  ultimately show ?case using s2 nodes_evolve_trans by auto
qed simp

lemma MarkStale_evolves:
  assumes inv: "store_inv s" and op: "MarkStaleNodeHeartbeatsOffline clk stale s = Inr (r, s')"
  shows "nodes_evolve (nodes s) (nodes s')"
proof -
  let ?c = "addDur (goNow clk) (- stale)"
  let ?ns = "selectWhere (staleNode ?c) heartbeatKey (nodes s)"
  have s': "s' = snd (offlineLoop clk ?c ?ns (0, 0) s)"
    using op by (auto simp: MarkStaleNodeHeartbeatsOffline_def Let_def split: if_splits)
  have "\<not> retired (nodeStatus m)" if m: "m \<in> set (nodes s)" "n \<in> set ?ns" "nodeID m = nodeID n" for m n
  proof -
    have "n \<in> set (nodes s)" "staleNode ?c n" using m(2) by auto
    then show ?thesis using m(3) inv_node_eqI [OF inv m(1)] by (auto simp: staleNode_def retired_def)
  qed
  then show ?thesis unfolding s' by (intro offlineLoop_evolves) (simp add: liveAll_def)
qed

lemma store_step_nodes:
  assumes step: "store_step s s'" and inv: "store_inv s"
  shows "nodes_evolve (nodes s) (nodes s')"
  using step
proof cases
  case (step_create clk e i n)
  then show ?thesis by (auto simp: CreateProvisioningNode_def bindR_Inr_iff Let_def split: if_splits)
next
  case (step_bind clk nid inst name ityp reason obs n)
  then show ?thesis
    by (auto simp: BindProvisionedNode_def Let_def node_evolves_def split: option.splits if_splits
        intro!: nodes_evolve_update)
next
  case (step_register clk e i n)
  then show ?thesis
    by (auto simp: RegisterNode_def bindR_Inr_iff split: option.splits if_splits
        intro!: nodes_evolve_update reRegistered_evolves)
next
  case (step_heartbeat clk nid i st)
  then show ?thesis
    by (auto simp: RecordNodeHeartbeat_def bindR_Inr_iff split: option.splits if_splits
        intro!: nodes_evolve_update heartbeatRow_evolves)
next
  case (step_prepare clk nid reason obs r)
  then show ?thesis
  proof (cases rule: PrepareNodeDeletion_cases)
    case (drained n)
    show ?thesis unfolding drained(8)
    proof (simp, rule nodes_evolve_update)
      fix m assume "m \<in> set (nodes s)" "nodeID m = nid"
      then have "m = n" using inv_node_eqI [OF inv, of m n] drained(1,2) by simp
      then show "node_evolves m (drainedRow clk reason obs m)"
        using drained(3) by (simp add: node_evolves_def drainedRow_def)
    qed
  qed simp_all
next
  case (step_deleted clk nid reason obs n)
  then show ?thesis
    by (auto simp: MarkNodeDeleted_def Let_def split: option.splits intro!: nodes_evolve_update deletedRow_evolves)
next
  case (step_offline clk stale r)
  then show ?thesis by (rule MarkStale_evolves [OF inv])
next
  case (step_claim clk nid w)
  then show ?thesis
  proof (cases rule: ClaimServiceRun_cases)
    case (run n r v)
    show ?thesis unfolding run(14)
      using reserveNodeAllocation_evolves [of "markServiceRunDeploying clk (runID r) nid
          (wiContainerName (workItemOf r v)) WorkActionRun s"] by simp
  qed simp_all
next
  case (step_report clk nid eid i rec t)
  then show ?thesis
  proof (cases rule: Report_cases)
    case (outcome r d fin)
    show ?thesis unfolding outcome(10) Let_def
      using freeNodeAllocation_evolves [of "updateServiceRunReport clk eid i fin s"] by simp
  qed simp
next
  case (step_upsert clk e i v)
  then show ?thesis
    by (cases rule: UpsertService_cases) (auto dest: upsertServiceRunTx_evolves)
next
  case (step_delete clk i)
  from step_delete show ?thesis
  proof (rule DeleteService_InrD)
    fix cur gen
    let ?s1 = "s\<lparr>services := updateWhere (\<lambda>v. serviceID v = dsID i) (deletedService clk gen) (services s)\<rparr>"
    assume "s' = deleteServiceRunTx clk (dsID i) gen ?s1"
    then show ?thesis using deleteServiceRunTx_evolves [of ?s1 clk "dsID i" gen] by simp
  qed
next
  case (step_save clk h st)
  then show ?thesis by (simp add: SaveServiceFrontDoor_def Let_def split: prod.split)
next
  case (step_clear clk h)
  then show ?thesis by (simp add: ClearServiceFrontDoor_def Let_def)
next
  case (step_run_failed clk sid reason)
  then show ?thesis by (auto simp: MarkServiceRunFailed_def split: if_splits)
next
  case (step_pending_failed md5 clk prefix name reason)
  then show ?thesis by (auto simp: MarkPendingServiceRunFailedForProvisioningNode_def split: if_splits)
qed

lemma store_steps_nodes:
  "store_step\<^sup>*\<^sup>* s s' \<Longrightarrow> store_inv s \<Longrightarrow> nodes_evolve (nodes s) (nodes s')"
  by (induction rule: rtranclp_induct)
    (auto intro: nodes_evolve_trans store_step_nodes store_steps_inv)

section \<open>The life of a service\<close>

definition service_evolves :: "service_row \<Rightarrow> service_row \<Rightarrow> bool" where
  "service_evolves a b \<longleftrightarrow>
     serviceID b = serviceID a \<and> serviceCreatedAt b = serviceCreatedAt a \<and>
     (serviceGeneration a < serviceGeneration b \<or>
      serviceGeneration a = serviceGeneration b \<and>
      (serviceDesired a = ServiceDesiredDeleted \<longrightarrow> serviceDesired b = ServiceDesiredDeleted))"

definition services_evolve :: "service_row list \<Rightarrow> service_row list \<Rightarrow> bool" where
  "services_evolve vs ws \<longleftrightarrow> (\<forall>v\<in>set vs. \<exists>w\<in>set ws. service_evolves v w)"

lemma service_evolves_refl [simp]: "service_evolves v v"
  by (simp add: service_evolves_def)

lemma services_evolve_refl [simp]: "services_evolve vs vs"
  unfolding services_evolve_def using service_evolves_refl by blast

lemma services_evolve_append [simp]: "services_evolve vs (vs @ ws)"
  unfolding services_evolve_def set_append using service_evolves_refl by blast

lemma services_evolve_update:
  "(\<And>v. v \<in> set vs \<Longrightarrow> p v \<Longrightarrow> service_evolves v (f v)) \<Longrightarrow> services_evolve vs (updateWhere p f vs)"
  unfolding services_evolve_def Bex_def updateWhere_iff by (metis service_evolves_refl)

lemma services_evolve_trans: "services_evolve a b \<Longrightarrow> services_evolve b c \<Longrightarrow> services_evolve a c"
proof -
  have "service_evolves x z" if "service_evolves x y" "service_evolves y z" for x y z
    using that by (auto simp: service_evolves_def)
  then show "services_evolve a b \<Longrightarrow> services_evolve b c \<Longrightarrow> services_evolve a c"
    unfolding services_evolve_def by meson
qed

text \<open>The operations on nodes and runs leave the table of services alone.\<close>

lemma failServiceRunsForOfflineNode_services [simp]:
  "services (snd (failServiceRunsForOfflineNode clk n reason s)) = services s"
proof -
  have "services (fold (\<lambda>item s. freeNodeAllocation clk nid (runCPU item) (runMem item)
     (s\<lparr>runs := updateWhere (\<lambda>r. runID r = runID item) (failRun clk reason) (runs s)\<rparr>)) items s) = services s"
    for nid items s by (induction items arbitrary: s) simp_all
  then show ?thesis by (simp add: failServiceRunsForOfflineNode_def Let_def)
qed

lemma offlineLoop_services [simp]: "services (snd (offlineLoop clk cutoff ns counts s)) = services s"
proof (induction clk cutoff ns counts s rule: offlineLoop.induct)
  case (2 clk cutoff n ns offline failed s)
  let ?s1 = "markNodeOffline clk (nodeID n) s"
  obtain k s2 where s2: "failServiceRunsForOfflineNode clk n (offlineReason cutoff n) ?s1 = (k, s2)" by fastforce
  then have "services s2 = services s"
    using failServiceRunsForOfflineNode_services [of clk n "offlineReason cutoff n" ?s1] by simp
  then show ?case using 2 [OF s2 [symmetric]] s2 by simp
qed simp

lemma upsertServiceRunTx_services: "upsertServiceRunTx clk e i s = Inr s' \<Longrightarrow> services s' = services s"
  by (erule upsertServiceRunTx_cases) (auto simp: disj_imp)

lemma deleteServiceRunTx_services [simp]: "services (deleteServiceRunTx clk sid gen s) = services s"
  by (cases rule: deleteServiceRunTx_cases [of sid s clk gen]) auto

lemma services_frame:
  "MarkStaleNodeHeartbeatsOffline clk stale s = Inr (c, s') \<Longrightarrow> services s' = services s"
  "ClaimServiceRun clk nid s = Inr (w, s') \<Longrightarrow> services s' = services s"
  "UpdateExecutionFromNodeReport clk nid eid i s = Inr ((rec, t), s') \<Longrightarrow> services s' = services s"
  subgoal by (auto simp: MarkStaleNodeHeartbeatsOffline_def Let_def split: if_splits)
      (metis offlineLoop_services snd_conv)
  subgoal by (erule ClaimServiceRun_cases) simp_all
  subgoal by (erule Report_cases) (simp_all add: Let_def)
  done

end
