(* ===== verification/StoreHistory.thy ===== *)
theory StoreHistory
  imports StoreMachine
begin

text \<open>
  What a step of the store can do to a service and to a run: the generations only grow, a deleted
  service comes back only with a greater generation, and a run moves along its life cycle.
\<close>

lemma CreateProvisioningNode_frame:
  "CreateProvisioningNode clk e i s = Inr (n, s') \<Longrightarrow> services s' = services s \<and> runs s' = runs s"
  by (auto simp: CreateProvisioningNode_def bindR_Inr_iff Let_def split: if_splits)

lemma BindProvisionedNode_frame:
  "BindProvisionedNode clk nid inst name ityp reason obs s = Inr (n, s') \<Longrightarrow>
   services s' = services s \<and> runs s' = runs s"
  by (auto simp: BindProvisionedNode_def Let_def split: option.splits if_splits)

lemma RegisterNode_frame:
  "RegisterNode clk e i s = Inr (n, s') \<Longrightarrow> services s' = services s \<and> runs s' = runs s"
  by (auto simp: RegisterNode_def bindR_Inr_iff split: option.splits if_splits)

lemma RecordNodeHeartbeat_frame:
  "RecordNodeHeartbeat clk nid i s = Inr (st, s') \<Longrightarrow> services s' = services s \<and> runs s' = runs s"
  by (auto simp: RecordNodeHeartbeat_def bindR_Inr_iff split: option.splits if_splits)

lemma PrepareNodeDeletion_frame:
  "PrepareNodeDeletion clk nid reason obs s = Inr (r, s') \<Longrightarrow> services s' = services s \<and> runs s' = runs s"
  by (erule PrepareNodeDeletion_cases) auto

lemma MarkNodeDeleted_frame:
  "MarkNodeDeleted clk nid reason obs s = Inr (n, s') \<Longrightarrow> services s' = services s \<and> runs s' = runs s"
  by (auto simp: MarkNodeDeleted_def Let_def split: option.splits)

lemma SaveServiceFrontDoor_frame [simp]:
  "nodes (SaveServiceFrontDoor clk h st s) = nodes s" "runs (SaveServiceFrontDoor clk h st s) = runs s"
  by (simp_all add: SaveServiceFrontDoor_def Let_def split: prod.split)

lemma ClearServiceFrontDoor_frame [simp]:
  "nodes (ClearServiceFrontDoor clk h s) = nodes s" "runs (ClearServiceFrontDoor clk h s) = runs s"
  by (simp_all add: ClearServiceFrontDoor_def Let_def)

lemmas node_op_frames =
  CreateProvisioningNode_frame BindProvisionedNode_frame RegisterNode_frame RecordNodeHeartbeat_frame
  PrepareNodeDeletion_frame MarkNodeDeleted_frame

lemma MarkServiceRunFailed_frame:
  "MarkServiceRunFailed clk sid reason s = Inr s' \<Longrightarrow> services s' = services s"
  by (auto simp: MarkServiceRunFailed_def split: if_splits)

lemma MarkPending_frame:
  "MarkPendingServiceRunFailedForProvisioningNode md5 clk prefix name reason s = Inr s' \<Longrightarrow>
   services s' = services s"
  by (auto simp: MarkPendingServiceRunFailedForProvisioningNode_def split: if_splits)

lemma UpsertService_services:
  assumes inv: "store_inv s" and op: "UpsertService clk e i s = Inr (v', s')"
  shows "services_evolve (services s) (services s')"
  using op
proof (cases rule: UpsertService_cases)
  case (create c m x)
  then show ?thesis by (auto dest: upsertServiceRunTx_services)
next
  case (update c m x v)
  have "w = v" if "w \<in> set (services s)" "serviceID w = trimSpace (usID i)" for w
    using inv_find_service [OF inv, of "trimSpace (usID i)" w] that update(4) by simp
  then have "services_evolve (services s) (updateWhere (\<lambda>v. serviceID v = trimSpace (usID i))
      (updatedServiceRow (serviceRowOf clk x i)) (services s))"
    using update(5) by (intro services_evolve_update)
      (auto simp: service_evolves_def acceptsGeneration_def updatedServiceRow_def)
  then show ?thesis using upsertServiceRunTx_services [OF update(7)] by simp
qed simp

lemma DeleteService_services:
  assumes inv: "store_inv s" and op: "DeleteService clk i s = Inr s'"
  shows "services_evolve (services s) (services s')"
proof -
  obtain cur gen where cur: "findBy serviceID (trimSpace (dsID i)) (services s) = Some cur"
    and gen: "gen = max (dsGeneration i) (serviceGeneration cur)"
    and s': "s' = deleteServiceRunTx clk (dsID i) gen (s\<lparr>services :=
       updateWhere (\<lambda>v. serviceID v = dsID i) (deletedService clk gen) (services s)\<rparr>)"
    using DeleteService_InrD [OF op] by metis
  have "service_evolves w (deletedService clk gen w)" if w: "w \<in> set (services s)" "serviceID w = dsID i" for w
  proof -
    have "trimSpace (dsID i) = dsID i" using store_invD(9) [OF inv w(1)] w(2) by (simp add: service_ok_def)
    then have "w = cur" using w inv_find_service [OF inv, of "dsID i" w] cur by simp
    then show ?thesis using gen by (auto simp: service_evolves_def deletedService_def)
  qed
  then show ?thesis by (simp add: s' services_evolve_update)
qed

lemma frontdoor_services:
  "services_evolve (services s) (services (SaveServiceFrontDoor clk h st s))"
  "services_evolve (services s) (services (ClearServiceFrontDoor clk h s))"
  by (auto simp: SaveServiceFrontDoor_def ClearServiceFrontDoor_def Let_def service_evolves_def
      split: prod.split intro!: services_evolve_update)

lemma store_step_services:
  "store_step s s' \<Longrightarrow> store_inv s \<Longrightarrow> services_evolve (services s) (services s')"
proof (induction rule: store_step.induct)
  case (step_upsert clk e i s v s')
  then show ?case using UpsertService_services by blast
next
  case (step_delete clk i s s')
  then show ?case using DeleteService_services by blast
next
  case (step_save s clk h st)
  show ?case by (rule frontdoor_services)
next
  case (step_clear s clk h)
  show ?case by (rule frontdoor_services)
qed (simp_all add: node_op_frames services_frame MarkServiceRunFailed_frame MarkPending_frame)

lemma store_steps_services:
  "store_step\<^sup>*\<^sup>* s s' \<Longrightarrow> store_inv s \<Longrightarrow> services_evolve (services s) (services s')"
  by (induction rule: rtranclp_induct)
    (auto intro: services_evolve_trans store_step_services store_steps_inv)

section \<open>The life of a run\<close>

text \<open>
  Within one generation a run is claimed, started, and finished or failed; a running one becomes
  pending again when its service is deleted, for the agent to stop its container.  Only a newer
  generation starts the life cycle over.
\<close>

definition run_next :: "string \<Rightarrow> string \<Rightarrow> bool" where
  "run_next a b \<longleftrightarrow>
     a = StatusPending \<and> (b = StatusDeploying \<or> b = StatusFailed) \<or>
     a = StatusDeploying \<and> (b = StatusDeploying \<or> b = StatusRunning \<or> b = StatusSucceeded \<or> b = StatusFailed) \<or>
     a = StatusRunning \<and> (b = StatusPending \<or> b = StatusFailed)"

definition run_evolves :: "run_row \<Rightarrow> run_row \<Rightarrow> bool" where
  "run_evolves a b \<longleftrightarrow>
     runID b = runID a \<and> runServiceID b = runServiceID a \<and> runCreatedAt b = runCreatedAt a \<and>
     (b = a \<or>
      runGeneration a < runGeneration b \<and> runStatus b = StatusPending \<or>
      runGeneration a = runGeneration b \<and> run_next (runStatus a) (runStatus b))"

definition run_kept :: "db \<Rightarrow> run_row \<Rightarrow> bool" where
  "run_kept s r \<longleftrightarrow>
     (\<exists>r'\<in>set (runs s). run_evolves r r') \<or>
     (\<exists>v\<in>set (services s). serviceID v = runServiceID r \<and> serviceDesired v = ServiceDesiredDeleted)"

lemma run_evolves_refl [simp]: "run_evolves r r"
  by (simp add: run_evolves_def)

lemma run_kept_same: "r \<in> set (runs s) \<Longrightarrow> run_kept s r"
  unfolding run_kept_def using run_evolves_refl by blast

lemma run_kept_frame: "runs s' = runs s \<Longrightarrow> r \<in> set (runs s) \<Longrightarrow> run_kept s' r"
  by (simp add: run_kept_same)

lemma run_kept_update:
  assumes "runs s' = updateWhere p f (runs s)" "r \<in> set (runs s)" "p r \<Longrightarrow> run_evolves r (f r)"
  shows "run_kept s' r"
proof -
  have "(if p r then f r else r) \<in> set (runs s')" using assms(1,2) by (auto simp: updateWhere_iff)
  moreover have "run_evolves r (if p r then f r else r)" using assms(3) by simp
  ultimately show ?thesis unfolding run_kept_def by blast
qed

lemma failRun_evolves:
  "runStatus r = StatusPending \<or> runStatus r = StatusDeploying \<or> runStatus r = StatusRunning \<Longrightarrow>
   run_evolves r (failRun clk reason r)"
  by (auto simp: run_evolves_def run_next_def failRun_def)

text \<open>
  An offline node: every run on it that is pending, deploying or running fails, and no other.
\<close>

definition heldBy :: "string \<Rightarrow> run_row \<Rightarrow> bool" where
  "heldBy nid r \<longleftrightarrow> runNodeID r = Some nid \<and>
     (runStatus r = StatusPending \<or> runStatus r = StatusDeploying \<or> runStatus r = StatusRunning)"

lemma failRun_fold_runs:
  "runs (fold (\<lambda>item s. freeNodeAllocation clk nid (runCPU item) (runMem item)
     (s\<lparr>runs := updateWhere (\<lambda>r. runID r = runID item) (failRun clk reason) (runs s)\<rparr>)) items s) =
   fold (\<lambda>item. updateWhere (\<lambda>r. runID r = runID item) (failRun clk reason)) items (runs s)"
  by (induction items arbitrary: s) simp_all

lemma fold_updateWhere_ids:
  "distinct (map runID items) \<Longrightarrow>
   fold (\<lambda>item. updateWhere (\<lambda>r. runID r = runID item) (failRun clk reason)) items rs =
   updateWhere (\<lambda>r. runID r \<in> runID ` set items) (failRun clk reason) rs"
proof (induction items arbitrary: rs)
  case (Cons i items)
  then show ?case by (auto simp: updateWhere_def)
qed (simp add: updateWhere_def)

lemma failServiceRunsForOfflineNode_runs:
  assumes "distinct (map runID (runs s))"
  shows "runs (snd (failServiceRunsForOfflineNode clk n reason s)) =
    updateWhere (heldBy (nodeID n)) (failRun clk reason) (runs s)"
proof -
  let ?items = "selectWhere (heldBy (nodeID n)) (\<lambda>r. (runUpdatedAt r, runID r)) (runs s)"
  have d: "distinct (map runID ?items)"
    using assms by (simp add: selectWhere_def distinct_map inj_on_def)
  have ids: "runID r \<in> runID ` set ?items \<longleftrightarrow> heldBy (nodeID n) r" if "r \<in> set (runs s)" for r
    using that assms by (auto simp: distinct_map dest: inj_onD)
  have eq: "(\<lambda>r. runNodeID r = Some (nodeID n) \<and> (runStatus r = StatusPending \<or> runStatus r = StatusDeploying
      \<or> runStatus r = StatusRunning)) = heldBy (nodeID n)"
    by (auto simp: heldBy_def)
  have "runs (snd (failServiceRunsForOfflineNode clk n reason s)) =
      updateWhere (\<lambda>r. runID r \<in> runID ` set ?items) (failRun clk reason) (runs s)"
    unfolding failServiceRunsForOfflineNode_def Let_def snd_conv eq
    by (simp only: failRun_fold_runs fold_updateWhere_ids [OF d])
  also have "\<dots> = updateWhere (heldBy (nodeID n)) (failRun clk reason) (runs s)"
    unfolding updateWhere_def using ids by (intro map_cong) auto
  finally show ?thesis .
qed

definition offlineRun :: "clock \<Rightarrow> instant \<Rightarrow> node list \<Rightarrow> run_row \<Rightarrow> run_row" where
  "offlineRun clk cutoff ns r =
     (case List.find (\<lambda>n. heldBy (nodeID n) r) ns of
        None \<Rightarrow> r | Some n \<Rightarrow> failRun clk (offlineReason cutoff n) r)"

lemma heldBy_failRun [simp]: "\<not> heldBy nid (failRun clk reason r)"
  by (simp add: heldBy_def failRun_def)

lemma offlineRun_keys [simp]: "runID (offlineRun clk cutoff ns r) = runID r"
  by (simp add: offlineRun_def split: option.split)

lemma offlineRun_Cons:
  "offlineRun clk cutoff (n # ns) r =
     offlineRun clk cutoff ns (if heldBy (nodeID n) r then failRun clk (offlineReason cutoff n) r else r)"
proof -
  have "List.find (\<lambda>n. heldBy (nodeID n) (failRun clk x r)) ns = None" for x by (simp add: find_None_iff)
  then show ?thesis by (simp add: offlineRun_def)
qed

lemma offlineRun_not_held: "n \<in> set ns \<Longrightarrow> \<not> heldBy (nodeID n) (offlineRun clk cutoff ns r)"
  by (auto simp: offlineRun_def find_None_iff split: option.split)

lemma offlineRun_evolves: "run_evolves r (offlineRun clk cutoff ns r)"
  by (auto simp: offlineRun_def heldBy_def dest!: find_SomeD split: option.split intro!: failRun_evolves)

lemma offlineLoop_runs:
  "distinct (map runID (runs s)) \<Longrightarrow>
   runs (snd (offlineLoop clk cutoff ns counts s)) = map (offlineRun clk cutoff ns) (runs s)"
proof (induction clk cutoff ns counts s rule: offlineLoop.induct)
  case (1 clk cutoff counts s)
  then show ?case by (simp add: offlineRun_def)
next
  case (2 clk cutoff n ns offline failed s)
  let ?s1 = "markNodeOffline clk (nodeID n) s"
  obtain k s2 where s2: "failServiceRunsForOfflineNode clk n (offlineReason cutoff n) ?s1 = (k, s2)" by fastforce
  have r2: "runs s2 = updateWhere (heldBy (nodeID n)) (failRun clk (offlineReason cutoff n)) (runs s)"
    using failServiceRunsForOfflineNode_runs [of ?s1 clk n "offlineReason cutoff n"] s2 2(2) by simp
  then have "distinct (map runID (runs s2))" using 2(2) by (simp add: map_updateWhere)
  then show ?case using 2(1) [OF s2 [symmetric]] s2
    by (simp add: r2 updateWhere_def comp_def offlineRun_Cons)
qed

definition allOffline :: "string \<Rightarrow> db \<Rightarrow> bool" where
  "allOffline nid s \<longleftrightarrow>
     (\<forall>m\<in>set (nodes s). nodeID m = nid \<longrightarrow> nodeStatus m = StatusOffline \<and> \<not> nodeSchedulable m)"

lemma allOffline_update:
  assumes "allOffline nid s" "\<And>n. nodeID (f n) = nodeID n"
    "\<And>n. nodeStatus n = StatusOffline \<and> \<not> nodeSchedulable n \<Longrightarrow> nodeStatus (f n) = StatusOffline \<and> \<not> nodeSchedulable (f n)"
  shows "allOffline nid (s\<lparr>nodes := updateWhere p f (nodes s)\<rparr>)"
  unfolding allOffline_def
proof (intro ballI impI)
  fix m assume m: "m \<in> set (nodes (s\<lparr>nodes := updateWhere p f (nodes s)\<rparr>))" "nodeID m = nid"
  then obtain r where r: "r \<in> set (nodes s)" "m = (if p r then f r else r)" by (auto simp: updateWhere_iff)
  then have "nodeStatus r = StatusOffline \<and> \<not> nodeSchedulable r"
    using assms(1,2) m(2) unfolding allOffline_def by (cases "p r") simp_all
  then show "nodeStatus m = StatusOffline \<and> \<not> nodeSchedulable m" using r(2) assms(3) by simp
qed

lemma markNodeOffline_offline [simp]: "allOffline nid (markNodeOffline clk nid s)"
proof -
  have "nodeStatus m = StatusOffline \<and> \<not> nodeSchedulable m"
    if m: "m \<in> set (nodes (markNodeOffline clk nid s))" "nodeID m = nid" for m
  proof -
    obtain r where "m = (if nodeID r = nid then r\<lparr>nodeStatus := StatusOffline,
        nodeStatusReason := ''node heartbeat timed out'', nodeSchedulable := False, nodeUpdatedAt := dbNow clk\<rparr> else r)"
      using m(1) by (auto simp: markNodeOffline_def updateWhere_iff)
    then show ?thesis using m(2) by (cases "nodeID r = nid") simp_all
  qed
  then show ?thesis by (simp add: allOffline_def)
qed

lemma markNodeOffline_keeps: "allOffline nid s \<Longrightarrow> allOffline nid (markNodeOffline clk m s)"
  unfolding markNodeOffline_def by (rule allOffline_update) simp_all

lemma failServiceRunsForOfflineNode_keeps:
  assumes "allOffline nid s"
  shows "allOffline nid (snd (failServiceRunsForOfflineNode clk n reason s))"
proof -
  have "allOffline nid (fold (\<lambda>item s. freeNodeAllocation clk k (runCPU item) (runMem item)
     (s\<lparr>runs := updateWhere (\<lambda>r. runID r = runID item) (failRun clk reason) (runs s)\<rparr>)) items s)" for k items
    using assms
  proof (induction items arbitrary: s)
    case (Cons i items)
    have "allOffline nid (s\<lparr>runs := updateWhere (\<lambda>r. runID r = runID i) (failRun clk reason) (runs s)\<rparr>)"
      using Cons.prems by (simp add: allOffline_def)
    then have "allOffline nid (freeNodeAllocation clk k (runCPU i) (runMem i)
        (s\<lparr>runs := updateWhere (\<lambda>r. runID r = runID i) (failRun clk reason) (runs s)\<rparr>))"
      unfolding freeNodeAllocation_def by (rule allOffline_update) simp_all
    then show ?case using Cons.IH by simp
  qed simp
  then show ?thesis unfolding failServiceRunsForOfflineNode_def Let_def snd_conv by blast
qed

lemma offlineLoop_keeps: "allOffline nid s \<Longrightarrow> allOffline nid (snd (offlineLoop clk cutoff ns counts s))"
proof (induction clk cutoff ns counts s rule: offlineLoop.induct)
  case (2 clk cutoff n ns offline failed s)
  let ?s1 = "markNodeOffline clk (nodeID n) s"
  obtain k s2 where s2: "failServiceRunsForOfflineNode clk n (offlineReason cutoff n) ?s1 = (k, s2)" by fastforce
  have "allOffline nid s2"
    using failServiceRunsForOfflineNode_keeps [OF markNodeOffline_keeps [OF 2(2)], of clk n "offlineReason cutoff n" clk "nodeID n"] s2
    by simp
  then show ?case using 2(1) [OF s2 [symmetric]] s2 by simp
qed simp

lemma offlineLoop_offline:
  "n \<in> set ns \<Longrightarrow> allOffline (nodeID n) (snd (offlineLoop clk cutoff ns counts s))"
proof (induction clk cutoff ns counts s rule: offlineLoop.induct)
  case (2 clk cutoff m ns offline failed s)
  let ?s1 = "markNodeOffline clk (nodeID m) s"
  obtain k s2 where s2: "failServiceRunsForOfflineNode clk m (offlineReason cutoff m) ?s1 = (k, s2)" by fastforce
  show ?case
  proof (cases "n = m")
    case True
    then have "allOffline (nodeID n) s2"
      using failServiceRunsForOfflineNode_keeps [of "nodeID n" ?s1 clk m "offlineReason cutoff m"] s2 by simp
    then show ?thesis using s2 offlineLoop_keeps by simp
  next
    case False
    then show ?thesis using 2(1) [OF s2 [symmetric]] 2(2) s2 by simp
  qed
qed simp

lemma offlineLoop_count:
  "fst (fst (offlineLoop clk cutoff ns counts s)) = fst counts + length ns"
  by (induction clk cutoff ns counts s rule: offlineLoop.induct) (auto split: prod.split)

lemma MarkStale_runs:
  assumes inv: "store_inv s" and op: "MarkStaleNodeHeartbeatsOffline clk stale s = Inr (c, s')"
  shows "runs s' = map (offlineRun clk (addDur (goNow clk) (- stale))
     (selectWhere (staleNode (addDur (goNow clk) (- stale))) heartbeatKey (nodes s))) (runs s)"
proof -
  have "s' = snd (offlineLoop clk (addDur (goNow clk) (- stale))
     (selectWhere (staleNode (addDur (goNow clk) (- stale))) heartbeatKey (nodes s)) (0, 0) s)"
    using op by (auto simp: MarkStaleNodeHeartbeatsOffline_def Let_def split: if_splits)
  then show ?thesis using offlineLoop_runs [OF store_invD(6) [OF inv]] by simp
qed

lemma markServiceRunDeploying_runs:
  "runs (markServiceRunDeploying clk rid nid cn act s) = updateWhere (\<lambda>r. runID r = rid)
     (\<lambda>r. r\<lparr>runNodeID := Some nid, runContainerName := cn, runStatus := StatusDeploying,
            runStatusReason := (if act = WorkActionDelete
              then ''agent on node '' @ nid @ '' claimed service delete''
              else ''agent on node '' @ nid @ '' claimed service run''),
            runStartedAt := Some (goNow clk), runUpdatedAt := dbNow clk\<rparr>) (runs s)"
  by (simp add: markServiceRunDeploying_def)

lemma ClaimServiceRun_kept:
  assumes inv: "store_inv s" and op: "ClaimServiceRun clk nid s = Inr (w, s')" and r: "r \<in> set (runs s)"
  shows "run_kept s' r"
proof -
  have ev: "run_kept (markServiceRunDeploying clk (runID q) nid cn act s) r"
    if q: "q \<in> set (runs s)" "runStatus q = StatusPending" for q cn act
  proof (rule run_kept_update [OF markServiceRunDeploying_runs r])
    assume "runID r = runID q"
    then have "r = q" by (rule inv_run_eqI [OF inv r q(1)])
    then show "run_evolves r (r\<lparr>runNodeID := Some nid, runContainerName := cn, runStatus := StatusDeploying,
            runStatusReason := (if act = WorkActionDelete
              then ''agent on node '' @ nid @ '' claimed service delete''
              else ''agent on node '' @ nid @ '' claimed service run''),
            runStartedAt := Some (goNow clk), runUpdatedAt := dbNow clk\<rparr>)"
      using q(2) by (simp add: run_evolves_def run_next_def)
  qed
  show ?thesis using op
  proof (cases rule: ClaimServiceRun_cases)
    case (delete n q v)
    show ?thesis unfolding delete(10) by (rule ev [OF delete(3,6)])
  next
    case (run n q v)
    have "run_kept (markServiceRunDeploying clk (runID q) nid (wiContainerName (workItemOf q v)) WorkActionRun s) r"
      by (rule ev [OF run(5,8)])
    then show ?thesis unfolding run(14) by (simp add: run_kept_def)
  qed (simp add: run_kept_same r)
qed

lemma Report_kept:
  assumes inv: "store_inv s" and op: "UpdateExecutionFromNodeReport clk nid eid i s = Inr ((rec, t), s')"
    and r: "r \<in> set (runs s)"
  shows "run_kept s' r"
  using op
proof (cases rule: Report_cases)
  case (outcome q d fin)
  have same: "q' = q" if "q' \<in> set (runs s)" "runID q' = eid" for q'
    using inv_run_eqI [OF inv that(1) outcome(1)] that(2) outcome(2) by simp
  have ev: "run_evolves q (reportedRun clk i fin q)"
    using outcome(5,6) by (auto simp: run_evolves_def run_next_def IsExecutionStatus_def reportedRun_def)
  have srv: "services s' = services s" by (rule services_frame(3) [OF op])
  show ?thesis
  proof (cases "riStatus i = StatusSucceeded \<and> d = ServiceDesiredDeleted")
    case False
    then have "runs s' = updateWhere (\<lambda>r. runID r = eid) (reportedRun clk i fin) (runs s)"
      unfolding outcome(10) Let_def if_not_P [OF False] by (simp add: updateServiceRunReport_def)
    then show ?thesis by (rule run_kept_update [OF _ r]) (use same [OF r] ev in simp)
  next
    case True
    show ?thesis
    proof (cases "runID r = eid")
      case True
      then have "r = q" using same [OF r] by simp
      then show ?thesis
        using outcome(8) \<open>riStatus i = StatusSucceeded \<and> d = ServiceDesiredDeleted\<close> srv
        by (auto simp: run_kept_def dest: findBy_SomeD)
    next
      case False
      then have "r \<in> set (runs s')" using r True unfolding outcome(10) Let_def
        by (auto simp: updateServiceRunReport_def updateWhere_iff)
      then show ?thesis by (rule run_kept_same)
    qed
  qed
qed (simp add: run_kept_same r)

lemma upsertServiceRunTx_kept:
  assumes op: "upsertServiceRunTx clk e i s = Inr s'" and d: "distinct (map runServiceID (runs s))"
    and r: "r \<in> set (runs s)"
  shows "run_kept s' r"
  using op
proof (cases rule: upsertServiceRunTx_cases)
  case (insert rid)
  then show ?thesis using r by (intro run_kept_same) simp
next
  case stale
  then show ?thesis using r by (simp add: run_kept_same)
next
  case (replace cur s1)
  have "runs s1 = runs s" using replace(4) by auto
  then have "runs s' = updateWhere (\<lambda>r. runServiceID r = sriServiceID i) (replacedRun clk i) (runs s)"
    using replace(5) by simp
  then show ?thesis
  proof (rule run_kept_update [OF _ r])
    assume "runServiceID r = sriServiceID i"
    then have "r = cur" using findBy_Some_iff [OF d] replace(2) r by (metis option.inject)
    then show "run_evolves r (replacedRun clk i r)"
      using replace(3) by (simp add: run_evolves_def) (simp add: replacedRun_def)
  qed
qed

lemma DeleteService_kept:
  assumes inv: "store_inv s" and op: "DeleteService clk i s = Inr s'" and r: "r \<in> set (runs s)"
  shows "run_kept s' r"
proof -
  obtain cur gen where gen: "findBy serviceID (trimSpace (dsID i)) (services s) = Some cur"
      "gen = max (dsGeneration i) (serviceGeneration cur)"
    and s': "s' = deleteServiceRunTx clk (dsID i) gen (s\<lparr>services :=
       updateWhere (\<lambda>v. serviceID v = dsID i) (deletedService clk gen) (services s)\<rparr>)"
    using DeleteService_InrD [OF op] by metis
  let ?s1 = "s\<lparr>services := updateWhere (\<lambda>v. serviceID v = dsID i) (deletedService clk gen) (services s)\<rparr>"
  show ?thesis
  proof (cases "runServiceID r = dsID i")
    case True
    obtain v where v: "v \<in> set (services s)" "serviceID v = dsID i"
      using store_invD(10) [OF inv r] True by (auto simp: run_ok_def)
    then have "deletedService clk gen v \<in> set (services s')"
      by (auto simp: s' updateWhere_iff intro!: bexI [of _ v])
    then show ?thesis using v True unfolding run_kept_def
      by (intro disjI2 bexI [of _ "deletedService clk gen v"]) (simp_all add: deletedService_def)
  next
    case False
    have "r \<in> set (runs (deleteServiceRunTx clk (dsID i) gen ?s1))"
    proof (cases rule: deleteServiceRunTx_cases [of "dsID i" ?s1 clk gen])
      case none
      then show ?thesis using r by simp
    next
      case (stop run)
      then show ?thesis using r False by (auto simp: updateWhere_iff)
    next
      case (remove run s1)
      then have "runs s1 = runs s" by auto
      then show ?thesis using remove(4) r False by simp
    qed
    then show ?thesis unfolding s' by (rule run_kept_same)
  qed
qed

lemma store_step_runs:
  "store_step s s' \<Longrightarrow> store_inv s \<Longrightarrow> r \<in> set (runs s) \<Longrightarrow> run_kept s' r"
proof (induction rule: store_step.induct)
  case (step_offline clk stale s c s')
  have "\<exists>r'\<in>set (runs s'). run_evolves r r'"
    unfolding MarkStale_runs [OF step_offline(2,1)] set_map
    using step_offline(3) offlineRun_evolves by blast
  then show ?case by (simp add: run_kept_def)
next
  case (step_claim clk nid s w s')
  then show ?case using ClaimServiceRun_kept by blast
next
  case (step_report clk nid eid i s rec t s')
  then show ?case using Report_kept by blast
next
  case (step_upsert clk e i s v s')
  then show ?case
    using store_invD(7) [OF step_upsert(2)] by (elim UpsertService_cases) (auto intro: upsertServiceRunTx_kept run_kept_same)
next
  case (step_delete clk i s s')
  then show ?case using DeleteService_kept by blast
next
  case (step_run_failed clk sid reason s s')
  then have "runs s' = updateWhere (\<lambda>r. runServiceID r = sid \<and> (runStatus r = StatusPending \<or> runStatus r = StatusDeploying))
    (failRun clk reason) (runs s)"
    by (auto simp: MarkServiceRunFailed_def split: if_splits)
  then show ?case by (rule run_kept_update [OF _ step_run_failed(3)]) (auto intro: failRun_evolves)
next
  case (step_pending_failed md5 clk prefix name reason s s')
  then have "runs s' = updateWhere (\<lambda>r. runStatus r = StatusPending \<and> name = provisioningNodeName md5 prefix r)
    (failRun clk reason) (runs s)"
    by (auto simp: MarkPendingServiceRunFailedForProvisioningNode_def split: if_splits)
  then show ?case by (rule run_kept_update [OF _ step_pending_failed(3)]) (auto intro: failRun_evolves)
qed (simp_all add: node_op_frames run_kept_frame)

end
