(* ===== verification/StoreIdle.thy ===== *)
theory StoreIdle
  imports StoreHistory
begin

text \<open>
  A node that is being drained runs nothing: no run is deploying or running on it, in any
  reachable state.  PrepareNodeDeletion establishes this when it drains a node, and no other
  operation starts work on a node that is not ready.
\<close>

definition drainingNode :: "string \<Rightarrow> db \<Rightarrow> bool" where
  "drainingNode nid s \<longleftrightarrow> (\<exists>n\<in>set (nodes s). nodeID n = nid \<and> nodeStatus n = StatusDraining)"

definition draining_idle :: "db \<Rightarrow> bool" where
  "draining_idle s \<longleftrightarrow> (\<forall>nid. drainingNode nid s \<longrightarrow> \<not> list_ex (activeOn nid) (runs s))"

lemma list_ex_set: "list_ex p xs \<longleftrightarrow> (\<exists>x\<in>set xs. p x)"
  by (simp add: list_ex_iff)

text \<open>A step starts nothing on a draining node, and drains no node that is busy.\<close>

lemma draining_idle_step:
  assumes idle: "draining_idle s"
    and active: "\<And>r nid. r \<in> set (runs s') \<Longrightarrow> activeOn nid r \<Longrightarrow> drainingNode nid s' \<Longrightarrow>
       list_ex (activeOn nid) (runs s) \<and> drainingNode nid s"
  shows "draining_idle s'"
  using assms unfolding draining_idle_def list_ex_set by blast

lemma drainingNode_frame:
  "nodes s' = nodes s \<Longrightarrow> drainingNode nid s' \<longleftrightarrow> drainingNode nid s"
  by (simp add: drainingNode_def)

lemma drainingNode_update:
  assumes d: "drainingNode nid (s\<lparr>nodes := updateWhere p f (nodes s)\<rparr>)"
    and f: "\<And>n. n \<in> set (nodes s) \<Longrightarrow> p n \<Longrightarrow>
      nodeID (f n) = nodeID n \<and> (nodeStatus (f n) = StatusDraining \<longrightarrow> nodeStatus n = StatusDraining)"
  shows "drainingNode nid s"
proof -
  obtain n where "n \<in> set (nodes s)" "nodeID (if p n then f n else n) = nid"
    "nodeStatus (if p n then f n else n) = StatusDraining"
    using d by (auto simp: drainingNode_def updateWhere_iff)
  then show ?thesis using f [of n] unfolding drainingNode_def by (metis (full_types))
qed

lemma drainingNode_free: "drainingNode nid (freeNodeAllocation clk k c m s) \<Longrightarrow> drainingNode nid s"
  unfolding freeNodeAllocation_def by (erule drainingNode_update) simp

lemma drainingNode_reserve: "drainingNode nid (reserveNodeAllocation clk k c m s) \<Longrightarrow> drainingNode nid s"
  unfolding reserveNodeAllocation_def by (erule drainingNode_update) simp

lemma drainingNode_markOffline: "drainingNode nid (markNodeOffline clk k s) \<Longrightarrow> drainingNode nid s"
  unfolding markNodeOffline_def by (erule drainingNode_update) simp

lemma drainingNode_failOffline:
  "drainingNode nid (snd (failServiceRunsForOfflineNode clk n reason s)) \<Longrightarrow> drainingNode nid s"
proof -
  have "drainingNode nid s"
    if "drainingNode nid (fold (\<lambda>item s. freeNodeAllocation clk k (runCPU item) (runMem item)
     (s\<lparr>runs := updateWhere (\<lambda>r. runID r = runID item) (failRun clk reason) (runs s)\<rparr>)) items s)" for k items s
    using that
  proof (induction items arbitrary: s)
    case (Cons i items)
    have "drainingNode nid (freeNodeAllocation clk k (runCPU i) (runMem i)
       (s\<lparr>runs := updateWhere (\<lambda>r. runID r = runID i) (failRun clk reason) (runs s)\<rparr>))"
      by (rule Cons.IH) (use Cons.prems in \<open>simp only: fold_Cons comp_apply\<close>)
    then have "drainingNode nid (s\<lparr>runs := updateWhere (\<lambda>r. runID r = runID i) (failRun clk reason) (runs s)\<rparr>)"
      by (rule drainingNode_free)
    then show ?case by (simp add: drainingNode_def)
  qed simp
  then show "drainingNode nid (snd (failServiceRunsForOfflineNode clk n reason s)) \<Longrightarrow> drainingNode nid s"
    unfolding failServiceRunsForOfflineNode_def Let_def snd_conv by blast
qed

lemma drainingNode_offlineLoop:
  "drainingNode nid (snd (offlineLoop clk cutoff ns counts s)) \<Longrightarrow> drainingNode nid s"
proof (induction clk cutoff ns counts s rule: offlineLoop.induct)
  case (2 clk cutoff n ns offline failed s)
  let ?s1 = "markNodeOffline clk (nodeID n) s"
  obtain k s2 where s2: "failServiceRunsForOfflineNode clk n (offlineReason cutoff n) ?s1 = (k, s2)" by fastforce
  have "drainingNode nid s2" using 2(1) [OF s2 [symmetric]] 2(2) s2 by simp
  then have "drainingNode nid ?s1"
    using drainingNode_failOffline [of nid clk n "offlineReason cutoff n" ?s1] s2 by simp
  then show ?case by (rule drainingNode_markOffline)
qed simp

lemma drainingNode_upsertTx:
  assumes op: "upsertServiceRunTx clk e i s = Inr s'" and d: "drainingNode nid s'"
  shows "drainingNode nid s"
  using op
proof (cases rule: upsertServiceRunTx_cases)
  case (replace cur s1)
  have "drainingNode nid s1" using d unfolding replace(5) by (simp add: drainingNode_def)
  then show ?thesis using replace(4) drainingNode_free by blast
qed (use d in \<open>simp_all add: drainingNode_def\<close>)

lemma drainingNode_deleteTx:
  assumes "drainingNode nid (deleteServiceRunTx clk sid gen s)"
  shows "drainingNode nid s"
proof (cases rule: deleteServiceRunTx_cases [of sid s clk gen])
  case (remove run s1)
  have "drainingNode nid s1" using assms unfolding remove(4) by (simp add: drainingNode_def)
  then show ?thesis using remove(3) drainingNode_free by blast
qed (use assms in \<open>simp_all add: drainingNode_def\<close>)

lemma activeOn_update_kept:
  assumes r: "r \<in> set (updateWhere p f rs)" "activeOn nid r"
    and f: "\<And>q. q \<in> set rs \<Longrightarrow> p q \<Longrightarrow> activeOn nid (f q) \<Longrightarrow> activeOn nid q"
  shows "list_ex (activeOn nid) rs"
proof -
  obtain q where "q \<in> set rs" "r = (if p q then f q else q)" using r(1) by (auto simp: updateWhere_iff)
  then show ?thesis using r(2) f [of q] unfolding list_ex_set by (cases "p q") auto
qed

lemma failRun_inactive [simp]: "\<not> activeOn nid (failRun clk reason r)"
  by (simp add: activeOn_def failRun_def)

lemma activeOn_upsertTx:
  assumes op: "upsertServiceRunTx clk e i s = Inr s'" and r: "r \<in> set (runs s')" "activeOn nid r"
  shows "list_ex (activeOn nid) (runs s)"
  using op
proof (cases rule: upsertServiceRunTx_cases)
  case (insert rid)
  have "\<not> activeOn nid (insertedRun clk rid i)" by (simp add: activeOn_def)
  then show ?thesis using r insert(5) by (auto simp: list_ex_set)
next
  case (replace cur s1)
  have "runs s1 = runs s" using replace(4) by auto
  then have "r \<in> set (updateWhere (\<lambda>r. runServiceID r = sriServiceID i) (replacedRun clk i) (runs s))"
    using r(1) replace(5) by simp
  then show ?thesis using r(2) by (rule activeOn_update_kept) (simp add: activeOn_def)
qed (use r in \<open>auto simp: list_ex_set\<close>)

lemma activeOn_deleteTx:
  assumes r: "r \<in> set (runs (deleteServiceRunTx clk sid gen s))" "activeOn nid r"
  shows "list_ex (activeOn nid) (runs s)"
proof (cases rule: deleteServiceRunTx_cases [of sid s clk gen])
  case (stop run)
  then have "r \<in> set (updateWhere (\<lambda>r. runServiceID r = sid) (markedForDelete clk gen) (runs s))" using r(1) by simp
  then show ?thesis using r(2) by (rule activeOn_update_kept) (simp add: activeOn_def markedForDelete_def)
next
  case (remove run s1)
  then have "runs s1 = runs s" by auto
  then show ?thesis using r remove(4) by (auto simp: list_ex_set)
qed (use r in \<open>auto simp: list_ex_set\<close>)

text \<open>The operations that neither drain a node nor start a run.\<close>

lemma idle_nodes_update:
  assumes idle: "draining_idle s" and s': "nodes s' = updateWhere p f (nodes s)" "runs s' = runs s"
    and f: "\<And>n. n \<in> set (nodes s) \<Longrightarrow> p n \<Longrightarrow>
      nodeID (f n) = nodeID n \<and> (nodeStatus (f n) = StatusDraining \<longrightarrow> nodeStatus n = StatusDraining)"
  shows "draining_idle s'"
proof (rule draining_idle_step [OF idle])
  fix r nid assume r: "r \<in> set (runs s')" "activeOn nid r" and d: "drainingNode nid s'"
  have "drainingNode nid (s\<lparr>nodes := updateWhere p f (nodes s)\<rparr>)"
    using d s'(1) by (simp add: drainingNode_def)
  then have "drainingNode nid s" by (rule drainingNode_update) (rule f)
  then show "list_ex (activeOn nid) (runs s) \<and> drainingNode nid s"
    using r s'(2) by (auto simp: list_ex_set)
qed

lemma idle_runs:
  assumes "draining_idle s" "\<And>nid. drainingNode nid s' \<Longrightarrow> drainingNode nid s"
    and "\<And>r nid. r \<in> set (runs s') \<Longrightarrow> activeOn nid r \<Longrightarrow> list_ex (activeOn nid) (runs s)"
  shows "draining_idle s'"
proof (rule draining_idle_step [OF assms(1)], intro conjI)
  fix r nid assume r: "r \<in> set (runs s')" "activeOn nid r" "drainingNode nid s'"
  show "list_ex (activeOn nid) (runs s)" by (rule assms(3) [OF r(1,2)])
  show "drainingNode nid s" by (rule assms(2) [OF r(3)])
qed

lemma idle_append_node:
  assumes "draining_idle s" "nodes s' = nodes s @ [n]" "runs s' = runs s" "nodeStatus n \<noteq> StatusDraining"
  shows "draining_idle s'"
proof (rule idle_runs [OF assms(1)])
  show "drainingNode nid s" if "drainingNode nid s'" for nid
    using that assms(2,4) by (auto simp: drainingNode_def)
  show "list_ex (activeOn nid) (runs s)" if "r \<in> set (runs s')" "activeOn nid r" for r nid
    using that assms(3) by (auto simp: list_ex_set)
qed

lemma idle_RegisterNode:
  assumes idle: "draining_idle s" and op: "RegisterNode clk e i s = Inr (n, s')"
  shows "draining_idle s'"
proof -
  consider (old) "nodes s' = updateWhere (sameInstance i) (reRegistered clk i) (nodes s)"
    | (new) nid where "nodes s' = nodes s @ [registeredRow clk nid i]"
    using op unfolding RegisterNode_def
    by (cases "List.find (sameInstance i) (nodes s)") (auto simp: bindR_Inr_iff split: if_splits)
  then show ?thesis
  proof cases
    case old
    then show ?thesis
      by (rule idle_nodes_update [OF idle]) (use RegisterNode_frame [OF op] in \<open>auto simp: reRegistered_def Let_def\<close>)
  next
    case new
    then show ?thesis
      by (rule idle_append_node [OF idle]) (use RegisterNode_frame [OF op] in \<open>auto simp: registeredRow_def\<close>)
  qed
qed

lemma idle_PrepareNodeDeletion:
  assumes idle: "draining_idle s" and op: "PrepareNodeDeletion clk nid reason obs s = Inr (r, s')"
  shows "draining_idle s'"
  using op
proof (cases rule: PrepareNodeDeletion_cases)
  case (drained n)
  show ?thesis unfolding draining_idle_def
  proof (intro allI impI)
    fix k assume d: "drainingNode k s'"
    show "\<not> list_ex (activeOn k) (runs s')"
    proof (cases "k = nid")
      case False
      have "drainingNode k s"
        using d False unfolding drained(8)
        by (auto simp: drainingNode_def updateWhere_iff drainedRow_def split: if_splits)
      then show ?thesis using idle drained(8) by (simp add: draining_idle_def)
    qed (use drained in simp)
  qed
qed (use idle in simp_all)

lemma idle_ClaimServiceRun:
  assumes inv: "store_inv s" and idle: "draining_idle s" and op: "ClaimServiceRun clk nid s = Inr (w, s')"
  shows "draining_idle s'"
proof -
  have mark: "draining_idle (markServiceRunDeploying clk rid nid cn act s)"
    if n: "findBy nodeID nid (nodes s) = Some n" "nodeStatus n = StatusReady" for rid cn act n
  proof (rule draining_idle_step [OF idle])
    fix r k assume r: "r \<in> set (runs (markServiceRunDeploying clk rid nid cn act s))" "activeOn k r"
      and d: "drainingNode k (markServiceRunDeploying clk rid nid cn act s)"
    have dk: "drainingNode k s" using d by (simp add: drainingNode_def)
    have "k \<noteq> nid"
    proof
      assume "k = nid"
      then obtain m where "m \<in> set (nodes s)" "nodeID m = nid" "nodeStatus m = StatusDraining"
        using dk by (auto simp: drainingNode_def)
      moreover have "n = m" using inv_find_node [OF inv, of nid m] n(1) calculation by simp
      ultimately show False using n(2) by simp
    qed
    then have "list_ex (activeOn k) (runs s)"
      using r unfolding markServiceRunDeploying_runs
      by (elim activeOn_update_kept) (simp_all add: activeOn_def)
    then show "list_ex (activeOn k) (runs s) \<and> drainingNode k s" using dk by simp
  qed
  show ?thesis using op
  proof (cases rule: ClaimServiceRun_cases)
    case (delete n r v)
    show ?thesis unfolding delete(10) by (rule mark [OF delete(1,2)])
  next
    case (run n r v)
    show ?thesis unfolding run(14)
      using mark [OF run(1,2), of "runID r" "wiContainerName (workItemOf r v)" WorkActionRun]
      by (rule idle_runs) (auto dest: drainingNode_reserve simp: list_ex_set)
  qed (simp add: idle)
qed

lemma idle_Report:
  assumes inv: "store_inv s" and idle: "draining_idle s"
    and op: "UpdateExecutionFromNodeReport clk nid eid i s = Inr ((rec, t), s')"
  shows "draining_idle s'"
  using op
proof (cases rule: Report_cases)
  case (outcome q d fin)
  have active: "list_ex (activeOn k) (runs s)"
    if r: "r \<in> set (runs (updateServiceRunReport clk eid i fin s))" "activeOn k r" for r k
    using r unfolding updateServiceRunReport_def
  proof (simp, elim activeOn_update_kept)
    fix q' assume q': "q' \<in> set (runs s)" "runID q' = eid" "activeOn k (reportedRun clk i fin q')"
    then have "q' = q" using inv_run_eqI [OF inv q'(1) outcome(1)] outcome(2) by simp
    then show "activeOn k q'" using q'(3) outcome(5) by (simp add: activeOn_def)
  qed
  let ?s1 = "updateServiceRunReport clk eid i fin s"
  let ?s2 = "if isFinal (riStatus i) then freeNodeAllocation clk nid (runCPU q) (runMem q) ?s1 else ?s1"
  have dr: "drainingNode k s" if "drainingNode k ?s2" for k
  proof -
    have "drainingNode k ?s1" using that drainingNode_free by (cases "isFinal (riStatus i)") auto
    then show ?thesis by (simp add: drainingNode_def)
  qed
  have i2: "draining_idle ?s2"
    by (rule idle_runs [OF idle dr]) (use active in \<open>auto split: if_splits\<close>)
  then show ?thesis unfolding outcome(10) Let_def
    by (cases "riStatus i = StatusSucceeded \<and> d = ServiceDesiredDeleted")
      (auto simp: draining_idle_def drainingNode_def list_ex_set)
qed (use idle in simp)

lemma store_step_idle: "store_step s s' \<Longrightarrow> store_inv s \<Longrightarrow> draining_idle s \<Longrightarrow> draining_idle s'"
proof (induction rule: store_step.induct)
  case (step_create clk e i s n s')
  then show ?case
    by (auto simp: CreateProvisioningNode_def bindR_Inr_iff Let_def split: if_splits intro: idle_append_node)
next
  case (step_bind clk nid inst name ityp reason obs s n s')
  show ?case
    using step_bind(1) BindProvisionedNode_frame [OF step_bind(1)]
    by (auto simp: BindProvisionedNode_def Let_def split: option.splits if_splits
        intro!: idle_nodes_update [OF step_bind(3)])
next
  case (step_register clk e i s n s')
  then show ?case using idle_RegisterNode by blast
next
  case (step_heartbeat clk nid i s st s')
  show ?case
    using step_heartbeat(1) by (auto simp: RecordNodeHeartbeat_def bindR_Inr_iff heartbeatRow_def
        heartbeatStatus_def split: option.splits if_splits intro!: idle_nodes_update [OF step_heartbeat(3)])
next
  case (step_prepare clk nid reason obs s r s')
  then show ?case using idle_PrepareNodeDeletion by blast
next
  case (step_deleted clk nid reason obs s n s')
  show ?case
    using step_deleted(1) by (auto simp: MarkNodeDeleted_def Let_def deletedRow_def split: option.splits
        intro!: idle_nodes_update [OF step_deleted(3)])
next
  case (step_offline clk stale s c s')
  let ?c = "addDur (goNow clk) (- stale)"
  have s': "s' = snd (offlineLoop clk ?c (selectWhere (staleNode ?c) heartbeatKey (nodes s)) (0, 0) s)"
    using step_offline(1) by (auto simp: MarkStaleNodeHeartbeatsOffline_def Let_def split: if_splits)
  have act: "list_ex (activeOn nid) (runs s)" if ra: "r \<in> set (runs s')" "activeOn nid r" for r nid
  proof -
    obtain q where q: "q \<in> set (runs s)" "r = offlineRun clk ?c (selectWhere (staleNode ?c) heartbeatKey (nodes s)) q"
      using ra(1) unfolding MarkStale_runs [OF step_offline(2,1)] by auto
    then have "r = q" using ra(2) by (auto simp: offlineRun_def split: option.splits)
    then show ?thesis using q(1) ra(2) by (auto simp: list_ex_set)
  qed
  show ?case
    by (rule idle_runs [OF step_offline(3) _ act]) (simp_all add: s' drainingNode_offlineLoop)
next
  case (step_claim clk nid s w s')
  then show ?case using idle_ClaimServiceRun by blast
next
  case (step_report clk nid eid i s rec t s')
  then show ?case using idle_Report by blast
next
  case (step_upsert clk e i s v s')
  have tx: "draining_idle s'" if "upsertServiceRunTx clk e j (s\<lparr>services := vs\<rparr>) = Inr s'" for j vs
  proof (rule idle_runs [OF step_upsert(3)])
    show "drainingNode nid s" if "drainingNode nid s'" for nid
      using drainingNode_upsertTx [OF \<open>upsertServiceRunTx clk e j (s\<lparr>services := vs\<rparr>) = Inr s'\<close> that]
      by (simp add: drainingNode_def)
    show "list_ex (activeOn nid) (runs s)" if "r \<in> set (runs s')" "activeOn nid r" for r nid
      using activeOn_upsertTx [OF \<open>upsertServiceRunTx clk e j (s\<lparr>services := vs\<rparr>) = Inr s'\<close> that] by simp
  qed
  show ?case using step_upsert(1) by (cases rule: UpsertService_cases) (use tx step_upsert(3) in blast)+
next
  case (step_delete clk i s s')
  obtain gen vs where s': "s' = deleteServiceRunTx clk (dsID i) gen (s\<lparr>services := vs\<rparr>)"
    using DeleteService_InrD [OF step_delete(1)] by metis
  show ?case unfolding s'
  proof (rule idle_runs [OF step_delete(3)])
    show "drainingNode nid s" if "drainingNode nid (deleteServiceRunTx clk (dsID i) gen (s\<lparr>services := vs\<rparr>))" for nid
      using drainingNode_deleteTx [OF that] by (simp add: drainingNode_def)
    show "list_ex (activeOn nid) (runs s)"
      if "r \<in> set (runs (deleteServiceRunTx clk (dsID i) gen (s\<lparr>services := vs\<rparr>)))" "activeOn nid r" for r nid
      using activeOn_deleteTx [OF that] by simp
  qed
next
  case (step_save s clk h st)
  then show ?case by (simp add: draining_idle_def drainingNode_def)
next
  case (step_clear s clk h)
  then show ?case by (simp add: draining_idle_def drainingNode_def)
next
  case (step_run_failed clk sid reason s s')
  then obtain p where "s' = s\<lparr>runs := updateWhere p (failRun clk reason) (runs s)\<rparr>"
    by (auto simp: MarkServiceRunFailed_def split: if_splits)
  then show ?case
    by (intro idle_runs [OF step_run_failed(3)]) (auto simp: drainingNode_def elim: activeOn_update_kept)
next
  case (step_pending_failed md5 clk prefix name reason s s')
  then obtain p where "s' = s\<lparr>runs := updateWhere p (failRun clk reason) (runs s)\<rparr>"
    by (auto simp: MarkPendingServiceRunFailedForProvisioningNode_def split: if_splits)
  then show ?case
    by (intro idle_runs [OF step_pending_failed(3)]) (auto simp: drainingNode_def elim: activeOn_update_kept)
qed

lemma store_reachable_idle: "store_reachable s \<Longrightarrow> draining_idle s"
proof (induction rule: store_reachable.induct)
  case reach_init
  show ?case by (simp add: draining_idle_def emptyDB_def)
next
  case (reach_step s s')
  then show ?case using store_step_idle store_reachable_inv by blast
qed

end
