(* ===== verification/StoreDemo.thy ===== *)
theory StoreDemo
  imports StoreIdle
begin

text \<open>
  A small history of the store, from the empty database: an elastic node is provisioned, bound,
  registered and ready, a service is accepted, its run is claimed and reported as running.  The
  witnesses of the store's properties evaluate them on the states of this history.
\<close>

definition resDB :: "('a \<times> db) res \<Rightarrow> db" where
  "resDB r = (case r of Inl e \<Rightarrow> emptyDB | Inr (x, s) \<Rightarrow> s)"

definition resVal :: "('a \<times> db) res \<Rightarrow> 'a" where
  "resVal r = (case r of Inr (x, s) \<Rightarrow> x)"

definition isOk :: "'a res \<Rightarrow> bool" where
  "isOk r = (case r of Inl e \<Rightarrow> False | Inr x \<Rightarrow> True)"

lemma isOkD: "isOk r \<Longrightarrow> r = Inr (resVal r, resDB r)"
  by (auto simp: isOk_def resDB_def resVal_def split: sum.splits prod.splits)

definition t0 :: clock where
  "t0 = \<lparr>goNow = Instant 0, dbNow = Instant 0\<rparr>"

definition demoSpec :: service_spec where
  "demoSpec = \<lparr>specInstanceClass = ''small'', specExposure = ''public'', specImage = ''img'',
     specCommand = [], specArgs = [], specEnv = [], specContainerPort = 80, specReadinessPath = ''/''\<rparr>"

definition demoUpsert :: "string \<Rightarrow> string \<Rightarrow> int \<Rightarrow> upsert_service_input" where
  "demoUpsert sid name gen = \<lparr>usID = sid, usName = name, usDisplayName = ''W'', usHost = name @ ''.io'',
     usGeneration = gen, usSpec = demoSpec\<rparr>"

definition demoReport :: "string \<Rightarrow> report_input" where
  "demoReport st = \<lparr>riStatus = st, riReason = ''r'', riContainerID = ''c'', riContainerName = ''k'',
     riHostPort = 20000\<rparr>"

definition demoProvision :: provisioning_input where
  "demoProvision = \<lparr>piProvider = ''p'', piRegion = ''r'', piName = ''w'', piInstanceType = ''t'',
     piStatusReason = []\<rparr>"

definition demoRegister :: register_input where
  "demoRegister = \<lparr>rgProvider = ''p'', rgRegion = ''r'', rgName = ''w'', rgPrivateIP = ''10.0.0.1'',
     rgInstanceID = ''i'', rgInstanceType = ''t'', rgCPUMilliTotal = 2000, rgMemoryMiTotal = 2048\<rparr>"

definition demoHeartbeat :: heartbeat_input where
  "demoHeartbeat = \<lparr>hbCPUMilliAllocatable = 1900, hbMemoryMiAllocatable = 2000\<rparr>"

definition d1 :: db where "d1 = resDB (CreateProvisioningNode t0 (Inr [1]) demoProvision emptyDB)"
definition d2 :: db where "d2 = resDB (BindProvisionedNode t0 ''node_01'' ''i'' ''w'' ''t'' [] None d1)"
definition d3 :: db where "d3 = resDB (RegisterNode t0 (Inr [2]) demoRegister d2)"
definition d4 :: db where "d4 = resDB (RecordNodeHeartbeat t0 ''node_01'' demoHeartbeat d3)"
definition d5 :: db where "d5 = resDB (UpsertService t0 (Inr [3]) (demoUpsert ''s1'' ''web'' 1) d4)"
definition d6 :: db where "d6 = resDB (ClaimServiceRun t0 ''node_01'' d5)"
definition d7 :: db where
  "d7 = resDB (UpdateExecutionFromNodeReport t0 ''node_01'' ''run_03'' (demoReport ''running'') d6)"

lemma demo_reachable:
  "store_reachable d4" "store_reachable d5" "store_reachable d6" "store_reachable d7" "store_reachable d2"
proof -
  have ok: "isOk (CreateProvisioningNode t0 (Inr [1]) demoProvision emptyDB)"
    "isOk (BindProvisionedNode t0 ''node_01'' ''i'' ''w'' ''t'' [] None d1)"
    "isOk (RegisterNode t0 (Inr [2]) demoRegister d2)"
    "isOk (RecordNodeHeartbeat t0 ''node_01'' demoHeartbeat d3)"
    "isOk (UpsertService t0 (Inr [3]) (demoUpsert ''s1'' ''web'' 1) d4)"
    "isOk (ClaimServiceRun t0 ''node_01'' d5)"
    "isOk (UpdateExecutionFromNodeReport t0 ''node_01'' ''run_03'' (demoReport ''running'') d6)"
    by code_simp+
  have 1: "store_reachable d1"
    using isOkD [OF ok(1)] by (intro reach_step [OF reach_init step_create]) (simp add: d1_def)
  show 2: "store_reachable d2"
    using isOkD [OF ok(2)] by (intro reach_step [OF 1 step_bind]) (simp add: d2_def)
  have 3: "store_reachable d3"
    using isOkD [OF ok(3)] by (intro reach_step [OF 2 step_register]) (simp add: d3_def)
  show 4: "store_reachable d4"
    using isOkD [OF ok(4)] by (intro reach_step [OF 3 step_heartbeat]) (simp add: d4_def)
  show 5: "store_reachable d5"
    using isOkD [OF ok(5)] by (intro reach_step [OF 4 step_upsert]) (simp add: d5_def)
  show 6: "store_reachable d6"
    using isOkD [OF ok(6)] by (intro reach_step [OF 5 step_claim]) (simp add: d6_def)
  have "\<exists>rec t s. UpdateExecutionFromNodeReport t0 ''node_01'' ''run_03'' (demoReport ''running'') d6 = Inr ((rec, t), s) \<and> s = d7"
    using isOkD [OF ok(7)] by (metis d7_def prod.exhaust)
  then show "store_reachable d7" using reach_step [OF 6 step_report] by blast
qed

lemmas demo_inv = demo_reachable [THEN store_reachable_inv]

end
