(* ===== verification/StoreProps.thy ===== *)
theory StoreProps
  imports StoreDemo
begin

text \<open>
  The properties of the store over the operations of node.go, service_run.go and service.go, each
  with a witness on the small history of StoreDemo.
\<close>

section \<open>Invariants and life cycles\<close>



text \<open>
  C7: In every reachable state a node that is draining has no run that is deploying or running, so
  the instance that the node reconciler then deletes carries no active execution.
\<close>

theorem draining_nodes_idle:
  assumes "store_reachable s" "n \<in> set (nodes s)" "nodeStatus n = StatusDraining"
    and "r \<in> set (runs s)" "runNodeID r = Some (nodeID n)"
  shows "runStatus r \<noteq> StatusDeploying \<and> runStatus r \<noteq> StatusRunning"
  using store_reachable_idle [OF assms(1)] assms(2-)
  by (auto simp: draining_idle_def drainingNode_def list_ex_set activeOn_def)

definition d8 :: db where
  "d8 = resDB (UpdateExecutionFromNodeReport t0 ''node_01'' ''run_03'' (demoReport ''failed'') d6)"

definition d9 :: db where "d9 = resDB (PrepareNodeDeletion t0 ''node_01'' [] None d8)"

lemma d9_reachable: "store_reachable d9"
proof -
  have "isOk (UpdateExecutionFromNodeReport t0 ''node_01'' ''run_03'' (demoReport ''failed'') d6)" by code_simp
  then have "\<exists>rec t s. UpdateExecutionFromNodeReport t0 ''node_01'' ''run_03'' (demoReport ''failed'') d6 = Inr ((rec, t), s) \<and> s = d8"
    by (metis isOkD d8_def prod.exhaust)
  then have 8: "store_reachable d8" using reach_step [OF demo_reachable(3) step_report] by blast
  have "isOk (PrepareNodeDeletion t0 ''node_01'' [] None d8)" by code_simp
  then show ?thesis using isOkD by (intro reach_step [OF 8 step_prepare]) (simp add: d9_def)
qed

theorem draining_nodes_idle_witness:
  "runStatus (hd (runs d9)) \<noteq> StatusDeploying \<and> runStatus (hd (runs d9)) \<noteq> StatusRunning"
proof (rule draining_nodes_idle [OF d9_reachable, of "hd (nodes d9)"])
  show "hd (nodes d9) \<in> set (nodes d9)" "nodeStatus (hd (nodes d9)) = StatusDraining"
    "hd (runs d9) \<in> set (runs d9)" "runNodeID (hd (runs d9)) = Some (nodeID (hd (nodes d9)))"
    by code_simp+
qed


definition d10 :: db where "d10 = resDB (RegisterNode t0 (Inr [9]) demoRegister d9)"



definition d11 :: db where "d11 = resDB (UpsertService t0 (Inr [4]) (demoUpsert ''s1'' ''web'' 3) d7)"




end
