(* ===== verification/ClaimProps.thy ===== *)
theory ClaimProps
  imports StoreDemo
begin

text \<open>
  The properties of claims and reports: what a node agent is given, what it is given first, how the
  capacity of its node is accounted for, and what each report does.
\<close>

section \<open>Claims\<close>

lemma updateWhere_memberI: "r \<in> set rows \<Longrightarrow> p r \<Longrightarrow> f r \<in> set (updateWhere p f rows)"
  by (auto simp: updateWhere_iff)

lemma reserve_effect:
  "n \<in> set (nodes s) \<Longrightarrow>
   n\<lparr>nodeCPUAllocated := nodeCPUAllocated n + c, nodeMemAllocated := nodeMemAllocated n + m,
     nodeUpdatedAt := dbNow clk\<rparr> \<in> set (nodes (reserveNodeAllocation clk (nodeID n) c m s))"
  unfolding reserveNodeAllocation_def by (auto intro!: updateWhere_memberI)

lemma deploying_effect:
  assumes "r \<in> set (runs s)"
  shows "\<exists>r'\<in>set (runs (markServiceRunDeploying clk (runID r) nid cn act s)).
     runID r' = runID r \<and> runStatus r' = StatusDeploying \<and> runNodeID r' = Some nid \<and>
     runCPU r' = runCPU r \<and> runMem r' = runMem r"
proof -
  let ?r' = "r\<lparr>runNodeID := Some nid, runContainerName := cn, runStatus := StatusDeploying,
            runStatusReason := (if act = WorkActionDelete
              then ''agent on node '' @ nid @ '' claimed service delete''
              else ''agent on node '' @ nid @ '' claimed service run''),
            runStartedAt := Some (goNow clk), runUpdatedAt := dbNow clk\<rparr>"
  have "?r' \<in> set (runs (markServiceRunDeploying clk (runID r) nid cn act s))"
    unfolding markServiceRunDeploying_runs using assms by (rule updateWhere_memberI) simp
  then show ?thesis by (rule rev_bexI) simp
qed

text \<open>
  C3: A claim is sound.  Work goes only to a ready node and takes a pending run, which is then
  deploying there.  Work to start also needs a schedulable node, and the request of the run is
  added to what the node has allocated without passing what it can allocate; work to delete a
  container goes to the node that has it and leaves every allocation alone.
\<close>

theorem claim_is_sound:
  assumes "store_reachable s" "ClaimServiceRun clk nid s = Inr (Some w, s')"
  shows "\<exists>n\<in>set (nodes s). \<exists>r\<in>set (runs s). nodeID n = nid \<and> nodeStatus n = StatusReady \<and>
    runID r = wiExecutionID w \<and> runStatus r = StatusPending \<and>
    (\<exists>r'\<in>set (runs s'). runID r' = runID r \<and> runStatus r' = StatusDeploying \<and> runNodeID r' = Some nid) \<and>
    (wiAction w = WorkActionRun \<longrightarrow> nodeSchedulable n \<and>
       (\<exists>n'\<in>set (nodes s'). nodeID n' = nid \<and>
          nodeCPUAllocated n' = nodeCPUAllocated n + runCPU r \<and> nodeCPUAllocated n' \<le> nodeCPUAllocatable n' \<and>
          nodeMemAllocated n' = nodeMemAllocated n + runMem r \<and> nodeMemAllocated n' \<le> nodeMemAllocatable n')) \<and>
    (wiAction w = WorkActionDelete \<longrightarrow> nodes s' = nodes s \<and> runNodeID r = Some nid)"
  using assms(2)
proof (cases rule: ClaimServiceRun_cases)
  case idle
  then show ?thesis by simp
next
  case (delete n r v)
  have n: "n \<in> set (nodes s)" "nodeID n = nid" using findBy_SomeD [OF delete(1)] by simp_all
  obtain r' where "r' \<in> set (runs s')" "runID r' = runID r" "runStatus r' = StatusDeploying" "runNodeID r' = Some nid"
    using deploying_effect [OF delete(3), of clk nid] unfolding delete(10) by blast
  then show ?thesis using n delete by (intro bexI [OF _ n(1)] bexI [OF _ delete(3)]) auto
next
  case (run n r v)
  have n: "n \<in> set (nodes s)" "nodeID n = nid" using findBy_SomeD [OF run(1)] by simp_all
  let ?s1 = "markServiceRunDeploying clk (runID r) nid (wiContainerName (workItemOf r v)) WorkActionRun s"
  have "\<exists>r'\<in>set (runs s'). runID r' = runID r \<and> runStatus r' = StatusDeploying \<and> runNodeID r' = Some nid"
    using deploying_effect [OF run(5), of clk nid] unfolding run(14) by fastforce
  moreover have "\<exists>n'\<in>set (nodes s'). nodeID n' = nid \<and>
          nodeCPUAllocated n' = nodeCPUAllocated n + runCPU r \<and> nodeCPUAllocated n' \<le> nodeCPUAllocatable n' \<and>
          nodeMemAllocated n' = nodeMemAllocated n + runMem r \<and> nodeMemAllocated n' \<le> nodeMemAllocatable n'"
    using reserve_effect [of n ?s1 clk "runMem r" "runCPU r"] n run(10,11) unfolding run(14)
    by (intro bexI [of _ "n\<lparr>nodeCPUAllocated := nodeCPUAllocated n + runCPU r,
        nodeMemAllocated := nodeMemAllocated n + runMem r, nodeUpdatedAt := dbNow clk\<rparr>"]) simp_all
  ultimately show ?thesis using n run by (intro bexI [OF _ n(1)] bexI [OF _ run(5)]) simp
qed

theorem claim_is_sound_witness:
  "\<exists>n\<in>set (nodes d5). nodeID n = ''node_01'' \<and> nodeStatus n = StatusReady"
proof -
  have "isOk (ClaimServiceRun t0 ''node_01'' d5)" "resVal (ClaimServiceRun t0 ''node_01'' d5) \<noteq> None"
    by code_simp+
  then obtain w where "ClaimServiceRun t0 ''node_01'' d5 = Inr (Some w, d6)"
    by (metis d6_def isOkD option.exhaust)
  from claim_is_sound [OF demo_reachable(2) this] show ?thesis by blast
qed

text \<open>
  C24: No starvation.  A ready and schedulable node that asks for work while some pending run of an
  active service fits it and is not kept on another node is given work: the deletion of one of its
  own containers, or a run at least as old as that one.
\<close>

theorem claim_serves_oldest:
  assumes "store_reachable s" "n \<in> set (nodes s)" "nodeStatus n = StatusReady" "nodeSchedulable n"
    and "r \<in> set (runs s)" "runStatus r = StatusPending"
      "runNodeID r = None \<or> runNodeID r = Some (nodeID n)"
      "nodeCPUAllocated n + runCPU r \<le> nodeCPUAllocatable n"
      "nodeMemAllocated n + runMem r \<le> nodeMemAllocatable n"
    and "v \<in> set (services s)" "serviceID v = runServiceID r" "serviceDesired v = ServiceDesiredActive"
  shows "\<exists>w s'. ClaimServiceRun clk (nodeID n) s = Inr (Some w, s') \<and>
    (wiAction w = WorkActionDelete \<or>
     (\<exists>q\<in>set (runs s). runID q = wiExecutionID w \<and> (runCreatedAt q, runID q) \<le> (runCreatedAt r, runID r)))"
proof -
  note inv = store_reachable_inv [OF assms(1)]
  have n: "findBy nodeID (nodeID n) (nodes s) = Some n" using inv_find_node [OF inv] assms(2) by simp
  have v: "findBy serviceID (runServiceID r) (services s) = Some v"
    using inv_find_service [OF inv] assms(10,11) by simp
  let ?p = "\<lambda>q x. runStatus q = StatusPending \<and> serviceDesired x = ServiceDesiredActive
       \<and> runCPU q \<le> nodeCPUAllocatable n - nodeCPUAllocated n
       \<and> runMem q \<le> nodeMemAllocatable n - nodeMemAllocated n
       \<and> (runNodeID q = None \<or> runNodeID q = Some (nodeID n))"
  have "?p r v" using assms(6-9,12) by auto
  then have "selectFirst (\<lambda>q. case findBy serviceID (runServiceID q) (services s) of
       None \<Rightarrow> False | Some x \<Rightarrow> ?p q x) (\<lambda>q. (runCreatedAt q, runID q)) (runs s) \<noteq> None"
    using v assms(5) unfolding selectFirst_None_iff by (auto intro!: bexI [of _ r])
  then obtain q where q: "selectFirst (\<lambda>q. case findBy serviceID (runServiceID q) (services s) of
       None \<Rightarrow> False | Some x \<Rightarrow> ?p q x) (\<lambda>q. (runCreatedAt q, runID q)) (runs s) = Some q" by blast
  have "claimPendingRun (nodeID n) (nodeCPUAllocatable n - nodeCPUAllocated n)
      (nodeMemAllocatable n - nodeMemAllocated n) s \<noteq> None"
    unfolding claimPendingRun_def loadClaimableServiceRun_def q
    using selectFirst_SomeD [OF q] by (cases "findBy serviceID (runServiceID q) (services s)") auto
  then have "\<exists>w s'. ClaimServiceRun clk (nodeID n) s = Inr (Some w, s')"
    using n assms(3,4)
    by (cases "claimPendingDeleteRun (nodeID n) s") (auto simp: ClaimServiceRun_def Let_def)
  then obtain w s' where op: "ClaimServiceRun clk (nodeID n) s = Inr (Some w, s')" by blast
  from op have "wiAction w = WorkActionDelete \<or>
     (\<exists>q\<in>set (runs s). runID q = wiExecutionID w \<and> (runCreatedAt q, runID q) \<le> (runCreatedAt r, runID r))"
  proof (cases rule: ClaimServiceRun_cases)
    case (delete m q x)
    then show ?thesis by simp
  next
    case (run m q x)
    have "m = n" using run(1) n by simp
    then have "(runCreatedAt q, runID q) \<le> (runCreatedAt r, runID r)"
      using assms(6-9,12) by (intro run(12) [OF assms(5) v]) simp_all
    then show ?thesis using run(5,13) by (intro disjI2 bexI [OF _ run(5)]) simp
  qed simp
  with op show ?thesis by blast
qed

theorem claim_serves_oldest_witness:
  "\<exists>w s'. ClaimServiceRun t0 (nodeID (hd (nodes d5))) d5 = Inr (Some w, s') \<and>
    (wiAction w = WorkActionDelete \<or>
     (\<exists>q\<in>set (runs d5). runID q = wiExecutionID w \<and>
        (runCreatedAt q, runID q) \<le> (runCreatedAt (hd (runs d5)), runID (hd (runs d5)))))"
  by (rule claim_serves_oldest [OF demo_reachable(2), of _ _ "hd (services d5)"]) code_simp+

section \<open>Reports\<close>

lemma free_effect:
  assumes "n \<in> set (nodes s)"
  shows "\<exists>n'\<in>set (nodes (freeNodeAllocation clk nid c m s)). nodeID n' = nodeID n \<and>
    nodeCPUAllocated n' = (if nodeID n = nid then max (nodeCPUAllocated n - c) 0 else nodeCPUAllocated n) \<and>
    nodeMemAllocated n' = (if nodeID n = nid then max (nodeMemAllocated n - m) 0 else nodeMemAllocated n)"
proof -
  let ?f = "\<lambda>n. n\<lparr>nodeCPUAllocated := max (nodeCPUAllocated n - c) 0,
     nodeMemAllocated := max (nodeMemAllocated n - m) 0, nodeUpdatedAt := dbNow clk\<rparr>"
  have "(if nodeID n = nid then ?f n else n) \<in> set (nodes (freeNodeAllocation clk nid c m s))"
    using assms unfolding freeNodeAllocation_def by (auto simp: updateWhere_iff)
  then show ?thesis by (rule rev_bexI) simp
qed

text \<open>
  C25: The first report on a run that is deploying.  It must come from the node that claimed the
  run; it sets the status and the container it carries; a final status gives the capacity of the
  run back to the node, once, and any other leaves the node alone; the success of a deletion, and
  nothing else, removes the run.
\<close>

theorem report_outcome:
  assumes "store_reachable s" "UpdateExecutionFromNodeReport clk nid eid i s = Inr ((rec, t), s')"
    and "r \<in> set (runs s)" "runID r = eid" "runStatus r = StatusDeploying"
    and "v \<in> set (services s)" "serviceID v = runServiceID r" "n \<in> set (nodes s)" "nodeID n = nid"
  shows "runNodeID r = Some nid \<and>
    (if riStatus i = StatusSucceeded \<and> serviceDesired v = ServiceDesiredDeleted
     then \<forall>q\<in>set (runs s'). runID q \<noteq> eid
     else reportedRun clk i (if isFinal (riStatus i) then Some (goNow clk) else None) r \<in> set (runs s')) \<and>
    (\<exists>n'\<in>set (nodes s'). nodeID n' = nid \<and>
       nodeCPUAllocated n' = (if isFinal (riStatus i) then max (nodeCPUAllocated n - runCPU r) 0 else nodeCPUAllocated n) \<and>
       nodeMemAllocated n' = (if isFinal (riStatus i) then max (nodeMemAllocated n - runMem r) 0 else nodeMemAllocated n))"
proof -
  note inv = store_reachable_inv [OF assms(1)]
  show ?thesis using assms(2)
  proof (cases rule: Report_cases)
    case (repeated q)
    then have "q = r" using inv_run_eqI [OF inv repeated(1) assms(3)] assms(4) by simp
    then show ?thesis using repeated(4) assms(5) by simp
  next
    case (outcome q d fin)
    have q: "q = r" using inv_run_eqI [OF inv outcome(1) assms(3)] outcome(2) assms(4) by simp
    have d: "d = serviceDesired v"
      using outcome(8) q inv_find_service [OF inv, of "runServiceID r" v] assms(6,7) by auto
    let ?s1 = "updateServiceRunReport clk eid i fin s"
    let ?s2 = "if isFinal (riStatus i) then freeNodeAllocation clk nid (runCPU r) (runMem r) ?s1 else ?s1"
    have runs2: "runs ?s2 = updateWhere (\<lambda>r. runID r = eid) (reportedRun clk i fin) (runs s)"
      by (simp add: updateServiceRunReport_def)
    have "reportedRun clk i fin r \<in> set (runs ?s2)"
      unfolding runs2 using assms(3,4) by (rule updateWhere_memberI)
    moreover have "nodes s' = nodes ?s2" unfolding outcome(10) q Let_def by simp
    moreover have "\<exists>n'\<in>set (nodes ?s2). nodeID n' = nid \<and>
       nodeCPUAllocated n' = (if isFinal (riStatus i) then max (nodeCPUAllocated n - runCPU r) 0 else nodeCPUAllocated n) \<and>
       nodeMemAllocated n' = (if isFinal (riStatus i) then max (nodeMemAllocated n - runMem r) 0 else nodeMemAllocated n)"
      using free_effect [of n ?s1 clk nid "runCPU r" "runMem r"] assms(8,9)
      by (cases "isFinal (riStatus i)") auto
    moreover have "runs s' = (if riStatus i = StatusSucceeded \<and> d = ServiceDesiredDeleted
        then deleteWhere (\<lambda>r. runID r = eid) (runs ?s2) else runs ?s2)"
      unfolding outcome(10) q Let_def by simp
    ultimately show ?thesis using outcome(3,9) q d by auto
  qed
qed

theorem report_outcome_witness:
  "runNodeID (hd (runs d6)) = Some ''node_01''"
proof -
  have "isOk (UpdateExecutionFromNodeReport t0 ''node_01'' ''run_03'' (demoReport ''running'') d6)" by code_simp
  then obtain rec t where op: "UpdateExecutionFromNodeReport t0 ''node_01'' ''run_03'' (demoReport ''running'') d6 = Inr ((rec, t), d7)"
    by (metis isOkD d7_def prod.exhaust)
  have facts: "hd (runs d6) \<in> set (runs d6)" "runID (hd (runs d6)) = ''run_03''"
    "runStatus (hd (runs d6)) = StatusDeploying" "hd (services d6) \<in> set (services d6)"
    "serviceID (hd (services d6)) = runServiceID (hd (runs d6))" "hd (nodes d6) \<in> set (nodes d6)"
    "nodeID (hd (nodes d6)) = ''node_01''" by code_simp+
  show ?thesis
    using report_outcome [OF demo_reachable(3) op facts] by blast
qed

lemma report_found:
  assumes inv: "store_inv s" and r: "r \<in> set (runs s)" "runID r = eid" "runNodeID r = Some nid"
      "runStartedAt r = Some st" and v: "validateReportInput i = Inr ()"
      and same: "runStatus r = riStatus i" "runStatus r \<noteq> StatusDeploying"
  shows "UpdateExecutionFromNodeReport clk nid eid i s = Inr ((executionRecord r st, goNow clk), s)"
proof -
  obtain x where x: "findBy serviceID (runServiceID r) (services s) = Some x"
    using store_invD(10) [OF inv r(1)] inv_find_service [OF inv] by (auto simp: run_ok_def)
  let ?p = "\<lambda>r. runID r = eid \<and> runNodeID r = Some nid \<and> findBy serviceID (runServiceID r) (services s) \<noteq> None"
  obtain q where q: "List.find ?p (runs s) = Some q"
    using r(1-3) x by (cases "List.find ?p (runs s)") (auto simp: find_None_iff)
  have "q = r" using find_SomeD [OF q] inv_run_eqI [OF inv _ r(1)] r(2) by auto
  then have "loadServiceRunRecord nid eid s = Inr (r, st, serviceDesired x)"
    using q x r(4) by (simp add: loadServiceRunRecord_def)
  then show ?thesis using v same by (simp add: UpdateExecutionFromNodeReport_def)
qed

text \<open>
  Reports are idempotent: an agent that repeats a report that was accepted, after a lost reply,
  is answered without an error and changes nothing, unless that report removed the run.
\<close>

theorem report_repeated:
  assumes "store_reachable s" "UpdateExecutionFromNodeReport clk nid eid i s = Inr ((rec, t), s')"
    and "riStatus i \<noteq> StatusDeploying" "r \<in> set (runs s')" "runID r = eid"
  shows "\<exists>rec'. UpdateExecutionFromNodeReport clk' nid eid i s' = Inr ((rec', goNow clk'), s')"
proof -
  note inv = store_reachable_inv [OF assms(1)]
  have v: "validateReportInput i = Inr ()"
    using assms(2) by (auto simp: UpdateExecutionFromNodeReport_def bindR_Inr_iff)
  have "store_step s s'" by (rule step_report [OF assms(2)])
  then have inv': "store_inv s'" using store_step_inv inv by blast
  have "\<exists>r'\<in>set (runs s'). runID r' = eid \<and> runNodeID r' = Some nid \<and> runStartedAt r' \<noteq> None \<and> runStatus r' = riStatus i"
    using assms(2)
  proof (cases rule: Report_cases)
    case (repeated q)
    obtain cur st d where "loadServiceRunRecord nid eid s = Inr (cur, st, d)"
      using assms(2) by (auto simp: UpdateExecutionFromNodeReport_def bindR_Inr_iff)
    note ld = loadServiceRunRecord_SomeD [OF this]
    then have "cur = q" using inv_run_eqI [OF inv ld(1) repeated(1)] repeated(2) by simp
    then show ?thesis using repeated ld by auto
  next
    case (outcome q d fin)
    let ?q = "reportedRun clk i fin q"
    have upd: "?q \<in> set (updateWhere (\<lambda>r. runID r = eid) (reportedRun clk i fin) (runs s))"
      using outcome(1,2) by (rule updateWhere_memberI)
    have "\<not> (riStatus i = StatusSucceeded \<and> d = ServiceDesiredDeleted)"
    proof
      assume "riStatus i = StatusSucceeded \<and> d = ServiceDesiredDeleted"
      then have "\<forall>q\<in>set (runs s'). runID q \<noteq> eid" unfolding outcome(10) Let_def by simp
      then show False using assms(4,5) by blast
    qed
    then have "runs s' = updateWhere (\<lambda>r. runID r = eid) (reportedRun clk i fin) (runs s)"
      unfolding outcome(10) Let_def by (auto simp: updateServiceRunReport_def)
    then have "?q \<in> set (runs s')" using upd by simp
    then show ?thesis using outcome by (intro bexI [of _ ?q]) simp_all
  qed
  then obtain r' st where "r' \<in> set (runs s')" "runID r' = eid" "runNodeID r' = Some nid"
    "runStartedAt r' = Some st" "runStatus r' = riStatus i" by auto
  then show ?thesis using report_found [OF inv' _ _ _ _ v, of r'] assms(3) by auto
qed

theorem report_repeated_witness:
  "\<exists>rec. UpdateExecutionFromNodeReport t0 ''node_01'' ''run_03'' (demoReport ''running'') d7 = Inr ((rec, goNow t0), d7)"
proof -
  have "isOk (UpdateExecutionFromNodeReport t0 ''node_01'' ''run_03'' (demoReport ''running'') d6)" by code_simp
  then obtain rec t where op: "UpdateExecutionFromNodeReport t0 ''node_01'' ''run_03'' (demoReport ''running'') d6 = Inr ((rec, t), d7)"
    by (metis isOkD d7_def prod.exhaust)
  have facts: "riStatus (demoReport ''running'') \<noteq> StatusDeploying" "hd (runs d7) \<in> set (runs d7)"
    "runID (hd (runs d7)) = ''run_03''" by code_simp+
  show ?thesis by (rule report_repeated [OF demo_reachable(3) op facts])
qed

end
