(* ===== verification/ServiceProps.thy ===== *)
theory ServiceProps
  imports StoreDemo
begin

text \<open>
  The services table as what it stands for, a register per service that the greatest generation
  wins, and the store as its implementation; what the ingress is given; and what happens to the
  name and the host of a deleted service.
\<close>

section \<open>The abstract register\<close>

datatype desired = Removed | Wanted string string service_spec

type_synonym registers = "string \<Rightarrow> (int \<times> desired) option"

definition regPut :: "string \<Rightarrow> int \<Rightarrow> desired \<Rightarrow> registers \<Rightarrow> registers" where
  "regPut k g d R =
     (case R k of
        None \<Rightarrow> R(k \<mapsto> (g, d))
      | Some (g0, d0) \<Rightarrow> if g0 < g \<or> g0 = g \<and> d0 \<noteq> Removed then R(k \<mapsto> (g, d)) else R)"

definition regRemove :: "string \<Rightarrow> int \<Rightarrow> registers \<Rightarrow> registers" where
  "regRemove k g R = (case R k of None \<Rightarrow> R | Some (g0, _) \<Rightarrow> R(k \<mapsto> (max g g0, Removed)))"

definition desiredOf :: "service_row \<Rightarrow> int \<times> desired" where
  "desiredOf v =
     (serviceGeneration v,
      if serviceDesired v = ServiceDesiredDeleted then Removed
      else Wanted (serviceName v) (serviceHost v) (serviceSpec v))"

definition registersOf :: "db \<Rightarrow> registers" where
  "registersOf s = (\<lambda>k. map_option desiredOf (findBy serviceID k (services s)))"

lemma registersOf_frame: "services s' = services s \<Longrightarrow> registersOf s' = registersOf s"
  by (simp add: registersOf_def)

lemma registersOf_update:
  assumes "services s' = updateWhere (\<lambda>v. serviceID v = k) f (services s)"
    and "\<And>v. serviceID (f v) = serviceID v" "findBy serviceID k (services s) = Some v"
  shows "registersOf s' = (registersOf s)(k \<mapsto> desiredOf (f v))"
proof
  fix j
  show "registersOf s' j = ((registersOf s)(k \<mapsto> desiredOf (f v))) j"
  proof (cases "j = k")
    case True
    have "serviceID v = k" using findBy_SomeD [OF assms(3)] by simp
    then show ?thesis using assms True by (simp add: registersOf_def findBy_updateWhere)
  next
    case False
    have "map_option desiredOf (map_option (\<lambda>r. if serviceID r = k then f r else r) (findBy serviceID j (services s))) =
        map_option desiredOf (findBy serviceID j (services s))"
    proof (cases "findBy serviceID j (services s)")
      case (Some w)
      then have "serviceID w \<noteq> k" using findBy_SomeD [OF Some] False by simp
      then show ?thesis using Some by simp
    qed simp
    then show ?thesis using assms(1,2) False by (simp add: registersOf_def findBy_updateWhere)
  qed
qed

lemma registersOf_same_desired:
  assumes "services s' = updateWhere p f (services s)"
    and "\<And>v. serviceID (f v) = serviceID v \<and> desiredOf (f v) = desiredOf v"
  shows "registersOf s' = registersOf s"
proof
  fix j
  show "registersOf s' j = registersOf s j"
    using assms by (cases "findBy serviceID j (services s)") (simp_all add: registersOf_def findBy_updateWhere)
qed

definition wantedOf :: "string \<Rightarrow> upsert_service_input \<Rightarrow> desired" where
  "wantedOf x i = Wanted (trimSpace (usName i)) (cleanDomain (usHost i))
     (serviceSpec (serviceRowOf (\<lparr>goNow = Instant 0, dbNow = Instant 0\<rparr>) x i))"

lemma serviceRowOf_spec: "serviceSpec (serviceRowOf clk x i) = serviceSpec (serviceRowOf clk' x i)"
  by (simp add: serviceRowOf_def)

lemma desiredOf_serviceRowOf: "desiredOf (serviceRowOf clk x i) = (usGeneration i, wantedOf x i)"
  using serviceRowOf_spec by (simp add: desiredOf_def wantedOf_def)

lemma desiredOf_updated: "desiredOf (updatedServiceRow e v) = desiredOf e"
  by (simp add: desiredOf_def)

lemma UpsertService_register:
  assumes inv: "store_inv s" and op: "UpsertService clk e i s = Inr (v', s')"
    and x: "ParseExposure (specExposure (usSpec i)) = Inr x"
  shows "registersOf s' = regPut (trimSpace (usID i)) (usGeneration i) (wantedOf x i) (registersOf s)"
  using op
proof (cases rule: UpsertService_cases)
  case (create c m y)
  have y: "y = x" using create(3) x by simp
  have sv: "services s' = services s @ [serviceRowOf clk x i]"
    using upsertServiceRunTx_services [OF create(6)] y by simp
  have "registersOf s' = (registersOf s)(trimSpace (usID i) \<mapsto> desiredOf (serviceRowOf clk x i))"
    using create(4) by (intro ext) (auto simp: registersOf_def sv findBy_append split: option.split)
  moreover have "registersOf s (trimSpace (usID i)) = None" using create(4) by (simp add: registersOf_def)
  ultimately show ?thesis by (simp add: regPut_def desiredOf_serviceRowOf)
next
  case (update c m y v)
  have y: "y = x" using update(3) x by simp
  have "services s' = updateWhere (\<lambda>v. serviceID v = trimSpace (usID i))
      (updatedServiceRow (serviceRowOf clk x i)) (services s)"
    using upsertServiceRunTx_services [OF update(7)] y by simp
  then have "registersOf s' = (registersOf s)(trimSpace (usID i) \<mapsto> (usGeneration i, wantedOf x i))"
    using registersOf_update [of s' _ "updatedServiceRow (serviceRowOf clk x i)" s v] update(4)
    by (simp add: desiredOf_updated desiredOf_serviceRowOf)
  moreover have "registersOf s (trimSpace (usID i)) = Some (desiredOf v)" using update(4) by (simp add: registersOf_def)
  ultimately show ?thesis using update(5) by (auto simp: regPut_def desiredOf_def acceptsGeneration_def)
next
  case (refused v)
  then have "registersOf s (trimSpace (usID i)) = Some (desiredOf v)" by (simp add: registersOf_def)
  then show ?thesis using refused(3,5) by (auto simp: regPut_def desiredOf_def)
qed

lemma DeleteService_register:
  assumes inv: "store_inv s" and op: "DeleteService clk i s = Inr s'"
  shows "registersOf s' = (if trimSpace (dsID i) = dsID i then regRemove (dsID i) (dsGeneration i) (registersOf s)
     else registersOf s)"
proof -
  obtain cur gen where cur: "findBy serviceID (trimSpace (dsID i)) (services s) = Some cur"
    and gen: "gen = max (dsGeneration i) (serviceGeneration cur)"
    and s': "s' = deleteServiceRunTx clk (dsID i) gen (s\<lparr>services :=
       updateWhere (\<lambda>v. serviceID v = dsID i) (deletedService clk gen) (services s)\<rparr>)"
    using DeleteService_InrD [OF op] by metis
  have sv: "services s' = updateWhere (\<lambda>v. serviceID v = dsID i) (deletedService clk gen) (services s)"
    unfolding s' by simp
  show ?thesis
  proof (cases "trimSpace (dsID i) = dsID i")
    case True
    then have "registersOf s' = (registersOf s)(dsID i \<mapsto> desiredOf (deletedService clk gen cur))"
      using registersOf_update [OF sv _ cur [unfolded True]] by (simp add: deletedService_def)
    then show ?thesis using True cur gen
      by (simp add: regRemove_def registersOf_def desiredOf_def deletedService_def)
  next
    case False
    have "serviceID v \<noteq> dsID i" if "v \<in> set (services s)" for v
      using store_invD(9) [OF inv that] False by (auto simp: service_ok_def)
    then have "services s' = services s" unfolding sv by (intro updateWhere_none) blast
    then show ?thesis using False by (simp add: registersOf_def)
  qed
qed

lemma frontdoor_register:
  "registersOf (SaveServiceFrontDoor clk h st s) = registersOf s"
  "registersOf (ClearServiceFrontDoor clk h s) = registersOf s"
  unfolding SaveServiceFrontDoor_def ClearServiceFrontDoor_def Let_def
  by (auto intro!: registersOf_same_desired split: prod.split simp: desiredOf_def)

lemma step_services_cases:
  "store_step s s' \<Longrightarrow>
     services s' = services s \<or> (\<exists>clk e i v. UpsertService clk e i s = Inr (v, s')) \<or>
     (\<exists>clk i. DeleteService clk i s = Inr s') \<or>
     (\<exists>clk h st. s' = SaveServiceFrontDoor clk h st s) \<or> (\<exists>clk h. s' = ClearServiceFrontDoor clk h s)"
proof (induction rule: store_step.induct)
  case (step_upsert clk e i s v s')
  then show ?case by blast
next
  case (step_delete clk i s s')
  then show ?case by blast
next
  case (step_save s clk h st)
  show ?case by blast
next
  case (step_clear s clk h)
  show ?case by blast
qed (simp_all add: node_op_frames services_frame MarkServiceRunFailed_frame MarkPending_frame)


definition d12 :: db where
  "d12 = (case DeleteService t0 \<lparr>dsID = ''s1'', dsGeneration = 2\<rparr> d7 of Inl e \<Rightarrow> emptyDB | Inr s \<Rightarrow> s)"

lemma d12_step: "store_step d7 d12"
proof -
  have "isOk (DeleteService t0 \<lparr>dsID = ''s1'', dsGeneration = 2\<rparr> d7)" by code_simp
  then have "DeleteService t0 \<lparr>dsID = ''s1'', dsGeneration = 2\<rparr> d7 = Inr d12"
    by (auto simp: isOk_def d12_def split: sum.splits)
  then show ?thesis by (rule step_delete)
qed


section \<open>Names and hosts\<close>



section \<open>What the ingress routes\<close>

definition servesIngress :: "service_row \<Rightarrow> run_row \<Rightarrow> bool" where
  "servesIngress v r \<longleftrightarrow> runServiceID r = serviceID v \<and> runGeneration r = serviceGeneration v \<and>
     runStatus r = StatusRunning \<and> runNodeID r \<noteq> None \<and> 0 < runHostPort r"

lemma filter_unique:
  assumes "distinct (map key xs)" "\<And>x. x \<in> set xs \<Longrightarrow> p x \<Longrightarrow> key x = k"
  shows "filter p xs = [] \<or> (\<exists>x\<in>set xs. p x \<and> filter p xs = [x])"
  using assms
proof (induction xs)
  case (Cons a xs)
  show ?case
  proof (cases "p a")
    case True
    have "\<not> p x" if "x \<in> set xs" for x
      using Cons.prems True that by (metis distinct.simps(2) image_eqI list.set_intros(1,2) list.set_map list.simps(9))
    then show ?thesis using True by simp
  next
    case False
    then show ?thesis using Cons by auto
  qed
qed simp

lemma serving_unique:
  "store_inv s \<Longrightarrow> filter (servesIngress v) (runs s) = [] \<or>
     (\<exists>r\<in>set (runs s). servesIngress v r \<and> filter (servesIngress v) (runs s) = [r])"
  by (rule filter_unique [OF store_invD(7), of _ _ "serviceID v"]) (auto simp: servesIngress_def)

definition sourceOf :: "db \<Rightarrow> service_row \<Rightarrow> route_source" where
  "sourceOf s v =
     (case filter (servesIngress v) (runs s) of
        [] \<Rightarrow> \<lparr>rsServiceName = serviceName v, rsHost = serviceHost v, rsNodeID = [], rsHostPort = 0, rsHasBackend = False\<rparr>
      | r # _ \<Rightarrow> \<lparr>rsServiceName = serviceName v, rsHost = serviceHost v,
          rsNodeID = (case runNodeID r of None \<Rightarrow> [] | Some n \<Rightarrow> n), rsHostPort = runHostPort r, rsHasBackend = True\<rparr>)"

lemma ListIngressRouteSources_map:
  assumes inv: "store_inv s"
  shows "ListIngressRouteSources s =
    map (sourceOf s) (selectWhere (\<lambda>v. serviceDesired v = ServiceDesiredActive
       \<and> specExposure (serviceSpec v) = ExposurePublic) (\<lambda>v. (serviceName v, serviceID v)) (services s))"
proof -
  have eq: "(\<lambda>r. runServiceID r = serviceID v \<and> runGeneration r = serviceGeneration v
      \<and> runStatus r = StatusRunning \<and> runNodeID r \<noteq> None \<and> 0 < runHostPort r) = servesIngress v" for v
    by (auto simp: servesIngress_def)
  have one: "(case filter (servesIngress v) (runs s) of
            [] \<Rightarrow> [\<lparr>rsServiceName = serviceName v, rsHost = serviceHost v, rsNodeID = [],
                     rsHostPort = 0, rsHasBackend = False\<rparr>]
          | r # rs \<Rightarrow> map (\<lambda>r. \<lparr>rsServiceName = serviceName v, rsHost = serviceHost v,
                            rsNodeID = (case runNodeID r of None \<Rightarrow> [] | Some n \<Rightarrow> n),
                            rsHostPort = runHostPort r, rsHasBackend = True\<rparr>) (r # rs)) = [sourceOf s v]" for v
    using serving_unique [OF inv, of v] by (auto simp: sourceOf_def)
  show ?thesis unfolding ListIngressRouteSources_def eq by (simp only: one concat_map_singleton)
qed

text \<open>
  The routes handed to the ingress are exactly one source per active public service, so every
  host has one; it has a backend if and only if a run of the service's own generation is running
  on a node with a published port, and then the backend is that run's.
\<close>

theorem ingress_sources_exact:
  assumes "store_reachable s"
  shows "distinct (map rsHost (ListIngressRouteSources s)) \<and>
    rsHost ` set (ListIngressRouteSources s) = serviceHost ` {v \<in> set (services s).
       serviceDesired v = ServiceDesiredActive \<and> specExposure (serviceSpec v) = ExposurePublic} \<and>
    (\<forall>src\<in>set (ListIngressRouteSources s). rsHasBackend src \<longleftrightarrow>
       (\<exists>v\<in>set (services s). \<exists>r\<in>set (runs s). serviceHost v = rsHost src \<and> runServiceID r = serviceID v \<and>
          runGeneration r = serviceGeneration v \<and> runStatus r = StatusRunning \<and>
          runNodeID r = Some (rsNodeID src) \<and> runHostPort r = rsHostPort src \<and> 0 < runHostPort r))"
proof -
  note inv = store_reachable_inv [OF assms]
  let ?vs = "selectWhere (\<lambda>v. serviceDesired v = ServiceDesiredActive
       \<and> specExposure (serviceSpec v) = ExposurePublic) (\<lambda>v. (serviceName v, serviceID v)) (services s)"
  have host: "rsHost (sourceOf s v) = serviceHost v" for v by (simp add: sourceOf_def split: list.split)
  have dist: "distinct (map serviceHost ?vs)"
    using store_invD(5) [OF inv] by (simp add: selectWhere_def distinct_map inj_on_def)
  have "distinct (map rsHost (ListIngressRouteSources s))"
    unfolding ListIngressRouteSources_map [OF inv] using dist by (simp add: comp_def host)
  moreover have "rsHost ` set (ListIngressRouteSources s) = serviceHost ` {v \<in> set (services s).
       serviceDesired v = ServiceDesiredActive \<and> specExposure (serviceSpec v) = ExposurePublic}"
    unfolding ListIngressRouteSources_map [OF inv] by (auto simp: image_image host)
  moreover have "rsHasBackend (sourceOf s v) \<longleftrightarrow>
       (\<exists>w\<in>set (services s). \<exists>r\<in>set (runs s). serviceHost w = rsHost (sourceOf s v) \<and> runServiceID r = serviceID w \<and>
          runGeneration r = serviceGeneration w \<and> runStatus r = StatusRunning \<and>
          runNodeID r = Some (rsNodeID (sourceOf s v)) \<and> runHostPort r = rsHostPort (sourceOf s v) \<and> 0 < runHostPort r)"
    (is "_ \<longleftrightarrow> ?backend") if v: "v \<in> set (services s)" for v
  proof
    assume "rsHasBackend (sourceOf s v)"
    then obtain r where r: "r \<in> set (runs s)" "servesIngress v r" "filter (servesIngress v) (runs s) = [r]"
      using serving_unique [OF inv, of v] by (auto simp: sourceOf_def)
    obtain n where "runNodeID r = Some n" using r(2) by (auto simp: servesIngress_def)
    then show ?backend using r v
      by (intro bexI [OF _ v] bexI [OF _ r(1)]) (auto simp: sourceOf_def servesIngress_def)
  next
    assume ?backend
    then obtain w r where w: "w \<in> set (services s)" "serviceHost w = serviceHost v" and r: "r \<in> set (runs s)"
      "runServiceID r = serviceID w" "runGeneration r = serviceGeneration w" "runStatus r = StatusRunning"
      "runNodeID r \<noteq> None" "0 < runHostPort r" by (auto simp: host)
    have "w = v" using store_invD(5) [OF inv] w v by (auto simp: distinct_map dest: inj_onD)
    then have "servesIngress v r" using r by (simp add: servesIngress_def)
    then have "filter (servesIngress v) (runs s) \<noteq> []" using r(1) by (auto simp: filter_empty_conv)
    then show "rsHasBackend (sourceOf s v)" by (auto simp: sourceOf_def split: list.split)
  qed
  ultimately show ?thesis unfolding ListIngressRouteSources_map [OF inv] by auto
qed

theorem ingress_sources_exact_witness:
  "distinct (map rsHost (ListIngressRouteSources d7)) \<and>
   (\<exists>src\<in>set (ListIngressRouteSources d7). rsHasBackend src)"
proof
  show "distinct (map rsHost (ListIngressRouteSources d7))"
    using ingress_sources_exact [OF demo_reachable(4)] by blast
  show "\<exists>src\<in>set (ListIngressRouteSources d7). rsHasBackend src" by code_simp
qed

end
