(* ===== verification/NodeProps.thy ===== *)
theory NodeProps
  imports StoreDemo
begin

text \<open>
  The properties of nodes: heartbeats, draining, silence, and the account of allocated capacity.
\<close>

text \<open>
  Draining is decided under the conditions that make deleting the instance safe: a node comes
  out deletable only if it already was draining or if it was ready, elastic, bound to an instance
  and had no run deploying or running; then its row is draining and not schedulable.  Any other
  node is left alone.
\<close>

theorem prepare_deletion_decides:
  assumes "store_reachable s" "PrepareNodeDeletion clk nid reason obs s = Inr ((n, deletable), s')"
  shows "nodeID n = nid \<and> services s' = services s \<and> runs s' = runs s \<and>
    (if deletable
     then n \<in> set (nodes s') \<and> nodeStatus n = StatusDraining \<and> \<not> nodeSchedulable n \<and>
       \<not> list_ex (activeOn nid) (runs s') \<and>
       (\<exists>m\<in>set (nodes s). nodeID m = nid \<and> nodeInstanceID n = nodeInstanceID m \<and>
          (nodeStatus m = StatusDraining \<or>
           nodeStatus m = StatusReady \<and> nodeElastic m \<and> nonBlank (instanceIDText m)))
     else s' = s \<and> n \<in> set (nodes s))"
  using assms(2)
proof (cases rule: PrepareNodeDeletion_cases)
  case (draining m)
  note m = findBy_SomeD [OF draining(1)]
  have "\<not> list_ex (activeOn nid) (runs s)"
    using store_reachable_idle [OF assms(1)] m draining(2) by (auto simp: draining_idle_def drainingNode_def)
  moreover have "\<not> nodeSchedulable m"
    using store_invD(8) [OF store_reachable_inv [OF assms(1)], of m] m draining(2) by (auto simp: node_ok_def)
  ultimately show ?thesis using draining m by auto
next
  case (refused m)
  then show ?thesis using findBy_SomeD [OF refused(1)] by simp
next
  case (drained m)
  have "drainedRow clk reason obs m \<in> set (nodes s')"
    using drained(1,2) unfolding drained(8) by (auto simp: updateWhere_iff)
  then show ?thesis using drained by (auto simp: drainedRow_def intro!: bexI [of _ m])
qed

definition d13 :: db where "d13 = resDB (PrepareNodeDeletion t0 ''node_01'' [] None d4)"

theorem prepare_deletion_decides_witness:
  "nodeID (hd (nodes d13)) = ''node_01'' \<and> nodeStatus (hd (nodes d13)) = StatusDraining"
proof -
  have "isOk (PrepareNodeDeletion t0 ''node_01'' [] None d4)" by code_simp
  moreover have "resVal (PrepareNodeDeletion t0 ''node_01'' [] None d4) = (hd (nodes d13), True)" by code_simp
  ultimately have "PrepareNodeDeletion t0 ''node_01'' [] None d4 = Inr ((hd (nodes d13), True), d13)"
    using isOkD d13_def by metis
  from prepare_deletion_decides [OF demo_reachable(1) this] show ?thesis by simp
qed

text \<open>
  Heartbeats cannot bring a node back or promise more than it has: what is accepted is positive
  and within the registered totals; a draining or deleted node stays as it is and unschedulable, any
  other becomes ready and schedulable, and the status returned is the one stored.
\<close>

theorem heartbeat_outcome:
  assumes "store_reachable s" "RecordNodeHeartbeat clk nid i s = Inr (st, s')"
  shows "\<exists>m\<in>set (nodes s). \<exists>n\<in>set (nodes s'). nodeID m = nid \<and> nodeID n = nid \<and>
    nodeStatus n = st \<and> nodeLastHeartbeatAt n = Some (goNow clk) \<and>
    0 < nodeCPUAllocatable n \<and> nodeCPUAllocatable n \<le> nodeCPUTotal n \<and>
    0 < nodeMemAllocatable n \<and> nodeMemAllocatable n \<le> nodeMemTotal n \<and>
    (if retired (nodeStatus m) then st = nodeStatus m \<and> \<not> nodeSchedulable n
     else st = StatusReady \<and> nodeSchedulable n)"
proof -
  obtain m where m: "findBy nodeID nid (nodes s) = Some m" "hbCPUMilliAllocatable i \<le> nodeCPUTotal m"
      "hbMemoryMiAllocatable i \<le> nodeMemTotal m" "0 < hbCPUMilliAllocatable i" "0 < hbMemoryMiAllocatable i"
    and st: "st = fst (heartbeatStatus (nodeStatus m))"
    and s': "s' = s\<lparr>nodes := updateWhere (\<lambda>n. nodeID n = nid) (heartbeatRow clk i) (nodes s)\<rparr>"
    using assms(2) by (auto simp: RecordNodeHeartbeat_def res_simps split: option.splits if_splits)
  note mm = findBy_SomeD [OF m(1)]
  have "heartbeatRow clk i m \<in> set (nodes s')" unfolding s' using mm by (auto simp: updateWhere_iff)
  then show ?thesis using mm m st
    by (intro bexI [of _ m] bexI [of _ "heartbeatRow clk i m"])
      (auto simp: heartbeatRow_def heartbeatStatus_def retired_def)
qed

theorem heartbeat_outcome_witness:
  "\<exists>n\<in>set (nodes (resDB (RecordNodeHeartbeat t0 ''node_01'' demoHeartbeat d13))). nodeStatus n = StatusDraining"
proof -
  have "isOk (PrepareNodeDeletion t0 ''node_01'' [] None d4)" by code_simp
  then have r: "store_reachable d13" using isOkD by (intro reach_step [OF demo_reachable(1) step_prepare]) (simp add: d13_def)
  have "isOk (RecordNodeHeartbeat t0 ''node_01'' demoHeartbeat d13)"
    "resVal (RecordNodeHeartbeat t0 ''node_01'' demoHeartbeat d13) = StatusDraining" by code_simp+
  then have "RecordNodeHeartbeat t0 ''node_01'' demoHeartbeat d13 =
      Inr (StatusDraining, resDB (RecordNodeHeartbeat t0 ''node_01'' demoHeartbeat d13))"
    by (metis isOkD)
  from heartbeat_outcome [OF r this] show ?thesis by blast
qed

text \<open>
  When a node goes silent its work is given up: after MarkStaleNodeHeartbeatsOffline every node
  whose last heartbeat was too old and that was not retired or offline is offline and not
  schedulable, no run is left pending, deploying or running on such a node, every run has kept its
  row, and the runs that were not on such a node are unchanged.
\<close>

theorem silent_nodes_lose_their_runs:
  assumes "store_reachable s" "MarkStaleNodeHeartbeatsOffline clk stale s = Inr ((offline, failed), s')"
  shows "0 < stale \<and> offline = length (filter (staleNode (addDur (goNow clk) (- stale))) (nodes s)) \<and>
    (\<forall>n\<in>set (nodes s). staleNode (addDur (goNow clk) (- stale)) n \<longrightarrow>
       (\<forall>m\<in>set (nodes s'). nodeID m = nodeID n \<longrightarrow> nodeStatus m = StatusOffline \<and> \<not> nodeSchedulable m) \<and>
       (\<forall>r\<in>set (runs s'). \<not> heldBy (nodeID n) r)) \<and>
    map runID (runs s') = map runID (runs s) \<and>
    (\<forall>r\<in>set (runs s). (\<forall>n\<in>set (nodes s). staleNode (addDur (goNow clk) (- stale)) n \<longrightarrow> \<not> heldBy (nodeID n) r) \<longrightarrow>
       r \<in> set (runs s'))"
proof -
  let ?c = "addDur (goNow clk) (- stale)"
  let ?ns = "selectWhere (staleNode ?c) heartbeatKey (nodes s)"
  have pos: "0 < stale" and loop: "offlineLoop clk ?c ?ns (0, 0) s = ((offline, failed), s')"
    using assms(2) by (auto simp: MarkStaleNodeHeartbeatsOffline_def Let_def split: if_splits)
  have s': "s' = snd (offlineLoop clk ?c ?ns (0, 0) s)" using loop by simp
  have rs: "runs s' = map (offlineRun clk ?c ?ns) (runs s)"
    by (rule MarkStale_runs [OF store_reachable_inv [OF assms(1)] assms(2)])
  have "offline = length (filter (staleNode ?c) (nodes s))"
    using offlineLoop_count [of clk ?c ?ns "(0, 0)" s] loop by (simp add: selectWhere_def)
  moreover have "nodeStatus m = StatusOffline \<and> \<not> nodeSchedulable m"
    if "n \<in> set (nodes s)" "staleNode ?c n" "m \<in> set (nodes s')" "nodeID m = nodeID n" for n m
    using offlineLoop_offline [of n ?ns clk ?c "(0, 0)" s] that unfolding s' allOffline_def by simp
  moreover have "\<not> heldBy (nodeID n) r"
    if "n \<in> set (nodes s)" "staleNode ?c n" "r \<in> set (runs s')" for n r
    using offlineRun_not_held [of n ?ns clk ?c] that unfolding rs by auto
  moreover have "offlineRun clk ?c ?ns r = r"
    if "\<forall>n\<in>set (nodes s). staleNode ?c n \<longrightarrow> \<not> heldBy (nodeID n) r" for r
  proof -
    have "List.find (\<lambda>n. heldBy (nodeID n) r) ?ns = None" using that by (simp add: find_None_iff)
    then show ?thesis by (simp add: offlineRun_def)
  qed
  moreover have "map runID (runs s') = map runID (runs s)" by (simp add: rs)
  moreover have "r \<in> set (runs s')" if "r \<in> set (runs s)" "offlineRun clk ?c ?ns r = r" for r
    unfolding rs using image_eqI [of r "offlineRun clk ?c ?ns" r] that by simp
  ultimately show ?thesis using pos by blast
qed

definition t9 :: clock where
  "t9 = \<lparr>goNow = Instant 900, dbNow = Instant 900\<rparr>"

theorem silent_nodes_lose_their_runs_witness:
  "\<not> list_ex (heldBy ''node_01'') (runs (resDB (MarkStaleNodeHeartbeatsOffline t9 5 d7)))"
proof -
  let ?op = "MarkStaleNodeHeartbeatsOffline t9 5 d7"
  have "isOk ?op" by code_simp
  then have "?op = Inr ((fst (resVal ?op), snd (resVal ?op)), resDB ?op)" by (simp add: isOkD)
  note silent = silent_nodes_lose_their_runs [OF demo_reachable(4) this]
  have n: "hd (nodes d7) \<in> set (nodes d7)" "staleNode (addDur (goNow t9) (- 5)) (hd (nodes d7))"
    "nodeID (hd (nodes d7)) = ''node_01''" by code_simp+
  show ?thesis using silent n unfolding list_ex_set by metis
qed

end
