(* ===== verification/LedgerProps.thy ===== *)
theory LedgerProps
  imports ClaimProps
begin

text \<open>
  The account of capacity: what a claim reserves on a node a final report returns, and two
  histories in which the account and the runs part.
\<close>

lemma report_final_frees:
  assumes inv: "store_inv s" and op: "UpdateExecutionFromNodeReport clk nid eid i s = Inr ((rec, t), s')"
    and r: "r \<in> set (runs s)" "runID r = eid" "runStatus r = StatusDeploying" and fin: "isFinal (riStatus i)"
  shows "nodes s' = nodes (freeNodeAllocation clk nid (runCPU r) (runMem r) s)"
  using op
proof (cases rule: Report_cases)
  case (repeated q)
  then show ?thesis using inv_run_eqI [OF inv repeated(1) r(1)] r by simp
next
  case (outcome q d f)
  then have "q = r" using inv_run_eqI [OF inv outcome(1) r(1)] r by simp
  then show ?thesis unfolding outcome(10) Let_def using fin
    by (simp add: freeNodeAllocation_def updateServiceRunReport_def isFinal_def)
qed

text \<open>
  C26: A reservation is returned in full.  When a node claims a run and then reports its final
  status, every node has the allocation it had before the claim, whatever that run asked for.
\<close>

theorem reservation_is_returned:
  assumes "store_reachable s" "ClaimServiceRun clk nid s = Inr (Some w, s1)" "wiAction w = WorkActionRun"
    and "UpdateExecutionFromNodeReport clk' nid (wiExecutionID w) i s1 = Inr ((rec, t), s2)"
    and "isFinal (riStatus i)" "n \<in> set (nodes s)"
  shows "\<exists>n'\<in>set (nodes s2). nodeID n' = nodeID n \<and>
    nodeCPUAllocated n' = nodeCPUAllocated n \<and> nodeMemAllocated n' = nodeMemAllocated n"
proof -
  note inv = store_reachable_inv [OF assms(1)]
  have inv1: "store_inv s1" using ClaimServiceRun_inv [OF inv assms(2)] .
  show ?thesis using assms(2)
  proof (cases rule: ClaimServiceRun_cases)
    case (delete m r v)
    then show ?thesis using assms(3) by simp
  next
    case (run m r v)
    let ?s0 = "markServiceRunDeploying clk (runID r) nid (wiContainerName (workItemOf r v)) WorkActionRun s"
    obtain r' where r': "r' \<in> set (runs s1)" "runID r' = wiExecutionID w" "runStatus r' = StatusDeploying"
        "runCPU r' = runCPU r" "runMem r' = runMem r"
      using deploying_effect [OF run(5), of clk nid] run(13) unfolding run(14) by auto
    have s2: "nodes s2 = nodes (freeNodeAllocation clk' nid (runCPU r) (runMem r) s1)"
      using report_final_frees [OF inv1 assms(4) r'(1-3) assms(5)] r'(4,5) by simp
    have ok: "0 \<le> nodeCPUAllocated n" "0 \<le> nodeMemAllocated n" "0 < runCPU r" "0 < runMem r"
      using store_invD(8) [OF inv assms(6)] store_invD(10) [OF inv run(5)]
      by (simp_all add: node_ok_def run_ok_def)
    let ?f = "\<lambda>n. n\<lparr>nodeCPUAllocated := nodeCPUAllocated n + runCPU r,
      nodeMemAllocated := nodeMemAllocated n + runMem r, nodeUpdatedAt := dbNow clk\<rparr>"
    have n1: "(if nodeID n = nid then ?f n else n) \<in> set (nodes s1)"
      using assms(6) unfolding run(14) reserveNodeAllocation_def by (auto simp: updateWhere_iff)
    obtain n' where n': "n' \<in> set (nodes (freeNodeAllocation clk' nid (runCPU r) (runMem r) s1))"
        "nodeID n' = nodeID (if nodeID n = nid then ?f n else n)"
        "nodeCPUAllocated n' = (if nodeID (if nodeID n = nid then ?f n else n) = nid
           then max (nodeCPUAllocated (if nodeID n = nid then ?f n else n) - runCPU r) 0
           else nodeCPUAllocated (if nodeID n = nid then ?f n else n))"
        "nodeMemAllocated n' = (if nodeID (if nodeID n = nid then ?f n else n) = nid
           then max (nodeMemAllocated (if nodeID n = nid then ?f n else n) - runMem r) 0
           else nodeMemAllocated (if nodeID n = nid then ?f n else n))"
      using free_effect [OF n1] by blast
    show ?thesis
      by (rule bexI [of _ n']) (use n' ok in \<open>auto simp: s2\<close>)
  qed simp
qed

definition d14 :: db where
  "d14 = resDB (UpdateExecutionFromNodeReport t0 ''node_01'' ''run_03'' (demoReport ''failed'') d6)"

theorem reservation_is_returned_witness:
  "\<exists>n'\<in>set (nodes d14). nodeID n' = ''node_01'' \<and> nodeCPUAllocated n' = 0"
proof -
  let ?c = "ClaimServiceRun t0 ''node_01'' d5"
  let ?r = "UpdateExecutionFromNodeReport t0 ''node_01'' ''run_03'' (demoReport ''failed'') d6"
  have ok: "isOk ?c" "isOk ?r" "resVal ?c \<noteq> None" "wiAction (the (resVal ?c)) = WorkActionRun"
    "wiExecutionID (the (resVal ?c)) = ''run_03''" "isFinal (riStatus (demoReport ''failed''))" by code_simp+
  have c: "?c = Inr (Some (the (resVal ?c)), d6)" using isOkD [OF ok(1)] ok(3) by (simp add: d6_def)
  have r: "?r = Inr ((fst (resVal ?r), snd (resVal ?r)), d14)" using isOkD [OF ok(2)] by (simp add: d14_def)
  have n: "hd (nodes d5) \<in> set (nodes d5)" "nodeID (hd (nodes d5)) = ''node_01''"
    "nodeCPUAllocated (hd (nodes d5)) = 0" by code_simp+
  show ?thesis
    using reservation_is_returned [OF demo_reachable(2) c ok(4) r [folded ok(5)] ok(6) n(1)] n(2,3) by auto
qed

section \<open>Where the account and the runs part\<close>

definition e1 :: db where "e1 = resDB (UpsertService t0 (Inr [5]) (demoUpsert ''s2'' ''api'' 1) d7)"
definition e2 :: db where "e2 = resDB (ClaimServiceRun t0 ''node_01'' e1)"
definition e3 :: db where "e3 = resDB (UpsertService t0 (Inr [6]) (demoUpsert ''s1'' ''web'' 2) e2)"
definition e4 :: db where
  "e4 = (case DeleteService t0 \<lparr>dsID = ''s1'', dsGeneration = 3\<rparr> e3 of Inl e \<Rightarrow> emptyDB | Inr s \<Rightarrow> s)"

lemma e_reachable: "store_reachable e4"
proof -
  have ok: "isOk (UpsertService t0 (Inr [5]) (demoUpsert ''s2'' ''api'' 1) d7)"
    "isOk (ClaimServiceRun t0 ''node_01'' e1)"
    "isOk (UpsertService t0 (Inr [6]) (demoUpsert ''s1'' ''web'' 2) e2)"
    "isOk (DeleteService t0 \<lparr>dsID = ''s1'', dsGeneration = 3\<rparr> e3)" by code_simp+
  have 1: "store_reachable e1"
    using isOkD [OF ok(1)] by (intro reach_step [OF demo_reachable(4) step_upsert]) (simp add: e1_def)
  have 2: "store_reachable e2"
    using isOkD [OF ok(2)] by (intro reach_step [OF 1 step_claim]) (simp add: e2_def)
  have 3: "store_reachable e3"
    using isOkD [OF ok(3)] by (intro reach_step [OF 2 step_upsert]) (simp add: e3_def)
  have "DeleteService t0 \<lparr>dsID = ''s1'', dsGeneration = 3\<rparr> e3 = Inr e4"
    using ok(4) by (auto simp: isOk_def e4_def split: sum.splits)
  then show ?thesis by (intro reach_step [OF 3 step_delete])
qed

text \<open>
  C28: The account of a node can fall below what its runs hold.  Replacing the spec of a running
  service frees the capacity of its run and keeps the run on the node as pending; deleting the
  service then frees the same capacity once more, and the reservation that goes is another
  run's: a reachable state has a node whose allocation is less than the sum of the requests of
  the runs that are deploying or running on it.
\<close>

theorem allocation_can_be_freed_twice:
  "\<exists>s n. store_reachable s \<and> n \<in> set (nodes s) \<and> nodeStatus n = StatusReady \<and>
     nodeCPUAllocated n < activeCPU (nodeID n) s \<and> nodeMemAllocated n < activeMem (nodeID n) s"
proof (intro exI conjI)
  show "store_reachable e4" by (rule e_reachable)
  show "hd (nodes e4) \<in> set (nodes e4)" "nodeStatus (hd (nodes e4)) = StatusReady"
    "nodeCPUAllocated (hd (nodes e4)) < activeCPU (nodeID (hd (nodes e4))) e4"
    "nodeMemAllocated (hd (nodes e4)) < activeMem (nodeID (hd (nodes e4))) e4" by code_simp+
qed

definition f1 :: db where "f1 = resDB (UpsertService t0 (Inr [6]) (demoUpsert ''s1'' ''web'' 2) d6)"

text \<open>
  The account can also stay above what the runs hold, for good: replacing the spec of a service
  while its run is deploying takes the run off the node without returning its capacity.  A
  reachable state has a node with capacity allocated and no run on it at all.
\<close>

theorem allocation_can_leak:
  "\<exists>s n. store_reachable s \<and> n \<in> set (nodes s) \<and> nodeStatus n = StatusReady \<and>
     0 < nodeCPUAllocated n \<and> 0 < nodeMemAllocated n \<and> \<not> list_ex (\<lambda>r. runNodeID r = Some (nodeID n)) (runs s)"
proof (intro exI conjI)
  have "isOk (UpsertService t0 (Inr [6]) (demoUpsert ''s1'' ''web'' 2) d6)" by code_simp
  then show "store_reachable f1"
    using isOkD by (intro reach_step [OF demo_reachable(3) step_upsert]) (simp add: f1_def)
  show "hd (nodes f1) \<in> set (nodes f1)" "nodeStatus (hd (nodes f1)) = StatusReady"
    "0 < nodeCPUAllocated (hd (nodes f1))" "0 < nodeMemAllocated (hd (nodes f1))"
    "\<not> list_ex (\<lambda>r. runNodeID r = Some (nodeID (hd (nodes f1)))) (runs f1)" by code_simp+
qed

end
