(* ===== verification/StoreCalls.thy ===== *)
theory StoreCalls
  imports StoreServices StoreNodes
begin

text \<open>
  How the loops of the cloud-plane see the store.  They run beside the API and the node agents, and
  every call takes time: a world is the database and a count of the calls made so far, and before
  each call the environment may change the database.  What the clocks, the random source and the
  database connection answer is given by the environment, per call.
\<close>

record store_env =
  envClock :: "nat \<Rightarrow> clock"
  envEntropy :: "nat \<Rightarrow> nat list res"
  envFault :: "nat \<Rightarrow> goerr option"
  envOther :: "nat \<Rightarrow> db \<Rightarrow> db"

record store_world =
  wdb :: db
  wtick :: nat

text \<open>Whatever else happens before the next call.\<close>

definition interfere :: "'e store_env_scheme \<Rightarrow> 'w store_world_scheme \<Rightarrow> 'w store_world_scheme" where
  "interfere e w = w\<lparr>wdb := envOther e (wtick w) (wdb w), wtick := Suc (wtick w)\<rparr>"

text \<open>A transaction of the store: it may fail for the connection, or as the operation does.\<close>

definition storeOp ::
  "'e store_env_scheme \<Rightarrow> (clock \<Rightarrow> nat list res \<Rightarrow> db \<Rightarrow> ('a \<times> db) res) \<Rightarrow>
   'w store_world_scheme \<Rightarrow> 'a res \<times> 'w store_world_scheme" where
  "storeOp e f w =
     (let w1 = interfere e w; k = wtick w in
      case envFault e k of
        Some err \<Rightarrow> (Inl err, w1)
      | None \<Rightarrow> (case f (envClock e k) (envEntropy e k) (wdb w1) of
                   Inl err \<Rightarrow> (Inl err, w1)
                 | Inr (x, s') \<Rightarrow> (Inr x, w1\<lparr>wdb := s'\<rparr>)))"

definition readOp :: "'e store_env_scheme \<Rightarrow> (db \<Rightarrow> 'a) \<Rightarrow> 'w store_world_scheme \<Rightarrow> 'a res \<times> 'w store_world_scheme" where
  "readOp e f = storeOp e (\<lambda>clk ent s. Inr (f s, s))"

definition errOf :: "'a res \<Rightarrow> goerr option" where
  "errOf r = (case r of Inl e \<Rightarrow> Some e | Inr _ \<Rightarrow> None)"

definition unitOp :: "(db \<Rightarrow> db res) \<Rightarrow> db \<Rightarrow> (unit \<times> db) res" where
  "unitOp f s = (case f s of Inl e \<Rightarrow> Inl e | Inr s' \<Rightarrow> Inr ((), s'))"

text \<open>An environment in which nothing else writes to the store and no transaction fails for the connection.\<close>

definition undisturbed :: "'e store_env_scheme \<Rightarrow> 'e store_env_scheme" where
  "undisturbed e = e\<lparr>envFault := (\<lambda>_. None), envOther := (\<lambda>_ s. s)\<rparr>"

lemma storeOp_undisturbed:
  "storeOp (undisturbed e) f w =
     (case f (envClock e (wtick w)) (envEntropy e (wtick w)) (wdb w) of
        Inl err \<Rightarrow> (Inl err, w\<lparr>wtick := Suc (wtick w)\<rparr>)
      | Inr (x, s') \<Rightarrow> (Inr x, w\<lparr>wdb := s', wtick := Suc (wtick w)\<rparr>))"
  by (simp add: storeOp_def interfere_def undisturbed_def Let_def split: sum.split prod.split)

lemma readOp_undisturbed: "readOp (undisturbed e) f w = (Inr (f (wdb w)), w\<lparr>wtick := Suc (wtick w)\<rparr>)"
  by (simp add: readOp_def storeOp_undisturbed)

end
