(* ===== verification/NodeReconciler.thy ===== *)
theory NodeReconciler
  imports StoreCalls
begin

text \<open>
  internal/cloudplane/control/node_reconciler.go and infra/nodeprovider/driver.go: the loop that
  buys instances for pending runs and gives idle ones back.

  A world is that of StoreCalls with the log of provider calls, each with the database at the moment
  it is made (for the properties).
\<close>

record create_request =
  crName :: string
  crClientToken :: string
  crCPUMilli :: int
  crMemoryMi :: int

record create_result =
  crInstanceID :: string
  crInstanceName :: string
  crInstanceType :: string

datatype provider_call = CreateCall create_request | DeleteCall string

record environment = store_env +
  envMD5 :: "string \<Rightarrow> string"
  envCreate :: "nat \<Rightarrow> create_request \<Rightarrow> create_result res"
  envDelete :: "nat \<Rightarrow> string \<Rightarrow> unit res"

record plane_config =
  cfgPlaneName :: string
  cfgProvider :: string
  cfgRegionID :: string
  cfgInstanceType :: string

record world = store_world +
  wlog :: "(provider_call \<times> db) list"

definition NodeNameSuffix :: string where
  "NodeNameSuffix = ''-node''"

definition provisioningNodeTimeout :: int where
  "provisioningNodeTimeout = secondsDur 600"

section \<open>Calls\<close>

definition driverCreate :: "environment \<Rightarrow> create_request \<Rightarrow> world \<Rightarrow> create_result res \<times> world" where
  "driverCreate e rq w =
     (let w1 = interfere e w
      in (envCreate e (wtick w) rq, w1\<lparr>wlog := wlog w1 @ [(CreateCall rq, wdb w1)]\<rparr>))"

definition deleteProviderNode :: "environment \<Rightarrow> string \<Rightarrow> world \<Rightarrow> unit res \<times> world" where
  "deleteProviderNode e inst w =
     (let w1 = interfere e w
      in (envDelete e (wtick w) inst, w1\<lparr>wlog := wlog w1 @ [(DeleteCall inst, wdb w1)]\<rparr>))"

section \<open>Deleting nodes\<close>

definition reconcileNodeDeletion :: "environment \<Rightarrow> node \<Rightarrow> world \<Rightarrow> goerr option \<times> world" where
  "reconcileNodeDeletion e item w =
     (if nodeStatus item \<noteq> StatusReady \<and> nodeStatus item \<noteq> StatusDraining then (None, w)
      else if \<not> nodeElastic item \<or> \<not> nonBlank (instanceIDText item) then (None, w)
      else
        (case storeOp e (\<lambda>clk _. PrepareNodeDeletion clk (nodeID item)
                ''node has no active execution and cloud-plane is deleting the provider instance''
                (Some (goNow clk))) w of
           (Inl err, w1) \<Rightarrow> (Some err, w1)
         | (Inr (draining, deletable), w1) \<Rightarrow>
             if \<not> deletable then (None, w1)
             else
               (case deleteProviderNode e (instanceIDText draining) w1 of
                  (Inl err, w2) \<Rightarrow> (Some err, w2)
                | (Inr _, w2) \<Rightarrow>
                    (case storeOp e (\<lambda>clk _. MarkNodeDeleted clk (nodeID draining)
                            ''provider instance was deleted or was already absent''
                            (Some (goNow clk))) w2 of
                       (r, w3) \<Rightarrow> (errOf r, w3)))))"

fun reconcileDeletableNodes ::
  "environment \<Rightarrow> node list \<Rightarrow> goerr option \<Rightarrow> world \<Rightarrow> goerr option \<times> world" where
  "reconcileDeletableNodes e [] joined w = (joined, w)"
| "reconcileDeletableNodes e (item # items) joined w =
     (if \<not> nonBlank (instanceIDText item) \<or> \<not> nodeElastic item then reconcileDeletableNodes e items joined w
      else (case reconcileNodeDeletion e item w of
              (None, w1) \<Rightarrow> reconcileDeletableNodes e items joined w1
            | (Some err, w1) \<Rightarrow> reconcileDeletableNodes e items (errorsJoin [joined, Some err]) w1))"

definition reconcileTerminatingNodes :: "environment \<Rightarrow> world \<Rightarrow> goerr option \<times> world" where
  "reconcileTerminatingNodes e w =
     (case readOp e (ListElasticNodesByStatuses [StatusDraining]) w of
        (Inl err, w1) \<Rightarrow> (Some err, w1)
      | (Inr items, w1) \<Rightarrow> reconcileDeletableNodes e items None w1)"

definition reconcileIdleNodes :: "environment \<Rightarrow> world \<Rightarrow> goerr option \<times> world" where
  "reconcileIdleNodes e w =
     (case readOp e HasUnsettledServiceRuns w of
        (Inl err, w1) \<Rightarrow> (Some err, w1)
      | (Inr unsettled, w1) \<Rightarrow>
          if unsettled then (None, w1)
          else (case readOp e (ListElasticNodesByStatuses [StatusReady]) w1 of
                  (Inl err, w2) \<Rightarrow> (Some err, w2)
                | (Inr items, w2) \<Rightarrow> reconcileDeletableNodes e items None w2))"

section \<open>Nodes that never registered\<close>

definition reconcileStaleProvisioningNode ::
  "environment \<Rightarrow> string \<Rightarrow> node \<Rightarrow> world \<Rightarrow> goerr option \<times> world" where
  "reconcileStaleProvisioningNode e prefix item w =
     (if nodeStatus item \<noteq> StatusProvisioning \<or> \<not> nodeElastic item then (None, w)
      else
        (let reason = ''node did not register before provisioning timeout'';
             (r1, w1) = (if nonBlank (instanceIDText item)
                         then deleteProviderNode e (instanceIDText item) w else (Inr (), w))
         in case r1 of
              Inl err \<Rightarrow> (Some err, w1)
            | Inr _ \<Rightarrow>
                (case storeOp e (\<lambda>clk _. MarkNodeDeleted clk (nodeID item) reason (Some (goNow clk))) w1 of
                   (r2, w2) \<Rightarrow>
                     (case storeOp e (\<lambda>clk _. unitOp (MarkPendingServiceRunFailedForProvisioningNode
                             (envMD5 e) clk prefix (nodeName item) reason)) w2 of
                        (r3, w3) \<Rightarrow> (errorsJoin [errOf r2, errOf r3], w3)))))"

fun staleProvisioningLoop ::
  "environment \<Rightarrow> string \<Rightarrow> instant \<Rightarrow> node list \<Rightarrow> goerr option \<Rightarrow> world \<Rightarrow> goerr option \<times> world" where
  "staleProvisioningLoop e prefix cutoff [] joined w = (joined, w)"
| "staleProvisioningLoop e prefix cutoff (item # items) joined w =
     (if cutoff < nodeUpdatedAt item then staleProvisioningLoop e prefix cutoff items joined w
      else (case reconcileStaleProvisioningNode e prefix item w of
              (None, w1) \<Rightarrow> staleProvisioningLoop e prefix cutoff items joined w1
            | (Some err, w1) \<Rightarrow>
                staleProvisioningLoop e prefix cutoff items (errorsJoin [joined, Some err]) w1))"

definition reconcileStaleProvisioningNodes ::
  "environment \<Rightarrow> plane_config \<Rightarrow> world \<Rightarrow> goerr option \<times> world" where
  "reconcileStaleProvisioningNodes e cfg w =
     (case readOp e (ListElasticNodesByStatuses [StatusProvisioning]) w of
        (Inl err, w1) \<Rightarrow> (Some err, w1)
      | (Inr items, w1) \<Rightarrow>
          staleProvisioningLoop e (cfgPlaneName cfg @ NodeNameSuffix)
            (addDur (goNow (envClock e (wtick w1))) (- provisioningNodeTimeout)) items None w1)"

section \<open>Buying capacity\<close>

definition createFailedReason :: "goerr \<Rightarrow> string" where
  "createFailedReason err = ''provider node creation failed: '' @ errText err"

definition bindFailedReason :: "goerr \<Rightarrow> string" where
  "bindFailedReason err =
     ''provider node was created but cloud-plane failed to bind it: '' @ errText err"

definition createRequestOf :: "provisioning_candidate \<Rightarrow> create_request" where
  "createRequestOf c =
     \<lparr>crName = pcNodeName c, crClientToken = pcClientToken c, crCPUMilli = pcCPUMilli c,
      crMemoryMi = pcMemoryMi c\<rparr>"

definition reconcilePendingExecutionCapacity ::
  "environment \<Rightarrow> plane_config \<Rightarrow> world \<Rightarrow> (bool \<times> goerr option) \<times> world" where
  "reconcilePendingExecutionCapacity e cfg w =
     (case readOp e (GetNodeProvisioningCandidate (envMD5 e) (cfgPlaneName cfg @ NodeNameSuffix)
             (cfgInstanceType cfg)) w of
        (Inl err, w1) \<Rightarrow> ((False, Some err), w1)
      | (Inr None, w1) \<Rightarrow> ((False, None), w1)
      | (Inr (Some c), w1) \<Rightarrow>
          if pcHasCapacity c \<or> pcHasProvisioning c then ((False, None), w1)
          else
            (case storeOp e (\<lambda>clk ent. CreateProvisioningNode clk ent
                    \<lparr>piProvider = cfgProvider cfg, piRegion = cfgRegionID cfg, piName = pcNodeName c,
                     piInstanceType = pcInstanceType c,
                     piStatusReason = ''pending execution requires more node capacity''\<rparr>) w1 of
               (Inl err, w2) \<Rightarrow> ((False, Some err), w2)
             | (Inr node, w2) \<Rightarrow>
                 (case driverCreate e (createRequestOf c) w2 of
                    (Inl err, w3) \<Rightarrow>
                      (let reason = createFailedReason err in
                       case storeOp e (\<lambda>clk _. MarkNodeDeleted clk (nodeID node) reason (Some (goNow clk))) w3 of
                         (r4, w4) \<Rightarrow>
                           (case storeOp e (\<lambda>clk _. unitOp (MarkServiceRunFailed clk (pcServiceID c) reason)) w4 of
                              (r5, w5) \<Rightarrow> ((False, errorsJoin [Some err, errOf r4, errOf r5]), w5)))
                  | (Inr result, w3) \<Rightarrow>
                      (case storeOp e (\<lambda>clk _. BindProvisionedNode clk (nodeID node) (crInstanceID result)
                              (crInstanceName result) (crInstanceType result)
                              ''provider accepted node creation'' (Some (goNow clk))) w3 of
                         (Inr _, w4) \<Rightarrow> ((True, None), w4)
                       | (Inl err, w4) \<Rightarrow>
                           (let reason = bindFailedReason err in
                            case deleteProviderNode e (crInstanceID result) w4 of
                              (r5, w5) \<Rightarrow>
                                (case storeOp e (\<lambda>clk _. MarkNodeDeleted clk (nodeID node) reason (Some (goNow clk))) w5 of
                                   (r6, w6) \<Rightarrow>
                                     (case storeOp e (\<lambda>clk _. unitOp (MarkServiceRunFailed clk (pcServiceID c) reason)) w6 of
                                        (r7, w7) \<Rightarrow>
                                          ((False, errorsJoin [Some err, errOf r5, errOf r6, errOf r7]), w7))))))))"

definition reconcileOnce :: "environment \<Rightarrow> plane_config \<Rightarrow> world \<Rightarrow> goerr option \<times> world" where
  "reconcileOnce e cfg w =
     (case reconcileTerminatingNodes e w of
        (Some err, w1) \<Rightarrow> (Some err, w1)
      | (None, w1) \<Rightarrow>
          (case reconcileStaleProvisioningNodes e cfg w1 of
             (Some err, w2) \<Rightarrow> (Some err, w2)
           | (None, w2) \<Rightarrow>
               (case reconcilePendingExecutionCapacity e cfg w2 of
                  ((_, Some err), w3) \<Rightarrow> (Some err, w3)
                | ((True, None), w3) \<Rightarrow> (None, w3)
                | ((False, None), w3) \<Rightarrow> reconcileIdleNodes e w3)))"

end
