(* ===== verification/ReconcilerSafety.thy ===== *)
theory ReconcilerSafety
  imports NodeReconciler StoreIdle StoreDemo
begin

text \<open>
  Safety of the node reconciler while anything else works on the same database: what it does is
  steps of the store, and every instance it asks the provider to delete is justified.
\<close>

text \<open>Interference by transactions of the store only.\<close>

definition quiet :: "environment \<Rightarrow> bool" where
  "quiet e \<longleftrightarrow> (\<forall>k s. store_step\<^sup>*\<^sup>* s (envOther e k s))"

text \<open>
  Why an instance may be deleted, in the database at the moment of the call: it belongs to an
  elastic node on its way out with nothing running on it, or to an elastic node that was listed
  while it was still provisioning, or the provider has just created it.
\<close>

definition justified :: "environment \<Rightarrow> string \<Rightarrow> db \<Rightarrow> bool" where
  "justified e inst s \<longleftrightarrow>
     (\<exists>n\<in>set (nodes s). nodeElastic n \<and>
        (nodeStatus n = StatusDeleted \<or>
         nodeStatus n = StatusDraining \<and> nodeInstanceID n = Some inst \<and>
           \<not> list_ex (activeOn (nodeID n)) (runs s))) \<or>
     (\<exists>s0 n. store_reachable s0 \<and> store_step\<^sup>*\<^sup>* s0 s \<and> n \<in> set (nodes s0) \<and> nodeElastic n \<and>
        nodeStatus n = StatusProvisioning \<and> nodeInstanceID n = Some inst) \<or>
     (\<exists>k rq r. envCreate e k rq = Inr r \<and> crInstanceID r = inst)"

definition justifiedCall :: "environment \<Rightarrow> provider_call \<times> db \<Rightarrow> bool" where
  "justifiedCall e x \<longleftrightarrow> store_reachable (snd x) \<and>
     (case fst x of CreateCall rq \<Rightarrow> True | DeleteCall inst \<Rightarrow> justified e inst (snd x))"

definition advances :: "environment \<Rightarrow> world \<Rightarrow> world \<Rightarrow> bool" where
  "advances e w w' \<longleftrightarrow> store_step\<^sup>*\<^sup>* (wdb w) (wdb w') \<and>
     (\<exists>l. wlog w' = wlog w @ l \<and> list_all (justifiedCall e) l)"

lemma advances_refl [simp]: "advances e w w"
  by (simp add: advances_def)

lemma advances_trans: "advances e a b \<Longrightarrow> advances e b c \<Longrightarrow> advances e a c"
  unfolding advances_def by (auto intro: rtranclp_trans)

lemma advances_reachable: "advances e w w' \<Longrightarrow> store_reachable (wdb w) \<Longrightarrow> store_reachable (wdb w')"
  unfolding advances_def using store_reachable_steps by blast

lemma interfere_steps: "quiet e \<Longrightarrow> store_step\<^sup>*\<^sup>* (wdb w) (wdb (interfere e w))"
  by (simp add: interfere_def quiet_def)

lemma interfere_log [simp]: "wlog (interfere e w) = wlog w"
  by (simp add: interfere_def)

definition stepping :: "(clock \<Rightarrow> nat list res \<Rightarrow> db \<Rightarrow> ('a \<times> db) res) \<Rightarrow> bool" where
  "stepping f \<longleftrightarrow> (\<forall>clk ent s x s'. f clk ent s = Inr (x, s') \<longrightarrow> s' = s \<or> store_step s s')"

lemma storeOp_advances:
  assumes q: "quiet e" and f: "stepping f" and op: "storeOp e f w = (r, w')"
  shows "advances e w w'"
proof -
  let ?w1 = "interfere e w"
  have 1: "store_step\<^sup>*\<^sup>* (wdb w) (wdb ?w1)" by (rule interfere_steps [OF q])
  consider "w' = ?w1" | x where "f (envClock e (wtick w)) (envEntropy e (wtick w)) (wdb ?w1) = Inr (x, wdb w')"
      "wlog w' = wlog w"
    using op by (auto simp: storeOp_def Let_def split: option.splits sum.splits prod.splits)
  then show ?thesis
  proof cases
    case 1
    then show ?thesis using \<open>store_step\<^sup>*\<^sup>* (wdb w) (wdb ?w1)\<close> by (simp add: advances_def)
  next
    case (2 x)
    then have "wdb w' = wdb ?w1 \<or> store_step (wdb ?w1) (wdb w')" using f unfolding stepping_def by blast
    then have "store_step\<^sup>*\<^sup>* (wdb w) (wdb w')" using 1 by auto
    then show ?thesis using 2(2) by (simp add: advances_def)
  qed
qed

lemma storeOp_Inr:
  assumes q: "quiet e" and op: "storeOp e f w = (Inr x, w')"
  obtains clk ent s1 where "store_step\<^sup>*\<^sup>* (wdb w) s1" "f clk ent s1 = Inr (x, wdb w')"
proof -
  have "f (envClock e (wtick w)) (envEntropy e (wtick w)) (wdb (interfere e w)) = Inr (x, wdb w')"
    using op by (auto simp: storeOp_def Let_def split: option.splits sum.splits prod.splits)
  then show thesis by (rule that [OF interfere_steps [OF q]])
qed

lemma stepping_ops [simp]:
  "stepping (\<lambda>clk ent s. Inr (f s, s))"
  "stepping (\<lambda>clk ent. CreateProvisioningNode clk ent i)"
  "stepping (\<lambda>clk _. BindProvisionedNode clk nid inst name ityp reason (Some (goNow clk)))"
  "stepping (\<lambda>clk _. PrepareNodeDeletion clk nid reason (Some (goNow clk)))"
  "stepping (\<lambda>clk _. MarkNodeDeleted clk nid reason (Some (goNow clk)))"
  "stepping (\<lambda>clk _. unitOp (MarkServiceRunFailed clk sid reason))"
  "stepping (\<lambda>clk _. unitOp (MarkPendingServiceRunFailedForProvisioningNode md5 clk prefix name reason))"
  unfolding stepping_def
  subgoal by simp
  subgoal using step_create by blast
  subgoal using step_bind by blast
  subgoal using step_prepare by blast
  subgoal using step_deleted by blast
  subgoal using step_run_failed unfolding unitOp_def by (auto split: sum.splits)
  subgoal using step_pending_failed unfolding unitOp_def by (auto split: sum.splits)
  done

lemma readOp_result:
  assumes q: "quiet e" and r: "store_reachable (wdb w)" and op: "readOp e f w = (Inr x, w')"
  shows "advances e w w'" "x = f (wdb w')"
proof -
  show "advances e w w'" by (rule storeOp_advances [OF q stepping_ops(1) op [unfolded readOp_def]])
  from op [unfolded readOp_def] show "x = f (wdb w')" by (rule storeOp_Inr [OF q]) simp
qed

lemma readOp_advances: "quiet e \<Longrightarrow> readOp e f w = (r, w') \<Longrightarrow> advances e w w'"
  unfolding readOp_def by (rule storeOp_advances [OF _ stepping_ops(1)])

lemma delete_advances:
  assumes q: "quiet e" and r: "store_reachable (wdb w)"
    and j: "\<And>s. store_step\<^sup>*\<^sup>* (wdb w) s \<Longrightarrow> justified e inst s"
    and op: "deleteProviderNode e inst w = (x, w')"
  shows "advances e w w'"
proof -
  have s: "store_step\<^sup>*\<^sup>* (wdb w) (wdb (interfere e w))" by (rule interfere_steps [OF q])
  have w': "wdb w' = wdb (interfere e w)" "wlog w' = wlog w @ [(DeleteCall inst, wdb (interfere e w))]"
    using op by (auto simp: deleteProviderNode_def Let_def)
  have "justifiedCall e (DeleteCall inst, wdb (interfere e w))"
    using j [OF s] store_reachable_steps [OF s r] by (simp add: justifiedCall_def)
  then show ?thesis using s w' by (simp add: advances_def)
qed

lemma create_advances:
  assumes q: "quiet e" and r: "store_reachable (wdb w)" and op: "driverCreate e rq w = (x, w')"
  shows "advances e w w'"
proof -
  have s: "store_step\<^sup>*\<^sup>* (wdb w) (wdb (interfere e w))" by (rule interfere_steps [OF q])
  have w': "wdb w' = wdb (interfere e w)" "wlog w' = wlog w @ [(CreateCall rq, wdb (interfere e w))]"
    using op by (auto simp: driverCreate_def Let_def)
  then show ?thesis using s store_reachable_steps [OF s r] by (simp add: advances_def justifiedCall_def)
qed

section \<open>The deletion of a node\<close>

text \<open>An item of a listing: a row of an earlier database.\<close>

definition listed :: "node \<Rightarrow> world \<Rightarrow> bool" where
  "listed item w \<longleftrightarrow> (\<exists>s0. store_reachable s0 \<and> item \<in> set (nodes s0) \<and> store_step\<^sup>*\<^sup>* s0 (wdb w))"

lemma listed_advances: "listed item w \<Longrightarrow> advances e w w' \<Longrightarrow> listed item w'"
  unfolding listed_def advances_def by (meson rtranclp_trans)

lemma listed_evolves:
  assumes "listed item w" "store_step\<^sup>*\<^sup>* (wdb w) s"
  shows "\<exists>n\<in>set (nodes s). node_evolves item n"
proof -
  obtain s0 where s0: "store_reachable s0" "item \<in> set (nodes s0)" "store_step\<^sup>*\<^sup>* s0 (wdb w)"
    using assms(1) by (auto simp: listed_def)
  then have "store_step\<^sup>*\<^sup>* s0 s" using assms(2) by auto
  then show ?thesis
    using store_steps_nodes [OF _ store_reachable_inv [OF s0(1)]] s0(2) by (auto simp: nodes_evolve_def)
qed

lemma draining_justified:
  assumes r: "store_reachable s" and n: "n \<in> set (nodes s)" "nodeStatus n = StatusDraining"
      "nodeElastic n" "nodeInstanceID n = Some inst" and s1: "store_step\<^sup>*\<^sup>* s s1"
  shows "justified e inst s1"
proof -
  obtain m where m: "m \<in> set (nodes s1)" "node_evolves n m"
    using store_steps_nodes [OF s1 store_reachable_inv [OF r]] n(1) by (auto simp: nodes_evolve_def)
  have "\<not> list_ex (activeOn (nodeID m)) (runs s1)" if "nodeStatus m = StatusDraining"
    using store_reachable_idle [OF store_reachable_steps [OF s1 r]] m(1) that
    by (auto simp: draining_idle_def drainingNode_def)
  then show ?thesis using m n unfolding justified_def node_evolves_def retired_def
    by (intro disjI1 bexI [OF _ m(1)]) auto
qed

lemma reconcileNodeDeletion_advances:
  assumes q: "quiet e" and r: "store_reachable (wdb w)" and item: "listed item w"
    and op: "reconcileNodeDeletion e item w = (res, w')"
  shows "advances e w w'"
proof (cases "(nodeStatus item \<noteq> StatusReady \<and> nodeStatus item \<noteq> StatusDraining) \<or>
    \<not> nodeElastic item \<or> \<not> nonBlank (instanceIDText item)")
  case True
  then have "w' = w" using op by (auto simp: reconcileNodeDeletion_def split: if_splits)
  then show ?thesis by simp
next
  case False
  let ?prep = "\<lambda>clk (_ :: nat list res). PrepareNodeDeletion clk (nodeID item)
    ''node has no active execution and cloud-plane is deleting the provider instance'' (Some (goNow clk))"
  obtain x w1 where prep: "storeOp e ?prep w = (x, w1)" by fastforce
  have a1: "advances e w w1" by (rule storeOp_advances [OF q stepping_ops(4) prep])
  note r1 = advances_reachable [OF a1 r]
  show ?thesis
  proof (cases "\<exists>n. x = Inr (n, True)")
    case no: False
    then have "w' = w1" using op prep False
      by (auto simp: reconcileNodeDeletion_def split: sum.splits prod.splits)
    then show ?thesis using a1 by simp
  next
    case True
    then obtain n where x: "x = Inr (n, True)" by blast
    obtain clk ent s1 where s1: "store_step\<^sup>*\<^sup>* (wdb w) s1" and n': "?prep clk ent s1 = Inr ((n, True), wdb w1)"
      using storeOp_Inr [OF q prep [unfolded x]] by blast
    have "n \<in> set (nodes (wdb w1)) \<and> nodeStatus n = StatusDraining \<and> nodeID n = nodeID item"
      using n'
    proof (cases rule: PrepareNodeDeletion_cases)
      case (draining m)
      then show ?thesis using findBy_SomeD [OF draining(1)] by simp
    next
      case (drained m)
      then show ?thesis by (auto simp: drainedRow_def updateWhere_iff)
    qed simp
    then have n: "n \<in> set (nodes (wdb w1))" "nodeStatus n = StatusDraining" "nodeID n = nodeID item" by blast+
    obtain m where m: "m \<in> set (nodes (wdb w1))" "node_evolves item m"
      using listed_evolves [OF listed_advances [OF item a1]] by blast
    have "m = n" using inv_node_eqI [OF store_reachable_inv [OF r1] m(1) n(1)] m(2) n(3) by (simp add: node_evolves_def)
    then have "nodeElastic n" "nodeInstanceID n = nodeInstanceID item"
      using m(2) n(2) False by (auto simp: node_evolves_def)
    then have inst: "nodeElastic n" "nodeInstanceID n = Some (instanceIDText n)"
      using False by (auto simp: instanceIDText_def split: option.splits)
    obtain y w2 where del: "deleteProviderNode e (instanceIDText n) w1 = (y, w2)" by fastforce
    have a2: "advances e w1 w2"
      by (rule delete_advances [OF q r1 draining_justified [OF r1 n(1,2) inst] del])
    show ?thesis
    proof (cases y)
      case (Inl err)
      then have "w' = w2" using op prep False x del by (auto simp: reconcileNodeDeletion_def)
      then show ?thesis using advances_trans [OF a1 a2] by simp
    next
      case (Inr u)
      obtain z w3 where mark: "storeOp e (\<lambda>clk _. MarkNodeDeleted clk (nodeID n)
          ''provider instance was deleted or was already absent'' (Some (goNow clk))) w2 = (z, w3)" by fastforce
      then have "w' = w3" using op prep False x del Inr by (auto simp: reconcileNodeDeletion_def)
      then show ?thesis
        using advances_trans [OF a1 advances_trans [OF a2 storeOp_advances [OF q stepping_ops(5) mark]]] by simp
    qed
  qed
qed

section \<open>The whole pass\<close>

lemma reconcileDeletableNodes_advances:
  "quiet e \<Longrightarrow> store_reachable (wdb w) \<Longrightarrow> (\<And>i. i \<in> set items \<Longrightarrow> listed i w) \<Longrightarrow>
   reconcileDeletableNodes e items joined w = (res, w') \<Longrightarrow> advances e w w'"
proof (induction items arbitrary: joined w)
  case (Cons i items)
  show ?case
  proof (cases "\<not> nonBlank (instanceIDText i) \<or> \<not> nodeElastic i")
    case True
    then show ?thesis using Cons.IH [of w joined] Cons.prems by (simp split: if_splits)
  next
    case False
    obtain r w1 where n: "reconcileNodeDeletion e i w = (r, w1)" by fastforce
    have a: "advances e w w1"
      by (rule reconcileNodeDeletion_advances [OF Cons.prems(1,2) Cons.prems(3) n]) simp
    have "\<exists>joined'. reconcileDeletableNodes e items joined' w1 = (res, w')"
      using Cons.prems(4) False n by (auto split: option.splits)
    then obtain joined' where rest: "reconcileDeletableNodes e items joined' w1 = (res, w')" by blast
    have "advances e w1 w'"
      by (rule Cons.IH [OF Cons.prems(1) advances_reachable [OF a Cons.prems(2)] _ rest])
        (use Cons.prems(3) listed_advances [OF _ a] in auto)
    then show ?thesis by (rule advances_trans [OF a])
  qed
qed simp

lemma listing_listed:
  assumes "store_reachable s" "i \<in> set (ListElasticNodesByStatuses sts s)" "s = wdb w"
  shows "listed i w" "nodeElastic i" "nodeStatus i \<in> set sts"
proof -
  have i: "i \<in> set (nodes s)" "nodeElastic i" "nodeStatus i \<in> set sts"
    using assms(2) by (auto simp: ListElasticNodesByStatuses_def split: if_splits)
  then show "listed i w" "nodeElastic i" "nodeStatus i \<in> set sts"
    using assms(1,3) unfolding listed_def by blast+
qed

lemma reconcileTerminatingNodes_advances:
  assumes q: "quiet e" and r: "store_reachable (wdb w)" and op: "reconcileTerminatingNodes e w = (res, w')"
  shows "advances e w w'"
proof -
  obtain x w1 where rd: "readOp e (ListElasticNodesByStatuses [StatusDraining]) w = (x, w1)" by fastforce
  have a: "advances e w w1" by (rule readOp_advances [OF q rd])
  note r1 = advances_reachable [OF a r]
  show ?thesis
  proof (cases x)
    case (Inl err)
    then show ?thesis using op rd a by (simp add: reconcileTerminatingNodes_def)
  next
    case (Inr items)
    then have "reconcileDeletableNodes e items None w1 = (res, w')"
      using op rd by (simp add: reconcileTerminatingNodes_def)
    moreover have "listed i w1" if "i \<in> set items" for i
      using listing_listed(1) [OF r1 _ refl] readOp_result(2) [OF q r rd [unfolded Inr]] that by blast
    ultimately have "advances e w1 w'" using reconcileDeletableNodes_advances [OF q r1] by blast
    then show ?thesis by (rule advances_trans [OF a])
  qed
qed

lemma reconcileIdleNodes_advances:
  assumes q: "quiet e" and r: "store_reachable (wdb w)" and op: "reconcileIdleNodes e w = (res, w')"
  shows "advances e w w'"
proof -
  obtain x w1 where rd: "readOp e HasUnsettledServiceRuns w = (x, w1)" by fastforce
  have a: "advances e w w1" by (rule readOp_advances [OF q rd])
  note r1 = advances_reachable [OF a r]
  show ?thesis
  proof (cases "x = Inr False")
    case False
    then have "w' = w1" using op rd by (auto simp: reconcileIdleNodes_def split: sum.splits)
    then show ?thesis using a by simp
  next
    case True
    obtain y w2 where rd2: "readOp e (ListElasticNodesByStatuses [StatusReady]) w1 = (y, w2)" by fastforce
    have a2: "advances e w1 w2" by (rule readOp_advances [OF q rd2])
    note r2 = advances_reachable [OF a2 r1]
    show ?thesis
    proof (cases y)
      case (Inl err)
      then have "w' = w2" using op rd rd2 True by (simp add: reconcileIdleNodes_def)
      then show ?thesis using advances_trans [OF a a2] by simp
    next
      case (Inr items)
      then have "reconcileDeletableNodes e items None w2 = (res, w')"
        using op rd rd2 True by (simp add: reconcileIdleNodes_def)
      moreover have "listed i w2" if "i \<in> set items" for i
        using listing_listed(1) [OF r2 _ refl] readOp_result(2) [OF q r1 rd2 [unfolded Inr]] that by blast
      ultimately have "advances e w2 w'" using reconcileDeletableNodes_advances [OF q r2] by blast
      then show ?thesis using advances_trans [OF a advances_trans [OF a2]] by blast
    qed
  qed
qed

lemma provisioning_justified:
  assumes item: "listed i w" "nodeElastic i" "nodeStatus i = StatusProvisioning" "nonBlank (instanceIDText i)"
    and s: "store_step\<^sup>*\<^sup>* (wdb w) s"
  shows "justified e (instanceIDText i) s"
proof -
  obtain s0 where s0: "store_reachable s0" "i \<in> set (nodes s0)" "store_step\<^sup>*\<^sup>* s0 (wdb w)"
    using item(1) by (auto simp: listed_def)
  have "store_step\<^sup>*\<^sup>* s0 s" using s0(3) s by simp
  moreover have "nodeInstanceID i = Some (instanceIDText i)"
    using item(4) by (auto simp: instanceIDText_def split: option.splits)
  ultimately show ?thesis using s0(1,2) item(2,3) unfolding justified_def by blast
qed

lemma reconcileStaleProvisioningNode_advances:
  assumes q: "quiet e" and r: "store_reachable (wdb w)" and item: "listed i w"
    and op: "reconcileStaleProvisioningNode e prefix i w = (res, w')"
  shows "advances e w w'"
proof (cases "nodeStatus i \<noteq> StatusProvisioning \<or> \<not> nodeElastic i")
  case True
  then have "w' = w" using op by (auto simp: reconcileStaleProvisioningNode_def split: if_splits)
  then show ?thesis by simp
next
  case False
  obtain x w1 where x: "(if nonBlank (instanceIDText i) then deleteProviderNode e (instanceIDText i) w else (Inr (), w)) = (x, w1)"
    by fastforce
  have a1: "advances e w w1"
  proof (cases "nonBlank (instanceIDText i)")
    case True
    then have del: "deleteProviderNode e (instanceIDText i) w = (x, w1)" using x by simp
    show ?thesis
      by (rule delete_advances [OF q r provisioning_justified [OF item _ _ True] del]) (use False in simp_all)
  qed (use x in simp)
  let ?reason = "''node did not register before provisioning timeout''"
  obtain y w2 where mark: "storeOp e (\<lambda>clk _. MarkNodeDeleted clk (nodeID i) ?reason (Some (goNow clk))) w1 = (y, w2)"
    by fastforce
  obtain z w3 where fail: "storeOp e (\<lambda>clk _. unitOp (MarkPendingServiceRunFailedForProvisioningNode
      (envMD5 e) clk prefix (nodeName i) ?reason)) w2 = (z, w3)" by fastforce
  have a3: "advances e w1 w3"
    by (rule advances_trans [OF storeOp_advances [OF q stepping_ops(5) mark] storeOp_advances [OF q stepping_ops(7) fail]])
  have "w' = w1 \<or> w' = w3"
    using op False x mark fail by (cases x) (auto simp: reconcileStaleProvisioningNode_def Let_def)
  then show ?thesis using a1 advances_trans [OF a1 a3] by blast
qed

lemma staleProvisioningLoop_advances:
  "quiet e \<Longrightarrow> store_reachable (wdb w) \<Longrightarrow> (\<And>i. i \<in> set items \<Longrightarrow> listed i w) \<Longrightarrow>
   staleProvisioningLoop e prefix cutoff items joined w = (res, w') \<Longrightarrow> advances e w w'"
proof (induction items arbitrary: joined w)
  case (Cons i items)
  show ?case
  proof (cases "cutoff < nodeUpdatedAt i")
    case True
    then show ?thesis using Cons.IH [of w joined] Cons.prems by simp
  next
    case False
    obtain r w1 where n: "reconcileStaleProvisioningNode e prefix i w = (r, w1)" by fastforce
    have a: "advances e w w1"
      by (rule reconcileStaleProvisioningNode_advances [OF Cons.prems(1,2) Cons.prems(3) n]) simp
    have "\<exists>joined'. staleProvisioningLoop e prefix cutoff items joined' w1 = (res, w')"
      using Cons.prems(4) False n by (auto split: option.splits)
    then obtain joined' where rest: "staleProvisioningLoop e prefix cutoff items joined' w1 = (res, w')" by blast
    have "advances e w1 w'"
      by (rule Cons.IH [OF Cons.prems(1) advances_reachable [OF a Cons.prems(2)] _ rest])
        (use Cons.prems(3) listed_advances [OF _ a] in auto)
    then show ?thesis by (rule advances_trans [OF a])
  qed
qed simp

lemma reconcileStaleProvisioningNodes_advances:
  assumes q: "quiet e" and r: "store_reachable (wdb w)"
    and op: "reconcileStaleProvisioningNodes e cfg w = (res, w')"
  shows "advances e w w'"
proof -
  obtain x w1 where rd: "readOp e (ListElasticNodesByStatuses [StatusProvisioning]) w = (x, w1)" by fastforce
  have a: "advances e w w1" by (rule readOp_advances [OF q rd])
  note r1 = advances_reachable [OF a r]
  show ?thesis
  proof (cases x)
    case (Inl err)
    then show ?thesis using op rd a by (simp add: reconcileStaleProvisioningNodes_def)
  next
    case (Inr items)
    then have loop: "staleProvisioningLoop e (cfgPlaneName cfg @ NodeNameSuffix)
        (addDur (goNow (envClock e (wtick w1))) (- provisioningNodeTimeout)) items None w1 = (res, w')"
      using op rd by (simp add: reconcileStaleProvisioningNodes_def)
    have "listed i w1" if "i \<in> set items" for i
      using listing_listed(1) [OF r1 _ refl] readOp_result(2) [OF q r rd [unfolded Inr]] that by blast
    then have "advances e w1 w'" using staleProvisioningLoop_advances [OF q r1 _ loop] by blast
    then show ?thesis by (rule advances_trans [OF a])
  qed
qed

lemma created_justified: "envCreate e k rq = Inr r \<Longrightarrow> justified e (crInstanceID r) s"
  unfolding justified_def by blast

lemma failed_purchase_advances:
  assumes q: "quiet e"
    and mark: "storeOp e (\<lambda>clk _. MarkNodeDeleted clk nid reason (Some (goNow clk))) w = (y, w1)"
    and fail: "storeOp e (\<lambda>clk _. unitOp (MarkServiceRunFailed clk sid reason)) w1 = (z, w2)"
  shows "advances e w w2"
  by (rule advances_trans [OF storeOp_advances [OF q stepping_ops(5) mark] storeOp_advances [OF q stepping_ops(6) fail]])

lemma reconcilePendingExecutionCapacity_advances:
  assumes q: "quiet e" and r: "store_reachable (wdb w)"
    and op: "reconcilePendingExecutionCapacity e cfg w = (res, w')"
  shows "advances e w w'"
proof -
  obtain x w1 where rd: "readOp e (GetNodeProvisioningCandidate (envMD5 e) (cfgPlaneName cfg @ NodeNameSuffix)
      (cfgInstanceType cfg)) w = (x, w1)" by fastforce
  have a1: "advances e w w1" by (rule readOp_advances [OF q rd])
  show ?thesis
  proof (cases "\<exists>c. x = Inr (Some c) \<and> \<not> pcHasCapacity c \<and> \<not> pcHasProvisioning c")
    case False
    then have "w' = w1" using op rd
      by (auto simp: reconcilePendingExecutionCapacity_def split: sum.splits option.splits if_splits)
    then show ?thesis using a1 by simp
  next
    case True
    then obtain c where c: "x = Inr (Some c)" "\<not> pcHasCapacity c" "\<not> pcHasProvisioning c" by blast
    let ?i = "\<lparr>piProvider = cfgProvider cfg, piRegion = cfgRegionID cfg, piName = pcNodeName c,
       piInstanceType = pcInstanceType c, piStatusReason = ''pending execution requires more node capacity''\<rparr>"
    obtain y w2 where cr: "storeOp e (\<lambda>clk ent. CreateProvisioningNode clk ent ?i) w1 = (y, w2)" by fastforce
    have a2: "advances e w w2"
      by (rule advances_trans [OF a1 storeOp_advances [OF q stepping_ops(2) cr]])
    note r2 = advances_reachable [OF a2 r]
    show ?thesis
    proof (cases y)
      case (Inl err)
      then have "w' = w2" using op rd c cr by (simp add: reconcilePendingExecutionCapacity_def)
      then show ?thesis using a2 by simp
    next
      case node: (Inr node)
      obtain z w3 where drv: "driverCreate e (createRequestOf c) w2 = (z, w3)" by fastforce
      have a3: "advances e w w3" by (rule advances_trans [OF a2 create_advances [OF q r2 drv]])
      note r3 = advances_reachable [OF a3 r]
      show ?thesis
      proof (cases z)
        case (Inl err)
        let ?reason = "createFailedReason err"
        obtain m w4 where mark: "storeOp e (\<lambda>clk _. MarkNodeDeleted clk (nodeID node) ?reason (Some (goNow clk))) w3 = (m, w4)"
          by fastforce
        obtain f w5 where fail: "storeOp e (\<lambda>clk _. unitOp (MarkServiceRunFailed clk (pcServiceID c) ?reason)) w4 = (f, w5)"
          by fastforce
        have "w' = w5" using op rd c cr node drv Inl mark fail
          by (simp add: reconcilePendingExecutionCapacity_def Let_def)
        then show ?thesis using advances_trans [OF a3 failed_purchase_advances [OF q mark fail]] by simp
      next
        case (Inr result)
        have ans: "envCreate e (wtick w2) (createRequestOf c) = Inr result"
          using drv Inr by (simp add: driverCreate_def Let_def)
        obtain b w4 where bind: "storeOp e (\<lambda>clk _. BindProvisionedNode clk (nodeID node) (crInstanceID result)
            (crInstanceName result) (crInstanceType result) ''provider accepted node creation'' (Some (goNow clk))) w3 = (b, w4)"
          by fastforce
        have a4: "advances e w w4" by (rule advances_trans [OF a3 storeOp_advances [OF q stepping_ops(3) bind]])
        note r4 = advances_reachable [OF a4 r]
        show ?thesis
        proof (cases b)
          case bound: (Inr n)
          then have "w' = w4" using op rd c cr node drv Inr bind
            by (simp add: reconcilePendingExecutionCapacity_def)
          then show ?thesis using a4 by simp
        next
          case lost: (Inl err)
          let ?reason = "bindFailedReason err"
          obtain d w5 where del: "deleteProviderNode e (crInstanceID result) w4 = (d, w5)" by fastforce
          have a5: "advances e w w5"
            by (rule advances_trans [OF a4 delete_advances [OF q r4 created_justified [OF ans] del]])
          obtain m w6 where mark: "storeOp e (\<lambda>clk _. MarkNodeDeleted clk (nodeID node) ?reason (Some (goNow clk))) w5 = (m, w6)"
            by fastforce
          obtain f w7 where fail: "storeOp e (\<lambda>clk _. unitOp (MarkServiceRunFailed clk (pcServiceID c) ?reason)) w6 = (f, w7)"
            by fastforce
          have "w' = w7" using op rd c cr node drv Inr bind lost del mark fail
            by (simp add: reconcilePendingExecutionCapacity_def Let_def)
          then show ?thesis using advances_trans [OF a5 failed_purchase_advances [OF q mark fail]] by simp
        qed
      qed
    qed
  qed
qed

lemma reconcileOnce_advances:
  assumes q: "quiet e" and r: "store_reachable (wdb w)" and op: "reconcileOnce e cfg w = (res, w')"
  shows "advances e w w'"
proof -
  obtain x w1 where t: "reconcileTerminatingNodes e w = (x, w1)" by fastforce
  have a1: "advances e w w1" by (rule reconcileTerminatingNodes_advances [OF q r t])
  note r1 = advances_reachable [OF a1 r]
  obtain y w2 where s: "reconcileStaleProvisioningNodes e cfg w1 = (y, w2)" by fastforce
  have a2: "advances e w w2"
    by (rule advances_trans [OF a1 reconcileStaleProvisioningNodes_advances [OF q r1 s]])
  note r2 = advances_reachable [OF a2 r]
  obtain made err w3 where p: "reconcilePendingExecutionCapacity e cfg w2 = ((made, err), w3)"
    by (metis prod.exhaust)
  have a3: "advances e w w3"
    by (rule advances_trans [OF a2 reconcilePendingExecutionCapacity_advances [OF q r2 p]])
  note r3 = advances_reachable [OF a3 r]
  obtain z w4 where i: "reconcileIdleNodes e w3 = (z, w4)" by fastforce
  have a4: "advances e w w4" by (rule advances_trans [OF a3 reconcileIdleNodes_advances [OF q r3 i]])
  have "w' = w1 \<or> w' = w2 \<or> w' = w3 \<or> w' = w4"
    using op t s p i by (auto simp: reconcileOnce_def split: option.splits bool.splits if_splits)
  then show ?thesis using a1 a2 a3 a4 by blast
qed

section \<open>The properties\<close>


definition calmEnv :: "create_result res \<Rightarrow> environment" where
  "calmEnv answer = \<lparr>envClock = (\<lambda>_. t0), envEntropy = (\<lambda>_. Inr [7]), envFault = (\<lambda>_. None),
     envOther = (\<lambda>_ s. s), envMD5 = id, envCreate = (\<lambda>_ _. answer), envDelete = (\<lambda>_ _. Inr ())\<rparr>"

definition demoCfg :: plane_config where
  "demoCfg = \<lparr>cfgPlaneName = ''pl'', cfgProvider = ''p'', cfgRegionID = ''r'', cfgInstanceType = ''t''\<rparr>"

definition w4 :: world where
  "w4 = \<lparr>wdb = d4, wtick = 0, wlog = []\<rparr>"


end
