(* ===== verification/ReconcilerProps.thy ===== *)
theory ReconcilerProps
  imports ReconcilerSafety
begin

text \<open>
  The purchase of a node when the provider refuses it, and the window in which the clean-up of
  unregistered nodes deletes a node that has just started to work.
\<close>

section \<open>A purchase that fails\<close>

lemma storeOp_calm:
  assumes "envFault e = (\<lambda>_. None)" "envOther e = (\<lambda>_ s. s)"
  shows "storeOp e f w = (case f (envClock e (wtick w)) (envEntropy e (wtick w)) (wdb w) of
     Inl err \<Rightarrow> (Inl err, w\<lparr>wtick := Suc (wtick w)\<rparr>)
   | Inr (x, s') \<Rightarrow> (Inr x, w\<lparr>wtick := Suc (wtick w), wdb := s'\<rparr>))"
  using assms by (simp add: storeOp_def interfere_def Let_def split: sum.split prod.split)

text \<open>Deleting the row that was just inserted changes no other row.\<close>

lemma fresh_row_deleted:
  assumes "findBy nodeID (nodeID n) (nodes s) = None"
  shows "MarkNodeDeleted clk (nodeID n) reason (Some (goNow clk)) (s\<lparr>nodes := nodes s @ [n]\<rparr>) =
    Inr (deletedRow (goNow clk) reason n, s\<lparr>nodes := nodes s @ [deletedRow (goNow clk) reason n]\<rparr>)"
proof -
  have old: "\<not> nodeID m = nodeID n" if "m \<in> set (nodes s)" for m
    using assms that unfolding findBy_None_iff by (metis imageI)
  have "updateWhere (\<lambda>m. nodeID m = nodeID n) (deletedRow (goNow clk) reason) (nodes s @ [n]) =
      nodes s @ [deletedRow (goNow clk) reason n]"
    using updateWhere_none [of "nodes s" "\<lambda>m. nodeID m = nodeID n", OF old] by (simp add: updateWhere_def)
  then show ?thesis using assms by (simp add: MarkNodeDeleted_def Let_def findBy_append orNow_def)
qed

text \<open>A service has one run, so failing its unfinished runs fails the pending one it is known to have.\<close>

lemma pending_run_failed:
  assumes "store_inv s" "r \<in> set (runs s)" "runStatus r = StatusPending" "runServiceID r = sid"
    and "q \<in> set (updateWhere (\<lambda>r. runServiceID r = sid \<and> (runStatus r = StatusPending \<or> runStatus r = StatusDeploying))
           (failRun k reason) (runs s))" "runServiceID q = sid"
  shows "runStatus q = StatusFailed \<and> runStatusReason q = reason"
proof -
  obtain p where p: "p \<in> set (runs s)"
    "q = (if runServiceID p = sid \<and> (runStatus p = StatusPending \<or> runStatus p = StatusDeploying) then failRun k reason p else p)"
    using assms(5) unfolding updateWhere_iff by (elim bexE) rule
  then have "runServiceID p = runServiceID r" using assms(4,6) by (auto split: if_splits)
  then have "p = r" using store_invD(7) [OF assms(1)] p(1) assms(2) by (auto simp: distinct_map dest: inj_onD)
  then show ?thesis using p(2) assms(3,4) by (simp add: failRun_def)
qed


text \<open>A service is accepted while no node can take its run.\<close>

definition g1 :: db where "g1 = resDB (UpsertService t0 (Inr [3]) (demoUpsert ''s1'' ''web'' 1) emptyDB)"

definition w5 :: world where
  "w5 = \<lparr>wdb = g1, wtick = 0, wlog = []\<rparr>"


section \<open>A clean-up that comes too late\<close>

definition orSame :: "(db \<Rightarrow> ('a \<times> db) res) \<Rightarrow> db \<Rightarrow> db" where
  "orSame f s = (case f s of Inl e \<Rightarrow> s | Inr (x, s') \<Rightarrow> s')"

lemma orSame_steps: "(\<And>s x s'. f s = Inr (x, s') \<Longrightarrow> store_step s s') \<Longrightarrow> store_step\<^sup>*\<^sup>* s (orSame f s)"
  by (auto simp: orSame_def split: sum.split prod.split)

text \<open>The node registers, becomes ready and is given a run.\<close>

definition comesAlive :: "clock \<Rightarrow> db \<Rightarrow> db" where
  "comesAlive clk s =
     orSame (ClaimServiceRun clk ''node_01'')
       (orSame (UpsertService clk (Inr [3]) (demoUpsert ''s1'' ''web'' 1))
         (orSame (RecordNodeHeartbeat clk ''node_01'' demoHeartbeat)
           (orSame (RegisterNode clk (Inr [2]) demoRegister) s)))"

lemma comesAlive_steps: "store_step\<^sup>*\<^sup>* s (comesAlive clk s)"
proof -
  have "store_step\<^sup>*\<^sup>* s (orSame (RegisterNode clk (Inr [2]) demoRegister) s)" for s
    by (rule orSame_steps) (rule step_register)
  moreover have "store_step\<^sup>*\<^sup>* s (orSame (RecordNodeHeartbeat clk ''node_01'' demoHeartbeat) s)" for s
    by (rule orSame_steps) (rule step_heartbeat)
  moreover have "store_step\<^sup>*\<^sup>* s (orSame (UpsertService clk (Inr [3]) (demoUpsert ''s1'' ''web'' 1)) s)" for s
    by (rule orSame_steps) (rule step_upsert)
  moreover have "store_step\<^sup>*\<^sup>* s (orSame (ClaimServiceRun clk ''node_01'') s)" for s
    by (rule orSame_steps) (rule step_claim)
  ultimately show ?thesis unfolding comesAlive_def by (meson rtranclp_trans)
qed

definition lateClock :: clock where
  "lateClock = \<lparr>goNow = Instant (secondsDur 700), dbNow = Instant (secondsDur 700)\<rparr>"

definition racyEnv :: environment where
  "racyEnv = (calmEnv (Inl (Errorf [])))\<lparr>envClock := (\<lambda>_. lateClock),
     envOther := (\<lambda>k s. if k = 2 then comesAlive lateClock s else s)\<rparr>"

lemma fst_eqD_pair: "fst p = a \<Longrightarrow> p = (a, snd p)"
  by auto

text \<open>
  The clean-up of nodes that did not register in time does not look again.  A node that was
  listed as provisioning may register, become ready and start a run before the provider is called;
  the pass then deletes the instance of a ready node on which a run is deploying.
\<close>

theorem cleanup_can_delete_a_busy_node:
  "\<exists>e cfg w s n. store_reachable (wdb w) \<and> (\<forall>k s. store_step\<^sup>*\<^sup>* s (envOther e k s)) \<and>
     (DeleteCall (instanceIDText n), s) \<in> set (wlog (snd (reconcileOnce e cfg w))) \<and>
     n \<in> set (nodes s) \<and> nodeStatus n = StatusReady \<and> list_ex (activeOn (nodeID n)) (runs s)"
proof -
  let ?w = "\<lparr>wdb = d2, wtick = 0, wlog = []\<rparr>"
  let ?l = "wlog (snd (reconcileOnce racyEnv demoCfg ?w))"
  let ?s = "snd (hd ?l)"
  let ?n = "hd (nodes ?s)"
  have l: "?l \<noteq> []" "fst (hd ?l) = DeleteCall (instanceIDText ?n)" by code_simp+
  have n: "?n \<in> set (nodes ?s)" "nodeStatus ?n = StatusReady" "list_ex (activeOn (nodeID ?n)) (runs ?s)"
    by code_simp+
  have "hd ?l = (DeleteCall (instanceIDText ?n), ?s)" using l(2) by (rule fst_eqD_pair)
  then have "(DeleteCall (instanceIDText ?n), ?s) \<in> set ?l" using hd_in_set [OF l(1)] by (rule subst)
  moreover have "\<forall>k s. store_step\<^sup>*\<^sup>* s (envOther racyEnv k s)"
    using comesAlive_steps by (simp add: racyEnv_def)
  moreover have "store_reachable (wdb ?w)" using demo_reachable(5) by simp
  ultimately show ?thesis using n by blast
qed

end
