(* ===== verification/Ingress.thy ===== *)
theory Ingress
  imports StoreServices StoreNodes
begin

text \<open>
  internal/cloudplane/control/ingress_reconciler.go: the routes that are published from the store,
  and the pass that hands them to the local sink (Caddy) and to the front door.

  The interfaces storeReader and RouteSyncer are records of functions on a world 'w, so that what
  a call answers may depend on everything that happened before it.  The locale at the end is the
  contract of a reader that answers from one snapshot; the store meets it.
\<close>

record 'w store_reader =
  srListIngressRouteSources :: "'w \<Rightarrow> route_source list res \<times> 'w"
  srGetNode :: "string \<Rightarrow> 'w \<Rightarrow> node res \<times> 'w"

type_synonym 'w route_syncer = "route list \<Rightarrow> 'w \<Rightarrow> goerr option \<times> 'w"

record ingress_config =
  igCaddyAdminURL :: string
  igBaseDomain :: string

text \<open>The slice of hosts in the order they were seen, and the map from a host to its backends.\<close>

type_synonym grouping = "string list \<times> (string \<rightharpoonup> string list)"

definition addHost :: "string \<Rightarrow> grouping \<Rightarrow> grouping" where
  "addHost host g = (case snd g host of None \<Rightarrow> (fst g @ [host], (snd g)(host \<mapsto> [])) | Some _ \<Rightarrow> g)"

definition backendsOf :: "(string \<rightharpoonup> string list) \<Rightarrow> string \<Rightarrow> string list" where
  "backendsOf m host = (case m host of None \<Rightarrow> [] | Some bs \<Rightarrow> bs)"

definition addBackend :: "string \<Rightarrow> string \<Rightarrow> grouping \<Rightarrow> grouping" where
  "addBackend host backend g = (fst g, (snd g)(host \<mapsto> backendsOf (snd g) host @ [backend]))"

text \<open>The address of a node that may serve, as the host and port a backend is reached under.\<close>

definition nodeBackend :: "route_source \<Rightarrow> node \<Rightarrow> string option" where
  "nodeBackend src n =
     (if nodeStatus n \<noteq> StatusReady then None
      else if trimSpace (nodePrivateIP n) = [] then None
      else Some (joinHostPort (trimSpace (nodePrivateIP n)) (itoa (rsHostPort src))))"

fun collectBackends ::
  "'w store_reader \<Rightarrow> route_source list \<Rightarrow> grouping \<Rightarrow> 'w \<Rightarrow> grouping res \<times> 'w" where
  "collectBackends rd [] g w = (Inr g, w)"
| "collectBackends rd (src # srcs) g w =
     (let host = trimSpace (rsHost src) in
      if host = [] then collectBackends rd srcs g w
      else
        (let g1 = addHost host g in
         if \<not> rsHasBackend src \<or> rsHostPort src \<le> 0 then collectBackends rd srcs g1 w
         else
           (case srGetNode rd (rsNodeID src) w of
              (Inl err, w1) \<Rightarrow>
                if errorsIs err ErrNodeNotFound then collectBackends rd srcs g1 w1 else (Inl err, w1)
            | (Inr n, w1) \<Rightarrow>
                (case nodeBackend src n of
                   None \<Rightarrow> collectBackends rd srcs g1 w1
                 | Some b \<Rightarrow> collectBackends rd srcs (addBackend host b g1) w1))))"

definition buildRoutes :: "'w store_reader \<Rightarrow> 'w \<Rightarrow> route list res \<times> 'w" where
  "buildRoutes rd w =
     (case srListIngressRouteSources rd w of
        (Inl err, w1) \<Rightarrow> (Inl err, w1)
      | (Inr srcs, w1) \<Rightarrow>
          (case collectBackends rd srcs ([], Map.empty) w1 of
             (Inl err, w2) \<Rightarrow> (Inl err, w2)
           | (Inr g, w2) \<Rightarrow>
               (Inr (map (\<lambda>h. \<lparr>routeHost = h, routeBackends = backendsOf (snd g) h\<rparr>) (fst g)), w2)))"

definition reconcileIngressOnce ::
  "'w store_reader \<Rightarrow> ingress_config \<Rightarrow> 'w route_syncer option \<Rightarrow> 'w route_syncer option \<Rightarrow>
   'w \<Rightarrow> goerr option \<times> 'w" where
  "reconcileIngressOnce rd cfg localSink frontDoorSink w =
     (let caddyEnabled = nonBlank (igCaddyAdminURL cfg);
          serviceIngressEnabled = nonBlank (igBaseDomain cfg)
      in if \<not> caddyEnabled \<and> \<not> serviceIngressEnabled then (None, w)
         else
           (case (if serviceIngressEnabled then buildRoutes rd w else (Inr [], w)) of
              (Inl err, w1) \<Rightarrow> (Some err, w1)
            | (Inr routes, w1) \<Rightarrow>
                (case localSink of
                   None \<Rightarrow> (Some (Errorf ''caddy route sink is required''), w1)
                 | Some sync \<Rightarrow>
                     (case sync routes w1 of
                        (Some err, w2) \<Rightarrow> (Some err, w2)
                      | (None, w2) \<Rightarrow>
                          (if serviceIngressEnabled then
                             (case frontDoorSink of
                                None \<Rightarrow> (None, w2)
                              | Some front \<Rightarrow> front routes w2)
                           else (None, w2))))))"

section \<open>A reader that answers from one snapshot\<close>

text \<open>
  The reference form of the routes: the hosts in the order of their first source, each with the
  backends of all its sources in order.
\<close>

definition sourceBackend :: "(string \<Rightarrow> node option) \<Rightarrow> route_source \<Rightarrow> string list" where
  "sourceBackend lookup src =
     (if \<not> rsHasBackend src \<or> rsHostPort src \<le> 0 then []
      else (case lookup (rsNodeID src) of
              None \<Rightarrow> []
            | Some n \<Rightarrow> (case nodeBackend src n of None \<Rightarrow> [] | Some b \<Rightarrow> [b])))"

fun firstSeen :: "'a list \<Rightarrow> 'a list \<Rightarrow> 'a list" where
  "firstSeen seen [] = []"
| "firstSeen seen (x # xs) = (if x \<in> set seen then firstSeen seen xs else x # firstSeen (seen @ [x]) xs)"

definition groupedRoutes :: "(string \<Rightarrow> node option) \<Rightarrow> route_source list \<Rightarrow> route list" where
  "groupedRoutes lookup srcs =
     (let named = filter (\<lambda>s. trimSpace (rsHost s) \<noteq> []) srcs
      in map (\<lambda>h. \<lparr>routeHost = h, routeBackends =
                   concat (map (sourceBackend lookup) (filter (\<lambda>s. trimSpace (rsHost s) = h) srcs))\<rparr>)
           (firstSeen [] (map (\<lambda>s. trimSpace (rsHost s)) named)))"

lemma set_firstSeen: "set (firstSeen seen xs) = set xs - set seen"
  by (induction seen xs rule: firstSeen.induct) auto

lemma distinct_firstSeen: "distinct (firstSeen seen xs)"
  by (induction seen xs rule: firstSeen.induct) (auto simp: set_firstSeen)

definition grouped :: "grouping \<Rightarrow> bool" where
  "grouped g \<longleftrightarrow> dom (snd g) = set (fst g)"

lemma grouped_addHost [intro]: "grouped g \<Longrightarrow> grouped (addHost h g)"
  by (auto simp: grouped_def addHost_def dom_def split: option.split)

lemma grouped_addBackend [intro]: "grouped g \<Longrightarrow> h \<in> set (fst g) \<Longrightarrow> grouped (addBackend h b g)"
  by (auto simp: grouped_def addBackend_def)

lemma grouped_iff: "grouped g \<Longrightarrow> snd g h = None \<longleftrightarrow> h \<notin> set (fst g)"
  unfolding grouped_def by (auto simp: domIff [symmetric])

lemma fst_addHost: "grouped g \<Longrightarrow> fst (addHost h g) = (if h \<in> set (fst g) then fst g else fst g @ [h])"
  by (cases "snd g h") (auto simp: addHost_def grouped_iff [of g h, symmetric])

lemma backendsOf_addHost [simp]: "backendsOf (snd (addHost h g)) = backendsOf (snd g)"
  by (auto simp: addHost_def backendsOf_def fun_eq_iff split: option.split)

lemma in_addHost: "grouped g \<Longrightarrow> h \<in> set (fst (addHost h g))"
  by (simp add: fst_addHost)

lemma addBackend_simps [simp]:
  "fst (addBackend h b g) = fst g"
  "backendsOf (snd (addBackend h b g)) = (backendsOf (snd g))(h := backendsOf (snd g) h @ [b])"
  by (auto simp: addBackend_def backendsOf_def)

locale snapshot_reader =
  fixes reader :: "'w store_reader"
    and sources :: "route_source list"
    and lookup :: "string \<Rightarrow> node option"
  assumes reads_sources: "srListIngressRouteSources reader w = (Inr sources, w)"
    and reads_node: "srGetNode reader i w =
      ((case lookup i of None \<Rightarrow> Inl ErrNodeNotFound | Some n \<Rightarrow> Inr n), w)"
begin

lemma collect_grouped:
  "grouped g \<Longrightarrow> \<exists>g'. collectBackends reader srcs g w = (Inr g', w) \<and> grouped g' \<and>
     fst g' = fst g @ firstSeen (fst g) (map (\<lambda>s. trimSpace (rsHost s)) (filter (\<lambda>s. trimSpace (rsHost s) \<noteq> []) srcs)) \<and>
     (\<forall>h. h \<noteq> [] \<longrightarrow> backendsOf (snd g') h = backendsOf (snd g) h @
        concat (map (sourceBackend lookup) (filter (\<lambda>s. trimSpace (rsHost s) = h) srcs)))"
proof (induction srcs arbitrary: g)
  case Nil
  then show ?case by simp
next
  case (Cons src srcs)
  let ?h = "trimSpace (rsHost src)"
  show ?case
  proof (cases "?h = []")
    case True
    then show ?thesis using Cons.IH [OF Cons.prems] by auto
  next
    case False
    let ?g1 = "addHost ?h g"
    let ?g2 = "(case sourceBackend lookup src of [] \<Rightarrow> ?g1 | b # _ \<Rightarrow> addBackend ?h b ?g1)"
    note a = fst_addHost [OF Cons.prems, of ?h] in_addHost [OF Cons.prems, of ?h]
    have g2: "grouped ?g2" using Cons.prems a(2) by (auto split: list.split)
    have fst2: "fst ?g2 = fst ?g1" by (simp split: list.split)
    have bs2: "backendsOf (snd ?g2) h = backendsOf (snd g) h @ (if ?h = h then sourceBackend lookup src else [])" for h
      by (auto simp: sourceBackend_def split: list.split option.split)
    have run: "collectBackends reader (src # srcs) g w = collectBackends reader srcs ?g2 w"
      using False by (auto simp: Let_def reads_node sourceBackend_def ErrNodeNotFound_def split: option.split)
    obtain g' where g': "collectBackends reader srcs ?g2 w = (Inr g', w)" "grouped g'"
      "fst g' = fst ?g2 @ firstSeen (fst ?g2) (map (\<lambda>s. trimSpace (rsHost s)) (filter (\<lambda>s. trimSpace (rsHost s) \<noteq> []) srcs))"
      "\<And>h. h \<noteq> [] \<Longrightarrow> backendsOf (snd g') h = backendsOf (snd ?g2) h @
        concat (map (sourceBackend lookup) (filter (\<lambda>s. trimSpace (rsHost s) = h) srcs))"
      using Cons.IH [OF g2] by blast
    show ?thesis
      using False g'(1,2) a(1) unfolding run by (auto simp: g'(3,4) bs2 fst2)
  qed
qed

lemma buildRoutes_grouped: "buildRoutes reader w = (Inr (groupedRoutes lookup sources), w)"
proof -
  have g0: "grouped ([], Map.empty)" by (simp add: grouped_def)
  let ?hs = "firstSeen [] (map (\<lambda>s. trimSpace (rsHost s)) (filter (\<lambda>s. trimSpace (rsHost s) \<noteq> []) sources))"
  obtain g' where g': "collectBackends reader sources ([], Map.empty) w = (Inr g', w)" "fst g' = ?hs"
    "\<And>h. h \<noteq> [] \<Longrightarrow> backendsOf (snd g') h =
        concat (map (sourceBackend lookup) (filter (\<lambda>s. trimSpace (rsHost s) = h) sources))"
    using collect_grouped [OF g0, of sources w] by (auto simp: backendsOf_def)
  have "[] \<notin> set ?hs" by (auto simp: set_firstSeen)
  then have "map (\<lambda>h. \<lparr>routeHost = h, routeBackends = backendsOf (snd g') h\<rparr>) ?hs = groupedRoutes lookup sources"
    using g'(3) unfolding groupedRoutes_def Let_def by (intro map_cong refl) (metis (mono_tags, lifting))
  then show ?thesis
    by (simp add: buildRoutes_def reads_sources g'(1,2) groupedRoutes_def Let_def)
qed

end

text \<open>The store, read at one moment.\<close>

definition storeReaderAt :: "db \<Rightarrow> 'w store_reader" where
  "storeReaderAt s =
     \<lparr>srListIngressRouteSources = (\<lambda>w. (Inr (ListIngressRouteSources s), w)),
      srGetNode = (\<lambda>i w. (GetNode i s, w))\<rparr>"

interpretation storeSnapshot: snapshot_reader "storeReaderAt s" "ListIngressRouteSources s"
  "\<lambda>i. findBy nodeID i (nodes s)" for s
  by unfold_locales (simp_all add: storeReaderAt_def GetNode_def)

end
