(* ===== verification/IngressProps.thy ===== *)
theory IngressProps
  imports Ingress ServiceProps
begin

text \<open>
  What is published: the routes built from a reachable database, host by host and backend by
  backend.
\<close>

definition published :: "service_row \<Rightarrow> bool" where
  "published v \<longleftrightarrow> serviceDesired v = ServiceDesiredActive \<and> specExposure (serviceSpec v) = ExposurePublic"

lemma sources_of_published:
  assumes "store_inv s"
  shows "set (ListIngressRouteSources s) = sourceOf s ` {v \<in> set (services s). published v}"
  unfolding ListIngressRouteSources_map [OF assms] by (auto simp: published_def)

lemma rsHost_sourceOf [simp]: "rsHost (sourceOf s v) = serviceHost v"
  by (simp add: sourceOf_def split: list.split)

lemma sourceOf_serving:
  assumes "store_inv s" "r \<in> set (runs s)" "servesIngress v r"
  shows "sourceOf s v = \<lparr>rsServiceName = serviceName v, rsHost = serviceHost v,
     rsNodeID = the (runNodeID r), rsHostPort = runHostPort r, rsHasBackend = True\<rparr>"
proof -
  have "r \<in> set (filter (servesIngress v) (runs s))" using assms by simp
  then have "filter (servesIngress v) (runs s) = [r]"
    using serving_unique [OF assms(1), of v] by (metis empty_iff list.set(1) list.set(2) singletonD)
  then show ?thesis using assms(3) by (auto simp: sourceOf_def servesIngress_def split: option.split)
qed

lemma sourceOf_backend:
  assumes "store_inv s"
  shows "b \<in> set (sourceBackend (\<lambda>i. findBy nodeID i (nodes s)) (sourceOf s v)) \<longleftrightarrow>
    (\<exists>r\<in>set (runs s). \<exists>n\<in>set (nodes s). servesIngress v r \<and> runNodeID r = Some (nodeID n) \<and>
       nodeStatus n = StatusReady \<and> trimSpace (nodePrivateIP n) \<noteq> [] \<and>
       b = joinHostPort (trimSpace (nodePrivateIP n)) (itoa (runHostPort r)))"
    (is "?l \<longleftrightarrow> ?r")
proof
  assume l: ?l
  then have "rsHasBackend (sourceOf s v)" by (auto simp: sourceBackend_def split: if_splits)
  then obtain r where r: "r \<in> set (runs s)" "servesIngress v r"
    using serving_unique [OF assms, of v] by (auto simp: sourceOf_def)
  note src = sourceOf_serving [OF assms r]
  obtain n where n: "findBy nodeID (the (runNodeID r)) (nodes s) = Some n"
    "nodeBackend (sourceOf s v) n = Some b"
    using l unfolding src by (auto simp: sourceBackend_def split: option.splits if_splits)
  have "n \<in> set (nodes s)" "runNodeID r = Some (nodeID n)"
    using findBy_SomeD [OF n(1)] r(2) by (auto simp: servesIngress_def)
  then show ?r
    using r n(2) unfolding src by (intro bexI [of _ r] bexI [of _ n]) (auto simp: nodeBackend_def split: if_splits)
next
  assume ?r
  then obtain r n where r: "r \<in> set (runs s)" "servesIngress v r"
    and n: "n \<in> set (nodes s)" "runNodeID r = Some (nodeID n)" "nodeStatus n = StatusReady"
      "trimSpace (nodePrivateIP n) \<noteq> []"
      "b = joinHostPort (trimSpace (nodePrivateIP n)) (itoa (runHostPort r))" by blast
  have "findBy nodeID (nodeID n) (nodes s) = Some n"
    using findBy_Some_iff [OF store_invD(1) [OF assms]] n(1) by simp
  then show ?l
    using r n by (auto simp: sourceBackend_def sourceOf_serving [OF assms] nodeBackend_def servesIngress_def)
qed

text \<open>
  The routes are built in one pass that keeps the hosts and their backends in maps while it
  looks up the node of each source.  Whatever the database holds, the result equals a reference form
  that groups the sources: the distinct hosts, trimmed and not empty, in the order of their first
  source, each with the backends of all its sources in their order.
\<close>

theorem routes_equal_grouping:
  "buildRoutes (storeReaderAt s) w =
     (Inr (groupedRoutes (\<lambda>nid. findBy nodeID nid (nodes s)) (ListIngressRouteSources s)), w)"
  by (rule storeSnapshot.buildRoutes_grouped)

text \<open>
  C9: The routes built from a reachable database are exactly what should be served.  No host has two
  routes; the hosts are those of the active public services (a service without a backend keeps its
  route); and the backends of a host are the addresses, and no others, under which a run of the
  current generation of such a service is running on a ready node that has a private address.
\<close>

theorem published_routes_exact:
  assumes "store_reachable s"
  shows "\<exists>routes. buildRoutes (storeReaderAt s) w = (Inr routes, w) \<and> distinct (map routeHost routes) \<and>
    routeHost ` set routes = (\<lambda>v. trimSpace (serviceHost v)) ` {v \<in> set (services s). published v} - {[]} \<and>
    (\<forall>rt\<in>set routes. \<forall>b. b \<in> set (routeBackends rt) \<longleftrightarrow>
       (\<exists>v\<in>set (services s). \<exists>r\<in>set (runs s). \<exists>n\<in>set (nodes s).
          published v \<and> trimSpace (serviceHost v) = routeHost rt \<and> servesIngress v r \<and>
          runNodeID r = Some (nodeID n) \<and> nodeStatus n = StatusReady \<and> trimSpace (nodePrivateIP n) \<noteq> [] \<and>
          b = joinHostPort (trimSpace (nodePrivateIP n)) (itoa (runHostPort r))))"
proof -
  note inv = store_reachable_inv [OF assms]
  let ?lookup = "\<lambda>i. findBy nodeID i (nodes s)"
  let ?routes = "groupedRoutes ?lookup (ListIngressRouteSources s)"
  have hosts: "map routeHost ?routes = firstSeen []
      (map (\<lambda>s. trimSpace (rsHost s)) (filter (\<lambda>s. trimSpace (rsHost s) \<noteq> []) (ListIngressRouteSources s)))"
    by (simp add: groupedRoutes_def Let_def comp_def)
  have "set (map routeHost ?routes) = (\<lambda>v. trimSpace (serviceHost v)) ` {v \<in> set (services s). published v} - {[]}"
  proof -
    have "set (map routeHost ?routes) = (\<lambda>x. trimSpace (rsHost x)) ` set (ListIngressRouteSources s) - {[]}"
      unfolding hosts set_firstSeen by auto
    then show ?thesis unfolding sources_of_published [OF inv] image_image rsHost_sourceOf .
  qed
  moreover have "b \<in> set (routeBackends rt) \<longleftrightarrow>
       (\<exists>v\<in>set (services s). \<exists>r\<in>set (runs s). \<exists>n\<in>set (nodes s).
          published v \<and> trimSpace (serviceHost v) = routeHost rt \<and> servesIngress v r \<and>
          runNodeID r = Some (nodeID n) \<and> nodeStatus n = StatusReady \<and> trimSpace (nodePrivateIP n) \<noteq> [] \<and>
          b = joinHostPort (trimSpace (nodePrivateIP n)) (itoa (runHostPort r)))"
    if "rt \<in> set ?routes" for rt b
  proof -
    have "set (routeBackends rt) = (\<Union>v\<in>{v \<in> set (services s). published v \<and> trimSpace (serviceHost v) = routeHost rt}.
        set (sourceBackend ?lookup (sourceOf s v)))"
      using that sources_of_published [OF inv] by (auto simp: groupedRoutes_def Let_def)
    then show ?thesis using sourceOf_backend [OF inv, of b] by simp blast
  qed
  moreover have "distinct (map routeHost ?routes)" unfolding hosts by (rule distinct_firstSeen)
  ultimately show ?thesis
    using storeSnapshot.buildRoutes_grouped [of s w] by (intro exI [of _ ?routes]) simp
qed

definition backendsAt :: "db \<Rightarrow> string list list" where
  "backendsAt s = (case fst (buildRoutes (storeReaderAt s) ()) of Inl _ \<Rightarrow> [] | Inr rs \<Rightarrow> map routeBackends rs)"

theorem published_routes_exact_witness:
  "\<exists>routes. buildRoutes (storeReaderAt d7) () = (Inr routes, ()) \<and> distinct (map routeHost routes) \<and>
     map routeBackends routes \<noteq> [] \<and> hd (map routeBackends routes) \<noteq> []"
proof -
  obtain routes where r: "buildRoutes (storeReaderAt d7) () = (Inr routes, ())" "distinct (map routeHost routes)"
    using published_routes_exact [OF demo_reachable(4), of "()"] by (elim exE conjE) rule
  have "backendsAt d7 = map routeBackends routes" by (simp only: backendsAt_def r fst_conv sum.case)
  moreover have "backendsAt d7 \<noteq> []" "hd (backendsAt d7) \<noteq> []" by code_simp+
  ultimately show ?thesis using r by metis
qed

end
