(* ===== verification/GoText.thy ===== *)
theory GoText
  imports Prelude
begin

text \<open>
  Texts that the code makes with Go's libraries and the cloud SDKs: quoting, base64 and JSON.
\<close>

section \<open>SDK errors and quoting\<close>

text \<open>
  What the code uses of the errors of the cloud SDKs (errors.As with the SDK's error type, then its
  code) and of the verb %q.
\<close>

text \<open>The code of the first SDK error in the chain of an error.\<close>

fun sdkCode :: "goerr \<Rightarrow> string option" where
  "sdkCode (ExtErr code s) = code"
| "sdkCode (Wrapf pre e post) = sdkCode e"
| "sdkCode (Join es) = (case filter (\<lambda>c. c \<noteq> None) (map sdkCode es) of [] \<Rightarrow> None | c # _ \<Rightarrow> c)"
| "sdkCode (Sentinel s) = None"
| "sdkCode (Errorf s) = None"
| "sdkCode (CloudPlaneError op code msg) = None"

definition quoteChar :: "char \<Rightarrow> string" where
  "quoteChar c =
     (if c = CHR 0x22 \<or> c = CHR 0x5C then [CHR 0x5C, c]
      else if c = CHR 0x0A then [CHR 0x5C, CHR ''n'']
      else if c = CHR 0x0D then [CHR 0x5C, CHR ''r'']
      else if c = CHR 0x09 then [CHR 0x5C, CHR ''t'']
      else if of_char c < (32::nat) \<or> c = CHR 0x7F
        then [CHR 0x5C, CHR ''x'', hexDigit (of_char c div 16), hexDigit (of_char c mod 16)]
      else [c])"

definition goQuote :: "string \<Rightarrow> string" where
  "goQuote s = CHR 0x22 # concat (map quoteChar s) @ [CHR 0x22]"

section \<open>Base64\<close>

text \<open>encoding/base64: the standard alphabet with padding, and the URL alphabet without.\<close>

definition base64Char :: "nat \<Rightarrow> char" where
  "base64Char n =
     (if n < 26 then char_of (65 + n) else if n < 52 then char_of (71 + n)
      else if n < 62 then char_of (n - 4) else if n = 62 then CHR ''+'' else CHR ''/'')"

fun base64Std :: "string \<Rightarrow> string" where
  "base64Std [] = []"
| "base64Std [a] = (let x = of_char a :: nat in
     [base64Char (x div 4), base64Char (x mod 4 * 16), CHR ''='', CHR ''=''])"
| "base64Std [a, b] = (let x = of_char a :: nat; y = of_char b :: nat in
     [base64Char (x div 4), base64Char (x mod 4 * 16 + y div 16), base64Char (y mod 16 * 4), CHR ''=''])"
| "base64Std (a # b # c # s) = (let x = of_char a :: nat; y = of_char b :: nat; z = of_char c :: nat in
     [base64Char (x div 4), base64Char (x mod 4 * 16 + y div 16), base64Char (y mod 16 * 4 + z div 64),
      base64Char (z mod 64)] @ base64Std s)"

text \<open>RawURLEncoding: the padding is dropped, plus and slash become hyphen and underscore.\<close>

definition base64RawURL :: "string \<Rightarrow> string" where
  "base64RawURL s = map (\<lambda>c. if c = CHR ''+'' then CHR ''-'' else if c = CHR ''/'' then CHR ''_'' else c)
     (filter (\<lambda>c. c \<noteq> CHR ''='') (base64Std s))"

lemma base64Char_plain: "\<not> isSpace (base64Char n)"
proof (cases "n < 64")
  case True
  have "list_all (\<lambda>n. \<not> isSpace (base64Char n)) [0..<64]" by code_simp
  then show ?thesis using True by (simp add: list_all_iff)
next
  case False
  then have "base64Char n = CHR ''/''" by (simp add: base64Char_def)
  then show ?thesis by (simp add: isSpace_def)
qed

lemma base64Std_plain: "list_all (\<lambda>c. \<not> isSpace c) (base64Std s)"
  by (induction s rule: base64Std.induct) (simp_all add: Let_def base64Char_plain, simp_all add: isSpace_def)

section \<open>JSON\<close>

text \<open>
  Characters that Isabelle strings cannot hold, and the strings and dynamic values of encoding/json.
\<close>

abbreviation (input) chNL :: string where "chNL \<equiv> [CHR 0x0A]"
abbreviation (input) chDQ :: string where "chDQ \<equiv> [CHR 0x22]"
abbreviation (input) chSQ :: string where "chSQ \<equiv> [CHR 0x27]"
abbreviation (input) chBS :: string where "chBS \<equiv> [CHR 0x5C]"

text \<open>A JSON string of encoding/json, which also escapes what HTML treats specially.\<close>

definition jsonChar :: "char \<Rightarrow> string" where
  "jsonChar c =
     (let n = of_char c :: nat in
      if c = CHR 0x22 \<or> c = CHR 0x5C then [CHR 0x5C, c]
      else if n = 8 then chBS @ ''b'' else if n = 12 then chBS @ ''f'' else if n = 10 then chBS @ ''n''
      else if n = 13 then chBS @ ''r'' else if n = 9 then chBS @ ''t''
      else if n < 32 \<or> c = CHR ''<'' \<or> c = CHR ''>'' \<or> c = CHR ''&''
        then chBS @ ''u00'' @ [hexDigit (n div 16), hexDigit (n mod 16)]
      else [c])"

definition jsonString :: "string \<Rightarrow> string" where
  "jsonString s = chDQ @ concat (map jsonChar s) @ chDQ"

section \<open>Dynamic values\<close>

text \<open>
  A value of type interface{} that came from JSON.  A number carries the text that %v prints of its
  float64.
\<close>

datatype jval =
    JNull
  | JBool bool
  | JNum string
  | JStr string
  | JList "jval list"
  | JObj "(string \<times> jval) list"

text \<open>A type assertion to a map or a list, nil when it fails; the entry of a key.\<close>

definition asObj :: "jval \<Rightarrow> (string \<times> jval) list" where
  "asObj v = (case v of JObj kvs \<Rightarrow> kvs | _ \<Rightarrow> [])"

definition asList :: "jval \<Rightarrow> jval list" where
  "asList v = (case v of JList vs \<Rightarrow> vs | _ \<Rightarrow> [])"

definition getKey :: "string \<Rightarrow> (string \<times> jval) list \<Rightarrow> jval" where
  "getKey k kvs = (case map_of kvs k of None \<Rightarrow> JNull | Some v \<Rightarrow> v)"

text \<open>fmt.Sprint of a value: a map prints its keys in order.\<close>

fun goSprint :: "jval \<Rightarrow> string" where
  "goSprint JNull = ''<nil>''"
| "goSprint (JBool b) = (if b then ''true'' else ''false'')"
| "goSprint (JNum t) = t"
| "goSprint (JStr s) = s"
| "goSprint (JList vs) = ''['' @ joinStr '' '' (map goSprint vs) @ '']''"
| "goSprint (JObj kvs) = ''map['' @ joinStr '' ''
     (map (\<lambda>(k, t). k @ '':'' @ t) (sort_key fst (map (\<lambda>(k, v). (k, goSprint v)) kvs))) @ '']''"

end
