(* ===== verification/Frontdoor.thy ===== *)
theory Frontdoor
  imports GoText GoNet StoreCalls
begin

text \<open>
  internal/cloudplane/infra/frontdoor/service.go: the pass that keeps the CDN domains and the
  front-door columns of the services in step with the published routes.

  The interfaces cdnClient and domainStore are records of functions on a world 'w: what a call
  answers may depend on everything that happened before it, and it may change the world.
\<close>

definition errDomainVerificationPending :: goerr where
  "errDomainVerificationPending = Sentinel ''CDN domain verification is pending''"

record 'w cdn_client =
  cdnPrepareDomain :: "string \<Rightarrow> 'w \<Rightarrow> (frontdoor_record option \<times> goerr option) \<times> 'w"
  cdnEnsureDomain :: "string \<Rightarrow> 'w \<Rightarrow> string res \<times> 'w"
  cdnDeleteDomain :: "string \<Rightarrow> 'w \<Rightarrow> goerr option \<times> 'w"

record 'w domain_store =
  dsSaveServiceFrontDoor :: "string \<Rightarrow> frontdoor_status \<Rightarrow> 'w \<Rightarrow> goerr option \<times> 'w"
  dsListServiceFrontDoors :: "'w \<Rightarrow> service list res \<times> 'w"
  dsClearServiceFrontDoor :: "string \<Rightarrow> 'w \<Rightarrow> goerr option \<times> 'w"

definition domainIsUnder :: "string \<Rightarrow> string \<Rightarrow> bool" where
  "domainIsUnder child0 parent0 \<longleftrightarrow>
     (let child = cleanDomain child0; parent = cleanDomain parent0
      in child = parent \<or> hasSuffix child (''.'' @ parent))"

definition sortedHosts :: "string list \<Rightarrow> string list" where
  "sortedHosts values = sort (remdups values)"

text \<open>The keys of the map of desired hosts.\<close>

fun desiredHosts :: "string \<Rightarrow> route list \<Rightarrow> string list \<Rightarrow> string list res" where
  "desiredHosts base [] desired = Inr desired"
| "desiredHosts base (rt # routes) desired =
     (let host = cleanDomain (routeHost rt) in
      if host = [] then desiredHosts base routes desired
      else if \<not> domainIsUnder host base then
        Inl (Errorf (''frontdoor route host '' @ goQuote host @ '' is outside base domain '' @ goQuote base))
      else desiredHosts base routes (List.insert host desired))"

definition noVerification :: "string \<Rightarrow> frontdoor_status" where
  "noVerification cname = \<lparr>fdsCNAME = cname, fdsVerification = None\<rparr>"

definition verificationOnly :: "frontdoor_record \<Rightarrow> frontdoor_status" where
  "verificationOnly v = \<lparr>fdsCNAME = [], fdsVerification = Some v\<rparr>"

text \<open>One turn of the first loop: the result is None to continue with the next host.\<close>

definition saveVerification ::
  "'w domain_store option \<Rightarrow> string \<Rightarrow> frontdoor_record option \<Rightarrow> 'w \<Rightarrow> goerr option \<times> 'w" where
  "saveVerification store host verification w =
     (case (store, verification) of
        (Some ds, Some v) \<Rightarrow> dsSaveServiceFrontDoor ds host (verificationOnly v) w
      | _ \<Rightarrow> (None, w))"

definition syncHost ::
  "'w cdn_client \<Rightarrow> 'w domain_store option \<Rightarrow> string \<Rightarrow> 'w \<Rightarrow> goerr option \<times> 'w" where
  "syncHost cdn store host w =
     (case cdnPrepareDomain cdn host w of
        ((verification, err), w1) \<Rightarrow>
          (case saveVerification store host verification w1 of
             (Some saveErr, w2) \<Rightarrow> (Some saveErr, w2)
           | (None, w2) \<Rightarrow>
               (case err of
                  Some er \<Rightarrow>
                    if errorsIs er errDomainVerificationPending then (None, w2)
                    else (Some (wrap (''prepare CDN domain '' @ host) er), w2)
                | None \<Rightarrow>
                    (case cdnEnsureDomain cdn host w2 of
                       (Inl er, w3) \<Rightarrow> (Some (wrap (''ensure CDN domain '' @ host) er), w3)
                     | (Inr cname, w3) \<Rightarrow>
                         if trimSpace cname = [] then (None, w3)
                         else (case store of
                                 None \<Rightarrow> (None, w3)
                               | Some ds \<Rightarrow> dsSaveServiceFrontDoor ds host (noVerification cname) w3)))))"

fun syncHosts ::
  "'w cdn_client \<Rightarrow> 'w domain_store option \<Rightarrow> string list \<Rightarrow> 'w \<Rightarrow> goerr option \<times> 'w" where
  "syncHosts cdn store [] w = (None, w)"
| "syncHosts cdn store (host # hosts) w =
     (case syncHost cdn store host w of
        (Some err, w1) \<Rightarrow> (Some err, w1)
      | (None, w1) \<Rightarrow> syncHosts cdn store hosts w1)"

text \<open>One turn of the second loop, over the services that have front-door state.\<close>

definition retireHost ::
  "'w cdn_client \<Rightarrow> 'w domain_store \<Rightarrow> string \<Rightarrow> string list \<Rightarrow> service \<Rightarrow> 'w \<Rightarrow> goerr option \<times> 'w" where
  "retireHost cdn ds base desired svc w =
     (let host = cleanDomain (svcHost svc) in
      if \<not> domainIsUnder host base then dsClearServiceFrontDoor ds host w
      else if host \<in> set desired then (None, w)
      else (case cdnDeleteDomain cdn host w of
              (Some err, w1) \<Rightarrow> (Some (wrap (''delete stale CDN domain '' @ host) err), w1)
            | (None, w1) \<Rightarrow> dsClearServiceFrontDoor ds host w1))"

fun retireHosts ::
  "'w cdn_client \<Rightarrow> 'w domain_store \<Rightarrow> string \<Rightarrow> string list \<Rightarrow> service list \<Rightarrow> 'w \<Rightarrow> goerr option \<times> 'w" where
  "retireHosts cdn ds base desired [] w = (None, w)"
| "retireHosts cdn ds base desired (svc # svcs) w =
     (case retireHost cdn ds base desired svc w of
        (Some err, w1) \<Rightarrow> (Some err, w1)
      | (None, w1) \<Rightarrow> retireHosts cdn ds base desired svcs w1)"

definition listManaged :: "'w domain_store option \<Rightarrow> 'w \<Rightarrow> service list res \<times> 'w" where
  "listManaged store w = (case store of None \<Rightarrow> (Inr [], w) | Some ds \<Rightarrow> dsListServiceFrontDoors ds w)"

definition frontDoorSyncRoutes ::
  "'w cdn_client \<Rightarrow> 'w domain_store option \<Rightarrow> string \<Rightarrow> route list \<Rightarrow> 'w \<Rightarrow> goerr option \<times> 'w" where
  "frontDoorSyncRoutes cdn store base routes w =
     (case desiredHosts base routes [] of
        Inl err \<Rightarrow> (Some err, w)
      | Inr desired \<Rightarrow>
          (case listManaged store w of
             (Inl err, w1) \<Rightarrow> (Some err, w1)
           | (Inr managed, w1) \<Rightarrow>
               (case syncHosts cdn store (sortedHosts desired) w1 of
                  (Some err, w2) \<Rightarrow> (Some err, w2)
                | (None, w2) \<Rightarrow>
                    (case store of
                       None \<Rightarrow> (None, w2)
                     | Some ds \<Rightarrow>
                         if managed = [] then (None, w2)
                         else retireHosts cdn ds base desired managed w2))))"

section \<open>The hosts that are desired\<close>

lemma desiredHosts_set:
  "desiredHosts base routes acc = Inr desired \<Longrightarrow>
   set desired = set acc \<union> ((\<lambda>r. cleanDomain (routeHost r)) ` set routes - {[]})"
  by (induction base routes acc arbitrary: desired rule: desiredHosts.induct)
     (auto simp: Let_def split: if_splits)

lemma set_sortedHosts [simp]: "set (sortedHosts hs) = set hs"
  by (simp add: sortedHosts_def)

section \<open>A contract for the calls of a pass\<close>

text \<open>
  P items holds of the world once the services items were listed.  If every call the pass makes
  keeps P, then so does the pass, whatever the answers are: the desired hosts are prepared, ensured
  and saved, a host is deleted from the CDN only if it was listed, is under the base domain and is
  not desired, and only listed hosts are cleared.  A listing that fails counts as one of no services.
\<close>

locale front_door_contract =
  fixes cdn :: "'w cdn_client"
    and ds :: "'w domain_store"
    and base :: string
    and desired :: "string list"
    and P :: "service list option \<Rightarrow> 'w \<Rightarrow> bool"
  assumes prepare: "P (Some svcs) w \<Longrightarrow> h \<in> set desired \<Longrightarrow> cdnPrepareDomain cdn h w = (r, w') \<Longrightarrow> P (Some svcs) w'"
    and ensure: "P (Some svcs) w \<Longrightarrow> h \<in> set desired \<Longrightarrow> cdnEnsureDomain cdn h w = (r', w') \<Longrightarrow> P (Some svcs) w'"
    and save: "P (Some svcs) w \<Longrightarrow> h \<in> set desired \<Longrightarrow> dsSaveServiceFrontDoor ds h st w = (e, w') \<Longrightarrow> P (Some svcs) w'"
    and lists: "P None w \<Longrightarrow> dsListServiceFrontDoors ds w = (Inr svcs, w') \<Longrightarrow> P (Some svcs) w'"
    and no_list: "P None w \<Longrightarrow> dsListServiceFrontDoors ds w = (Inl err, w') \<Longrightarrow> P (Some []) w'"
    and delete: "P (Some svcs) w \<Longrightarrow> v \<in> set svcs \<Longrightarrow> domainIsUnder (cleanDomain (svcHost v)) base \<Longrightarrow>
        cleanDomain (svcHost v) \<notin> set desired \<Longrightarrow>
        cdnDeleteDomain cdn (cleanDomain (svcHost v)) w = (e, w') \<Longrightarrow> P (Some svcs) w'"
    and clear: "P (Some svcs) w \<Longrightarrow> v \<in> set svcs \<Longrightarrow>
        dsClearServiceFrontDoor ds (cleanDomain (svcHost v)) w = (e, w') \<Longrightarrow> P (Some svcs) w'"
begin

lemma syncHost_keeps:
  assumes "P (Some svcs) w" "h \<in> set desired" "syncHost cdn (Some ds) h w = (e, w')"
  shows "P (Some svcs) w'"
proof -
  obtain v err w1 where 1: "cdnPrepareDomain cdn h w = ((v, err), w1)" by (metis prod.exhaust)
  note p1 = prepare [OF assms(1,2) 1]
  obtain s2 w2 where 2: "saveVerification (Some ds) h v w1 = (s2, w2)" by fastforce
  have p2: "P (Some svcs) w2"
    using 2 p1 save [OF p1 assms(2)] by (auto simp: saveVerification_def split: option.splits)
  obtain c w3 where 3: "cdnEnsureDomain cdn h w2 = (c, w3)" by fastforce
  note p3 = ensure [OF p2 assms(2) 3]
  show ?thesis
    using assms(3) 1 2 3 p2 p3 save [OF p3 assms(2)]
    by (auto simp: syncHost_def split: option.splits sum.splits if_splits)
qed

lemma syncHosts_keeps:
  "P (Some svcs) w \<Longrightarrow> set hs \<subseteq> set desired \<Longrightarrow> syncHosts cdn (Some ds) hs w = (e, w') \<Longrightarrow> P (Some svcs) w'"
  by (induction hs arbitrary: w)
     (auto dest: syncHost_keeps split: prod.splits option.splits)

lemma retireHost_keeps:
  assumes "P (Some svcs) w" "v \<in> set svcs" "retireHost cdn ds base desired v w = (e, w')"
  shows "P (Some svcs) w'"
  using assms(1,3) delete [OF assms(1,2)] clear [OF _ assms(2)]
  by (auto simp: retireHost_def Let_def split: if_splits prod.splits option.splits)

lemma retireHosts_keeps:
  "P (Some svcs) w \<Longrightarrow> set vs \<subseteq> set svcs \<Longrightarrow> retireHosts cdn ds base desired vs w = (e, w') \<Longrightarrow> P (Some svcs) w'"
  by (induction vs arbitrary: w)
     (auto dest: retireHost_keeps split: prod.splits option.splits)

lemma pass_keeps:
  assumes "P None w" "desiredHosts base routes [] = Inr desired"
    "frontDoorSyncRoutes cdn (Some ds) base routes w = (e, w')"
  shows "\<exists>svcs. P (Some svcs) w'"
proof -
  obtain l w1 where 1: "dsListServiceFrontDoors ds w = (l, w1)" by fastforce
  show ?thesis
  proof (cases l)
    case (Inl err)
    then show ?thesis
      using assms 1 no_list [OF assms(1), of err w1] by (auto simp: frontDoorSyncRoutes_def listManaged_def)
  next
    case (Inr svcs)
    obtain e2 w2 where 2: "syncHosts cdn (Some ds) (sortedHosts desired) w1 = (e2, w2)" by fastforce
    have p1: "P (Some svcs) w1" using lists [OF assms(1)] 1 Inr by simp
    have p2: "P (Some svcs) w2" using syncHosts_keeps [OF p1 _ 2] by simp
    show ?thesis
      using assms(2,3) 1 2 Inr p2 retireHosts_keeps [OF p2 subset_refl]
      by (auto simp: frontDoorSyncRoutes_def listManaged_def split: option.splits if_splits)
  qed
qed

end

end
