(* ===== verification/TencentCdn.thy ===== *)
theory TencentCdn
  imports Frontdoor
begin

text \<open>
  internal/cloudplane/infra/frontdoor/tencent.go: the CDN client for Tencent Cloud.  The SDK's API is
  a record of functions on a state 'a; what it answers is not restricted.  A nil field of a response
  is None, and so is a response without content.  SDK calls never return a nil response together
  with a nil error.
\<close>

record tencent_domain =
  tdDomain :: "string option"
  tdCname :: "string option"

record tencent_verify_record =
  tvSubDomain :: "string option"
  tvRecord :: "string option"
  tvRecordType :: "string option"

record tencent_add_request =
  taDomain :: string
  taServiceType :: string
  taOrigins :: "string list"
  taOriginType :: string
  taServerName :: string
  taPullProtocol :: string

record 'a tencent_cdn_api =
  tcAddCdnDomain :: "tencent_add_request \<Rightarrow> 'a \<Rightarrow> unit res \<times> 'a"
  tcCreateVerifyRecord :: "string \<Rightarrow> 'a \<Rightarrow> tencent_verify_record option res \<times> 'a"
  tcDescribeDomains :: "string \<Rightarrow> 'a \<Rightarrow> tencent_domain option list option res \<times> 'a"
  tcStopCdnDomain :: "string \<Rightarrow> 'a \<Rightarrow> unit res \<times> 'a"
  tcDeleteCdnDomain :: "string \<Rightarrow> 'a \<Rightarrow> unit res \<times> 'a"
  tcVerifyDomainRecord :: "string \<Rightarrow> string \<Rightarrow> 'a \<Rightarrow> bool option res \<times> 'a"

record cdn_domain =
  cdExists :: bool
  cdCNAME :: string

definition noDomain :: cdn_domain where
  "noDomain = \<lparr>cdExists = False, cdCNAME = []\<rparr>"

definition cleanDomainPointer :: "string option \<Rightarrow> string" where
  "cleanDomainPointer v = (case v of None \<Rightarrow> [] | Some s \<Rightarrow> cleanDomain s)"

definition rootDomain :: "string \<Rightarrow> string" where
  "rootDomain value =
     (let parts = splitOn CHR ''.'' (cleanDomain value)
      in if length parts < 2 then cleanDomain value
         else joinStr ''.'' (drop (length parts - 2) parts))"

definition tencentOriginType :: "string \<Rightarrow> string" where
  "tencentOriginType origin = (if validIP (trimSpace origin) then ''ip'' else ''domain'')"

definition isTencentNotFound :: "goerr \<Rightarrow> bool" where
  "isTencentNotFound err =
     (case sdkCode err of
        Some code0 \<Rightarrow> (let code = toLower code0 in containsStr code ''notfound'' \<or> containsStr code ''notexists'')
      | None \<Rightarrow> (let message = toLower (errText err)
                 in containsStr message ''not found'' \<or> containsStr message ''not exist''))"

definition isTencentPending :: "goerr \<Rightarrow> bool" where
  "isTencentPending err =
     (let text = (case sdkCode err of Some code \<Rightarrow> toLower code | None \<Rightarrow> toLower (errText err))
      in containsStr text ''deploying'' \<or> containsStr text ''processing'' \<or> containsStr text ''busy'')"

definition isTencentVerifyPending :: "goerr \<Rightarrow> bool" where
  "isTencentVerifyPending err =
     (case sdkCode err of
        Some code0 \<Rightarrow> (let code = toLower code0
                       in containsStr code ''txtrecordvaluenotmatch'' \<or> containsStr code ''operationtoooften'')
      | None \<Rightarrow> (let message = toLower (errText err)
                 in containsStr message ''txt record'' \<or> containsStr message ''too often''))"

section \<open>The client\<close>

fun findDomain :: "string \<Rightarrow> tencent_domain option list \<Rightarrow> cdn_domain" where
  "findDomain host [] = noDomain"
| "findDomain host (None # items) = findDomain host items"
| "findDomain host (Some item # items) =
     (case tdDomain item of
        None \<Rightarrow> findDomain host items
      | Some d \<Rightarrow> if cleanDomain d \<noteq> host then findDomain host items
                  else \<lparr>cdExists = True, cdCNAME = cleanDomainPointer (tdCname item)\<rparr>)"

definition tencentGetDomain :: "'a tencent_cdn_api \<Rightarrow> string \<Rightarrow> 'a \<Rightarrow> cdn_domain res \<times> 'a" where
  "tencentGetDomain api host a =
     (case tcDescribeDomains api host a of
        (Inl err, a1) \<Rightarrow> (Inl err, a1)
      | (Inr None, a1) \<Rightarrow> (Inr noDomain, a1)
      | (Inr (Some items), a1) \<Rightarrow> (Inr (findDomain host items), a1))"

definition tencentAddDomain :: "'a tencent_cdn_api \<Rightarrow> string \<Rightarrow> string \<Rightarrow> 'a \<Rightarrow> unit res \<times> 'a" where
  "tencentAddDomain api origin host =
     tcAddCdnDomain api \<lparr>taDomain = host, taServiceType = ''web'', taOrigins = [origin],
       taOriginType = tencentOriginType origin, taServerName = host, taPullProtocol = ''http''\<rparr>"

definition verifyRecordOf :: "string \<Rightarrow> tencent_verify_record option \<Rightarrow> frontdoor_record option" where
  "verifyRecordOf dnsRoot resp =
     (case resp of
        None \<Rightarrow> None
      | Some r \<Rightarrow>
          (case (tvSubDomain r, tvRecord r, tvRecordType r) of
             (Some sub, Some val, Some typ) \<Rightarrow>
               Some \<lparr>fdrSubdomain = cleanDomain (sub @ ''.'' @ dnsRoot), fdrType = typ, fdrValue = val\<rparr>
           | _ \<Rightarrow> None))"

definition tencentPrepareDomain ::
  "'a tencent_cdn_api \<Rightarrow> string \<Rightarrow> string \<Rightarrow> 'a \<Rightarrow> (frontdoor_record option \<times> goerr option) \<times> 'a" where
  "tencentPrepareDomain api dnsRoot host0 a =
     (let host = cleanDomain host0 in
      if host = [] then ((None, None), a)
      else
        (case tencentGetDomain api host a of
           (Inl err, a1) \<Rightarrow> ((None, Some err), a1)
         | (Inr domain, a1) \<Rightarrow>
             if cdExists domain then ((None, None), a1)
             else
               (case tcCreateVerifyRecord api host a1 of
                  (Inl err, a2) \<Rightarrow> ((None, Some err), a2)
                | (Inr resp, a2) \<Rightarrow>
                    (case verifyRecordOf dnsRoot resp of
                       None \<Rightarrow> ((None, Some (Errorf ''tencent CDN verify record response is incomplete'')), a2)
                     | Some verifyRecord \<Rightarrow>
                         (case tcVerifyDomainRecord api host ''dns'' a2 of
                            (Inl err, a3) \<Rightarrow>
                              ((Some verifyRecord,
                                Some (if isTencentVerifyPending err then errDomainVerificationPending else err)), a3)
                          | (Inr result, a3) \<Rightarrow>
                              ((Some verifyRecord,
                                if result = Some True then None else Some errDomainVerificationPending), a3))))))"

definition tencentEnsureDomain ::
  "'a tencent_cdn_api \<Rightarrow> string \<Rightarrow> string \<Rightarrow> 'a \<Rightarrow> string res \<times> 'a" where
  "tencentEnsureDomain api origin host0 a =
     (let host = cleanDomain host0 in
      case tencentGetDomain api host a of
        (Inl err, a1) \<Rightarrow> (Inl err, a1)
      | (Inr domain, a1) \<Rightarrow>
          if \<not> cdExists domain then
            (case tencentAddDomain api origin host a1 of
               (Inl err, a2) \<Rightarrow> ((if isTencentPending err then Inr [] else Inl err), a2)
             | (Inr _, a2) \<Rightarrow> (Inr [], a2))
          else if trimSpace (cdCNAME domain) = [] then (Inr [], a1)
          else (Inr (cdCNAME domain), a1))"

definition tencentDeleteDomain :: "'a tencent_cdn_api \<Rightarrow> string \<Rightarrow> 'a \<Rightarrow> goerr option \<times> 'a" where
  "tencentDeleteDomain api host0 a =
     (let host = cleanDomain host0 in
      if host = [] then (None, a)
      else
        (case tcStopCdnDomain api host a of
           (r1, a1) \<Rightarrow>
             (case (case r1 of Inl err \<Rightarrow> if isTencentNotFound err then None else Some err | Inr _ \<Rightarrow> None) of
                Some err \<Rightarrow> (Some err, a1)
              | None \<Rightarrow>
                  (case tcDeleteCdnDomain api host a1 of
                     (Inl err, a2) \<Rightarrow> (if isTencentNotFound err then (None, a2) else (Some err, a2))
                   | (Inr _, a2) \<Rightarrow> (None, a2)))))"

section \<open>The front door on the store and a CDN\<close>

record 'a fd_world = store_world +
  fdAPI :: 'a

definition onAPI :: "('a \<Rightarrow> 'r \<times> 'a) \<Rightarrow> ('a, 'z) fd_world_scheme \<Rightarrow> 'r \<times> ('a, 'z) fd_world_scheme" where
  "onAPI f w = (case f (fdAPI w) of (r, a) \<Rightarrow> (r, w\<lparr>fdAPI := a\<rparr>))"

definition tencentCDN :: "'a tencent_cdn_api \<Rightarrow> string \<Rightarrow> string \<Rightarrow> ('a, 'z) fd_world_scheme cdn_client" where
  "tencentCDN api origin baseDomain =
     \<lparr>cdnPrepareDomain = (\<lambda>host. onAPI (tencentPrepareDomain api (rootDomain baseDomain) host)),
      cdnEnsureDomain = (\<lambda>host. onAPI (tencentEnsureDomain api origin host)),
      cdnDeleteDomain = (\<lambda>host. onAPI (tencentDeleteDomain api host))\<rparr>"

definition frontDoorStore :: "store_env \<Rightarrow> 'w store_world_scheme domain_store" where
  "frontDoorStore e =
     \<lparr>dsSaveServiceFrontDoor = (\<lambda>host st w.
        (case storeOp e (\<lambda>clk _ s. Inr ((), SaveServiceFrontDoor clk host st s)) w of (r, w1) \<Rightarrow> (errOf r, w1))),
      dsListServiceFrontDoors = readOp e ListServiceFrontDoors,
      dsClearServiceFrontDoor = (\<lambda>host w.
        (case storeOp e (\<lambda>clk _ s. Inr ((), ClearServiceFrontDoor clk host s)) w of (r, w1) \<Rightarrow> (errOf r, w1)))\<rparr>"

section \<open>Which calls reach the API\<close>

text \<open>An API that also writes down the requests that can change something.\<close>

datatype tencent_call =
    CallAdd string
  | CallCreateVerify string
  | CallVerify string
  | CallStop string
  | CallDelete string

definition logged :: "tencent_call \<Rightarrow> ('a \<Rightarrow> 'r \<times> 'a) \<Rightarrow> 'a \<times> tencent_call list \<Rightarrow> 'r \<times> ('a \<times> tencent_call list)" where
  "logged c f al = (case f (fst al) of (r, a) \<Rightarrow> (r, (a, snd al @ [c])))"

definition loggedAPI :: "'a tencent_cdn_api \<Rightarrow> ('a \<times> tencent_call list) tencent_cdn_api" where
  "loggedAPI api =
     \<lparr>tcAddCdnDomain = (\<lambda>rq. logged (CallAdd (taDomain rq)) (tcAddCdnDomain api rq)),
      tcCreateVerifyRecord = (\<lambda>h. logged (CallCreateVerify h) (tcCreateVerifyRecord api h)),
      tcDescribeDomains = (\<lambda>h al. (case tcDescribeDomains api h (fst al) of (r, a) \<Rightarrow> (r, (a, snd al)))),
      tcStopCdnDomain = (\<lambda>h. logged (CallStop h) (tcStopCdnDomain api h)),
      tcDeleteCdnDomain = (\<lambda>h. logged (CallDelete h) (tcDeleteCdnDomain api h)),
      tcVerifyDomainRecord = (\<lambda>h t. logged (CallVerify h) (tcVerifyDomainRecord api h t))\<rparr>"

text \<open>The calls of one client operation all name the cleaned host, and are of its kind.\<close>

definition setsUp :: "string \<Rightarrow> tencent_call \<Rightarrow> bool" where
  "setsUp h c \<longleftrightarrow> c = CallAdd h \<or> c = CallCreateVerify h \<or> c = CallVerify h"

definition takesDown :: "string \<Rightarrow> tencent_call \<Rightarrow> bool" where
  "takesDown h c \<longleftrightarrow> c = CallStop h \<or> c = CallDelete h"

lemma getDomain_log: "tencentGetDomain (loggedAPI api) h al = (r, al') \<Longrightarrow> snd al' = snd al"
  by (auto simp: tencentGetDomain_def loggedAPI_def split: prod.splits sum.splits option.splits)

lemma prepare_calls:
  assumes "tencentPrepareDomain (loggedAPI api) root h al = (r, al')"
  shows "\<exists>cs. snd al' = snd al @ cs \<and> (\<forall>c\<in>set cs. setsUp (cleanDomain h) c)"
proof -
  obtain d al1 where 1: "tencentGetDomain (loggedAPI api) (cleanDomain h) al = (d, al1)" by (metis prod.exhaust)
  show ?thesis
    using assms 1 getDomain_log [OF 1]
    by (auto simp: tencentPrepareDomain_def Let_def loggedAPI_def logged_def setsUp_def
        split: if_splits prod.splits sum.splits option.splits)
qed

lemma ensure_calls:
  assumes "tencentEnsureDomain (loggedAPI api) origin h al = (r, al')"
  shows "\<exists>cs. snd al' = snd al @ cs \<and> (\<forall>c\<in>set cs. setsUp (cleanDomain h) c)"
proof -
  obtain d al1 where 1: "tencentGetDomain (loggedAPI api) (cleanDomain h) al = (d, al1)" by (metis prod.exhaust)
  show ?thesis
    using assms 1 getDomain_log [OF 1]
    by (auto simp: tencentEnsureDomain_def tencentAddDomain_def Let_def loggedAPI_def logged_def setsUp_def
        split: if_splits prod.splits sum.splits)
qed

lemma delete_calls:
  assumes "tencentDeleteDomain (loggedAPI api) h al = (r, al')"
  shows "\<exists>cs. snd al' = snd al @ cs \<and> (\<forall>c\<in>set cs. takesDown (cleanDomain h) c \<and> cleanDomain h \<noteq> [])"
  using assms
  by (auto simp: tencentDeleteDomain_def Let_def loggedAPI_def logged_def takesDown_def
      split: if_splits prod.splits sum.splits)

end
