(* ===== verification/AliyunCdn.thy ===== *)
theory AliyunCdn
  imports GoText TencentCdn
begin

text \<open>
  internal/cloudplane/infra/frontdoor/aliyun.go: the CDN client for Alibaba Cloud.  The raw API is a
  parameter: a call with an action and its query, whose untyped answer is not restricted.
\<close>

record 'a aliyun_cdn_api =
  acCall :: "string \<Rightarrow> (string \<times> string) list \<Rightarrow> 'a \<Rightarrow> (string \<times> jval) list res \<times> 'a"

text \<open>The error of json.Unmarshal for a field that is not a string.\<close>

definition errVerifyDataType :: goerr where
  "errVerifyDataType = ExtErr None ''json: cannot unmarshal value into Go struct field''"

record aliyun_verify =
  avRootDomain :: string
  avVerifyKey :: string
  avVerifyCode :: string

text \<open>The client; a nil raw client is None.\<close>

record 'a aliyun_cdn_client =
  acRaw :: "'a aliyun_cdn_api option"
  acOrigin :: string

section \<open>Helpers\<close>

definition callAPI :: "'a aliyun_cdn_client \<Rightarrow> string \<Rightarrow> (string \<times> string) list \<Rightarrow> 'a \<Rightarrow> (string \<times> jval) list res \<times> 'a" where
  "callAPI c action query a =
     (case acRaw c of None \<Rightarrow> (Inl (Errorf ''aliyun raw API client is nil''), a) | Some api \<Rightarrow> acCall api action query a)"

definition aliyunVerifyHost :: "aliyun_verify \<Rightarrow> string" where
  "aliyunVerifyHost v = cleanDomain (avVerifyKey v @ ''.'' @ avRootDomain v)"

definition originType :: "string \<Rightarrow> string" where
  "originType origin = (if validIP (trimSpace origin) then ''ipaddr'' else ''domain'')"

definition stringValue :: "jval \<Rightarrow> string" where
  "stringValue v = (if v = JNull then [] else trimSpace (goSprint v))"

definition isAliyunNotFound :: "goerr \<Rightarrow> bool" where
  "isAliyunNotFound err \<longleftrightarrow>
     (let message = toLower (errText err) in
      containsStr message ''notfound'' \<or> containsStr message ''not exist'' \<or> containsStr message ''not exists'')"

definition isAliyunPending :: "goerr \<Rightarrow> bool" where
  "isAliyunPending err \<longleftrightarrow>
     (let message = toLower (errText err) in
      containsStr message ''domainownerverifyfail'' \<or> containsStr message ''servicebusy''
      \<or> containsStr message ''configuring'')"

section \<open>Reading\<close>

fun findAliyunDomain :: "string \<Rightarrow> jval list \<Rightarrow> cdn_domain" where
  "findAliyunDomain host [] = noDomain"
| "findAliyunDomain host (raw # items) =
     (let item = asObj raw in
      if cleanDomain (stringValue (getKey ''DomainName'' item)) \<noteq> host then findAliyunDomain host items
      else \<lparr>cdExists = True, cdCNAME = cleanDomain (stringValue (getKey ''Cname'' item))\<rparr>)"

definition aliyunGetDomain :: "'a aliyun_cdn_client \<Rightarrow> string \<Rightarrow> 'a \<Rightarrow> cdn_domain res \<times> 'a" where
  "aliyunGetDomain c host a =
     (case callAPI c ''DescribeUserDomains'' [(''DomainName'', host), (''DomainSearchType'', ''full_match'')] a of
        (Inl err, a1) \<Rightarrow> (Inl err, a1)
      | (Inr result, a1) \<Rightarrow>
          (Inr (findAliyunDomain host
             (asList (getKey ''PageData'' (asObj (getKey ''Domains'' (asObj (getKey ''body'' result))))))), a1))"

text \<open>
  The struct after Marshal and Unmarshal: the entries in the order of their keys, matched to the fields
  without regard to case; null leaves a field alone, and another value that is not a string is an error.
\<close>

definition setVerifyField :: "string \<times> jval \<Rightarrow> aliyun_verify \<times> bool \<Rightarrow> aliyun_verify \<times> bool" where
  "setVerifyField kv st =
     (case (kv, st) of ((k, v), (r, bad)) \<Rightarrow>
        if \<not> (equalFold k ''RootDomain'' \<or> equalFold k ''verifyKey'' \<or> equalFold k ''verifyCode'') then (r, bad)
        else (case v of
                JNull \<Rightarrow> (r, bad)
              | JStr s \<Rightarrow>
                  ((if equalFold k ''RootDomain'' then r\<lparr>avRootDomain := s\<rparr>
                    else if equalFold k ''verifyKey'' then r\<lparr>avVerifyKey := s\<rparr>
                    else r\<lparr>avVerifyCode := s\<rparr>), bad)
              | _ \<Rightarrow> (r, True)))"

definition verifyDataOf :: "(string \<times> jval) list \<Rightarrow> aliyun_verify res" where
  "verifyDataOf content =
     (if content = [] then Inl (Errorf ''domain verify data is empty'')
      else (case fold setVerifyField (sort_key fst content)
                   (\<lparr>avRootDomain = [], avVerifyKey = [], avVerifyCode = []\<rparr>, False) of
              (r, bad) \<Rightarrow>
                if bad then Inl (wrap ''parse domain verify data'' errVerifyDataType)
                else (let v = \<lparr>avRootDomain = cleanDomain (avRootDomain r), avVerifyKey = trimDots (trimSpace (avVerifyKey r)),
                               avVerifyCode = trimSpace (avVerifyCode r)\<rparr>
                      in if avRootDomain v = [] \<or> avVerifyKey v = [] \<or> avVerifyCode v = [] then
                           Inl (Errorf ''domain verify data is incomplete'')
                         else Inr v)))"

definition domainVerifyData :: "'a aliyun_cdn_client \<Rightarrow> string \<Rightarrow> 'a \<Rightarrow> aliyun_verify res \<times> 'a" where
  "domainVerifyData c host a =
     (case callAPI c ''DescribeDomainVerifyData'' [(''DomainName'', host)] a of
        (Inl err, a1) \<Rightarrow> (Inl err, a1)
      | (Inr result, a1) \<Rightarrow> (verifyDataOf (asObj (getKey ''Content'' (asObj (getKey ''body'' result)))), a1))"

section \<open>Writing\<close>

definition jsonField :: "string \<Rightarrow> string \<Rightarrow> string" where
  "jsonField k text = jsonString k @ '':'' @ text"

definition aliyunSources :: "string \<Rightarrow> string" where
  "aliyunSources origin = ''[{'' @ joinStr '',''
     [jsonField ''content'' (jsonString origin), jsonField ''port'' ''80'', jsonField ''priority'' (jsonString ''20''),
      jsonField ''type'' (jsonString (originType origin)), jsonField ''weight'' (jsonString ''15'')] @ ''}]''"

definition aliyunAddDomain :: "'a aliyun_cdn_client \<Rightarrow> string \<Rightarrow> 'a \<Rightarrow> unit res \<times> 'a" where
  "aliyunAddDomain c host a =
     (case callAPI c ''AddCdnDomain'' [(''DomainName'', host), (''CdnType'', ''web''), (''Scope'', ''domestic''),
             (''Sources'', aliyunSources (acOrigin c))] a of
        (r, a1) \<Rightarrow> (map_sum id (\<lambda>_. ()) r, a1))"

definition cdnFunction :: "string \<Rightarrow> string \<Rightarrow> string \<Rightarrow> string" where
  "cdnFunction name arg val = ''{'' @ jsonField ''functionArgs'' (''[{'' @ jsonField ''argName'' (jsonString arg) @ '',''
     @ jsonField ''argValue'' (jsonString val) @ ''}]'') @ '','' @ jsonField ''functionName'' (jsonString name) @ ''}''"

definition setDomainConfig :: "'a aliyun_cdn_client \<Rightarrow> string \<Rightarrow> 'a \<Rightarrow> unit res \<times> 'a" where
  "setDomainConfig c host a =
     (case callAPI c ''BatchSetCdnDomainConfig'' [(''DomainNames'', host),
             (''Functions'', ''['' @ cdnFunction ''set_req_host_header'' ''domain_name'' host @ '',''
                @ cdnFunction ''ipv6'' ''switch'' ''off'' @ '']'')] a of
        (r, a1) \<Rightarrow> (map_sum id (\<lambda>_. ()) r, a1))"

section \<open>The interface\<close>

definition aliyunPrepareDomain ::
  "'a aliyun_cdn_client \<Rightarrow> string \<Rightarrow> 'a \<Rightarrow> (frontdoor_record option \<times> goerr option) \<times> 'a" where
  "aliyunPrepareDomain c host0 a =
     (let host = cleanDomain host0 in
      case aliyunGetDomain c host a of
        (Inl err, a1) \<Rightarrow> ((None, Some err), a1)
      | (Inr domain, a1) \<Rightarrow>
          if cdExists domain then ((None, None), a1)
          else
            (case domainVerifyData c host a1 of
               (Inl err, a2) \<Rightarrow> ((None, Some err), a2)
             | (Inr verify, a2) \<Rightarrow>
                 (let rec = \<lparr>fdrSubdomain = aliyunVerifyHost verify, fdrType = ''TXT'', fdrValue = avVerifyCode verify\<rparr> in
                  case callAPI c ''VerifyDomainOwner'' [(''DomainName'', host), (''VerifyType'', ''dnsCheck'')] a2 of
                    (Inl err, a3) \<Rightarrow>
                      ((Some rec, Some (if isAliyunPending err then errDomainVerificationPending else err)), a3)
                  | (Inr _, a3) \<Rightarrow> ((Some rec, None), a3))))"

definition aliyunEnsureDomain :: "'a aliyun_cdn_client \<Rightarrow> string \<Rightarrow> 'a \<Rightarrow> string res \<times> 'a" where
  "aliyunEnsureDomain c host0 a =
     (let host = cleanDomain host0 in
      case aliyunGetDomain c host a of
        (Inl err, a1) \<Rightarrow> (Inl err, a1)
      | (Inr domain, a1) \<Rightarrow>
          if \<not> cdExists domain then
            (case aliyunAddDomain c host a1 of
               (Inl err, a2) \<Rightarrow> ((if isAliyunPending err then Inr [] else Inl err), a2)
             | (Inr _, a2) \<Rightarrow> (Inr [], a2))
          else if trimSpace (cdCNAME domain) = [] then (Inr [], a1)
          else
            (case setDomainConfig c host a1 of
               (Inl err, a2) \<Rightarrow> ((if isAliyunPending err then Inr [] else Inl err), a2)
             | (Inr _, a2) \<Rightarrow> (Inr (cdCNAME domain), a2)))"

definition aliyunDeleteDomain :: "'a aliyun_cdn_client \<Rightarrow> string \<Rightarrow> 'a \<Rightarrow> goerr option \<times> 'a" where
  "aliyunDeleteDomain c host0 a =
     (let host = cleanDomain host0; failed = (\<lambda>r. case r of Inl err \<Rightarrow> if isAliyunNotFound err then None else Some err | Inr _ \<Rightarrow> None) in
      if host = [] then (None, a)
      else
        (case callAPI c ''StopCdnDomain'' [(''DomainName'', host)] a of
           (r1, a1) \<Rightarrow>
             (case failed r1 of
                Some err \<Rightarrow> (Some err, a1)
              | None \<Rightarrow>
                  (case callAPI c ''DeleteCdnDomain'' [(''DomainName'', host)] a1 of
                     (r2, a2) \<Rightarrow> (failed r2, a2)))))"

definition aliyunCDN :: "'a aliyun_cdn_client \<Rightarrow> ('a, 'z) fd_world_scheme cdn_client" where
  "aliyunCDN c =
     \<lparr>cdnPrepareDomain = (\<lambda>host. onAPI (aliyunPrepareDomain c host)),
      cdnEnsureDomain = (\<lambda>host. onAPI (aliyunEnsureDomain c host)),
      cdnDeleteDomain = (\<lambda>host. onAPI (aliyunDeleteDomain c host))\<rparr>"

section \<open>Which calls reach the API\<close>

text \<open>A call that can change something, with the domain it names; the two Describe actions only read.\<close>

type_synonym aliyun_call = "string \<times> string"

definition readsOnly :: "string \<Rightarrow> bool" where
  "readsOnly action \<longleftrightarrow> hasPrefix action ''Describe''"

definition namedDomain :: "(string \<times> string) list \<Rightarrow> string" where
  "namedDomain query =
     (case (map_of query ''DomainName'', map_of query ''DomainNames'') of
        (Some d, _) \<Rightarrow> d | (None, Some d) \<Rightarrow> d | _ \<Rightarrow> [])"

definition loggedAliyun :: "'a aliyun_cdn_api \<Rightarrow> ('a \<times> aliyun_call list) aliyun_cdn_api" where
  "loggedAliyun api = \<lparr>acCall = (\<lambda>action query al.
     (case acCall api action query (fst al) of
        (r, a) \<Rightarrow> (r, (a, if readsOnly action then snd al else snd al @ [(action, namedDomain query)]))))\<rparr>"

definition aliyunSetsUp :: "string \<Rightarrow> aliyun_call \<Rightarrow> bool" where
  "aliyunSetsUp h c \<longleftrightarrow> snd c = h \<and> fst c \<in> {''AddCdnDomain'', ''VerifyDomainOwner'', ''BatchSetCdnDomainConfig''}"

definition aliyunTakesDown :: "string \<Rightarrow> aliyun_call \<Rightarrow> bool" where
  "aliyunTakesDown h c \<longleftrightarrow> snd c = h \<and> fst c \<in> {''StopCdnDomain'', ''DeleteCdnDomain''}"

definition loggedClient :: "'a aliyun_cdn_api \<Rightarrow> string \<Rightarrow> ('a \<times> aliyun_call list) aliyun_cdn_client" where
  "loggedClient api origin = \<lparr>acRaw = Some (loggedAliyun api), acOrigin = origin\<rparr>"

lemma callAPI_logged:
  "callAPI (loggedClient api origin) action query al = (r, al') \<Longrightarrow>
     snd al' = snd al @ (if readsOnly action then [] else [(action, namedDomain query)])"
  by (auto simp: callAPI_def loggedClient_def loggedAliyun_def split: prod.splits)

lemma aliyunGetDomain_log: "aliyunGetDomain (loggedClient api origin) h al = (r, al') \<Longrightarrow> snd al' = snd al"
  by (auto simp: aliyunGetDomain_def readsOnly_def hasPrefix_def dest: callAPI_logged split: prod.splits sum.splits)

lemma domainVerifyData_log: "domainVerifyData (loggedClient api origin) h al = (r, al') \<Longrightarrow> snd al' = snd al"
  by (auto simp: domainVerifyData_def readsOnly_def hasPrefix_def dest: callAPI_logged split: prod.splits sum.splits)

lemma aliyun_prepare_calls:
  assumes "aliyunPrepareDomain (loggedClient api origin) h al = (r, al')"
  shows "\<exists>cs. snd al' = snd al @ cs \<and> (\<forall>c\<in>set cs. aliyunSetsUp (cleanDomain h) c)"
proof -
  obtain d al1 where 1: "aliyunGetDomain (loggedClient api origin) (cleanDomain h) al = (d, al1)" by (metis prod.exhaust)
  obtain v al2 where 2: "domainVerifyData (loggedClient api origin) (cleanDomain h) al1 = (v, al2)" by (metis prod.exhaust)
  show ?thesis
    using assms 1 2 aliyunGetDomain_log [OF 1] domainVerifyData_log [OF 2]
    by (auto simp: aliyunPrepareDomain_def Let_def aliyunSetsUp_def readsOnly_def hasPrefix_def namedDomain_def
        dest!: callAPI_logged split: if_splits prod.splits sum.splits)
qed

lemma aliyun_ensure_calls:
  assumes "aliyunEnsureDomain (loggedClient api origin) h al = (r, al')"
  shows "\<exists>cs. snd al' = snd al @ cs \<and> (\<forall>c\<in>set cs. aliyunSetsUp (cleanDomain h) c)"
proof -
  obtain d al1 where 1: "aliyunGetDomain (loggedClient api origin) (cleanDomain h) al = (d, al1)" by (metis prod.exhaust)
  show ?thesis
    using assms 1 aliyunGetDomain_log [OF 1]
    by (auto simp: aliyunEnsureDomain_def aliyunAddDomain_def setDomainConfig_def Let_def aliyunSetsUp_def
        readsOnly_def hasPrefix_def namedDomain_def
        dest!: callAPI_logged split: if_splits prod.splits sum.splits)
qed

lemma aliyun_delete_calls:
  assumes "aliyunDeleteDomain (loggedClient api origin) h al = (r, al')"
  shows "\<exists>cs. snd al' = snd al @ cs \<and> (\<forall>c\<in>set cs. aliyunTakesDown (cleanDomain h) c \<and> cleanDomain h \<noteq> [])"
  using assms
  by (auto simp: aliyunDeleteDomain_def Let_def aliyunTakesDown_def readsOnly_def hasPrefix_def namedDomain_def
      dest!: callAPI_logged split: if_splits prod.splits sum.splits option.splits)

end
