(* ===== verification/FrontdoorProps.thy ===== *)
theory FrontdoorProps
  imports AliyunCdn StoreDemo
begin

text \<open>
  The front door on the store and the clouds' CDNs: which domains a pass sets up and takes down, and
  what it leaves in the front-door columns.
\<close>

section \<open>What the calls of a pass are about\<close>

definition hasFrontDoor :: "service_row \<Rightarrow> bool" where
  "hasFrontDoor v \<longleftrightarrow> fdCNAME v \<noteq> [] \<or> fdVerifySubdomain v \<noteq> []"

text \<open>A stale host: under the base domain, not routed, and with front-door state in the database s.\<close>

definition staleHost :: "db \<Rightarrow> string \<Rightarrow> string list \<Rightarrow> string \<Rightarrow> bool" where
  "staleHost s base desired h \<longleftrightarrow> domainIsUnder h base \<and> h \<notin> set desired \<and>
     (\<exists>v\<in>set (services s). hasFrontDoor v \<and> h = cleanDomain (serviceHost v))"

text \<open>The requests of a CDN that set up and that take down a host are given by up and down.\<close>

definition dueCall ::
  "(string \<Rightarrow> 'c \<Rightarrow> bool) \<Rightarrow> (string \<Rightarrow> 'c \<Rightarrow> bool) \<Rightarrow> db \<Rightarrow> string \<Rightarrow> string list \<Rightarrow> 'c \<Rightarrow> bool" where
  "dueCall up down s base desired c \<longleftrightarrow>
     (\<exists>h\<in>set desired. up (cleanDomain h) c) \<or> (\<exists>h. staleHost s base desired h \<and> down (cleanDomain h) c \<and> cleanDomain h \<noteq> [])"

text \<open>
  The state of a pass that started in w0: nothing has happened before the listing; after it every
  call to the API was due, judged by the database that the listing saw.
\<close>

definition passState ::
  "(string \<Rightarrow> 'c \<Rightarrow> bool) \<Rightarrow> (string \<Rightarrow> 'c \<Rightarrow> bool) \<Rightarrow> store_env \<Rightarrow> ('a \<times> 'c list, 'z) fd_world_scheme \<Rightarrow> string \<Rightarrow> string list \<Rightarrow>
   service list option \<Rightarrow> ('a \<times> 'c list, 'z) fd_world_scheme \<Rightarrow> bool" where
  "passState up down e w0 base desired items w \<longleftrightarrow>
     (let s = envOther e (wtick w0) (wdb w0) in
      case items of
        None \<Rightarrow> w = w0
      | Some svcs \<Rightarrow> set svcs \<subseteq> set (ListServiceFrontDoors s) \<and>
          (\<exists>cs. snd (fdAPI w) = snd (fdAPI w0) @ cs \<and> list_all (dueCall up down s base desired) cs))"

lemma storeOp_fdAPI: "storeOp e f w = (r, w') \<Longrightarrow> fdAPI w' = fdAPI w"
  by (auto simp: storeOp_def interfere_def Let_def split: option.splits sum.splits)

lemma onAPI_fdAPI: "onAPI f w = (r, w') \<Longrightarrow> f (fdAPI w) = (r, fdAPI w')"
  by (auto simp: onAPI_def split: prod.splits)

lemma passState_more:
  assumes "passState up down e w0 base desired (Some svcs) w" "snd (fdAPI w') = snd (fdAPI w) @ cs"
    "\<And>c. c \<in> set cs \<Longrightarrow> dueCall up down (envOther e (wtick w0) (wdb w0)) base desired c"
  shows "passState up down e w0 base desired (Some svcs) w'"
  using assms by (force simp: passState_def Let_def list_all_iff)

lemma passState_store:
  assumes "passState up down e w0 base desired (Some svcs) w" "fdAPI w' = fdAPI w"
  shows "passState up down e w0 base desired (Some svcs) w'"
  using passState_more [OF assms(1), of w' "[]"] assms(2) by simp

lemma passState_API:
  assumes "passState up down e w0 base desired (Some svcs) w" "onAPI f w = (r, w')"
    and "\<And>al. f (fdAPI w) = (r, al) \<Longrightarrow> \<exists>cs. snd al = snd (fdAPI w) @ cs \<and> (\<forall>c\<in>set cs. p c)"
    and "\<And>c. p c \<Longrightarrow> dueCall up down (envOther e (wtick w0) (wdb w0)) base desired c"
  shows "passState up down e w0 base desired (Some svcs) w'"
  using assms(3) [OF onAPI_fdAPI [OF assms(2)]] assms(4) passState_more [OF assms(1)] by blast

lemma listed_front_door:
  "v \<in> set (ListServiceFrontDoors s) \<Longrightarrow> \<exists>row\<in>set (services s). hasFrontDoor row \<and> svcHost v = serviceHost row"
  by (auto simp: ListServiceFrontDoors_def hasFrontDoor_def scanService_def)

lemma passState_save:
  assumes "passState up down e w0 base desired (Some svcs) w" "dsSaveServiceFrontDoor (frontDoorStore e) h st w = (er, w')"
  shows "passState up down e w0 base desired (Some svcs) w'"
  using assms(2) by (intro passState_store [OF assms(1)]) (auto simp: frontDoorStore_def dest: storeOp_fdAPI split: prod.splits)

lemma passState_clear:
  assumes "passState up down e w0 base desired (Some svcs) w" "dsClearServiceFrontDoor (frontDoorStore e) h w = (er, w')"
  shows "passState up down e w0 base desired (Some svcs) w'"
  using assms(2) by (intro passState_store [OF assms(1)]) (auto simp: frontDoorStore_def dest: storeOp_fdAPI split: prod.splits)

lemma passState_stale:
  assumes "passState up down e w0 base desired (Some svcs) w" "v \<in> set svcs"
    "domainIsUnder (cleanDomain (svcHost v)) base" "cleanDomain (svcHost v) \<notin> set desired"
  shows "staleHost (envOther e (wtick w0) (wdb w0)) base desired (cleanDomain (svcHost v))"
proof -
  have "v \<in> set (ListServiceFrontDoors (envOther e (wtick w0) (wdb w0)))"
    using assms(1,2) by (auto simp: passState_def Let_def)
  then show ?thesis using assms(3,4) by (auto simp: staleHost_def dest!: listed_front_door)
qed

lemma passState_listed:
  "passState up down e w0 base desired None w \<Longrightarrow> dsListServiceFrontDoors (frontDoorStore e) w = (Inr svcs, w') \<Longrightarrow>
     passState up down e w0 base desired (Some svcs) w'"
  "passState up down e w0 base desired None w \<Longrightarrow> dsListServiceFrontDoors (frontDoorStore e) w = (Inl err, w') \<Longrightarrow>
     passState up down e w0 base desired (Some []) w'"
  by (auto simp: passState_def Let_def frontDoorStore_def readOp_def storeOp_def interfere_def split: option.splits)

interpretation tencentPass: front_door_contract
  "tencentCDN (loggedAPI api) origin baseDomain" "frontDoorStore e" base desired
  "passState setsUp takesDown e w0 base desired" for api origin baseDomain e base desired w0
proof
  let ?cdn = "tencentCDN (loggedAPI api) origin baseDomain"
  let ?P = "passState setsUp takesDown e w0 base desired"
  let ?s = "envOther e (wtick w0) (wdb w0)"
  fix svcs w h w'
  assume P: "?P (Some svcs) w"
  show "?P (Some svcs) w'" if "h \<in> set desired" "cdnPrepareDomain ?cdn h w = (r, w')" for r
    using that by (intro passState_API [OF P _ prepare_calls]) (auto simp: tencentCDN_def dueCall_def)
  show "?P (Some svcs) w'" if "h \<in> set desired" "cdnEnsureDomain ?cdn h w = (r', w')" for r'
    using that by (intro passState_API [OF P _ ensure_calls]) (auto simp: tencentCDN_def dueCall_def)
  show "?P (Some svcs) w'" if "dsSaveServiceFrontDoor (frontDoorStore e) h st w = (er, w')" for st er
    using that by (intro passState_save [OF P])
  fix v assume v: "v \<in> set svcs"
  show "?P (Some svcs) w'" if "dsClearServiceFrontDoor (frontDoorStore e) (cleanDomain (svcHost v)) w = (er, w')" for er
    using that by (intro passState_clear [OF P])
  assume host: "domainIsUnder (cleanDomain (svcHost v)) base" "cleanDomain (svcHost v) \<notin> set desired"
  show "?P (Some svcs) w'" if "cdnDeleteDomain ?cdn (cleanDomain (svcHost v)) w = (er, w')" for er
    using that passState_stale [OF P v host]
    by (intro passState_API [OF P _ delete_calls]) (auto simp: tencentCDN_def dueCall_def)
qed (rule passState_listed, assumption+)+

text \<open>What the state at the end of a pass says of the requests made.\<close>

lemma passState_calls:
  assumes "passState up down e w base desired (Some svcs) w'" and "desiredHosts base routes [] = Inr desired"
  shows "\<exists>cs. snd (fdAPI w') = snd (fdAPI w) @ cs \<and>
     (\<forall>c\<in>set cs.
        (\<exists>rt\<in>set routes. cleanDomain (routeHost rt) \<noteq> [] \<and> up (cleanDomain (cleanDomain (routeHost rt))) c) \<or>
        (\<exists>v\<in>set (services (envOther e (wtick w) (wdb w))). let h = cleanDomain (serviceHost v) in
           hasFrontDoor v \<and> domainIsUnder h base \<and> (\<forall>rt\<in>set routes. cleanDomain (routeHost rt) \<noteq> h) \<and>
           down (cleanDomain h) c))"
proof -
  obtain cs where cs: "snd (fdAPI w') = snd (fdAPI w) @ cs"
    "list_all (dueCall up down (envOther e (wtick w) (wdb w)) base desired) cs"
    using assms(1) by (auto simp: passState_def Let_def)
  have d: "set desired = (\<lambda>r. cleanDomain (routeHost r)) ` set routes - {[]}"
    using desiredHosts_set [OF assms(2)] by simp
  have "(\<exists>rt\<in>set routes. cleanDomain (routeHost rt) \<noteq> [] \<and> up (cleanDomain (cleanDomain (routeHost rt))) c) \<or>
        (\<exists>v\<in>set (services (envOther e (wtick w) (wdb w))). let h = cleanDomain (serviceHost v) in
           hasFrontDoor v \<and> domainIsUnder h base \<and> (\<forall>rt\<in>set routes. cleanDomain (routeHost rt) \<noteq> h) \<and>
           down (cleanDomain h) c)" (is "?up \<or> ?down") if "c \<in> set cs" for c
  proof -
    have "dueCall up down (envOther e (wtick w) (wdb w)) base desired c" using cs(2) that by (simp add: list_all_iff)
    then consider h where "h \<in> set desired" "up (cleanDomain h) c"
      | h where "staleHost (envOther e (wtick w) (wdb w)) base desired h" "down (cleanDomain h) c" "cleanDomain h \<noteq> []"
      unfolding dueCall_def by blast
    then show ?thesis
    proof cases
      case 1
      then obtain rt where "rt \<in> set routes" "h = cleanDomain (routeHost rt)" "h \<noteq> []" unfolding d by blast
      then have ?up using 1(2) by blast
      then show ?thesis ..
    next
      case 2
      then have "h \<noteq> []" by auto
      then have "\<forall>rt\<in>set routes. cleanDomain (routeHost rt) \<noteq> h" using 2(1) d unfolding staleHost_def by blast
      then have ?down using 2(1,2) unfolding staleHost_def Let_def by blast
      then show ?thesis ..
    qed
  qed
  then show ?thesis using cs(1) by blast
qed

text \<open>
  C12: The front door touches only what it should, whatever the database, other transactions and
  Tencent's API do during the pass.  Every request that changes something at the CDN is either one
  that sets up the domain of a routed host, or one that takes down the domain of a host that is
  under the base domain, is not routed and had front-door state in the database the pass listed;
  when a route is outside the base domain no request is made at all.
\<close>

theorem front_door_touches_only_its_hosts:
  fixes api :: "'a tencent_cdn_api"
  assumes "frontDoorSyncRoutes (tencentCDN (loggedAPI api) origin baseDomain) (Some (frontDoorStore e)) base routes w = (err, w')"
  shows "\<exists>cs. snd (fdAPI w') = snd (fdAPI w) @ cs \<and>
     (\<forall>c\<in>set cs.
        (\<exists>rt\<in>set routes. cleanDomain (routeHost rt) \<noteq> [] \<and> setsUp (cleanDomain (cleanDomain (routeHost rt))) c) \<or>
        (\<exists>v\<in>set (services (envOther e (wtick w) (wdb w))). let h = cleanDomain (serviceHost v) in
           hasFrontDoor v \<and> domainIsUnder h base \<and> (\<forall>rt\<in>set routes. cleanDomain (routeHost rt) \<noteq> h) \<and>
           takesDown (cleanDomain h) c))"
proof (cases "desiredHosts base routes []")
  case (Inl er)
  then show ?thesis using assms by (simp add: frontDoorSyncRoutes_def)
next
  case (Inr desired)
  have "passState setsUp takesDown e w base desired None w" by (simp add: passState_def)
  then obtain svcs where P: "passState setsUp takesDown e w base desired (Some svcs) w'"
    using tencentPass.pass_keeps [OF _ Inr assms] by blast
  then show ?thesis by (rule passState_calls [OF _ Inr])
qed

text \<open>A CDN that has every domain, and a database where one host has a CNAME stored.\<close>

definition demoTencent :: "unit tencent_cdn_api" where
  "demoTencent =
     \<lparr>tcAddCdnDomain = (\<lambda>_ a. (Inr (), a)), tcCreateVerifyRecord = (\<lambda>_ a. (Inr None, a)),
      tcDescribeDomains = (\<lambda>h a. (Inr (Some [None, Some \<lparr>tdDomain = Some h, tdCname = Some ''c.cdn''\<rparr>]), a)),
      tcStopCdnDomain = (\<lambda>_ a. (Inr (), a)), tcDeleteCdnDomain = (\<lambda>_ a. (Inr (), a)),
      tcVerifyDomainRecord = (\<lambda>_ _ a. (Inr None, a))\<rparr>"

definition calmStore :: store_env where
  "calmStore = \<lparr>envClock = (\<lambda>_. t0), envEntropy = (\<lambda>_. Inr [7]), envFault = (\<lambda>_. None), envOther = (\<lambda>_ s. s)\<rparr>"

definition w8 :: "(unit \<times> tencent_call list) fd_world" where
  "w8 = \<lparr>wdb = SaveServiceFrontDoor t0 ''web.io'' (noVerification ''c.cdn'') d7, wtick = 0, fdAPI = ((), [])\<rparr>"

definition noRoutes :: "goerr option \<times> (unit \<times> tencent_call list) fd_world" where
  "noRoutes = frontDoorSyncRoutes (tencentCDN (loggedAPI demoTencent) ''1.2.3.4'' ''io'') (Some (frontDoorStore calmStore)) ''io'' [] w8"

theorem front_door_touches_only_its_hosts_witness:
  "\<exists>cs. snd (fdAPI (snd noRoutes)) = cs \<and> list_ex (takesDown ''web.io'') cs"
proof -
  have "frontDoorSyncRoutes (tencentCDN (loggedAPI demoTencent) ''1.2.3.4'' ''io'') (Some (frontDoorStore calmStore)) ''io'' [] w8 =
      (fst noRoutes, snd noRoutes)" by (simp add: noRoutes_def)
  from front_door_touches_only_its_hosts [OF this]
  obtain cs where "snd (fdAPI (snd noRoutes)) = snd (fdAPI w8) @ cs" by blast
  then have "snd (fdAPI (snd noRoutes)) = cs" by (simp add: w8_def)
  moreover have "list_ex (takesDown ''web.io'') (snd (fdAPI (snd noRoutes)))" by code_simp
  ultimately show ?thesis by simp
qed

section \<open>What a pass leaves behind\<close>

definition quietStore :: "store_env \<Rightarrow> bool" where
  "quietStore e \<longleftrightarrow> envFault e = (\<lambda>_. None) \<and> envOther e = (\<lambda>_ s. s)"

text \<open>Hosts in the normal form in which the front-door columns are addressed.\<close>

definition cleanHosts :: "db \<Rightarrow> bool" where
  "cleanHosts s \<longleftrightarrow> list_all (\<lambda>h. h \<noteq> [] \<and> cleanDomain h = h) (map serviceHost (services s))"

definition covered :: "db \<Rightarrow> string set \<Rightarrow> bool" where
  "covered s H \<longleftrightarrow> (\<forall>v\<in>set (services s). hasFrontDoor v \<longrightarrow> serviceHost v \<in> H)"

lemma storeOp_quiet:
  "quietStore e \<Longrightarrow> storeOp e (\<lambda>clk _ s. Inr (x, f clk s)) w = (r, w') \<Longrightarrow>
   r = Inr x \<and> wdb w' = f (envClock e (wtick w)) (wdb w)"
  by (auto simp: quietStore_def storeOp_def interfere_def Let_def)

lemma covered_update:
  assumes "covered s H" "\<And>v. p v \<Longrightarrow> serviceHost (f v) = serviceHost v"
    "\<And>v. v \<in> set (services s) \<Longrightarrow> p v \<Longrightarrow> hasFrontDoor (f v) \<Longrightarrow> serviceHost v \<in> H'"
    "\<And>v. v \<in> set (services s) \<Longrightarrow> \<not> p v \<Longrightarrow> hasFrontDoor v \<Longrightarrow> serviceHost v \<in> H'"
  shows "covered (s\<lparr>services := updateWhere p f (services s)\<rparr>) H'"
  using assms by (auto simp: covered_def updateWhere_def)

lemma SaveServiceFrontDoor_covered:
  "covered s H \<Longrightarrow> cleanDomain h \<in> H \<Longrightarrow> covered (SaveServiceFrontDoor clk h st s) H"
  by (auto simp: SaveServiceFrontDoor_def Let_def covered_def updateWhere_iff split: prod.splits if_splits)

lemma hasFrontDoor_cleared [simp]:
  "\<not> hasFrontDoor (v\<lparr>fdCNAME := [], fdVerifySubdomain := [], fdVerifyType := [], fdVerifyValue := [],
     serviceUpdatedAt := t\<rparr>)"
  by (simp add: hasFrontDoor_def)

lemma ClearServiceFrontDoor_covered:
  assumes "covered s H" "\<And>x. x \<in> H \<Longrightarrow> x \<noteq> cleanDomain h \<Longrightarrow> x \<in> H'" "cleanDomain h = [] \<Longrightarrow> H \<subseteq> H'"
  shows "covered (ClearServiceFrontDoor clk h s) H'"
proof (cases "cleanDomain h = []")
  case True
  then show ?thesis using assms(1,3) by (auto simp: ClearServiceFrontDoor_def covered_def)
next
  case False
  show ?thesis
    unfolding ClearServiceFrontDoor_def Let_def if_not_P [OF False]
    by (rule covered_update [OF assms(1)]) (use assms(1,2) in \<open>auto simp: covered_def\<close>)
qed

lemma cleanHosts_front_door [simp]:
  "cleanHosts (SaveServiceFrontDoor clk h st s) = cleanHosts s"
  "cleanHosts (ClearServiceFrontDoor clk h s) = cleanHosts s"
  unfolding cleanHosts_def SaveServiceFrontDoor_def ClearServiceFrontDoor_def Let_def
  by (simp_all add: map_updateWhere split: prod.split)

definition quietState ::
  "store_env \<Rightarrow> string list \<Rightarrow> service list option \<Rightarrow> ('a, 'z) fd_world_scheme \<Rightarrow> bool" where
  "quietState e desired items w \<longleftrightarrow>
     (quietStore e \<and> (\<forall>h\<in>set desired. cleanDomain h = h) \<longrightarrow>
      cleanHosts (wdb w) \<and>
      (case items of None \<Rightarrow> True | Some svcs \<Rightarrow> covered (wdb w) (set desired \<union> svcHost ` set svcs)))"

lemma quietState_API: "quietState e desired items w \<Longrightarrow> onAPI f w = (r, w') \<Longrightarrow> quietState e desired items w'"
  by (auto simp: quietState_def onAPI_def split: prod.splits option.splits)

lemma quietState_store:
  assumes "quietState e desired (Some svcs) w" "storeOp e (\<lambda>clk _ s. Inr ((), f clk s)) w = (r, w')"
    and "\<And>clk s. cleanHosts s \<Longrightarrow> cleanHosts (f clk s)"
    and "\<And>clk s. (\<forall>h\<in>set desired. cleanDomain h = h) \<Longrightarrow>
      covered s (set desired \<union> svcHost ` set svcs) \<Longrightarrow> covered (f clk s) (set desired \<union> svcHost ` set svcs)"
  shows "quietState e desired (Some svcs) w'"
  using assms(1,3,4) storeOp_quiet [OF _ assms(2)] by (simp add: quietState_def)

lemma frontDoorStore_simps [simp]:
  "dsSaveServiceFrontDoor (frontDoorStore e) h st w =
     map_prod errOf id (storeOp e (\<lambda>clk _ s. Inr ((), SaveServiceFrontDoor clk h st s)) w)"
  "dsClearServiceFrontDoor (frontDoorStore e) h w =
     map_prod errOf id (storeOp e (\<lambda>clk _ s. Inr ((), ClearServiceFrontDoor clk h s)) w)"
  "dsListServiceFrontDoors (frontDoorStore e) = readOp e ListServiceFrontDoors"
  by (simp_all add: frontDoorStore_def split: prod.split)

lemma svcHost_scan [simp]: "svcHost (scanService v) = serviceHost v"
  by (simp add: scanService_def)

lemma covered_listed: "covered s (H \<union> svcHost ` set (ListServiceFrontDoors s))"
  by (auto simp: covered_def ListServiceFrontDoors_def hasFrontDoor_def image_image)

lemma quietState_call:
  assumes "quietState e desired (Some svcs) w" "map_prod errOf id (storeOp e (\<lambda>clk _ s. Inr ((), f clk s)) w) = (r, w')"
    and "\<And>clk s. cleanHosts s \<Longrightarrow> cleanHosts (f clk s)"
    and "\<And>clk s. (\<forall>h\<in>set desired. cleanDomain h = h) \<Longrightarrow>
      covered s (set desired \<union> svcHost ` set svcs) \<Longrightarrow> covered (f clk s) (set desired \<union> svcHost ` set svcs)"
  shows "quietState e desired (Some svcs) w'"
proof -
  obtain r0 where "storeOp e (\<lambda>clk _ s. Inr ((), f clk s)) w = (r0, w')"
    using assms(2) by (auto simp: map_prod_def split: prod.splits)
  then show ?thesis using assms(3,4) by (rule quietState_store [OF assms(1)])
qed

interpretation quietPass: front_door_contract
  "tencentCDN api origin baseDomain" "frontDoorStore e" base desired
  "quietState e desired" for api origin baseDomain e base desired
proof
  let ?cdn = "tencentCDN api origin baseDomain"
  fix svcs h and w w' :: "('a, 'z) fd_world_scheme"
  assume P: "quietState e desired (Some svcs) w"
  show "quietState e desired (Some svcs) w'" if "cdnPrepareDomain ?cdn h w = (r, w')" for r
    using that by (intro quietState_API [OF P]) (auto simp: tencentCDN_def)
  show "quietState e desired (Some svcs) w'" if "cdnEnsureDomain ?cdn h w = (r', w')" for r'
    using that by (intro quietState_API [OF P]) (auto simp: tencentCDN_def)
  show "quietState e desired (Some svcs) w'" if "h \<in> set desired" "dsSaveServiceFrontDoor (frontDoorStore e) h st w = (er, w')" for st er
    using that(2) unfolding frontDoorStore_simps by (rule quietState_call [OF P]) (use that(1) in \<open>auto intro!: SaveServiceFrontDoor_covered\<close>)
  fix v
  show "quietState e desired (Some svcs) w'" if "dsClearServiceFrontDoor (frontDoorStore e) (cleanDomain (svcHost v)) w = (er, w')" for er
    using that unfolding frontDoorStore_simps by (rule quietState_call [OF P]) (auto elim!: ClearServiceFrontDoor_covered)
  show "quietState e desired (Some svcs) w'" if "cdnDeleteDomain ?cdn (cleanDomain (svcHost v)) w = (er, w')" for er
    using that by (intro quietState_API [OF P]) (auto simp: tencentCDN_def)
next
  fix svcs err and w w' :: "('a, 'z) fd_world_scheme"
  assume P: "quietState e desired None w"
  show "quietState e desired (Some svcs) w'" if "dsListServiceFrontDoors (frontDoorStore e) w = (Inr svcs, w')"
    using P that
    by (auto simp: quietState_def quietStore_def readOp_def storeOp_def interfere_def Let_def covered_listed)
  show "quietState e desired (Some []) w'" if "dsListServiceFrontDoors (frontDoorStore e) w = (Inl err, w')"
    using P that
    by (auto simp: quietState_def quietStore_def readOp_def storeOp_def interfere_def Let_def)
qed

text \<open>The second loop leaves front-door state at desired hosts only.\<close>

lemma retireHosts_covers:
  assumes "retireHosts (tencentCDN api origin baseDomain) (frontDoorStore e) base desired svcs w = (None, w')"
    "quietStore e" "\<And>x. x \<in> set svcs \<Longrightarrow> cleanDomain (svcHost x) = svcHost x \<and> svcHost x \<noteq> []"
    "covered (wdb w) (set desired \<union> svcHost ` set svcs)"
  shows "covered (wdb w') (set desired)"
  using assms(1,3,4)
proof (induction svcs arbitrary: w)
  case Nil
  then show ?case by simp
next
  case (Cons x svcs)
  let ?cdn = "tencentCDN api origin baseDomain" and ?ds = "frontDoorStore e"
  have h: "cleanDomain (svcHost x) = svcHost x" "svcHost x \<noteq> []" using Cons.prems(2) by auto
  obtain w1 where 1: "retireHost ?cdn ?ds base desired x w = (None, w1)"
    and rest: "retireHosts ?cdn ?ds base desired svcs w1 = (None, w')"
    using Cons.prems(1) by (auto split: prod.splits option.splits)
  have clear: "covered (wdb w2) (set desired \<union> svcHost ` set svcs)"
    if c: "covered (wdb wa) (set desired \<union> svcHost ` set (x # svcs))" "dsClearServiceFrontDoor ?ds (svcHost x) wa = (None, w2)"
    for wa w2 :: "('a, 'z) fd_world_scheme"
  proof -
    obtain r where "storeOp e (\<lambda>clk _ s. Inr ((), ClearServiceFrontDoor clk (svcHost x) s)) wa = (r, w2)"
      using c(2) by (auto simp: map_prod_def split: prod.splits)
    from storeOp_quiet [OF assms(2) this] show ?thesis
      using c(1) h by (auto elim!: ClearServiceFrontDoor_covered)
  qed
  have "covered (wdb w1) (set desired \<union> svcHost ` set svcs)"
  proof (cases "domainIsUnder (svcHost x) base")
    case False
    then show ?thesis using 1 clear [OF Cons.prems(3)] by (simp add: retireHost_def Let_def h)
  next
    case under: True
    show ?thesis
    proof (cases "svcHost x \<in> set desired")
      case True
      then show ?thesis using 1 under Cons.prems(3) by (simp add: retireHost_def Let_def h insert_absorb)
    next
      case False
      then obtain wd where d: "cdnDeleteDomain ?cdn (svcHost x) w = (None, wd)"
        and c: "dsClearServiceFrontDoor ?ds (svcHost x) wd = (None, w1)"
        using 1 under by (auto simp: retireHost_def Let_def h simp del: frontDoorStore_simps split: prod.splits option.splits)
      have "wdb wd = wdb w" using d by (auto simp: tencentCDN_def onAPI_def split: prod.splits)
      then show ?thesis using clear [OF _ c] Cons.prems(3) by simp
    qed
  qed
  then show ?case using Cons.IH [OF rest] Cons.prems(2) by simp
qed

text \<open>
  A pass that succeeds, with no other transaction in between, leaves front-door state (a CNAME or
  a verification record) only at services whose host is routed, whatever the CDN answered: what was
  stored for a host that is no longer routed has been cleared, after the CDN gave the domain up or
  because it is outside the base domain.  Hosts are in their normal form.
\<close>

theorem front_door_state_follows_routes:
  fixes api :: "'a tencent_cdn_api"
  assumes "frontDoorSyncRoutes (tencentCDN api origin baseDomain) (Some (frontDoorStore e)) base routes w = (None, w')"
    and "quietStore e" "cleanHosts (wdb w)"
    and "\<And>rt. rt \<in> set routes \<Longrightarrow> cleanDomain (cleanDomain (routeHost rt)) = cleanDomain (routeHost rt)"
    and "v \<in> set (services (wdb w'))" "hasFrontDoor v"
  shows "serviceHost v \<in> (\<lambda>rt. cleanDomain (routeHost rt)) ` set routes"
proof -
  let ?cdn = "tencentCDN api origin baseDomain" and ?ds = "frontDoorStore e"
  obtain desired where d: "desiredHosts base routes [] = Inr desired"
    using assms(1) by (auto simp: frontDoorSyncRoutes_def split: sum.splits)
  note ds = desiredHosts_set [OF d]
  have dc: "\<forall>h\<in>set desired. cleanDomain h = h" using ds assms(4) by auto
  obtain svcs w1 where l: "dsListServiceFrontDoors ?ds w = (Inr svcs, w1)"
    using assms(1) d by (auto simp: frontDoorSyncRoutes_def listManaged_def split: prod.splits sum.splits)
  have sv: "svcs = ListServiceFrontDoors (wdb w)" "wdb w1 = wdb w"
    using l assms(2) by (auto simp: readOp_def storeOp_def interfere_def quietStore_def Let_def)
  obtain w2 where s: "syncHosts ?cdn (Some ?ds) (sortedHosts desired) w1 = (None, w2)"
    using assms(1) d l by (auto simp: frontDoorSyncRoutes_def listManaged_def split: prod.splits option.splits)
  have "quietState e desired None w" using assms(3) by (simp add: quietState_def)
  then have q1: "quietState e desired (Some svcs) w1" using quietPass.lists l by blast
  have q2: "quietState e desired (Some svcs) w2" using quietPass.syncHosts_keeps [OF q1 _ s] by simp
  have cov: "covered (wdb w2) (set desired \<union> svcHost ` set svcs)"
    using q2 assms(2) dc by (simp add: quietState_def)
  have "covered (wdb w') (set desired)"
  proof (cases "svcs = []")
    case True
    then show ?thesis using assms(1) d l s cov by (simp add: frontDoorSyncRoutes_def listManaged_def)
  next
    case False
    have "cleanDomain (svcHost x) = svcHost x \<and> svcHost x \<noteq> []" if "x \<in> set svcs" for x
      using that assms(3) listed_front_door unfolding sv(1) cleanHosts_def list_all_iff by fastforce
    then show ?thesis
      using assms(1,2) d l s cov False by (intro retireHosts_covers) (auto simp: frontDoorSyncRoutes_def listManaged_def)
  qed
  then show ?thesis using assms(5,6) ds by (auto simp: covered_def)
qed

definition w9 :: "unit fd_world" where
  "w9 = \<lparr>wdb = d7, wtick = 0, fdAPI = ()\<rparr>"

definition webRoute :: route where
  "webRoute = \<lparr>routeHost = ''web.io'', routeBackends = []\<rparr>"

definition oneRoute :: "goerr option \<times> unit fd_world" where
  "oneRoute = frontDoorSyncRoutes (tencentCDN demoTencent ''1.2.3.4'' ''io'') (Some (frontDoorStore calmStore)) ''io'' [webRoute] w9"

theorem front_door_state_follows_routes_witness:
  "hasFrontDoor (hd (services (wdb (snd oneRoute)))) \<and> serviceHost (hd (services (wdb (snd oneRoute)))) = cleanDomain (routeHost webRoute)"
proof -
  have none: "fst oneRoute = None" by code_simp
  then have run: "frontDoorSyncRoutes (tencentCDN demoTencent ''1.2.3.4'' ''io'') (Some (frontDoorStore calmStore)) ''io'' [webRoute] w9 =
      (None, snd oneRoute)" by (metis oneRoute_def prod.collapse)
  have "quietStore calmStore" by (simp add: quietStore_def calmStore_def)
  moreover have "cleanHosts (wdb w9)" by code_simp
  moreover have "cleanDomain (cleanDomain (routeHost webRoute)) = cleanDomain (routeHost webRoute)" by code_simp
  moreover have "services (wdb (snd oneRoute)) \<noteq> []" by code_simp
  moreover have fd: "hasFrontDoor (hd (services (wdb (snd oneRoute))))" by code_simp
  ultimately show ?thesis
    using front_door_state_follows_routes [OF run, of "hd (services (wdb (snd oneRoute)))"] by simp
qed

section \<open>The CDN of aliyun\<close>

text \<open>
  The front door on Alibaba Cloud: its client keeps the contract of the passes, so what is proved of a
  pass over any CDN holds of it too.
\<close>

interpretation aliyunPass: front_door_contract
  "aliyunCDN (loggedClient api origin)" "frontDoorStore e" base desired
  "passState aliyunSetsUp aliyunTakesDown e w0 base desired" for api origin e base desired w0
proof
  let ?cdn = "aliyunCDN (loggedClient api origin)"
  let ?P = "passState aliyunSetsUp aliyunTakesDown e w0 base desired"
  let ?s = "envOther e (wtick w0) (wdb w0)"
  fix svcs w h w'
  assume P: "?P (Some svcs) w"
  show "?P (Some svcs) w'" if "h \<in> set desired" "cdnPrepareDomain ?cdn h w = (r, w')" for r
    using that by (intro passState_API [OF P _ aliyun_prepare_calls]) (auto simp: aliyunCDN_def dueCall_def)
  show "?P (Some svcs) w'" if "h \<in> set desired" "cdnEnsureDomain ?cdn h w = (r', w')" for r'
    using that by (intro passState_API [OF P _ aliyun_ensure_calls]) (auto simp: aliyunCDN_def dueCall_def)
  show "?P (Some svcs) w'" if "dsSaveServiceFrontDoor (frontDoorStore e) h st w = (er, w')" for st er
    using that by (intro passState_save [OF P])
  fix v assume v: "v \<in> set svcs"
  show "?P (Some svcs) w'" if "dsClearServiceFrontDoor (frontDoorStore e) (cleanDomain (svcHost v)) w = (er, w')" for er
    using that by (intro passState_clear [OF P])
  assume host: "domainIsUnder (cleanDomain (svcHost v)) base" "cleanDomain (svcHost v) \<notin> set desired"
  show "?P (Some svcs) w'" if "cdnDeleteDomain ?cdn (cleanDomain (svcHost v)) w = (er, w')" for er
    using that passState_stale [OF P v host]
    by (intro passState_API [OF P _ aliyun_delete_calls]) (auto simp: aliyunCDN_def dueCall_def)
qed (rule passState_listed, assumption+)+

text \<open>
  On Alibaba Cloud, too, the front door touches only what it should.  Whatever the database, other
  transactions and the CDN do during a pass, every action that changes something names one domain, and
  either sets up a routed host or takes down one that is under the base domain, is not routed and had
  front-door state in the database the pass listed.
\<close>

theorem aliyun_front_door_touches_only_its_hosts:
  fixes api :: "'a aliyun_cdn_api"
  assumes "frontDoorSyncRoutes (aliyunCDN (loggedClient api origin)) (Some (frontDoorStore e)) base routes w = (err, w')"
  shows "\<exists>cs. snd (fdAPI w') = snd (fdAPI w) @ cs \<and>
     (\<forall>c\<in>set cs.
        (\<exists>rt\<in>set routes. cleanDomain (routeHost rt) \<noteq> [] \<and> aliyunSetsUp (cleanDomain (cleanDomain (routeHost rt))) c) \<or>
        (\<exists>v\<in>set (services (envOther e (wtick w) (wdb w))). let h = cleanDomain (serviceHost v) in
           hasFrontDoor v \<and> domainIsUnder h base \<and> (\<forall>rt\<in>set routes. cleanDomain (routeHost rt) \<noteq> h) \<and>
           aliyunTakesDown (cleanDomain h) c))"
proof (cases "desiredHosts base routes []")
  case (Inl er)
  then show ?thesis using assms by (simp add: frontDoorSyncRoutes_def)
next
  case (Inr desired)
  have "passState aliyunSetsUp aliyunTakesDown e w base desired None w" by (simp add: passState_def)
  then obtain svcs where P: "passState aliyunSetsUp aliyunTakesDown e w base desired (Some svcs) w'"
    using aliyunPass.pass_keeps [OF _ Inr assms] by blast
  then show ?thesis by (rule passState_calls [OF _ Inr])
qed

definition demoAliyunCdn :: "unit aliyun_cdn_api" where
  "demoAliyunCdn = \<lparr>acCall = (\<lambda>_ _ a. (Inr [], a))\<rparr>"

definition noAliyunRoutes :: "goerr option \<times> (unit \<times> aliyun_call list) fd_world" where
  "noAliyunRoutes = frontDoorSyncRoutes (aliyunCDN (loggedClient demoAliyunCdn ''1.2.3.4'')) (Some (frontDoorStore calmStore)) ''io'' []
     \<lparr>wdb = SaveServiceFrontDoor t0 ''web.io'' (noVerification ''c.cdn'') d7, wtick = 0, fdAPI = ((), [])\<rparr>"

theorem aliyun_front_door_touches_only_its_hosts_witness:
  "\<exists>cs. snd (fdAPI (snd noAliyunRoutes)) = cs \<and> list_ex (aliyunTakesDown ''web.io'') cs"
proof -
  have "frontDoorSyncRoutes (aliyunCDN (loggedClient demoAliyunCdn ''1.2.3.4'')) (Some (frontDoorStore calmStore)) ''io'' []
      \<lparr>wdb = SaveServiceFrontDoor t0 ''web.io'' (noVerification ''c.cdn'') d7, wtick = 0, fdAPI = ((), [])\<rparr>
      = (fst noAliyunRoutes, snd noAliyunRoutes)" by (simp add: noAliyunRoutes_def)
  from aliyun_front_door_touches_only_its_hosts [OF this]
  obtain cs where "snd (fdAPI (snd noAliyunRoutes)) = cs" by auto
  moreover have "list_ex (aliyunTakesDown ''web.io'') (snd (fdAPI (snd noAliyunRoutes)))" by code_simp
  ultimately show ?thesis by simp
qed

end
