(* ===== verification/Caddy.thy ===== *)
theory Caddy
  imports CloudModel GoText
begin

text \<open>
  internal/cloudplane/infra/ingress/caddy/sink.go: the configuration the cloud-plane hands to Caddy,
  and the sink that loads it when it has changed.

  Three things are parameters: net/url.Parse (the scheme, host and port of a text), the fingerprint
  of a configuration (SHA-256 of its JSON text) and the HTTP client (a POST of a configuration to a
  URL, which answers with a status and a body or fails).
\<close>

record caddy_sink_config =
  ccListenHTTPAddr :: string
  ccArtifactListenAddr :: string
  ccArtifactDocumentRoot :: string
  ccAdminURL :: string

record caddy_handler =
  chHandler :: string
  chStatusCode :: int
  chBody :: string
  chRoot :: string
  chUpstreams :: "string list"

record caddy_route =
  crMatchHosts :: "string list list"
  crHandle :: "caddy_handler list"

record caddy_server =
  csListen :: "string list"
  csDisableHTTPS :: bool
  csRoutes :: "caddy_route list"

record caddy_config =
  cfAdminListen :: string
  cfServers :: "(string \<times> caddy_server) list"

definition staticResponse :: "int \<Rightarrow> string \<Rightarrow> caddy_handler" where
  "staticResponse code body =
     \<lparr>chHandler = ''static_response'', chStatusCode = code, chBody = body, chRoot = [], chUpstreams = []\<rparr>"

definition serviceUnavailableHandler :: caddy_handler where
  "serviceUnavailableHandler = staticResponse 503 ''service backend is not ready''"

definition notFoundHandler :: caddy_handler where
  "notFoundHandler = staticResponse 404 ''mini-cloud ingress route not found''"

definition reverseProxy :: "string list \<Rightarrow> caddy_handler" where
  "reverseProxy ups =
     \<lparr>chHandler = ''reverse_proxy'', chStatusCode = 0, chBody = [], chRoot = [], chUpstreams = ups\<rparr>"

definition fileServer :: "string \<Rightarrow> caddy_handler" where
  "fileServer root =
     \<lparr>chHandler = ''file_server'', chStatusCode = 0, chBody = [], chRoot = root, chUpstreams = []\<rparr>"

definition parseAdminURL :: "(string \<Rightarrow> url_parts res) \<Rightarrow> string \<Rightarrow> url_parts res" where
  "parseAdminURL urlParse value =
     (case urlParse (trimSpace value) of
        Inl err \<Rightarrow> Inl (wrap ''parse caddy admin URL'' err)
      | Inr u \<Rightarrow>
          if urlScheme u \<noteq> ''http'' \<and> urlScheme u \<noteq> ''https'' then
            Inl (Errorf ''caddy admin URL must use http or https'')
          else if urlHost u = [] then Inl (Errorf ''caddy admin URL must include host'')
          else if urlPort u = [] then Inl (Errorf ''caddy admin URL must include port'')
          else Inr u)"

text \<open>The handler of one route: the trimmed backends that are not empty, or the 503 response.\<close>

definition routeHandler :: "route \<Rightarrow> caddy_handler" where
  "routeHandler rt =
     (let upstreams = filter (\<lambda>b. b \<noteq> []) (map trimSpace (routeBackends rt))
      in if upstreams = [] then serviceUnavailableHandler else reverseProxy upstreams)"

fun caddyRoutes :: "route list \<Rightarrow> caddy_route list" where
  "caddyRoutes [] = [\<lparr>crMatchHosts = [], crHandle = [notFoundHandler]\<rparr>]"
| "caddyRoutes (rt # rts) =
     (let host = trimSpace (routeHost rt) in
      if host = [] then caddyRoutes rts
      else \<lparr>crMatchHosts = [[host]], crHandle = [routeHandler rt]\<rparr> # caddyRoutes rts)"

definition buildCaddyConfig ::
  "(string \<Rightarrow> url_parts res) \<Rightarrow> caddy_sink_config \<Rightarrow> route list \<Rightarrow> caddy_config res" where
  "buildCaddyConfig urlParse cfg routes =
     (let listenHTTP = trimSpace (ccListenHTTPAddr cfg);
          artifactListen = trimSpace (ccArtifactListenAddr cfg);
          artifactRoot = trimSpace (ccArtifactDocumentRoot cfg)
      in if listenHTTP = [] then Inl (Errorf ''caddy listen HTTP address is required'')
         else if artifactListen = [] then Inl (Errorf ''caddy artifact listen address is required'')
         else if artifactRoot = [] then Inl (Errorf ''caddy artifact document root is required'')
         else bindR (parseAdminURL urlParse (ccAdminURL cfg)) (\<lambda>u.
           Inr \<lparr>cfAdminListen = urlHost u,
                cfServers =
                  [(''mini_cloud_ingress'',
                    \<lparr>csListen = [listenHTTP], csDisableHTTPS = True, csRoutes = caddyRoutes routes\<rparr>),
                   (''mini_cloud_artifacts'',
                    \<lparr>csListen = [artifactListen], csDisableHTTPS = True,
                     csRoutes = [\<lparr>crMatchHosts = [], crHandle = [fileServer artifactRoot]\<rparr>]\<rparr>)]\<rparr>))"

text \<open>A POST to Caddy's load endpoint on a world 'w.\<close>

type_synonym 'w caddy_http = "url_parts \<Rightarrow> caddy_config \<Rightarrow> 'w \<Rightarrow> (int \<times> string) res \<times> 'w"

definition caddyLoad ::
  "(string \<Rightarrow> url_parts res) \<Rightarrow> 'w caddy_http \<Rightarrow> caddy_sink_config \<Rightarrow> caddy_config \<Rightarrow> 'w \<Rightarrow> goerr option \<times> 'w" where
  "caddyLoad urlParse http cfg config w =
     (case parseAdminURL urlParse (ccAdminURL cfg) of
        Inl err \<Rightarrow> (Some err, w)
      | Inr u \<Rightarrow>
          (case http u config w of
             (Inl err, w1) \<Rightarrow> (Some (wrap ''load caddy config'' err), w1)
           | (Inr (code, body), w1) \<Rightarrow>
               if code < 200 \<or> 300 \<le> code then
                 (Some (Errorf (''load caddy config: status '' @ itoa code @ '': '' @ trimSpace (take 4096 body))), w1)
               else (None, w1)))"

text \<open>The sink keeps the fingerprint of the last configuration it loaded.\<close>

definition caddySyncRoutes ::
  "(string \<Rightarrow> url_parts res) \<Rightarrow> (caddy_config \<Rightarrow> string) \<Rightarrow> 'w caddy_http \<Rightarrow> caddy_sink_config \<Rightarrow>
   route list \<Rightarrow> string \<times> 'w \<Rightarrow> goerr option \<times> (string \<times> 'w)" where
  "caddySyncRoutes urlParse fingerprint http cfg routes st =
     (case buildCaddyConfig urlParse cfg routes of
        Inl err \<Rightarrow> (Some err, st)
      | Inr config \<Rightarrow>
          if fingerprint config = fst st then (None, st)
          else (case caddyLoad urlParse http cfg config (snd st) of
                  (Some err, w1) \<Rightarrow> (Some err, (fst st, w1))
                | (None, w1) \<Rightarrow> (None, (fingerprint config, w1))))"

section \<open>What Caddy runs\<close>

text \<open>A sequence of passes, whatever their outcomes.\<close>

fun caddyPasses ::
  "(string \<Rightarrow> url_parts res) \<Rightarrow> (caddy_config \<Rightarrow> string) \<Rightarrow> 'w caddy_http \<Rightarrow> caddy_sink_config \<Rightarrow>
   route list list \<Rightarrow> string \<times> 'w \<Rightarrow> string \<times> 'w" where
  "caddyPasses urlParse fingerprint http cfg [] st = st"
| "caddyPasses urlParse fingerprint http cfg (rts # rtss) st =
     caddyPasses urlParse fingerprint http cfg rtss (snd (caddySyncRoutes urlParse fingerprint http cfg rts st))"

definition builtFrom :: "(string \<Rightarrow> url_parts res) \<Rightarrow> caddy_sink_config \<Rightarrow> route list list \<Rightarrow> caddy_config set" where
  "builtFrom urlParse cfg rtss = {c. \<exists>rts\<in>set rtss. buildCaddyConfig urlParse cfg rts = Inr c}"

text \<open>The fingerprint is that of the running configuration, once one was loaded.\<close>

definition inStep :: "(caddy_config \<Rightarrow> string) \<Rightarrow> ('w \<Rightarrow> caddy_config option) \<Rightarrow> caddy_config set \<Rightarrow> string \<times> 'w \<Rightarrow> bool" where
  "inStep fingerprint running built st \<longleftrightarrow>
     fst st = [] \<or> (\<exists>c\<in>built. running (snd st) = Some c \<and> fst st = fingerprint c)"

text \<open>
  Caddy's documented behaviour of POST /load: a configuration that is accepted (2xx) is the one that
  runs, and one that is refused leaves the old one running.
\<close>

definition loadsAtomically :: "'w caddy_http \<Rightarrow> ('w \<Rightarrow> caddy_config option) \<Rightarrow> bool" where
  "loadsAtomically http running \<longleftrightarrow>
     (\<forall>u c w. case http u c w of
        (Inl err, w1) \<Rightarrow> running w1 = running w
      | (Inr (code, body), w1) \<Rightarrow> running w1 = (if 200 \<le> code \<and> code < 300 then Some c else running w))"

lemma caddyLoad_runs:
  assumes "loadsAtomically http running" "caddyLoad urlParse http cfg c w = (err, w')"
  shows "running w' = (if err = None then Some c else running w)"
proof (cases "parseAdminURL urlParse (ccAdminURL cfg)")
  case (Inl e)
  then show ?thesis using assms(2) by (auto simp: caddyLoad_def)
next
  case (Inr u)
  obtain r w1 where h: "http u c w = (r, w1)" by fastforce
  have runs: "case (r, w1) of (Inl err, w1) \<Rightarrow> running w1 = running w
      | (Inr (code, body), w1) \<Rightarrow> running w1 = (if 200 \<le> code \<and> code < 300 then Some c else running w)"
    using assms(1) unfolding loadsAtomically_def h [symmetric] by (elim allE)
  show ?thesis
  proof (cases r)
    case (Inl e)
    then show ?thesis using assms(2) Inr h runs by (auto simp: caddyLoad_def)
  next
    case r: (Inr cb)
    obtain code body where cb: "cb = (code, body)" by fastforce
    have "running w1 = (if 200 \<le> code \<and> code < 300 then Some c else running w)" using runs r cb by simp
    moreover have "w' = w1 \<and> (err = None \<longleftrightarrow> 200 \<le> code \<and> code < 300)"
      using assms(2) unfolding caddyLoad_def Inr sum.case h r cb prod.case by (auto split: if_splits)
    ultimately show ?thesis by presburger
  qed
qed

lemma caddySyncRoutes_inStep:
  assumes "loadsAtomically http running" "inStep fingerprint running built st"
    "caddySyncRoutes urlParse fingerprint http cfg rts st = (err, st')"
    "\<And>c. buildCaddyConfig urlParse cfg rts = Inr c \<Longrightarrow> c \<in> built"
  shows "inStep fingerprint running built st'"
proof (cases "buildCaddyConfig urlParse cfg rts")
  case (Inl e)
  then show ?thesis using assms by (simp add: caddySyncRoutes_def)
next
  case (Inr c)
  obtain le w1 where l: "caddyLoad urlParse http cfg c (snd st) = (le, w1)" by fastforce
  show ?thesis
    using assms(2,3) assms(4) [OF Inr] Inr l caddyLoad_runs [OF assms(1) l]
    by (cases le) (auto simp: caddySyncRoutes_def inStep_def split: if_splits)
qed

lemma caddyPasses_inStep:
  assumes "loadsAtomically http running"
  shows "inStep fingerprint running built st \<Longrightarrow> builtFrom urlParse cfg rtss \<subseteq> built \<Longrightarrow>
    inStep fingerprint running built (caddyPasses urlParse fingerprint http cfg rtss st)"
proof (induction rtss arbitrary: st)
  case (Cons rts rtss)
  obtain err st' where s: "caddySyncRoutes urlParse fingerprint http cfg rts st = (err, st')" by (metis prod.exhaust)
  have "inStep fingerprint running built st'"
    using caddySyncRoutes_inStep [OF assms Cons.prems(1) s] Cons.prems(2) by (auto simp: builtFrom_def)
  moreover have "builtFrom urlParse cfg rtss \<subseteq> built" using Cons.prems(2) by (auto simp: builtFrom_def)
  ultimately show ?case using Cons.IH [of st'] s by simp
qed simp


text \<open>A server that runs what it is given, and refuses a configuration without an admin address.\<close>

definition demoHTTP :: "caddy_config option caddy_http" where
  "demoHTTP u c w = (if cfAdminListen c = [] then (Inr (400, ''bad''), w) else (Inr (200, []), Some c))"

definition demoURL :: "string \<Rightarrow> url_parts res" where
  "demoURL s = Inr \<lparr>urlScheme = ''http'', urlHost = s, urlPort = ''2019''\<rparr>"

definition demoSinkCfg :: caddy_sink_config where
  "demoSinkCfg = \<lparr>ccListenHTTPAddr = '':80'', ccArtifactListenAddr = '':81'', ccArtifactDocumentRoot = ''/a'', ccAdminURL = ''x:1''\<rparr>"

text \<open>It tells the configurations below apart by the number of their routes.\<close>

definition countRoutes :: "caddy_config \<Rightarrow> string" where
  "countRoutes c = concat (map (\<lambda>s. ''s'' @ map (\<lambda>_. CHR ''r'') (csRoutes (snd s))) (cfServers c)) @ ''.''"

definition sinkRoute :: route where
  "sinkRoute = \<lparr>routeHost = ''a.io'', routeBackends = ['' 10.0.0.1:80 '', []]\<rparr>"

definition sinkDemo :: "goerr option \<times> (string \<times> caddy_config option)" where
  "sinkDemo = caddySyncRoutes demoURL countRoutes demoHTTP demoSinkCfg [sinkRoute]
     (caddyPasses demoURL countRoutes demoHTTP demoSinkCfg [[], [sinkRoute]] ([], None))"


end
