(* ===== verification/PlaneMessages.thy ===== *)
theory PlaneMessages
  imports CloudModel
begin

text \<open>
  What crosses the wire: the messages of the gRPC services of a cloud-plane (generated from proto/,
  one record each, a nil pointer in a list as None, an absent timestamp as None), gRPC status
  errors, and internal/transport/bearer.go.
\<close>

section \<open>gRPC\<close>

text \<open>status.Error with a code: the code is the one errors.As finds.\<close>

definition rpcError :: "string \<Rightarrow> string \<Rightarrow> goerr" where
  "rpcError code msg = ExtErr (Some code) msg"

text \<open>
  The context of a call: the values of the authorization metadata, and whether the peer has
  authentication information and, if so, a verified client certificate.
\<close>

record rpc_context =
  rcAuthorization :: "string list"
  rcPeer :: "bool option"

definition BearerHeader :: "string \<Rightarrow> string" where
  "BearerHeader token = ''Bearer '' @ trimSpace token"

definition ParseBearer :: "string \<Rightarrow> string option" where
  "ParseBearer value =
     (case fieldsOf (trimSpace value) of
        [scheme, s] \<Rightarrow>
          if \<not> equalFold scheme ''Bearer'' then None
          else if trimSpace s = [] then None
          else Some (trimSpace s)
      | _ \<Rightarrow> None)"

definition BearerFromIncomingContext :: "rpc_context \<Rightarrow> string option" where
  "BearerFromIncomingContext ctx = (case rcAuthorization ctx of [] \<Rightarrow> None | v # _ \<Rightarrow> ParseBearer v)"

text \<open>SHA-256 is a parameter.\<close>

definition BearerMatches :: "(string \<Rightarrow> string) \<Rightarrow> string \<Rightarrow> string \<Rightarrow> bool" where
  "BearerMatches sha256 secret0 expected0 \<longleftrightarrow>
     (let secret = trimSpace secret0; expected = trimSpace expected0
      in if secret = [] \<or> expected = [] then False else sha256 secret = sha256 expected)"

definition withAuth :: "string \<Rightarrow> rpc_context" where
  "withAuth bearerToken = \<lparr>rcAuthorization = [BearerHeader bearerToken], rcPeer = None\<rparr>"

section \<open>Messages\<close>

record upsert_service_request =
  uqServiceId :: string
  uqServiceName :: string
  uqDisplayName :: string
  uqHost :: string
  uqGeneration :: int
  uqImage :: string
  uqCommand :: "string list"
  uqArgs :: "string list"
  uqEnv :: env
  uqContainerPort :: int
  uqReadinessPath :: string
  uqInstanceClass :: string
  uqExposure :: string

record delete_service_request =
  dlServiceId :: string
  dlGeneration :: int

record plane_service =
  psServiceId :: string
  psName :: string
  psDisplayName :: string
  psHost :: string
  psGeneration :: int
  psDesiredState :: string
  psUpdatedAt :: "instant option"
  psInstanceClass :: string
  psExposure :: string
  psImage :: string
  psCommand :: "string list"
  psArgs :: "string list"
  psEnv :: env
  psContainerPort :: int
  psReadinessPath :: string
  psFrontdoorCname :: string
  psFrontdoorVerifySubdomain :: string
  psFrontdoorVerifyType :: string
  psFrontdoorVerifyValue :: string

record plane_node =
  pnNodeId :: string
  pnName :: string
  pnProvider :: string
  pnRegion :: string
  pnInstanceId :: string
  pnInstanceType :: string
  pnStatus :: string
  pnSchedulable :: bool
  pnElastic :: bool
  pnCpuTotal :: int
  pnCpuAllocatable :: int
  pnCpuAllocated :: int
  pnMemTotal :: int
  pnMemAllocatable :: int
  pnMemAllocated :: int
  pnLastHeartbeatAt :: "instant option"

record plane_execution =
  peServiceId :: string
  peServiceName :: string
  peGeneration :: int
  peStatus :: string
  peLastStatusReason :: string
  peObservedAt :: "instant option"

record plane_snapshot =
  snProvider :: string
  snRegion :: string
  snName :: string
  snCheckedAt :: "instant option"
  snAlertsFiring :: int
  snObservedAt :: "instant option"
  snNodes :: "plane_node option list"
  snExecutions :: "plane_execution option list"
  snServices :: "plane_service option list"

text \<open>The zero time.Time, 0001-01-01, which is an absent timestamp on the wire.\<close>

definition zeroTime :: instant where
  "zeroTime = Instant (- 62135596800000000000)"

definition protoTimestamp :: "instant \<Rightarrow> instant option" where
  "protoTimestamp t = (if t = zeroTime then None else Some t)"

definition protoTime :: "instant option \<Rightarrow> instant" where
  "protoTime t = (case t of None \<Rightarrow> zeroTime | Some t \<Rightarrow> t)"

lemma protoTime_protoTimestamp [simp]: "protoTime (protoTimestamp t) = t"
  by (simp add: protoTime_def protoTimestamp_def)

end
