(* ===== verification/CloudApi.thy ===== *)
theory CloudApi
  imports PlaneMessages StoreCalls
begin

text \<open>
  The gRPC services of a cloud-plane on its store: internal/cloudplane/api/controlplane (auth.go,
  service.go, snapshot.go) for the control-plane and internal/cloudplane/api/nodeagent/server.go for
  the node agents.  A handler is a function of the call's context and request; the calls of the store
  in it are those of StoreCalls, so other transactions may come between them.
\<close>

section \<open>For the control-plane\<close>

definition authorize :: "(string \<Rightarrow> string) \<Rightarrow> string \<Rightarrow> rpc_context \<Rightarrow> unit res" where
  "authorize sha256 southboundToken ctx =
     (let token = trimSpace southboundToken in
      if token = [] then Inl (rpcError ''Unavailable'' ''plane southbound token is not configured'')
      else if rcPeer ctx = Some False then Inl (rpcError ''Unauthenticated'' ''client certificate required'')
      else (case BearerFromIncomingContext ctx of
              None \<Rightarrow> Inl (rpcError ''Unauthenticated'' ''bearer token required'')
            | Some secret \<Rightarrow>
                if \<not> BearerMatches sha256 secret token then
                  Inl (rpcError ''Unauthenticated'' ''invalid bearer token'')
                else Inr ()))"

definition upsertInputOf :: "string \<Rightarrow> upsert_service_request \<Rightarrow> upsert_service_input" where
  "upsertInputOf exposure rq =
     \<lparr>usID = trimSpace (uqServiceId rq), usName = trimSpace (uqServiceName rq),
      usDisplayName = trimSpace (uqDisplayName rq), usHost = trimSpace (uqHost rq),
      usGeneration = uqGeneration rq,
      usSpec =
        \<lparr>specInstanceClass = trimSpace (uqInstanceClass rq), specExposure = exposure,
         specImage = trimSpace (uqImage rq), specCommand = uqCommand rq, specArgs = uqArgs rq,
         specEnv = uqEnv rq, specContainerPort = uqContainerPort rq,
         specReadinessPath = trimSpace (uqReadinessPath rq)\<rparr>\<rparr>"

definition handleUpsertService ::
  "(string \<Rightarrow> string) \<Rightarrow> string \<Rightarrow> 'e store_env_scheme \<Rightarrow> rpc_context \<Rightarrow> upsert_service_request \<Rightarrow>
   'w store_world_scheme \<Rightarrow> unit res \<times> 'w store_world_scheme" where
  "handleUpsertService sha256 token e ctx rq w =
     (case authorize sha256 token ctx of
        Inl err \<Rightarrow> (Inl err, w)
      | Inr _ \<Rightarrow>
          (case ParseExposure (uqExposure rq) of
             Inl err \<Rightarrow> (Inl (rpcError ''InvalidArgument'' (errText err)), w)
           | Inr exposure \<Rightarrow>
               (case storeOp e (\<lambda>clk ent. UpsertService clk ent (upsertInputOf exposure rq)) w of
                  (Inl err, w1) \<Rightarrow> (Inl (rpcError ''InvalidArgument'' (errText err)), w1)
                | (Inr _, w1) \<Rightarrow> (Inr (), w1))))"

definition handleDeleteService ::
  "(string \<Rightarrow> string) \<Rightarrow> string \<Rightarrow> 'e store_env_scheme \<Rightarrow> rpc_context \<Rightarrow> delete_service_request \<Rightarrow>
   'w store_world_scheme \<Rightarrow> unit res \<times> 'w store_world_scheme" where
  "handleDeleteService sha256 token e ctx rq w =
     (case authorize sha256 token ctx of
        Inl err \<Rightarrow> (Inl err, w)
      | Inr _ \<Rightarrow>
          (let sid = trimSpace (dlServiceId rq) in
           if sid = [] then (Inl (rpcError ''InvalidArgument'' ''serviceID is required''), w)
           else
             (case storeOp e (\<lambda>clk _. unitOp (DeleteService clk \<lparr>dsID = sid, dsGeneration = dlGeneration rq\<rparr>)) w of
                (Inl err, w1) \<Rightarrow>
                  (Inl (rpcError (if errorsIs err ErrServiceNotFound then ''NotFound'' else ''InvalidArgument'') (errText err)), w1)
              | (Inr _, w1) \<Rightarrow> (Inr (), w1))))"

definition protoService :: "service \<Rightarrow> plane_service" where
  "protoService v =
     \<lparr>psServiceId = svcID v, psName = svcName v, psDisplayName = svcDisplayName v, psHost = svcHost v,
      psGeneration = svcGeneration v, psDesiredState = svcDesiredState v,
      psUpdatedAt = protoTimestamp (svcUpdatedAt v),
      psInstanceClass = specInstanceClass (svcSpec v), psExposure = specExposure (svcSpec v),
      psImage = specImage (svcSpec v), psCommand = specCommand (svcSpec v), psArgs = specArgs (svcSpec v),
      psEnv = specEnv (svcSpec v), psContainerPort = goInt32 (specContainerPort (svcSpec v)),
      psReadinessPath = specReadinessPath (svcSpec v),
      psFrontdoorCname = fdsCNAME (svcFrontDoor v),
      psFrontdoorVerifySubdomain =
        (case fdsVerification (svcFrontDoor v) of None \<Rightarrow> [] | Some r \<Rightarrow> fdrSubdomain r),
      psFrontdoorVerifyType =
        (case fdsVerification (svcFrontDoor v) of None \<Rightarrow> [] | Some r \<Rightarrow> fdrType r),
      psFrontdoorVerifyValue =
        (case fdsVerification (svcFrontDoor v) of None \<Rightarrow> [] | Some r \<Rightarrow> fdrValue r)\<rparr>"

definition protoServices :: "service list \<Rightarrow> plane_service option list" where
  "protoServices items = map (\<lambda>v. Some (protoService v)) items"

definition protoNode :: "node \<Rightarrow> plane_node" where
  "protoNode n =
     \<lparr>pnNodeId = nodeID n, pnName = nodeName n, pnProvider = nodeProvider n, pnRegion = nodeRegion n,
      pnInstanceId = instanceIDText n, pnInstanceType = nodeInstanceType n, pnStatus = nodeStatus n,
      pnSchedulable = nodeSchedulable n, pnElastic = nodeElastic n,
      pnCpuTotal = goInt32 (nodeCPUTotal n), pnCpuAllocatable = goInt32 (nodeCPUAllocatable n),
      pnCpuAllocated = goInt32 (nodeCPUAllocated n), pnMemTotal = goInt32 (nodeMemTotal n),
      pnMemAllocatable = goInt32 (nodeMemAllocatable n), pnMemAllocated = goInt32 (nodeMemAllocated n),
      pnLastHeartbeatAt = (case nodeLastHeartbeatAt n of None \<Rightarrow> None | Some t \<Rightarrow> protoTimestamp t)\<rparr>"

text \<open>The nodes that are not deleted, and the time of the latest change among them.\<close>

fun protoNodes :: "node list \<Rightarrow> instant \<Rightarrow> plane_node option list \<Rightarrow> instant \<times> plane_node option list" where
  "protoNodes [] maxUpdatedAt out = (maxUpdatedAt, out)"
| "protoNodes (n # ns) maxUpdatedAt out =
     (if nodeStatus n = StatusDeleted then protoNodes ns maxUpdatedAt out
      else protoNodes ns (if maxUpdatedAt < nodeUpdatedAt n then nodeUpdatedAt n else maxUpdatedAt)
             (out @ [Some (protoNode n)]))"

definition protoNodeInventory :: "instant \<Rightarrow> node list \<Rightarrow> instant option \<times> plane_node option list" where
  "protoNodeInventory observedAt ns =
     (case protoNodes ns zeroTime [] of
        (maxUpdatedAt, out) \<Rightarrow>
          (if maxUpdatedAt \<noteq> zeroTime then protoTimestamp maxUpdatedAt else protoTimestamp observedAt, out))"

definition protoExecution :: "execution_snapshot \<Rightarrow> plane_execution" where
  "protoExecution x =
     \<lparr>peServiceId = esServiceID x, peServiceName = esServiceName x, peGeneration = esGeneration x,
      peStatus = esStatus x, peLastStatusReason = esReason x, peObservedAt = protoTimestamp (esObservedAt x)\<rparr>"

definition protoExecutionSnapshots :: "execution_snapshot list \<Rightarrow> plane_execution option list" where
  "protoExecutionSnapshots items = map (\<lambda>x. Some (protoExecution x)) items"

record plane_identity =
  idName :: string
  idProvider :: string
  idRegion :: string

text \<open>Four reads of the store, one after the other; the clock of the first is that of the snapshot.\<close>

definition collectSnapshot ::
  "plane_identity \<Rightarrow> 'e store_env_scheme \<Rightarrow> 'w store_world_scheme \<Rightarrow> plane_snapshot res \<times> 'w store_world_scheme" where
  "collectSnapshot p e w =
     (let checkedAt = goNow (envClock e (wtick w)) in
      case storeOp e (\<lambda>clk _ s. Inr (GetAlertSignal clk s, s)) w of
        (Inl err, w1) \<Rightarrow> (Inl (wrap ''load alert signal'' err), w1)
      | (Inr alerts, w1) \<Rightarrow>
      (case readOp e ListNodes w1 of
        (Inl err, w2) \<Rightarrow> (Inl (wrap ''load nodes'' err), w2)
      | (Inr ns, w2) \<Rightarrow>
      (case readOp e ListExecutionSnapshots w2 of
        (Inl err, w3) \<Rightarrow> (Inl (wrap ''load execution snapshots'' err), w3)
      | (Inr xs, w3) \<Rightarrow>
      (case readOp e ListServices w3 of
        (Inl err, w4) \<Rightarrow> (Inl (wrap ''load services'' err), w4)
      | (Inr vs, w4) \<Rightarrow>
          (Inr \<lparr>snProvider = idProvider p, snRegion = idRegion p, snName = idName p,
                snCheckedAt = protoTimestamp checkedAt, snAlertsFiring = goInt32 (int alerts),
                snObservedAt = fst (protoNodeInventory checkedAt ns),
                snNodes = snd (protoNodeInventory checkedAt ns),
                snExecutions = protoExecutionSnapshots xs, snServices = protoServices vs\<rparr>, w4)))))"

definition handleGetSnapshot ::
  "(string \<Rightarrow> string) \<Rightarrow> string \<Rightarrow> plane_identity \<Rightarrow> 'e store_env_scheme \<Rightarrow> rpc_context \<Rightarrow>
   'w store_world_scheme \<Rightarrow> plane_snapshot res \<times> 'w store_world_scheme" where
  "handleGetSnapshot sha256 token p e ctx w =
     (case authorize sha256 token ctx of
        Inl err \<Rightarrow> (Inl err, w)
      | Inr _ \<Rightarrow>
          (case collectSnapshot p e w of
             (Inl err, w1) \<Rightarrow> (Inl (rpcError ''Internal'' ''build cloud-plane snapshot failed''), w1)
           | (Inr sn, w1) \<Rightarrow> (Inr sn, w1)))"

section \<open>For the node agents\<close>

definition requireNodeAgentToken :: "(string \<Rightarrow> string) \<Rightarrow> string \<Rightarrow> rpc_context \<Rightarrow> unit res" where
  "requireNodeAgentToken sha256 configured ctx =
     (let token = trimSpace configured in
      if token = [] then Inl (rpcError ''Unavailable'' ''node agent token is not configured'')
      else (case BearerFromIncomingContext ctx of
              None \<Rightarrow> Inl (rpcError ''Unauthenticated'' ''invalid node agent token'')
            | Some secret \<Rightarrow>
                if \<not> BearerMatches sha256 secret token then
                  Inl (rpcError ''Unauthenticated'' ''invalid node agent token'')
                else Inr ()))"

definition handleRegisterNode ::
  "(string \<Rightarrow> string) \<Rightarrow> string \<Rightarrow> 'e store_env_scheme \<Rightarrow> rpc_context \<Rightarrow> register_input \<Rightarrow>
   'w store_world_scheme \<Rightarrow> string res \<times> 'w store_world_scheme" where
  "handleRegisterNode sha256 token e ctx rq w =
     (case requireNodeAgentToken sha256 token ctx of
        Inl err \<Rightarrow> (Inl err, w)
      | Inr _ \<Rightarrow>
          (case storeOp e (\<lambda>clk ent. RegisterNode clk ent rq) w of
             (Inl err, w1) \<Rightarrow> (Inl (rpcError ''InvalidArgument'' (errText err)), w1)
           | (Inr n, w1) \<Rightarrow> (Inr (nodeID n), w1)))"

definition handleRecordHeartbeat ::
  "(string \<Rightarrow> string) \<Rightarrow> string \<Rightarrow> 'e store_env_scheme \<Rightarrow> rpc_context \<Rightarrow> string \<Rightarrow> heartbeat_input \<Rightarrow>
   'w store_world_scheme \<Rightarrow> (string \<times> string) res \<times> 'w store_world_scheme" where
  "handleRecordHeartbeat sha256 token e ctx nodeId rq w =
     (let nid = trimSpace nodeId in
      if nid = [] then (Inl (rpcError ''InvalidArgument'' ''nodeID is required''), w)
      else
        (case requireNodeAgentToken sha256 token ctx of
           Inl err \<Rightarrow> (Inl err, w)
         | Inr _ \<Rightarrow>
             (case storeOp e (\<lambda>clk _. RecordNodeHeartbeat clk nid rq) w of
                (Inl err, w1) \<Rightarrow>
                  (Inl (rpcError (if errorsIs err ErrNodeNotFound then ''NotFound'' else ''InvalidArgument'') (errText err)), w1)
              | (Inr st, w1) \<Rightarrow> (Inr (nid, st), w1))))"

definition protoWork :: "work_item \<Rightarrow> work_item" where
  "protoWork item = item\<lparr>wiContainerPort := goInt32 (wiContainerPort item), wiHostPort := goInt32 (wiHostPort item)\<rparr>"

definition handlePollWork ::
  "(string \<Rightarrow> string) \<Rightarrow> string \<Rightarrow> 'e store_env_scheme \<Rightarrow> rpc_context \<Rightarrow> string \<Rightarrow>
   'w store_world_scheme \<Rightarrow> work_item option res \<times> 'w store_world_scheme" where
  "handlePollWork sha256 token e ctx nodeId w =
     (let nid = trimSpace nodeId in
      if nid = [] then (Inl (rpcError ''InvalidArgument'' ''nodeID is required''), w)
      else
        (case requireNodeAgentToken sha256 token ctx of
           Inl err \<Rightarrow> (Inl err, w)
         | Inr _ \<Rightarrow>
             (case storeOp e (\<lambda>clk _. ClaimServiceRun clk nid) w of
                (Inl err, w1) \<Rightarrow> (Inl (rpcError ''Internal'' ''internal server error''), w1)
              | (Inr item, w1) \<Rightarrow> (Inr (map_option protoWork item), w1))))"

record execution_ack =
  ackExecution :: execution_record
  ackObservedAt :: instant

definition protoExecutionRecord :: "execution_record \<Rightarrow> execution_record" where
  "protoExecutionRecord x =
     x\<lparr>erContainerPort := goInt32 (erContainerPort x), erHostPort := goInt32 (erHostPort x),
       erFinishedAt := (case erFinishedAt x of None \<Rightarrow> None | Some t \<Rightarrow> if t = zeroTime then None else Some t)\<rparr>"

definition handleReportExecution ::
  "(string \<Rightarrow> string) \<Rightarrow> string \<Rightarrow> 'e store_env_scheme \<Rightarrow> rpc_context \<Rightarrow> string \<Rightarrow> string \<Rightarrow> report_input \<Rightarrow>
   'w store_world_scheme \<Rightarrow> execution_ack res \<times> 'w store_world_scheme" where
  "handleReportExecution sha256 token e ctx nodeId executionId rq w =
     (let nid = trimSpace nodeId; xid = trimSpace executionId in
      if nid = [] then (Inl (rpcError ''InvalidArgument'' ''nodeID is required''), w)
      else
        (case requireNodeAgentToken sha256 token ctx of
           Inl err \<Rightarrow> (Inl err, w)
         | Inr _ \<Rightarrow>
             if xid = [] then (Inl (rpcError ''InvalidArgument'' ''executionID is required''), w)
             else
               (case storeOp e (\<lambda>clk _. UpdateExecutionFromNodeReport clk nid xid rq) w of
                  (Inl err, w1) \<Rightarrow>
                    (Inl (rpcError (if errorsIs err ErrExecutionNotFound then ''NotFound'' else ''InvalidArgument'') (errText err)), w1)
                | (Inr (rec, observedAt), w1) \<Rightarrow>
                    (Inr \<lparr>ackExecution = protoExecutionRecord rec, ackObservedAt = observedAt\<rparr>, w1))))"

end
