(* ===== verification/Dns.thy ===== *)
theory Dns
  imports GoText
begin

text \<open>
  internal/controlplane/coordination/dns.go: the control-plane's DNS records at DNSPod.  A record
  belongs to a service of a plane by its remark, and only records with that remark are changed.

  The SDK's API is a record of functions on a state 'a; loading the credential is one of them.  A nil
  field of a response is None, and so is a response without content.
\<close>

record managed_record =
  mdPlaneID :: string
  mdServiceID :: string
  mdHost :: string
  mdRecordType :: string
  mdValue :: string
  mdPurpose :: string

record dnspod_item =
  diRecordId :: "int option"
  diName :: "string option"
  diType :: "string option"
  diValue :: "string option"
  diRemark :: "string option"

record describe_request =
  dqDomain :: string
  dqSubdomain :: "string option"
  dqRecordType :: "string option"
  dqLimit :: int
  dqErrorOnEmpty :: string

record write_request =
  dwDomain :: string
  dwSubDomain :: string
  dwRecordType :: string
  dwRecordLine :: string
  dwValue :: string
  dwTTL :: int
  dwRemark :: string

record 'a dnspod_api =
  dpClient :: "'a \<Rightarrow> unit res \<times> 'a"
  dpDescribe :: "describe_request \<Rightarrow> 'a \<Rightarrow> dnspod_item option list option res \<times> 'a"
  dpCreate :: "write_request \<Rightarrow> 'a \<Rightarrow> unit res \<times> 'a"
  dpModify :: "int \<Rightarrow> write_request \<Rightarrow> 'a \<Rightarrow> unit res \<times> 'a"
  dpDelete :: "int \<Rightarrow> 'a \<Rightarrow> unit res \<times> 'a"

definition dnsRecordTTL :: int where
  "dnsRecordTTL = 600"

definition dnsRecordOwner :: string where
  "dnsRecordOwner = ''mini-cloud''"

text \<open>The default line of DNSPod: two Chinese characters in UTF-8.\<close>

definition defaultLine :: string where
  "defaultLine = [CHR 0xE9, CHR 0xBB, CHR 0x98, CHR 0xE8, CHR 0xAE, CHR 0xA4]"

definition errDNSRecordMissing :: goerr where
  "errDNSRecordMissing = Sentinel ''DNS record is missing''"

section \<open>Credentials\<close>

record tencent_credential =
  tcrSecretID :: string
  tcrSecretKey :: string
  tcrSessionToken :: string

text \<open>A context carries at most one credential.\<close>

definition ContextWithTencentCredential ::
  "tencent_credential option \<Rightarrow> tencent_credential \<Rightarrow> tencent_credential option" where
  "ContextWithTencentCredential ctx c0 =
     (let c = \<lparr>tcrSecretID = trimSpace (tcrSecretID c0), tcrSecretKey = trimSpace (tcrSecretKey c0),
               tcrSessionToken = trimSpace (tcrSessionToken c0)\<rparr>
      in if tcrSecretID c = [] \<or> tcrSecretKey c = [] then ctx else Some c)"

definition dnsCredential ::
  "tencent_credential option \<Rightarrow> tencent_credential res \<Rightarrow> tencent_credential res" where
  "dnsCredential ctx providerChain =
     (case ctx of
        Some c \<Rightarrow>
          if tcrSecretID c \<noteq> [] \<and> tcrSecretKey c \<noteq> [] then Inr c
          else (case providerChain of
                  Inl err \<Rightarrow> Inl (wrap ''load DNSPod credential from SCF request headers or Tencent default provider chain'' err)
                | Inr p \<Rightarrow> Inr p)
      | None \<Rightarrow>
          (case providerChain of
             Inl err \<Rightarrow> Inl (wrap ''load DNSPod credential from SCF request headers or Tencent default provider chain'' err)
           | Inr p \<Rightarrow> Inr p))"

section \<open>Names and remarks\<close>

definition dnsSubdomain :: "string \<Rightarrow> string \<Rightarrow> string res" where
  "dnsSubdomain domain host =
     (if host = domain then Inr ''@''
      else if \<not> hasSuffix host (''.'' @ domain) then
        Inl (Errorf (''host '' @ goQuote host @ '' is outside DNSPod domain '' @ goQuote domain))
      else Inr (take (length host - length (''.'' @ domain)) host))"

definition dnsHost :: "string \<Rightarrow> string \<Rightarrow> string" where
  "dnsHost domain subdomain0 =
     (let subdomain = cleanDomain subdomain0
      in if subdomain = [] \<or> subdomain = ''@'' then domain else subdomain @ ''.'' @ domain)"

definition cleanDNSRecordValue :: "string \<Rightarrow> string \<Rightarrow> string" where
  "cleanDNSRecordValue recordType value =
     (if equalFold recordType ''CNAME'' then cleanDomain (trimSpace value) else trimSpace value)"

definition normalizeManagedDNSRecord :: "managed_record \<Rightarrow> managed_record" where
  "normalizeManagedDNSRecord r =
     (let typ = toUpper (trimSpace (mdRecordType r))
      in \<lparr>mdPlaneID = trimSpace (mdPlaneID r), mdServiceID = trimSpace (mdServiceID r),
          mdHost = cleanDomain (mdHost r), mdRecordType = typ,
          mdValue = cleanDNSRecordValue typ (mdValue r), mdPurpose = trimSpace (mdPurpose r)\<rparr>)"

definition validateManagedDNSRecord :: "managed_record \<Rightarrow> unit res" where
  "validateManagedDNSRecord r =
     orErr (\<not> (mdPlaneID r = [] \<or> mdServiceID r = [] \<or> mdHost r = [] \<or> mdRecordType r = [] \<or> mdPurpose r = []))
       (Errorf ''managed DNS record requires planeID, serviceID, host, recordType and purpose'')"

definition managedDNSRemark :: "managed_record \<Rightarrow> string" where
  "managedDNSRemark r0 =
     (let r = normalizeManagedDNSRecord r0
      in dnsRecordOwner @ '' service='' @ mdServiceID r @ '' plane='' @ mdPlaneID r @ '' purpose='' @ mdPurpose r)"

definition dnsRecordOwnedBy :: "string \<Rightarrow> managed_record \<Rightarrow> bool" where
  "dnsRecordOwnedBy remark r \<longleftrightarrow> trimSpace remark = managedDNSRemark r"

text \<open>strings.CutPrefix on each field in turn.\<close>

fun firstPurpose :: "string list \<Rightarrow> string" where
  "firstPurpose [] = []"
| "firstPurpose (field # fs) =
     (if hasPrefix field ''purpose='' then drop (length ''purpose='') field else firstPurpose fs)"

definition purposeFromRemark :: "string \<Rightarrow> string" where
  "purposeFromRemark remark = firstPurpose (fieldsOf (trimSpace remark))"

definition isDNSPodRecordAlreadyExists :: "goerr \<Rightarrow> bool" where
  "isDNSPodRecordAlreadyExists err =
     (case sdkCode err of
        None \<Rightarrow> False
      | Some code \<Rightarrow> equalFold (trimSpace code) ''InvalidParameter.DomainRecordExist'')"

section \<open>Calls of the API\<close>

definition withDNSPod :: "'a dnspod_api \<Rightarrow> ('a \<Rightarrow> 'r res \<times> 'a) \<Rightarrow> 'a \<Rightarrow> 'r res \<times> 'a" where
  "withDNSPod api f a =
     (case dpClient api a of (Inl err, a1) \<Rightarrow> (Inl err, a1) | (Inr _, a1) \<Rightarrow> f a1)"

record dns_record =
  drID :: int
  drSubdomain :: string
  drType :: string
  drValue :: string
  drRemark :: string

definition remarkOf :: "dnspod_item \<Rightarrow> string" where
  "remarkOf item = (case diRemark item of None \<Rightarrow> [] | Some r \<Rightarrow> r)"

fun subdomainRecords :: "string \<Rightarrow> string \<Rightarrow> dnspod_item option list \<Rightarrow> dns_record list" where
  "subdomainRecords sub typ [] = []"
| "subdomainRecords sub typ (None # items) = subdomainRecords sub typ items"
| "subdomainRecords sub typ (Some item # items) =
     (case (diRecordId item, diValue item) of
        (Some i, Some v) \<Rightarrow>
          \<lparr>drID = i, drSubdomain = sub, drType = typ, drValue = v, drRemark = remarkOf item\<rparr> # subdomainRecords sub typ items
      | _ \<Rightarrow> subdomainRecords sub typ items)"

fun domainRecords :: "dnspod_item option list \<Rightarrow> dns_record list" where
  "domainRecords [] = []"
| "domainRecords (None # items) = domainRecords items"
| "domainRecords (Some item # items) =
     (case (diRecordId item, diValue item, diName item, diType item) of
        (Some i, Some v, Some n, Some t) \<Rightarrow>
          \<lparr>drID = i, drSubdomain = cleanDomain n, drType = toUpper (trimSpace t), drValue = v,
           drRemark = remarkOf item\<rparr> # domainRecords items
      | _ \<Rightarrow> domainRecords items)"

definition subdomainRequest :: "string \<Rightarrow> string \<Rightarrow> string \<Rightarrow> describe_request" where
  "subdomainRequest domain sub typ =
     \<lparr>dqDomain = domain, dqSubdomain = Some sub, dqRecordType = Some typ, dqLimit = 100, dqErrorOnEmpty = ''no''\<rparr>"

definition domainRequest :: "string \<Rightarrow> describe_request" where
  "domainRequest domain =
     \<lparr>dqDomain = domain, dqSubdomain = None, dqRecordType = None, dqLimit = 3000, dqErrorOnEmpty = ''no''\<rparr>"

definition listItems :: "(dnspod_item option list \<Rightarrow> dns_record list) \<Rightarrow> dnspod_item option list option \<Rightarrow> dns_record list" where
  "listItems f resp = (case resp of None \<Rightarrow> [] | Some items \<Rightarrow> f items)"

definition recordsForSubdomain ::
  "'a dnspod_api \<Rightarrow> string \<Rightarrow> string \<Rightarrow> string \<Rightarrow> 'a \<Rightarrow> dns_record list res \<times> 'a" where
  "recordsForSubdomain api domain sub typ =
     withDNSPod api (\<lambda>a. case dpDescribe api (subdomainRequest domain sub typ) a of
        (Inl err, a1) \<Rightarrow> (Inl err, a1)
      | (Inr resp, a1) \<Rightarrow> (Inr (listItems (subdomainRecords sub typ) resp), a1))"

definition recordsForDomain :: "'a dnspod_api \<Rightarrow> string \<Rightarrow> 'a \<Rightarrow> dns_record list res \<times> 'a" where
  "recordsForDomain api domain =
     withDNSPod api (\<lambda>a. case dpDescribe api (domainRequest domain) a of
        (Inl err, a1) \<Rightarrow> (Inl err, a1)
      | (Inr resp, a1) \<Rightarrow> (Inr (listItems domainRecords resp), a1))"

definition writeRequest :: "string \<Rightarrow> string \<Rightarrow> string \<Rightarrow> string \<Rightarrow> string \<Rightarrow> write_request" where
  "writeRequest domain sub typ value remark =
     \<lparr>dwDomain = domain, dwSubDomain = sub, dwRecordType = typ, dwRecordLine = defaultLine,
      dwValue = value, dwTTL = dnsRecordTTL, dwRemark = remark\<rparr>"

definition createRecord ::
  "'a dnspod_api \<Rightarrow> string \<Rightarrow> string \<Rightarrow> string \<Rightarrow> string \<Rightarrow> string \<Rightarrow> 'a \<Rightarrow> unit res \<times> 'a" where
  "createRecord api domain sub typ value remark =
     withDNSPod api (dpCreate api (writeRequest domain sub typ value remark))"

definition modifyRecord ::
  "'a dnspod_api \<Rightarrow> string \<Rightarrow> int \<Rightarrow> string \<Rightarrow> string \<Rightarrow> string \<Rightarrow> string \<Rightarrow> 'a \<Rightarrow> unit res \<times> 'a" where
  "modifyRecord api domain rid sub typ value remark =
     withDNSPod api (dpModify api rid (writeRequest domain sub typ value remark))"

definition deleteRecord :: "'a dnspod_api \<Rightarrow> int \<Rightarrow> 'a \<Rightarrow> unit res \<times> 'a" where
  "deleteRecord api rid = withDNSPod api (dpDelete api rid)"

section \<open>The client\<close>

definition ensureAgainstExistingRecords ::
  "'a dnspod_api \<Rightarrow> string \<Rightarrow> string \<Rightarrow> managed_record \<Rightarrow> dns_record list \<Rightarrow> 'a \<Rightarrow> unit res \<times> 'a" where
  "ensureAgainstExistingRecords api domain sub r records a =
     (case records of
        [] \<Rightarrow> (Inl errDNSRecordMissing, a)
      | existing # _ \<Rightarrow>
          if \<not> dnsRecordOwnedBy (drRemark existing) r then
            (Inl (Errorf (''DNS record '' @ mdHost r @ '' '' @ mdRecordType r
               @ '' already exists and is not owned by mini-cloud service '' @ mdServiceID r
               @ '' on plane '' @ mdPlaneID r)), a)
          else if cleanDNSRecordValue (mdRecordType r) (drValue existing) = mdValue r
                  \<and> trimSpace (drRemark existing) = managedDNSRemark r then (Inr (), a)
          else modifyRecord api domain (drID existing) sub (mdRecordType r) (mdValue r) (managedDNSRemark r) a)"

definition EnsureRecord :: "'a dnspod_api \<Rightarrow> string \<Rightarrow> managed_record \<Rightarrow> 'a \<Rightarrow> unit res \<times> 'a" where
  "EnsureRecord api domain r0 a =
     (let r = normalizeManagedDNSRecord r0 in
      case bindR (validateManagedDNSRecord r) (\<lambda>_. dnsSubdomain domain (mdHost r)) of
        Inl err \<Rightarrow> (Inl err, a)
      | Inr sub \<Rightarrow>
          (case recordsForSubdomain api domain sub (mdRecordType r) a of
             (Inl err, a1) \<Rightarrow> (Inl err, a1)
           | (Inr records, a1) \<Rightarrow>
               (case ensureAgainstExistingRecords api domain sub r records a1 of
                  (e, a2) \<Rightarrow>
                    if e \<noteq> Inl errDNSRecordMissing then (e, a2)
                    else
                      (case createRecord api domain sub (mdRecordType r) (mdValue r) (managedDNSRemark r) a2 of
                         (Inr _, a3) \<Rightarrow> (Inr (), a3)
                       | (Inl err, a3) \<Rightarrow>
                           if \<not> isDNSPodRecordAlreadyExists err then (Inl err, a3)
                           else
                             (case recordsForSubdomain api domain sub (mdRecordType r) a3 of
                                (Inl listErr, a4) \<Rightarrow> (Inl listErr, a4)
                              | (Inr records', a4) \<Rightarrow>
                                  ensureAgainstExistingRecords api domain sub r records' a4)))))"

fun deleteOwned :: "'a dnspod_api \<Rightarrow> (dns_record \<Rightarrow> bool) \<Rightarrow> dns_record list \<Rightarrow> 'a \<Rightarrow> unit res \<times> 'a" where
  "deleteOwned api due [] a = (Inr (), a)"
| "deleteOwned api due (existing # records) a =
     (if \<not> due existing then deleteOwned api due records a
      else (case deleteRecord api (drID existing) a of
              (Inl err, a1) \<Rightarrow> (Inl err, a1)
            | (Inr _, a1) \<Rightarrow> deleteOwned api due records a1))"

definition dueForDelete :: "managed_record \<Rightarrow> dns_record \<Rightarrow> bool" where
  "dueForDelete r existing \<longleftrightarrow>
     dnsRecordOwnedBy (drRemark existing) r \<and>
     \<not> (mdValue r \<noteq> [] \<and> cleanDNSRecordValue (mdRecordType r) (drValue existing) \<noteq> mdValue r)"

definition DeleteRecord :: "'a dnspod_api \<Rightarrow> string \<Rightarrow> managed_record \<Rightarrow> 'a \<Rightarrow> unit res \<times> 'a" where
  "DeleteRecord api domain r0 a =
     (let r = normalizeManagedDNSRecord r0 in
      case bindR (validateManagedDNSRecord r) (\<lambda>_. dnsSubdomain domain (mdHost r)) of
        Inl err \<Rightarrow> (Inl err, a)
      | Inr sub \<Rightarrow>
          (case recordsForSubdomain api domain sub (mdRecordType r) a of
             (Inl err, a1) \<Rightarrow> (Inl err, a1)
           | (Inr records, a1) \<Rightarrow> deleteOwned api (dueForDelete r) records a1))"

definition dueForService :: "string \<Rightarrow> string \<Rightarrow> string \<Rightarrow> string \<Rightarrow> dns_record \<Rightarrow> bool" where
  "dueForService domain planeID serviceID purpose existing \<longleftrightarrow>
     \<not> (drID existing = 0 \<or> drSubdomain existing = [] \<or> drType existing = []) \<and>
     dnsRecordOwnedBy (drRemark existing)
       \<lparr>mdPlaneID = planeID, mdServiceID = serviceID, mdHost = dnsHost domain (drSubdomain existing),
        mdRecordType = drType existing, mdValue = drValue existing,
        mdPurpose = (if purpose \<noteq> [] then purpose else purposeFromRemark (drRemark existing))\<rparr>"

definition DeleteServiceRecords ::
  "'a dnspod_api \<Rightarrow> string \<Rightarrow> string \<Rightarrow> string \<Rightarrow> string \<Rightarrow> 'a \<Rightarrow> unit res \<times> 'a" where
  "DeleteServiceRecords api domain planeID0 serviceID0 purpose0 a =
     (let planeID = trimSpace planeID0; serviceID = trimSpace serviceID0; purpose = trimSpace purpose0 in
      if planeID = [] \<or> serviceID = [] then
        (Inl (Errorf ''managed DNS record deletion requires planeID and serviceID''), a)
      else (case recordsForDomain api domain a of
              (Inl err, a1) \<Rightarrow> (Inl err, a1)
            | (Inr records, a1) \<Rightarrow> deleteOwned api (dueForService domain planeID serviceID purpose) records a1))"

definition dnsCheck :: "'a dnspod_api \<Rightarrow> string \<Rightarrow> 'a \<Rightarrow> unit res \<times> 'a" where
  "dnsCheck api domain a =
     (case recordsForDomain api domain a of (Inl err, a1) \<Rightarrow> (Inl err, a1) | (Inr _, a1) \<Rightarrow> (Inr (), a1))"

definition newDNSPodClient :: "string \<Rightarrow> string res" where
  "newDNSPodClient cfgDomain =
     (if \<not> nonBlank cfgDomain then Inl (Errorf ''dns.dnspod.domain is required'')
      else Inr (cleanDomain cfgDomain))"

end
