(* ===== verification/PlaneSync.thy ===== *)
theory PlaneSync
  imports PlaneMessages Dns
begin

text \<open>
  internal/controlplane/model and internal/controlplane/coordination (planes.go, plane_client.go,
  plane_sync.go, frontdoor_dns.go): the catalogue of planes, the client of a cloud-plane, what the
  control-plane makes of a plane's snapshot, and the DNS records it keeps for the plane's services.

  The gRPC stubs, the TLS configuration and the DNS client are parameters: records of functions on a
  world 'w.  The deadline of a call is one of its errors; errors of closing a connection are only
  logged.
\<close>

section \<open>model\<close>

definition PlaneSyncing :: string where "PlaneSyncing = ''syncing''"
definition PlaneReady :: string where "PlaneReady = ''ready''"
definition PlaneDegraded :: string where "PlaneDegraded = ''degraded''"
definition PlaneOffline :: string where "PlaneOffline = ''offline''"

lemmas plane_status_defs = PlaneSyncing_def PlaneReady_def PlaneDegraded_def PlaneOffline_def

definition IsPlaneStatus :: "string \<Rightarrow> bool" where
  "IsPlaneStatus s \<longleftrightarrow> s = PlaneSyncing \<or> s = PlaneReady \<or> s = PlaneDegraded \<or> s = PlaneOffline"

record plane_status =
  pstPlaneID :: string
  pstStatus :: string
  pstMessage :: string
  pstLastHeartbeatAt :: "instant option"
  pstLastSyncAt :: "instant option"

record plane_detail =
  plID :: string
  plName :: string
  plDisplayName :: string
  plProvider :: string
  plRegion :: string
  plGRPCEndpoint :: string
  plStatus :: plane_status

definition PhasePending :: string where "PhasePending = ''pending''"
definition PhaseProgressing :: string where "PhaseProgressing = ''progressing''"
definition PhaseReady :: string where "PhaseReady = ''ready''"
definition PhaseDegraded :: string where "PhaseDegraded = ''degraded''"
definition PhaseDeleting :: string where "PhaseDeleting = ''deleting''"

definition RunPhasePending :: string where "RunPhasePending = ''pending''"
definition RunPhaseDispatching :: string where "RunPhaseDispatching = ''dispatching''"
definition RunPhaseRunning :: string where "RunPhaseRunning = ''running''"
definition RunPhaseFailed :: string where "RunPhaseFailed = ''failed''"

lemmas phase_defs = PhasePending_def PhaseProgressing_def PhaseReady_def PhaseDegraded_def PhaseDeleting_def
  RunPhasePending_def RunPhaseDispatching_def RunPhaseRunning_def RunPhaseFailed_def

definition IsInstanceClass :: "string \<Rightarrow> bool" where
  "IsInstanceClass c \<longleftrightarrow> c = ''small'' \<or> c = ''medium'' \<or> c = ''large''"

definition IsServiceExposure :: "string \<Rightarrow> bool" where
  "IsServiceExposure e \<longleftrightarrow> e = ExposurePublic \<or> e = ExposurePrivate"

definition IsServicePhase :: "string \<Rightarrow> bool" where
  "IsServicePhase p \<longleftrightarrow>
     p = PhasePending \<or> p = PhaseProgressing \<or> p = PhaseReady \<or> p = PhaseDegraded \<or> p = PhaseDeleting"

definition IsRunPhase :: "string \<Rightarrow> bool" where
  "IsRunPhase p \<longleftrightarrow>
     p = RunPhasePending \<or> p = RunPhaseDispatching \<or> p = RunPhaseRunning \<or> p = RunPhaseFailed"

record observed_status =
  osObservedGeneration :: int
  osPhase :: string
  osMessage :: string
  osLastObservedAt :: "instant option"

record run_status =
  rnPhase :: string
  rnMessage :: string

definition PendingRunStatus :: "string \<Rightarrow> run_status" where
  "PendingRunStatus message = \<lparr>rnPhase = RunPhasePending, rnMessage = message\<rparr>"

definition PendingServiceStatus :: "int \<Rightarrow> string \<Rightarrow> observed_status" where
  "PendingServiceStatus g message =
     \<lparr>osObservedGeneration = g, osPhase = PhasePending, osMessage = message, osLastObservedAt = None\<rparr>"

definition DeletingServiceStatus :: "int \<Rightarrow> string \<Rightarrow> observed_status" where
  "DeletingServiceStatus g message =
     \<lparr>osObservedGeneration = g, osPhase = PhaseDeleting, osMessage = message, osLastObservedAt = None\<rparr>"

section \<open>planes.go\<close>

definition ErrPlaneNotFound :: goerr where "ErrPlaneNotFound = Sentinel ''plane not found''"
definition ErrServiceNotFoundCP :: goerr where "ErrServiceNotFoundCP = Sentinel ''service not found''"
definition ErrInvalidInput :: goerr where "ErrInvalidInput = Sentinel ''invalid input''"

definition becauseOf :: "goerr \<Rightarrow> string \<Rightarrow> goerr" where
  "becauseOf e text = Wrapf [] e ('': '' @ text)"

record configured_plane =
  gpID :: string
  gpName :: string
  gpDisplayName :: string
  gpProvider :: string
  gpRegion :: string
  gpGRPCEndpoint :: string

record plane_catalog =
  ctPlanes :: "plane_detail list"
  ctByID :: "string \<rightharpoonup> plane_detail"

definition configuredDetail :: "configured_plane \<Rightarrow> plane_detail" where
  "configuredDetail g =
     \<lparr>plID = trimSpace (gpID g), plName = trimSpace (gpName g),
      plDisplayName = (if trimSpace (gpDisplayName g) = [] then trimSpace (gpName g) else trimSpace (gpDisplayName g)),
      plProvider = toLower (trimSpace (gpProvider g)), plRegion = trimSpace (gpRegion g),
      plGRPCEndpoint = trimSpace (gpGRPCEndpoint g),
      plStatus = \<lparr>pstPlaneID = trimSpace (gpID g), pstStatus = PlaneSyncing,
        pstMessage = ''configured; waiting for cloud-plane snapshot'',
        pstLastHeartbeatAt = None, pstLastSyncAt = None\<rparr>\<rparr>"

fun catalogLoop :: "configured_plane list \<Rightarrow> plane_catalog \<Rightarrow> plane_catalog res" where
  "catalogLoop [] c = Inr c"
| "catalogLoop (g # gs) c =
     (let p = configuredDetail g in
      if plID p = [] \<or> plName p = [] \<or> plProvider p = [] \<or> plRegion p = [] \<or> plGRPCEndpoint p = [] then
        Inl (becauseOf ErrInvalidInput ''plane requires id, name, provider, region and grpcEndpoint'')
      else if ctByID c (plID p) \<noteq> None then
        Inl (becauseOf ErrInvalidInput (''duplicate plane id '' @ goQuote (plID p)))
      else catalogLoop gs \<lparr>ctPlanes = ctPlanes c @ [p], ctByID = (ctByID c)(plID p \<mapsto> p)\<rparr>)"

definition NewPlaneCatalog :: "configured_plane list \<Rightarrow> plane_catalog res" where
  "NewPlaneCatalog configured =
     (if configured = [] then Inl (becauseOf ErrInvalidInput ''planes is required'')
      else catalogLoop configured \<lparr>ctPlanes = [], ctByID = Map.empty\<rparr>)"

definition ListPlanes :: "plane_catalog option \<Rightarrow> plane_detail list res" where
  "ListPlanes c =
     (case c of None \<Rightarrow> Inl (becauseOf ErrInvalidInput ''plane catalog is nil'') | Some c \<Rightarrow> Inr (ctPlanes c))"

definition GetPlane :: "plane_catalog option \<Rightarrow> string \<Rightarrow> plane_detail res" where
  "GetPlane c planeID0 =
     (case c of
        None \<Rightarrow> Inl (becauseOf ErrInvalidInput ''plane catalog is nil'')
      | Some c \<Rightarrow>
          (let planeID = trimSpace planeID0 in
           if planeID = [] then Inl (becauseOf ErrInvalidInput ''planeID is required'')
           else (case ctByID c planeID of None \<Rightarrow> Inl ErrPlaneNotFound | Some p \<Rightarrow> Inr p)))"

definition newPublicID :: "string \<Rightarrow> nat list res \<Rightarrow> string res" where
  "newPublicID prefix0 entropy =
     (let prefix = trimSpace prefix0 in
      if prefix = [] then Inl (Errorf ''id prefix is required'')
      else (case entropy of Inl err \<Rightarrow> Inl err | Inr raw \<Rightarrow> Inr (prefix @ ''_'' @ hexEncode raw)))"

section \<open>plane_client.go\<close>

definition errPlaneObjectNotFound :: goerr where
  "errPlaneObjectNotFound = Sentinel ''plane api object not found''"

record 'w plane_rpc =
  rpGetSnapshot :: "string \<Rightarrow> rpc_context \<Rightarrow> 'w \<Rightarrow> plane_snapshot option res \<times> 'w"
  rpUpsertService :: "string \<Rightarrow> rpc_context \<Rightarrow> upsert_service_request \<Rightarrow> 'w \<Rightarrow> unit res \<times> 'w"
  rpDeleteService :: "string \<Rightarrow> rpc_context \<Rightarrow> delete_service_request \<Rightarrow> 'w \<Rightarrow> unit res \<times> 'w"

definition hasWhitespace :: "string \<Rightarrow> bool" where
  "hasWhitespace s \<longleftrightarrow> list_ex (\<lambda>c. c \<in> {CHR '' '', CHR 0x09, CHR 0x0D, CHR 0x0A}) s"

text \<open>The target and whether TLS is used; the configuration of TLS is a parameter.\<close>

definition resolveTarget :: "(string \<Rightarrow> unit res) \<Rightarrow> string \<Rightarrow> (string \<times> bool) res" where
  "resolveTarget clientTLS endpoint =
     (let ep = trimSpace endpoint; lower = toLower ep in
      if ep = [] then Inl (Errorf ''grpcEndpoint is required'')
      else if hasWhitespace ep then Inl (Errorf ''grpcEndpoint must not contain whitespace'')
      else if hasPrefix lower ''http://'' \<or> hasPrefix lower ''https://'' then
        Inl (Errorf ''grpcEndpoint must be a gRPC target, not an HTTP URL'')
      else if hasPrefix lower ''grpc://'' then
        (let target = trimSpace (drop (length ''grpc://'') ep) in
         if target = [] \<or> CHR ''/'' \<in> set target then Inl (Errorf ''grpcEndpoint must include host:port'')
         else Inr (target, False))
      else if hasPrefix lower ''grpcs://'' then
        (let target = trimSpace (drop (length ''grpcs://'') ep) in
         if target = [] \<or> CHR ''/'' \<in> set target then Inl (Errorf ''grpcEndpoint must include host:port'')
         else bindR (clientTLS target) (\<lambda>_. Inr (target, True)))
      else Inr (ep, False))"

record plane_client =
  pcTarget :: string
  pcBearerToken :: string

definition newPlaneClient :: "(string \<Rightarrow> unit res) \<Rightarrow> string \<Rightarrow> string \<Rightarrow> plane_client res" where
  "newPlaneClient clientTLS endpoint token =
     bindR (resolveTarget clientTLS endpoint) (\<lambda>(target, _).
       if \<not> nonBlank token then Inl (Errorf ''bearerToken is required'')
       else Inr \<lparr>pcTarget = target, pcBearerToken = trimSpace token\<rparr>)"

text \<open>status.Convert: an error without a status has the code Unknown.\<close>

definition statusCode :: "goerr \<Rightarrow> string" where
  "statusCode err = (case sdkCode err of None \<Rightarrow> ''Unknown'' | Some c \<Rightarrow> c)"

definition classifyRPCError :: "goerr \<Rightarrow> goerr" where
  "classifyRPCError err =
     (if statusCode err = ''NotFound'' then becauseOf errPlaneObjectNotFound (errText err)
      else Errorf (''plane gRPC returned code '' @ statusCode err @ '': '' @ errText err))"

definition clientSnapshot :: "'w plane_rpc \<Rightarrow> plane_client \<Rightarrow> 'w \<Rightarrow> plane_snapshot res \<times> 'w" where
  "clientSnapshot rpc c w =
     (case rpGetSnapshot rpc (pcTarget c) (withAuth (pcBearerToken c)) w of
        (Inl err, w1) \<Rightarrow> (Inl (classifyRPCError err), w1)
      | (Inr None, w1) \<Rightarrow> (Inl (Errorf ''plane snapshot response is empty''), w1)
      | (Inr (Some sn), w1) \<Rightarrow> (Inr sn, w1))"

definition clientUpsertService ::
  "'w plane_rpc \<Rightarrow> plane_client \<Rightarrow> upsert_service_request \<Rightarrow> 'w \<Rightarrow> unit res \<times> 'w" where
  "clientUpsertService rpc c rq w =
     (case rpUpsertService rpc (pcTarget c) (withAuth (pcBearerToken c)) rq w of
        (Inl err, w1) \<Rightarrow> (Inl (classifyRPCError err), w1) | (Inr _, w1) \<Rightarrow> (Inr (), w1))"

definition clientDeleteService ::
  "'w plane_rpc \<Rightarrow> plane_client \<Rightarrow> delete_service_request \<Rightarrow> 'w \<Rightarrow> unit res \<times> 'w" where
  "clientDeleteService rpc c rq w =
     (case rpDeleteService rpc (pcTarget c) (withAuth (pcBearerToken c)) rq w of
        (Inl err, w1) \<Rightarrow> (Inl (classifyRPCError err), w1) | (Inr _, w1) \<Rightarrow> (Inr (), w1))"

section \<open>frontdoor_dns.go\<close>

record 'w dns_client =
  dcEnsureRecord :: "managed_record \<Rightarrow> 'w \<Rightarrow> unit res \<times> 'w"
  dcDeleteRecord :: "managed_record \<Rightarrow> 'w \<Rightarrow> unit res \<times> 'w"
  dcDeleteServiceRecords :: "string \<Rightarrow> string \<Rightarrow> string \<Rightarrow> 'w \<Rightarrow> unit res \<times> 'w"
  dcCheck :: "'w \<Rightarrow> unit res \<times> 'w"

definition dnsPodClient :: "'a dnspod_api \<Rightarrow> string \<Rightarrow> 'a dns_client" where
  "dnsPodClient api domain =
     \<lparr>dcEnsureRecord = EnsureRecord api domain, dcDeleteRecord = DeleteRecord api domain,
      dcDeleteServiceRecords = DeleteServiceRecords api domain, dcCheck = dnsCheck api domain\<rparr>"

definition purposeVerification :: string where "purposeVerification = ''frontdoor_verification''"
definition purposeCNAME :: string where "purposeCNAME = ''frontdoor_cname''"

definition hasVerification :: "plane_service \<Rightarrow> bool" where
  "hasVerification item \<longleftrightarrow>
     nonBlank (psFrontdoorVerifySubdomain item) \<and> nonBlank (psFrontdoorVerifyValue item)"

definition verificationRecord :: "string \<Rightarrow> plane_service \<Rightarrow> managed_record" where
  "verificationRecord planeID item =
     \<lparr>mdPlaneID = planeID, mdServiceID = psServiceId item, mdHost = psFrontdoorVerifySubdomain item,
      mdRecordType = (if trimSpace (psFrontdoorVerifyType item) = [] then ''TXT''
                      else trimSpace (psFrontdoorVerifyType item)),
      mdValue = psFrontdoorVerifyValue item, mdPurpose = purposeVerification\<rparr>"

definition cnameRecord :: "string \<Rightarrow> plane_service \<Rightarrow> managed_record" where
  "cnameRecord planeID item =
     \<lparr>mdPlaneID = planeID, mdServiceID = psServiceId item, mdHost = psHost item, mdRecordType = ''CNAME'',
      mdValue = psFrontdoorCname item, mdPurpose = purposeCNAME\<rparr>"

definition dnsFailure :: "string \<Rightarrow> string \<Rightarrow> plane_service \<Rightarrow> goerr \<Rightarrow> goerr" where
  "dnsFailure what planeID item err = wrap (what @ '' for plane '' @ planeID @ '' host '' @ psHost item) err"

definition skipDNS :: "plane_service \<Rightarrow> bool" where
  "skipDNS item \<longleftrightarrow>
     \<not> nonBlank (psServiceId item) \<or> \<not> nonBlank (psHost item) \<or> trimSpace (psDesiredState item) = ''deleted''"

text \<open>One turn of the loop: None to continue with the next service.\<close>

definition syncServiceDNS :: "'w dns_client \<Rightarrow> string \<Rightarrow> plane_service \<Rightarrow> 'w \<Rightarrow> goerr option \<times> 'w" where
  "syncServiceDNS dns planeID item w =
     (if skipDNS item then (None, w)
      else
        (case (if hasVerification item then dcEnsureRecord dns (verificationRecord planeID item) w else (Inr (), w)) of
           (Inl err, w1) \<Rightarrow> (Some (dnsFailure ''ensure frontdoor verification DNS'' planeID item err), w1)
         | (Inr _, w1) \<Rightarrow>
             if \<not> nonBlank (psFrontdoorCname item) then (None, w1)
             else
               (case dcEnsureRecord dns (cnameRecord planeID item) w1 of
                  (Inl err, w2) \<Rightarrow> (Some (dnsFailure ''ensure frontdoor CNAME DNS'' planeID item err), w2)
                | (Inr _, w2) \<Rightarrow>
                    (case (if hasVerification item then dcDeleteRecord dns (verificationRecord planeID item) w2
                           else dcDeleteServiceRecords dns planeID (psServiceId item) purposeVerification w2) of
                       (Inl err, w3) \<Rightarrow> (Some (dnsFailure ''delete frontdoor verification DNS'' planeID item err), w3)
                     | (Inr _, w3) \<Rightarrow> (None, w3)))))"

fun syncServicesDNS :: "'w dns_client \<Rightarrow> string \<Rightarrow> plane_service option list \<Rightarrow> 'w \<Rightarrow> goerr option \<times> 'w" where
  "syncServicesDNS dns planeID [] w = (None, w)"
| "syncServicesDNS dns planeID (None # items) w = syncServicesDNS dns planeID items w"
| "syncServicesDNS dns planeID (Some item # items) w =
     (case syncServiceDNS dns planeID item w of
        (Some err, w1) \<Rightarrow> (Some err, w1)
      | (None, w1) \<Rightarrow> syncServicesDNS dns planeID items w1)"

definition syncFrontDoorDNS ::
  "'w dns_client option \<Rightarrow> string \<Rightarrow> plane_service option list \<Rightarrow> 'w \<Rightarrow> goerr option \<times> 'w" where
  "syncFrontDoorDNS dns planeID items w =
     (case dns of None \<Rightarrow> (None, w) | Some d \<Rightarrow> syncServicesDNS d planeID items w)"

definition deleteServiceDNS :: "'w dns_client option \<Rightarrow> string \<Rightarrow> string \<Rightarrow> 'w \<Rightarrow> unit res \<times> 'w" where
  "deleteServiceDNS dns planeID serviceId w =
     (case dns of None \<Rightarrow> (Inr (), w) | Some d \<Rightarrow> dcDeleteServiceRecords d planeID serviceId [] w)"

end
