(* ===== verification/PlaneViews.thy ===== *)
theory PlaneViews
  imports PlaneSync
begin

text \<open>
  internal/controlplane/coordination/plane_sync.go: the view of a plane that the control-plane
  derives from the snapshot it fetches, for every request that shows planes or services.
\<close>

record 'w plane_syncer =
  syPlanes :: "plane_catalog option"
  syToken :: string
  syClientTLS :: "string \<Rightarrow> unit res"
  syDNS :: "'w dns_client option"
  syRPC :: "'w plane_rpc"
  syNow :: "'w \<Rightarrow> instant"
  syCtxErr :: "'w \<Rightarrow> goerr option"

record plane_view =
  pvPlane :: plane_detail
  pvSnapshot :: "plane_snapshot option"

definition CheckDNS :: "'w plane_syncer \<Rightarrow> 'w \<Rightarrow> unit res \<times> 'w" where
  "CheckDNS sy w = (case syDNS sy of None \<Rightarrow> (Inr (), w) | Some d \<Rightarrow> dcCheck d w)"

section \<open>Statuses\<close>

record sync_overview =
  soNodesTotal :: int
  soNodesReady :: int
  soNodesDraining :: int
  soNodesOffline :: int
  soActiveRunsTotal :: int

fun countNodes :: "plane_node option list \<Rightarrow> sync_overview \<Rightarrow> sync_overview" where
  "countNodes [] ov = ov"
| "countNodes (None # items) ov = countNodes items ov"
| "countNodes (Some item # items) ov =
     (let o1 = ov\<lparr>soNodesTotal := soNodesTotal ov + 1\<rparr>; st = trimSpace (pnStatus item) in
      countNodes items
        (if st = ''ready'' then o1\<lparr>soNodesReady := soNodesReady o1 + 1\<rparr>
         else if st = ''draining'' then o1\<lparr>soNodesDraining := soNodesDraining o1 + 1\<rparr>
         else if st = ''offline'' then o1\<lparr>soNodesOffline := soNodesOffline o1 + 1\<rparr>
         else o1))"

definition snapshotOverview :: "plane_snapshot \<Rightarrow> sync_overview" where
  "snapshotOverview sn =
     countNodes (snNodes sn)
       \<lparr>soNodesTotal = 0, soNodesReady = 0, soNodesDraining = 0, soNodesOffline = 0,
        soActiveRunsTotal = int (length (snExecutions sn))\<rparr>"

definition planeIssues :: "plane_detail \<Rightarrow> plane_snapshot \<Rightarrow> string list" where
  "planeIssues p sn =
     (let ov = snapshotOverview sn; unhealthy = soNodesOffline ov + soNodesDraining ov in
      (if snProvider sn \<noteq> [] \<and> snProvider sn \<noteq> plProvider p
       then [''provider mismatch: expected '' @ plProvider p @ '' but remote reports '' @ snProvider sn] else []) @
      (if snRegion sn \<noteq> [] \<and> snRegion sn \<noteq> plRegion p
       then [''region mismatch: expected '' @ plRegion p @ '' but remote reports '' @ snRegion sn] else []) @
      (if 0 < unhealthy then [itoa unhealthy @ '' node(s) are not ready/offline/draining''] else []) @
      (if 0 < snAlertsFiring sn then [itoa (snAlertsFiring sn) @ '' reliability alert(s) are firing''] else []))"

definition derivePlaneStatus :: "plane_detail \<Rightarrow> plane_snapshot \<Rightarrow> string \<times> string" where
  "derivePlaneStatus p sn =
     (let issues = planeIssues p sn; ov = snapshotOverview sn in
      if issues = [] then
        (PlaneReady, ''sync healthy: '' @ itoa (soNodesTotal ov) @ '' nodes, '' @ itoa (soActiveRunsTotal ov) @ '' active runs'')
      else (PlaneDegraded, ''sync degraded: '' @ joinStr ''; '' issues))"

definition offlinePlane :: "instant \<Rightarrow> plane_detail \<Rightarrow> goerr \<Rightarrow> plane_detail" where
  "offlinePlane now p err =
     p\<lparr>plStatus := \<lparr>pstPlaneID = plID p, pstStatus = PlaneOffline,
        pstMessage = ''load plane snapshot failed: '' @ errText err,
        pstLastHeartbeatAt = None, pstLastSyncAt = Some now\<rparr>\<rparr>"

definition syncedPlane :: "instant \<Rightarrow> plane_detail \<Rightarrow> plane_snapshot \<Rightarrow> plane_detail" where
  "syncedPlane now p sn =
     p\<lparr>plStatus := \<lparr>pstPlaneID = plID p, pstStatus = fst (derivePlaneStatus p sn),
        pstMessage = snd (derivePlaneStatus p sn),
        pstLastHeartbeatAt = Some (protoTime (snCheckedAt sn)), pstLastSyncAt = Some now\<rparr>\<rparr>"

section \<open>Views\<close>

definition loadSnapshot :: "'w plane_syncer \<Rightarrow> plane_detail \<Rightarrow> 'w \<Rightarrow> plane_snapshot res \<times> 'w" where
  "loadSnapshot sy p w =
     (case newPlaneClient (syClientTLS sy) (trimRightSlash (trimSpace (plGRPCEndpoint p))) (syToken sy) of
        Inl err \<Rightarrow> (Inl err, w)
      | Inr c \<Rightarrow> clientSnapshot (syRPC sy) c w)"

text \<open>The view of one plane; a failure of the DNS pass is only logged.\<close>

definition planeView :: "'w plane_syncer \<Rightarrow> plane_detail \<Rightarrow> 'w \<Rightarrow> plane_view \<times> 'w" where
  "planeView sy p w =
     (case loadSnapshot sy p w of
        (Inl err, w1) \<Rightarrow> (\<lparr>pvPlane = offlinePlane (syNow sy w1) p err, pvSnapshot = None\<rparr>, w1)
      | (Inr sn, w1) \<Rightarrow>
          (case syncFrontDoorDNS (syDNS sy) (plID p) (snServices sn) w1 of
             (_, w2) \<Rightarrow> (\<lparr>pvPlane = syncedPlane (syNow sy w2) p sn, pvSnapshot = Some sn\<rparr>, w2)))"

fun planeViews :: "'w plane_syncer \<Rightarrow> plane_detail list \<Rightarrow> plane_view list \<Rightarrow> 'w \<Rightarrow>
    (plane_view list \<times> goerr option) \<times> 'w" where
  "planeViews sy [] views w = ((views, None), w)"
| "planeViews sy (p # ps) views w =
     (case planeView sy p w of
        (v, w1) \<Rightarrow>
          (case syCtxErr sy w1 of
             Some err \<Rightarrow> ((views @ [v], Some err), w1)
           | None \<Rightarrow> planeViews sy ps (views @ [v]) w1))"

definition ListPlaneSnapshotViews :: "'w plane_syncer \<Rightarrow> 'w \<Rightarrow> plane_view list res \<times> 'w" where
  "ListPlaneSnapshotViews sy w =
     (case ListPlanes (syPlanes sy) of
        Inl err \<Rightarrow> (Inl err, w)
      | Inr ps \<Rightarrow>
          (case planeViews sy ps [] w of
             ((views, None), w1) \<Rightarrow> (Inr views, w1)
           | ((views, Some err), w1) \<Rightarrow> (Inl err, w1)))"

definition GetPlaneSnapshotView :: "'w plane_syncer \<Rightarrow> string \<Rightarrow> 'w \<Rightarrow> plane_view res \<times> 'w" where
  "GetPlaneSnapshotView sy planeID w =
     (case GetPlane (syPlanes sy) planeID of
        Inl err \<Rightarrow> (Inl err, w)
      | Inr p \<Rightarrow> (case planeView sy p w of (v, w1) \<Rightarrow> (Inr v, w1)))"

section \<open>The status of a service from an execution\<close>

definition executionSnapshotMessage :: "plane_execution \<Rightarrow> string" where
  "executionSnapshotMessage x =
     (let st = trimSpace (peStatus x) in
      if nonBlank (peLastStatusReason x) then peLastStatusReason x
      else if st = ''failed'' then ''service run failed''
      else if st = ''running'' then ''service run is running''
      else if st = ''succeeded'' then ''service cleanup finished''
      else if st = [] then ''service run status is unknown''
      else ''service run is '' @ st)"

definition serviceStatusFromExecutionSnapshot ::
  "instant \<Rightarrow> plane_execution \<Rightarrow> observed_status \<times> run_status" where
  "serviceStatusFromExecutionSnapshot now x =
     (let seen = protoTime (peObservedAt x);
          message = executionSnapshotMessage x;
          st = trimSpace (peStatus x);
          (phase, runPhase) =
            (if st = ''failed'' then (PhaseDegraded, RunPhaseFailed)
             else if st = ''running'' then (PhaseReady, RunPhaseRunning)
             else (PhaseProgressing, RunPhaseDispatching))
      in (\<lparr>osObservedGeneration = peGeneration x, osPhase = phase, osMessage = message,
           osLastObservedAt = Some (if seen = zeroTime then now else seen)\<rparr>,
          \<lparr>rnPhase = runPhase, rnMessage = message\<rparr>))"

end
