(* ===== verification/ServiceOps.thy ===== *)
theory ServiceOps
  imports PlaneViews
begin

text \<open>
  internal/controlplane/coordination/service_operations.go: creating, listing, updating and deleting
  services.  The control-plane keeps no state: it reads a plane's snapshot and sends the desired
  service to the plane.
\<close>

definition errPlaneNotReady :: goerr where "errPlaneNotReady = Sentinel ''plane is not ready''"
definition errPlaneIDRequired :: goerr where "errPlaneIDRequired = Sentinel ''planeID is required''"
definition errServiceIDMissing :: goerr where "errServiceIDMissing = Sentinel ''serviceID is required''"
definition errServiceSpec :: goerr where "errServiceSpec = Sentinel ''invalid service spec''"

record workload_spec =
  wsInstanceClass :: string
  wsExposure :: string
  wsImage :: string
  wsCommand :: "string list"
  wsArgs :: "string list"
  wsDefaultPort :: int
  wsReadinessPath :: string
  wsEnv :: env

record cp_spec =
  csPlaneID :: string
  csInstanceClass :: string
  csExposure :: string
  csImage :: string
  csCommand :: "string list"
  csArgs :: "string list"
  csDefaultPort :: int
  csReadinessPath :: string
  csEnv :: env

record cp_metadata =
  cmID :: string
  cmName :: string
  cmDisplayName :: string
  cmHost :: string
  cmGeneration :: int

record cp_dns_record =
  cdHost :: string
  cdRecordType :: string
  cdValue :: string

record cp_frontdoor =
  cfCNAME :: string
  cfVerification :: "cp_dns_record option"

record cp_service =
  cpMetadata :: cp_metadata
  cpSpec :: cp_spec
  cpObserved :: observed_status
  cpRun :: run_status
  cpFrontDoor :: cp_frontdoor

record create_service_input =
  ciName :: string
  ciDisplayName :: string
  ciSpec :: cp_spec

record update_service_input =
  uiPlaneID :: string
  uiServiceID :: string
  uiDisplayName :: string
  uiSpec :: workload_spec

definition IsServiceInputError :: "goerr \<Rightarrow> bool" where
  "IsServiceInputError err \<longleftrightarrow>
     errorsIs err errServiceSpec \<or> errorsIs err errPlaneIDRequired \<or> errorsIs err errServiceIDMissing"

text \<open>The plane syncer may be absent (nil).\<close>

record 'w service_operations =
  soCatalog :: "plane_catalog option"
  soBaseDomain :: string
  soToken :: string
  soClientTLS :: "string \<Rightarrow> unit res"
  soSyncer :: "'w plane_syncer option"
  soRPC :: "'w plane_rpc"
  soNow :: "'w \<Rightarrow> instant"

section \<open>Validation\<close>

definition specError :: "string \<Rightarrow> goerr" where
  "specError text = becauseOf errServiceSpec text"

definition validateWorkloadSpec :: "workload_spec \<Rightarrow> unit res" where
  "validateWorkloadSpec s =
     (let exposure0 = toLower (trimSpace (wsExposure s));
          exposure = (if exposure0 = [] then ExposurePublic else exposure0)
      in if \<not> IsInstanceClass (wsInstanceClass s) then
           Inl (specError ''instanceClass must be one of small, medium, large'')
         else if \<not> IsServiceExposure exposure then Inl (specError ''exposure must be one of public, private'')
         else if \<not> nonBlank (wsImage s) then Inl (specError ''image is required'')
         else if wsDefaultPort s \<le> 0 \<or> 65535 < wsDefaultPort s then
           Inl (specError ''defaultPort must be between 1 and 65535'')
         else if \<not> hasPrefix (trimSpace (wsReadinessPath s)) ''/'' then
           Inl (specError ''readinessPath must start with /'')
         else if list_ex (\<lambda>(k, v). \<not> nonBlank k) (wsEnv s) then
           Inl (specError ''env keys must not be empty'')
         else Inr ())"

definition workloadOf :: "cp_spec \<Rightarrow> workload_spec" where
  "workloadOf s =
     \<lparr>wsInstanceClass = csInstanceClass s, wsExposure = csExposure s, wsImage = csImage s,
      wsCommand = csCommand s, wsArgs = csArgs s, wsDefaultPort = csDefaultPort s,
      wsReadinessPath = csReadinessPath s, wsEnv = csEnv s\<rparr>"

definition validateCPServiceSpec :: "cp_spec \<Rightarrow> unit res" where
  "validateCPServiceSpec s =
     (if \<not> nonBlank (csPlaneID s) then Inl errPlaneIDRequired else validateWorkloadSpec (workloadOf s))"

definition validateCreateServiceInput :: "create_service_input \<Rightarrow> unit res" where
  "validateCreateServiceInput i =
     (if \<not> nonBlank (ciName i) then Inl (specError ''name is required'')
      else if \<not> serviceNamePattern (trimSpace (ciName i)) then
        Inl (specError ''name must use lowercase letters, digits, and hyphens'')
      else if \<not> nonBlank (ciDisplayName i) then Inl (specError ''displayName is required'')
      else validateCPServiceSpec (ciSpec i))"

definition validateUpdateServiceInput :: "update_service_input \<Rightarrow> unit res" where
  "validateUpdateServiceInput i =
     (if \<not> nonBlank (uiPlaneID i) then Inl errPlaneIDRequired
      else if \<not> nonBlank (uiServiceID i) then Inl errServiceIDMissing
      else if \<not> nonBlank (uiDisplayName i) then Inl (specError ''displayName is required'')
      else validateWorkloadSpec (uiSpec i))"

section \<open>Planes and their clients\<close>

definition readyPlane :: "'w service_operations \<Rightarrow> string \<Rightarrow> plane_detail res" where
  "readyPlane so planeID0 =
     (let planeID = trimSpace planeID0 in
      if planeID = [] then Inl errPlaneIDRequired
      else bindR (GetPlane (soCatalog so) planeID) (\<lambda>p.
        if pstStatus (plStatus p) = PlaneOffline then
          Inl (becauseOf errPlaneNotReady (''current status is '' @ pstStatus (plStatus p)))
        else Inr p))"

definition planeClientFor :: "'w service_operations \<Rightarrow> string \<Rightarrow> plane_client res" where
  "planeClientFor so planeID =
     bindR (readyPlane so planeID) (\<lambda>p. newPlaneClient (soClientTLS so) (plGRPCEndpoint p) (soToken so))"

definition serviceHostName :: "string \<Rightarrow> string \<Rightarrow> string" where
  "serviceHostName name0 baseDomain0 =
     (let name = cleanDomain name0; baseDomain = cleanDomain baseDomain0
      in if name = [] \<or> baseDomain = [] then [] else name @ ''.'' @ baseDomain)"

definition acceptedServiceStatus :: "instant \<Rightarrow> int \<Rightarrow> string \<Rightarrow> observed_status" where
  "acceptedServiceStatus now g message =
     \<lparr>osObservedGeneration = g, osPhase = PhaseProgressing, osMessage = message, osLastObservedAt = Some now\<rparr>"

definition serviceDispatchRequest :: "cp_service \<Rightarrow> upsert_service_request res" where
  "serviceDispatchRequest v =
     (if \<not> nonBlank (cmID (cpMetadata v)) then Inl errServiceIDMissing
      else Inr
        \<lparr>uqServiceId = cmID (cpMetadata v), uqServiceName = cmName (cpMetadata v),
         uqDisplayName = cmDisplayName (cpMetadata v), uqHost = cmHost (cpMetadata v),
         uqGeneration = cmGeneration (cpMetadata v), uqImage = csImage (cpSpec v),
         uqCommand = csCommand (cpSpec v), uqArgs = csArgs (cpSpec v), uqEnv = csEnv (cpSpec v),
         uqContainerPort = goInt32 (csDefaultPort (cpSpec v)), uqReadinessPath = csReadinessPath (cpSpec v),
         uqInstanceClass = csInstanceClass (cpSpec v), uqExposure = csExposure (cpSpec v)\<rparr>)"

definition sendServiceSpecToPlane ::
  "'w service_operations \<Rightarrow> string \<Rightarrow> cp_service \<Rightarrow> 'w \<Rightarrow> unit res \<times> 'w" where
  "sendServiceSpecToPlane so planeID v w =
     (case planeClientFor so planeID of
        Inl err \<Rightarrow> (Inl err, w)
      | Inr c \<Rightarrow>
          (case serviceDispatchRequest v of
             Inl err \<Rightarrow> (Inl err, w)
           | Inr rq \<Rightarrow>
               (case clientUpsertService (soRPC so) c rq w of
                  (Inl err, w1) \<Rightarrow> (Inl (wrap ''dispatch service spec to cloud-plane'' err), w1)
                | (Inr _, w1) \<Rightarrow> (Inr (), w1))))"

definition deleteRemoteService ::
  "'w service_operations \<Rightarrow> string \<Rightarrow> string \<Rightarrow> int \<Rightarrow> 'w \<Rightarrow> unit res \<times> 'w" where
  "deleteRemoteService so planeID sid g w =
     (case planeClientFor so planeID of
        Inl err \<Rightarrow> (Inl err, w)
      | Inr c \<Rightarrow>
          (case clientDeleteService (soRPC so) c \<lparr>dlServiceId = sid, dlGeneration = g\<rparr> w of
             (Inl err, w1) \<Rightarrow> (Inl (wrap ''delete service from cloud-plane'' err), w1)
           | (Inr _, w1) \<Rightarrow> (Inr (), w1)))"

section \<open>Snapshots\<close>

definition loadPlaneSnapshotView :: "'w service_operations \<Rightarrow> string \<Rightarrow> 'w \<Rightarrow> plane_view res \<times> 'w" where
  "loadPlaneSnapshotView so planeID w =
     (case soSyncer so of
        Some sy \<Rightarrow> GetPlaneSnapshotView sy planeID w
      | None \<Rightarrow>
          (case readyPlane so planeID of
             Inl err \<Rightarrow> (Inl err, w)
           | Inr p \<Rightarrow>
               (case newPlaneClient (soClientTLS so) (plGRPCEndpoint p) (soToken so) of
                  Inl err \<Rightarrow> (Inl err, w)
                | Inr c \<Rightarrow>
                    (case clientSnapshot (soRPC so) c w of
                       (Inl err, w1) \<Rightarrow> (Inl err, w1)
                     | (Inr sn, w1) \<Rightarrow> (Inr \<lparr>pvPlane = p, pvSnapshot = Some sn\<rparr>, w1)))))"

fun loadViewsLoop :: "'w service_operations \<Rightarrow> plane_detail list \<Rightarrow> 'w \<Rightarrow> plane_view list \<times> 'w" where
  "loadViewsLoop so [] w = ([], w)"
| "loadViewsLoop so (p # ps) w =
     (case loadPlaneSnapshotView so (plID p) w of
        (r, w1) \<Rightarrow>
          (let v = (case r of Inl err \<Rightarrow> \<lparr>pvPlane = p, pvSnapshot = None\<rparr> | Inr v \<Rightarrow> v) in
           case loadViewsLoop so ps w1 of (vs, w2) \<Rightarrow> (v # vs, w2)))"

definition loadPlaneSnapshotViews :: "'w service_operations \<Rightarrow> 'w \<Rightarrow> plane_view list res \<times> 'w" where
  "loadPlaneSnapshotViews so w =
     (case soSyncer so of
        Some sy \<Rightarrow> ListPlaneSnapshotViews sy w
      | None \<Rightarrow>
          (case ListPlanes (soCatalog so) of
             Inl err \<Rightarrow> (Inl err, w)
           | Inr ps \<Rightarrow> (case loadViewsLoop so ps w of (vs, w1) \<Rightarrow> (Inr vs, w1))))"

definition serviceFrontDoorFromSnapshotItem :: "plane_service \<Rightarrow> cp_frontdoor" where
  "serviceFrontDoorFromSnapshotItem item =
     (let host = trimSpace (psFrontdoorVerifySubdomain item);
          value = trimSpace (psFrontdoorVerifyValue item);
          typ = trimSpace (psFrontdoorVerifyType item)
      in \<lparr>cfCNAME = trimSpace (psFrontdoorCname item),
          cfVerification =
            (if host \<noteq> [] \<and> value \<noteq> []
             then Some \<lparr>cdHost = host, cdRecordType = (if typ = [] then ''TXT'' else typ), cdValue = value\<rparr>
             else None)\<rparr>)"

definition serviceFromSnapshotItem :: "string \<Rightarrow> plane_service \<Rightarrow> cp_service" where
  "serviceFromSnapshotItem planeID item =
     \<lparr>cpMetadata =
        \<lparr>cmID = psServiceId item, cmName = psName item, cmDisplayName = psDisplayName item,
         cmHost = psHost item, cmGeneration = psGeneration item\<rparr>,
      cpSpec =
        \<lparr>csPlaneID = planeID, csInstanceClass = psInstanceClass item, csExposure = psExposure item,
         csImage = psImage item, csCommand = psCommand item, csArgs = psArgs item,
         csDefaultPort = psContainerPort item, csReadinessPath = psReadinessPath item, csEnv = psEnv item\<rparr>,
      cpObserved = PendingServiceStatus (psGeneration item) ''waiting for service run status'',
      cpRun = PendingRunStatus ''waiting for service run status'',
      cpFrontDoor = serviceFrontDoorFromSnapshotItem item\<rparr>"

text \<open>The executions by service id: a later one in the list replaces an earlier one.\<close>

fun executionsByID :: "plane_execution option list \<Rightarrow> (string \<rightharpoonup> plane_execution) \<Rightarrow> (string \<rightharpoonup> plane_execution)" where
  "executionsByID [] m = m"
| "executionsByID (None # xs) m = executionsByID xs m"
| "executionsByID (Some x # xs) m = executionsByID xs (m(peServiceId x \<mapsto> x))"

definition listedService :: "instant \<Rightarrow> (string \<rightharpoonup> plane_execution) \<Rightarrow> string \<Rightarrow> plane_service \<Rightarrow> cp_service" where
  "listedService now executions planeID item =
     (let v = serviceFromSnapshotItem planeID item in
      case executions (cmID (cpMetadata v)) of
        Some x \<Rightarrow>
          if peGeneration x = cmGeneration (cpMetadata v) then
            v\<lparr>cpObserved := fst (serviceStatusFromExecutionSnapshot now x),
              cpRun := snd (serviceStatusFromExecutionSnapshot now x)\<rparr>
          else v
      | None \<Rightarrow> v)"

fun listedServices ::
  "instant \<Rightarrow> (string \<rightharpoonup> plane_execution) \<Rightarrow> string \<Rightarrow> plane_service option list \<Rightarrow> cp_service list" where
  "listedServices now executions planeID [] = []"
| "listedServices now executions planeID (None # items) = listedServices now executions planeID items"
| "listedServices now executions planeID (Some item # items) =
     (if \<not> nonBlank (psServiceId item) then listedServices now executions planeID items
      else listedService now executions planeID item # listedServices now executions planeID items)"

definition servicesFromSnapshot :: "instant \<Rightarrow> string \<Rightarrow> plane_snapshot option \<Rightarrow> cp_service list" where
  "servicesFromSnapshot now planeID snapshot =
     (case snapshot of
        None \<Rightarrow> []
      | Some sn \<Rightarrow> listedServices now (executionsByID (snExecutions sn) Map.empty) planeID (snServices sn))"

section \<open>Best-effort DNS\<close>

definition cleanupServiceDNS :: "'w service_operations \<Rightarrow> string \<Rightarrow> string \<Rightarrow> 'w \<Rightarrow> 'w" where
  "cleanupServiceDNS so planeID sid w =
     (case soSyncer so of None \<Rightarrow> w | Some sy \<Rightarrow> snd (deleteServiceDNS (syDNS sy) planeID sid w))"

definition bestEffortRefreshServiceDNS :: "'w service_operations \<Rightarrow> string \<Rightarrow> string \<Rightarrow> 'w \<Rightarrow> 'w" where
  "bestEffortRefreshServiceDNS so sid planeID0 w =
     (case soSyncer so of
        None \<Rightarrow> w
      | Some sy \<Rightarrow>
          (let planeID = trimSpace planeID0 in
           if planeID = [] then w else snd (GetPlaneSnapshotView sy planeID w)))"

section \<open>The operations\<close>

definition noFrontDoor :: cp_frontdoor where
  "noFrontDoor = \<lparr>cfCNAME = [], cfVerification = None\<rparr>"

definition CreateService ::
  "'w service_operations \<Rightarrow> nat list res \<Rightarrow> create_service_input \<Rightarrow> 'w \<Rightarrow> cp_service res \<times> 'w" where
  "CreateService so entropy i w =
     (case bindR (validateCreateServiceInput i) (\<lambda>_.
           bindR (readyPlane so (trimSpace (csPlaneID (ciSpec i)))) (\<lambda>_. newPublicID ''svc'' entropy)) of
        Inl err \<Rightarrow> (Inl err, w)
      | Inr sid \<Rightarrow>
          (let planeID = trimSpace (csPlaneID (ciSpec i));
               v = \<lparr>cpMetadata =
                      \<lparr>cmID = sid, cmName = trimSpace (ciName i), cmDisplayName = trimSpace (ciDisplayName i),
                       cmHost = serviceHostName (ciName i) (soBaseDomain so), cmGeneration = 1\<rparr>,
                    cpSpec = ciSpec i,
                    cpObserved = acceptedServiceStatus (soNow so w) 1 ''service accepted by cloud-plane'',
                    cpRun = \<lparr>rnPhase = RunPhaseDispatching,
                      rnMessage = ''service accepted by cloud-plane; waiting for node-agent execution result''\<rparr>,
                    cpFrontDoor = noFrontDoor\<rparr>
           in case sendServiceSpecToPlane so planeID v w of
                (Inl err, w1) \<Rightarrow> (Inl err, w1)
              | (Inr _, w1) \<Rightarrow> (Inr v, bestEffortRefreshServiceDNS so sid planeID w1)))"

definition ListCPServices :: "'w service_operations \<Rightarrow> 'w \<Rightarrow> cp_service list res \<times> 'w" where
  "ListCPServices so w =
     (case loadPlaneSnapshotViews so w of
        (Inl err, w1) \<Rightarrow> (Inl err, w1)
      | (Inr views, w1) \<Rightarrow>
          (Inr (concat (map (\<lambda>v. servicesFromSnapshot (soNow so w1) (plID (pvPlane v)) (pvSnapshot v)) views)), w1))"

definition GetService :: "'w service_operations \<Rightarrow> string \<Rightarrow> string \<Rightarrow> 'w \<Rightarrow> cp_service res \<times> 'w" where
  "GetService so planeID sid0 w =
     (let sid = trimSpace sid0 in
      if sid = [] then (Inl errServiceIDMissing, w)
      else
        (case loadPlaneSnapshotView so planeID w of
           (Inl err, w1) \<Rightarrow> (Inl err, w1)
         | (Inr view, w1) \<Rightarrow>
             (case List.find (\<lambda>v. cmID (cpMetadata v) = sid)
                     (servicesFromSnapshot (soNow so w1) (plID (pvPlane view)) (pvSnapshot view)) of
                Some v \<Rightarrow> (Inr v, w1)
              | None \<Rightarrow> (Inl ErrServiceNotFoundCP, w1))))"

definition nextService :: "instant \<Rightarrow> update_service_input \<Rightarrow> cp_service \<Rightarrow> cp_service" where
  "nextService now i current =
     current\<lparr>cpMetadata := (cpMetadata current)\<lparr>cmDisplayName := trimSpace (uiDisplayName i),
                              cmGeneration := goInt64 (cmGeneration (cpMetadata current) + 1)\<rparr>,
       cpSpec :=
         \<lparr>csPlaneID = trimSpace (uiPlaneID i), csInstanceClass = wsInstanceClass (uiSpec i),
          csExposure = wsExposure (uiSpec i), csImage = wsImage (uiSpec i), csCommand = wsCommand (uiSpec i),
          csArgs = wsArgs (uiSpec i), csDefaultPort = wsDefaultPort (uiSpec i),
          csReadinessPath = wsReadinessPath (uiSpec i), csEnv = wsEnv (uiSpec i)\<rparr>,
       cpObserved := acceptedServiceStatus now (goInt64 (cmGeneration (cpMetadata current) + 1))
         ''service update accepted by cloud-plane'',
       cpRun := \<lparr>rnPhase = RunPhaseDispatching,
         rnMessage = ''service update accepted by cloud-plane; waiting for node-agent execution result''\<rparr>\<rparr>"

definition UpdateService :: "'w service_operations \<Rightarrow> update_service_input \<Rightarrow> 'w \<Rightarrow> cp_service res \<times> 'w" where
  "UpdateService so i w =
     (case validateUpdateServiceInput i of
        Inl err \<Rightarrow> (Inl err, w)
      | Inr _ \<Rightarrow>
          (case GetService so (uiPlaneID i) (uiServiceID i) w of
             (Inl err, w1) \<Rightarrow> (Inl err, w1)
           | (Inr current, w1) \<Rightarrow>
               (let v = nextService (soNow so w1) i current in
                case sendServiceSpecToPlane so (uiPlaneID i) v w1 of
                  (Inl err, w2) \<Rightarrow> (Inl err, w2)
                | (Inr _, w2) \<Rightarrow>
                    (Inr v, bestEffortRefreshServiceDNS so (cmID (cpMetadata v)) (uiPlaneID i) w2))))"

definition DeleteCPService :: "'w service_operations \<Rightarrow> string \<Rightarrow> string \<Rightarrow> 'w \<Rightarrow> cp_service res \<times> 'w" where
  "DeleteCPService so planeID0 sid0 w =
     (let planeID = trimSpace planeID0; sid = trimSpace sid0 in
      if planeID = [] then (Inl errPlaneIDRequired, w)
      else if sid = [] then (Inl errServiceIDMissing, w)
      else
        (case GetService so planeID sid w of
           (Inl err, w1) \<Rightarrow> (Inl err, w1)
         | (Inr current, w1) \<Rightarrow>
             (let g = goInt64 (cmGeneration (cpMetadata current) + 1) in
              case deleteRemoteService so planeID sid g w1 of
                (Inl err, w2) \<Rightarrow>
                  if errorsIs err errPlaneObjectNotFound then
                    (Inr (current\<lparr>cpObserved := DeletingServiceStatus g ''service already absent from cloud-plane'',
                                  cpRun := PendingRunStatus ''service already absent from cloud-plane''\<rparr>),
                     cleanupServiceDNS so planeID sid w2)
                  else (Inl err, w2)
              | (Inr _, w2) \<Rightarrow>
                  (Inr (current\<lparr>cpMetadata := (cpMetadata current)\<lparr>cmGeneration := g\<rparr>,
                                cpObserved := DeletingServiceStatus g ''service deletion requested'',
                                cpRun := PendingRunStatus ''waiting for cloud-plane cleanup''\<rparr>),
                   bestEffortRefreshServiceDNS so sid planeID (cleanupServiceDNS so planeID sid w2)))))"

end
