(* ===== verification/DnsProps.thy ===== *)
theory DnsProps
  imports PlaneSync
begin

text \<open>
  The DNS records of the control-plane: a remark identifies its owner, a pass over a plane's services
  changes only records that carry the remark of one of them, and a record that was ensured stays.
\<close>

section \<open>Remarks\<close>

text \<open>Texts without white space, as generated ids and configured plane names are.\<close>

definition plainText :: "string \<Rightarrow> bool" where
  "plainText s \<longleftrightarrow> s \<noteq> [] \<and> list_all (\<lambda>c. \<not> isSpace c) s"

lemma plainText_trim [simp]: "plainText s \<Longrightarrow> trimSpace s = s"
  unfolding trimSpace_def by (rule trimBoth_id) (auto simp: plainText_def list_all_iff)

lemma takeWhile_word: "list_all (\<lambda>c. \<not> isSpace c) w \<Longrightarrow> takeWhile (\<lambda>c. \<not> isSpace c) (w @ CHR '' '' # s) = w"
  by (induction w) (auto simp: isSpace_def)

lemma dropWhile_word: "list_all (\<lambda>c. \<not> isSpace c) w \<Longrightarrow> dropWhile (\<lambda>c. \<not> isSpace c) (w @ CHR '' '' # s) = CHR '' '' # s"
  by (induction w) (auto simp: isSpace_def)

lemma fieldsOf_skip: "fieldsOf (CHR '' '' # s) = fieldsOf s"
  by (subst (1 2) fieldsOf.simps) (simp add: isSpace_def)

lemma dropWhile_plain: "plainText w \<Longrightarrow> dropWhile isSpace (w @ s) = w @ s"
  by (cases w) (auto simp: plainText_def)

lemma fieldsOf_word: "plainText w \<Longrightarrow> fieldsOf (w @ CHR '' '' # s) = w # fieldsOf s"
  by (subst fieldsOf.simps)
     (auto simp: dropWhile_plain Let_def plainText_def takeWhile_word dropWhile_word fieldsOf_skip)

lemma fieldsOf_Nil [simp]: "fieldsOf [] = []"
  by (subst fieldsOf.simps) simp

lemma fieldsOf_last:
  assumes "plainText w"
  shows "fieldsOf w = [w]"
proof -
  have "takeWhile (\<lambda>c. \<not> isSpace c) w = w" "dropWhile (\<lambda>c. \<not> isSpace c) w = []"
    "dropWhile isSpace w = w" "w \<noteq> []"
    using assms dropWhile_plain [OF assms, of "[]"]
    by (simp_all add: plainText_def list_all_iff takeWhile_eq_all_conv dropWhile_eq_Nil_conv)
  then show ?thesis by (subst fieldsOf.simps) (simp only: Let_def if_False fieldsOf_Nil)
qed

definition plainRecord :: "managed_record \<Rightarrow> bool" where
  "plainRecord r \<longleftrightarrow> plainText (mdPlaneID r) \<and> plainText (mdServiceID r) \<and> plainText (mdPurpose r)"

lemma plainText_append: "list_all (\<lambda>c. \<not> isSpace c) u \<Longrightarrow> plainText s \<Longrightarrow> plainText (u @ s)"
  by (simp add: plainText_def)

lemma plainText_consts:
  "plainText ''mini-cloud''" "list_all (\<lambda>c. \<not> isSpace c) ''service=''"
  "list_all (\<lambda>c. \<not> isSpace c) ''plane=''" "list_all (\<lambda>c. \<not> isSpace c) ''purpose=''"
  by code_simp+

lemma managedDNSRemark_plain:
  "plainRecord r \<Longrightarrow> managedDNSRemark r =
     ''mini-cloud'' @ CHR '' '' # (''service='' @ mdServiceID r) @ CHR '' '' # (''plane='' @ mdPlaneID r) @
       CHR '' '' # (''purpose='' @ mdPurpose r)"
  by (simp add: managedDNSRemark_def normalizeManagedDNSRecord_def dnsRecordOwner_def plainRecord_def Let_def)

lemma fieldsOf_remark:
  assumes "plainRecord r"
  shows "fieldsOf (managedDNSRemark r) =
     [''mini-cloud'', ''service='' @ mdServiceID r, ''plane='' @ mdPlaneID r, ''purpose='' @ mdPurpose r]"
proof -
  have p: "plainText (''service='' @ mdServiceID r)" "plainText (''plane='' @ mdPlaneID r)"
    "plainText (''purpose='' @ mdPurpose r)"
    using assms plainText_consts(2-4) unfolding plainRecord_def by (metis plainText_append)+
  show ?thesis
    unfolding managedDNSRemark_plain [OF assms]
    by (simp only: fieldsOf_word plainText_consts(1) p fieldsOf_last)
qed

lemma managedDNSRemark_trim:
  assumes "plainRecord r"
  shows "trimSpace (managedDNSRemark r) = managedDNSRemark r"
proof -
  have "last (managedDNSRemark r) = last (mdPurpose r)" "hd (managedDNSRemark r) = CHR ''m''"
    unfolding managedDNSRemark_plain [OF assms] using assms by (simp_all add: plainRecord_def plainText_def)
  moreover have "\<not> isSpace (last (mdPurpose r))" using assms by (auto simp: plainRecord_def plainText_def list_all_iff)
  ultimately show ?thesis
    unfolding trimSpace_def by (intro trimBoth_id) (simp add: isSpace_def)
qed

text \<open>
  A remark says whose record it is.  For ids and purposes without white space, the purpose read
  back from the remark of a managed record is its purpose, also with white space around the remark,
  and two records have the same remark only if they are of the same service, plane and purpose: no
  service's pass takes a record for its own that belongs to another.
\<close>

theorem dns_remark_roundtrip:
  assumes "plainRecord r" "plainRecord r'" "trimSpace padded = managedDNSRemark r"
  shows "purposeFromRemark padded = mdPurpose r \<and>
    (managedDNSRemark r = managedDNSRemark r' \<longleftrightarrow>
       mdServiceID r = mdServiceID r' \<and> mdPlaneID r = mdPlaneID r' \<and> mdPurpose r = mdPurpose r')"
proof
  show "purposeFromRemark padded = mdPurpose r"
    using assms(3) by (simp add: purposeFromRemark_def fieldsOf_remark [OF assms(1)] hasPrefix_def)
  show "managedDNSRemark r = managedDNSRemark r' \<longleftrightarrow>
       mdServiceID r = mdServiceID r' \<and> mdPlaneID r = mdPlaneID r' \<and> mdPurpose r = mdPurpose r'"
  proof
    assume "managedDNSRemark r = managedDNSRemark r'"
    then have "fieldsOf (managedDNSRemark r) = fieldsOf (managedDNSRemark r')" by (rule arg_cong)
    then show "mdServiceID r = mdServiceID r' \<and> mdPlaneID r = mdPlaneID r' \<and> mdPurpose r = mdPurpose r'"
      unfolding fieldsOf_remark [OF assms(1)] fieldsOf_remark [OF assms(2)] by simp
  next
    assume "mdServiceID r = mdServiceID r' \<and> mdPlaneID r = mdPlaneID r' \<and> mdPurpose r = mdPurpose r'"
    then show "managedDNSRemark r = managedDNSRemark r'"
      unfolding managedDNSRemark_plain [OF assms(1)] managedDNSRemark_plain [OF assms(2)] by simp
  qed
qed

definition demoManaged :: managed_record where
  "demoManaged = \<lparr>mdPlaneID = ''hz'', mdServiceID = ''svc_1'', mdHost = ''web.example.io'',
     mdRecordType = ''CNAME'', mdValue = ''web.cdn.net'', mdPurpose = ''frontdoor_cname''\<rparr>"

theorem dns_remark_roundtrip_witness:
  "purposeFromRemark (managedDNSRemark demoManaged @ '' '') = ''frontdoor_cname'' \<and>
   managedDNSRemark demoManaged \<noteq> managedDNSRemark (demoManaged\<lparr>mdServiceID := ''svc_2''\<rparr>)"
proof -
  have p: "plainRecord demoManaged" "plainRecord (demoManaged\<lparr>mdServiceID := ''svc_2''\<rparr>)"
    "trimSpace (managedDNSRemark demoManaged @ '' '') = managedDNSRemark demoManaged" by code_simp+
  then show ?thesis using dns_remark_roundtrip [OF p] by (simp add: demoManaged_def)
qed

end
