(* ===== verification/DnsSafety.thy ===== *)
theory DnsSafety
  imports PlaneSync
begin

text \<open>
  Ownership of DNS records: whatever DNSPod answers, a pass over a plane's services writes only
  records that carry the remark of one of these services, and changes or deletes only records that
  DNSPod listed with such a remark.
\<close>

section \<open>An API that also writes down its answers and the requests\<close>

datatype dns_event =
    SawRecords "dnspod_item option list"
  | MadeRecord write_request
  | ChangedRecord int write_request
  | RemovedRecord int

definition loggedDNS :: "'a dnspod_api \<Rightarrow> ('a \<times> dns_event list) dnspod_api" where
  "loggedDNS api =
     \<lparr>dpClient = (\<lambda>al. case dpClient api (fst al) of (r, a) \<Rightarrow> (r, (a, snd al))),
      dpDescribe = (\<lambda>q al. case dpDescribe api q (fst al) of
         (Inl e, a) \<Rightarrow> (Inl e, (a, snd al))
       | (Inr resp, a) \<Rightarrow> (Inr resp, (a, snd al @ [SawRecords (case resp of None \<Rightarrow> [] | Some items \<Rightarrow> items)]))),
      dpCreate = (\<lambda>w al. case dpCreate api w (fst al) of (r, a) \<Rightarrow> (r, (a, snd al @ [MadeRecord w]))),
      dpModify = (\<lambda>i w al. case dpModify api i w (fst al) of (r, a) \<Rightarrow> (r, (a, snd al @ [ChangedRecord i w]))),
      dpDelete = (\<lambda>i al. case dpDelete api i (fst al) of (r, a) \<Rightarrow> (r, (a, snd al @ [RemovedRecord i])))\<rparr>"

definition ownedRemark :: "string \<Rightarrow> string set \<Rightarrow> string \<Rightarrow> bool" where
  "ownedRemark plane S remark \<longleftrightarrow>
     (\<exists>sid\<in>S. \<exists>purpose. trimSpace remark = managedDNSRemark
        \<lparr>mdPlaneID = plane, mdServiceID = sid, mdHost = [], mdRecordType = [], mdValue = [], mdPurpose = purpose\<rparr>)"

definition listedOwned :: "string \<Rightarrow> string set \<Rightarrow> dnspod_item option list \<Rightarrow> int \<Rightarrow> bool" where
  "listedOwned plane S seen i \<longleftrightarrow>
     (\<exists>item. Some item \<in> set seen \<and> diRecordId item = Some i \<and> ownedRemark plane S (remarkOf item))"

text \<open>The events are in order; seen holds the items listed before them.\<close>

fun lawful :: "string \<Rightarrow> string set \<Rightarrow> dnspod_item option list \<Rightarrow> dns_event list \<Rightarrow> bool" where
  "lawful plane S seen [] \<longleftrightarrow> True"
| "lawful plane S seen (SawRecords items # es) \<longleftrightarrow> lawful plane S (seen @ items) es"
| "lawful plane S seen (MadeRecord w # es) \<longleftrightarrow> ownedRemark plane S (dwRemark w) \<and> lawful plane S seen es"
| "lawful plane S seen (ChangedRecord i w # es) \<longleftrightarrow>
     listedOwned plane S seen i \<and> ownedRemark plane S (dwRemark w) \<and> lawful plane S seen es"
| "lawful plane S seen (RemovedRecord i # es) \<longleftrightarrow> listedOwned plane S seen i \<and> lawful plane S seen es"

lemma lawful_mono: "lawful plane S seen es \<Longrightarrow> set seen \<subseteq> set seen' \<Longrightarrow> lawful plane S seen' es"
proof (induction plane S seen es arbitrary: seen' rule: lawful.induct)
  case (2 plane S seen items es)
  then have "set (seen @ items) \<subseteq> set (seen' @ items)" by auto
  moreover have "lawful plane S (seen @ items) es" using "2.prems"(1) by (simp only: lawful.simps)
  ultimately have "lawful plane S (seen' @ items) es" by (metis "2.IH")
  then show ?case by (simp only: lawful.simps)
qed (auto simp: listedOwned_def)

lemma lawful_append: "lawful plane S seen es \<Longrightarrow> lawful plane S [] es' \<Longrightarrow> lawful plane S seen (es @ es')"
  by (induction plane S seen es rule: lawful.induct) (auto elim: lawful_mono)

section \<open>Remarks\<close>

lemma managedDNSRemark_key:
  "managedDNSRemark r = managedDNSRemark
     \<lparr>mdPlaneID = mdPlaneID r, mdServiceID = mdServiceID r, mdHost = [], mdRecordType = [], mdValue = [], mdPurpose = mdPurpose r\<rparr>"
  by (simp add: managedDNSRemark_def normalizeManagedDNSRecord_def Let_def)

lemma managedDNSRemark_normalize [simp]: "managedDNSRemark (normalizeManagedDNSRecord r) = managedDNSRemark r"
  by (simp add: managedDNSRemark_def normalizeManagedDNSRecord_def Let_def)

lemma trimSpace_remark [simp]: "trimSpace (managedDNSRemark r) = managedDNSRemark r"
proof -
  have "\<not> isSpace (hd (managedDNSRemark r))"
    by (simp add: managedDNSRemark_def dnsRecordOwner_def Let_def isSpace_def)
  moreover have "\<not> isSpace (last (managedDNSRemark r))"
  proof (cases "trimSpace (mdPurpose r) = []")
    case True
    then show ?thesis by (simp add: managedDNSRemark_def normalizeManagedDNSRecord_def Let_def isSpace_def)
  next
    case False
    then have "last (managedDNSRemark r) = last (trimSpace (mdPurpose r))"
      by (simp add: managedDNSRemark_def normalizeManagedDNSRecord_def Let_def)
    then show ?thesis using trimBoth_last [of isSpace "mdPurpose r"] False by (simp add: trimSpace_def)
  qed
  ultimately show ?thesis unfolding trimSpace_def by (intro trimBoth_id) simp
qed

lemma ownedRemarkI: "mdPlaneID r = plane \<Longrightarrow> mdServiceID r \<in> S \<Longrightarrow> trimSpace remark = managedDNSRemark r \<Longrightarrow> ownedRemark plane S remark"
  unfolding ownedRemark_def using managedDNSRemark_key [of r] by metis

section \<open>The operations of the client\<close>

text \<open>An operation adds events that are lawful on their own.\<close>

definition adds :: "string \<Rightarrow> string set \<Rightarrow> dnspod_item option list \<Rightarrow> 'a \<times> dns_event list \<Rightarrow> 'a \<times> dns_event list \<Rightarrow> bool" where
  "adds plane S seen al al' \<longleftrightarrow> (\<exists>es. snd al' = snd al @ es \<and> lawful plane S seen es)"

lemma adds_refl [simp]: "adds plane S seen al al"
  by (simp add: adds_def)

lemma adds_trans: "adds plane S seen al al' \<Longrightarrow> adds plane S [] al' al'' \<Longrightarrow> adds plane S seen al al''"
  unfolding adds_def using lawful_append by fastforce

lemma adds_mono: "adds plane S seen al al' \<Longrightarrow> set seen \<subseteq> set seen' \<Longrightarrow> adds plane S seen' al al'"
  unfolding adds_def using lawful_mono by blast

lemma adds_saw:
  assumes "snd al1 = snd al @ [SawRecords items]" "adds plane S items al1 al2"
  shows "adds plane S [] al al2"
proof -
  obtain es where "snd al2 = snd al1 @ es" "lawful plane S items es" using assms(2) by (auto simp: adds_def)
  then show ?thesis using assms(1) by (auto simp: adds_def intro!: exI [of _ "SawRecords items # es"])
qed

definition listedIn :: "dnspod_item option list \<Rightarrow> dns_record list \<Rightarrow> bool" where
  "listedIn items records \<longleftrightarrow>
     (\<forall>d\<in>set records. \<exists>item. Some item \<in> set items \<and> diRecordId item = Some (drID d) \<and> remarkOf item = drRemark d)"

lemma listedIn_Cons: "listedIn items records \<Longrightarrow> listedIn (item # items) records"
  unfolding listedIn_def by (meson list.set_intros(2))

lemma listedIn_first:
  "listedIn (Some item # items) records \<Longrightarrow> diRecordId item = Some (drID d) \<Longrightarrow> remarkOf item = drRemark d
    \<Longrightarrow> listedIn (Some item # items) (d # records)"
  unfolding listedIn_def by (metis list.set_intros(1) set_ConsD)

lemma listedIn_Nil [simp]: "listedIn items []"
  by (simp add: listedIn_def)

lemma subdomainRecords_listed: "listedIn items (subdomainRecords sub ty items)"
proof (induction items)
  case (Cons item items)
  then have l: "listedIn (item # items) (subdomainRecords sub ty items)" by (rule listedIn_Cons)
  show ?case
  proof (cases item)
    case None
    then show ?thesis using l by simp
  next
    case (Some it)
    then show ?thesis using l by (auto intro: listedIn_first split: option.split)
  qed
qed simp

lemma domainRecords_listed: "listedIn items (domainRecords items)"
proof (induction items)
  case (Cons item items)
  then have l: "listedIn (item # items) (domainRecords items)" by (rule listedIn_Cons)
  show ?case
  proof (cases item)
    case None
    then show ?thesis using l by simp
  next
    case (Some it)
    then show ?thesis using l by (auto intro: listedIn_first split: option.split)
  qed
qed simp

lemma recordsForSubdomain_log:
  assumes "recordsForSubdomain (loggedDNS api) domain sub typ al = (r, al')"
  shows "(\<exists>e. r = Inl e \<and> snd al' = snd al) \<or>
    (\<exists>records items. r = Inr records \<and> snd al' = snd al @ [SawRecords items] \<and> listedIn items records)"
  using assms subdomainRecords_listed
  by (auto simp: recordsForSubdomain_def withDNSPod_def loggedDNS_def listItems_def listedIn_def
      split: prod.splits sum.splits option.splits)

lemma recordsForDomain_log:
  assumes "recordsForDomain (loggedDNS api) domain al = (r, al')"
  shows "(\<exists>e. r = Inl e \<and> snd al' = snd al) \<or>
    (\<exists>records items. r = Inr records \<and> snd al' = snd al @ [SawRecords items] \<and> listedIn items records)"
  using assms domainRecords_listed
  by (auto simp: recordsForDomain_def withDNSPod_def loggedDNS_def listItems_def listedIn_def
      split: prod.splits sum.splits option.splits)

lemma modifyRecord_adds:
  assumes "modifyRecord (loggedDNS api) domain i sub typ value remark al = (r, al')"
    "listedOwned plane S seen i" "ownedRemark plane S remark"
  shows "adds plane S seen al al'"
  using assms by (auto simp: modifyRecord_def withDNSPod_def loggedDNS_def adds_def writeRequest_def
      split: prod.splits sum.splits)

lemma createRecord_adds:
  assumes "createRecord (loggedDNS api) domain sub typ value remark al = (r, al')" "ownedRemark plane S remark"
  shows "adds plane S seen al al'"
  using assms by (auto simp: createRecord_def withDNSPod_def loggedDNS_def adds_def writeRequest_def
      split: prod.splits sum.splits)

lemma deleteRecord_adds:
  assumes "deleteRecord (loggedDNS api) i al = (r, al')" "listedOwned plane S seen i"
  shows "adds plane S seen al al'"
  using assms by (auto simp: deleteRecord_def withDNSPod_def loggedDNS_def adds_def split: prod.splits sum.splits)

lemma ensureAgainst_adds:
  assumes "ensureAgainstExistingRecords (loggedDNS api) domain sub r records al = (e, al')"
    "listedIn items records" "mdPlaneID r = plane" "mdServiceID r \<in> S"
  shows "adds plane S items al al'"
proof (cases records)
  case Nil
  then show ?thesis using assms(1) by (simp add: ensureAgainstExistingRecords_def)
next
  case (Cons d ds)
  show ?thesis
  proof (cases "dnsRecordOwnedBy (drRemark d) r")
    case False
    then show ?thesis using assms(1) Cons by (simp add: ensureAgainstExistingRecords_def)
  next
    case True
    have "listedOwned plane S items (drID d)"
      using assms(2) Cons ownedRemarkI [OF assms(3,4)] True
      by (fastforce simp: listedIn_def listedOwned_def dnsRecordOwnedBy_def)
    moreover have "ownedRemark plane S (managedDNSRemark r)" using ownedRemarkI [OF assms(3,4)] by simp
    ultimately show ?thesis
      using assms(1) Cons True by (auto simp: ensureAgainstExistingRecords_def dest: modifyRecord_adds split: if_splits)
  qed
qed

lemma deleteOwned_adds:
  assumes "deleteOwned (loggedDNS api) due records al = (e, al')" "listedIn items records"
    "\<And>d. d \<in> set records \<Longrightarrow> due d \<Longrightarrow> ownedRemark plane S (drRemark d)"
  shows "\<exists>es. snd al' = snd al @ es \<and> lawful plane S items es"
  using assms
proof (induction records arbitrary: al)
  case Nil
  then show ?case by simp
next
  case (Cons d ds)
  have ds: "listedIn items ds" using Cons.prems(2) by (simp add: listedIn_def)
  show ?case
  proof (cases "due d")
    case False
    then show ?thesis using Cons.IH [OF _ ds] Cons.prems(1,3) by auto
  next
    case True
    obtain r1 al1 where 1: "deleteRecord (loggedDNS api) (drID d) al = (r1, al1)" by (metis prod.exhaust)
    have lo: "listedOwned plane S items (drID d)"
      using Cons.prems(2) Cons.prems(3) [of d] True by (fastforce simp: listedIn_def listedOwned_def)
    have log1: "snd al1 = snd al \<or> snd al1 = snd al @ [RemovedRecord (drID d)]"
      using 1 by (auto simp: deleteRecord_def withDNSPod_def loggedDNS_def split: prod.splits sum.splits)
    show ?thesis
    proof (cases r1)
      case (Inl er)
      then show ?thesis using Cons.prems(1) True 1 log1 lo by auto
    next
      case (Inr u)
      then have "deleteOwned (loggedDNS api) due ds al1 = (e, al')" using Cons.prems(1) True 1 by simp
      then have "\<exists>es. snd al' = snd al1 @ es \<and> lawful plane S items es"
        using Cons.prems(3) by (intro Cons.IH ds) auto
      then obtain es where "snd al' = snd al1 @ es" "lawful plane S items es" by blast
      note es = this
      show ?thesis
      proof (rule disjE [OF log1])
        assume "snd al1 = snd al"
        then show ?thesis using es by auto
      next
        assume "snd al1 = snd al @ [RemovedRecord (drID d)]"
        then show ?thesis using es lo by (auto intro!: exI [of _ "RemovedRecord (drID d) # es"])
      qed
    qed
  qed
qed

section \<open>The exported operations\<close>

lemma normalized_key [simp]:
  "mdPlaneID (normalizeManagedDNSRecord r) = trimSpace (mdPlaneID r)"
  "mdServiceID (normalizeManagedDNSRecord r) = trimSpace (mdServiceID r)"
  by (simp_all add: normalizeManagedDNSRecord_def Let_def)

lemma recordsForSubdomain_adds:
  assumes "recordsForSubdomain (loggedDNS api) domain sub ty al = (r, al1)"
  shows "(\<exists>e. r = Inl e \<and> adds plane S [] al al1) \<or>
    (\<exists>records items. r = Inr records \<and> snd al1 = snd al @ [SawRecords items] \<and> listedIn items records)"
  using recordsForSubdomain_log [OF assms] by (auto simp: adds_def)

lemma recordsForDomain_adds:
  assumes "recordsForDomain (loggedDNS api) domain al = (r, al1)"
  shows "(\<exists>e. r = Inl e \<and> adds plane S [] al al1) \<or>
    (\<exists>records items. r = Inr records \<and> snd al1 = snd al @ [SawRecords items] \<and> listedIn items records)"
  using recordsForDomain_log [OF assms] by (auto simp: adds_def)

lemma ensureListed_adds:
  assumes "snd al1 = snd al @ [SawRecords items]" "listedIn items records"
    "ensureAgainstExistingRecords (loggedDNS api) domain sub r records al1 = (e, al2)"
    "mdPlaneID r = plane" "mdServiceID r \<in> S"
  shows "adds plane S [] al al2"
  using adds_saw [OF assms(1) ensureAgainst_adds [OF assms(3,2,4,5)]] .

text \<open>The second half of EnsureRecord: the record has to be made.\<close>

lemma createBranch_adds:
  assumes "(case createRecord (loggedDNS api) domain sub ty v (managedDNSRemark r) al of
       (Inr _, a3) \<Rightarrow> (Inr (), a3)
     | (Inl err, a3) \<Rightarrow>
         if \<not> isDNSPodRecordAlreadyExists err then (Inl err, a3)
         else (case recordsForSubdomain (loggedDNS api) domain sub ty' a3 of
                 (Inl listErr, a4) \<Rightarrow> (Inl listErr, a4)
               | (Inr records', a4) \<Rightarrow> ensureAgainstExistingRecords (loggedDNS api) domain sub r records' a4)) = (e, al')"
    "mdPlaneID r = plane" "mdServiceID r \<in> S"
  shows "adds plane S [] al al'"
proof -
  obtain r3 al3 where c: "createRecord (loggedDNS api) domain sub ty v (managedDNSRemark r) al = (r3, al3)"
    by (metis prod.exhaust)
  have 3: "adds plane S [] al al3" using createRecord_adds [OF c] ownedRemarkI [OF assms(2,3)] by simp
  obtain r4 al4 where l: "recordsForSubdomain (loggedDNS api) domain sub ty' al3 = (r4, al4)" by (metis prod.exhaust)
  show ?thesis
  proof (cases r3)
    case (Inr u)
    then show ?thesis using assms(1) c 3 by simp
  next
    case (Inl er)
    show ?thesis
    proof (cases "isDNSPodRecordAlreadyExists er")
      case False
      then show ?thesis using assms(1) c 3 Inl by simp
    next
      case True
      from recordsForSubdomain_adds [OF l, of plane S] show ?thesis
      proof (elim disjE exE conjE)
        fix er assume "r4 = Inl er" "adds plane S [] al3 al4"
        then show ?thesis using assms(1) c Inl True l adds_trans [OF 3] by simp
      next
        fix records items
        assume "r4 = Inr records" "snd al4 = snd al3 @ [SawRecords items]" "listedIn items records"
        then show ?thesis using assms c Inl True l adds_trans [OF 3] by (simp add: ensureListed_adds)
      qed
    qed
  qed
qed

lemma EnsureRecord_adds:
  assumes "EnsureRecord (loggedDNS api) domain r0 al = (e, al')"
    "trimSpace (mdPlaneID r0) = plane" "trimSpace (mdServiceID r0) \<in> S"
  shows "adds plane S [] al al'"
proof -
  define r where "r = normalizeManagedDNSRecord r0"
  have r: "mdPlaneID r = plane" "mdServiceID r \<in> S" using assms(2,3) by (simp_all add: r_def)
  note E = assms(1) [unfolded EnsureRecord_def Let_def, folded r_def]
  show ?thesis
  proof (cases "bindR (validateManagedDNSRecord r) (\<lambda>_. dnsSubdomain domain (mdHost r))")
    case (Inl er)
    then show ?thesis using E by simp
  next
    case (Inr sub)
    obtain r1 al1 where l: "recordsForSubdomain (loggedDNS api) domain sub (mdRecordType r) al = (r1, al1)"
      by (metis prod.exhaust)
    from recordsForSubdomain_adds [OF l, of plane S] show ?thesis
    proof (elim disjE exE conjE)
      fix er assume "r1 = Inl er" "adds plane S [] al al1"
      then show ?thesis using E Inr l by simp
    next
      fix records items
      assume r1: "r1 = Inr records" and saw: "snd al1 = snd al @ [SawRecords items]" and li: "listedIn items records"
      obtain e2 al2 where 2: "ensureAgainstExistingRecords (loggedDNS api) domain sub r records al1 = (e2, al2)"
        by (metis prod.exhaust)
      have a2: "adds plane S [] al al2" by (rule ensureListed_adds [OF saw li 2 r])
      show ?thesis
      proof (cases "e2 = Inl errDNSRecordMissing")
        case False
        then show ?thesis using E Inr l r1 2 a2 by simp
      next
        case True
        have "adds plane S [] al2 al'"
          by (rule createBranch_adds [OF _ r]) (use E Inr l r1 2 True in simp)
        then show ?thesis by (rule adds_trans [OF a2])
      qed
    qed
  qed
qed

lemma deleteListed_adds:
  assumes "snd al1 = snd al @ [SawRecords items]" "listedIn items records"
    "deleteOwned (loggedDNS api) due records al1 = (e, al2)"
    "\<And>d. d \<in> set records \<Longrightarrow> due d \<Longrightarrow> ownedRemark plane S (drRemark d)"
  shows "adds plane S [] al al2"
  by (rule adds_saw [OF assms(1)]) (use deleteOwned_adds [OF assms(3,2,4)] in \<open>simp add: adds_def\<close>)

lemma DeleteRecord_adds:
  assumes "DeleteRecord (loggedDNS api) domain r0 al = (e, al')"
    "trimSpace (mdPlaneID r0) = plane" "trimSpace (mdServiceID r0) \<in> S"
  shows "adds plane S [] al al'"
proof -
  define r where "r = normalizeManagedDNSRecord r0"
  have r: "mdPlaneID r = plane" "mdServiceID r \<in> S" using assms(2,3) by (simp_all add: r_def)
  note E = assms(1) [unfolded DeleteRecord_def Let_def, folded r_def]
  have due: "dueForDelete r d \<Longrightarrow> ownedRemark plane S (drRemark d)" for d
    by (rule ownedRemarkI [OF r]) (simp add: dueForDelete_def dnsRecordOwnedBy_def)
  show ?thesis
  proof (cases "bindR (validateManagedDNSRecord r) (\<lambda>_. dnsSubdomain domain (mdHost r))")
    case (Inl er)
    then show ?thesis using E by simp
  next
    case (Inr sub)
    obtain r1 al1 where l: "recordsForSubdomain (loggedDNS api) domain sub (mdRecordType r) al = (r1, al1)"
      by (metis prod.exhaust)
    from recordsForSubdomain_adds [OF l, of plane S] show ?thesis
    proof (elim disjE exE conjE)
      fix er assume "r1 = Inl er" "adds plane S [] al al1"
      then show ?thesis using E Inr l by simp
    next
      fix records items
      assume "r1 = Inr records" and saw: "snd al1 = snd al @ [SawRecords items]" and li: "listedIn items records"
      then have "deleteOwned (loggedDNS api) (dueForDelete r) records al1 = (e, al')" using E Inr l by simp
      then show ?thesis using due by (rule deleteListed_adds [OF saw li])
    qed
  qed
qed

lemma ownedBy_service:
  "dueForService domain planeID sid p d \<Longrightarrow> planeID = plane \<Longrightarrow> sid \<in> S \<Longrightarrow> ownedRemark plane S (drRemark d)"
  unfolding dueForService_def dnsRecordOwnedBy_def ownedRemark_def
  by (elim conjE) (metis managedDNSRemark_key managed_record.select_convs(1,2))

lemma DeleteServiceRecords_adds:
  assumes "DeleteServiceRecords (loggedDNS api) domain planeID serviceID purpose al = (e, al')"
    "trimSpace planeID = plane" "trimSpace serviceID \<in> S"
  shows "adds plane S [] al al'"
proof (cases "trimSpace planeID = [] \<or> trimSpace serviceID = []")
  case True
  then show ?thesis using assms(1) by (simp add: DeleteServiceRecords_def Let_def)
next
  case False
  have due: "dueForService domain (trimSpace planeID) (trimSpace serviceID) p d \<Longrightarrow> ownedRemark plane S (drRemark d)" for p d
    using assms(2,3) by (elim ownedBy_service) simp_all
  obtain r1 al1 where l: "recordsForDomain (loggedDNS api) domain al = (r1, al1)" by (metis prod.exhaust)
  from recordsForDomain_adds [OF l, of plane S] show ?thesis
  proof (elim disjE exE conjE)
    fix er assume "r1 = Inl er" "adds plane S [] al al1"
    then show ?thesis using assms(1) False l by (simp add: DeleteServiceRecords_def Let_def)
  next
    fix records items
    assume "r1 = Inr records" and saw: "snd al1 = snd al @ [SawRecords items]" and li: "listedIn items records"
    then have "deleteOwned (loggedDNS api) (dueForService domain (trimSpace planeID) (trimSpace serviceID) (trimSpace purpose))
      records al1 = (e, al')" using assms(1) False l by (simp add: DeleteServiceRecords_def Let_def)
    then show ?thesis using due by (rule deleteListed_adds [OF saw li])
  qed
qed

section \<open>What the syncer needs of a DNS client\<close>

lemma verificationRecord_key:
  "mdPlaneID (verificationRecord planeID item) = planeID" "mdServiceID (verificationRecord planeID item) = psServiceId item"
  by (simp_all add: verificationRecord_def)

text \<open>
  The calls of a plane's passes: every operation on a record of one of its services keeps P.
\<close>

locale dns_contract =
  fixes dns :: "'w dns_client" and plane :: string and S :: "string set" and P :: "'w \<Rightarrow> bool"
  assumes ensure_keeps: "P w \<Longrightarrow> trimSpace (mdPlaneID r) = plane \<Longrightarrow> trimSpace (mdServiceID r) \<in> S
      \<Longrightarrow> dcEnsureRecord dns r w = (e, w') \<Longrightarrow> P w'"
    and delete_keeps: "P w \<Longrightarrow> trimSpace (mdPlaneID r) = plane \<Longrightarrow> trimSpace (mdServiceID r) \<in> S
      \<Longrightarrow> dcDeleteRecord dns r w = (e, w') \<Longrightarrow> P w'"
    and service_keeps: "P w \<Longrightarrow> trimSpace planeID = plane \<Longrightarrow> trimSpace sid \<in> S
      \<Longrightarrow> dcDeleteServiceRecords dns planeID sid purpose w = (e, w') \<Longrightarrow> P w'"
begin

lemma verification_keeps:
  assumes "P w" "trimSpace planeID = plane" "trimSpace (psServiceId item) \<in> S"
    "(if hasVerification item then dcEnsureRecord dns (verificationRecord planeID item) w else (Inr (), w)) = (e, w')"
  shows "P w'"
  using assms ensure_keeps [OF assms(1), of "verificationRecord planeID item"]
  by (simp add: verificationRecord_key split: if_splits)

lemma cleanup_keeps:
  assumes "P w" "trimSpace planeID = plane" "trimSpace (psServiceId item) \<in> S"
    "(if hasVerification item then dcDeleteRecord dns (verificationRecord planeID item) w
      else dcDeleteServiceRecords dns planeID (psServiceId item) purposeVerification w) = (e, w')"
  shows "P w'"
  using assms delete_keeps [OF assms(1), of "verificationRecord planeID item"] service_keeps [OF assms(1)]
  by (simp add: verificationRecord_key split: if_splits)

lemma service_pass_keeps:
  assumes "P w" "trimSpace planeID = plane" "trimSpace (psServiceId item) \<in> S"
    "syncServiceDNS dns planeID item w = (err, w')"
  shows "P w'"
proof (cases "skipDNS item")
  case True
  then show ?thesis using assms by (simp add: syncServiceDNS_def)
next
  case False
  obtain e1 w1 where 1: "(if hasVerification item then dcEnsureRecord dns (verificationRecord planeID item) w
      else (Inr (), w)) = (e1, w1)" by (metis prod.exhaust)
  obtain e2 w2 where 2: "dcEnsureRecord dns (cnameRecord planeID item) w1 = (e2, w2)" by (metis prod.exhaust)
  obtain e3 w3 where 3: "(if hasVerification item then dcDeleteRecord dns (verificationRecord planeID item) w2
      else dcDeleteServiceRecords dns planeID (psServiceId item) purposeVerification w2) = (e3, w3)" by (metis prod.exhaust)
  have P1: "P w1" using verification_keeps [OF assms(1-3) 1] .
  have P2: "P w2" using ensure_keeps [OF P1 _ _ 2] assms(2,3) by (simp add: cnameRecord_def)
  have P3: "P w3" using cleanup_keeps [OF P2 assms(2,3) 3] .
  have "w' \<in> {w1, w2, w3}" using assms(4) False 1 2 3 by (auto simp: syncServiceDNS_def split: sum.splits if_splits)
  then show ?thesis using P1 P2 P3 by auto
qed

lemma pass_keeps:
  assumes "P w" "trimSpace planeID = plane" "\<And>item. Some item \<in> set items \<Longrightarrow> trimSpace (psServiceId item) \<in> S"
    "syncServicesDNS dns planeID items w = (err, w')"
  shows "P w'"
  using assms
proof (induction items arbitrary: w)
  case (Cons i items)
  show ?case
  proof (cases i)
    case None
    then show ?thesis using Cons by auto
  next
    case (Some item)
    obtain e1 w1 where 1: "syncServiceDNS dns planeID item w = (e1, w1)" by (metis prod.exhaust)
    have "P w1" using service_pass_keeps [OF Cons.prems(1,2) _ 1] Cons.prems(3) Some by simp
    then show ?thesis using Cons.IH [of w1] Cons.prems Some 1 by (auto split: option.splits)
  qed
qed simp

end

interpretation dnsPod: dns_contract "dnsPodClient (loggedDNS api) domain" plane S "adds plane S [] al"
  for api domain plane S al
proof
  show "adds plane S [] al w'" if "adds plane S [] al w" "trimSpace (mdPlaneID r) = plane" "trimSpace (mdServiceID r) \<in> S"
    "dcEnsureRecord (dnsPodClient (loggedDNS api) domain) r w = (e, w')" for w r e w'
    by (rule adds_trans [OF that(1) EnsureRecord_adds [OF that(4) [unfolded dnsPodClient_def dns_client.select_convs] that(2,3)]])
  show "adds plane S [] al w'" if "adds plane S [] al w" "trimSpace (mdPlaneID r) = plane" "trimSpace (mdServiceID r) \<in> S"
    "dcDeleteRecord (dnsPodClient (loggedDNS api) domain) r w = (e, w')" for w r e w'
    by (rule adds_trans [OF that(1) DeleteRecord_adds [OF that(4) [unfolded dnsPodClient_def dns_client.select_convs] that(2,3)]])
  show "adds plane S [] al w'" if "adds plane S [] al w" "trimSpace planeID = plane" "trimSpace sid \<in> S"
    "dcDeleteServiceRecords (dnsPodClient (loggedDNS api) domain) planeID sid purpose w = (e, w')" for w planeID sid purpose e w'
    by (rule adds_trans [OF that(1) DeleteServiceRecords_adds [OF that(4) [unfolded dnsPodClient_def dns_client.select_convs] that(2,3)]])
qed

text \<open>
  C11: The control-plane changes only DNS records it owns.  Whatever DNSPod answers, and with every
  failure on the way, a pass over the services of a plane creates only records with the remark of one
  of these services on this plane, and modifies or deletes only records that DNSPod has listed
  earlier in the pass with such a remark.
\<close>

theorem dns_touches_only_owned:
  fixes api :: "'a dnspod_api"
  assumes "syncFrontDoorDNS (Some (dnsPodClient (loggedDNS api) domain)) planeID items al = (err, al')"
  shows "\<exists>es. snd al' = snd al @ es \<and>
     lawful (trimSpace planeID) {trimSpace (psServiceId item) |item. Some item \<in> set items} [] es"
proof -
  let ?S = "{trimSpace (psServiceId item) |item. Some item \<in> set items}"
  have "syncServicesDNS (dnsPodClient (loggedDNS api) domain) planeID items al = (err, al')"
    using assms by (simp add: syncFrontDoorDNS_def)
  then have "adds (trimSpace planeID) ?S [] al al'" by (rule dnsPod.pass_keeps [OF adds_refl refl, rotated]) auto
  then show ?thesis by (simp add: adds_def)
qed

section \<open>A zone, and a pass that works\<close>

text \<open>DNSPod as a list of records: enough of its documented behaviour for a run of the client.\<close>

definition zoneMatches :: "describe_request \<Rightarrow> dnspod_item \<Rightarrow> bool" where
  "zoneMatches q item \<longleftrightarrow>
     (dqSubdomain q = None \<or> diName item = dqSubdomain q) \<and> (dqRecordType q = None \<or> diType item = dqRecordType q)"

definition zoneItem :: "int \<Rightarrow> write_request \<Rightarrow> dnspod_item" where
  "zoneItem i w = \<lparr>diRecordId = Some i, diName = Some (dwSubDomain w), diType = Some (dwRecordType w),
     diValue = Some (dwValue w), diRemark = Some (dwRemark w)\<rparr>"

definition zoneDNS :: "dnspod_item list dnspod_api" where
  "zoneDNS =
     \<lparr>dpClient = (\<lambda>zone. (Inr (), zone)),
      dpDescribe = (\<lambda>q zone. (Inr (Some (map Some (filter (zoneMatches q) zone))), zone)),
      dpCreate = (\<lambda>w zone. (Inr (), zone @ [zoneItem (int (length zone) + 1) w])),
      dpModify = (\<lambda>i w zone. (Inr (), map (\<lambda>d. if diRecordId d = Some i then zoneItem i w else d) zone)),
      dpDelete = (\<lambda>i zone. (Inr (), filter (\<lambda>d. diRecordId d \<noteq> Some i) zone))\<rparr>"

definition demoDNSService :: plane_service where
  "demoDNSService =
     \<lparr>psServiceId = ''s1'', psName = ''web'', psDisplayName = ''web'', psHost = ''web.e.io'', psGeneration = 1,
      psDesiredState = ''running'', psUpdatedAt = None, psInstanceClass = ''small'', psExposure = ''public'',
      psImage = ''i'', psCommand = [], psArgs = [], psEnv = [], psContainerPort = 80, psReadinessPath = [],
      psFrontdoorCname = ''c.net'', psFrontdoorVerifySubdomain = ''v.e.io'', psFrontdoorVerifyType = ''TXT'',
      psFrontdoorVerifyValue = ''x''\<rparr>"

definition demoForeign :: dnspod_item where
  "demoForeign = \<lparr>diRecordId = Some 1, diName = Some ''mail'', diType = Some ''CNAME'', diValue = Some ''m.net'', diRemark = None\<rparr>"

definition demoPass :: "goerr option \<times> (dnspod_item list \<times> dns_event list)" where
  "demoPass = syncFrontDoorDNS (Some (dnsPodClient (loggedDNS zoneDNS) ''e.io'')) ''hz'' [None, Some demoDNSService] ([demoForeign], [])"

theorem dns_touches_only_owned_witness:
  "fst demoPass = None \<and> map diName (fst (snd demoPass)) = [Some ''mail'', Some ''web''] \<and>
   (\<exists>es. snd (snd demoPass) = [] @ es \<and> length es = 6 \<and> lawful ''hz'' {''s1''} [] es)"
proof -
  have v: "fst demoPass = None" "map diName (fst (snd demoPass)) = [Some ''mail'', Some ''web'']" "length (snd (snd demoPass)) = 6"
    by code_simp+
  have "trimSpace ''hz'' = ''hz''" "trimSpace (psServiceId demoDNSService) = ''s1''" by code_simp+
  then have s: "{trimSpace (psServiceId item) |item. Some item \<in> set [None, Some demoDNSService]} = {''s1''}" "trimSpace ''hz'' = ''hz''"
    by auto
  have "syncFrontDoorDNS (Some (dnsPodClient (loggedDNS zoneDNS) ''e.io'')) ''hz'' [None, Some demoDNSService] ([demoForeign], [])
      = (fst demoPass, snd demoPass)" by (simp add: demoPass_def)
  from dns_touches_only_owned [OF this, unfolded s] show ?thesis using v by auto
qed

end
