(* ===== verification/ControlPlane.thy ===== *)
theory ControlPlane
  imports ServiceOps
begin

text \<open>
  internal/controlplane/config/config.go and the wiring in internal/controlplane/app.go: from a
  configuration file to the catalogue, the syncer and the service operations.  Reading the file and
  decoding the YAML are parameters.
\<close>

section \<open>config.go\<close>

record southbound_tls =
  tlsCACert :: string
  tlsCert :: string
  tlsKey :: string

record control_config =
  gcPath :: string
  gcHTTPAddr :: string
  gcUIDir :: string
  gcAdminToken :: string
  gcSouthboundToken :: string
  gcSouthboundTLS :: southbound_tls
  gcServiceBaseDomain :: string
  gcDNSPodDomain :: string
  gcPlanes :: "configured_plane list"

definition normalizePlane :: "configured_plane \<Rightarrow> configured_plane" where
  "normalizePlane g =
     \<lparr>gpID = trimSpace (gpID g), gpName = trimSpace (gpName g),
      gpDisplayName = (if trimSpace (gpDisplayName g) = [] then trimSpace (gpName g) else trimSpace (gpDisplayName g)),
      gpProvider = toLower (trimSpace (gpProvider g)), gpRegion = trimSpace (gpRegion g),
      gpGRPCEndpoint = trimSpace (gpGRPCEndpoint g)\<rparr>"

definition normalizeControlConfig :: "control_config \<Rightarrow> control_config" where
  "normalizeControlConfig c =
     c\<lparr>gcHTTPAddr := (if trimSpace (gcHTTPAddr c) = [] then '':8080'' else trimSpace (gcHTTPAddr c)),
       gcUIDir := (if trimSpace (gcUIDir c) = [] then ''web/dist'' else trimSpace (gcUIDir c)),
       gcAdminToken := trimSpace (gcAdminToken c),
       gcSouthboundToken := trimSpace (gcSouthboundToken c),
       gcSouthboundTLS :=
         \<lparr>tlsCACert = trimSpace (tlsCACert (gcSouthboundTLS c)), tlsCert = trimSpace (tlsCert (gcSouthboundTLS c)),
          tlsKey = trimSpace (tlsKey (gcSouthboundTLS c))\<rparr>,
       gcServiceBaseDomain := cleanDomain (gcServiceBaseDomain c),
       gcDNSPodDomain := cleanDomain (gcDNSPodDomain c),
       gcPlanes := map normalizePlane (gcPlanes c)\<rparr>"

definition validatePlane :: "configured_plane \<Rightarrow> string set \<Rightarrow> string set \<Rightarrow> unit res" where
  "validatePlane g seenIDs seenNames =
     (let q = ''plane '' @ goQuote (gpID g) in
      if \<not> nonBlank (gpID g) then Inl (Errorf ''planes.id is required'')
      else if gpID g \<in> seenIDs then Inl (Errorf (''duplicate plane id '' @ goQuote (gpID g)))
      else if \<not> nonBlank (gpName g) then Inl (Errorf (q @ '' name is required''))
      else if gpName g \<in> seenNames then Inl (Errorf (''duplicate plane name '' @ goQuote (gpName g)))
      else if gpProvider g \<noteq> ''aliyun'' \<and> gpProvider g \<noteq> ''tencent'' then
        Inl (Errorf (q @ '' provider must be aliyun or tencent''))
      else if \<not> nonBlank (gpRegion g) then Inl (Errorf (q @ '' region is required''))
      else if \<not> nonBlank (gpGRPCEndpoint g) then Inl (Errorf (q @ '' grpcEndpoint is required''))
      else if hasWhitespace (gpGRPCEndpoint g) then
        Inl (Errorf (q @ '' grpcEndpoint must not contain whitespace''))
      else if hasPrefix (toLower (gpGRPCEndpoint g)) ''http://'' \<or> hasPrefix (toLower (gpGRPCEndpoint g)) ''https://'' then
        Inl (Errorf (q @ '' grpcEndpoint must be a gRPC target, not an HTTP URL''))
      else Inr ())"

fun validatePlanes :: "configured_plane list \<Rightarrow> string set \<Rightarrow> string set \<Rightarrow> unit res" where
  "validatePlanes [] seenIDs seenNames = Inr ()"
| "validatePlanes (g # gs) seenIDs seenNames =
     (case validatePlane g seenIDs seenNames of
        Inl err \<Rightarrow> Inl err
      | Inr _ \<Rightarrow> validatePlanes gs (insert (gpID g) seenIDs) (insert (gpName g) seenNames))"

definition validateControlConfig :: "control_config \<Rightarrow> unit res" where
  "validateControlConfig c =
     (if \<not> nonBlank (gcAdminToken c) then Inl (Errorf ''auth.adminToken is required'')
      else if \<not> nonBlank (gcSouthboundToken c) then Inl (Errorf ''auth.southboundToken is required'')
      else if \<not> nonBlank (tlsCACert (gcSouthboundTLS c)) then Inl (Errorf ''auth.southboundTLS.caCert is required'')
      else if \<not> nonBlank (tlsCert (gcSouthboundTLS c)) then Inl (Errorf ''auth.southboundTLS.cert is required'')
      else if \<not> nonBlank (tlsKey (gcSouthboundTLS c)) then Inl (Errorf ''auth.southboundTLS.key is required'')
      else if \<not> nonBlank (gcServiceBaseDomain c) then Inl (Errorf ''dns.serviceBaseDomain is required'')
      else if \<not> nonBlank (gcDNSPodDomain c) then Inl (Errorf ''dns.dnspod.domain is required'')
      else if gcPlanes c = [] then Inl (Errorf ''planes is required'')
      else validatePlanes (gcPlanes c) {} {})"

definition loadControlConfig ::
  "(string \<Rightarrow> string res) \<Rightarrow> (string \<Rightarrow> control_config res) \<Rightarrow> string \<Rightarrow> control_config res" where
  "loadControlConfig readFile decodeYAML path0 =
     (let path = trimSpace path0 in
      if path = [] then Inl (Errorf ''config path is required'')
      else (case readFile path of
              Inl err \<Rightarrow> Inl (wrap ''read config file'' err)
            | Inr raw \<Rightarrow>
                (case decodeYAML raw of
                   Inl err \<Rightarrow> Inl (wrap ''parse config file'' err)
                 | Inr cfg0 \<Rightarrow>
                     (let cfg = normalizeControlConfig (cfg0\<lparr>gcPath := path\<rparr>) in
                      bindR (validateControlConfig cfg) (\<lambda>_. Inr cfg)))))"

section \<open>app.go\<close>

text \<open>What the control-plane is connected to: the gRPC stubs, DNSPod, the clock and the caller's context.\<close>

record 'w surroundings =
  suRPC :: "'w plane_rpc"
  suDNS :: "string \<Rightarrow> 'w dns_client"
  suClientTLS :: "southbound_tls \<Rightarrow> string \<Rightarrow> unit res"
  suNow :: "'w \<Rightarrow> instant"
  suCtxErr :: "'w \<Rightarrow> goerr option"

definition NewPlaneSyncer ::
  "'w surroundings \<Rightarrow> plane_catalog \<Rightarrow> string \<Rightarrow> southbound_tls \<Rightarrow> 'w dns_client \<Rightarrow> 'w plane_syncer" where
  "NewPlaneSyncer su planes token tls dns =
     \<lparr>syPlanes = Some planes, syToken = trimSpace token, syClientTLS = suClientTLS su tls, syDNS = Some dns,
      syRPC = suRPC su, syNow = suNow su, syCtxErr = suCtxErr su\<rparr>"

definition NewServiceOperations ::
  "'w surroundings \<Rightarrow> plane_catalog \<Rightarrow> string \<Rightarrow> southbound_tls \<Rightarrow> string \<Rightarrow> 'w plane_syncer \<Rightarrow> 'w service_operations" where
  "NewServiceOperations su planes token tls baseDomain syncer =
     \<lparr>soCatalog = Some planes, soBaseDomain = cleanDomain baseDomain, soToken = trimSpace token,
      soClientTLS = suClientTLS su tls, soSyncer = Some syncer, soRPC = suRPC su, soNow = suNow su\<rparr>"

definition buildControlPlane ::
  "'w surroundings \<Rightarrow> control_config \<Rightarrow> ('w plane_syncer \<times> 'w service_operations) res" where
  "buildControlPlane su cfg =
     bindR (NewPlaneCatalog (gcPlanes cfg)) (\<lambda>planes.
     bindR (newDNSPodClient (gcDNSPodDomain cfg)) (\<lambda>domain.
       let sy = NewPlaneSyncer su planes (gcSouthboundToken cfg) (gcSouthboundTLS cfg) (suDNS su domain)
       in Inr (sy, NewServiceOperations su planes (gcSouthboundToken cfg) (gcSouthboundTLS cfg)
                     (gcServiceBaseDomain cfg) sy)))"

section \<open>The catalogue\<close>

definition listed_plane_ok :: "plane_detail \<Rightarrow> bool" where
  "listed_plane_ok p \<longleftrightarrow>
     plID p \<noteq> [] \<and> trimSpace (plID p) = plID p \<and> plGRPCEndpoint p \<noteq> [] \<and>
     trimSpace (plGRPCEndpoint p) = plGRPCEndpoint p \<and> pstStatus (plStatus p) = PlaneSyncing"

definition catalog_ok :: "plane_catalog \<Rightarrow> bool" where
  "catalog_ok c \<longleftrightarrow>
     (\<forall>k p. ctByID c k = Some p \<longleftrightarrow> p \<in> set (ctPlanes c) \<and> plID p = k) \<and>
     (\<forall>p\<in>set (ctPlanes c). listed_plane_ok p) \<and> distinct (map plID (ctPlanes c))"

lemma catalog_ok_add:
  assumes "catalog_ok c" "ctByID c (plID p) = None" "listed_plane_ok p"
  shows "catalog_ok \<lparr>ctPlanes = ctPlanes c @ [p], ctByID = (ctByID c)(plID p \<mapsto> p)\<rparr>"
proof -
  have other: "q \<in> set (ctPlanes c) \<Longrightarrow> plID q \<noteq> plID p" for q
    using assms(1,2) unfolding catalog_ok_def by (metis option.distinct(1))
  then have "plID p \<notin> plID ` set (ctPlanes c)" by force
  then show ?thesis using assms other unfolding catalog_ok_def by auto
qed

lemma configuredDetail_sel:
  "trimSpace (plID (configuredDetail g)) = plID (configuredDetail g)"
  "trimSpace (plGRPCEndpoint (configuredDetail g)) = plGRPCEndpoint (configuredDetail g)"
  "pstStatus (plStatus (configuredDetail g)) = PlaneSyncing"
  by (simp_all add: configuredDetail_def)

lemma catalogLoop_ok: "catalogLoop gs c = Inr c' \<Longrightarrow> catalog_ok c \<Longrightarrow> catalog_ok c'"
proof (induction gs arbitrary: c)
  case (Cons g gs)
  have new: "ctByID c (plID (configuredDetail g)) = None" "listed_plane_ok (configuredDetail g)"
    and rest: "catalogLoop gs \<lparr>ctPlanes = ctPlanes c @ [configuredDetail g],
       ctByID = (ctByID c)(plID (configuredDetail g) \<mapsto> configuredDetail g)\<rparr> = Inr c'"
    using Cons.prems(1) by (auto simp: Let_def listed_plane_ok_def configuredDetail_sel split: if_splits)
  show ?case by (rule Cons.IH [OF rest catalog_ok_add [OF Cons.prems(2) new]])
qed simp

lemma NewPlaneCatalog_ok:
  assumes "NewPlaneCatalog gs = Inr c"
  shows "catalog_ok c"
proof (rule catalogLoop_ok)
  show "catalogLoop gs \<lparr>ctPlanes = [], ctByID = Map.empty\<rparr> = Inr c"
    using assms by (simp add: NewPlaneCatalog_def split: if_splits)
  show "catalog_ok \<lparr>ctPlanes = [], ctByID = Map.empty\<rparr>" by (simp add: catalog_ok_def)
qed

lemma GetPlane_ok:
  assumes "catalog_ok c" "GetPlane (Some c) planeID = Inr p"
  shows "plID p = trimSpace planeID \<and> trimSpace planeID \<noteq> [] \<and> listed_plane_ok p"
  using assms by (auto simp: GetPlane_def Let_def catalog_ok_def split: if_splits option.splits)

section \<open>A configuration that loads is one that builds\<close>

lemma validatePlane_InrD:
  "validatePlane g ids names = Inr u \<Longrightarrow>
     nonBlank (gpID g) \<and> gpID g \<notin> ids \<and> nonBlank (gpName g) \<and> nonBlank (gpRegion g) \<and> nonBlank (gpGRPCEndpoint g) \<and>
     (gpProvider g = ''aliyun'' \<or> gpProvider g = ''tencent'')"
  by (auto simp: validatePlane_def Let_def split: if_splits)

lemma provider_kept: "toLower (trimSpace ''aliyun'') \<noteq> []" "toLower (trimSpace ''tencent'') \<noteq> []"
  by code_simp+

lemma catalogLoop_total:
  assumes "validatePlanes gs ids names = Inr u" "\<And>g. g \<in> set gs \<Longrightarrow> trimSpace (gpID g) = gpID g" "dom (ctByID c) \<subseteq> ids"
  shows "\<exists>c'. catalogLoop gs c = Inr c' \<and> map plID (ctPlanes c') = map plID (ctPlanes c) @ map gpID gs"
  using assms
proof (induction gs arbitrary: c ids names)
  case (Cons g gs)
  obtain u' where v: "validatePlane g ids names = Inr u'"
    and vs: "validatePlanes gs (insert (gpID g) ids) (insert (gpName g) names) = Inr u"
    using Cons.prems(1) by (auto split: sum.splits)
  let ?p = "configuredDetail g"
  have id: "plID ?p = gpID g" using Cons.prems(2) by (simp add: configuredDetail_def)
  have ok: "plID ?p \<noteq> []" "plName ?p \<noteq> []" "plProvider ?p \<noteq> []" "plRegion ?p \<noteq> []" "plGRPCEndpoint ?p \<noteq> []"
    using validatePlane_InrD [OF v] provider_kept by (auto simp: configuredDetail_def nonBlank_def)
  have new: "ctByID c (plID ?p) = None" using Cons.prems(3) validatePlane_InrD [OF v] id by (auto simp: domIff)
  let ?c = "\<lparr>ctPlanes = ctPlanes c @ [?p], ctByID = (ctByID c)(plID ?p \<mapsto> ?p)\<rparr>"
  have d: "dom (ctByID ?c) \<subseteq> insert (gpID g) ids" using Cons.prems(3) id by (auto split: if_splits)
  have t: "\<And>g'. g' \<in> set gs \<Longrightarrow> trimSpace (gpID g') = gpID g'" using Cons.prems(2) by simp
  have "\<exists>c'. catalogLoop gs ?c = Inr c' \<and> map plID (ctPlanes c') = map plID (ctPlanes ?c) @ map gpID gs"
    by (rule Cons.IH [OF vs t d])
  then show ?case using ok new id by (simp add: Let_def)
qed simp

text \<open>
  C31: A configuration that loads builds.  When Load accepts a file, the wiring of the control-plane
  cannot fail: the catalogue holds exactly the configured planes in their order under distinct
  ids, each is found under its id, the syncer and the service operations share it, and no plane of
  it is ever refused as not ready.
\<close>

theorem loaded_config_builds:
  assumes "loadControlConfig readFile decodeYAML path = Inr cfg"
  shows "\<exists>c sy so. buildControlPlane su cfg = Inr (sy, so) \<and> syPlanes sy = Some c \<and> soCatalog so = Some c \<and>
    map plID (ctPlanes c) = map gpID (gcPlanes cfg) \<and> distinct (map plID (ctPlanes c)) \<and>
    (\<forall>p\<in>set (ctPlanes c). readyPlane so (plID p) = Inr p) \<and>
    (\<forall>planeID err. readyPlane so planeID = Inl err \<longrightarrow> \<not> errorsIs err errPlaneNotReady)"
proof -
  obtain cfg0 where cfg: "cfg = normalizeControlConfig cfg0" and val: "validateControlConfig cfg = Inr ()"
    using assms by (auto simp: loadControlConfig_def Let_def bindR_Inr_iff split: if_splits sum.splits)
  have ids: "trimSpace (gpID g) = gpID g" if "g \<in> set (gcPlanes cfg)" for g
    using that by (auto simp: cfg normalizeControlConfig_def normalizePlane_def)
  have v: "validatePlanes (gcPlanes cfg) {} {} = Inr ()" "gcPlanes cfg \<noteq> []" "nonBlank (gcDNSPodDomain cfg)"
    using val by (auto simp: validateControlConfig_def split: if_splits)
  obtain c where c: "NewPlaneCatalog (gcPlanes cfg) = Inr c" "map plID (ctPlanes c) = map gpID (gcPlanes cfg)"
    using catalogLoop_total [OF v(1) ids, of "\<lparr>ctPlanes = [], ctByID = Map.empty\<rparr>"] v(2)
    by (auto simp: NewPlaneCatalog_def)
  note ok = NewPlaneCatalog_ok [OF c(1)]
  obtain sy so where b: "buildControlPlane su cfg = Inr (sy, so)" "syPlanes sy = Some c" "soCatalog so = Some c"
    by (simp add: buildControlPlane_def c newDNSPodClient_def v(3) Let_def NewPlaneSyncer_def NewServiceOperations_def)
  have "readyPlane so (plID p) = Inr p" if "p \<in> set (ctPlanes c)" for p
  proof -
    have "ctByID c (plID p) = Some p" "listed_plane_ok p" using ok that by (auto simp: catalog_ok_def)
    then show ?thesis by (simp add: readyPlane_def GetPlane_def Let_def b listed_plane_ok_def plane_status_defs)
  qed
  moreover have "\<not> errorsIs err errPlaneNotReady" if "readyPlane so planeID = Inl err" for planeID err
  proof (cases "GetPlane (Some c) (trimSpace planeID)")
    case (Inl e)
    then have "e \<in> {becauseOf ErrInvalidInput ''planeID is required'', ErrPlaneNotFound}"
      by (auto simp: GetPlane_def Let_def split: if_splits option.splits)
    then have "err \<in> {errPlaneIDRequired, becauseOf ErrInvalidInput ''planeID is required'', ErrPlaneNotFound}"
      using that Inl by (auto simp: readyPlane_def b Let_def split: if_splits)
    then show ?thesis
      by (auto simp: errPlaneIDRequired_def errPlaneNotReady_def ErrInvalidInput_def ErrPlaneNotFound_def becauseOf_def)
  next
    case (Inr p)
    then have "pstStatus (plStatus p) \<noteq> PlaneOffline"
      using GetPlane_ok [OF ok Inr] by (simp add: listed_plane_ok_def plane_status_defs)
    then have "err = errPlaneIDRequired" using that Inr by (simp add: readyPlane_def b Let_def split: if_splits)
    then show ?thesis by (simp add: errPlaneIDRequired_def errPlaneNotReady_def)
  qed
  ultimately show ?thesis using b c(2) ok unfolding catalog_ok_def by blast
qed

definition demoConfig :: control_config where
  "demoConfig = \<lparr>gcPath = [], gcHTTPAddr = [], gcUIDir = [], gcAdminToken = ''a'', gcSouthboundToken = '' s '',
     gcSouthboundTLS = \<lparr>tlsCACert = ''c'', tlsCert = ''c'', tlsKey = ''k''\<rparr>, gcServiceBaseDomain = ''Apps.E.io.'',
     gcDNSPodDomain = ''e.io'',
     gcPlanes = [\<lparr>gpID = '' hz '', gpName = ''hangzhou'', gpDisplayName = [], gpProvider = ''Aliyun'', gpRegion = ''cn'',
       gpGRPCEndpoint = ''grpcs://p.e.io:443''\<rparr>]\<rparr>"

text \<open>Surroundings in which no plane answers.\<close>

definition deafRPC :: "unit plane_rpc" where
  "deafRPC =
     \<lparr>rpGetSnapshot = (\<lambda>_ _ w. (Inl (rpcError ''Unavailable'' ''no connection''), w)),
      rpUpsertService = (\<lambda>_ _ _ w. (Inl (rpcError ''Unavailable'' ''no connection''), w)),
      rpDeleteService = (\<lambda>_ _ _ w. (Inl (rpcError ''Unavailable'' ''no connection''), w))\<rparr>"

definition demoSurroundings :: "unit surroundings" where
  "demoSurroundings =
     \<lparr>suRPC = deafRPC,
      suDNS = (\<lambda>_. \<lparr>dcEnsureRecord = (\<lambda>_ w. (Inr (), w)), dcDeleteRecord = (\<lambda>_ w. (Inr (), w)),
        dcDeleteServiceRecords = (\<lambda>_ _ _ w. (Inr (), w)), dcCheck = (\<lambda>w. (Inr (), w))\<rparr>),
      suClientTLS = (\<lambda>_ _. Inr ()), suNow = (\<lambda>_. zeroTime), suCtxErr = (\<lambda>_. None)\<rparr>"

theorem loaded_config_builds_witness:
  "\<exists>cfg c sy so. loadControlConfig (\<lambda>p. Inr p) (\<lambda>_. Inr demoConfig) ''/etc/c.yaml'' = Inr cfg \<and>
     buildControlPlane demoSurroundings cfg = Inr (sy, so) \<and> soCatalog so = Some c \<and> map plID (ctPlanes c) = [''hz'']"
proof -
  let ?cfg = "normalizeControlConfig (demoConfig\<lparr>gcPath := ''/etc/c.yaml''\<rparr>)"
  have l: "loadControlConfig (\<lambda>p. Inr p) (\<lambda>_. Inr demoConfig) ''/etc/c.yaml'' = Inr ?cfg" by code_simp
  have "map gpID (gcPlanes ?cfg) = [''hz'']" by code_simp
  then show ?thesis using loaded_config_builds [OF l, of demoSurroundings] l by auto
qed

end
