(* ===== verification/PlaneRegister.thy ===== *)
theory PlaneRegister
  imports ControlPlane ServiceProps DnsSafety
begin

text \<open>
  The control-plane as a client of a cloud-plane.  What it needs of the plane's API is an interface:
  the services are registers by id, an upsert puts, a delete removes, and a snapshot lists exactly
  the wanted ones.  Under these laws what was created, updated or deleted is what is read.
\<close>

section \<open>Lists of services\<close>

definition itemSpec :: "plane_service \<Rightarrow> service_spec" where
  "itemSpec item =
     \<lparr>specInstanceClass = psInstanceClass item, specExposure = psExposure item, specImage = psImage item,
      specCommand = psCommand item, specArgs = psArgs item, specEnv = psEnv item,
      specContainerPort = psContainerPort item, specReadinessPath = psReadinessPath item\<rparr>"

definition listedAs :: "registers \<Rightarrow> plane_service \<Rightarrow> bool" where
  "listedAs R item \<longleftrightarrow> psServiceId item \<noteq> [] \<and> trimSpace (psServiceId item) = psServiceId item \<and>
     R (psServiceId item) = Some (psGeneration item, Wanted (psName item) (psHost item) (itemSpec item))"

definition listsAll :: "plane_snapshot \<Rightarrow> registers \<Rightarrow> bool" where
  "listsAll sn R \<longleftrightarrow>
     (\<exists>items. snServices sn = map Some items \<and> distinct (map psServiceId items) \<and>
        (\<forall>item\<in>set items. listedAs R item) \<and>
        (\<forall>k g n h sp. R k = Some (g, Wanted n h sp) \<longrightarrow> (\<exists>item\<in>set items. psServiceId item = k)))"

text \<open>A service of the control-plane that shows the register of its id.\<close>

definition shows_register :: "string \<Rightarrow> string \<Rightarrow> int \<Rightarrow> string \<Rightarrow> string \<Rightarrow> service_spec \<Rightarrow> cp_service \<Rightarrow> bool" where
  "shows_register planeID k g n h sp v \<longleftrightarrow>
     cmID (cpMetadata v) = k \<and> cmName (cpMetadata v) = n \<and> cmHost (cpMetadata v) = h \<and> cmGeneration (cpMetadata v) = g \<and>
     cpSpec v = \<lparr>csPlaneID = planeID, csInstanceClass = specInstanceClass sp, csExposure = specExposure sp,
       csImage = specImage sp, csCommand = specCommand sp, csArgs = specArgs sp,
       csDefaultPort = specContainerPort sp, csReadinessPath = specReadinessPath sp, csEnv = specEnv sp\<rparr>"

lemma listedServices_map:
  "\<forall>item\<in>set items. nonBlank (psServiceId item) \<Longrightarrow>
     listedServices now ex planeID (map Some items) = map (listedService now ex planeID) items"
  by (induction items) auto

lemma cpMetadata_listed:
  "cpMetadata (listedService now ex planeID item) = cpMetadata (serviceFromSnapshotItem planeID item)"
  "cpSpec (listedService now ex planeID item) = cpSpec (serviceFromSnapshotItem planeID item)"
  by (auto simp: listedService_def Let_def split: option.split)

lemma find_listed:
  assumes "listsAll sn R" and k: "R k = Some (g, Wanted n h sp)"
  shows "\<exists>v. List.find (\<lambda>v. cmID (cpMetadata v) = k) (servicesFromSnapshot now planeID (Some sn)) = Some v \<and>
    shows_register planeID k g n h sp v"
proof -
  obtain items where i: "snServices sn = map Some items" "\<forall>item\<in>set items. listedAs R item"
    and all: "\<forall>k g n h sp. R k = Some (g, Wanted n h sp) \<longrightarrow> (\<exists>item\<in>set items. psServiceId item = k)"
    using assms(1) unfolding listsAll_def by blast
  let ?f = "listedService now (executionsByID (snExecutions sn) Map.empty) planeID"
  have l: "servicesFromSnapshot now planeID (Some sn) = map ?f items"
    using i listedServices_map [of items] by (simp add: servicesFromSnapshot_def listedAs_def nonBlank_def)
  have ids: "cmID (cpMetadata (?f item)) = psServiceId item" for item
    by (simp add: cpMetadata_listed serviceFromSnapshotItem_def)
  obtain item where "item \<in> set items" "psServiceId item = k" using all k by blast
  then have "?f item \<in> set (map ?f items)" "cmID (cpMetadata (?f item)) = k" using ids by simp_all
  then have "List.find (\<lambda>v. cmID (cpMetadata v) = k) (map ?f items) \<noteq> None"
    unfolding find_None_iff by blast
  then obtain v where v: "List.find (\<lambda>v. cmID (cpMetadata v) = k) (map ?f items) = Some v" by blast
  then have "v \<in> ?f ` set items" and vk: "cmID (cpMetadata v) = k" using find_SomeD [OF v] by simp_all
  then obtain item where item: "item \<in> set items" "v = ?f item" by blast
  moreover have "psServiceId item = k" using vk ids [of item] item(2) by simp
  note item = item this
  from item have "R k = Some (psGeneration item, Wanted (psName item) (psHost item) (itemSpec item))"
    using i(2) by (auto simp: listedAs_def)
  then have "shows_register planeID k g n h sp v"
    using k item by (auto simp: shows_register_def cpMetadata_listed serviceFromSnapshotItem_def itemSpec_def)
  then show ?thesis using v l by auto
qed

lemma find_unlisted:
  assumes "listsAll sn R" and k: "\<And>g n h sp. R k \<noteq> Some (g, Wanted n h sp)"
  shows "List.find (\<lambda>v. cmID (cpMetadata v) = k) (servicesFromSnapshot now planeID (Some sn)) = None"
proof -
  obtain items where i: "snServices sn = map Some items" "\<forall>item\<in>set items. listedAs R item"
    using assms(1) unfolding listsAll_def by blast
  have "psServiceId item \<noteq> k" if "item \<in> set items" for item
  proof
    assume "psServiceId item = k"
    then have "R k = Some (psGeneration item, Wanted (psName item) (psHost item) (itemSpec item))"
      using i(2) that by (auto simp: listedAs_def)
    then show False using k by blast
  qed
  then show ?thesis
    using i listedServices_map [of items]
    by (auto simp: servicesFromSnapshot_def listedAs_def nonBlank_def find_None_iff cpMetadata_listed
        serviceFromSnapshotItem_def)
qed

section \<open>The interface\<close>

text \<open>What an upsert asks for, once its exposure is parsed.\<close>

definition requestedSpec :: "string \<Rightarrow> upsert_service_request \<Rightarrow> service_spec" where
  "requestedSpec x rq =
     \<lparr>specInstanceClass = trimSpace (uqInstanceClass rq), specExposure = x, specImage = trimSpace (uqImage rq),
      specCommand = uqCommand rq, specArgs = uqArgs rq, specEnv = uqEnv rq,
      specContainerPort = uqContainerPort rq, specReadinessPath = trimSpace (uqReadinessPath rq)\<rparr>"

definition requested :: "string \<Rightarrow> upsert_service_request \<Rightarrow> desired" where
  "requested x rq = Wanted (trimSpace (uqServiceName rq)) (cleanDomain (trimSpace (uqHost rq))) (requestedSpec x rq)"

definition answers :: "'w plane_rpc \<Rightarrow> string \<Rightarrow> rpc_context \<Rightarrow> bool" where
  "answers rpc t c \<longleftrightarrow> (\<forall>w r w'. rpGetSnapshot rpc t c w = (r, w') \<longrightarrow> (\<exists>sn. r = Inr (Some sn)))"

locale plane_register =
  fixes rpc :: "'w plane_rpc" and ok :: "'w \<Rightarrow> bool" and reg :: "'w \<Rightarrow> registers"
  assumes snapshot_keeps: "ok w \<Longrightarrow> rpGetSnapshot rpc t c w = (r, w') \<Longrightarrow> ok w' \<and> reg w' = reg w"
    and snapshot_lists: "ok w \<Longrightarrow> rpGetSnapshot rpc t c w = (Inr (Some sn), w') \<Longrightarrow> listsAll sn (reg w)"
    and upsert_puts: "ok w \<Longrightarrow> rpUpsertService rpc t c rq w = (Inr u, w') \<Longrightarrow>
      ok w' \<and> answers rpc t c \<and> (\<exists>x. ParseExposure (uqExposure rq) = Inr x \<and>
        reg w' = regPut (trimSpace (uqServiceId rq)) (uqGeneration rq) (requested x rq) (reg w))"
    and delete_removes: "ok w \<Longrightarrow> rpDeleteService rpc t c dq w = (Inr u, w') \<Longrightarrow>
      ok w' \<and> answers rpc t c \<and> reg w (trimSpace (dlServiceId dq)) \<noteq> None \<and>
      reg w' = regRemove (trimSpace (dlServiceId dq)) (dlGeneration dq) (reg w)"
    and delete_missing: "ok w \<Longrightarrow> rpDeleteService rpc t c dq w = (Inl err, w') \<Longrightarrow>
      ok w' \<and> reg w' = reg w \<and> (statusCode err = ''NotFound'' \<longrightarrow> reg w (trimSpace (dlServiceId dq)) = None)"

text \<open>The DNS client of the syncer leaves the plane alone.\<close>

locale plane_with_dns = plane_register +
  fixes dns :: "'w dns_client"
  assumes dns_apart: "dns_contract dns plane UNIV (\<lambda>w. ok w \<and> reg w = R)"

text \<open>Service operations and their syncer, wired to the plane, with the catalogue c.\<close>

definition wired ::
  "'w plane_rpc \<Rightarrow> 'w dns_client \<Rightarrow> 'w service_operations \<Rightarrow> plane_catalog \<Rightarrow> 'w plane_syncer \<Rightarrow> bool" where
  "wired rpc dns so c sy \<longleftrightarrow>
     soSyncer so = Some sy \<and> soCatalog so = Some c \<and> syPlanes sy = Some c \<and> catalog_ok c \<and>
     syToken sy = soToken so \<and> syClientTLS sy = soClientTLS so \<and> syRPC sy = rpc \<and> soRPC so = rpc \<and> syDNS sy = Some dns \<and>
     (\<forall>p\<in>set (ctPlanes c). trimRightSlash (plGRPCEndpoint p) = plGRPCEndpoint p)"

definition plainEndpoints :: "control_config \<Rightarrow> bool" where
  "plainEndpoints cfg \<longleftrightarrow>
     list_all (\<lambda>g. trimRightSlash (trimSpace (gpGRPCEndpoint g)) = trimSpace (gpGRPCEndpoint g)) (gcPlanes cfg)"

lemma catalogLoop_endpoints:
  "catalogLoop gs c = Inr c' \<Longrightarrow> p \<in> set (ctPlanes c') \<Longrightarrow>
     p \<in> set (ctPlanes c) \<or> (\<exists>g\<in>set gs. plGRPCEndpoint p = trimSpace (gpGRPCEndpoint g))"
proof (induction gs arbitrary: c)
  case (Cons g gs)
  then have "catalogLoop gs \<lparr>ctPlanes = ctPlanes c @ [configuredDetail g],
      ctByID = (ctByID c)(plID (configuredDetail g) \<mapsto> configuredDetail g)\<rparr> = Inr c'"
    by (auto simp: Let_def split: if_splits)
  from Cons.IH [OF this Cons.prems(2)] show ?case by (auto simp: configuredDetail_def)
qed simp

lemma build_wired:
  assumes "buildControlPlane su cfg = Inr (sy, so)" "plainEndpoints cfg"
  shows "\<exists>c domain. NewPlaneCatalog (gcPlanes cfg) = Inr c \<and> wired (suRPC su) (suDNS su domain) so c sy"
proof -
  obtain c domain where c: "NewPlaneCatalog (gcPlanes cfg) = Inr c"
    and sy: "sy = NewPlaneSyncer su c (gcSouthboundToken cfg) (gcSouthboundTLS cfg) (suDNS su domain)"
    and so: "so = NewServiceOperations su c (gcSouthboundToken cfg) (gcSouthboundTLS cfg) (gcServiceBaseDomain cfg) sy"
    using assms(1) by (auto simp: buildControlPlane_def bindR_Inr_iff Let_def)
  have "trimRightSlash (plGRPCEndpoint p) = plGRPCEndpoint p" if "p \<in> set (ctPlanes c)" for p
  proof -
    have "catalogLoop (gcPlanes cfg) \<lparr>ctPlanes = [], ctByID = Map.empty\<rparr> = Inr c"
      using c by (simp add: NewPlaneCatalog_def split: if_splits)
    from catalogLoop_endpoints [OF this that] show ?thesis
      using assms(2) by (auto simp: plainEndpoints_def list_all_iff)
  qed
  then have "wired (suRPC su) (suDNS su domain) so c sy"
    using NewPlaneCatalog_ok [OF c] by (simp add: wired_def sy so NewPlaneSyncer_def NewServiceOperations_def)
  then show ?thesis using c by blast
qed

section \<open>The control-plane's operations on a register\<close>

text \<open>The client of a plane and the syncer reach the same target with the same token.\<close>

lemma client_of_plane:
  assumes "wired rpc dns so c sy" "planeClientFor so planeID = Inr cl"
  shows "\<exists>p. GetPlane (Some c) planeID = Inr p \<and> plID p = trimSpace planeID \<and>
    newPlaneClient (syClientTLS sy) (trimRightSlash (trimSpace (plGRPCEndpoint p))) (syToken sy) = Inr cl"
proof -
  obtain p where p: "GetPlane (Some c) (trimSpace planeID) = Inr p"
    and cl: "newPlaneClient (soClientTLS so) (plGRPCEndpoint p) (soToken so) = Inr cl"
    using assms by (auto simp: planeClientFor_def readyPlane_def wired_def bindR_Inr_iff Let_def split: if_splits)
  have c: "catalog_ok c" using assms(1) by (simp add: wired_def)
  have g: "GetPlane (Some c) planeID = Inr p" using p by (simp add: GetPlane_def Let_def)
  have "p \<in> set (ctPlanes c)" using p c by (auto simp: GetPlane_def Let_def catalog_ok_def split: if_splits option.splits)
  then have "trimRightSlash (trimSpace (plGRPCEndpoint p)) = plGRPCEndpoint p"
    using assms(1) GetPlane_ok [OF c g] by (auto simp: wired_def listed_plane_ok_def)
  then show ?thesis using g cl GetPlane_ok [OF c g] assms(1) by (auto simp: wired_def)
qed

lemma plane_of_client:
  assumes "wired rpc dns so c sy" "GetPlane (Some c) planeID = Inr p"
    "newPlaneClient (syClientTLS sy) (trimRightSlash (trimSpace (plGRPCEndpoint p))) (syToken sy) = Inr cl"
  shows "planeClientFor so planeID = Inr cl"
proof -
  have c: "catalog_ok c" using assms(1) by (simp add: wired_def)
  have "p \<in> set (ctPlanes c)" using assms(2) c by (auto simp: GetPlane_def Let_def catalog_ok_def split: if_splits option.splits)
  then have "trimRightSlash (trimSpace (plGRPCEndpoint p)) = plGRPCEndpoint p"
    using assms(1) GetPlane_ok [OF c assms(2)] by (auto simp: wired_def listed_plane_ok_def)
  then have "newPlaneClient (soClientTLS so) (plGRPCEndpoint p) (soToken so) = Inr cl"
    using assms(1,3) by (simp add: wired_def)
  moreover have "readyPlane so planeID = Inr p"
    using assms(1,2) GetPlane_ok [OF c assms(2)]
    by (auto simp: readyPlane_def wired_def GetPlane_def Let_def listed_plane_ok_def plane_status_defs)
  ultimately show ?thesis by (simp add: planeClientFor_def)
qed

text \<open>The specification that an accepted request leaves at the plane.\<close>

definition storedSpec :: "string \<Rightarrow> cp_spec \<Rightarrow> service_spec" where
  "storedSpec x s =
     \<lparr>specInstanceClass = trimSpace (csInstanceClass s), specExposure = x, specImage = trimSpace (csImage s),
      specCommand = csCommand s, specArgs = csArgs s, specEnv = csEnv s, specContainerPort = csDefaultPort s,
      specReadinessPath = trimSpace (csReadinessPath s)\<rparr>"

definition storedAs :: "string \<Rightarrow> cp_service \<Rightarrow> desired" where
  "storedAs x v = Wanted (trimSpace (cmName (cpMetadata v))) (cleanDomain (trimSpace (cmHost (cpMetadata v)))) (storedSpec x (cpSpec v))"

lemma newPublicID_trim: "newPublicID ''svc'' entropy = Inr sid \<Longrightarrow> trimSpace sid = sid \<and> sid \<noteq> []"
proof -
  assume "newPublicID ''svc'' entropy = Inr sid"
  moreover have "trimSpace ''svc'' = ''svc''" by code_simp
  ultimately obtain raw where sid: "sid = ''svc'' @ ''_'' @ hexEncode raw"
    by (auto simp: newPublicID_def Let_def split: sum.splits)
  then have "\<forall>c\<in>set sid. \<not> isSpace c" by (auto simp: isSpace_def dest: hexEncode_plain [unfolded isSpace_def])
  then show ?thesis unfolding trimSpace_def by (intro conjI trimBoth_id) (auto simp: sid)
qed

lemma validateWorkloadSpec_port: "validateWorkloadSpec s = Inr u \<Longrightarrow> 0 < wsDefaultPort s \<and> wsDefaultPort s \<le> 65535"
  by (auto simp: validateWorkloadSpec_def Let_def split: if_splits)

context plane_with_dns
begin

lemma dns_pass_keeps:
  assumes "ok w" "syncServicesDNS dns planeID items w = (err, w')"
  shows "ok w' \<and> reg w' = reg w"
  using dns_contract.pass_keeps [OF dns_apart [of "trimSpace planeID" "reg w"] _ refl _ assms(2)] assms(1) by blast

lemma dns_cleanup_keeps:
  assumes "ok w" "wired rpc dns so c sy"
  shows "ok (cleanupServiceDNS so planeID sid w) \<and> reg (cleanupServiceDNS so planeID sid w) = reg w"
proof -
  obtain e w' where d: "dcDeleteServiceRecords dns planeID sid [] w = (e, w')" by (metis prod.exhaust)
  have "ok w' \<and> reg w' = reg w"
    using dns_contract.service_keeps [OF dns_apart [of "trimSpace planeID" "reg w"] _ refl _ d] assms(1) by blast
  then show ?thesis using assms(2) d by (simp add: cleanupServiceDNS_def deleteServiceDNS_def wired_def)
qed

lemma load_keeps:
  assumes "ok w" "syRPC sy = rpc" "loadSnapshot sy p w = (r, w')"
  shows "ok w' \<and> reg w' = reg w \<and> (\<forall>sn. r = Inr sn \<longrightarrow> listsAll sn (reg w))"
proof (cases "newPlaneClient (syClientTLS sy) (trimRightSlash (trimSpace (plGRPCEndpoint p))) (syToken sy)")
  case (Inl e)
  then show ?thesis using assms by (auto simp: loadSnapshot_def)
next
  case (Inr cl)
  obtain q w1 where q: "rpGetSnapshot rpc (pcTarget cl) (withAuth (pcBearerToken cl)) w = (q, w1)" by (metis prod.exhaust)
  have r: "w' = w1" "\<And>sn. r = Inr sn \<Longrightarrow> q = Inr (Some sn)"
    using assms(2,3) Inr q by (auto simp: loadSnapshot_def clientSnapshot_def split: sum.splits option.splits)
  show ?thesis using snapshot_keeps [OF assms(1) q] snapshot_lists [OF assms(1), of _ _ _ w1] q r by blast
qed

lemma view_keeps:
  assumes "ok w" "syRPC sy = rpc" "syDNS sy = Some dns" "planeView sy p w = (v, w')"
  shows "ok w' \<and> reg w' = reg w \<and> (\<forall>sn. pvSnapshot v = Some sn \<longrightarrow> listsAll sn (reg w)) \<and> plID (pvPlane v) = plID p"
proof -
  obtain r w1 where l: "loadSnapshot sy p w = (r, w1)" by (metis prod.exhaust)
  note k = load_keeps [OF assms(1,2) l]
  show ?thesis
  proof (cases r)
    case (Inl e)
    then show ?thesis using k l assms(4) by (auto simp: planeView_def offlinePlane_def)
  next
    case (Inr sn)
    obtain e w2 where d: "syncServicesDNS dns (plID p) (snServices sn) w1 = (e, w2)" by (metis prod.exhaust)
    have v: "v = \<lparr>pvPlane = syncedPlane (syNow sy w2) p sn, pvSnapshot = Some sn\<rparr>" "w' = w2"
      using assms(3,4) l Inr d by (auto simp: planeView_def syncFrontDoorDNS_def)
    show ?thesis using dns_pass_keeps [OF _ d] k Inr v by (auto simp: syncedPlane_def)
  qed
qed

lemma refresh_keeps:
  assumes "ok w" "wired rpc dns so c sy"
  shows "ok (bestEffortRefreshServiceDNS so sid planeID w) \<and> reg (bestEffortRefreshServiceDNS so sid planeID w) = reg w"
proof -
  have s: "syRPC sy = rpc" "syDNS sy = Some dns" "soSyncer so = Some sy" using assms(2) by (simp_all add: wired_def)
  have "ok w' \<and> reg w' = reg w" if "planeView sy p w = (v, w')" for p v w'
    using view_keeps [OF assms(1) s(1,2) that] by blast
  then show ?thesis
    using assms(1) s(3)
    by (auto simp: bestEffortRefreshServiceDNS_def Let_def GetPlaneSnapshotView_def split: sum.splits prod.splits)
qed

lemma get_keeps:
  assumes "ok w" "wired rpc dns so c sy" "GetService so planeID k w = (r, w')"
  shows "ok w' \<and> reg w' = reg w"
proof -
  have s: "syRPC sy = rpc" "syDNS sy = Some dns" "soSyncer so = Some sy" using assms(2) by (simp_all add: wired_def)
  have "ok w' \<and> reg w' = reg w" if "planeView sy p w = (v, w')" for p v w'
    using view_keeps [OF assms(1) s(1,2) that] by blast
  then show ?thesis
    using assms(1,3) s(3)
    by (auto simp: GetService_def loadPlaneSnapshotView_def GetPlaneSnapshotView_def Let_def
        split: if_splits sum.splits option.splits prod.splits)
qed

text \<open>When the snapshot of the plane is answered, a service is read as its register says.\<close>

lemma get_answered:
  assumes "ok w" "wired rpc dns so c sy" "planeClientFor so planeID = Inr cl"
    "answers rpc (pcTarget cl) (withAuth (pcBearerToken cl))" "GetService so planeID k0 w = (r, w')" "trimSpace k0 = k" "k \<noteq> []"
  shows "\<exists>sn now. listsAll sn (reg w) \<and>
    r = (case List.find (\<lambda>v. cmID (cpMetadata v) = k) (servicesFromSnapshot now (trimSpace planeID) (Some sn)) of
           Some v \<Rightarrow> Inr v | None \<Rightarrow> Inl ErrServiceNotFoundCP)"
proof -
  have s: "syRPC sy = rpc" "syDNS sy = Some dns" "soSyncer so = Some sy" "syPlanes sy = Some c"
    using assms(2) by (simp_all add: wired_def)
  obtain p where p: "GetPlane (Some c) planeID = Inr p" "plID p = trimSpace planeID"
    and cl: "newPlaneClient (syClientTLS sy) (trimRightSlash (trimSpace (plGRPCEndpoint p))) (syToken sy) = Inr cl"
    using client_of_plane [OF assms(2,3)] by blast
  obtain v w1 where v: "planeView sy p w = (v, w1)" by (metis prod.exhaust)
  obtain q w2 where q: "rpGetSnapshot rpc (pcTarget cl) (withAuth (pcBearerToken cl)) w = (q, w2)" by (metis prod.exhaust)
  obtain sn where sn: "q = Inr (Some sn)" using assms(4) q unfolding answers_def by blast
  have "loadSnapshot sy p w = (Inr sn, w2)" by (simp add: loadSnapshot_def cl clientSnapshot_def s(1) q sn)
  then have snap: "pvSnapshot v = Some sn" using v by (auto simp: planeView_def split: prod.splits)
  have l: "listsAll sn (reg w)" "plID (pvPlane v) = trimSpace planeID"
    using view_keeps [OF assms(1) s(1,2) v] snap p(2) by auto
  have "r = (case List.find (\<lambda>v. cmID (cpMetadata v) = k)
       (servicesFromSnapshot (soNow so w1) (trimSpace planeID) (Some sn)) of
         Some v \<Rightarrow> Inr v | None \<Rightarrow> Inl ErrServiceNotFoundCP)"
    using assms(5,6,7) s(3,4) p(1) v snap l(2)
    by (auto simp: GetService_def loadPlaneSnapshotView_def GetPlaneSnapshotView_def split: option.splits)
  then show ?thesis using l(1) by blast
qed

lemma get_registered:
  assumes "ok w" "wired rpc dns so c sy" "planeClientFor so planeID = Inr cl"
    "answers rpc (pcTarget cl) (withAuth (pcBearerToken cl))" "GetService so planeID k w = (r, w')" "trimSpace k = k" "k \<noteq> []"
    "reg w k = Some (g, Wanted n h sp)"
  shows "\<exists>v. r = Inr v \<and> shows_register (trimSpace planeID) k g n h sp v"
proof -
  obtain sn now where l: "listsAll sn (reg w)" and r: "r = (case List.find (\<lambda>v. cmID (cpMetadata v) = k)
      (servicesFromSnapshot now (trimSpace planeID) (Some sn)) of Some v \<Rightarrow> Inr v | None \<Rightarrow> Inl ErrServiceNotFoundCP)"
    using get_answered [OF assms(1-7)] by blast
  from find_listed [OF l assms(8), of now "trimSpace planeID"] show ?thesis by (elim exE conjE) (simp add: r)
qed

lemma get_unregistered:
  assumes "ok w" "wired rpc dns so c sy" "planeClientFor so planeID = Inr cl"
    "answers rpc (pcTarget cl) (withAuth (pcBearerToken cl))" "GetService so planeID k0 w = (r, w')" "trimSpace k0 = k" "k \<noteq> []"
    "\<And>g n h sp. reg w k \<noteq> Some (g, Wanted n h sp)"
  shows "r = Inl ErrServiceNotFoundCP"
proof -
  obtain sn now where l: "listsAll sn (reg w)" and r: "r = (case List.find (\<lambda>v. cmID (cpMetadata v) = k)
      (servicesFromSnapshot now (trimSpace planeID) (Some sn)) of Some v \<Rightarrow> Inr v | None \<Rightarrow> Inl ErrServiceNotFoundCP)"
    using get_answered [OF assms(1-7)] by blast
  show ?thesis using find_unlisted [OF l assms(8)] by (simp add: r)
qed

lemma get_success:
  assumes "ok w" "wired rpc dns so c sy" "GetService so planeID k0 w = (Inr v, w')"
  shows "\<exists>cl g n h sp. planeClientFor so planeID = Inr cl \<and> trimSpace k0 \<noteq> [] \<and>
    reg w (trimSpace k0) = Some (g, Wanted n h sp) \<and> shows_register (trimSpace planeID) (trimSpace k0) g n h sp v"
proof -
  have s: "syRPC sy = rpc" "syDNS sy = Some dns" "soSyncer so = Some sy" "syPlanes sy = Some c" "catalog_ok c"
    using assms(2) by (simp_all add: wired_def)
  have k: "trimSpace k0 \<noteq> []" using assms(3) by (auto simp: GetService_def Let_def)
  obtain view w1 where vw: "GetPlaneSnapshotView sy planeID w = (Inr view, w1)"
    and f: "List.find (\<lambda>v. cmID (cpMetadata v) = trimSpace k0)
      (servicesFromSnapshot (soNow so w1) (plID (pvPlane view)) (pvSnapshot view)) = Some v"
    using assms(3) k s(3) by (auto simp: GetService_def Let_def loadPlaneSnapshotView_def split: sum.splits option.splits prod.splits)
  obtain p where p: "GetPlane (Some c) planeID = Inr p" "planeView sy p w = (view, w1)"
    using vw s(4) by (auto simp: GetPlaneSnapshotView_def split: sum.splits prod.splits)
  obtain sn where sn: "pvSnapshot view = Some sn" using f by (cases "pvSnapshot view") (auto simp: servicesFromSnapshot_def)
  have l: "listsAll sn (reg w)" "plID (pvPlane view) = trimSpace planeID"
    using view_keeps [OF assms(1) s(1,2) p(2)] sn GetPlane_ok [OF s(5) p(1)] by auto
  have "newPlaneClient (syClientTLS sy) (trimRightSlash (trimSpace (plGRPCEndpoint p))) (syToken sy) \<noteq> Inl e" for e
    using p(2) sn by (auto simp: planeView_def loadSnapshot_def)
  then obtain cl where "newPlaneClient (syClientTLS sy) (trimRightSlash (trimSpace (plGRPCEndpoint p))) (syToken sy) = Inr cl"
    by (cases "newPlaneClient (syClientTLS sy) (trimRightSlash (trimSpace (plGRPCEndpoint p))) (syToken sy)") auto
  then have cl: "planeClientFor so planeID = Inr cl" by (rule plane_of_client [OF assms(2) p(1)])
  have "\<exists>g n h sp. reg w (trimSpace k0) = Some (g, Wanted n h sp)"
  proof (rule ccontr)
    assume none: "\<not> ?thesis"
    have "List.find (\<lambda>v. cmID (cpMetadata v) = trimSpace k0)
      (servicesFromSnapshot (soNow so w1) (trimSpace planeID) (Some sn)) = None"
      by (rule find_unlisted [OF l(1)]) (use none in blast)
    then show False using f sn l(2) by simp
  qed
  then obtain g n h sp where r: "reg w (trimSpace k0) = Some (g, Wanted n h sp)" by (elim exE) rule
  have "shows_register (trimSpace planeID) (trimSpace k0) g n h sp v"
    using find_listed [OF l(1) r, of "soNow so w1" "trimSpace planeID"] f sn l(2) by (elim exE conjE) simp
  then show ?thesis using cl k r by blast
qed

lemma send_puts:
  assumes "ok w" "wired rpc dns so c sy" "sendServiceSpecToPlane so planeID v w = (Inr u, w')"
    "- (2 ^ 31) \<le> csDefaultPort (cpSpec v)" "csDefaultPort (cpSpec v) < 2 ^ 31"
  shows "\<exists>cl x. planeClientFor so planeID = Inr cl \<and> answers rpc (pcTarget cl) (withAuth (pcBearerToken cl)) \<and> ok w' \<and>
    ParseExposure (csExposure (cpSpec v)) = Inr x \<and>
    reg w' = regPut (trimSpace (cmID (cpMetadata v))) (cmGeneration (cpMetadata v)) (storedAs x v) (reg w)"
proof -
  obtain cl rq where cl: "planeClientFor so planeID = Inr cl" and rq: "serviceDispatchRequest v = Inr rq"
    and up: "clientUpsertService rpc cl rq w = (Inr (), w')"
    using assms(2,3) by (auto simp: sendServiceSpecToPlane_def wired_def split: sum.splits prod.splits)
  obtain u where u: "rpUpsertService rpc (pcTarget cl) (withAuth (pcBearerToken cl)) rq w = (Inr u, w')"
    using up by (auto simp: clientUpsertService_def split: sum.splits prod.splits)
  from upsert_puts [OF assms(1) u] obtain x where x: "ok w'" "answers rpc (pcTarget cl) (withAuth (pcBearerToken cl))"
    "ParseExposure (uqExposure rq) = Inr x"
    "reg w' = regPut (trimSpace (uqServiceId rq)) (uqGeneration rq) (requested x rq) (reg w)" by blast
  have port: "goInt32 (csDefaultPort (cpSpec v)) = csDefaultPort (cpSpec v)" using assms(4,5) by (rule goInt32_id)
  have "uqExposure rq = csExposure (cpSpec v)" "uqServiceId rq = cmID (cpMetadata v)"
    "uqGeneration rq = cmGeneration (cpMetadata v)" "requested x rq = storedAs x v"
    using rq by (auto simp: serviceDispatchRequest_def requested_def requestedSpec_def storedAs_def storedSpec_def port split: if_splits)
  then show ?thesis using cl x by auto
qed

lemma create_then_get:
  assumes "ok w" "wired rpc dns so c sy" "CreateService so entropy i w = (Inr v, w1)"
    "reg w (cmID (cpMetadata v)) = None" "GetService so (csPlaneID (ciSpec i)) (cmID (cpMetadata v)) w1 = (r, w2)"
  shows "\<exists>v' x. r = Inr v' \<and> ParseExposure (csExposure (ciSpec i)) = Inr x \<and>
    shows_register (trimSpace (csPlaneID (ciSpec i))) (cmID (cpMetadata v)) 1 (trimSpace (ciName i))
      (cleanDomain (trimSpace (cmHost (cpMetadata v)))) (storedSpec x (ciSpec i)) v'"
proof -
  let ?pid = "csPlaneID (ciSpec i)"
  obtain sid where val: "validateCreateServiceInput i = Inr ()" and sid: "newPublicID ''svc'' entropy = Inr sid"
    using assms(3) by (auto simp: CreateService_def bindR_Inr_iff split: sum.splits)
  obtain u w0 where send: "sendServiceSpecToPlane so (trimSpace ?pid) v w = (Inr u, w0)"
    and w1: "w1 = bestEffortRefreshServiceDNS so sid (trimSpace ?pid) w0"
    and v: "cmID (cpMetadata v) = sid" "cmGeneration (cpMetadata v) = 1" "cmName (cpMetadata v) = trimSpace (ciName i)"
      "cpSpec v = ciSpec i"
    using assms(3) sid by (auto simp: CreateService_def bindR_def Let_def split: sum.splits prod.splits if_splits)
  have port: "0 < csDefaultPort (ciSpec i)" "csDefaultPort (ciSpec i) \<le> 65535"
    using val by (auto simp: validateCreateServiceInput_def validateCPServiceSpec_def workloadOf_def
        dest!: validateWorkloadSpec_port split: if_splits)
  obtain cl x where cl: "planeClientFor so (trimSpace ?pid) = Inr cl" "answers rpc (pcTarget cl) (withAuth (pcBearerToken cl))"
    and ok0: "ok w0" and x: "ParseExposure (csExposure (ciSpec i)) = Inr x" and r0: "reg w0 = regPut (trimSpace sid) 1 (storedAs x v) (reg w)"
    using send_puts [OF assms(1,2) send] port v by auto
  note t = newPublicID_trim [OF sid]
  have 1: "ok w1" "reg w1 = reg w0" using refresh_keeps [OF ok0 assms(2)] w1 by simp_all
  have "reg w1 sid = Some (1, storedAs x v)" using 1(2) r0 t assms(4) v(1) by (simp add: regPut_def)
  moreover have "planeClientFor so ?pid = Inr cl" using cl(1) by (simp add: planeClientFor_def readyPlane_def Let_def)
  ultimately have "\<exists>v'. r = Inr v' \<and> shows_register (trimSpace ?pid) sid 1 (trimSpace (trimSpace (ciName i)))
      (cleanDomain (trimSpace (cmHost (cpMetadata v)))) (storedSpec x (ciSpec i)) v'"
    using get_registered [OF 1(1) assms(2) _ cl(2) assms(5), of 1] t v unfolding storedAs_def by simp
  then show ?thesis using x v(1) by auto
qed

lemma update_then_get:
  assumes "ok w" "wired rpc dns so c sy" "UpdateService so i w = (Inr v, w1)"
    "\<And>g d. reg w (trimSpace (uiServiceID i)) = Some (g, d) \<Longrightarrow> 0 \<le> g \<and> g < 2 ^ 63 - 1"
    "GetService so (uiPlaneID i) (uiServiceID i) w1 = (r, w2)"
  shows "\<exists>v' x g d. reg w (trimSpace (uiServiceID i)) = Some (g, d) \<and> r = Inr v' \<and>
    ParseExposure (wsExposure (uiSpec i)) = Inr x \<and>
    shows_register (trimSpace (uiPlaneID i)) (trimSpace (uiServiceID i)) (g + 1)
      (trimSpace (cmName (cpMetadata v))) (cleanDomain (trimSpace (cmHost (cpMetadata v)))) (storedSpec x (cpSpec v)) v'"
proof -
  let ?pid = "uiPlaneID i" and ?sid = "trimSpace (uiServiceID i)"
  obtain cur wa where val: "validateUpdateServiceInput i = Inr ()" and get: "GetService so ?pid (uiServiceID i) w = (Inr cur, wa)"
    using assms(3) by (auto simp: UpdateService_def split: sum.splits prod.splits)
  obtain g n h sp where reg: "?sid \<noteq> []" "reg w ?sid = Some (g, Wanted n h sp)" "shows_register (trimSpace ?pid) ?sid g n h sp cur"
    using get_success [OF assms(1,2) get] by blast
  have ka: "ok wa" "reg wa = reg w" using get_keeps [OF assms(1,2) get] by simp_all
  obtain u wb where send: "sendServiceSpecToPlane so ?pid v wa = (Inr u, wb)" and v: "v = nextService (soNow so wa) i cur"
    and w1: "w1 = bestEffortRefreshServiceDNS so (cmID (cpMetadata v)) ?pid wb"
    using assms(3) val get by (auto simp: UpdateService_def Let_def split: sum.splits prod.splits)
  have g: "0 \<le> g" "g < 2 ^ 63 - 1" using assms(4) [OF reg(2)] by simp_all
  then have g1: "goInt64 (g + 1) = g + 1" by (intro goInt64_id) simp_all
  have vs: "cmID (cpMetadata v) = ?sid" "cmGeneration (cpMetadata v) = g + 1" "csExposure (cpSpec v) = wsExposure (uiSpec i)"
    "csDefaultPort (cpSpec v) = wsDefaultPort (uiSpec i)"
    using reg(3) g1 by (simp_all add: v nextService_def shows_register_def)
  have port: "0 < wsDefaultPort (uiSpec i)" "wsDefaultPort (uiSpec i) \<le> 65535"
    using val by (auto simp: validateUpdateServiceInput_def dest!: validateWorkloadSpec_port split: if_splits)
  obtain cl x where cl: "planeClientFor so ?pid = Inr cl" "answers rpc (pcTarget cl) (withAuth (pcBearerToken cl))"
    and ok0: "ok wb" and x: "ParseExposure (wsExposure (uiSpec i)) = Inr x"
    and r0: "reg wb = regPut (trimSpace ?sid) (g + 1) (storedAs x v) (reg wa)"
    using send_puts [OF ka(1) assms(2) send] port vs by auto
  have 1: "ok w1" "reg w1 = reg wb" using refresh_keeps [OF ok0 assms(2)] w1 by simp_all
  have now: "reg w1 ?sid = Some (g + 1, storedAs x v)" using 1(2) r0 ka(2) reg(2) by (simp add: regPut_def)
  have "\<exists>v'. r = Inr v' \<and> shows_register (trimSpace ?pid) ?sid (g + 1) (trimSpace (cmName (cpMetadata v)))
      (cleanDomain (trimSpace (cmHost (cpMetadata v)))) (storedSpec x (cpSpec v)) v'"
  proof -
    obtain sn t where l: "listsAll sn (reg w1)" and r: "r = (case List.find (\<lambda>v. cmID (cpMetadata v) = ?sid)
        (servicesFromSnapshot t (trimSpace ?pid) (Some sn)) of Some v \<Rightarrow> Inr v | None \<Rightarrow> Inl ErrServiceNotFoundCP)"
      using get_answered [OF 1(1) assms(2) cl assms(5) refl reg(1)] by blast
    from find_listed [OF l now [unfolded storedAs_def], of t "trimSpace ?pid"] show ?thesis by (elim exE conjE) (simp add: r)
  qed
  then show ?thesis using reg(2) x by blast
qed

lemma delete_then_get:
  assumes "ok w" "wired rpc dns so c sy" "DeleteCPService so planeID k w = (Inr v, w1)" "GetService so planeID k w1 = (r, w2)"
  shows "r = Inl ErrServiceNotFoundCP"
proof -
  let ?pid = "trimSpace planeID" and ?sid = "trimSpace k"
  have n: "?pid \<noteq> []" "?sid \<noteq> []" using assms(3) by (auto simp: DeleteCPService_def Let_def split: if_splits)
  obtain cur wa where get: "GetService so ?pid ?sid w = (Inr cur, wa)"
    using assms(3) n by (auto simp: DeleteCPService_def Let_def split: sum.splits prod.splits)
  obtain cl g n' h sp where cl: "planeClientFor so ?pid = Inr cl" and reg: "reg w ?sid = Some (g, Wanted n' h sp)"
    using get_success [OF assms(1,2) get] by auto
  have ka: "ok wa" "reg wa = reg w" using get_keeps [OF assms(1,2) get] by simp_all
  define gen where "gen = goInt64 (cmGeneration (cpMetadata cur) + 1)"
  define dq where "dq = \<lparr>dlServiceId = ?sid, dlGeneration = gen\<rparr>"
  have so: "soRPC so = rpc" using assms(2) by (simp add: wired_def)
  obtain q wb where q: "rpDeleteService rpc (pcTarget cl) (withAuth (pcBearerToken cl)) dq wa = (q, wb)" by (metis prod.exhaust)
  show ?thesis
  proof (cases q)
    case (Inl err)
    have "statusCode err \<noteq> ''NotFound''" using delete_missing [OF ka(1) q [unfolded Inl]] reg ka(2) by (auto simp: dq_def)
    then have "\<not> errorsIs (wrap ''delete service from cloud-plane'' (classifyRPCError err)) errPlaneObjectNotFound"
      by (simp add: classifyRPCError_def errPlaneObjectNotFound_def)
    then have "fst (DeleteCPService so planeID k w) = Inl (wrap ''delete service from cloud-plane'' (classifyRPCError err))"
      using n get cl q Inl
      by (simp add: DeleteCPService_def Let_def deleteRemoteService_def so clientDeleteService_def dq_def gen_def)
    then show ?thesis using assms(3) by simp
  next
    case (Inr u)
    have del: "ok wb" "answers rpc (pcTarget cl) (withAuth (pcBearerToken cl))" "reg wb = regRemove ?sid gen (reg wa)"
      using delete_removes [OF ka(1) q [unfolded Inr]] by (simp_all add: dq_def)
    have w1: "w1 = bestEffortRefreshServiceDNS so ?sid ?pid (cleanupServiceDNS so ?pid ?sid wb)"
      using assms(3) n get cl q Inr
      by (simp add: DeleteCPService_def Let_def deleteRemoteService_def so clientDeleteService_def dq_def gen_def)
    note kb = dns_cleanup_keeps [OF del(1) assms(2), of ?pid ?sid]
    have 1: "ok w1" "reg w1 = reg wb" using refresh_keeps [OF _ assms(2)] kb w1 by simp_all
    have "reg w1 ?sid = Some (max gen g, Removed)" using 1(2) del(3) ka(2) reg by (simp add: regRemove_def)
    moreover have "planeClientFor so planeID = Inr cl" using cl by (simp add: planeClientFor_def readyPlane_def Let_def)
    ultimately show ?thesis
      by (intro get_unregistered [OF 1(1) assms(2) _ del(2) assms(4) refl n(2)]) simp_all
  qed
qed

end

end
