(* ===== verification/PlaneStore.thy ===== *)
theory PlaneStore
  imports PlaneRegister CloudApi
begin

text \<open>
  A cloud-plane, its handlers on its store, as the plane the control-plane talks to: the interface of
  PlaneRegister holds for it while nothing else writes to the store, and so the operations of the
  control-plane do what they say, end to end.
\<close>

section \<open>The connection\<close>

text \<open>The world of both: the database of the plane, and whatever state 'a the DNS API has.\<close>

record 'a cp_world = store_world +
  cpDNS :: 'a

definition onDNS :: "('a \<Rightarrow> 'r \<times> 'a) \<Rightarrow> 'a cp_world \<Rightarrow> 'r \<times> 'a cp_world" where
  "onDNS f w = (case f (cpDNS w) of (r, a) \<Rightarrow> (r, w\<lparr>cpDNS := a\<rparr>))"

definition apartDNS :: "'a dns_client \<Rightarrow> 'a cp_world dns_client" where
  "apartDNS d =
     \<lparr>dcEnsureRecord = (\<lambda>r. onDNS (dcEnsureRecord d r)), dcDeleteRecord = (\<lambda>r. onDNS (dcDeleteRecord d r)),
      dcDeleteServiceRecords = (\<lambda>p s q. onDNS (dcDeleteServiceRecords d p s q)), dcCheck = onDNS (dcCheck d)\<rparr>"

text \<open>
  The stubs connected to the handlers of the plane at the target addr; what the server learns of the
  peer's certificate is given by the connection.
\<close>

definition planeRPC ::
  "(string \<Rightarrow> string) \<Rightarrow> string \<Rightarrow> plane_identity \<Rightarrow> string \<Rightarrow> bool option \<Rightarrow> 'e store_env_scheme \<Rightarrow>
   'w store_world_scheme plane_rpc" where
  "planeRPC sha256 token ident addr peer e =
     \<lparr>rpGetSnapshot = (\<lambda>t c w.
        if t \<noteq> addr then (Inl (rpcError ''Unavailable'' ''no connection''), w)
        else (case handleGetSnapshot sha256 token ident e (c\<lparr>rcPeer := peer\<rparr>) w of
                (Inl err, w1) \<Rightarrow> (Inl err, w1) | (Inr sn, w1) \<Rightarrow> (Inr (Some sn), w1))),
      rpUpsertService = (\<lambda>t c rq w.
        if t \<noteq> addr then (Inl (rpcError ''Unavailable'' ''no connection''), w)
        else handleUpsertService sha256 token e (c\<lparr>rcPeer := peer\<rparr>) rq w),
      rpDeleteService = (\<lambda>t c rq w.
        if t \<noteq> addr then (Inl (rpcError ''Unavailable'' ''no connection''), w)
        else handleDeleteService sha256 token e (c\<lparr>rcPeer := peer\<rparr>) rq w)\<rparr>"

section \<open>The snapshot\<close>

lemma collectSnapshot_calm:
  "\<exists>sn w'. collectSnapshot ident (undisturbed e) w = (Inr sn, w') \<and> wdb w' = wdb w \<and>
     snServices sn = protoServices (ListServices (wdb w))"
  by (simp add: collectSnapshot_def storeOp_undisturbed readOp_undisturbed Let_def)

lemma itemSpec_proto:
  assumes "service_ok v"
  shows "itemSpec (protoService (scanService v)) = serviceSpec v"
proof -
  have "goInt32 (specContainerPort (serviceSpec v)) = specContainerPort (serviceSpec v)"
    using assms by (intro goInt32_id) (simp_all add: service_ok_def)
  then show ?thesis by (simp add: itemSpec_def protoService_def scanService_def)
qed

lemma ListServices_listsAll:
  assumes "store_inv s" "snServices sn = protoServices (ListServices s)"
  shows "listsAll sn (registersOf s)"
proof -
  let ?items = "map protoService (ListServices s)"
  have ids: "psServiceId (protoService (scanService v)) = serviceID v" for v
    by (simp add: protoService_def scanService_def)
  have "distinct (map serviceID (selectWhere p k (services s)))" for p and k :: "_ \<Rightarrow> instant \<times> string"
    using store_invD(3) [OF assms(1)] by (simp add: selectWhere_def distinct_map inj_on_def)
  then have d: "distinct (map psServiceId ?items)" by (simp add: ListServices_def comp_def ids)
  have l: "listedAs (registersOf s) item" if "item \<in> set ?items" for item
  proof -
    obtain v where v: "v \<in> set (services s)" "serviceDesired v = ServiceDesiredActive" "item = protoService (scanService v)"
      using \<open>item \<in> set ?items\<close> by (auto simp: ListServices_def)
    have ok: "service_ok v" using store_invD(9) [OF assms(1) v(1)] .
    have "findBy serviceID (serviceID v) (services s) = Some v" using v(1) inv_find_service [OF assms(1)] by simp
    then have "registersOf s (serviceID v) = Some (serviceGeneration v, Wanted (serviceName v) (serviceHost v) (serviceSpec v))"
      using v(2) by (simp add: registersOf_def desiredOf_def ServiceDesiredActive_def ServiceDesiredDeleted_def)
    moreover have "psGeneration item = serviceGeneration v" "psName item = serviceName v" "psHost item = serviceHost v"
      by (simp_all add: v(3) protoService_def scanService_def)
    ultimately show ?thesis using ok itemSpec_proto [OF ok] by (simp add: listedAs_def v(3) ids service_ok_def)
  qed
  have a: "\<exists>item\<in>set ?items. psServiceId item = k" if R: "registersOf s k = Some (g, Wanted n h sp)" for k g n h sp
  proof -
    obtain v where v: "findBy serviceID k (services s) = Some v" "serviceDesired v \<noteq> ServiceDesiredDeleted"
      using R by (auto simp: registersOf_def desiredOf_def split: if_splits)
    then have m: "v \<in> set (services s)" "serviceID v = k" using findBy_SomeD by fastforce+
    then have "serviceDesired v = ServiceDesiredActive" using store_invD(9) [OF assms(1)] v(2) by (auto simp: service_ok_def)
    then have "protoService (scanService v) \<in> set ?items" using m by (simp add: ListServices_def)
    then show ?thesis using ids m(2) by blast
  qed
  have "snServices sn = map Some ?items" by (simp add: assms(2) protoServices_def)
  then show ?thesis unfolding listsAll_def using d l a by blast
qed

section \<open>The handlers keep the laws\<close>

lemma handleGetSnapshot_calm:
  "handleGetSnapshot sha256 token ident (undisturbed e) c w = (r, w') \<Longrightarrow> wdb w' = wdb w \<and>
     ((\<exists>err. r = Inl err \<and> authorize sha256 token c = Inl err) \<or>
      (\<exists>sn. r = Inr sn \<and> authorize sha256 token c = Inr () \<and> snServices sn = protoServices (ListServices (wdb w))))"
  using collectSnapshot_calm [of ident e w]
  by (auto simp: handleGetSnapshot_def split: sum.splits)

lemma GetSnapshot_calm:
  assumes "rpGetSnapshot (planeRPC sha256 token ident addr peer (undisturbed e)) t c w = (r, w')"
  shows "wdb w' = wdb w \<and> (\<forall>sn. r = Inr (Some sn) \<longrightarrow> snServices sn = protoServices (ListServices (wdb w)))"
proof (cases "t = addr")
  case True
  obtain q w1 where q: "handleGetSnapshot sha256 token ident (undisturbed e) (c\<lparr>rcPeer := peer\<rparr>) w = (q, w1)" by (metis prod.exhaust)
  show ?thesis using handleGetSnapshot_calm [OF q] q assms True by (auto simp: planeRPC_def split: sum.splits)
next
  case False
  then show ?thesis using assms by (auto simp: planeRPC_def)
qed

lemma answers_calm:
  assumes "authorize sha256 token (c\<lparr>rcPeer := peer\<rparr>) = Inr u"
  shows "answers (planeRPC sha256 token ident addr peer (undisturbed e)) addr c"
proof -
  have "\<exists>sn. r = Inr (Some sn)"
    if a: "rpGetSnapshot (planeRPC sha256 token ident addr peer (undisturbed e)) addr c w = (r, w')" for w r w'
  proof -
    obtain q w1 where q: "handleGetSnapshot sha256 token ident (undisturbed e) (c\<lparr>rcPeer := peer\<rparr>) w = (q, w1)" by (metis prod.exhaust)
    show ?thesis using handleGetSnapshot_calm [OF q] q assms a by (auto simp: planeRPC_def split: sum.splits)
  qed
  then show ?thesis unfolding answers_def by blast
qed

lemma wantedOf_requested: "wantedOf x (upsertInputOf x rq) = requested x rq"
  by (simp add: wantedOf_def requested_def requestedSpec_def upsertInputOf_def serviceRowOf_def)

lemma UpsertService_calm:
  assumes "store_inv (wdb w)" "rpUpsertService (planeRPC sha256 token ident addr peer (undisturbed e)) t c rq w = (Inr u, w')"
  shows "t = addr \<and> authorize sha256 token (c\<lparr>rcPeer := peer\<rparr>) = Inr () \<and> store_inv (wdb w') \<and>
    (\<exists>x. ParseExposure (uqExposure rq) = Inr x \<and>
      registersOf (wdb w') = regPut (trimSpace (uqServiceId rq)) (uqGeneration rq) (requested x rq) (registersOf (wdb w)))"
proof -
  obtain x clk ent v s' where t: "t = addr" "authorize sha256 token (c\<lparr>rcPeer := peer\<rparr>) = Inr ()"
    and x: "ParseExposure (uqExposure rq) = Inr x"
    and up: "UpsertService clk ent (upsertInputOf x rq) (wdb w) = Inr (v, s')" and w': "wdb w' = s'"
    using assms(2) by (auto simp: planeRPC_def handleUpsertService_def storeOp_undisturbed split: if_splits sum.splits prod.splits)
  have px: "ParseExposure (specExposure (usSpec (upsertInputOf x rq))) = Inr x"
    using ParseExposure_idem [OF x] by (simp add: upsertInputOf_def)
  have "registersOf s' = regPut (trimSpace (uqServiceId rq)) (uqGeneration rq) (requested x rq) (registersOf (wdb w))"
    using UpsertService_register [OF assms(1) up px] wantedOf_requested by (simp add: upsertInputOf_def)
  moreover have "store_inv s'" by (rule UpsertService_inv [OF assms(1) up])
  ultimately show ?thesis using t x w' by blast
qed

lemma DeleteService_calm:
  assumes "store_inv (wdb w)" "rpDeleteService (planeRPC sha256 token ident addr peer (undisturbed e)) t c dq w = (r, w')"
  shows "(\<exists>u. r = Inr u \<and> t = addr \<and> authorize sha256 token (c\<lparr>rcPeer := peer\<rparr>) = Inr () \<and> store_inv (wdb w') \<and>
      registersOf (wdb w) (trimSpace (dlServiceId dq)) \<noteq> None \<and>
      registersOf (wdb w') = regRemove (trimSpace (dlServiceId dq)) (dlGeneration dq) (registersOf (wdb w))) \<or>
    (\<exists>err. r = Inl err \<and> wdb w' = wdb w \<and>
      (statusCode err = ''NotFound'' \<longrightarrow> registersOf (wdb w) (trimSpace (dlServiceId dq)) = None))"
proof -
  let ?sid = "trimSpace (dlServiceId dq)" and ?i = "\<lparr>dsID = trimSpace (dlServiceId dq), dsGeneration = dlGeneration dq\<rparr>"
  show ?thesis
  proof (cases "t = addr \<and> authorize sha256 token (c\<lparr>rcPeer := peer\<rparr>) = Inr () \<and> ?sid \<noteq> []")
    case False
    have "statusCode err \<noteq> ''NotFound''" if "authorize sha256 token (c\<lparr>rcPeer := peer\<rparr>) = Inl err" for err
      using that by (auto simp: authorize_def Let_def statusCode_def rpcError_def split: if_splits option.splits)
    moreover have "(\<exists>err. authorize sha256 token (c\<lparr>rcPeer := peer\<rparr>) = Inl err \<and> r = Inl err \<and> w' = w) \<or>
        r = Inl (rpcError ''Unavailable'' ''no connection'') \<and> w' = w \<or>
        r = Inl (rpcError ''InvalidArgument'' ''serviceID is required'') \<and> w' = w"
      using False assms(2)
      by (cases "authorize sha256 token (c\<lparr>rcPeer := peer\<rparr>)")
         (auto simp: planeRPC_def handleDeleteService_def Let_def split: if_splits)
    moreover have "statusCode (rpcError ''Unavailable'' m) \<noteq> ''NotFound''" "statusCode (rpcError ''InvalidArgument'' m) \<noteq> ''NotFound''" for m
      by (simp_all add: statusCode_def rpcError_def)
    ultimately show ?thesis by blast
  next
    case True
    show ?thesis
    proof (cases "DeleteService (envClock e (wtick w)) ?i (wdb w)")
      case (Inr s')
      then have "r = Inr ()" "wdb w' = s'" using True assms(2)
        by (auto simp: planeRPC_def handleDeleteService_def Let_def storeOp_undisturbed unitOp_def)
      moreover have "registersOf (wdb w) ?sid \<noteq> None"
        using DeleteService_InrD [OF Inr] by (auto simp: registersOf_def)
      ultimately show ?thesis
        using True DeleteService_register [OF assms(1) Inr] DeleteService_inv [OF assms(1) Inr] by simp
    next
      case (Inl er)
      then have r: "r = Inl (rpcError (if errorsIs er ErrServiceNotFound then ''NotFound'' else ''InvalidArgument'') (errText er))"
        "wdb w' = wdb w" using True assms(2)
        by (auto simp: planeRPC_def handleDeleteService_def Let_def storeOp_undisturbed unitOp_def)
      have "registersOf (wdb w) ?sid = None" if "errorsIs er ErrServiceNotFound"
        using Inl that
        by (auto simp: DeleteService_def getServiceTx_def registersOf_def bindR_def validateDeleteServiceInput_def
            ErrServiceNotFound_def Let_def split: sum.splits option.splits if_splits)
      then show ?thesis using r by (auto simp: statusCode_def rpcError_def)
    qed
  qed
qed

interpretation storePlane: plane_register
  "planeRPC sha256 token ident addr peer (undisturbed e)" "\<lambda>w. store_inv (wdb w)" "\<lambda>w. registersOf (wdb w)"
  for sha256 token ident addr peer e
proof
  let ?rpc = "planeRPC sha256 token ident addr peer (undisturbed e)"
  fix w w' :: "'b store_world_scheme" and t c r sn rq u dq err
  assume inv: "store_inv (wdb w)"
  show "store_inv (wdb w') \<and> registersOf (wdb w') = registersOf (wdb w)" if "rpGetSnapshot ?rpc t c w = (r, w')"
    using GetSnapshot_calm [OF that] inv by simp
  show "listsAll sn (registersOf (wdb w))" if "rpGetSnapshot ?rpc t c w = (Inr (Some sn), w')"
    using GetSnapshot_calm [OF that] ListServices_listsAll [OF inv] by blast
  show "store_inv (wdb w') \<and> answers ?rpc t c \<and> (\<exists>x. ParseExposure (uqExposure rq) = Inr x \<and>
      registersOf (wdb w') = regPut (trimSpace (uqServiceId rq)) (uqGeneration rq) (requested x rq) (registersOf (wdb w)))"
    if "rpUpsertService ?rpc t c rq w = (Inr u, w')"
    using UpsertService_calm [OF inv that] answers_calm by blast
  show "store_inv (wdb w') \<and> answers ?rpc t c \<and> registersOf (wdb w) (trimSpace (dlServiceId dq)) \<noteq> None \<and>
      registersOf (wdb w') = regRemove (trimSpace (dlServiceId dq)) (dlGeneration dq) (registersOf (wdb w))"
    if "rpDeleteService ?rpc t c dq w = (Inr u, w')"
    using DeleteService_calm [OF inv that] answers_calm by blast
  show "store_inv (wdb w') \<and> registersOf (wdb w') = registersOf (wdb w) \<and>
      (statusCode err = ''NotFound'' \<longrightarrow> registersOf (wdb w) (trimSpace (dlServiceId dq)) = None)"
    if "rpDeleteService ?rpc t c dq w = (Inl err, w')"
    using DeleteService_calm [OF inv that] inv by auto
qed

interpretation storeControl: plane_with_dns
  "planeRPC sha256 token ident addr peer (undisturbed e)" "\<lambda>w. store_inv (wdb w)" "\<lambda>w. registersOf (wdb w)" "apartDNS d"
  for sha256 token ident addr peer e d
  by unfold_locales (auto simp: apartDNS_def onDNS_def split: prod.splits)

end
