(* ===== verification/PlaneProps.thy ===== *)
theory PlaneProps
  imports PlaneStore
begin

text \<open>
  The operations of the control-plane on a cloud-plane, end to end: through the client, the handlers
  and the store and back through the snapshot.  Witnesses run both sides on a small configuration.
\<close>

text \<open>The control-plane built from a configuration, connected to one plane's handlers.\<close>

definition connected ::
  "'a cp_world surroundings \<Rightarrow> control_config \<Rightarrow> 'a cp_world service_operations \<Rightarrow> bool" where
  "connected su cfg so \<longleftrightarrow>
     (\<exists>sha256 token ident addr peer (e :: store_env) dns sy.
        suRPC su = planeRPC sha256 token ident addr peer (undisturbed e) \<and> suDNS su = (\<lambda>domain. apartDNS (dns domain)) \<and>
        buildControlPlane su cfg = Inr (sy, so) \<and> plainEndpoints cfg)"

lemma connectedE:
  assumes "connected su cfg so"
  obtains sha256 token ident addr peer dns c sy and e :: store_env
  where "wired (planeRPC sha256 token ident addr peer (undisturbed e)) (apartDNS dns) so c sy"
  using assms build_wired unfolding connected_def by metis

lemma registersOf_None: "findBy serviceID k (services s) = None \<Longrightarrow> registersOf s k = None"
  by (simp add: registersOf_def)

text \<open>
  What is created can be read.  When Create answers with a service under a fresh id, the next Get
  of that id returns a service with this id, name and generation 1, with the host that was derived
  for it, and with the specification that was asked for: the exposure as parsed (public when empty)
  and surrounding white space dropped, nothing else changed on the way through the client, the
  handlers, the store, the snapshot and back.
\<close>

theorem created_service_is_read:
  assumes "connected su cfg so" "store_reachable (wdb w)"
    "CreateService so entropy i w = (Inr v, w1)" "findBy serviceID (cmID (cpMetadata v)) (services (wdb w)) = None"
    "GetService so (csPlaneID (ciSpec i)) (cmID (cpMetadata v)) w1 = (r, w2)"
  shows "\<exists>v' x. r = Inr v' \<and> ParseExposure (csExposure (ciSpec i)) = Inr x \<and>
    shows_register (trimSpace (csPlaneID (ciSpec i))) (cmID (cpMetadata v)) 1 (trimSpace (ciName i))
      (cleanDomain (trimSpace (cmHost (cpMetadata v)))) (storedSpec x (ciSpec i)) v'"
proof -
  obtain sha256 token ident addr peer dns c sy and e :: store_env
    where "wired (planeRPC sha256 token ident addr peer (undisturbed e)) (apartDNS dns) so c sy"
    using connectedE [OF assms(1)] .
  then show ?thesis
    by (rule storeControl.create_then_get
        [OF store_reachable_inv [OF assms(2)] _ assms(3) registersOf_None [OF assms(4)] assms(5)])
qed


text \<open>
  What is deleted is gone.  When Delete answers, the next Get of the service answers that it does
  not exist.
\<close>

theorem deleted_service_is_gone:
  assumes "connected su cfg so" "store_reachable (wdb w)"
    "DeleteCPService so planeID k w = (Inr v, w1)" "GetService so planeID k w1 = (r, w2)"
  shows "r = Inl ErrServiceNotFoundCP"
proof -
  obtain sha256 token ident addr peer dns c sy and e :: store_env
    where "wired (planeRPC sha256 token ident addr peer (undisturbed e)) (apartDNS dns) so c sy"
    using connectedE [OF assms(1)] .
  then show ?thesis by (rule storeControl.delete_then_get [OF store_reachable_inv [OF assms(2)] _ assms(3,4)])
qed

section \<open>A run of both sides\<close>

definition demoEnv :: store_env where
  "demoEnv = \<lparr>envClock = (\<lambda>k. \<lparr>goNow = Instant (int k), dbNow = Instant (int k)\<rparr>),
     envEntropy = (\<lambda>k. Inr [k]), envFault = (\<lambda>_. None), envOther = (\<lambda>_ s. s)\<rparr>"

definition demoSu :: "dnspod_item list cp_world surroundings" where
  "demoSu = \<lparr>suRPC = planeRPC (\<lambda>s. s) ''s'' \<lparr>idName = ''hz'', idProvider = ''aliyun'', idRegion = ''cn''\<rparr> ''p.e.io:443'' (Some True) (undisturbed demoEnv),
     suDNS = (\<lambda>domain. apartDNS (dnsPodClient zoneDNS domain)), suClientTLS = (\<lambda>_ _. Inr ()),
     suNow = (\<lambda>w. Instant 7), suCtxErr = (\<lambda>_. None)\<rparr>"

definition demoLoaded :: control_config where
  "demoLoaded = normalizeControlConfig demoConfig"

definition demoOps :: "dnspod_item list cp_world service_operations" where
  "demoOps = (case buildControlPlane demoSu demoLoaded of
     Inr (sy, so) \<Rightarrow> so
   | Inl err \<Rightarrow> \<lparr>soCatalog = None, soBaseDomain = [], soToken = [], soClientTLS = (\<lambda>_. Inl err), soSyncer = None,
       soRPC = suRPC demoSu, soNow = suNow demoSu\<rparr>)"

definition demoStart :: "dnspod_item list cp_world" where
  "demoStart = \<lparr>wdb = emptyDB, wtick = 0, cpDNS = []\<rparr>"

definition demoCreate :: create_service_input where
  "demoCreate = \<lparr>ciName = ''web'', ciDisplayName = ''Web'',
     ciSpec = \<lparr>csPlaneID = '' hz'', csInstanceClass = ''small'', csExposure = [], csImage = ''nginx'', csCommand = [],
       csArgs = [], csDefaultPort = 80, csReadinessPath = ''/up'', csEnv = [(''A'', ''1'')]\<rparr>\<rparr>"

definition resultOf :: "'a res \<times> 'w \<Rightarrow> 'a option" where
  "resultOf p = (case fst p of Inl e \<Rightarrow> None | Inr x \<Rightarrow> Some x)"

lemma resultOf_Some: "resultOf p = Some x \<Longrightarrow> p = (Inr x, snd p)"
  by (cases p) (auto simp: resultOf_def split: sum.splits)

lemma demoSu_plane:
  "suRPC demoSu = planeRPC (\<lambda>s. s) ''s'' \<lparr>idName = ''hz'', idProvider = ''aliyun'', idRegion = ''cn''\<rparr> ''p.e.io:443'' (Some True) (undisturbed demoEnv)"
  "suDNS demoSu = (\<lambda>domain. apartDNS (dnsPodClient zoneDNS domain))"
  by (simp_all add: demoSu_def)

lemma demo_connected: "connected demoSu demoLoaded demoOps"
proof -
  have "isOk (buildControlPlane demoSu demoLoaded)" by code_simp
  then obtain sy so where b: "buildControlPlane demoSu demoLoaded = Inr (sy, so)" by (auto simp: isOk_def split: sum.splits)
  then have "demoOps = so" by (simp add: demoOps_def)
  moreover have "plainEndpoints demoLoaded" by code_simp
  ultimately show ?thesis using demoSu_plane b unfolding connected_def by blast
qed

theorem created_service_is_read_witness:
  "\<exists>v r w2. CreateService demoOps (Inr [171]) demoCreate demoStart = (Inr v, snd (CreateService demoOps (Inr [171]) demoCreate demoStart)) \<and>
     GetService demoOps '' hz'' (cmID (cpMetadata v)) (snd (CreateService demoOps (Inr [171]) demoCreate demoStart)) = (r, w2) \<and>
     (\<exists>v' x. r = Inr v' \<and> ParseExposure [] = Inr x \<and>
        shows_register (trimSpace '' hz'') (cmID (cpMetadata v)) 1 (trimSpace ''web'')
          (cleanDomain (trimSpace (cmHost (cpMetadata v)))) (storedSpec x (ciSpec demoCreate)) v')"
proof -
  have "map_option (\<lambda>v. cmID (cpMetadata v)) (resultOf (CreateService demoOps (Inr [171]) demoCreate demoStart)) = Some ''svc_ab''"
    by code_simp
  then obtain v where v: "resultOf (CreateService demoOps (Inr [171]) demoCreate demoStart) = Some v" by auto
  note c = resultOf_Some [OF v]
  have new: "findBy serviceID (cmID (cpMetadata v)) (services (wdb demoStart)) = None" by (simp add: demoStart_def emptyDB_def findBy_def)
  have reach: "store_reachable (wdb demoStart)" by (simp add: demoStart_def reach_init)
  obtain r w2 where g: "GetService demoOps (csPlaneID (ciSpec demoCreate)) (cmID (cpMetadata v))
      (snd (CreateService demoOps (Inr [171]) demoCreate demoStart)) = (r, w2)" by (metis prod.exhaust)
  from created_service_is_read [OF demo_connected reach c new g] c g show ?thesis by (simp add: demoCreate_def) blast
qed

definition dWeb :: db where
  "dWeb = resDB (UpsertService t0 (Inr [3]) (demoUpsert ''s1'' ''web'' 1) emptyDB)"

definition demoServing :: "dnspod_item list cp_world" where
  "demoServing = demoStart\<lparr>wdb := dWeb\<rparr>"

lemma demoServing_reachable: "store_reachable (wdb demoServing)"
proof -
  have "isOk (UpsertService t0 (Inr [3]) (demoUpsert ''s1'' ''web'' 1) emptyDB)" by code_simp
  from isOkD [OF this] have "store_reachable dWeb" by (intro reach_step [OF reach_init step_upsert]) (simp add: dWeb_def)
  then show ?thesis by (simp add: demoServing_def)
qed

definition demoUpdate :: update_service_input where
  "demoUpdate = \<lparr>uiPlaneID = ''hz'', uiServiceID = ''s1'', uiDisplayName = ''Web'',
     uiSpec = \<lparr>wsInstanceClass = ''large'', wsExposure = ''Private'', wsImage = ''nginx:2'', wsCommand = [], wsArgs = [],
       wsDefaultPort = 81, wsReadinessPath = ''/up'', wsEnv = []\<rparr>\<rparr>"

lemma demoUpdate_sel:
  "uiPlaneID demoUpdate = ''hz''" "uiServiceID demoUpdate = ''s1''" "wsExposure (uiSpec demoUpdate) = ''Private''"
  by (simp_all add: demoUpdate_def)


theorem deleted_service_is_gone_witness:
  "fst (DeleteCPService demoOps ''hz'' ''s1'' demoServing) \<noteq> Inl ErrServiceNotFoundCP \<and>
   fst (GetService demoOps ''hz'' ''s1'' (snd (DeleteCPService demoOps ''hz'' ''s1'' demoServing))) = Inl ErrServiceNotFoundCP"
proof -
  have "map_option (\<lambda>v. cmID (cpMetadata v)) (resultOf (DeleteCPService demoOps ''hz'' ''s1'' demoServing)) = Some ''s1''"
    by code_simp
  then obtain v where v: "resultOf (DeleteCPService demoOps ''hz'' ''s1'' demoServing) = Some v" by auto
  note d = resultOf_Some [OF v]
  obtain r w2 where g: "GetService demoOps ''hz'' ''s1'' (snd (DeleteCPService demoOps ''hz'' ''s1'' demoServing)) = (r, w2)"
    by (metis prod.exhaust)
  have "r = Inl ErrServiceNotFoundCP"
    by (rule deleted_service_is_gone [OF demo_connected demoServing_reachable d g])
  then show ?thesis using v g by (auto simp: resultOf_def split: sum.splits)
qed

end
