(* ===== verification/Docker.thy ===== *)
theory Docker
  imports GoText GoNet
begin

text \<open>
  internal/nodeagent/runtime: the container runtime of a node agent on the Docker engine.  The
  engine's API, the probes of host ports and the waits are a record of functions on a state 'a; what
  they answer is not restricted, and a deadline or a cancelled context is one of their errors.
\<close>

section \<open>runtime.go\<close>

record run_input =
  ruContainerName :: string
  ruNodeID :: string
  ruExecutionID :: string
  ruServiceID :: string
  ruImage :: string
  ruCommand :: "string list"
  ruArgs :: "string list"
  ruEnv :: "(string \<times> string) list"
  ruContainerPort :: int
  ruHostBindIP :: string
  ruHostPortMin :: int
  ruHostPortMax :: int

record run_result =
  rrContainerID :: string
  rrContainerName :: string
  rrHostPort :: int

section \<open>The engine\<close>

text \<open>A container of a list, with its labels; what a container is created from.\<close>

record docker_item =
  dkiID :: string
  dkiLabels :: "(string \<times> string) list"

record container_config =
  ccImage :: string
  ccEnv :: "string list"
  ccPortSpec :: string
  ccLabels :: "(string \<times> string) list"
  ccCmd :: "string list"
  ccAutoRemove :: bool
  ccExtraHosts :: "string list"
  ccHostIP :: string
  ccHostPort :: string

text \<open>
  dkDrain and dkClosePull are about the stream of the last pull, dkDemux and dkCloseLogs about that
  of the last log request, dkCloseProbe about the listener of the last probe.  dkWait waits, or
  returns the error of the context.
\<close>

record 'a docker_api =
  dkInspectImage :: "string \<Rightarrow> 'a \<Rightarrow> unit res \<times> 'a"
  dkPull :: "string \<Rightarrow> 'a \<Rightarrow> unit res \<times> 'a"
  dkDrain :: "'a \<Rightarrow> goerr option \<times> 'a"
  dkClosePull :: "'a \<Rightarrow> goerr option \<times> 'a"
  dkList :: "string list \<Rightarrow> 'a \<Rightarrow> docker_item list res \<times> 'a"
  dkStop :: "string \<Rightarrow> 'a \<Rightarrow> unit res \<times> 'a"
  dkRemove :: "string \<Rightarrow> 'a \<Rightarrow> unit res \<times> 'a"
  dkCreate :: "container_config \<Rightarrow> string \<Rightarrow> 'a \<Rightarrow> string res \<times> 'a"
  dkStart :: "string \<Rightarrow> 'a \<Rightarrow> unit res \<times> 'a"
  dkInspect :: "string \<Rightarrow> 'a \<Rightarrow> (string \<Rightarrow> string list) res \<times> 'a"
  dkLogs :: "string \<Rightarrow> string \<Rightarrow> 'a \<Rightarrow> unit res \<times> 'a"
  dkDemux :: "'a \<Rightarrow> (string \<times> string) res \<times> 'a"
  dkCloseLogs :: "'a \<Rightarrow> goerr option \<times> 'a"
  dkProbe :: "string \<Rightarrow> 'a \<Rightarrow> unit res \<times> 'a"
  dkCloseProbe :: "'a \<Rightarrow> goerr option \<times> 'a"
  dkWait :: "int \<Rightarrow> 'a \<Rightarrow> goerr option \<times> 'a"

text \<open>cerrdefs.IsNotFound.\<close>

definition isNotFound :: "goerr \<Rightarrow> bool" where
  "isNotFound err \<longleftrightarrow> sdkCode err = Some ''NotFound''"

section \<open>Text\<close>

text \<open>strconv.Atoi.\<close>

definition digitsValue :: "string \<Rightarrow> int" where
  "digitsValue s = foldl (\<lambda>v c. 10 * v + (of_char c - 48)) 0 s"

definition goAtoi :: "string \<Rightarrow> int res" where
  "goAtoi s =
     (let neg = hasPrefix s ''-''; body = (if hasPrefix s ''-'' \<or> hasPrefix s ''+'' then drop 1 s else s);
          v = (if neg then - digitsValue body else digitsValue body);
          bad = Wrapf (''strconv.Atoi: parsing '' @ goQuote s @ '': '')
      in if body = [] \<or> \<not> list_all (\<lambda>c. 48 \<le> (of_char c :: nat) \<and> (of_char c :: nat) \<le> 57) body then
           Inl (bad (Sentinel ''invalid syntax'') [])
         else if v < - (2 ^ 63) \<or> 2 ^ 63 \<le> v then Inl (bad (Sentinel ''value out of range'') [])
         else Inr v)"

definition resolveHostBindIP :: "string \<Rightarrow> string" where
  "resolveHostBindIP value = (if trimSpace value = [] then ''127.0.0.1'' else trimSpace value)"

definition messageHas :: "string list \<Rightarrow> goerr \<Rightarrow> bool" where
  "messageHas parts err \<longleftrightarrow> list_ex (containsStr (toLower (errText err))) parts"

definition shouldRetryHostPortCreate :: "goerr \<Rightarrow> bool" where
  "shouldRetryHostPortCreate err \<longleftrightarrow>
     messageHas [''port is already allocated'', ''ports are not available'', ''address already in use'',
       ''bind: address already in use''] err"

definition isContainerAlreadyStopped :: "goerr \<Rightarrow> bool" where
  "isContainerAlreadyStopped err \<longleftrightarrow> messageHas [''not modified'', ''is not running'', ''already stopped''] err"

section \<open>What a container is created from\<close>

definition labelManagedBy :: string where "labelManagedBy = ''mini-cloud.managed-by''"
definition labelNodeID :: string where "labelNodeID = ''mini-cloud.node-id''"
definition labelExecutionID :: string where "labelExecutionID = ''mini-cloud.execution-id''"
definition labelServiceID :: string where "labelServiceID = ''mini-cloud.service-id''"

definition buildContainerEnv :: "(string \<times> string) list \<Rightarrow> string list" where
  "buildContainerEnv env = map (\<lambda>(k, v). k @ ''='' @ v) (sort_key fst env)"

definition addLabel :: "(string \<times> string) list \<Rightarrow> string \<Rightarrow> string \<Rightarrow> (string \<times> string) list" where
  "addLabel labels key value = (if trimSpace value \<noteq> [] then AList.update key (trimSpace value) labels else labels)"

definition buildMiniCloudLabels :: "run_input \<Rightarrow> (string \<times> string) list" where
  "buildMiniCloudLabels i =
     addLabel (addLabel (addLabel [(labelManagedBy, ''node-agent'')] labelNodeID (ruNodeID i))
       labelExecutionID (ruExecutionID i)) labelServiceID (ruServiceID i)"

definition resolveContainerCommand :: "run_input \<Rightarrow> string list" where
  "resolveContainerCommand i = (if ruCommand i \<noteq> [] then ruCommand i @ ruArgs i else ruArgs i)"

definition buildContainerCreateConfig :: "run_input \<Rightarrow> int \<Rightarrow> container_config res" where
  "buildContainerCreateConfig i hostPort =
     (if ruContainerPort i \<le> 0 then Inl (Errorf ''container port must be greater than 0'')
      else if hostPort \<le> 0 then Inl (Errorf ''host port must be greater than 0'')
      else Inr
        \<lparr>ccImage = ruImage i, ccEnv = buildContainerEnv (ruEnv i), ccPortSpec = itoa (ruContainerPort i) @ ''/tcp'',
         ccLabels = buildMiniCloudLabels i, ccCmd = resolveContainerCommand i, ccAutoRemove = True,
         ccExtraHosts = [''host.docker.internal:host-gateway''], ccHostIP = resolveHostBindIP (ruHostBindIP i),
         ccHostPort = itoa hostPort\<rparr>)"

section \<open>Host ports\<close>

fun probePorts :: "'a docker_api \<Rightarrow> string \<Rightarrow> int set \<Rightarrow> int list \<Rightarrow> 'a \<Rightarrow> int option res \<times> 'a" where
  "probePorts api bindIP excluded [] a = (Inr None, a)"
| "probePorts api bindIP excluded (port # ports) a =
     (if port \<in> excluded then probePorts api bindIP excluded ports a
      else (case dkProbe api (joinHostPort bindIP (itoa port)) a of
              (Inl err, a1) \<Rightarrow> probePorts api bindIP excluded ports a1
            | (Inr _, a1) \<Rightarrow>
                (case dkCloseProbe api a1 of
                   (Some err, a2) \<Rightarrow> (Inl (wrap ''close host port probe listener'' err), a2)
                 | (None, a2) \<Rightarrow> (Inr (Some port), a2))))"

definition selectAvailableHostPortExcluding ::
  "'a docker_api \<Rightarrow> string \<Rightarrow> int \<Rightarrow> int \<Rightarrow> int set \<Rightarrow> 'a \<Rightarrow> int res \<times> 'a" where
  "selectAvailableHostPortExcluding api bindIP minPort maxPort excluded a =
     (if minPort \<le> 0 \<or> maxPort \<le> 0 then (Inl (Errorf ''host port range min and max must be greater than 0''), a)
      else if maxPort < minPort then
        (Inl (Errorf ''host port range min must be less than or equal to max''), a)
      else (case probePorts api bindIP excluded [minPort..maxPort] a of
              (Inl err, a1) \<Rightarrow> (Inl err, a1)
            | (Inr (Some port), a1) \<Rightarrow> (Inr port, a1)
            | (Inr None, a1) \<Rightarrow>
                (Inl (Errorf (''no available host port in range '' @ itoa minPort @ ''-'' @ itoa maxPort
                   @ '' for bind ip '' @ bindIP)), a1)))"

lemma probePorts_port:
  "probePorts api bindIP excluded ports a = (Inr (Some p), a') \<Longrightarrow> p \<in> set ports \<and> p \<notin> excluded"
  by (induction ports arbitrary: a) (auto split: if_splits prod.splits sum.splits option.splits)

lemma select_port:
  assumes "selectAvailableHostPortExcluding api bindIP minPort maxPort excluded a = (Inr p, a')"
  shows "minPort \<le> p \<and> p \<le> maxPort \<and> p \<notin> excluded \<and> 0 < p"
  using assms probePorts_port [of api bindIP excluded "[minPort..maxPort]" a p]
  by (auto simp: selectAvailableHostPortExcluding_def split: if_splits prod.splits sum.splits option.splits)

section \<open>Creating a container\<close>

lemma fewer_ports:
  assumes "selectAvailableHostPortExcluding api bindIP lo hi (insert p att) a = (Inr q, a')"
  shows "card ({lo..hi} - insert q (insert p att)) < card ({lo..hi} - insert p att)"
proof -
  have "q \<in> {lo..hi} - insert p att" using select_port [OF assms] by auto
  moreover have "finite ({lo..hi} - insert p att)" by simp
  ultimately have "card ({lo..hi} - insert p att - {q}) < card ({lo..hi} - insert p att)" by (rule card_Diff1_less [rotated])
  then show ?thesis by (simp only: Diff_insert [of "{lo..hi}" q "insert p att"])
qed

text \<open>
  The loop of Run: a port that the engine refuses is excluded and the next free one is tried.  It
  ends because the ports that are left become fewer.
\<close>

function createLoop ::
  "'a docker_api \<Rightarrow> run_input \<Rightarrow> string \<Rightarrow> container_config \<Rightarrow> int \<Rightarrow> int set \<Rightarrow> 'a \<Rightarrow> string res \<times> 'a" where
  "createLoop api i bindIP config hostPort attempted a =
     (case dkCreate api config (ruContainerName i) a of
        (Inr cid, a1) \<Rightarrow> (Inr cid, a1)
      | (Inl err, a1) \<Rightarrow>
          if \<not> shouldRetryHostPortCreate err then (Inl (wrap ''docker container create failed'' err), a1)
          else
            (let attempted' = insert hostPort attempted in
             case selectAvailableHostPortExcluding api bindIP (ruHostPortMin i) (ruHostPortMax i) attempted' a1 of
               (Inl selectErr, a2) \<Rightarrow>
                 (Inl (Join [wrap ''docker container create failed after host port retries'' err, selectErr]), a2)
             | (Inr nextPort, a2) \<Rightarrow>
                 (case buildContainerCreateConfig i nextPort of
                    Inl e \<Rightarrow> (Inl e, a2)
                  | Inr config' \<Rightarrow> createLoop api i bindIP config' nextPort attempted' a2)))"
  by pat_completeness auto

termination
  by (relation "measure (\<lambda>(api, i, bindIP, config, hostPort, attempted, a).
      card ({ruHostPortMin i..ruHostPortMax i} - insert hostPort attempted))")
     (auto dest: sym intro: fewer_ports)

declare createLoop.simps [simp del]

section \<open>The operations\<close>

definition dockerImagePullAttempts :: nat where "dockerImagePullAttempts = 3"
definition dockerImagePullRetryDelay :: int where "dockerImagePullRetryDelay = 5000000000"

text \<open>One attempt at a pull.\<close>

definition pullStreamError :: "goerr option \<Rightarrow> goerr option \<Rightarrow> goerr option" where
  "pullStreamError copyErr closeErr =
     (case (copyErr, closeErr) of
        (None, None) \<Rightarrow> None
      | (Some c, None) \<Rightarrow> Some (wrap ''drain docker image pull stream'' c)
      | (None, Some c) \<Rightarrow> Some (wrap ''close docker image pull stream'' c)
      | (Some c, Some d) \<Rightarrow>
          Some (Join [wrap ''drain docker image pull stream'' c, wrap ''close docker image pull stream'' d]))"

definition pullOnce :: "'a docker_api \<Rightarrow> string \<Rightarrow> 'a \<Rightarrow> unit res \<times> 'a" where
  "pullOnce api ref a =
     (case dkPull api ref a of
        (Inl err, a1) \<Rightarrow> (Inl (wrap ''docker image pull failed'' err), a1)
      | (Inr _, a1) \<Rightarrow>
      (case dkDrain api a1 of (copyErr, a2) \<Rightarrow>
      (case dkClosePull api a2 of (closeErr, a3) \<Rightarrow>
      (case pullStreamError copyErr closeErr of
         Some err \<Rightarrow> (Inl (wrap ''docker image pull failed'' err), a3)
       | None \<Rightarrow>
           (case dkInspectImage api ref a3 of
              (Inr _, a4) \<Rightarrow> (Inr (), a4)
            | (Inl err, a4) \<Rightarrow>
                if \<not> isNotFound err then (Inl (wrap ''docker inspect pulled image failed'' err), a4)
                else (Inl (Errorf (''docker image '' @ ref @ '' is still not present after pull completed'')), a4))))))"

text \<open>The number counts the attempts that may follow this one.\<close>

primrec pullLoop :: "'a docker_api \<Rightarrow> string \<Rightarrow> nat \<Rightarrow> 'a \<Rightarrow> unit res \<times> 'a" where
  "pullLoop api ref 0 a =
     (case pullOnce api ref a of
        (Inr _, a1) \<Rightarrow> (Inr (), a1)
      | (Inl err, a1) \<Rightarrow> (Inl (wrap (''docker image pull failed after '' @ itoa (int dockerImagePullAttempts) @ '' attempts'') err), a1))"
| "pullLoop api ref (Suc k) a =
     (case pullOnce api ref a of
        (Inr _, a1) \<Rightarrow> (Inr (), a1)
      | (Inl err, a1) \<Rightarrow>
          (case dkWait api dockerImagePullRetryDelay a1 of
             (Some ctxErr, a2) \<Rightarrow> (Inl ctxErr, a2)
           | (None, a2) \<Rightarrow> pullLoop api ref k a2))"

definition ensureImageAvailable :: "'a docker_api \<Rightarrow> string \<Rightarrow> 'a \<Rightarrow> unit res \<times> 'a" where
  "ensureImageAvailable api ref a =
     (case dkInspectImage api ref a of
        (Inr _, a1) \<Rightarrow> (Inr (), a1)
      | (Inl err, a1) \<Rightarrow>
          if \<not> isNotFound err then (Inl (wrap ''docker inspect image failed'' err), a1)
          else pullLoop api ref (dockerImagePullAttempts - 1) a1)"

text \<open>Stop and remove; what is gone or stopped already is no failure.\<close>

definition removeItem :: "'a docker_api \<Rightarrow> string \<Rightarrow> docker_item \<Rightarrow> 'a \<Rightarrow> unit res \<times> 'a" where
  "removeItem api what item a =
     (case dkRemove api (dkiID item) a of
        (Inr _, a1) \<Rightarrow> (Inr (), a1)
      | (Inl err, a1) \<Rightarrow>
          if isNotFound err then (Inr (), a1)
          else (Inl (wrap (''docker remove '' @ what @ '' container '' @ dkiID item @ '' failed'') err), a1))"

definition stopAndRemove :: "'a docker_api \<Rightarrow> string \<Rightarrow> docker_item \<Rightarrow> 'a \<Rightarrow> unit res \<times> 'a" where
  "stopAndRemove api what item a =
     (case dkStop api (dkiID item) a of
        (Inr _, a1) \<Rightarrow> removeItem api what item a1
      | (Inl err, a1) \<Rightarrow>
          if isNotFound err \<or> isContainerAlreadyStopped err then removeItem api what item a1
          else (Inl (wrap (''docker stop '' @ what @ '' container '' @ dkiID item @ '' failed'') err), a1))"

fun resetLoop :: "'a docker_api \<Rightarrow> docker_item list \<Rightarrow> 'a \<Rightarrow> unit res \<times> 'a" where
  "resetLoop api [] a = (Inr (), a)"
| "resetLoop api (item # items) a =
     (case stopAndRemove api ''mini-cloud node'' item a of
        (Inl err, a1) \<Rightarrow> (Inl err, a1)
      | (Inr _, a1) \<Rightarrow> resetLoop api items a1)"

definition nodeFilter :: "string \<Rightarrow> string list" where
  "nodeFilter nodeID = [labelManagedBy @ ''=node-agent'', labelNodeID @ ''='' @ nodeID]"

definition dockerResetNode :: "'a docker_api \<Rightarrow> string \<Rightarrow> 'a \<Rightarrow> unit res \<times> 'a" where
  "dockerResetNode api nodeID0 a =
     (let nodeID = trimSpace nodeID0 in
      if nodeID = [] then (Inl (Errorf ''nodeID is required for runtime reset''), a)
      else (case dkList api (nodeFilter nodeID) a of
              (Inl err, a1) \<Rightarrow> (Inl (wrap ''docker list mini-cloud node containers failed'' err), a1)
            | (Inr items, a1) \<Rightarrow> resetLoop api items a1))"

text \<open>A label that is missing is the empty string.\<close>

definition itemLabel :: "docker_item \<Rightarrow> string \<Rightarrow> string" where
  "itemLabel item key = (case map_of (dkiLabels item) key of None \<Rightarrow> [] | Some v \<Rightarrow> v)"

fun stopOldLoop :: "'a docker_api \<Rightarrow> string \<Rightarrow> docker_item list \<Rightarrow> 'a \<Rightarrow> unit res \<times> 'a" where
  "stopOldLoop api current [] a = (Inr (), a)"
| "stopOldLoop api current (item # items) a =
     (if itemLabel item labelExecutionID = current then stopOldLoop api current items a
      else (case stopAndRemove api ''old service'' item a of
              (Inl err, a1) \<Rightarrow> (Inl err, a1)
            | (Inr _, a1) \<Rightarrow> stopOldLoop api current items a1))"

definition stopServiceContainers :: "'a docker_api \<Rightarrow> string \<Rightarrow> string \<Rightarrow> string \<Rightarrow> 'a \<Rightarrow> unit res \<times> 'a" where
  "stopServiceContainers api nodeID0 serviceID0 current0 a =
     (let nodeID = trimSpace nodeID0; serviceID = trimSpace serviceID0; current = trimSpace current0 in
      if nodeID = [] \<or> serviceID = [] then (Inr (), a)
      else (case dkList api (nodeFilter nodeID @ [labelServiceID @ ''='' @ serviceID]) a of
              (Inl err, a1) \<Rightarrow> (Inl (wrap ''docker list mini-cloud service containers failed'' err), a1)
            | (Inr items, a1) \<Rightarrow> stopOldLoop api current items a1))"

text \<open>One look at the port bindings of a container.\<close>

definition detectOnce :: "'a docker_api \<Rightarrow> string \<Rightarrow> string \<Rightarrow> 'a \<Rightarrow> int res \<times> 'a" where
  "detectOnce api cid portSpec a =
     (let port = takeWhile (\<lambda>c. c \<noteq> CHR ''/'') portSpec in
      case dkInspect api cid a of
        (Inl err, a1) \<Rightarrow> (Inl (wrap ''docker inspect failed'' err), a1)
      | (Inr ports, a1) \<Rightarrow>
          (case ports portSpec of
             [] \<Rightarrow> (Inl (Errorf (''docker inspect ports missing '' @ port)), a1)
           | binding # _ \<Rightarrow>
               (let value = trimSpace binding in
                if value = [] then (Inl (Errorf (''docker inspect returned empty host port for '' @ port)), a1)
                else (case goAtoi value of
                        Inr p \<Rightarrow> (Inr p, a1)
                      | Inl err \<Rightarrow> (Inl (wrap (''parse inspect host port '' @ goQuote value) err), a1)))))"

text \<open>
  The number counts the attempts; the code waits after each failed one, also after the last.  With
  no attempt at all the code has no last error.
\<close>

fun detectLoop :: "'a docker_api \<Rightarrow> string \<Rightarrow> string \<Rightarrow> nat \<Rightarrow> goerr \<Rightarrow> 'a \<Rightarrow> int res \<times> 'a" where
  "detectLoop api cid portSpec 0 lastErr a = (Inl (wrap ''detect host port failed'' lastErr), a)"
| "detectLoop api cid portSpec (Suc n) lastErr a =
     (case detectOnce api cid portSpec a of
        (Inr p, a1) \<Rightarrow> (Inr p, a1)
      | (Inl err, a1) \<Rightarrow>
          (case dkWait api 500000000 a1 of
             (Some ctxErr, a2) \<Rightarrow> (Inl ctxErr, a2)
           | (None, a2) \<Rightarrow> detectLoop api cid portSpec n err a2))"

definition detectHostPort :: "'a docker_api \<Rightarrow> string \<Rightarrow> string \<Rightarrow> 'a \<Rightarrow> int res \<times> 'a" where
  "detectHostPort api cid portSpec = detectLoop api cid portSpec 10 (Errorf ''host port not available yet'')"

definition removeCreatedContainer :: "'a docker_api \<Rightarrow> string \<Rightarrow> 'a \<Rightarrow> 'a" where
  "removeCreatedContainer api cid a = (if trimSpace cid = [] then a else snd (dkRemove api cid a))"

definition dockerRun :: "'a docker_api \<Rightarrow> run_input \<Rightarrow> 'a \<Rightarrow> run_result res \<times> 'a" where
  "dockerRun api i a =
     (case ensureImageAvailable api (ruImage i) a of
        (Inl err, a1) \<Rightarrow> (Inl err, a1)
      | (Inr _, a1) \<Rightarrow>
     (case stopServiceContainers api (ruNodeID i) (ruServiceID i) (ruExecutionID i) a1 of
        (Inl err, a2) \<Rightarrow> (Inl err, a2)
      | (Inr _, a2) \<Rightarrow>
     (let bindIP = resolveHostBindIP (ruHostBindIP i) in
      case selectAvailableHostPortExcluding api bindIP (ruHostPortMin i) (ruHostPortMax i) {} a2 of
        (Inl err, a3) \<Rightarrow> (Inl err, a3)
      | (Inr hostPort, a3) \<Rightarrow>
     (case buildContainerCreateConfig i hostPort of
        Inl err \<Rightarrow> (Inl err, a3)
      | Inr config \<Rightarrow>
     (case createLoop api i bindIP config hostPort {} a3 of
        (Inl err, a4) \<Rightarrow> (Inl err, a4)
      | (Inr cid, a4) \<Rightarrow>
     (case dkStart api cid a4 of
        (Inl err, a5) \<Rightarrow> (Inl (wrap ''docker container start failed'' err), removeCreatedContainer api cid a5)
      | (Inr _, a5) \<Rightarrow>
     (case detectHostPort api cid (ccPortSpec config) a5 of
        (Inl err, a6) \<Rightarrow> (Inl err, snd (dkStop api cid a6))
      | (Inr port, a6) \<Rightarrow>
          (Inr \<lparr>rrContainerID = cid, rrContainerName = ruContainerName i, rrHostPort = port\<rparr>, a6))))))))"

definition dockerStop :: "'a docker_api \<Rightarrow> string \<Rightarrow> 'a \<Rightarrow> unit res \<times> 'a" where
  "dockerStop api cid a =
     (if trimSpace cid = [] then (Inr (), a)
      else (case dkStop api cid a of
              (Inr _, a1) \<Rightarrow> (Inr (), a1)
            | (Inl err, a1) \<Rightarrow> if isNotFound err then (Inr (), a1) else (Inl (wrap ''docker stop failed'' err), a1)))"

definition dockerLogs :: "'a docker_api \<Rightarrow> string \<Rightarrow> int \<Rightarrow> 'a \<Rightarrow> string res \<times> 'a" where
  "dockerLogs api cid tail0 a =
     (let tail = (if tail0 \<le> 0 then 50 else tail0) in
      case dkLogs api cid (itoa tail) a of
        (Inl err, a1) \<Rightarrow> (Inl (wrap ''docker logs failed'' err), a1)
      | (Inr _, a1) \<Rightarrow>
          (case dkDemux api a1 of
             (Inl err, a2) \<Rightarrow>
               (case dkCloseLogs api a2 of
                  (Some closeErr, a3) \<Rightarrow>
                    (Inl (Join [wrap ''decode docker logs stream'' err, wrap ''close docker logs stream'' closeErr]), a3)
                | (None, a3) \<Rightarrow> (Inl (wrap ''decode docker logs stream'' err), a3))
           | (Inr (out, errs), a2) \<Rightarrow>
               (case dkCloseLogs api a2 of
                  (Some err, a3) \<Rightarrow> (Inl (wrap ''close docker logs stream'' err), a3)
                | (None, a3) \<Rightarrow>
                    (Inr (joinStr [CHR 0x0A] (filter (\<lambda>s. s \<noteq> []) [trimSpace out, trimSpace errs])), a3))))"

end
