(* ===== verification/DockerProps.thy ===== *)
theory DockerProps
  imports Docker
begin

text \<open>
  What a run on the Docker engine does whatever the engine answers: each host port is tried at most
  once, so the retries end, and only containers that are replaced, or that the run itself made, are
  stopped or removed.
\<close>

section \<open>An engine that also writes down what it is asked\<close>

datatype docker_event =
    SawContainers "string list" "docker_item list"
  | TriedCreate container_config
  | MadeContainer string
  | StoppedContainer string
  | RemovedContainer string

definition loggedDocker :: "'a docker_api \<Rightarrow> ('a \<times> docker_event list) docker_api" where
  "loggedDocker api =
     \<lparr>dkInspectImage = (\<lambda>ref. quietly (dkInspectImage api ref)), dkPull = (\<lambda>ref. quietly (dkPull api ref)),
      dkDrain = quietly (dkDrain api), dkClosePull = quietly (dkClosePull api),
      dkList = (\<lambda>flt. noting (dkList api flt) (\<lambda>r. case r of Inl _ \<Rightarrow> [] | Inr items \<Rightarrow> [SawContainers flt items])),
      dkStop = (\<lambda>cid. noting (dkStop api cid) (\<lambda>_. [StoppedContainer cid])),
      dkRemove = (\<lambda>cid. noting (dkRemove api cid) (\<lambda>_. [RemovedContainer cid])),
      dkCreate = (\<lambda>c name. noting (dkCreate api c name)
        (\<lambda>r. case r of Inl _ \<Rightarrow> [TriedCreate c] | Inr cid \<Rightarrow> [TriedCreate c, MadeContainer cid])),
      dkStart = (\<lambda>cid. quietly (dkStart api cid)), dkInspect = (\<lambda>cid. quietly (dkInspect api cid)),
      dkLogs = (\<lambda>cid tail. quietly (dkLogs api cid tail)), dkDemux = quietly (dkDemux api),
      dkCloseLogs = quietly (dkCloseLogs api), dkProbe = (\<lambda>addr. quietly (dkProbe api addr)),
      dkCloseProbe = quietly (dkCloseProbe api), dkWait = (\<lambda>d. quietly (dkWait api d))\<rparr>"

fun triesOf :: "docker_event list \<Rightarrow> container_config list" where
  "triesOf [] = []"
| "triesOf (TriedCreate c # es) = c # triesOf es"
| "triesOf (e # es) = triesOf es"

lemma triesOf_append [simp]: "triesOf (es @ es') = triesOf es @ triesOf es'"
  by (induction es rule: triesOf.induct) auto

lemma logged_ops:
  "dkInspectImage (loggedDocker api) ref = quietly (dkInspectImage api ref)"
  "dkPull (loggedDocker api) ref = quietly (dkPull api ref)"
  "dkDrain (loggedDocker api) = quietly (dkDrain api)" "dkClosePull (loggedDocker api) = quietly (dkClosePull api)"
  "dkList (loggedDocker api) flt = noting (dkList api flt) (\<lambda>r. case r of Inl _ \<Rightarrow> [] | Inr items \<Rightarrow> [SawContainers flt items])"
  "dkStop (loggedDocker api) cid = noting (dkStop api cid) (\<lambda>_. [StoppedContainer cid])"
  "dkRemove (loggedDocker api) cid = noting (dkRemove api cid) (\<lambda>_. [RemovedContainer cid])"
  "dkCreate (loggedDocker api) c name = noting (dkCreate api c name)
     (\<lambda>r. case r of Inl _ \<Rightarrow> [TriedCreate c] | Inr cid \<Rightarrow> [TriedCreate c, MadeContainer cid])"
  "dkStart (loggedDocker api) cid = quietly (dkStart api cid)" "dkInspect (loggedDocker api) cid = quietly (dkInspect api cid)"
  "dkProbe (loggedDocker api) addr = quietly (dkProbe api addr)" "dkCloseProbe (loggedDocker api) = quietly (dkCloseProbe api)"
  "dkWait (loggedDocker api) d = quietly (dkWait api d)"
  by (simp_all add: loggedDocker_def)

lemmas logged_sel = logged_ops quietly_def noting_def

section \<open>Operations that leave no trace\<close>

lemma probePorts_quiet: "probePorts (loggedDocker api) bindIP excl ports al = (r, al') \<Longrightarrow> snd al' = snd al"
  by (induction ports arbitrary: al) (auto simp: logged_sel split: if_splits prod.splits sum.splits option.splits)

lemma select_quiet:
  "selectAvailableHostPortExcluding (loggedDocker api) bindIP lo hi excl al = (r, al') \<Longrightarrow> snd al' = snd al"
  by (auto simp: selectAvailableHostPortExcluding_def dest: probePorts_quiet split: if_splits prod.splits sum.splits option.splits)

lemma pullOnce_quiet: "pullOnce (loggedDocker api) ref al = (r, al') \<Longrightarrow> snd al' = snd al"
  by (auto simp: pullOnce_def logged_sel split: if_splits prod.splits sum.splits option.splits)

lemma pullLoop_quiet: "pullLoop (loggedDocker api) ref n al = (r, al') \<Longrightarrow> snd al' = snd al"
proof (induction n arbitrary: al)
  case 0
  then show ?case by (auto dest: pullOnce_quiet split: prod.splits sum.splits)
next
  case (Suc n)
  obtain r1 al1 where 1: "pullOnce (loggedDocker api) ref al = (r1, al1)" by (metis prod.exhaust)
  obtain w al2 where 2: "dkWait (loggedDocker api) dockerImagePullRetryDelay al1 = (w, al2)" by (metis prod.exhaust)
  have "snd al2 = snd al" using pullOnce_quiet [OF 1] 2 by (auto simp: logged_sel split: prod.splits)
  then show ?case
    using Suc.prems Suc.IH [of al2] pullOnce_quiet [OF 1] 1 2 by (auto split: sum.splits option.splits)
qed

lemma ensureImage_quiet: "ensureImageAvailable (loggedDocker api) ref al = (r, al') \<Longrightarrow> snd al' = snd al"
  by (auto simp: ensureImageAvailable_def logged_sel dest!: pullLoop_quiet split: if_splits prod.splits sum.splits)

lemma detectOnce_quiet: "detectOnce (loggedDocker api) cid port al = (r, al') \<Longrightarrow> snd al' = snd al"
  by (auto simp: detectOnce_def logged_sel Let_def split: if_splits prod.splits sum.splits list.splits)

lemma detectLoop_quiet: "detectLoop (loggedDocker api) cid port n err al = (r, al') \<Longrightarrow> snd al' = snd al"
proof (induction n arbitrary: al err)
  case (Suc n)
  obtain r1 al1 where 1: "detectOnce (loggedDocker api) cid port al = (r1, al1)" by (metis prod.exhaust)
  obtain w al2 where 2: "dkWait (loggedDocker api) 500000000 al1 = (w, al2)" by (metis prod.exhaust)
  have "snd al2 = snd al" using detectOnce_quiet [OF 1] 2 by (auto simp: logged_sel split: prod.splits)
  then show ?case
    using Suc.prems Suc.IH [of _ al2] detectOnce_quiet [OF 1] 1 2 by (auto split: sum.splits option.splits)
qed simp

section \<open>Stops and removals\<close>

lemma stopAndRemove_grows:
  assumes "stopAndRemove (loggedDocker api) what item al = (r, al')"
  shows "\<exists>es. grows al es al' \<and> set es \<subseteq> {StoppedContainer (dkiID item), RemovedContainer (dkiID item)}"
proof -
  have "grows al [StoppedContainer (dkiID item)] al' \<or>
      grows al [StoppedContainer (dkiID item), RemovedContainer (dkiID item)] al'"
    using assms by (auto simp: stopAndRemove_def removeItem_def logged_sel split: if_splits prod.splits sum.splits)
  then show ?thesis by auto
qed

definition stopEvents :: "docker_item list \<Rightarrow> docker_event set" where
  "stopEvents items = (\<Union>item\<in>set items. {StoppedContainer (dkiID item), RemovedContainer (dkiID item)})"

lemma triesOf_stops: "set es \<subseteq> stopEvents items \<Longrightarrow> triesOf es = []"
  by (induction es rule: triesOf.induct) (auto simp: stopEvents_def)

lemma resetLoop_grows:
  "resetLoop (loggedDocker api) items al = (r, al') \<Longrightarrow> \<exists>es. grows al es al' \<and> set es \<subseteq> stopEvents items"
proof (induction items arbitrary: al)
  case (Cons item items)
  obtain r1 al1 where 1: "stopAndRemove (loggedDocker api) ''mini-cloud node'' item al = (r1, al1)" by (metis prod.exhaust)
  then obtain es where es: "grows al es al1" "set es \<subseteq> stopEvents (item # items)"
    using stopAndRemove_grows unfolding stopEvents_def by fastforce
  show ?case
  proof (cases r1)
    case (Inl e)
    then show ?thesis using Cons.prems 1 es by auto
  next
    case (Inr u)
    then have "resetLoop (loggedDocker api) items al1 = (r, al')" using Cons.prems 1 by simp
    from Cons.IH [OF this] obtain es' where "grows al1 es' al'" "set es' \<subseteq> stopEvents items" by blast
    then have "grows al (es @ es') al'" "set (es @ es') \<subseteq> stopEvents (item # items)"
      using es by (auto simp: stopEvents_def)
    then show ?thesis by blast
  qed
qed (auto simp: stopEvents_def)

lemma stopOldLoop_grows:
  "stopOldLoop (loggedDocker api) current items al = (r, al') \<Longrightarrow>
     \<exists>es. grows al es al' \<and> set es \<subseteq> stopEvents (filter (\<lambda>item. itemLabel item labelExecutionID \<noteq> current) items)"
proof (induction items arbitrary: al)
  case (Cons item items)
  let ?old = "filter (\<lambda>item. itemLabel item labelExecutionID \<noteq> current)"
  show ?case
  proof (cases "itemLabel item labelExecutionID = current")
    case True
    then show ?thesis using Cons by simp
  next
    case False
    obtain r1 al1 where 1: "stopAndRemove (loggedDocker api) ''old service'' item al = (r1, al1)" by (metis prod.exhaust)
    then obtain es where es: "grows al es al1" "set es \<subseteq> stopEvents (?old (item # items))"
      using stopAndRemove_grows False unfolding stopEvents_def by fastforce
    show ?thesis
    proof (cases r1)
      case (Inl e)
      then show ?thesis using Cons.prems 1 es False by auto
    next
      case (Inr u)
      then have "stopOldLoop (loggedDocker api) current items al1 = (r, al')" using Cons.prems 1 False by simp
      from Cons.IH [OF this] obtain es' where "grows al1 es' al'" "set es' \<subseteq> stopEvents (?old items)" by blast
      then have "grows al (es @ es') al'" "set (es @ es') \<subseteq> stopEvents (?old (item # items))"
        using es by (auto simp: stopEvents_def)
      then show ?thesis by blast
    qed
  qed
qed (auto simp: stopEvents_def)

text \<open>The events of stopServiceContainers: the list, and stops of what it lists and is not current.\<close>

lemma stopService_grows:
  assumes "stopServiceContainers (loggedDocker api) nodeID serviceID current al = (r, al')"
  shows "\<exists>es items. grows al es al' \<and> triesOf es = [] \<and>
    set es \<subseteq> insert (SawContainers (nodeFilter (trimSpace nodeID) @ [labelServiceID @ ''='' @ trimSpace serviceID]) items)
      (stopEvents (filter (\<lambda>item. itemLabel item labelExecutionID \<noteq> trimSpace current) items)) \<and>
    (es \<noteq> [] \<longrightarrow> SawContainers (nodeFilter (trimSpace nodeID) @ [labelServiceID @ ''='' @ trimSpace serviceID]) items \<in> set es)"
proof (cases "trimSpace nodeID = [] \<or> trimSpace serviceID = []")
  case True
  then show ?thesis using assms by (auto simp: stopServiceContainers_def Let_def intro!: exI [of _ "[]"])
next
  case False
  let ?flt = "nodeFilter (trimSpace nodeID) @ [labelServiceID @ ''='' @ trimSpace serviceID]"
  obtain r1 al1 where l: "dkList (loggedDocker api) ?flt al = (r1, al1)" by (metis prod.exhaust)
  show ?thesis
  proof (cases r1)
    case (Inl e)
    then have "grows al [] al'" using assms False l
      by (auto simp: stopServiceContainers_def Let_def logged_sel split: prod.splits sum.splits)
    then show ?thesis by (intro exI [of _ "[]"]) simp
  next
    case (Inr items)
    have s: "snd al1 = snd al @ [SawContainers ?flt items]" using l Inr by (auto simp: logged_sel split: prod.splits)
    have "stopOldLoop (loggedDocker api) (trimSpace current) items al1 = (r, al')"
      using assms False l Inr by (simp add: stopServiceContainers_def Let_def)
    from stopOldLoop_grows [OF this] obtain es where es: "grows al1 es al'"
      "set es \<subseteq> stopEvents (filter (\<lambda>item. itemLabel item labelExecutionID \<noteq> trimSpace current) items)" by blast
    have g: "grows al (SawContainers ?flt items # es) al'" using s es(1) by simp
    have t: "triesOf (SawContainers ?flt items # es) = []" using triesOf_stops [OF es(2)] by simp
    show ?thesis by (intro exI [of _ "SawContainers ?flt items # es"] exI [of _ items]) (use g t es(2) in auto)
  qed
qed

section \<open>The retries\<close>

definition configOf :: "run_input \<Rightarrow> int \<Rightarrow> container_config \<Rightarrow> bool" where
  "configOf i port c \<longleftrightarrow> buildContainerCreateConfig i port = Inr c"

lemma createLoop_grows:
  assumes "createLoop (loggedDocker api) i bindIP config hostPort attempted al = (r, al')"
    "configOf i hostPort config" "hostPort \<notin> attempted" "ruHostPortMin i \<le> hostPort" "hostPort \<le> ruHostPortMax i"
  shows "\<exists>es ports. grows al es al' \<and> distinct ports \<and> set ports \<subseteq> {ruHostPortMin i..ruHostPortMax i} - attempted \<and>
    list_all2 (configOf i) ports (triesOf es) \<and>
    set es \<subseteq> range TriedCreate \<union> (case r of Inl _ \<Rightarrow> {} | Inr cid \<Rightarrow> {MadeContainer cid}) \<and>
    (\<forall>cid. r = Inr cid \<longrightarrow> MadeContainer cid \<in> set es)"
  using assms
proof (induction "loggedDocker api" i bindIP config hostPort attempted al rule: createLoop.induct)
  case (1 i bindIP config hostPort attempted al)
  obtain r1 al1 where c: "dkCreate (loggedDocker api) config (ruContainerName i) al = (r1, al1)" by (metis prod.exhaust)
  note E = "1.prems"(1) [unfolded createLoop.simps [of _ _ _ _ _ _ al], unfolded c]
  let ?goal = ?case
  have one: ?goal if "grows al es al'" "triesOf es = [config]" 
      "set es \<subseteq> range TriedCreate \<union> (case r of Inl _ \<Rightarrow> {} | Inr cid \<Rightarrow> {MadeContainer cid})"
      "\<forall>cid. r = Inr cid \<longrightarrow> MadeContainer cid \<in> set es" for es
    by (intro exI [of _ es] exI [of _ "[hostPort]"]) (use that "1.prems" in auto)
  show ?case
  proof (cases r1)
    case (Inr cid)
    then have "grows al [TriedCreate config, MadeContainer cid] al'" "r = Inr cid"
      using E c by (auto simp: logged_sel split: prod.splits)
    then show ?thesis by (intro one [of "[TriedCreate config, MadeContainer cid]"]) auto
  next
    case (Inl err)
    have a1: "snd al1 = snd al @ [TriedCreate config]" using c Inl by (auto simp: logged_sel split: prod.splits)
    have stop: ?goal if "r = Inl e" "snd al' = snd al1" for e
      by (rule one [of "[TriedCreate config]"]) (use that a1 in auto)
    show ?thesis
    proof (cases "shouldRetryHostPortCreate err")
      case False
      then show ?thesis using E Inl by (intro stop [of "wrap ''docker container create failed'' err"]) auto
    next
      case retry: True
      let ?att = "insert hostPort attempted"
      obtain r2 al2 where s: "selectAvailableHostPortExcluding (loggedDocker api) bindIP (ruHostPortMin i) (ruHostPortMax i) ?att al1 = (r2, al2)"
        by (metis prod.exhaust)
      have a2: "snd al2 = snd al1" using select_quiet [OF s] .
      show ?thesis
      proof (cases r2)
        case (Inl e)
        then show ?thesis using E \<open>r1 = Inl err\<close> retry s a2 by (intro stop) (auto simp: Let_def)
      next
        case (Inr next_port)
        note p = select_port [OF s [unfolded Inr]]
        show ?thesis
        proof (cases "buildContainerCreateConfig i next_port")
          case (Inl e)
          then show ?thesis using E \<open>r1 = Inl err\<close> \<open>r2 = Inr next_port\<close> retry s a2 by (intro stop) (auto simp: Let_def)
        next
          case (Inr config')
          have rec: "createLoop (loggedDocker api) i bindIP config' next_port ?att al2 = (r, al')"
            using E \<open>r1 = Inl err\<close> \<open>r2 = Inr next_port\<close> Inr retry s by (simp add: Let_def)
          have "\<exists>es ports. grows al2 es al' \<and> distinct ports \<and> set ports \<subseteq> {ruHostPortMin i..ruHostPortMax i} - ?att \<and>
              list_all2 (configOf i) ports (triesOf es) \<and>
              set es \<subseteq> range TriedCreate \<union> (case r of Inl _ \<Rightarrow> {} | Inr cid \<Rightarrow> {MadeContainer cid}) \<and>
              (\<forall>cid. r = Inr cid \<longrightarrow> MadeContainer cid \<in> set es)"
            by (rule "1.hyps" [OF c [symmetric] \<open>r1 = Inl err\<close> _ refl s [symmetric] \<open>r2 = Inr next_port\<close> Inr rec])
               (use retry p Inr in \<open>auto simp: configOf_def\<close>)
          then obtain es ports where es: "grows al2 es al'" "distinct ports" "set ports \<subseteq> {ruHostPortMin i..ruHostPortMax i} - ?att"
            "list_all2 (configOf i) ports (triesOf es)"
            "set es \<subseteq> range TriedCreate \<union> (case r of Inl _ \<Rightarrow> {} | Inr cid \<Rightarrow> {MadeContainer cid})"
            "\<forall>cid. r = Inr cid \<longrightarrow> MadeContainer cid \<in> set es" by blast
          show ?thesis
            by (intro exI [of _ "TriedCreate config # es"] exI [of _ "hostPort # ports"])
               (use es a1 a2 "1.prems"(2-5) in auto)
        qed
      qed
    qed
  qed
qed

section \<open>A run as a whole\<close>

definition serviceFilter :: "run_input \<Rightarrow> string list" where
  "serviceFilter i = nodeFilter (trimSpace (ruNodeID i)) @ [labelServiceID @ ''='' @ trimSpace (ruServiceID i)]"

text \<open>
  Whether an event is one a run may cause, given the items that the engine listed (if it was asked)
  and the container that was made (if one was).
\<close>

definition runEvent :: "run_input \<Rightarrow> docker_item list \<Rightarrow> string option \<Rightarrow> docker_event \<Rightarrow> bool" where
  "runEvent i items made e =
     (let due = (\<lambda>cid. made = Some cid \<or>
        (\<exists>item\<in>set items. dkiID item = cid \<and> itemLabel item labelExecutionID \<noteq> trimSpace (ruExecutionID i)))
      in case e of
           SawContainers flt its \<Rightarrow> flt = serviceFilter i \<and> its = items
         | TriedCreate c \<Rightarrow> (\<exists>port. configOf i port c)
         | MadeContainer cid \<Rightarrow> made = Some cid
         | StoppedContainer cid \<Rightarrow> due cid
         | RemovedContainer cid \<Rightarrow> due cid)"

definition runTrace :: "run_input \<Rightarrow> docker_event list \<Rightarrow> bool" where
  "runTrace i es \<longleftrightarrow>
     (\<exists>items made ports. list_all (runEvent i items made) es \<and>
        (items \<noteq> [] \<longrightarrow> SawContainers (serviceFilter i) items \<in> set es) \<and>
        (\<forall>cid. made = Some cid \<longrightarrow> MadeContainer cid \<in> set es) \<and>
        distinct ports \<and> set ports \<subseteq> {ruHostPortMin i..ruHostPortMax i} \<and> list_all2 (configOf i) ports (triesOf es))"

lemma stopEvents_allowed:
  "e \<in> stopEvents (filter (\<lambda>item. itemLabel item labelExecutionID \<noteq> trimSpace (ruExecutionID i)) items) \<Longrightarrow> runEvent i items made e"
  by (auto simp: stopEvents_def runEvent_def Let_def)

text \<open>The run after the old containers are gone.\<close>

lemma run_tail_grows:
  assumes "createLoop (loggedDocker api) i bindIP config hostPort {} al = (rc, al1)" "configOf i hostPort config"
    "ruHostPortMin i \<le> hostPort" "hostPort \<le> ruHostPortMax i"
    "(case rc of Inl err \<Rightarrow> (Inl err, al1)
      | Inr cid \<Rightarrow>
          (case dkStart (loggedDocker api) cid al1 of
             (Inl err, a5) \<Rightarrow> (Inl (wrap ''docker container start failed'' err), removeCreatedContainer (loggedDocker api) cid a5)
           | (Inr _, a5) \<Rightarrow>
               (case detectHostPort (loggedDocker api) cid (ccPortSpec config) a5 of
                  (Inl err, a6) \<Rightarrow> (Inl err, snd (dkStop (loggedDocker api) cid a6))
                | (Inr port, a6) \<Rightarrow>
                    (Inr \<lparr>rrContainerID = cid, rrContainerName = ruContainerName i, rrHostPort = port\<rparr>, a6)))) = (r, al')"
  shows "\<exists>es made ports. grows al es al' \<and> list_all (runEvent i items made) es \<and>
    (\<forall>cid. made = Some cid \<longrightarrow> MadeContainer cid \<in> set es) \<and>
    distinct ports \<and> set ports \<subseteq> {ruHostPortMin i..ruHostPortMax i} \<and> list_all2 (configOf i) ports (triesOf es)"
proof -
  obtain es ports where es: "grows al es al1" "distinct ports" "set ports \<subseteq> {ruHostPortMin i..ruHostPortMax i}"
    "list_all2 (configOf i) ports (triesOf es)"
    "set es \<subseteq> range TriedCreate \<union> (case rc of Inl _ \<Rightarrow> {} | Inr cid \<Rightarrow> {MadeContainer cid})"
    "\<forall>cid. rc = Inr cid \<longrightarrow> MadeContainer cid \<in> set es"
    using createLoop_grows [OF assms(1,2) _ assms(3,4)] by auto
  define made where "made = (case rc of Inl _ \<Rightarrow> None | Inr cid \<Rightarrow> Some cid)"
  have tried: "TriedCreate c \<in> set es \<Longrightarrow> c \<in> set (triesOf es)" for c
    by (induction es rule: triesOf.induct) auto
  then have tc: "TriedCreate c \<in> set es \<Longrightarrow> \<exists>port. configOf i port c" for c
    using es(4) by (metis in_set_conv_nth list_all2_conv_all_nth)
  have ok: "list_all (runEvent i items made) es"
    using es(5) tc by (fastforce simp: list_all_iff runEvent_def made_def split: sum.splits)
  have "\<exists>tail. grows al1 tail al' \<and> (\<forall>e\<in>set tail. \<exists>cid. made = Some cid \<and> e \<in> {StoppedContainer cid, RemovedContainer cid}) \<and> triesOf tail = []"
  proof (cases rc)
    case (Inl e)
    then show ?thesis using assms(5) by (auto intro!: exI [of _ "[]"])
  next
    case (Inr cid)
    obtain q al2 where s: "dkStart (loggedDocker api) cid al1 = (q, al2)" by (metis prod.exhaust)
    have s2: "snd al2 = snd al1" using s by (auto simp: logged_sel split: prod.splits)
    show ?thesis
    proof (cases q)
      case (Inl e)
      then have "al' = removeCreatedContainer (loggedDocker api) cid al2" using assms(5) s Inr by simp
      then have "grows al1 [] al' \<or> grows al1 [RemovedContainer cid] al'"
        using s2 by (auto simp: removeCreatedContainer_def logged_sel split: if_splits prod.splits)
      then show ?thesis by (auto simp: made_def Inr intro: exI [of _ "[]"] exI [of _ "[RemovedContainer cid]"])
    next
      case ok: (Inr u)
      obtain p al3 where d: "detectHostPort (loggedDocker api) cid (ccPortSpec config) al2 = (p, al3)" by (metis prod.exhaust)
      have d2: "snd al3 = snd al2" using d detectLoop_quiet unfolding detectHostPort_def by blast
      have "grows al1 [] al' \<or> grows al1 [StoppedContainer cid] al'"
        using assms(5) s Inr ok d d2 s2 by (auto simp: logged_sel split: sum.splits prod.splits)
      then show ?thesis by (auto simp: made_def Inr intro: exI [of _ "[]"] exI [of _ "[StoppedContainer cid]"])
    qed
  qed
  then obtain tail where tail: "grows al1 tail al'" "triesOf tail = []"
    "\<forall>e\<in>set tail. \<exists>cid. made = Some cid \<and> e \<in> {StoppedContainer cid, RemovedContainer cid}" by blast
  then have "list_all (runEvent i items made) (es @ tail)"
    using ok by (fastforce simp: list_all_iff runEvent_def)
  moreover have "\<forall>cid. made = Some cid \<longrightarrow> MadeContainer cid \<in> set (es @ tail)"
    using es(6) by (auto simp: made_def split: sum.splits)
  ultimately show ?thesis
    by (intro exI [of _ "es @ tail"] exI [of _ made] exI [of _ ports]) (use es(1-4) tail(1,2) in simp)
qed

lemma runTrace_noop: "runTrace i []"
  unfolding runTrace_def by (intro exI [of _ "[]"] exI [of _ None]) simp

lemma dockerRun_trace:
  assumes "dockerRun (loggedDocker api) i al = (r, al')"
  shows "\<exists>es. grows al es al' \<and> runTrace i es"
proof -
  have quiet: ?thesis if "snd al' = snd al" using that runTrace_noop by (intro exI [of _ "[]"]) simp
  obtain r1 al1 where 1: "ensureImageAvailable (loggedDocker api) (ruImage i) al = (r1, al1)" by (metis prod.exhaust)
  note q1 = ensureImage_quiet [OF 1]
  show ?thesis
  proof (cases r1)
    case (Inl e)
    then show ?thesis using assms 1 q1 by (intro quiet) (simp add: dockerRun_def)
  next
    case r1: (Inr u1)
    obtain r2 al2 where 2: "stopServiceContainers (loggedDocker api) (ruNodeID i) (ruServiceID i) (ruExecutionID i) al1 = (r2, al2)"
      by (metis prod.exhaust)
    from stopService_grows [OF 2] obtain es items where es: "grows al1 es al2" "triesOf es = []"
      "set es \<subseteq> insert (SawContainers (serviceFilter i) items)
        (stopEvents (filter (\<lambda>item. itemLabel item labelExecutionID \<noteq> trimSpace (ruExecutionID i)) items))"
      "es \<noteq> [] \<longrightarrow> SawContainers (serviceFilter i) items \<in> set es" unfolding serviceFilter_def by blast
    have allowed: "list_all (runEvent i items made) es" for made
      using es(3) stopEvents_allowed [of _ i items made] by (fastforce simp: list_all_iff runEvent_def)
    define its where "its = (if es = [] then [] else items)"
    have its: "list_all (runEvent i its made) es" "its \<noteq> [] \<longrightarrow> SawContainers (serviceFilter i) its \<in> set es" for made
      using allowed es(4) by (auto simp: its_def)
    have only: ?thesis if "snd al' = snd al2"
      unfolding runTrace_def
      by (intro exI [of _ es] conjI exI [of _ its] exI [of _ None] exI [of _ "[]"]) (use that q1 es(1,2) its in auto)
    show ?thesis
    proof (cases r2)
      case (Inl e)
      then show ?thesis using assms 1 r1 2 by (intro only) (simp add: dockerRun_def)
    next
      case r2: (Inr u2)
      obtain r3 al3 where 3: "selectAvailableHostPortExcluding (loggedDocker api) (resolveHostBindIP (ruHostBindIP i))
          (ruHostPortMin i) (ruHostPortMax i) {} al2 = (r3, al3)" by (metis prod.exhaust)
      note q3 = select_quiet [OF 3]
      show ?thesis
      proof (cases r3)
        case (Inl e)
        then show ?thesis using assms 1 r1 2 r2 3 q3 by (intro only) (simp add: dockerRun_def Let_def)
      next
        case r3: (Inr port)
        show ?thesis
        proof (cases "buildContainerCreateConfig i port")
          case (Inl e)
          then show ?thesis using assms 1 r1 2 r2 3 r3 q3 by (intro only) (simp add: dockerRun_def Let_def)
        next
          case c: (Inr config)
          obtain rc al4 where 4: "createLoop (loggedDocker api) i (resolveHostBindIP (ruHostBindIP i)) config port {} al3 = (rc, al4)"
            by (metis prod.exhaust)
          have "\<exists>es' made ports. grows al3 es' al' \<and> list_all (runEvent i its made) es' \<and>
              (\<forall>cid. made = Some cid \<longrightarrow> MadeContainer cid \<in> set es') \<and>
              distinct ports \<and> set ports \<subseteq> {ruHostPortMin i..ruHostPortMax i} \<and> list_all2 (configOf i) ports (triesOf es')"
            by (rule run_tail_grows [OF 4])
               (use assms 1 r1 2 r2 3 r3 c 4 select_port [OF 3 [unfolded r3]] in \<open>simp_all add: dockerRun_def Let_def configOf_def\<close>)
          then obtain es' made ports where es': "grows al3 es' al'" "list_all (runEvent i its made) es'"
            "\<forall>cid. made = Some cid \<longrightarrow> MadeContainer cid \<in> set es'" "distinct ports"
            "set ports \<subseteq> {ruHostPortMin i..ruHostPortMax i}" "list_all2 (configOf i) ports (triesOf es')" by blast
          have "runTrace i (es @ es')"
            unfolding runTrace_def
            by (intro exI [of _ its] exI [of _ made] exI [of _ ports]) (use es(2) its es' in auto)
          then show ?thesis using q1 es(1) q3 es'(1) by (intro exI [of _ "es @ es'"]) simp
        qed
      qed
    qed
  qed
qed

text \<open>
  C33: The search for a host port ends.  Whatever the engine and the probes answer, a run asks the
  engine to create a container at most once per port of the configured range, each time with the
  configuration of that port: the ports it tries are distinct and lie in the range, so the retries
  are bounded by its size.
\<close>

theorem run_tries_each_port_once:
  assumes "dockerRun (loggedDocker api) i al = (r, al')"
  shows "\<exists>es ports. snd al' = snd al @ es \<and> distinct ports \<and> set ports \<subseteq> {ruHostPortMin i..ruHostPortMax i} \<and>
    list_all2 (configOf i) ports (triesOf es) \<and> length (triesOf es) \<le> nat (ruHostPortMax i - ruHostPortMin i + 1)"
proof -
  obtain es ports where e: "grows al es al'" "distinct ports" "set ports \<subseteq> {ruHostPortMin i..ruHostPortMax i}"
    "list_all2 (configOf i) ports (triesOf es)"
    using dockerRun_trace [OF assms] unfolding runTrace_def by blast
  have "length (triesOf es) = card (set ports)" using e(2,4) by (simp add: list_all2_lengthD distinct_card)
  also have "\<dots> \<le> nat (ruHostPortMax i - ruHostPortMin i + 1)" using card_mono [OF _ e(3)] by simp
  finally show ?thesis using e by blast
qed

text \<open>
  C34: A run stops only what it replaces.  Whatever the engine answers, a run stops or removes only
  the container it has made itself, or containers that the engine listed as managed by this node
  agent for this node and this service and that carry the label of another execution.
\<close>

theorem run_stops_only_what_it_replaces:
  assumes "dockerRun (loggedDocker api) i al = (r, al')"
  shows "\<exists>es. snd al' = snd al @ es \<and>
    (\<forall>cid. StoppedContainer cid \<in> set es \<or> RemovedContainer cid \<in> set es \<longrightarrow>
       MadeContainer cid \<in> set es \<or>
       (\<exists>items item. SawContainers (serviceFilter i) items \<in> set es \<and> item \<in> set items \<and> dkiID item = cid \<and>
          itemLabel item labelExecutionID \<noteq> trimSpace (ruExecutionID i)))"
proof -
  obtain es items made where e: "grows al es al'" "list_all (runEvent i items made) es"
    "items \<noteq> [] \<longrightarrow> SawContainers (serviceFilter i) items \<in> set es"
    "\<forall>cid. made = Some cid \<longrightarrow> MadeContainer cid \<in> set es"
    using dockerRun_trace [OF assms] unfolding runTrace_def by blast
  have "MadeContainer cid \<in> set es \<or>
       (\<exists>items item. SawContainers (serviceFilter i) items \<in> set es \<and> item \<in> set items \<and> dkiID item = cid \<and>
          itemLabel item labelExecutionID \<noteq> trimSpace (ruExecutionID i))"
    if "StoppedContainer cid \<in> set es \<or> RemovedContainer cid \<in> set es" for cid
  proof -
    have "made = Some cid \<or> (\<exists>item\<in>set items. dkiID item = cid \<and> itemLabel item labelExecutionID \<noteq> trimSpace (ruExecutionID i))"
      using that e(2) by (force simp: list_all_iff runEvent_def Let_def)
    then show ?thesis using e(3,4) by (metis list.set_cases list.discI)
  qed
  then show ?thesis using e(1) by blast
qed

section \<open>Two runs\<close>

text \<open>An engine that holds a container of an older execution, and refuses some host ports.\<close>

definition demoEngine :: "string list \<Rightarrow> docker_item list docker_api" where
  "demoEngine taken =
     \<lparr>dkInspectImage = (\<lambda>ref a. (Inr (), a)), dkPull = (\<lambda>ref a. (Inr (), a)), dkDrain = (\<lambda>a. (None, a)),
      dkClosePull = (\<lambda>a. (None, a)), dkList = (\<lambda>flt a. (Inr a, a)), dkStop = (\<lambda>cid a. (Inr (), a)),
      dkRemove = (\<lambda>cid a. (Inr (), filter (\<lambda>item. dkiID item \<noteq> cid) a)),
      dkCreate = (\<lambda>c name a. if ccHostPort c \<in> set taken then (Inl (Errorf ''Bind failed: port is already allocated''), a)
         else (Inr ''new'', \<lparr>dkiID = ''new'', dkiLabels = ccLabels c\<rparr> # a)),
      dkStart = (\<lambda>cid a. (Inr (), a)), dkInspect = (\<lambda>cid a. (Inr (\<lambda>spec. [''21'']), a)), dkLogs = (\<lambda>cid tail a. (Inr (), a)),
      dkDemux = (\<lambda>a. (Inr ([], []), a)), dkCloseLogs = (\<lambda>a. (None, a)), dkProbe = (\<lambda>addr a. (Inr (), a)),
      dkCloseProbe = (\<lambda>a. (None, a)), dkWait = (\<lambda>d a. (None, a))\<rparr>"

definition demoRunInput :: run_input where
  "demoRunInput = \<lparr>ruContainerName = ''web'', ruNodeID = ''n'', ruExecutionID = ''x2'', ruServiceID = ''s'', ruImage = ''i'',
     ruCommand = [], ruArgs = [], ruEnv = [], ruContainerPort = 80, ruHostBindIP = [], ruHostPortMin = 20, ruHostPortMax = 22\<rparr>"

definition demoOld :: docker_item where
  "demoOld = \<lparr>dkiID = ''old'', dkiLabels = [(labelExecutionID, ''x1'')]\<rparr>"

definition demoDockerRun :: "string list \<Rightarrow> run_result res \<times> docker_item list \<times> docker_event list" where
  "demoDockerRun taken = dockerRun (loggedDocker (demoEngine taken)) demoRunInput ([demoOld], [])"

theorem run_tries_each_port_once_witness:
  "map ccHostPort (triesOf (snd (snd (demoDockerRun [''20'', ''21'', ''22''])))) = [''20'', ''21'', ''22''] \<and>
   (\<exists>es ports. snd (snd (demoDockerRun [''20'', ''21'', ''22''])) = [] @ es \<and> distinct ports \<and> set ports \<subseteq> {20..22} \<and>
      list_all2 (configOf demoRunInput) ports (triesOf es) \<and> length (triesOf es) \<le> nat (22 - 20 + 1))"
proof -
  have "map ccHostPort (triesOf (snd (snd (demoDockerRun [''20'', ''21'', ''22''])))) = [''20'', ''21'', ''22'']" by code_simp
  moreover have "dockerRun (loggedDocker (demoEngine [''20'', ''21'', ''22''])) demoRunInput ([demoOld], []) =
      (fst (demoDockerRun [''20'', ''21'', ''22'']), snd (demoDockerRun [''20'', ''21'', ''22'']))" by (simp add: demoDockerRun_def)
  moreover have "ruHostPortMin demoRunInput = 20" "ruHostPortMax demoRunInput = 22" by (simp_all add: demoRunInput_def)
  ultimately show ?thesis using run_tries_each_port_once by (metis snd_conv)
qed

theorem run_stops_only_what_it_replaces_witness:
  "map dkiID (fst (snd (demoDockerRun [''20'']))) = [''new''] \<and> StoppedContainer ''old'' \<in> set (snd (snd (demoDockerRun [''20'']))) \<and>
   (MadeContainer ''old'' \<in> set (snd (snd (demoDockerRun [''20'']))) \<or>
    (\<exists>items item. SawContainers (serviceFilter demoRunInput) items \<in> set (snd (snd (demoDockerRun [''20'']))) \<and> item \<in> set items \<and>
       dkiID item = ''old'' \<and> itemLabel item labelExecutionID \<noteq> trimSpace (ruExecutionID demoRunInput)))"
proof -
  have v: "map dkiID (fst (snd (demoDockerRun [''20'']))) = [''new'']" "StoppedContainer ''old'' \<in> set (snd (snd (demoDockerRun [''20''])))"
    by code_simp+
  have "dockerRun (loggedDocker (demoEngine [''20''])) demoRunInput ([demoOld], []) =
      (fst (demoDockerRun [''20'']), snd (demoDockerRun [''20'']))" by (simp add: demoDockerRun_def)
  from run_stops_only_what_it_replaces [OF this] v show ?thesis by simp
qed

end
