(* ===== verification/Telemetry.thy ===== *)
theory Telemetry
  imports CloudModel
begin

text \<open>
  internal/nodeagent/work/telemetry.go: the telemetry variables that a node agent adds to the
  environment of a workload.  An environment is an association list with distinct keys; the code
  walks over the runes of a text, which gRPC guarantees to be UTF-8, and since the characters it
  looks for are ASCII the model walks over bytes.
\<close>

section \<open>Attributes\<close>

definition sanitizeOTelResourceValue :: "string \<Rightarrow> string" where
  "sanitizeOTelResourceValue value0 =
     (let value = trimSpace value0 in
      if value = [] then ''unknown''
      else map (\<lambda>c. if c = CHR '','' \<or> c = CHR ''='' then CHR ''_'' else c) value)"

abbreviation backslash :: char where "backslash \<equiv> CHR 0x5C"

text \<open>The parts of a text between commas that no backslash precedes, after what was read of the current part.\<close>

fun splitAttrs :: "string \<Rightarrow> string \<Rightarrow> bool \<Rightarrow> string list" where
  "splitAttrs current [] escaped = [current]"
| "splitAttrs current (r # rs) escaped =
     (if escaped then splitAttrs (current @ [r]) rs False
      else if r = backslash then splitAttrs (current @ [r]) rs True
      else if r = CHR '','' then current # splitAttrs [] rs False
      else splitAttrs (current @ [r]) rs False)"

definition splitOTelResourceAttributes :: "string \<Rightarrow> string list" where
  "splitOTelResourceAttributes raw = (if raw = [] then [] else splitAttrs [] raw False)"

fun cutAttr :: "string \<Rightarrow> string \<Rightarrow> bool \<Rightarrow> (string \<times> string) option" where
  "cutAttr before [] escaped = None"
| "cutAttr before (r # rs) escaped =
     (if escaped then cutAttr (before @ [r]) rs False
      else if r = backslash then cutAttr (before @ [r]) rs True
      else if r = CHR ''='' then Some (before, rs)
      else cutAttr (before @ [r]) rs False)"

definition cutUnescapedOTelAttribute :: "string \<Rightarrow> (string \<times> string) option" where
  "cutUnescapedOTelAttribute part = cutAttr [] part False"

fun unescapeFrom :: "string \<Rightarrow> bool \<Rightarrow> string" where
  "unescapeFrom [] escaped = (if escaped then [backslash] else [])"
| "unescapeFrom (r # rs) escaped =
     (if escaped then r # unescapeFrom rs False
      else if r = backslash then unescapeFrom rs True
      else r # unescapeFrom rs False)"

definition unescapeOTelResourceAttribute :: "string \<Rightarrow> string" where
  "unescapeOTelResourceAttribute value = unescapeFrom value False"

definition escapeChar :: "char \<Rightarrow> string" where
  "escapeChar c = (if c = backslash \<or> c = CHR '','' \<or> c = CHR ''='' then [backslash, c] else [c])"

definition escapeOTelResourceAttribute :: "string \<Rightarrow> string" where
  "escapeOTelResourceAttribute value = concat (map escapeChar value)"

fun parseParts :: "string list \<Rightarrow> env \<Rightarrow> env" where
  "parseParts [] values = values"
| "parseParts (part0 # parts) values =
     (let part = trimSpace part0 in
      if part = [] then parseParts parts values
      else
        (case cutUnescapedOTelAttribute part of
           None \<Rightarrow> parseParts parts values
         | Some (k0, v0) \<Rightarrow>
             (let k = trimSpace (unescapeOTelResourceAttribute k0);
                  v = trimSpace (unescapeOTelResourceAttribute v0)
              in if k = [] \<or> v = [] then parseParts parts values
                 else parseParts parts (AList.update k v values))))"

definition parseOTelResourceAttributes :: "string \<Rightarrow> env" where
  "parseOTelResourceAttributes raw = parseParts (splitOTelResourceAttributes raw) []"

definition renderOTel :: "env \<Rightarrow> string" where
  "renderOTel values =
     joinStr '','' (map (\<lambda>(k, v). escapeOTelResourceAttribute k @ ''='' @ escapeOTelResourceAttribute v)
       (sort_key fst values))"

definition mergeOTelResourceAttributes :: "string \<Rightarrow> env \<Rightarrow> string" where
  "mergeOTelResourceAttributes existing reserved =
     renderOTel (fold (\<lambda>(k, v) values. if \<not> nonBlank k \<or> \<not> nonBlank v then values else AList.update k v values)
       reserved (parseOTelResourceAttributes existing))"

section \<open>The environment\<close>

definition envGet :: "string \<Rightarrow> env \<Rightarrow> string" where
  "envGet key env = (case map_of env key of None \<Rightarrow> [] | Some v \<Rightarrow> v)"

definition reservedAttrs :: "string \<Rightarrow> work_item \<Rightarrow> env" where
  "reservedAttrs platformName item =
     [(''mini_cloud.service_id'', sanitizeOTelResourceValue (wiServiceID item)),
      (''mini_cloud.execution_id'', sanitizeOTelResourceValue (wiExecutionID item))] @
     (if nonBlank platformName then [(''mini_cloud.platform_name'', sanitizeOTelResourceValue platformName)] else [])"

definition injectTelemetryEnv :: "env \<Rightarrow> work_item option \<Rightarrow> string \<Rightarrow> string \<Rightarrow> env" where
  "injectTelemetryEnv base item platformName workloadOTLPEndpoint =
     (case item of
        None \<Rightarrow> base
      | Some it \<Rightarrow>
          (let endpoint = trimSpace workloadOTLPEndpoint;
               env1 = (if endpoint \<noteq> [] then
                         AList.update ''OTEL_EXPORTER_OTLP_PROTOCOL'' ''http/protobuf''
                           (AList.update ''OTEL_EXPORTER_OTLP_ENDPOINT'' endpoint base)
                       else base);
               env2 = (if \<not> nonBlank (envGet ''OTEL_SERVICE_NAME'' env1) \<and> nonBlank (wiServiceName it) then
                         AList.update ''OTEL_SERVICE_NAME'' (wiServiceName it) env1
                       else env1)
           in AList.update ''OTEL_RESOURCE_ATTRIBUTES''
                (mergeOTelResourceAttributes (envGet ''OTEL_RESOURCE_ATTRIBUTES'' env2) (reservedAttrs platformName it)) env2))"

section \<open>Escaping can be undone\<close>

text \<open>
  Every scanner passes over an escaped text to its end in the unescaped mode.
\<close>

lemma splitAttrs_escaped: "splitAttrs current (escapeOTelResourceAttribute s @ rest) False
    = splitAttrs (current @ escapeOTelResourceAttribute s) rest False"
  by (induction s arbitrary: current) (simp_all add: escapeOTelResourceAttribute_def escapeChar_def)

lemma cutAttr_escaped: "cutAttr before (escapeOTelResourceAttribute s @ rest) False
    = cutAttr (before @ escapeOTelResourceAttribute s) rest False"
  by (induction s arbitrary: before) (simp_all add: escapeOTelResourceAttribute_def escapeChar_def)

lemma unescape_escape [simp]: "unescapeOTelResourceAttribute (escapeOTelResourceAttribute s) = s"
  by (induction s) (simp_all add: unescapeOTelResourceAttribute_def escapeOTelResourceAttribute_def escapeChar_def)

definition attrText :: "string \<times> string \<Rightarrow> string" where
  "attrText a = escapeOTelResourceAttribute (fst a) @ ''='' @ escapeOTelResourceAttribute (snd a)"

lemma splitAttrs_attr:
  "splitAttrs [] (attrText a) False = [attrText a]"
  "splitAttrs [] (attrText a @ '','' @ rest) False = attrText a # splitAttrs [] rest False"
proof -
  have "splitAttrs [] (attrText a @ rest') False = splitAttrs (attrText a) rest' False" for rest'
    using splitAttrs_escaped [of "[]" "fst a" "''='' @ escapeOTelResourceAttribute (snd a) @ rest'"]
      splitAttrs_escaped [of "escapeOTelResourceAttribute (fst a) @ ''=''" "snd a" rest']
    by (simp add: attrText_def)
  from this [of "[]"] this [of "'','' @ rest"] show
    "splitAttrs [] (attrText a) False = [attrText a]"
    "splitAttrs [] (attrText a @ '','' @ rest) False = attrText a # splitAttrs [] rest False" by simp_all
qed

lemma cut_attrText: "cutUnescapedOTelAttribute (attrText a) = Some (escapeOTelResourceAttribute (fst a), escapeOTelResourceAttribute (snd a))"
  using cutAttr_escaped [of "[]" "fst a" "''='' @ escapeOTelResourceAttribute (snd a)"]
  by (simp add: attrText_def cutUnescapedOTelAttribute_def)

lemma split_render:
  "as \<noteq> [] \<Longrightarrow> splitAttrs [] (joinStr '','' (map attrText as)) False = map attrText as"
proof (induction as rule: induct_list012)
  case (3 a b as)
  then show ?case using splitAttrs_attr(2) [of a "joinStr '','' (map attrText (b # as))"] by simp
qed (simp_all add: splitAttrs_attr)

section \<open>What a workload reads back\<close>

text \<open>Keys and values that the parser keeps: trimmed and not empty.\<close>

definition plainPart :: "string \<Rightarrow> bool" where
  "plainPart s \<longleftrightarrow> s \<noteq> [] \<and> trimSpace s = s"

definition plainAttrs :: "env \<Rightarrow> bool" where
  "plainAttrs as \<longleftrightarrow> (\<forall>a\<in>set as. plainPart (fst a) \<and> plainPart (snd a))"

lemma plainAttrs_simps [simp]:
  "plainAttrs []" "plainAttrs (a # as) \<longleftrightarrow> plainPart (fst a) \<and> plainPart (snd a) \<and> plainAttrs as"
  by (auto simp: plainAttrs_def)

lemma plainPart_iff: "plainPart s \<longleftrightarrow> s \<noteq> [] \<and> \<not> isSpace (hd s) \<and> \<not> isSpace (last s)"
  using trimBoth_hd [of isSpace s] trimBoth_last [of isSpace s] trimBoth_id [of s isSpace]
  by (auto simp: plainPart_def trimSpace_def)

lemma escape_ends:
  "escapeOTelResourceAttribute s = [] \<longleftrightarrow> s = []"
  "s \<noteq> [] \<Longrightarrow> \<not> isSpace (hd s) \<Longrightarrow> \<not> isSpace (hd (escapeOTelResourceAttribute s))"
  "s \<noteq> [] \<Longrightarrow> last (escapeOTelResourceAttribute s) = last s"
proof -
  show e: "escapeOTelResourceAttribute s = [] \<longleftrightarrow> s = []" for s
    by (cases s) (auto simp: escapeOTelResourceAttribute_def escapeChar_def)
  show "s \<noteq> [] \<Longrightarrow> \<not> isSpace (hd s) \<Longrightarrow> \<not> isSpace (hd (escapeOTelResourceAttribute s))"
    by (cases s) (auto simp: escapeOTelResourceAttribute_def escapeChar_def isSpace_def)
  show "s \<noteq> [] \<Longrightarrow> last (escapeOTelResourceAttribute s) = last s"
    by (induction s rule: rev_induct) (auto simp: escapeOTelResourceAttribute_def escapeChar_def)
qed

lemma trim_attrText:
  assumes "plainPart (fst a)" "plainPart (snd a)"
  shows "trimSpace (attrText a) = attrText a" and "attrText a \<noteq> []"
proof -
  from assms have ne: "escapeOTelResourceAttribute (fst a) \<noteq> []" "escapeOTelResourceAttribute (snd a) \<noteq> []"
    by (simp_all add: escape_ends plainPart_def)
  from assms have "\<not> isSpace (hd (attrText a))" and "\<not> isSpace (last (attrText a))"
    using ne by (simp_all add: attrText_def plainPart_iff escape_ends)
  then show "trimSpace (attrText a) = attrText a" and "attrText a \<noteq> []"
    by (simp_all add: trimSpace_def trimBoth_id attrText_def)
qed

lemma parseParts_attrs:
  "plainAttrs as \<Longrightarrow> parseParts (map attrText as) values = fold (\<lambda>a. AList.update (fst a) (snd a)) as values"
proof (induction as arbitrary: "values")
  case (Cons a as)
  then have p: "plainPart (fst a)" "plainPart (snd a)" and rest: "plainAttrs as" by (simp_all add: plainAttrs_def)
  show ?case using Cons.IH [OF rest] p by (simp add: trim_attrText [OF p] cut_attrText plainPart_def)
qed simp

lemma map_of_fold_update:
  "map_of (fold (\<lambda>a. AList.update (fst a) (snd a)) as values) = map_of values ++ map_of (rev as)"
  by (induction as arbitrary: "values") (simp_all add: update_conv' map_of_append)

lemma distinct_fold_update:
  "distinct (map fst values) \<Longrightarrow> distinct (map fst (fold (\<lambda>a. AList.update (fst a) (snd a)) as values))"
  by (induction as arbitrary: "values") (auto simp: distinct_update)

lemma set_update_subset: "set (AList.update k v al) \<subseteq> insert (k, v) (set al)"
  by (induction al) auto

lemma plainAttrs_update:
  "plainAttrs values \<Longrightarrow> plainPart k \<Longrightarrow> plainPart v \<Longrightarrow> plainAttrs (AList.update k v values)"
  using set_update_subset [of k v "values"] by (fastforce simp: plainAttrs_def)

lemma parseParts_kept:
  "plainAttrs values \<and> distinct (map fst values) \<Longrightarrow>
     plainAttrs (parseParts parts values) \<and> distinct (map fst (parseParts parts values))"
  by (induction parts "values" rule: parseParts.induct)
     (auto simp: Let_def plainPart_def plainAttrs_update distinct_update split: option.splits prod.splits)

lemma parse_kept: "plainAttrs (parseOTelResourceAttributes raw)" "distinct (map fst (parseOTelResourceAttributes raw))"
  using parseParts_kept [of "[]" "splitOTelResourceAttributes raw"]
  by (simp_all add: parseOTelResourceAttributes_def plainAttrs_def)

lemma map_of_same_set:
  assumes "set xs = set ys" "distinct (map fst xs)" "distinct (map fst ys)"
  shows "map_of xs = map_of ys"
  using assms map_of_inject_set [of xs ys] by simp

lemma map_of_parse_render:
  assumes "plainAttrs as" "distinct (map fst as)"
  shows "map_of (parseOTelResourceAttributes (renderOTel as)) = map_of as"
proof (cases "as = []")
  case True
  then show ?thesis
    by (simp add: renderOTel_def parseOTelResourceAttributes_def splitOTelResourceAttributes_def)
next
  case False
  let ?s = "sort_key fst as"
  have ne: "?s \<noteq> []" using False by (metis set_empty set_sort)
  have d: "distinct (map fst ?s)"
    using assms(2) by (simp add: distinct_map inj_on_def)
  have p: "plainAttrs ?s" using assms(1) by (simp add: plainAttrs_def)
  have r: "renderOTel as = joinStr '','' (map attrText ?s)"
    by (simp add: renderOTel_def attrText_def [abs_def] case_prod_beta')
  have "splitOTelResourceAttributes (renderOTel as) = map attrText ?s"
  proof -
    obtain a t where s: "?s = a # t" using ne by (cases ?s) auto
    have "plainPart (fst a)" "plainPart (snd a)" using p s by (simp_all add: plainAttrs_def)
    then have "attrText a \<noteq> []" by (rule trim_attrText(2))
    then have "joinStr '','' (map attrText ?s) \<noteq> []" using s by (cases t) simp_all
    then show ?thesis using split_render [OF ne] by (simp add: r splitOTelResourceAttributes_def)
  qed
  then have "map_of (parseOTelResourceAttributes (renderOTel as)) = map_of (rev ?s)"
    by (simp add: parseOTelResourceAttributes_def parseParts_attrs [OF p] map_of_fold_update)
  also have "\<dots> = map_of as" using d assms(2) by (intro map_of_same_set) (simp_all add: rev_map [symmetric])
  finally show ?thesis .
qed

lemma merge_keeps:
  assumes "plainAttrs reserved"
  shows "map_of (parseOTelResourceAttributes (mergeOTelResourceAttributes existing reserved))
       = map_of (parseOTelResourceAttributes existing) ++ map_of (rev reserved)"
proof -
  let ?f = "\<lambda>(k, v) values. if \<not> nonBlank k \<or> \<not> nonBlank v then values else AList.update k v values"
  have same: "fold ?f reserved = fold (\<lambda>a. AList.update (fst a) (snd a)) reserved"
    using assms by (intro ext fold_cong) (auto simp: plainAttrs_def plainPart_def nonBlank_def fun_eq_iff)
  have "plainAttrs (fold (\<lambda>a. AList.update (fst a) (snd a)) reserved values)"
    if "plainAttrs values" for "values"
    using assms that by (induction reserved arbitrary: "values") (auto simp: plainAttrs_update)
  then have "map_of (parseOTelResourceAttributes (mergeOTelResourceAttributes existing reserved))
      = map_of (fold (\<lambda>a. AList.update (fst a) (snd a)) reserved (parseOTelResourceAttributes existing))"
    unfolding mergeOTelResourceAttributes_def same
    by (intro map_of_parse_render distinct_fold_update) (simp_all add: parse_kept)
  then show ?thesis by (simp add: map_of_fold_update)
qed

lemma plainPart_map:
  assumes "plainPart s" "\<And>c. isSpace (r c) = isSpace c"
  shows "plainPart (map r s)"
  using assms by (simp add: plainPart_iff hd_map last_map)

lemma sanitize_plain: "plainPart (sanitizeOTelResourceValue v)"
proof (cases "trimSpace v = []")
  case False
  then have "plainPart (trimSpace v)" by (simp add: plainPart_def)
  then have "plainPart (map (\<lambda>c. if c = CHR '','' \<or> c = CHR ''='' then CHR ''_'' else c) (trimSpace v))"
    by (rule plainPart_map) (auto simp: isSpace_def)
  then show ?thesis using False by (simp add: sanitizeOTelResourceValue_def)
qed (simp add: sanitizeOTelResourceValue_def plainPart_iff isSpace_def)

lemma plain_keys:
  "plainPart ''mini_cloud.service_id''" "plainPart ''mini_cloud.execution_id''" "plainPart ''mini_cloud.platform_name''"
  by (simp_all add: plainPart_iff isSpace_def)

lemma plain_reserved: "plainAttrs (reservedAttrs platformName item)"
  by (simp add: reservedAttrs_def plainAttrs_def sanitize_plain plain_keys)


end
