(* ===== verification/AgentClient.thy ===== *)
theory AgentClient
  imports PlaneMessages GoText
begin

text \<open>
  internal/nodeagent/client/client.go: the client of a node agent.  The generated stubs, the TLS
  configuration and grpc.NewClient are parameters.  The stubs of all calls on a target behave the
  same, so that the client keeps its connection is left out, and so are request ids, which are only
  logged.
\<close>

section \<open>The stubs\<close>

text \<open>
  The context of a call: whether it is detached from the agent's own, and its timeout in
  nanoseconds.
\<close>

record call_ctx =
  cxDetached :: bool
  cxTimeout :: int

text \<open>
  The messages are those of PlaneMessages and CloudModel; None is a nil response, or the missing
  item of a response to a poll.  An acknowledgement may lack its execution.
\<close>

type_synonym report_response = "execution_record option option"

record 'w agent_net =
  anClientTLS :: "string \<Rightarrow> string \<Rightarrow> unit res"
  anNewClient :: "string \<Rightarrow> unit res"
  anRegisterNode :: "string \<Rightarrow> call_ctx \<Rightarrow> rpc_context \<Rightarrow> register_input \<Rightarrow> 'w \<Rightarrow> string option res \<times> 'w"
  anRecordHeartbeat ::
    "string \<Rightarrow> call_ctx \<Rightarrow> rpc_context \<Rightarrow> string \<Rightarrow> heartbeat_input \<Rightarrow> 'w \<Rightarrow> (string \<times> string) option res \<times> 'w"
  anPollWork :: "string \<Rightarrow> call_ctx \<Rightarrow> rpc_context \<Rightarrow> string \<Rightarrow> 'w \<Rightarrow> work_item option option res \<times> 'w"
  anReportExecution ::
    "string \<Rightarrow> call_ctx \<Rightarrow> rpc_context \<Rightarrow> string \<Rightarrow> string \<Rightarrow> report_input \<Rightarrow> 'w \<Rightarrow> report_response option res \<times> 'w"

section \<open>Errors\<close>

definition operationRegisterNode :: string where "operationRegisterNode = ''register node''"
definition operationSendHeartbeat :: string where "operationSendHeartbeat = ''send heartbeat''"
definition operationPollExecutionWork :: string where "operationPollExecutionWork = ''poll execution work''"
definition operationReportExecution :: string where "operationReportExecution = ''report execution''"

definition grpcCloudPlaneError :: "goerr \<Rightarrow> string \<Rightarrow> goerr" where
  "grpcCloudPlaneError err operation =
     (case err of ExtErr (Some code) msg \<Rightarrow> CloudPlaneError operation code msg | _ \<Rightarrow> err)"

text \<open>errors.As for a CloudPlaneError: the operation and code of the first one in the chain.\<close>

fun asCloudPlaneError :: "goerr \<Rightarrow> (string \<times> string) option" where
  "asCloudPlaneError (CloudPlaneError op code msg) = Some (op, code)"
| "asCloudPlaneError (Wrapf pre e post) = asCloudPlaneError e"
| "asCloudPlaneError (Join es) =
     (case filter (\<lambda>x. x \<noteq> None) (map asCloudPlaneError es) of [] \<Rightarrow> None | x # _ \<Rightarrow> x)"
| "asCloudPlaneError (Sentinel s) = None"
| "asCloudPlaneError (Errorf s) = None"
| "asCloudPlaneError (ExtErr code s) = None"

definition IsUnknownNode :: "goerr \<Rightarrow> bool" where
  "IsUnknownNode err \<longleftrightarrow>
     (case asCloudPlaneError err of
        None \<Rightarrow> False
      | Some (op, code) \<Rightarrow>
          code = ''NotFound'' \<and> (op = operationSendHeartbeat \<or> op = operationPollExecutionWork))"

section \<open>The client\<close>

record agent_client =
  acTarget :: string
  acToken :: string
  acTLSCA :: string

definition trimPrefix :: "string \<Rightarrow> string \<Rightarrow> string" where
  "trimPrefix s p = (if hasPrefix s p then drop (length p) s else s)"

definition normalizeTarget :: "(string \<Rightarrow> url_parts res) \<Rightarrow> string \<Rightarrow> string" where
  "normalizeTarget urlParse serverURL =
     (let trimmed = trimSpace serverURL in
      if trimmed = [] then []
      else (case urlParse trimmed of
              Inl _ \<Rightarrow> trimPrefix trimmed ''http://''
            | Inr parsed \<Rightarrow>
                if urlHost parsed = [] then trimPrefix trimmed ''http://''
                else if urlScheme parsed = ''grpcs'' then ''grpcs://'' @ urlHost parsed
                else urlHost parsed))"

definition newAgentClient :: "(string \<Rightarrow> url_parts res) \<Rightarrow> string \<Rightarrow> string \<Rightarrow> string \<Rightarrow> agent_client" where
  "newAgentClient urlParse serverURL token tlsCA =
     \<lparr>acTarget = normalizeTarget urlParse serverURL, acToken = trimSpace token, acTLSCA = trimSpace tlsCA\<rparr>"

definition transportCredentials :: "'w agent_net \<Rightarrow> agent_client \<Rightarrow> unit res" where
  "transportCredentials net c =
     (if \<not> hasPrefix (toLower (acTarget c)) ''grpcs://'' then Inr ()
      else anClientTLS net (acTLSCA c) (trimSpace (drop (length ''grpcs://'') (acTarget c))))"

definition dialTarget :: "agent_client \<Rightarrow> string" where
  "dialTarget c =
     (let target = trimSpace (acTarget c); lower = toLower target in
      if hasPrefix lower ''grpcs://'' then trimSpace (drop (length ''grpcs://'') target)
      else if hasPrefix lower ''grpc://'' then trimSpace (drop (length ''grpc://'') target)
      else target)"

text \<open>The stubs of the client: the target they are connected to.\<close>

definition grpcClient :: "'w agent_net \<Rightarrow> agent_client \<Rightarrow> string res" where
  "grpcClient net c =
     bindR (transportCredentials net c) (\<lambda>_.
       (case anNewClient net (dialTarget c) of
          Inl err \<Rightarrow> Inl (wrap ''dial grpc server'' err)
        | Inr _ \<Rightarrow> Inr (dialTarget c)))"

definition withOutgoingMetadata :: "string \<Rightarrow> rpc_context" where
  "withOutgoingMetadata bearerToken =
     (let token = trimSpace bearerToken in
      \<lparr>rcAuthorization = (if token \<noteq> [] then [BearerHeader token] else []), rcPeer = None\<rparr>)"

text \<open>A call on the client's stubs.\<close>

definition agentCall ::
  "'w agent_net \<Rightarrow> agent_client \<Rightarrow> string \<Rightarrow> (string \<Rightarrow> rpc_context \<Rightarrow> 'w \<Rightarrow> 'r res \<times> 'w) \<Rightarrow> 'w \<Rightarrow> 'r res \<times> 'w" where
  "agentCall net c operation stub w =
     (case grpcClient net c of
        Inl err \<Rightarrow> (Inl err, w)
      | Inr target \<Rightarrow>
          (case stub target (withOutgoingMetadata (acToken c)) w of
             (Inl err, w1) \<Rightarrow> (Inl (grpcCloudPlaneError err operation), w1)
           | (Inr r, w1) \<Rightarrow> (Inr r, w1)))"

definition clientRegisterNode ::
  "'w agent_net \<Rightarrow> agent_client \<Rightarrow> call_ctx \<Rightarrow> register_input \<Rightarrow> 'w \<Rightarrow> string res \<times> 'w" where
  "clientRegisterNode net c cx input w =
     (case agentCall net c operationRegisterNode (\<lambda>t md. anRegisterNode net t cx md input) w of
        (Inl err, w1) \<Rightarrow> (Inl err, w1)
      | (Inr None, w1) \<Rightarrow> (Inl (Errorf ''invalid register response: empty response''), w1)
      | (Inr (Some nid), w1) \<Rightarrow>
          if \<not> nonBlank nid then (Inl (Errorf ''invalid register response''), w1) else (Inr nid, w1))"

definition clientSendHeartbeat ::
  "'w agent_net \<Rightarrow> agent_client \<Rightarrow> call_ctx \<Rightarrow> string \<Rightarrow> heartbeat_input \<Rightarrow> 'w \<Rightarrow> (string \<times> string) res \<times> 'w" where
  "clientSendHeartbeat net c cx nid input w =
     (case agentCall net c operationSendHeartbeat (\<lambda>t md. anRecordHeartbeat net t cx md nid input) w of
        (Inl err, w1) \<Rightarrow> (Inl err, w1)
      | (Inr None, w1) \<Rightarrow> (Inl (Errorf ''invalid heartbeat response: empty response''), w1)
      | (Inr (Some (rid, observed)), w1) \<Rightarrow>
          if \<not> nonBlank rid \<or> \<not> nonBlank observed then (Inl (Errorf ''invalid heartbeat response''), w1)
          else (Inr (rid, observed), w1))"

definition clientPollExecutionWork ::
  "'w agent_net \<Rightarrow> agent_client \<Rightarrow> call_ctx \<Rightarrow> string \<Rightarrow> 'w \<Rightarrow> work_item option res \<times> 'w" where
  "clientPollExecutionWork net c cx nid w =
     (case agentCall net c operationPollExecutionWork (\<lambda>t md. anPollWork net t cx md nid) w of
        (Inl err, w1) \<Rightarrow> (Inl err, w1)
      | (Inr None, w1) \<Rightarrow> (Inl (Errorf ''invalid work response: empty response''), w1)
      | (Inr (Some item), w1) \<Rightarrow> (Inr item, w1))"

definition clientReportExecution ::
  "'w agent_net \<Rightarrow> agent_client \<Rightarrow> call_ctx \<Rightarrow> string \<Rightarrow> string \<Rightarrow> report_input \<Rightarrow> 'w \<Rightarrow> execution_record res \<times> 'w" where
  "clientReportExecution net c cx nid eid input w =
     (case agentCall net c operationReportExecution (\<lambda>t md. anReportExecution net t cx md nid eid input) w of
        (Inl err, w1) \<Rightarrow> (Inl err, w1)
      | (Inr None, w1) \<Rightarrow> (Inl (Errorf ''invalid report execution response: empty response''), w1)
      | (Inr (Some resp), w1) \<Rightarrow>
          (case resp of
             Some (Some x) \<Rightarrow>
               if \<not> nonBlank (erID x) then (Inl (Errorf ''invalid report execution response''), w1) else (Inr x, w1)
           | _ \<Rightarrow> (Inl (Errorf ''invalid report execution response''), w1)))"

end
