(* ===== verification/Readiness.thy ===== *)
theory Readiness
  imports CloudModel
begin

text \<open>
  internal/nodeagent/work/readiness.go: the readiness probes of a container.  The clock, the context
  and net/http are a record of functions on a state 'w.
\<close>

record readiness_config =
  rdURL :: string
  rdAttempts :: int
  rdInterval :: int
  rdTimeout :: int

record readiness_observation =
  obAttempt :: int
  obStartedAt :: instant
  obStatusCode :: int
  obError :: string

record readiness_result =
  rsURL :: string
  rsPassed :: bool
  rsPassedAt :: "instant option"
  rsObservations :: "readiness_observation list"

text \<open>
  hpDo sends a GET request within a timeout; hpDrain and hpCloseBody are about the body of the last
  response.  hpSleep waits, and answers False when the context ends first.
\<close>

record 'w http_probe =
  hpCtxErr :: "'w \<Rightarrow> goerr option \<times> 'w"
  hpNow :: "'w \<Rightarrow> instant \<times> 'w"
  hpNewRequest :: "string \<Rightarrow> unit res"
  hpDo :: "int \<Rightarrow> string \<Rightarrow> 'w \<Rightarrow> int res \<times> 'w"
  hpDrain :: "'w \<Rightarrow> goerr option \<times> 'w"
  hpCloseBody :: "'w \<Rightarrow> goerr option \<times> 'w"
  hpSleep :: "int \<Rightarrow> 'w \<Rightarrow> bool \<times> 'w"

definition defaultAttempts :: int where "defaultAttempts = 1"
definition defaultInterval :: int where "defaultInterval = 1000000000"
definition defaultTimeout :: int where "defaultTimeout = 1000000000"

text \<open>The error of an observation once the body of a response with this status is closed.\<close>

definition probeError :: "int \<Rightarrow> goerr option \<Rightarrow> goerr option \<Rightarrow> string" where
  "probeError status drainErr closeErr =
     (case drainErr of
        Some err \<Rightarrow> ''drain response body: '' @ errText err
      | None \<Rightarrow>
          (case closeErr of
             Some err \<Rightarrow> ''close response body: '' @ errText err
           | None \<Rightarrow> if status < 200 \<or> 400 \<le> status then ''unexpected status '' @ itoa status else []))"

definition probeReadiness ::
  "'w http_probe \<Rightarrow> readiness_config \<Rightarrow> int \<Rightarrow> 'w \<Rightarrow> readiness_observation \<times> 'w" where
  "probeReadiness hp cfg attempt w =
     (case hpNow hp w of (now, w1) \<Rightarrow>
      let observed = (\<lambda>status err. \<lparr>obAttempt = attempt, obStartedAt = now, obStatusCode = status, obError = err\<rparr>) in
      case hpCtxErr hp w1 of
        (Some err, w2) \<Rightarrow> (observed 0 (errText err), w2)
      | (None, w2) \<Rightarrow>
          (case hpNewRequest hp (rdURL cfg) of
             Inl err \<Rightarrow> (observed 0 (errText err), w2)
           | Inr _ \<Rightarrow>
               (case hpDo hp (rdTimeout cfg) (rdURL cfg) w2 of
                  (Inl err, w3) \<Rightarrow> (observed 0 (errText err), w3)
                | (Inr status, w3) \<Rightarrow>
                    (case hpDrain hp w3 of (drainErr, w4) \<Rightarrow>
                     case hpCloseBody hp w4 of (closeErr, w5) \<Rightarrow>
                       (observed status (probeError status drainErr closeErr), w5)))))"

definition observationOk :: "readiness_observation \<Rightarrow> bool" where
  "observationOk ob \<longleftrightarrow> obError ob = [] \<and> 200 \<le> obStatusCode ob \<and> obStatusCode ob < 400"

text \<open>The first number counts the attempts that may follow this one.\<close>

primrec waitLoop ::
  "'w http_probe \<Rightarrow> readiness_config \<Rightarrow> nat \<Rightarrow> int \<Rightarrow> readiness_observation list \<Rightarrow> 'w \<Rightarrow> readiness_result \<times> 'w" where
  "waitLoop hp cfg 0 attempt obs w =
     (case probeReadiness hp cfg attempt w of (ob, w1) \<Rightarrow>
        if observationOk ob then
          (\<lparr>rsURL = rdURL cfg, rsPassed = True, rsPassedAt = Some (obStartedAt ob), rsObservations = obs @ [ob]\<rparr>, w1)
        else (\<lparr>rsURL = rdURL cfg, rsPassed = False, rsPassedAt = None, rsObservations = obs @ [ob]\<rparr>,
              snd (hpCtxErr hp w1)))"
| "waitLoop hp cfg (Suc k) attempt obs w =
     (case probeReadiness hp cfg attempt w of (ob, w1) \<Rightarrow>
        if observationOk ob then
          (\<lparr>rsURL = rdURL cfg, rsPassed = True, rsPassedAt = Some (obStartedAt ob), rsObservations = obs @ [ob]\<rparr>, w1)
        else (case hpCtxErr hp w1 of
                (Some _, w2) \<Rightarrow>
                  (\<lparr>rsURL = rdURL cfg, rsPassed = False, rsPassedAt = None, rsObservations = obs @ [ob]\<rparr>, w2)
              | (None, w2) \<Rightarrow>
                  (case hpSleep hp (rdInterval cfg) w2 of
                     (False, w3) \<Rightarrow>
                       (\<lparr>rsURL = rdURL cfg, rsPassed = False, rsPassedAt = None, rsObservations = obs @ [ob]\<rparr>, w3)
                   | (True, w3) \<Rightarrow> waitLoop hp cfg k (attempt + 1) (obs @ [ob]) w3)))"

definition withDefaults :: "readiness_config \<Rightarrow> readiness_config" where
  "withDefaults cfg =
     cfg\<lparr>rdAttempts := (if rdAttempts cfg \<le> 0 then defaultAttempts else rdAttempts cfg),
         rdInterval := (if rdInterval cfg \<le> 0 then defaultInterval else rdInterval cfg),
         rdTimeout := (if rdTimeout cfg \<le> 0 then defaultTimeout else rdTimeout cfg)\<rparr>"

definition WaitReadiness :: "'w http_probe \<Rightarrow> readiness_config \<Rightarrow> 'w \<Rightarrow> readiness_result \<times> 'w" where
  "WaitReadiness hp cfg0 w =
     (let cfg = withDefaults cfg0 in waitLoop hp cfg (nat (rdAttempts cfg) - 1) 1 [] w)"

section \<open>What the probes say\<close>

lemma probe_attempt [simp]: "probeReadiness hp cfg attempt w = (ob, w') \<Longrightarrow> obAttempt ob = attempt"
  by (auto simp: probeReadiness_def Let_def split: prod.splits option.splits sum.splits)

text \<open>The observations of a result: numbered from the first, and only the last one can be a success.\<close>

definition soundResult :: "int \<Rightarrow> readiness_result \<Rightarrow> bool" where
  "soundResult most r \<longleftrightarrow>
     (let obs = rsObservations r in
      obs \<noteq> [] \<and> int (length obs) \<le> most \<and> map obAttempt obs = [1..int (length obs)] \<and>
      list_all (\<lambda>ob. \<not> observationOk ob) (butlast obs) \<and> rsPassed r = observationOk (last obs) \<and>
      rsPassedAt r = (if rsPassed r then Some (obStartedAt (last obs)) else None))"

lemma upto_snoc: "[1..int n] @ [int n + 1] = [1..1 + int n]"
  using upto_rec2 [of 1 "1 + int n"] by (simp add: ac_simps)

lemma waitLoop_sound:
  assumes "waitLoop hp cfg k (int (length obs) + 1) obs w = (r, w')"
    and "map obAttempt obs = [1..int (length obs)]" "list_all (\<lambda>ob. \<not> observationOk ob) obs"
  shows "soundResult (int (length obs) + 1 + int k) r"
  using assms
proof (induction k arbitrary: obs w)
  case (0 obs)
  then show ?case
    by (auto simp: soundResult_def Let_def upto_snoc split: prod.splits if_splits)
next
  case (Suc k obs)
  let ?n = "int (length obs) + 1"
  obtain ob w1 where p: "probeReadiness hp cfg ?n w = (ob, w1)" by (metis prod.exhaust)
  obtain c w2 where c: "hpCtxErr hp w1 = (c, w2)" by (metis prod.exhaust)
  obtain go w3 where g: "hpSleep hp (rdInterval cfg) w2 = (go, w3)" by (metis prod.exhaust)
  have a: "obAttempt ob = ?n" using p by simp
  show ?case
  proof (cases "\<not> observationOk ob \<and> c = None \<and> go")
    case True
    then have "waitLoop hp cfg k (int (length (obs @ [ob])) + 1) (obs @ [ob]) w3 = (r, w')"
      using Suc.prems(1) p c g by (simp add: ac_simps)
    from Suc.IH [OF this] have "soundResult (int (length (obs @ [ob])) + 1 + int k) r"
      using Suc.prems(2,3) a True upto_snoc [of "length obs"] by (simp add: ac_simps)
    then show ?thesis by (simp add: ac_simps)
  next
    case False
    then show ?thesis using Suc.prems p c g a
      by (auto simp: soundResult_def Let_def upto_snoc split: if_splits option.splits bool.splits)
  qed
qed

lemma WaitReadiness_sound:
  assumes "WaitReadiness hp cfg w = (r, w')"
  shows "soundResult (max 1 (rdAttempts cfg)) r"
proof -
  let ?k = "nat (rdAttempts (withDefaults cfg)) - 1"
  have "waitLoop hp (withDefaults cfg) ?k 1 [] w = (r, w')" using assms by (simp add: WaitReadiness_def Let_def)
  then have "soundResult (1 + int ?k) r" using waitLoop_sound [of hp "withDefaults cfg" ?k "[]" w r w'] by simp
  moreover have "1 + int ?k = max 1 (rdAttempts cfg)" by (simp add: withDefaults_def defaultAttempts_def)
  ultimately show ?thesis by simp
qed

lemma waitLoop_url: "waitLoop hp cfg k n obs w = (r, w') \<Longrightarrow> rsURL r = rdURL cfg"
  by (induction k arbitrary: n obs w) (auto split: prod.splits if_splits option.splits bool.splits)

lemma WaitReadiness_url: "WaitReadiness hp cfg w = (r, w') \<Longrightarrow> rsURL r = rdURL cfg"
  using waitLoop_url by (fastforce simp: WaitReadiness_def withDefaults_def Let_def)

end
