(* ===== verification/Work.thy ===== *)
theory Work
  imports AgentClient Readiness Telemetry Docker
begin

text \<open>
  internal/nodeagent/work/work.go: one round of a node agent's work, from the poll to the report.
  Contexts are the values of call_ctx; that a context ends is an error of the call it was given to.
\<close>

section \<open>What an executor is given\<close>

text \<open>
  ContainerRuntime, with ResetNode of the daemon's interface.  With an error Logs has no text, as in
  docker.go.
\<close>

record 'w container_runtime =
  crRun :: "call_ctx \<Rightarrow> run_input \<Rightarrow> 'w \<Rightarrow> run_result res \<times> 'w"
  crStop :: "call_ctx \<Rightarrow> string \<Rightarrow> 'w \<Rightarrow> unit res \<times> 'w"
  crLogs :: "call_ctx \<Rightarrow> string \<Rightarrow> int \<Rightarrow> 'w \<Rightarrow> string res \<times> 'w"
  crResetNode :: "call_ctx \<Rightarrow> string \<Rightarrow> 'w \<Rightarrow> unit res \<times> 'w"

text \<open>The runtime of docker.go, whose engine may answer anything when a context ends.\<close>

definition dockerRuntime :: "'a docker_api \<Rightarrow> 'a container_runtime" where
  "dockerRuntime api =
     \<lparr>crRun = (\<lambda>_. dockerRun api), crStop = (\<lambda>_. dockerStop api), crLogs = (\<lambda>_. dockerLogs api),
      crResetNode = (\<lambda>_. dockerResetNode api)\<rparr>"

text \<open>Options, flattened.\<close>

record work_options =
  woNodeID :: string
  woPrivateIP :: string
  woHostPortMin :: int
  woHostPortMax :: int
  woReadinessAttempts :: int
  woReadinessInterval :: int
  woReadinessTimeout :: int
  woRuntimeStart :: int
  woRuntimeStop :: int
  woRuntimeLogs :: int
  woPollWork :: int
  woReport :: int
  woCleanupHard :: int
  woPlatformName :: string
  woWorkloadOTLPEndpoint :: string
  woLogTail :: int
  woProxyEndpoint :: string
  woNoProxy :: "string list"

record 'w executor =
  exNet :: "'w agent_net"
  exClient :: agent_client
  exRuntime :: "'w container_runtime"
  exProbe :: "'w http_probe"
  exOpts :: work_options

text \<open>The report that the server acknowledged is the execution record in it.\<close>

record work_result =
  wrWorkFound :: bool
  wrWorkItem :: "work_item option"
  wrReport :: "execution_record option"

section \<open>Text\<close>

definition truncateReason :: "string \<Rightarrow> string" where
  "truncateReason value0 =
     (let value = trimSpace value0 in if length value \<le> 400 then value else take (400 - 3) value @ ''...'')"

definition compactLogSnippet :: "string \<Rightarrow> string" where
  "compactLogSnippet value = truncateReason (joinStr '' '' (fieldsOf (trimSpace value)))"

definition buildFailedExecutionReason :: "readiness_result \<Rightarrow> string \<Rightarrow> goerr option \<Rightarrow> string" where
  "buildFailedExecutionReason r logs stopErr =
     (let lastError = (case rsObservations r of [] \<Rightarrow> [] | obs \<Rightarrow> obError (last obs));
          lastStatus = (case rsObservations r of [] \<Rightarrow> 0 | obs \<Rightarrow> obStatusCode (last obs))
      in truncateReason (joinStr ''; ''
           ([''readiness check never passed for '' @ rsURL r] @
            (if lastError \<noteq> [] then [''last error: '' @ lastError] else []) @
            (if lastStatus \<noteq> 0 then [''last status: '' @ itoa lastStatus] else []) @
            (if nonBlank logs then [''logs: '' @ compactLogSnippet logs] else []) @
            (case stopErr of None \<Rightarrow> [] | Some err \<Rightarrow> [''cleanup warning: '' @ errText err]))))"

definition validateWorkItem :: "work_item \<Rightarrow> unit res" where
  "validateWorkItem item =
     (let action = trimSpace (wiAction item); readinessPath = trimSpace (wiReadinessPath item) in
      if action \<noteq> WorkActionRun \<and> action \<noteq> WorkActionDelete then
        Inl (Errorf ''work action must be one of run, delete'')
      else if \<not> nonBlank (wiExecutionID item) then Inl (Errorf ''executionID is required'')
      else if \<not> nonBlank (wiNodeID item) then Inl (Errorf ''nodeID is required'')
      else if \<not> nonBlank (wiServiceID item) then Inl (Errorf ''serviceID is required'')
      else if \<not> nonBlank (wiContainerName item) then Inl (Errorf ''containerName is required'')
      else if action = WorkActionDelete then
        (if \<not> nonBlank (wiContainerID item) then Inl (Errorf ''containerID is required'') else Inr ())
      else if \<not> nonBlank (wiImage item) then Inl (Errorf ''image is required'')
      else if wiContainerPort item \<le> 0 then Inl (Errorf ''containerPort must be greater than 0'')
      else if readinessPath = [] then Inl (Errorf ''readinessPath is required'')
      else if \<not> hasPrefix readinessPath ''/'' then Inl (Errorf ''readinessPath must start with /'')
      else Inr ())"

definition injectWorkloadProxyEnv :: "env \<Rightarrow> work_options \<Rightarrow> env" where
  "injectWorkloadProxyEnv env0 opts =
     (if \<not> nonBlank (woProxyEndpoint opts) then env0
      else
        (let endpoint = trimSpace (woProxyEndpoint opts); noProxy = joinStr '','' (woNoProxy opts)
         in fold (\<lambda>(k, v). AList.update k v)
              [(''HTTP_PROXY'', endpoint), (''HTTPS_PROXY'', endpoint), (''http_proxy'', endpoint),
               (''https_proxy'', endpoint), (''NO_PROXY'', noProxy), (''no_proxy'', noProxy)] env0))"

section \<open>Calls\<close>

definition execTimeout :: "work_options \<Rightarrow> int \<Rightarrow> int" where
  "execTimeout opts value =
     (if 0 < value then value
      else if 0 < woCleanupHard opts then woCleanupHard opts
      else if 0 < woRuntimeStart opts then woRuntimeStart opts
      else 1000000000)"

definition boundedCtx :: "'w executor \<Rightarrow> (work_options \<Rightarrow> int) \<Rightarrow> call_ctx" where
  "boundedCtx e t = \<lparr>cxDetached = False, cxTimeout = execTimeout (exOpts e) (t (exOpts e))\<rparr>"

definition detachedCtx :: "'w executor \<Rightarrow> (work_options \<Rightarrow> int) \<Rightarrow> call_ctx" where
  "detachedCtx e t = \<lparr>cxDetached = True, cxTimeout = execTimeout (exOpts e) (t (exOpts e))\<rparr>"

definition pollWork :: "'w executor \<Rightarrow> 'w \<Rightarrow> work_item option res \<times> 'w" where
  "pollWork e = clientPollExecutionWork (exNet e) (exClient e) (boundedCtx e woPollWork) (woNodeID (exOpts e))"

definition sendReport :: "'w executor \<Rightarrow> work_item \<Rightarrow> report_input \<Rightarrow> 'w \<Rightarrow> execution_record res \<times> 'w" where
  "sendReport e item = clientReportExecution (exNet e) (exClient e) (detachedCtx e woReport) (woNodeID (exOpts e)) (wiExecutionID item)"

definition reportFailed :: "'w executor \<Rightarrow> work_item \<Rightarrow> report_input \<Rightarrow> 'w \<Rightarrow> execution_record res \<times> 'w" where
  "reportFailed e item req =
     sendReport e item (req\<lparr>riStatus := StatusFailed,
       riReason := (if riReason req = [] then ''execution failed'' else riReason req)\<rparr>)"

definition runRequestOf :: "'w executor \<Rightarrow> work_item \<Rightarrow> run_input" where
  "runRequestOf e item =
     \<lparr>ruContainerName = wiContainerName item, ruNodeID = woNodeID (exOpts e), ruExecutionID = wiExecutionID item,
      ruServiceID = wiServiceID item, ruImage = wiImage item, ruCommand = wiCommand item, ruArgs = wiArgs item,
      ruEnv = injectWorkloadProxyEnv
        (injectTelemetryEnv (wiEnv item) (Some item) (woPlatformName (exOpts e)) (woWorkloadOTLPEndpoint (exOpts e))) (exOpts e),
      ruContainerPort = wiContainerPort item, ruHostBindIP = woPrivateIP (exOpts e),
      ruHostPortMin = woHostPortMin (exOpts e), ruHostPortMax = woHostPortMax (exOpts e)\<rparr>"

definition runWorkItem :: "'w executor \<Rightarrow> work_item \<Rightarrow> 'w \<Rightarrow> run_result res \<times> 'w" where
  "runWorkItem e item = crRun (exRuntime e) (boundedCtx e woRuntimeStart) (runRequestOf e item)"

section \<open>The branches of a round\<close>

text \<open>A failure before there is a container.\<close>

definition reportWithoutContainer ::
  "'w executor \<Rightarrow> work_item \<Rightarrow> string \<Rightarrow> 'w \<Rightarrow> execution_record res \<times> string \<times> 'w" where
  "reportWithoutContainer e item text w =
     (let reason = truncateReason text in
      case reportFailed e item
             \<lparr>riStatus = [], riReason = reason, riContainerID = [], riContainerName = wiContainerName item, riHostPort = 0\<rparr> w of
        (r, w1) \<Rightarrow> (r, reason, w1))"

definition reportValidationFailure where
  "reportValidationFailure e item err = reportWithoutContainer e item (''invalid work item: '' @ errText err)"

definition reportRuntimeStartFailure where
  "reportRuntimeStartFailure e item err = reportWithoutContainer e item (''runtime start failed: '' @ errText err)"

text \<open>The report, if there is one, and the error.\<close>

definition deleteWorkItem ::
  "'w executor \<Rightarrow> work_item \<Rightarrow> 'w \<Rightarrow> execution_record option \<times> goerr option \<times> 'w" where
  "deleteWorkItem e item w =
     (case crStop (exRuntime e) (detachedCtx e woRuntimeStop) (wiContainerID item) w of
        (Inl stopErr, w1) \<Rightarrow>
          (case reportFailed e item
                  \<lparr>riStatus = [],
                   riReason = truncateReason (''delete execution failed while stopping container '' @
                     wiContainerName item @ '': '' @ errText stopErr),
                   riContainerID = wiContainerID item, riContainerName = wiContainerName item,
                   riHostPort = wiHostPort item\<rparr> w1 of
             (Inl err, w2) \<Rightarrow> (None, Some (wrap ''report failed delete execution'' err), w2)
           | (Inr x, w2) \<Rightarrow> (Some x, Some stopErr, w2))
      | (Inr _, w1) \<Rightarrow>
          (case sendReport e item
                  \<lparr>riStatus = StatusSucceeded, riReason = ''service deletion stopped container '' @ wiContainerName item,
                   riContainerID = wiContainerID item, riContainerName = wiContainerName item,
                   riHostPort = wiHostPort item\<rparr> w1 of
             (Inl err, w2) \<Rightarrow> (None, Some (wrap ''report deleted execution'' err), w2)
           | (Inr x, w2) \<Rightarrow> (Some x, None, w2)))"

definition reportRunning ::
  "'w executor \<Rightarrow> work_item \<Rightarrow> run_result \<Rightarrow> string \<Rightarrow> 'w \<Rightarrow> execution_record option \<times> goerr option \<times> 'w" where
  "reportRunning e item r url w =
     (case sendReport e item
             \<lparr>riStatus = StatusRunning, riReason = ''readiness check passed at '' @ url,
              riContainerID = rrContainerID r, riContainerName = rrContainerName r,
              riHostPort = goInt32 (rrHostPort r)\<rparr> w of
        (Inl err, w1) \<Rightarrow> (None, Some (wrap ''report running execution'' err), w1)
      | (Inr x, w1) \<Rightarrow> (Some x, None, w1))"

definition cleanupFailedRun ::
  "'w executor \<Rightarrow> work_item \<Rightarrow> run_result \<Rightarrow> readiness_result \<Rightarrow> 'w \<Rightarrow>
   execution_record option \<times> goerr option \<times> 'w" where
  "cleanupFailedRun e item r readiness w =
     (case crLogs (exRuntime e) (detachedCtx e woRuntimeLogs) (rrContainerID r) (woLogTail (exOpts e)) w of (logs, w1) \<Rightarrow>
      case crStop (exRuntime e) (detachedCtx e woRuntimeStop) (rrContainerID r) w1 of (stopped, w2) \<Rightarrow>
      let reason = buildFailedExecutionReason readiness (case logs of Inl _ \<Rightarrow> [] | Inr s \<Rightarrow> s)
                     (case stopped of Inl err \<Rightarrow> Some err | Inr _ \<Rightarrow> None) in
      case reportFailed e item
             \<lparr>riStatus = [], riReason = reason, riContainerID = rrContainerID r, riContainerName = rrContainerName r,
              riHostPort = goInt32 (rrHostPort r)\<rparr> w2 of
        (Inl err, w3) \<Rightarrow> (None, Some (wrap ''report failed execution'' err), w3)
      | (Inr x, w3) \<Rightarrow> (Some x, Some (Errorf reason), w3))"

definition readinessURL :: "work_options \<Rightarrow> work_item \<Rightarrow> run_result \<Rightarrow> string" where
  "readinessURL opts item r =
     (let host = (if trimSpace (woPrivateIP opts) = [] then ''127.0.0.1'' else trimSpace (woPrivateIP opts))
      in ''http://'' @ joinHostPort host (itoa (rrHostPort r)) @ wiReadinessPath item)"

text \<open>What is left of a round once the container runs.\<close>

definition superviseRun ::
  "'w executor \<Rightarrow> work_item \<Rightarrow> run_result \<Rightarrow> 'w \<Rightarrow> execution_record option \<times> goerr option \<times> 'w" where
  "superviseRun e item r w =
     (let url = readinessURL (exOpts e) item r in
      case WaitReadiness (exProbe e)
             \<lparr>rdURL = url, rdAttempts = woReadinessAttempts (exOpts e), rdInterval = woReadinessInterval (exOpts e),
              rdTimeout = woReadinessTimeout (exOpts e)\<rparr> w of
        (readiness, w1) \<Rightarrow>
          if rsPassed readiness then reportRunning e item r url w1
          else cleanupFailedRun e item r readiness w1)"

definition executeItem :: "'w executor \<Rightarrow> work_item \<Rightarrow> 'w \<Rightarrow> execution_record option \<times> goerr option \<times> 'w" where
  "executeItem e item w =
     (case validateWorkItem item of
        Inl verr \<Rightarrow>
          (case reportValidationFailure e item verr w of
             (Inl err, _, w1) \<Rightarrow> (None, Some (wrap ''report failed execution after invalid work item'' err), w1)
           | (Inr x, reason, w1) \<Rightarrow> (Some x, Some (Errorf reason), w1))
      | Inr _ \<Rightarrow>
          if trimSpace (wiAction item) = WorkActionDelete then deleteWorkItem e item w
          else
            (case runWorkItem e item w of
               (Inl runErr, w1) \<Rightarrow>
                 (case reportRuntimeStartFailure e item runErr w1 of
                    (Inl err, _, w2) \<Rightarrow>
                      (None, Some (wrap ''report failed execution after runtime start error'' err), w2)
                  | (Inr x, reason, w2) \<Rightarrow> (Some x, Some (Errorf reason), w2))
             | (Inr r, w1) \<Rightarrow> superviseRun e item r w1))"

definition executeNext :: "'w executor \<Rightarrow> 'w \<Rightarrow> work_result \<times> goerr option \<times> 'w" where
  "executeNext e w =
     (case pollWork e w of
        (Inl err, w1) \<Rightarrow> (\<lparr>wrWorkFound = False, wrWorkItem = None, wrReport = None\<rparr>, Some err, w1)
      | (Inr None, w1) \<Rightarrow> (\<lparr>wrWorkFound = False, wrWorkItem = None, wrReport = None\<rparr>, None, w1)
      | (Inr (Some item), w1) \<Rightarrow>
          (case executeItem e item w1 of
             (rep, err, w2) \<Rightarrow> (\<lparr>wrWorkFound = True, wrWorkItem = Some item, wrReport = rep\<rparr>, err, w2)))"

end
