(* ===== verification/AgentConfig.thy ===== *)
theory AgentConfig
  imports CloudModel GoText
begin

text \<open>
  internal/nodeagent/capacity and internal/nodeagent/config: what a node offers, and the
  configuration of a node agent.  The number of processors and the memory of the host, the reading of
  the file, the YAML decoder and net/url are parameters.
\<close>

section \<open>capacity.go\<close>

record resources =
  rsCPUMilli :: int
  rsMemoryMi :: int

record resolved_capacity =
  rcTotal :: resources
  rcAllocatable :: resources

definition agentReservedCPUMilli :: int where "agentReservedCPUMilli = 200"
definition agentReservedMemoryMi :: int where "agentReservedMemoryMi = 256"
definition evictionReservedMi :: int where "evictionReservedMi = 512"

text \<open>The host: runtime.NumCPU and memory.TotalMemory, in bytes.\<close>

record host_facts =
  hfNumCPU :: int
  hfTotalMemory :: int

definition detectHostCapacity :: "host_facts \<Rightarrow> resources res" where
  "detectHostCapacity h =
     (let cpuMilli = hfNumCPU h * 1000; memoryMi = hfTotalMemory h div 1024 div 1024 in
      if cpuMilli \<le> 0 then
        Inl (Errorf (''detect host cpu capacity: runtime.NumCPU returned '' @ itoa (hfNumCPU h)))
      else if hfTotalMemory h = 0 then
        Inl (Errorf ''detect host memory capacity: memory.TotalMemory returned 0'')
      else if memoryMi \<le> 0 then
        Inl (Errorf (''detect host memory capacity: resolved memoryMi='' @ itoa memoryMi))
      else Inr \<lparr>rsCPUMilli = cpuMilli, rsMemoryMi = memoryMi\<rparr>)"

definition resolveTotal :: "host_facts \<Rightarrow> resources \<Rightarrow> resources res" where
  "resolveTotal h tot =
     (if rsCPUMilli tot < 0 then
        Inl (Errorf ''capacity.total.cpuMilli must be greater than or equal to 0'')
      else if rsMemoryMi tot < 0 then
        Inl (Errorf ''capacity.total.memoryMi must be greater than or equal to 0'')
      else if 0 < rsCPUMilli tot \<and> 0 < rsMemoryMi tot then Inr tot
      else bindR (detectHostCapacity h) (\<lambda>detected. Inr
             \<lparr>rsCPUMilli = (if rsCPUMilli tot = 0 then rsCPUMilli detected else rsCPUMilli tot),
              rsMemoryMi = (if rsMemoryMi tot = 0 then rsMemoryMi detected else rsMemoryMi tot)\<rparr>))"

definition ResolveNodeCapacity :: "host_facts \<Rightarrow> resources \<Rightarrow> resolved_capacity res" where
  "ResolveNodeCapacity h totalInput =
     bindR (resolveTotal h totalInput) (\<lambda>tot.
       let allocatableCPU = rsCPUMilli tot - agentReservedCPUMilli;
           allocatableMemory = rsMemoryMi tot - agentReservedMemoryMi - evictionReservedMi
       in if allocatableCPU \<le> 0 then
            Inl (Errorf ''capacity.cpuMilliAllocatable must be greater than 0 after node-agent reservation'')
          else if allocatableMemory \<le> 0 then
            Inl (Errorf ''capacity.memoryMiAllocatable must be greater than 0 after node-agent reservation'')
          else Inr \<lparr>rcTotal = tot,
            rcAllocatable = \<lparr>rsCPUMilli = allocatableCPU, rsMemoryMi = allocatableMemory\<rparr>\<rparr>)"

lemma ResolveNodeCapacity_bounds:
  assumes "ResolveNodeCapacity h t = Inr rc"
  shows "0 < rsCPUMilli (rcAllocatable rc)" and "0 < rsMemoryMi (rcAllocatable rc)"
    and "rsCPUMilli (rcTotal rc) = rsCPUMilli (rcAllocatable rc) + 200"
    and "rsMemoryMi (rcTotal rc) = rsMemoryMi (rcAllocatable rc) + 768"
  using assms
  by (auto simp: ResolveNodeCapacity_def Let_def res_simps agentReservedCPUMilli_def agentReservedMemoryMi_def
      evictionReservedMi_def split: if_splits)

section \<open>config.go\<close>

definition RuntimeHostPortMin :: int where "RuntimeHostPortMin = 30000"
definition RuntimeHostPortMax :: int where "RuntimeHostPortMax = 60999"
definition CleanupHardTimeout :: int where "CleanupHardTimeout = 30 * 1000000000"
definition RuntimeStartTimeout :: int where "RuntimeStartTimeout = 10 * 60 * 1000000000"
definition RuntimeStopTimeout :: int where "RuntimeStopTimeout = 30 * 1000000000"
definition RuntimeLogsTimeout :: int where "RuntimeLogsTimeout = 10 * 1000000000"
definition ReadinessAttempts :: int where "ReadinessAttempts = 10"
definition ReadinessInterval :: int where "ReadinessInterval = 1000000000"
definition ReadinessTimeout :: int where "ReadinessTimeout = 1000000000"
definition RegisterTimeout :: int where "RegisterTimeout = 10 * 1000000000"
definition HeartbeatRequestTimeout :: int where "HeartbeatRequestTimeout = 5 * 1000000000"
definition PollWorkRequestTimeout :: int where "PollWorkRequestTimeout = 10 * 1000000000"
definition ReportExecutionTimeout :: int where "ReportExecutionTimeout = 10 * 1000000000"
definition WorkloadLogTailLineCount :: int where "WorkloadLogTailLineCount = 20"

record agent_node_config =
  anProvider :: string
  anRegion :: string
  anName :: string
  anPrivateIP :: string
  anInstanceID :: string
  anInstanceType :: string

text \<open>Config, with its nested structs flattened but for the node.\<close>

record agent_config =
  acPath :: string
  acServerURL :: string
  acServerTLSCA :: string
  acAuthToken :: string
  acPlatformName :: string
  acNode :: agent_node_config
  acCapacityTotal :: resources
  acProxyEndpoint :: string
  acProxyNoProxy :: "string list"
  acWorkloadOTLPEndpoint :: string
  acResolvedCapacity :: resolved_capacity

definition trimStringList :: "string list \<Rightarrow> string list" where
  "trimStringList vs = filter (\<lambda>v. v \<noteq> []) (map trimSpace vs)"

definition validateServerURL :: "(string \<Rightarrow> url_parts res) \<Rightarrow> string \<Rightarrow> string res" where
  "validateServerURL urlParse value =
     (let trimmed = trimSpace value in
      if trimmed = [] then Inl (Errorf ''server.url is required'')
      else if (case splitHostPort trimmed of
                 None \<Rightarrow> False | Some (host, port) \<Rightarrow> trimSpace host \<noteq> [] \<and> trimSpace port \<noteq> []) then Inr trimmed
      else (case urlParse trimmed of
              Inl err \<Rightarrow> Inl (wrap ''parse server.url'' err)
            | Inr parsed \<Rightarrow>
                if urlScheme parsed \<noteq> ''http'' \<and> urlScheme parsed \<noteq> ''grpcs'' then
                  Inl (Errorf ''server.url must be host:port, http gRPC URI, or grpcs URI'')
                else if urlHost parsed = [] then Inl (Errorf ''server.url must include host'')
                else Inr trimmed))"

definition validateNodeConfig :: "agent_node_config \<Rightarrow> resources \<Rightarrow> unit res" where
  "validateNodeConfig i tot =
     (if \<not> nonBlank (anProvider i) then Inl (Errorf ''node.provider is required'')
      else if \<not> nonBlank (anRegion i) then Inl (Errorf ''node.region is required'')
      else if \<not> nonBlank (anName i) then Inl (Errorf ''node.name is required'')
      else if trimSpace (anPrivateIP i) = [] then Inl (Errorf ''node.privateIP is required'')
      else if \<not> validIP (trimSpace (anPrivateIP i)) then Inl (Errorf ''node.privateIP must be a valid IP address'')
      else if \<not> nonBlank (anInstanceID i) then Inl (Errorf ''node.instanceID is required'')
      else if \<not> nonBlank (anInstanceType i) then Inl (Errorf ''node.instanceType is required'')
      else if rsCPUMilli tot \<le> 0 then Inl (Errorf ''capacity total cpuMilli must be greater than 0'')
      else if rsMemoryMi tot \<le> 0 then Inl (Errorf ''capacity total memoryMi must be greater than 0'')
      else Inr ())"

definition normalizeNodeConfig :: "agent_node_config \<Rightarrow> agent_node_config" where
  "normalizeNodeConfig n =
     \<lparr>anProvider = toLower (trimSpace (anProvider n)), anRegion = trimSpace (anRegion n), anName = trimSpace (anName n),
      anPrivateIP = trimSpace (anPrivateIP n), anInstanceID = trimSpace (anInstanceID n),
      anInstanceType = trimSpace (anInstanceType n)\<rparr>"

definition validateProxy :: "(string \<Rightarrow> url_parts res) \<Rightarrow> string \<Rightarrow> unit res" where
  "validateProxy parseRequestURI endpoint =
     (if endpoint = [] then Inr ()
      else (case parseRequestURI endpoint of
              Inl err \<Rightarrow> Inl (wrap ''network.workloadProxy.endpoint must be a valid URL'' err)
            | Inr parsed \<Rightarrow>
                if urlScheme parsed \<noteq> ''http'' \<and> urlScheme parsed \<noteq> ''https'' then
                  Inl (Errorf ''network.workloadProxy.endpoint must use http or https'')
                else if urlHost parsed = [] then Inl (Errorf ''network.workloadProxy.endpoint must include host'')
                else Inr ()))"

text \<open>net/url and the host, as the functions below use them.\<close>

record agent_host =
  ahParse :: "string \<Rightarrow> url_parts res"
  ahParseRequestURI :: "string \<Rightarrow> url_parts res"
  ahFacts :: host_facts

definition buildAgentConfig :: "agent_host \<Rightarrow> agent_config \<Rightarrow> agent_config res" where
  "buildAgentConfig host cfg =
     bindR (validateServerURL (ahParse host) (acServerURL cfg)) (\<lambda>serverURL.
       let tlsCA = trimSpace (acServerTLSCA cfg); token = trimSpace (acAuthToken cfg);
           endpoint = trimSpace (acProxyEndpoint cfg)
       in if hasPrefix (toLower serverURL) ''grpcs://'' \<and> tlsCA = [] then
            Inl (Errorf ''server.tlsCA is required when server.url uses grpcs'')
          else if token = [] then Inl (Errorf ''auth.token is required'')
          else bindR (ResolveNodeCapacity (ahFacts host) (acCapacityTotal cfg)) (\<lambda>resolved.
            bindR (validateProxy (ahParseRequestURI host) endpoint) (\<lambda>_.
              bindR (validateNodeConfig (normalizeNodeConfig (acNode cfg)) (rcTotal resolved)) (\<lambda>_.
                Inr (cfg\<lparr>acPlatformName := trimSpace (acPlatformName cfg), acNode := normalizeNodeConfig (acNode cfg),
                  acProxyEndpoint := endpoint, acProxyNoProxy := trimStringList (acProxyNoProxy cfg),
                  acWorkloadOTLPEndpoint := trimSpace (acWorkloadOTLPEndpoint cfg), acServerURL := serverURL,
                  acServerTLSCA := tlsCA, acAuthToken := token, acResolvedCapacity := resolved\<rparr>)))))"

definition loadAgentConfig ::
  "(string \<Rightarrow> string res) \<Rightarrow> (string \<Rightarrow> agent_config res) \<Rightarrow> agent_host \<Rightarrow> string \<Rightarrow> agent_config res" where
  "loadAgentConfig readFile decode host path0 =
     (let path = trimSpace path0 in
      if path = [] then Inl (Errorf ''node-agent config path is empty'')
      else (case readFile path of
              Inl err \<Rightarrow> Inl (wrap (''read node-agent config '' @ goQuote path) err)
            | Inr data \<Rightarrow>
                (case decode data of
                   Inl err \<Rightarrow> Inl (wrap (''parse node-agent config '' @ goQuote path) err)
                 | Inr cfg \<Rightarrow> buildAgentConfig host (cfg\<lparr>acPath := path\<rparr>))))"

text \<open>What a loaded configuration is known to be.\<close>

lemma loadAgentConfig_ok:
  assumes "loadAgentConfig readFile decode host path = Inr cfg"
  shows "validateNodeConfig (acNode cfg) (rcTotal (acResolvedCapacity cfg)) = Inr ()"
    and "\<exists>t. ResolveNodeCapacity (ahFacts host) t = Inr (acResolvedCapacity cfg)"
    and "trimSpace (acAuthToken cfg) = acAuthToken cfg \<and> acAuthToken cfg \<noteq> []"
    and "\<exists>raw. validateServerURL (ahParse host) raw = Inr (acServerURL cfg)"
  using assms
  by (auto simp: loadAgentConfig_def buildAgentConfig_def Let_def res_simps split: if_splits sum.splits)

end
