(* ===== verification/AgentDaemon.thy ===== *)
theory AgentDaemon
  imports Work AgentConfig
begin

text \<open>
  internal/nodeagent/daemon/daemon.go: the runner of a node agent.  First the cycles as functions of
  what the runner remembers and of the world; then, since a heartbeat loop and a worker loop run side
  by side, the machine whose steps are the sections of the code between its locks.
\<close>

section \<open>The cycles\<close>

text \<open>The fields that change: the id of the node, and the node whose runtime has been reset.\<close>

record runner =
  rnNodeID :: string
  rnResetNode :: string

record 'w node_daemon =
  dmConfig :: agent_config
  dmNet :: "'w agent_net"
  dmClient :: agent_client
  dmRuntime :: "'w container_runtime"
  dmProbe :: "'w http_probe"

definition requestCtx :: "int \<Rightarrow> call_ctx" where
  "requestCtx t = \<lparr>cxDetached = False, cxTimeout = t\<rparr>"

definition registerRequest :: "agent_config \<Rightarrow> register_input" where
  "registerRequest cfg =
     \<lparr>rgProvider = anProvider (acNode cfg), rgRegion = anRegion (acNode cfg), rgName = anName (acNode cfg),
      rgPrivateIP = anPrivateIP (acNode cfg), rgInstanceID = anInstanceID (acNode cfg),
      rgInstanceType = anInstanceType (acNode cfg),
      rgCPUMilliTotal = goInt32 (rsCPUMilli (rcTotal (acResolvedCapacity cfg))),
      rgMemoryMiTotal = goInt32 (rsMemoryMi (rcTotal (acResolvedCapacity cfg)))\<rparr>"

definition heartbeatRequest :: "agent_config \<Rightarrow> heartbeat_input" where
  "heartbeatRequest cfg =
     \<lparr>hbCPUMilliAllocatable = goInt32 (rsCPUMilli (rcAllocatable (acResolvedCapacity cfg))),
      hbMemoryMiAllocatable = goInt32 (rsMemoryMi (rcAllocatable (acResolvedCapacity cfg)))\<rparr>"

definition registerNode :: "'w node_daemon \<Rightarrow> runner \<Rightarrow> 'w \<Rightarrow> string res \<times> runner \<times> 'w" where
  "registerNode d r w =
     (case clientRegisterNode (dmNet d) (dmClient d) (requestCtx RegisterTimeout) (registerRequest (dmConfig d)) w of
        (Inl err, w1) \<Rightarrow> (Inl err, r, w1)
      | (Inr nid, w1) \<Rightarrow> (Inr nid, r\<lparr>rnNodeID := nid, rnResetNode := []\<rparr>, w1))"

definition ensureNodeRegistration :: "'w node_daemon \<Rightarrow> runner \<Rightarrow> 'w \<Rightarrow> string res \<times> runner \<times> 'w" where
  "ensureNodeRegistration d r w = (if rnNodeID r \<noteq> [] then (Inr (rnNodeID r), r, w) else registerNode d r w)"

definition markReset :: "string \<Rightarrow> runner \<Rightarrow> runner" where
  "markReset nid r = (if rnNodeID r = nid then r\<lparr>rnResetNode := nid\<rparr> else r)"

definition resetRuntimeOnce :: "'w node_daemon \<Rightarrow> string \<Rightarrow> runner \<Rightarrow> 'w \<Rightarrow> goerr option \<times> runner \<times> 'w" where
  "resetRuntimeOnce d nid r w =
     (if rnResetNode r = nid then (None, r, w)
      else (case crResetNode (dmRuntime d) (requestCtx CleanupHardTimeout) nid w of
              (Inl err, w1) \<Rightarrow> (Some err, r, w1)
            | (Inr _, w1) \<Rightarrow> (None, markReset nid r, w1)))"

definition sendHeartbeat :: "'w node_daemon \<Rightarrow> string \<Rightarrow> 'w \<Rightarrow> goerr option \<times> 'w" where
  "sendHeartbeat d nid w =
     (case clientSendHeartbeat (dmNet d) (dmClient d) (requestCtx HeartbeatRequestTimeout) nid
             (heartbeatRequest (dmConfig d)) w of
        (Inl err, w1) \<Rightarrow> (Some err, w1) | (Inr _, w1) \<Rightarrow> (None, w1))"

definition handleNodeError :: "goerr option \<Rightarrow> runner \<Rightarrow> runner" where
  "handleNodeError err r =
     (case err of
        None \<Rightarrow> r
      | Some e \<Rightarrow> if IsUnknownNode e then r\<lparr>rnNodeID := [], rnResetNode := []\<rparr> else r)"

definition workOptions :: "agent_config \<Rightarrow> string \<Rightarrow> work_options" where
  "workOptions cfg nid =
     \<lparr>woNodeID = nid, woPrivateIP = anPrivateIP (acNode cfg), woHostPortMin = RuntimeHostPortMin,
      woHostPortMax = RuntimeHostPortMax, woReadinessAttempts = ReadinessAttempts, woReadinessInterval = ReadinessInterval,
      woReadinessTimeout = ReadinessTimeout, woRuntimeStart = RuntimeStartTimeout, woRuntimeStop = RuntimeStopTimeout,
      woRuntimeLogs = RuntimeLogsTimeout, woPollWork = PollWorkRequestTimeout, woReport = ReportExecutionTimeout,
      woCleanupHard = CleanupHardTimeout, woPlatformName = acPlatformName cfg,
      woWorkloadOTLPEndpoint = acWorkloadOTLPEndpoint cfg, woLogTail = WorkloadLogTailLineCount,
      woProxyEndpoint = acProxyEndpoint cfg, woNoProxy = acProxyNoProxy cfg\<rparr>"

definition executorFor :: "'w node_daemon \<Rightarrow> string \<Rightarrow> 'w executor" where
  "executorFor d nid =
     \<lparr>exNet = dmNet d, exClient = dmClient d, exRuntime = dmRuntime d, exProbe = dmProbe d,
      exOpts = workOptions (dmConfig d) nid\<rparr>"

definition tryHeartbeatCycle :: "'w node_daemon \<Rightarrow> runner \<Rightarrow> 'w \<Rightarrow> runner \<times> 'w" where
  "tryHeartbeatCycle d r w =
     (case ensureNodeRegistration d r w of
        (Inl err, r1, w1) \<Rightarrow> (r1, w1)
      | (Inr nid, r1, w1) \<Rightarrow>
          (case resetRuntimeOnce d nid r1 w1 of
             (Some err, r2, w2) \<Rightarrow> (r2, w2)
           | (None, r2, w2) \<Rightarrow>
               (case sendHeartbeat d nid w2 of (err, w3) \<Rightarrow> (handleNodeError err r2, w3))))"

definition tryWorkCycle :: "'w node_daemon \<Rightarrow> runner \<Rightarrow> 'w \<Rightarrow> runner \<times> 'w" where
  "tryWorkCycle d r w =
     (case ensureNodeRegistration d r w of
        (Inl err, r1, w1) \<Rightarrow> (r1, w1)
      | (Inr nid, r1, w1) \<Rightarrow>
          (case resetRuntimeOnce d nid r1 w1 of
             (Some err, r2, w2) \<Rightarrow> (r2, w2)
           | (None, r2, w2) \<Rightarrow>
               (case executeNext (executorFor d nid) w2 of (_, err, w3) \<Rightarrow> (handleNodeError err r2, w3))))"

text \<open>What Run does before it starts the loops.\<close>

definition startRunner :: "'w node_daemon \<Rightarrow> 'w \<Rightarrow> runner \<times> 'w" where
  "startRunner d w =
     (case registerNode d \<lparr>rnNodeID = [], rnResetNode = []\<rparr> w of
        (Inl err, r1, w1) \<Rightarrow> (r1, w1)
      | (Inr nid, r1, w1) \<Rightarrow> (case resetRuntimeOnce d nid r1 w1 of (_, r2, w2) \<Rightarrow> (r2, w2)))"

section \<open>The two loops side by side\<close>

datatype loop = HeartbeatLoop | WorkerLoop

text \<open>Where a loop is in its cycle: the locks it holds go with its place.\<close>

datatype place =
    Idle
  | Registering
  | HasNode string
  | Resetting string
  | ResetDone string
  | ReadyFor string
  | Acting string

datatype runner_event = RegisteredAs string | ResetFor string | ActedFor loop string

record machine =
  mcRunner :: runner
  mcPlace :: "loop \<Rightarrow> place"
  mcLog :: "runner_event list"

definition registerFree :: "machine \<Rightarrow> bool" where
  "registerFree m \<longleftrightarrow> Registering \<notin> {mcPlace m HeartbeatLoop, mcPlace m WorkerLoop}"

definition inReset :: "place \<Rightarrow> bool" where
  "inReset p \<longleftrightarrow> (case p of Resetting n \<Rightarrow> True | ResetDone n \<Rightarrow> True | _ \<Rightarrow> False)"

definition resetFree :: "machine \<Rightarrow> bool" where
  "resetFree m \<longleftrightarrow> \<not> inReset (mcPlace m HeartbeatLoop) \<and> \<not> inReset (mcPlace m WorkerLoop)"

definition goes :: "loop \<Rightarrow> place \<Rightarrow> machine \<Rightarrow> machine" where
  "goes t p m = m\<lparr>mcPlace := (mcPlace m)(t := p)\<rparr>"

definition logs :: "runner_event \<Rightarrow> machine \<Rightarrow> machine" where
  "logs ev m = m\<lparr>mcLog := mcLog m @ [ev]\<rparr>"

definition becomes :: "runner \<Rightarrow> machine \<Rightarrow> machine" where
  "becomes r m = m\<lparr>mcRunner := r\<rparr>"

inductive runner_step :: "machine \<Rightarrow> machine \<Rightarrow> bool" where
  known: "mcPlace m t = Idle \<Longrightarrow> registerFree m \<Longrightarrow> rnNodeID (mcRunner m) \<noteq> [] \<Longrightarrow>
     runner_step m (goes t (HasNode (rnNodeID (mcRunner m))) m)"
| register: "mcPlace m t = Idle \<Longrightarrow> registerFree m \<Longrightarrow> rnNodeID (mcRunner m) = [] \<Longrightarrow>
     runner_step m (goes t Registering m)"
| registered: "mcPlace m t = Registering \<Longrightarrow> nid \<noteq> [] \<Longrightarrow>
     runner_step m (goes t (HasNode nid) (logs (RegisteredAs nid)
       (becomes (mcRunner m\<lparr>rnNodeID := nid, rnResetNode := []\<rparr>) m)))"
| not_registered: "mcPlace m t = Registering \<Longrightarrow> runner_step m (goes t Idle m)"
| reset_before: "mcPlace m t = HasNode nid \<Longrightarrow> resetFree m \<Longrightarrow> rnResetNode (mcRunner m) = nid \<Longrightarrow>
     runner_step m (goes t (ReadyFor nid) m)"
| reset: "mcPlace m t = HasNode nid \<Longrightarrow> resetFree m \<Longrightarrow> rnResetNode (mcRunner m) \<noteq> nid \<Longrightarrow>
     runner_step m (goes t (Resetting nid) m)"
| reset_ok: "mcPlace m t = Resetting nid \<Longrightarrow> runner_step m (goes t (ResetDone nid) (logs (ResetFor nid) m))"
| reset_failed: "mcPlace m t = Resetting nid \<Longrightarrow> runner_step m (goes t Idle m)"
| mark: "mcPlace m t = ResetDone nid \<Longrightarrow>
     runner_step m (goes t (ReadyFor nid) (becomes (markReset nid (mcRunner m)) m))"
| act: "mcPlace m t = ReadyFor nid \<Longrightarrow> runner_step m (goes t (Acting nid) (logs (ActedFor t nid) m))"
| acted: "mcPlace m t = Acting nid \<Longrightarrow>
     runner_step m (goes t Idle (becomes (handleNodeError err (mcRunner m)) m))"

text \<open>A machine at rest: both loops between two cycles.\<close>

definition resting :: "runner \<Rightarrow> runner_event list \<Rightarrow> machine" where
  "resting r evs = \<lparr>mcRunner = r, mcPlace = (\<lambda>_. Idle), mcLog = evs\<rparr>"

inductive runner_reachable :: "machine \<Rightarrow> bool" where
  unregistered: "runner_reachable (resting \<lparr>rnNodeID = [], rnResetNode = []\<rparr> [])"
| unreset: "nid \<noteq> [] \<Longrightarrow> runner_reachable (resting \<lparr>rnNodeID = nid, rnResetNode = []\<rparr> [RegisteredAs nid])"
| started: "nid \<noteq> [] \<Longrightarrow>
     runner_reachable (resting \<lparr>rnNodeID = nid, rnResetNode = nid\<rparr> [RegisteredAs nid, ResetFor nid])"
| step: "runner_reachable m \<Longrightarrow> runner_step m m' \<Longrightarrow> runner_reachable m'"

inductive_cases runner_stepE: "runner_step m m'"

lemma machine_sel [simp]:
  "mcRunner (goes t p m) = mcRunner m" "mcPlace (goes t p m) = (mcPlace m)(t := p)" "mcLog (goes t p m) = mcLog m"
  "mcRunner (logs ev m) = mcRunner m" "mcPlace (logs ev m) = mcPlace m" "mcLog (logs ev m) = mcLog m @ [ev]"
  "mcRunner (becomes r m) = r" "mcPlace (becomes r m) = mcPlace m" "mcLog (becomes r m) = mcLog m"
  "mcRunner (resting r evs) = r" "mcPlace (resting r evs) t = Idle" "mcLog (resting r evs) = evs"
  by (simp_all add: goes_def logs_def becomes_def resting_def)

section \<open>A cycle alone is a run of the machine\<close>

lemma goes_back [simp]: "goes t p (goes t q m) = goes t p m" "logs ev (goes t p m) = goes t p (logs ev m)"
  "becomes r (goes t p m) = goes t p (becomes r m)" "becomes r (logs ev m) = logs ev (becomes r m)"
  "becomes r (becomes r' m) = becomes r m"
  by (simp_all add: goes_def logs_def becomes_def)

lemma goes_idle: "mcPlace m t = Idle \<Longrightarrow> goes t Idle m = m"
  by (simp add: goes_def fun_upd_idem)

lemma resting_becomes: "becomes r (resting r0 evs) = resting r evs" "logs ev (resting r evs) = resting r (evs @ [ev])"
  "goes t Idle (resting r evs) = resting r evs"
  by (simp_all add: becomes_def logs_def resting_def goes_def fun_upd_def)

lemma free_alone [simp]:
  "registerFree (resting r evs)" "resetFree (goes t (HasNode n) (resting r evs))" "resetFree (resting r evs)"
  by (simp_all add: registerFree_def resetFree_def resting_def goes_def inReset_def)

lemma ensure_run:
  assumes "ensureNodeRegistration d r w = (res, r1, w1)"
  shows "case res of
      Inl err \<Rightarrow> (\<exists>evs'. runner_step\<^sup>*\<^sup>* (resting r evs) (resting r1 evs'))
    | Inr nid \<Rightarrow> (\<exists>evs'. runner_step\<^sup>*\<^sup>* (resting r evs) (goes t (HasNode nid) (resting r1 evs')))"
proof (cases "rnNodeID r \<noteq> []")
  case True
  then have "res = Inr (rnNodeID r)" "r1 = r" using assms by (auto simp: ensureNodeRegistration_def)
  moreover have "runner_step (resting r evs) (goes t (HasNode (rnNodeID r)) (resting r evs))"
    using runner_step.known [of "resting r evs" t] True by simp
  ultimately show ?thesis by auto
next
  case False
  then have reg: "registerNode d r w = (res, r1, w1)" using assms by (simp add: ensureNodeRegistration_def)
  have s1: "runner_step (resting r evs) (goes t Registering (resting r evs))"
    using runner_step.register [of "resting r evs" t] False by simp
  show ?thesis
  proof (cases res)
    case (Inl err)
    have "runner_step (goes t Registering (resting r evs)) (resting r evs)"
      using runner_step.not_registered [of "goes t Registering (resting r evs)" t] by (simp add: resting_becomes)
    then have "runner_step\<^sup>*\<^sup>* (resting r evs) (resting r evs)" by simp
    moreover have "r1 = r" using reg Inl by (auto simp: registerNode_def split: prod.splits sum.splits)
    ultimately show ?thesis using Inl by auto
  next
    case (Inr nid)
    then have r1: "r1 = r\<lparr>rnNodeID := nid, rnResetNode := []\<rparr>" and "nonBlank nid"
      using reg by (auto simp: registerNode_def clientRegisterNode_def split: prod.splits sum.splits option.splits if_splits)
    then have "nid \<noteq> []" by auto
    then have "runner_step (goes t Registering (resting r evs)) (goes t (HasNode nid) (resting r1 (evs @ [RegisteredAs nid])))"
      using runner_step.registered [of "goes t Registering (resting r evs)" t nid] by (simp add: resting_becomes r1)
    then have "runner_step\<^sup>*\<^sup>* (resting r evs) (goes t (HasNode nid) (resting r1 (evs @ [RegisteredAs nid])))"
      using s1 by (meson converse_rtranclp_into_rtranclp r_into_rtranclp)
    then show ?thesis using Inr by auto
  qed
qed

lemma reset_run:
  assumes "resetRuntimeOnce d nid r w = (err, r1, w1)"
  shows "\<exists>evs'. runner_step\<^sup>*\<^sup>* (goes t (HasNode nid) (resting r evs))
     (if err = None then goes t (ReadyFor nid) (resting r1 evs') else resting r1 evs')"
proof (cases "rnResetNode r = nid")
  case True
  then have "runner_step (goes t (HasNode nid) (resting r evs)) (goes t (ReadyFor nid) (resting r evs))"
    using runner_step.reset_before [of "goes t (HasNode nid) (resting r evs)" t nid] by simp
  moreover have "err = None" "r1 = r" using assms True by (simp_all add: resetRuntimeOnce_def)
  ultimately show ?thesis by auto
next
  case False
  have s1: "runner_step (goes t (HasNode nid) (resting r evs)) (goes t (Resetting nid) (resting r evs))"
    using runner_step.reset [of "goes t (HasNode nid) (resting r evs)" t nid] False by simp
  show ?thesis
  proof (cases err)
    case None
    then have r1: "r1 = markReset nid r" using assms False by (auto simp: resetRuntimeOnce_def split: prod.splits sum.splits)
    have "runner_step (goes t (Resetting nid) (resting r evs)) (goes t (ResetDone nid) (resting r (evs @ [ResetFor nid])))"
      using runner_step.reset_ok [of "goes t (Resetting nid) (resting r evs)" t nid] by (simp add: resting_becomes)
    moreover have "runner_step (goes t (ResetDone nid) (resting r (evs @ [ResetFor nid])))
        (goes t (ReadyFor nid) (resting r1 (evs @ [ResetFor nid])))"
      using runner_step.mark [of "goes t (ResetDone nid) (resting r (evs @ [ResetFor nid]))" t nid]
      by (simp add: resting_becomes r1)
    ultimately have "runner_step\<^sup>*\<^sup>* (goes t (HasNode nid) (resting r evs)) (goes t (ReadyFor nid) (resting r1 (evs @ [ResetFor nid])))"
      using s1 by (meson converse_rtranclp_into_rtranclp r_into_rtranclp)
    then show ?thesis using None by auto
  next
    case (Some e)
    then have r1: "r1 = r" using assms False by (auto simp: resetRuntimeOnce_def split: prod.splits sum.splits)
    have "runner_step (goes t (Resetting nid) (resting r evs)) (resting r evs)"
      using runner_step.reset_failed [of "goes t (Resetting nid) (resting r evs)" t nid] by (simp add: resting_becomes)
    then have "runner_step\<^sup>*\<^sup>* (goes t (HasNode nid) (resting r evs)) (resting r evs)"
      using s1 by (meson converse_rtranclp_into_rtranclp r_into_rtranclp)
    then show ?thesis using Some r1 by auto
  qed
qed

lemma act_run:
  "runner_step\<^sup>*\<^sup>* (goes t (ReadyFor nid) (resting r evs)) (resting (handleNodeError err r) (evs @ [ActedFor t nid]))"
proof -
  have "runner_step (goes t (ReadyFor nid) (resting r evs)) (goes t (Acting nid) (resting r (evs @ [ActedFor t nid])))"
    using runner_step.act [of "goes t (ReadyFor nid) (resting r evs)" t nid] by (simp add: resting_becomes)
  moreover have "runner_step (goes t (Acting nid) (resting r (evs @ [ActedFor t nid])))
      (resting (handleNodeError err r) (evs @ [ActedFor t nid]))"
    using runner_step.acted [of "goes t (Acting nid) (resting r (evs @ [ActedFor t nid]))" t nid err]
    by (simp add: resting_becomes)
  ultimately show ?thesis by (meson converse_rtranclp_into_rtranclp r_into_rtranclp)
qed

text \<open>A cycle whose last part is some action with an error is a run of the machine.\<close>

lemma cycle_run:
  assumes "(case ensureNodeRegistration d r w of
        (Inl err, r1, w1) \<Rightarrow> (r1, w1)
      | (Inr nid, r1, w1) \<Rightarrow>
          (case resetRuntimeOnce d nid r1 w1 of
             (Some err, r2, w2) \<Rightarrow> (r2, w2)
           | (None, r2, w2) \<Rightarrow> (case f nid w2 of (err, w3) \<Rightarrow> (handleNodeError err r2, w3)))) = (r', w')"
  shows "\<exists>evs'. runner_step\<^sup>*\<^sup>* (resting r evs) (resting r' evs')"
proof -
  fix t :: loop
  obtain res r1 w1 where 1: "ensureNodeRegistration d r w = (res, r1, w1)" by (metis prod.exhaust)
  show ?thesis
  proof (cases res)
    case (Inl err)
    then show ?thesis using ensure_run [OF 1, of evs t] assms 1 by auto
  next
    case (Inr nid)
    then obtain evs1 where s1: "runner_step\<^sup>*\<^sup>* (resting r evs) (goes t (HasNode nid) (resting r1 evs1))"
      using ensure_run [OF 1, of evs t] by auto
    obtain err r2 w2 where 2: "resetRuntimeOnce d nid r1 w1 = (err, r2, w2)" by (metis prod.exhaust)
    obtain evs2 where s2: "runner_step\<^sup>*\<^sup>* (goes t (HasNode nid) (resting r1 evs1))
        (if err = None then goes t (ReadyFor nid) (resting r2 evs2) else resting r2 evs2)"
      using reset_run [OF 2] by blast
    show ?thesis
    proof (cases err)
      case None
      obtain e2 w3 where 3: "f nid w2 = (e2, w3)" by (metis prod.exhaust)
      then have "r' = handleNodeError e2 r2" using assms 1 2 Inr None by simp
      moreover have "runner_step\<^sup>*\<^sup>* (resting r evs) (goes t (ReadyFor nid) (resting r2 evs2))"
        using rtranclp_trans [OF s1 s2] None by simp
      ultimately show ?thesis using rtranclp_trans [OF _ act_run [of t nid r2 evs2 e2]] by blast
    next
      case (Some e)
      then have "r' = r2" using assms 1 2 Inr by simp
      then show ?thesis using rtranclp_trans [OF s1 s2] Some by auto
    qed
  qed
qed

lemma heartbeat_run: "tryHeartbeatCycle d r w = (r', w') \<Longrightarrow> \<exists>evs'. runner_step\<^sup>*\<^sup>* (resting r evs) (resting r' evs')"
  by (rule cycle_run [where f = "\<lambda>nid. sendHeartbeat d nid"]) (simp add: tryHeartbeatCycle_def)

lemma work_run: "tryWorkCycle d r w = (r', w') \<Longrightarrow> \<exists>evs'. runner_step\<^sup>*\<^sup>* (resting r evs) (resting r' evs')"
  by (rule cycle_run [where f = "\<lambda>nid w. case executeNext (executorFor d nid) w of (_, err, w3) \<Rightarrow> (err, w3)"])
     (simp add: tryWorkCycle_def case_prod_beta cong: sum.case_cong option.case_cong)

section \<open>What holds in every state of the two loops\<close>

definition wasReset :: "string \<Rightarrow> runner_event list \<Rightarrow> bool" where
  "wasReset nid evs \<longleftrightarrow> (\<exists>a b. evs = a @ RegisteredAs nid # b \<and> ResetFor nid \<in> set b)"

lemma wasReset_append: "wasReset nid evs \<Longrightarrow> wasReset nid (evs @ evs')"
  unfolding wasReset_def by (metis append_Cons append_assoc in_set_conv_decomp_first set_append Un_iff)

lemma wasReset_now:
  assumes "RegisteredAs nid \<in> set evs"
  shows "wasReset nid (evs @ [ResetFor nid])"
proof -
  obtain a b where "evs = a @ RegisteredAs nid # b" using assms by (meson split_list)
  then show ?thesis unfolding wasReset_def by (intro exI [where x = a] exI [where x = "b @ [ResetFor nid]"]) simp
qed

definition place_ok :: "runner_event list \<Rightarrow> place \<Rightarrow> bool" where
  "place_ok evs p \<longleftrightarrow>
     (case p of
        HasNode n \<Rightarrow> n \<noteq> [] \<and> RegisteredAs n \<in> set evs
      | Resetting n \<Rightarrow> n \<noteq> [] \<and> RegisteredAs n \<in> set evs
      | ResetDone n \<Rightarrow> wasReset n evs
      | ReadyFor n \<Rightarrow> wasReset n evs
      | Acting n \<Rightarrow> wasReset n evs
      | _ \<Rightarrow> True)"

lemma place_ok_simps [simp]:
  "place_ok evs Idle" "place_ok evs Registering"
  "place_ok evs (HasNode n) \<longleftrightarrow> n \<noteq> [] \<and> RegisteredAs n \<in> set evs"
  "place_ok evs (Resetting n) \<longleftrightarrow> n \<noteq> [] \<and> RegisteredAs n \<in> set evs"
  "place_ok evs (ResetDone n) \<longleftrightarrow> wasReset n evs" "place_ok evs (ReadyFor n) \<longleftrightarrow> wasReset n evs"
  "place_ok evs (Acting n) \<longleftrightarrow> wasReset n evs"
  by (simp_all add: place_ok_def)

lemma place_ok_append: "place_ok evs p \<Longrightarrow> place_ok (evs @ evs') p"
  by (cases p) (auto intro: wasReset_append)

definition runner_ok :: "runner_event list \<Rightarrow> runner \<Rightarrow> bool" where
  "runner_ok evs r \<longleftrightarrow>
     (rnNodeID r \<noteq> [] \<longrightarrow> RegisteredAs (rnNodeID r) \<in> set evs) \<and>
     (rnResetNode r \<noteq> [] \<longrightarrow> rnResetNode r = rnNodeID r \<and> wasReset (rnResetNode r) evs)"

lemma runner_ok_append: "runner_ok evs r \<Longrightarrow> runner_ok (evs @ evs') r"
  by (auto simp: runner_ok_def intro: wasReset_append)

text \<open>Every action for a node comes after a reset for it, which comes after a registration as it.\<close>

definition acts_ok :: "runner_event list \<Rightarrow> bool" where
  "acts_ok evs \<longleftrightarrow> (\<forall>pre t nid post. evs = pre @ ActedFor t nid # post \<longrightarrow> wasReset nid pre)"

lemma acts_ok_snoc: "acts_ok evs \<Longrightarrow> (\<And>t nid. ev = ActedFor t nid \<Longrightarrow> wasReset nid evs) \<Longrightarrow> acts_ok (evs @ [ev])"
  unfolding acts_ok_def by (metis append_Cons append_Nil append_butlast_last_id append_is_Nil_conv butlast_append
      butlast_snoc last.simps last_appendR list.discI)

definition machine_ok :: "machine \<Rightarrow> bool" where
  "machine_ok m \<longleftrightarrow>
     runner_ok (mcLog m) (mcRunner m) \<and> (\<forall>t. place_ok (mcLog m) (mcPlace m t)) \<and> acts_ok (mcLog m) \<and>
     \<not> (inReset (mcPlace m HeartbeatLoop) \<and> inReset (mcPlace m WorkerLoop))"

text \<open>A step of loop t keeps the invariant if what it changes does.\<close>

lemma machine_okI:
  assumes m: "machine_ok m" and m': "mcPlace m' = (mcPlace m)(t := p)" "mcLog m' = mcLog m @ evs"
    and "runner_ok (mcLog m') (mcRunner m')" "place_ok (mcLog m') p" "acts_ok (mcLog m')"
    and lock: "inReset p \<Longrightarrow> inReset (mcPlace m t) \<or> resetFree m"
  shows "machine_ok m'"
proof -
  have "place_ok (mcLog m') (mcPlace m' u)" for u
    using m assms(5) place_ok_append unfolding m' machine_ok_def by auto
  moreover have "\<not> (inReset (mcPlace m' HeartbeatLoop) \<and> inReset (mcPlace m' WorkerLoop))"
    using m lock unfolding m' machine_ok_def resetFree_def by (cases t) auto
  ultimately show ?thesis using assms(4,6) unfolding machine_ok_def by blast
qed

lemma inReset_simps [simp]:
  "\<not> inReset Idle" "\<not> inReset Registering" "\<not> inReset (HasNode n)" "inReset (Resetting n)" "inReset (ResetDone n)"
  "\<not> inReset (ReadyFor n)" "\<not> inReset (Acting n)"
  by (simp_all add: inReset_def)

lemma markReset_ok: "runner_ok evs r \<Longrightarrow> wasReset nid evs \<Longrightarrow> runner_ok evs (markReset nid r)"
  by (auto simp: runner_ok_def markReset_def)

lemma handleNodeError_ok: "runner_ok evs r \<Longrightarrow> runner_ok evs (handleNodeError err r)"
  by (auto simp: runner_ok_def handleNodeError_def split: option.split)

lemma runner_step_ok: "runner_step m m' \<Longrightarrow> machine_ok m \<Longrightarrow> machine_ok m'"
proof (induction rule: runner_step.induct)
  case (known m t)
  then have "runner_ok (mcLog m) (mcRunner m)" "acts_ok (mcLog m)" by (simp_all add: machine_ok_def)
  then show ?case using known
    by (intro machine_okI [OF known(4), where t = t and evs = "[]" and p = "HasNode (rnNodeID (mcRunner m))"])
       (simp_all add: runner_ok_def)
next
  case (register m t)
  then show ?case
    by (intro machine_okI [OF register(4), where t = t and evs = "[]" and p = Registering]) (simp_all add: machine_ok_def)
next
  case (registered m t nid)
  then have "acts_ok (mcLog m)" by (simp add: machine_ok_def)
  then have "acts_ok (mcLog m @ [RegisteredAs nid])" by (rule acts_ok_snoc) simp
  then show ?case using registered(2)
    by (intro machine_okI [OF registered(3), where t = t and evs = "[RegisteredAs nid]" and p = "HasNode nid"])
       (simp_all add: runner_ok_def)
next
  case (not_registered m t)
  then show ?case
    by (intro machine_okI [OF not_registered(2), where t = t and evs = "[]" and p = Idle]) (simp_all add: machine_ok_def)
next
  case (reset_before m t nid)
  have "place_ok (mcLog m) (mcPlace m t)" "runner_ok (mcLog m) (mcRunner m)" using reset_before(4) by (simp_all add: machine_ok_def)
  then have "wasReset nid (mcLog m)" using reset_before(1,3) by (auto simp: runner_ok_def)
  then show ?case using reset_before(4)
    by (intro machine_okI [OF reset_before(4), where t = t and evs = "[]" and p = "ReadyFor nid"]) (simp_all add: machine_ok_def)
next
  case (reset m t nid)
  have "place_ok (mcLog m) (mcPlace m t)" using reset(4) by (simp add: machine_ok_def)
  then show ?case using reset
    by (intro machine_okI [OF reset(4), where t = t and evs = "[]" and p = "Resetting nid"]) (simp_all add: machine_ok_def)
next
  case (reset_ok m t nid)
  have "place_ok (mcLog m) (mcPlace m t)" using reset_ok(2) by (simp add: machine_ok_def)
  then have w: "wasReset nid (mcLog m @ [ResetFor nid])" using reset_ok(1) by (simp add: wasReset_now)
  have "acts_ok (mcLog m)" "runner_ok (mcLog m) (mcRunner m)" using reset_ok(2) by (simp_all add: machine_ok_def)
  then have "acts_ok (mcLog m @ [ResetFor nid])" "runner_ok (mcLog m @ [ResetFor nid]) (mcRunner m)"
    by (auto intro: acts_ok_snoc runner_ok_append)
  then show ?case using w reset_ok(1)
    by (intro machine_okI [OF reset_ok(2), where t = t and evs = "[ResetFor nid]" and p = "ResetDone nid"]) simp_all
next
  case (reset_failed m t nid)
  then show ?case
    by (intro machine_okI [OF reset_failed(2), where t = t and evs = "[]" and p = Idle]) (simp_all add: machine_ok_def)
next
  case (mark m t nid)
  have "place_ok (mcLog m) (mcPlace m t)" "runner_ok (mcLog m) (mcRunner m)" using mark(2) by (simp_all add: machine_ok_def)
  then show ?case using mark markReset_ok
    by (intro machine_okI [OF mark(2), where t = t and evs = "[]" and p = "ReadyFor nid"]) (simp_all add: machine_ok_def)
next
  case (act m t nid)
  have w: "wasReset nid (mcLog m)" and "acts_ok (mcLog m)" "runner_ok (mcLog m) (mcRunner m)"
    using act unfolding machine_ok_def by (metis place_ok_simps(6), blast, blast)
  then have "acts_ok (mcLog m @ [ActedFor t nid])" "runner_ok (mcLog m @ [ActedFor t nid]) (mcRunner m)"
    by (auto intro: acts_ok_snoc runner_ok_append)
  then show ?case using wasReset_append [OF w]
    by (intro machine_okI [OF act(2), where t = t and evs = "[ActedFor t nid]" and p = "Acting nid"]) simp_all
next
  case (acted m t nid err)
  have "runner_ok (mcLog m) (mcRunner m)" using acted(2) by (simp add: machine_ok_def)
  then show ?case using acted(2) handleNodeError_ok
    by (intro machine_okI [OF acted(2), where t = t and evs = "[]" and p = Idle]) (simp_all add: machine_ok_def)
qed

lemma acts_ok_none: "(\<And>t nid. ActedFor t nid \<notin> set evs) \<Longrightarrow> acts_ok evs"
  unfolding acts_ok_def by (metis in_set_conv_decomp)

lemma runner_reachable_ok: "runner_reachable m \<Longrightarrow> machine_ok m"
proof (induction rule: runner_reachable.induct)
  case unregistered
  then show ?case by (simp add: machine_ok_def runner_ok_def acts_ok_none)
next
  case (unreset nid)
  then show ?case by (simp add: machine_ok_def runner_ok_def acts_ok_none)
next
  case (started nid)
  have "wasReset nid [RegisteredAs nid, ResetFor nid]" using wasReset_now [of nid "[RegisteredAs nid]"] by simp
  then show ?case by (simp add: machine_ok_def runner_ok_def acts_ok_none)
qed (rule runner_step_ok)

text \<open>
  C16: However the heartbeat loop and the worker loop of an agent interleave, whatever the server and
  the engine answer: each loop acts for a node - sends a heartbeat, or polls for work and runs it -
  only after the containers of that node have been removed since the agent was registered as it, so
  containers of an earlier life are gone before the first work; the two loops never reset at the
  same time; and the node that the agent remembers as reset is the one it is registered as.
\<close>

theorem loops_act_after_reset:
  assumes "runner_reachable m"
  shows "(mcLog m = pre @ ActedFor t nid # post \<longrightarrow> (\<exists>a b. pre = a @ RegisteredAs nid # b \<and> ResetFor nid \<in> set b)) \<and>
    \<not> (inReset (mcPlace m HeartbeatLoop) \<and> inReset (mcPlace m WorkerLoop)) \<and>
    (rnResetNode (mcRunner m) \<noteq> [] \<longrightarrow> rnResetNode (mcRunner m) = rnNodeID (mcRunner m))"
  using runner_reachable_ok [OF assms] by (auto simp: machine_ok_def acts_ok_def wasReset_def runner_ok_def)

text \<open>The two loops after the start: the worker polls while the heartbeat loop is on its way.\<close>

definition demoMachine :: machine where
  "demoMachine = goes WorkerLoop (Acting ''n'') (logs (ActedFor WorkerLoop ''n'')
     (resting \<lparr>rnNodeID = ''n'', rnResetNode = ''n''\<rparr> [RegisteredAs ''n'', ResetFor ''n'']))"

lemma demoMachine_reachable: "runner_reachable demoMachine"
proof -
  let ?m0 = "resting \<lparr>rnNodeID = ''n'', rnResetNode = ''n''\<rparr> [RegisteredAs ''n'', ResetFor ''n'']"
  have 0: "runner_reachable ?m0" using runner_reachable.started [of "''n''"] by simp
  have 1: "runner_reachable (goes WorkerLoop (HasNode ''n'') ?m0)"
    using runner_reachable.step [OF 0 runner_step.known [of ?m0 WorkerLoop]] by simp
  have 2: "runner_reachable (goes WorkerLoop (ReadyFor ''n'') ?m0)"
    using runner_reachable.step [OF 1 runner_step.reset_before [of _ WorkerLoop "''n''"]] by simp
  show ?thesis
    using runner_reachable.step [OF 2 runner_step.act [of _ WorkerLoop "''n''"]] by (simp add: demoMachine_def)
qed

theorem loops_act_after_reset_witness:
  "\<exists>a b. [RegisteredAs ''n'', ResetFor ''n''] = a @ RegisteredAs ''n'' # b \<and> ResetFor ''n'' \<in> set b"
  using loops_act_after_reset [OF demoMachine_reachable, of "[RegisteredAs ''n'', ResetFor ''n'']" WorkerLoop "''n''" "[]"]
  by (simp add: demoMachine_def)


text \<open>A file with the capacity left to detection, on a host with four processors and 8 GiB.\<close>

definition demoAgentHost :: agent_host where
  "demoAgentHost = \<lparr>ahParse = (\<lambda>_. Inl (Errorf ''bad'')), ahParseRequestURI = (\<lambda>_. Inl (Errorf ''bad'')),
     ahFacts = \<lparr>hfNumCPU = 4, hfTotalMemory = 8589934592\<rparr>\<rparr>"

definition demoAgentFile :: agent_config where
  "demoAgentFile =
     \<lparr>acPath = [], acServerURL = ''p:1 '', acServerTLSCA = [], acAuthToken = '' t'', acPlatformName = ''x'',
      acNode = \<lparr>anProvider = ''Aliyun'', anRegion = ''cn'', anName = ''n'', anPrivateIP = '' 10.0.0.1'', anInstanceID = ''i'',
        anInstanceType = ''t''\<rparr>, acCapacityTotal = \<lparr>rsCPUMilli = 0, rsMemoryMi = 0\<rparr>, acProxyEndpoint = [],
      acProxyNoProxy = [], acWorkloadOTLPEndpoint = [],
      acResolvedCapacity = \<lparr>rcTotal = \<lparr>rsCPUMilli = 0, rsMemoryMi = 0\<rparr>, rcAllocatable = \<lparr>rsCPUMilli = 0, rsMemoryMi = 0\<rparr>\<rparr>\<rparr>"


end
