(* ===== verification/WorkProps.thy ===== *)
theory WorkProps
  imports Work
begin

text \<open>
  What a round of a node agent does, whatever the server, the engine and the container answer: which
  calls it makes, in which order, and what it reports.
\<close>

section \<open>An executor that also writes down what it does\<close>

datatype work_event =
    Started run_result
  | StartFailed
  | Probed "int option"
  | StopTried string bool
  | Reported string string report_input

definition okR :: "'a res \<Rightarrow> bool" where
  "okR r \<longleftrightarrow> (case r of Inl _ \<Rightarrow> False | Inr _ \<Rightarrow> True)"

lemma okR_simps [simp]: "\<not> okR (Inl e)" "okR (Inr x)"
  by (simp_all add: okR_def)

definition journalNet :: "'w agent_net \<Rightarrow> ('w \<times> work_event list) agent_net" where
  "journalNet net =
     \<lparr>anClientTLS = anClientTLS net, anNewClient = anNewClient net,
      anRegisterNode = (\<lambda>t cx md i. quietly (anRegisterNode net t cx md i)),
      anRecordHeartbeat = (\<lambda>t cx md nid i. quietly (anRecordHeartbeat net t cx md nid i)),
      anPollWork = (\<lambda>t cx md nid. quietly (anPollWork net t cx md nid)),
      anReportExecution = (\<lambda>t cx md nid eid i.
        noting (anReportExecution net t cx md nid eid i) (\<lambda>_. [Reported nid eid i]))\<rparr>"

definition journalRuntime :: "'w container_runtime \<Rightarrow> ('w \<times> work_event list) container_runtime" where
  "journalRuntime rt =
     \<lparr>crRun = (\<lambda>cx i. noting (crRun rt cx i) (\<lambda>r. case r of Inl _ \<Rightarrow> [StartFailed] | Inr x \<Rightarrow> [Started x])),
      crStop = (\<lambda>cx cid. noting (crStop rt cx cid) (\<lambda>r. [StopTried cid (okR r)])),
      crLogs = (\<lambda>cx cid n. quietly (crLogs rt cx cid n)),
      crResetNode = (\<lambda>cx nid. quietly (crResetNode rt cx nid))\<rparr>"

definition journalProbe :: "'w http_probe \<Rightarrow> ('w \<times> work_event list) http_probe" where
  "journalProbe hp =
     \<lparr>hpCtxErr = quietly (hpCtxErr hp), hpNow = quietly (hpNow hp), hpNewRequest = hpNewRequest hp,
      hpDo = (\<lambda>t url. noting (hpDo hp t url) (\<lambda>r. [Probed (case r of Inl _ \<Rightarrow> None | Inr st \<Rightarrow> Some st)])),
      hpDrain = quietly (hpDrain hp), hpCloseBody = quietly (hpCloseBody hp),
      hpSleep = (\<lambda>d. quietly (hpSleep hp d))\<rparr>"

definition journal :: "'w executor \<Rightarrow> ('w \<times> work_event list) executor" where
  "journal e =
     \<lparr>exNet = journalNet (exNet e), exClient = exClient e, exRuntime = journalRuntime (exRuntime e),
      exProbe = journalProbe (exProbe e), exOpts = exOpts e\<rparr>"

lemma journal_sel [simp]:
  "exNet (journal e) = journalNet (exNet e)" "exClient (journal e) = exClient e"
  "exRuntime (journal e) = journalRuntime (exRuntime e)" "exProbe (journal e) = journalProbe (exProbe e)"
  "exOpts (journal e) = exOpts e"
  by (simp_all add: journal_def)

lemma journal_ops [simp]:
  "anPollWork (journalNet net) t cx md nid = quietly (anPollWork net t cx md nid)"
  "anReportExecution (journalNet net) t cx md nid eid i =
     noting (anReportExecution net t cx md nid eid i) (\<lambda>_. [Reported nid eid i])"
  "crRun (journalRuntime rt) cx ri = noting (crRun rt cx ri) (\<lambda>r. case r of Inl _ \<Rightarrow> [StartFailed] | Inr x \<Rightarrow> [Started x])"
  "crStop (journalRuntime rt) cx cid = noting (crStop rt cx cid) (\<lambda>r. [StopTried cid (okR r)])"
  "crLogs (journalRuntime rt) cx cid n = quietly (crLogs rt cx cid n)"
  "hpCtxErr (journalProbe hp) = quietly (hpCtxErr hp)" "hpNow (journalProbe hp) = quietly (hpNow hp)"
  "hpNewRequest (journalProbe hp) = hpNewRequest hp"
  "hpDo (journalProbe hp) d url = noting (hpDo hp d url) (\<lambda>r. [Probed (case r of Inl _ \<Rightarrow> None | Inr st \<Rightarrow> Some st)])"
  "hpDrain (journalProbe hp) = quietly (hpDrain hp)" "hpCloseBody (journalProbe hp) = quietly (hpCloseBody hp)"
  "hpSleep (journalProbe hp) d' = quietly (hpSleep hp d')"
  "grpcClient (journalNet net) c = grpcClient net c"
  by (simp_all add: journalNet_def journalRuntime_def journalProbe_def grpcClient_def transportCredentials_def)

section \<open>What a round may look like\<close>

definition successStatus :: "int option \<Rightarrow> bool" where
  "successStatus p \<longleftrightarrow> (case p of None \<Rightarrow> False | Some st \<Rightarrow> 200 \<le> st \<and> st < 400)"

text \<open>
  The rounds for one item, and the report each of them sends.  There is exactly one report, at the
  end; a run is reported running only after a probe that succeeded, with the container that was
  started; and a container that is not reported running has been stopped, or at least a stop tried.
\<close>

inductive round :: "work_options \<Rightarrow> work_item \<Rightarrow> work_event list \<Rightarrow> report_input \<Rightarrow> bool" for opts item where
  invalid: "validateWorkItem item = Inl err \<Longrightarrow> riStatus rq = StatusFailed \<Longrightarrow>
     riContainerName rq = wiContainerName item \<Longrightarrow> round opts item [] rq"
| deleted: "validateWorkItem item = Inr () \<Longrightarrow> trimSpace (wiAction item) = WorkActionDelete \<Longrightarrow>
     riStatus rq = (if ok then StatusSucceeded else StatusFailed) \<Longrightarrow> riContainerName rq = wiContainerName item \<Longrightarrow>
     riContainerID rq = wiContainerID item \<Longrightarrow> round opts item [StopTried (wiContainerID item) ok] rq"
| notStarted: "validateWorkItem item = Inr () \<Longrightarrow> trimSpace (wiAction item) = WorkActionRun \<Longrightarrow>
     riStatus rq = StatusFailed \<Longrightarrow> riContainerName rq = wiContainerName item \<Longrightarrow>
     round opts item [StartFailed] rq"
| running: "validateWorkItem item = Inr () \<Longrightarrow> trimSpace (wiAction item) = WorkActionRun \<Longrightarrow>
     successStatus p \<Longrightarrow> int (Suc (length ps)) \<le> max 1 (woReadinessAttempts opts) \<Longrightarrow>
     riStatus rq = StatusRunning \<Longrightarrow> riContainerName rq = rrContainerName r \<Longrightarrow>
     riContainerID rq = rrContainerID r \<Longrightarrow> riHostPort rq = goInt32 (rrHostPort r) \<Longrightarrow>
     round opts item (Started r # map Probed (ps @ [p])) rq"
| notReady: "validateWorkItem item = Inr () \<Longrightarrow> trimSpace (wiAction item) = WorkActionRun \<Longrightarrow>
     int (length ps) \<le> max 1 (woReadinessAttempts opts) \<Longrightarrow>
     riStatus rq = StatusFailed \<Longrightarrow> riContainerName rq = rrContainerName r \<Longrightarrow>
     riContainerID rq = rrContainerID r \<Longrightarrow>
     round opts item (Started r # map Probed ps @ [StopTried (rrContainerID r) ok]) rq"

inductive_cases roundE: "round opts item es rq"

section \<open>Reports\<close>

lemma nonBlank_Cons: "\<not> isSpace c \<Longrightarrow> nonBlank (c # s)"
  by (simp add: nonBlank_def trimSpace_def trimBoth_eq_Nil_iff)

lemma length_truncateReason: "length (truncateReason s) \<le> 400"
  by (simp add: truncateReason_def Let_def)

lemma truncateReason_blank: "nonBlank (truncateReason s) \<longleftrightarrow> nonBlank s"
proof (cases "length (trimSpace s) \<le> 400")
  case False
  then obtain c t where c: "trimSpace s = c # t" by (cases "trimSpace s") auto
  then have "\<not> isSpace c" using trimBoth_hd [of isSpace s] by (simp add: trimSpace_def)
  moreover have "truncateReason s = c # take 396 t @ ''...''" using False c by (simp add: truncateReason_def)
  ultimately show ?thesis using c nonBlank_Cons [of c] by (simp add: nonBlank_def [of s])
qed (simp add: truncateReason_def nonBlank_def)

text \<open>Every reason that is reported says something, and that of a failure has at most 400 bytes.\<close>

definition fitReason :: "report_input \<Rightarrow> bool" where
  "fitReason rq \<longleftrightarrow> nonBlank (riReason rq) \<and> (riStatus rq = StatusFailed \<longrightarrow> length (riReason rq) \<le> 400)"

lemma clientReport_noted:
  assumes "clientReportExecution (journalNet net) c cx nid eid rq al = (r, al')" "grpcClient net c = Inr t"
  shows "grows al [Reported nid eid rq] al'"
proof -
  obtain q al1 where q: "noting (anReportExecution net t cx (withOutgoingMetadata (acToken c)) nid eid rq)
      (\<lambda>_. [Reported nid eid rq]) al = (q, al1)" by (metis prod.exhaust)
  have "snd al1 = snd al @ [Reported nid eid rq]" using noting_D [OF q] by simp
  then show ?thesis using assms q
    by (auto simp: clientReportExecution_def agentCall_def split: sum.splits option.splits if_splits)
qed

text \<open>The one report of a round, at the end of its events.\<close>

definition reports :: "'w executor \<Rightarrow> work_item \<Rightarrow> work_event list \<Rightarrow> report_input \<Rightarrow>
    'a \<times> work_event list \<Rightarrow> 'a \<times> work_event list \<Rightarrow> bool" where
  "reports e item es rq al al' \<longleftrightarrow>
     grows al (es @ [Reported (woNodeID (exOpts e)) (wiExecutionID item) rq]) al' \<and> fitReason rq"

lemma sendReport_noted:
  assumes "sendReport (journal e) item rq al1 = (r, al')" "grpcClient (exNet e) (exClient e) = Inr t"
    and "grows al es al1" "fitReason rq"
  shows "reports e item es rq al al'"
  using clientReport_noted [of "exNet e" "exClient e"] assms by (fastforce simp: sendReport_def reports_def)

lemma reportFailed_noted:
  assumes "reportFailed (journal e) item rq al1 = (r, al')" "grpcClient (exNet e) (exClient e) = Inr t"
    and "grows al es al1" "nonBlank (riReason rq)" "length (riReason rq) \<le> 400"
  shows "reports e item es (rq\<lparr>riStatus := StatusFailed\<rparr>) al al'"
proof -
  have "riReason rq \<noteq> []" using assms(4) by auto
  then show ?thesis
    using sendReport_noted [OF _ assms(2,3), of item "rq\<lparr>riStatus := StatusFailed\<rparr>" r al'] assms(1,4,5)
    by (simp add: reportFailed_def fitReason_def)
qed

section \<open>Probes\<close>

lemma probe_noted:
  assumes "probeReadiness (journalProbe hp) cfg k al = (ob, al')"
  shows "\<exists>ps. grows al (map Probed ps) al' \<and> length ps \<le> 1 \<and> (observationOk ob \<longrightarrow> (\<exists>p. ps = [p] \<and> successStatus p))"
proof -
  obtain now al1 where 1: "quietly (hpNow hp) al = (now, al1)" by (metis prod.exhaust)
  obtain cerr al2 where 2: "quietly (hpCtxErr hp) al1 = (cerr, al2)" by (metis prod.exhaust)
  let ?ev = "\<lambda>r. [Probed (case r of Inl _ \<Rightarrow> None | Inr st \<Rightarrow> Some st)]"
  obtain resp al3 where 3: "noting (hpDo hp (rdTimeout cfg) (rdURL cfg)) ?ev al2 = (resp, al3)" by (metis prod.exhaust)
  obtain derr al4 where 4: "quietly (hpDrain hp) al3 = (derr, al4)" by (metis prod.exhaust)
  obtain kerr al5 where 5: "quietly (hpCloseBody hp) al4 = (kerr, al5)" by (metis prod.exhaust)
  have g: "snd al2 = snd al" "grows al (?ev resp) al3" "grows al (?ev resp) al5"
    using quietly_D [OF 1] quietly_D [OF 2] noting_D [OF 3] quietly_D [OF 4] quietly_D [OF 5] by simp_all
  show ?thesis
  proof (cases "cerr \<noteq> None \<or> hpNewRequest hp (rdURL cfg) \<noteq> Inr ()")
    case True
    then have "al' = al2" "\<not> observationOk ob"
      using assms 1 2 by (auto simp: probeReadiness_def Let_def observationOk_def split: option.splits sum.splits)
    then show ?thesis using g(1) by (intro exI [where x = "[]"]) simp
  next
    case False
    then have p: "probeReadiness (journalProbe hp) cfg k al =
      (case resp of
         Inl err \<Rightarrow> (\<lparr>obAttempt = k, obStartedAt = now, obStatusCode = 0, obError = errText err\<rparr>, al3)
       | Inr st \<Rightarrow> (\<lparr>obAttempt = k, obStartedAt = now, obStatusCode = st, obError = probeError st derr kerr\<rparr>, al5))"
      using 1 2 3 4 5 by (simp add: probeReadiness_def Let_def split: sum.split)
    show ?thesis
    proof (cases resp)
      case (Inl err)
      then have "al' = al3" "\<not> observationOk ob" using assms p by (auto simp: observationOk_def)
      then show ?thesis using g(2) Inl by (intro exI [where x = "[None]"]) simp
    next
      case (Inr st)
      then have "al' = al5" "observationOk ob \<longrightarrow> 200 \<le> st \<and> st < 400" using assms p by (auto simp: observationOk_def)
      then show ?thesis using g(3) Inr by (intro exI [where x = "[Some st]"]) (simp add: successStatus_def)
    qed
  qed
qed

text \<open>The probes of a loop with k attempts left after this one.\<close>

definition probesMade :: "nat \<Rightarrow> readiness_result \<Rightarrow> 'a \<times> work_event list \<Rightarrow> 'a \<times> work_event list \<Rightarrow> bool" where
  "probesMade k r al al' \<longleftrightarrow>
     (\<exists>ps. grows al (map Probed ps) al' \<and> length ps \<le> Suc k \<and>
        (rsPassed r \<longrightarrow> (\<exists>qs p. ps = qs @ [p] \<and> successStatus p)))"

lemma waitLoop_noted:
  "waitLoop (journalProbe hp) cfg k n obs al = (r, al') \<Longrightarrow> probesMade k r al al'"
proof (induction k arbitrary: n obs al)
  case (0 n obs al)
  obtain ob al1 where p: "probeReadiness (journalProbe hp) cfg n al = (ob, al1)" by (metis prod.exhaust)
  obtain c al2 where c: "quietly (hpCtxErr hp) al1 = (c, al2)" by (metis prod.exhaust)
  obtain ps where ps: "grows al (map Probed ps) al1" "length ps \<le> 1" "observationOk ob \<longrightarrow> (\<exists>p. ps = [p] \<and> successStatus p)"
    using probe_noted [OF p] by blast
  have "al' = (if observationOk ob then al1 else al2)" "rsPassed r = observationOk ob"
    using 0 p c by (auto split: if_splits)
  then show ?case using ps quietly_D [OF c] unfolding probesMade_def by (intro exI [where x = ps]) auto
next
  case (Suc k n obs al)
  obtain ob al1 where p: "probeReadiness (journalProbe hp) cfg n al = (ob, al1)" by (metis prod.exhaust)
  obtain c al2 where c: "quietly (hpCtxErr hp) al1 = (c, al2)" by (metis prod.exhaust)
  obtain go al3 where g: "quietly (hpSleep hp (rdInterval cfg)) al2 = (go, al3)" by (metis prod.exhaust)
  obtain ps where ps: "grows al (map Probed ps) al1" "length ps \<le> 1" "observationOk ob \<longrightarrow> (\<exists>p. ps = [p] \<and> successStatus p)"
    using probe_noted [OF p] by blast
  have g3: "grows al (map Probed ps) al2" "grows al (map Probed ps) al3"
    using ps(1) quietly_D [OF c] quietly_D [OF g] by simp_all
  show ?case
  proof (cases "\<not> observationOk ob \<and> c = None \<and> go")
    case True
    then have "waitLoop (journalProbe hp) cfg k (n + 1) (obs @ [ob]) al3 = (r, al')" using Suc.prems p c g by simp
    from Suc.IH [OF this] obtain qs where q: "grows al3 (map Probed qs) al'" "length qs \<le> Suc k"
      "rsPassed r \<longrightarrow> (\<exists>rs p. qs = rs @ [p] \<and> successStatus p)"
      unfolding probesMade_def by blast
    have "grows al (map Probed (ps @ qs)) al'" "length (ps @ qs) \<le> Suc (Suc k)" using q ps(2) g3 by simp_all
    moreover have "rsPassed r \<longrightarrow> (\<exists>rs p. ps @ qs = rs @ [p] \<and> successStatus p)" using q(3) by (metis append_assoc)
    ultimately show ?thesis unfolding probesMade_def by blast
  next
    case False
    then have "snd al' = snd al1" "rsPassed r = observationOk ob"
      using Suc.prems p c g quietly_D [OF c] quietly_D [OF g] by (auto split: if_splits option.splits bool.splits)
    then show ?thesis using ps unfolding probesMade_def by (intro exI [where x = ps]) auto
  qed
qed

lemma WaitReadiness_noted:
  assumes "WaitReadiness (journalProbe hp) cfg al = (r, al')"
  shows "\<exists>ps. grows al (map Probed ps) al' \<and> int (length ps) \<le> max 1 (rdAttempts cfg) \<and>
    (rsPassed r \<longrightarrow> (\<exists>qs p. ps = qs @ [p] \<and> successStatus p))"
proof -
  let ?k = "nat (rdAttempts (withDefaults cfg)) - 1"
  have "waitLoop (journalProbe hp) (withDefaults cfg) ?k 1 [] al = (r, al')" using assms by (simp add: WaitReadiness_def Let_def)
  then have "probesMade ?k r al al'" by (rule waitLoop_noted)
  moreover have "int (Suc ?k) = max 1 (rdAttempts cfg)" by (simp add: withDefaults_def defaultAttempts_def)
  ultimately show ?thesis unfolding probesMade_def by (metis of_nat_le_iff)
qed

section \<open>Rounds\<close>

lemma reports_mono:
  "reports e item es rq al1 al' \<Longrightarrow> grows al es0 al1 \<Longrightarrow> reports e item (es0 @ es) rq al al'"
  by (simp add: reports_def)

lemma without_container_noted:
  assumes "reportWithoutContainer (journal e) item text al = (r, reason, al')"
    and "grpcClient (exNet e) (exClient e) = Inr t" "nonBlank text"
  shows "\<exists>rq. reports e item [] rq al al' \<and> riStatus rq = StatusFailed \<and> riContainerName rq = wiContainerName item"
proof -
  let ?rq = "\<lparr>riStatus = [], riReason = truncateReason text, riContainerID = [],
    riContainerName = wiContainerName item, riHostPort = 0\<rparr>"
  have "\<exists>q. reportFailed (journal e) item ?rq al = (q, al')"
    using assms(1) by (auto simp: reportWithoutContainer_def Let_def split: prod.splits)
  then obtain q where "reportFailed (journal e) item ?rq al = (q, al')" ..
  then have "reports e item [] (?rq\<lparr>riStatus := StatusFailed\<rparr>) al al'"
    by (rule reportFailed_noted [OF _ assms(2)]) (simp_all add: assms(3) truncateReason_blank length_truncateReason)
  then show ?thesis by (intro exI [where x = "?rq\<lparr>riStatus := StatusFailed\<rparr>"]) simp
qed

text \<open>A part of a round that ends with the report, and is reported as a success if it returns no error.\<close>

definition roundEnds :: "'w executor \<Rightarrow> work_item \<Rightarrow> work_event list \<Rightarrow> goerr option \<Rightarrow>
    'a \<times> work_event list \<Rightarrow> 'a \<times> work_event list \<Rightarrow> bool" where
  "roundEnds e item es0 err al al' \<longleftrightarrow>
     (\<exists>es rq. round (exOpts e) item (es0 @ es) rq \<and> reports e item es rq al al' \<and>
        (err = None \<longrightarrow> riStatus rq \<noteq> StatusFailed))"

lemma deleteWorkItem_noted:
  assumes "deleteWorkItem (journal e) item al = (rep, err, al')" "grpcClient (exNet e) (exClient e) = Inr t"
    and "validateWorkItem item = Inr ()" "trimSpace (wiAction item) = WorkActionDelete"
  shows "roundEnds e item [] err al al'"
proof -
  obtain st al1 where st: "crStop (journalRuntime (exRuntime e)) (detachedCtx e woRuntimeStop) (wiContainerID item) al = (st, al1)"
    by (metis prod.exhaust)
  have cx: "detachedCtx (journal e) woRuntimeStop = detachedCtx e woRuntimeStop" by (simp add: detachedCtx_def)
  have g: "grows al [StopTried (wiContainerID item) (okR st)] al1" using noting_D st by fastforce
  show ?thesis
  proof (cases st)
    case (Inl stopErr)
    let ?rq = "\<lparr>riStatus = [], riReason = truncateReason (''delete execution failed while stopping container '' @
        wiContainerName item @ '': '' @ errText stopErr), riContainerID = wiContainerID item,
        riContainerName = wiContainerName item, riHostPort = wiHostPort item\<rparr>"
    obtain q where q: "reportFailed (journal e) item ?rq al1 = (q, al')" and err: "err \<noteq> None"
      using assms(1) st Inl by (auto simp: deleteWorkItem_def cx split: prod.splits sum.splits)
    have "reports e item [StopTried (wiContainerID item) (okR st)] (?rq\<lparr>riStatus := StatusFailed\<rparr>) al al'"
      by (rule reportFailed_noted [OF q assms(2) g])
         (simp_all add: truncateReason_blank length_truncateReason nonBlank_Cons isSpace_def)
    moreover have "round (exOpts e) item [StopTried (wiContainerID item) (okR st)] (?rq\<lparr>riStatus := StatusFailed\<rparr>)"
      using assms(3,4) Inl by (intro round.deleted) simp_all
    ultimately show ?thesis using err unfolding roundEnds_def by fastforce
  next
    case (Inr u)
    let ?rq = "\<lparr>riStatus = StatusSucceeded, riReason = ''service deletion stopped container '' @ wiContainerName item,
        riContainerID = wiContainerID item, riContainerName = wiContainerName item, riHostPort = wiHostPort item\<rparr>"
    obtain q where q: "sendReport (journal e) item ?rq al1 = (q, al')"
      using assms(1) st Inr by (auto simp: deleteWorkItem_def cx split: prod.splits sum.splits)
    have "reports e item [StopTried (wiContainerID item) (okR st)] ?rq al al'"
      by (rule sendReport_noted [OF q assms(2) g]) (simp add: fitReason_def nonBlank_Cons isSpace_def)
    moreover have "round (exOpts e) item [StopTried (wiContainerID item) (okR st)] ?rq"
      using assms(3,4) Inr by (intro round.deleted) simp_all
    moreover have "riStatus ?rq \<noteq> StatusFailed" by (simp add:)
    ultimately show ?thesis unfolding roundEnds_def by fastforce
  qed
qed

lemma reportRunning_noted:
  assumes "reportRunning (journal e) item r url al1 = (rep, err, al')" "grpcClient (exNet e) (exClient e) = Inr t"
    and "grows al es al1"
  shows "\<exists>rq. reports e item es rq al al' \<and> riStatus rq = StatusRunning \<and> riContainerName rq = rrContainerName r \<and>
    riContainerID rq = rrContainerID r \<and> riHostPort rq = goInt32 (rrHostPort r)"
proof -
  let ?rq = "\<lparr>riStatus = StatusRunning, riReason = ''readiness check passed at '' @ url,
     riContainerID = rrContainerID r, riContainerName = rrContainerName r, riHostPort = goInt32 (rrHostPort r)\<rparr>"
  obtain q where q: "sendReport (journal e) item ?rq al1 = (q, al')"
    using assms(1) by (auto simp: reportRunning_def split: prod.splits sum.splits)
  have "reports e item es ?rq al al'"
    by (rule sendReport_noted [OF q assms(2,3)]) (simp add: fitReason_def nonBlank_Cons isSpace_def)
  then show ?thesis by (intro exI [where x = ?rq]) simp
qed

lemma nonBlank_join: "nonBlank x \<Longrightarrow> nonBlank (joinStr sep (x # xs))"
  by (cases xs) (auto simp: nonBlank_def trimSpace_def trimBoth_eq_Nil_iff)

lemma failedReason:
  "nonBlank (buildFailedExecutionReason r logs stopErr)" "length (buildFailedExecutionReason r logs stopErr) \<le> 400"
  by (simp_all add: buildFailedExecutionReason_def Let_def truncateReason_blank length_truncateReason nonBlank_join
      nonBlank_Cons isSpace_def)

lemma cleanupFailedRun_noted:
  assumes "cleanupFailedRun (journal e) item r rd al1 = (rep, err, al')" "grpcClient (exNet e) (exClient e) = Inr t"
    and "grows al es al1"
  shows "err \<noteq> None \<and> (\<exists>rq ok. reports e item (es @ [StopTried (rrContainerID r) ok]) rq al al' \<and> riStatus rq = StatusFailed \<and>
    riContainerName rq = rrContainerName r \<and> riContainerID rq = rrContainerID r)"
proof -
  have cx: "detachedCtx (journal e) tm = detachedCtx e tm" for tm by (simp add: detachedCtx_def)
  obtain lg al2 where lg: "quietly (crLogs (exRuntime e) (detachedCtx e woRuntimeLogs) (rrContainerID r) (woLogTail (exOpts e))) al1
      = (lg, al2)" by (metis prod.exhaust)
  obtain st al3 where st: "noting (crStop (exRuntime e) (detachedCtx e woRuntimeStop) (rrContainerID r))
      (\<lambda>x. [StopTried (rrContainerID r) (okR x)]) al2 = (st, al3)" by (metis prod.exhaust)
  define reason where "reason = buildFailedExecutionReason rd (case lg of Inl _ \<Rightarrow> [] | Inr s \<Rightarrow> s)
      (case st of Inl e \<Rightarrow> Some e | Inr _ \<Rightarrow> None)"
  let ?rq = "\<lparr>riStatus = [], riReason = reason, riContainerID = rrContainerID r, riContainerName = rrContainerName r,
      riHostPort = goInt32 (rrHostPort r)\<rparr>"
  obtain q where q: "reportFailed (journal e) item ?rq al3 = (q, al')" and err: "err \<noteq> None"
    using assms(1) lg st by (auto simp: cleanupFailedRun_def cx Let_def reason_def split: prod.splits sum.splits)
  have "grows al (es @ [StopTried (rrContainerID r) (okR st)]) al3"
    using assms(3) quietly_D [OF lg] noting_D [OF st] by simp
  then have "reports e item (es @ [StopTried (rrContainerID r) (okR st)]) (?rq\<lparr>riStatus := StatusFailed\<rparr>) al al'"
    by (rule reportFailed_noted [OF q assms(2)]) (simp_all add: reason_def failedReason)
  then show ?thesis using err
    by (intro conjI exI [where x = "?rq\<lparr>riStatus := StatusFailed\<rparr>"] exI [where x = "okR st"]) simp_all
qed

lemma superviseRun_noted:
  assumes "superviseRun (journal e) item r al1 = (rep, err, al')" "grpcClient (exNet e) (exClient e) = Inr t"
    and "validateWorkItem item = Inr ()" "trimSpace (wiAction item) = WorkActionRun" "grows al [Started r] al1"
  shows "roundEnds e item [] err al al'"
proof -
  let ?cfg = "\<lparr>rdURL = readinessURL (exOpts e) item r, rdAttempts = woReadinessAttempts (exOpts e),
     rdInterval = woReadinessInterval (exOpts e), rdTimeout = woReadinessTimeout (exOpts e)\<rparr>"
  obtain rd al2 where rd: "WaitReadiness (journalProbe (exProbe e)) ?cfg al1 = (rd, al2)" by (metis prod.exhaust)
  obtain ps where ps: "grows al1 (map Probed ps) al2" "int (length ps) \<le> max 1 (woReadinessAttempts (exOpts e))"
    "rsPassed rd \<longrightarrow> (\<exists>qs p. ps = qs @ [p] \<and> successStatus p)"
    using WaitReadiness_noted [OF rd] by auto
  have g: "grows al (Started r # map Probed ps) al2" using assms(5) ps(1) by simp
  show ?thesis
  proof (cases "rsPassed rd")
    case True
    then obtain qs p where qs: "ps = qs @ [p]" "successStatus p" using ps(3) by blast
    have "reportRunning (journal e) item r (readinessURL (exOpts e) item r) al2 = (rep, err, al')"
      using assms(1) rd True by (simp add: superviseRun_def Let_def)
    from reportRunning_noted [OF this assms(2) g] obtain rq where rq: "reports e item (Started r # map Probed ps) rq al al'"
      "riStatus rq = StatusRunning" "riContainerName rq = rrContainerName r" "riContainerID rq = rrContainerID r"
      "riHostPort rq = goInt32 (rrHostPort r)" by blast
    have "round (exOpts e) item (Started r # map Probed ps) rq" unfolding qs(1)
      by (rule round.running [OF assms(3,4) qs(2)]) (use ps(2) qs(1) rq in simp_all)
    then show ?thesis unfolding roundEnds_def append_Nil using rq(1,2) by (intro exI conjI) (assumption | simp)+
  next
    case False
    have "cleanupFailedRun (journal e) item r rd al2 = (rep, err, al')"
      using assms(1) rd False by (simp add: superviseRun_def Let_def)
    from cleanupFailedRun_noted [OF this assms(2) g] obtain rq ok where
      rq: "reports e item ((Started r # map Probed ps) @ [StopTried (rrContainerID r) ok]) rq al al'"
      "riStatus rq = StatusFailed" "riContainerName rq = rrContainerName r" "riContainerID rq = rrContainerID r"
      and err: "err \<noteq> None" by blast
    have "round (exOpts e) item (Started r # map Probed ps @ [StopTried (rrContainerID r) ok]) rq"
      by (rule round.notReady [OF assms(3,4) ps(2)]) (use rq in simp_all)
    then show ?thesis unfolding roundEnds_def append_Nil using rq(1) err
      by (intro exI [where x = "Started r # map Probed ps @ [StopTried (rrContainerID r) ok]"] exI [where x = rq]) auto
  qed
qed

lemma validItem_action:
  "validateWorkItem item = Inr u \<Longrightarrow> trimSpace (wiAction item) = WorkActionRun \<or> trimSpace (wiAction item) = WorkActionDelete"
  by (auto simp: validateWorkItem_def Let_def split: if_splits)

lemma executeItem_noted:
  assumes "executeItem (journal e) item al = (rep, err, al')" and net: "grpcClient (exNet e) (exClient e) = Inr t"
  shows "roundEnds e item [] err al al'"
proof (cases "validateWorkItem item")
  case (Inl verr)
  obtain q reason where q: "reportWithoutContainer (journal e) item (''invalid work item: '' @ errText verr) al = (q, reason, al')"
    and err: "err \<noteq> None"
    using assms(1) Inl by (auto simp: executeItem_def reportValidationFailure_def split: prod.splits sum.splits)
  obtain rq where "reports e item [] rq al al'" "riStatus rq = StatusFailed" "riContainerName rq = wiContainerName item"
    using without_container_noted [OF q net] by (auto simp: nonBlank_Cons isSpace_def)
  then show ?thesis using err Inl unfolding roundEnds_def append_Nil
    by (intro exI [where x = "[]"] exI [where x = rq]) (simp add: round.invalid)
next
  case (Inr u)
  then have ok: "validateWorkItem item = Inr ()" by simp
  show ?thesis
  proof (cases "trimSpace (wiAction item) = WorkActionDelete")
    case True
    then have "deleteWorkItem (journal e) item al = (rep, err, al')" using assms(1) ok by (simp add: executeItem_def)
    then show ?thesis by (rule deleteWorkItem_noted [OF _ net ok True])
  next
    case False
    then have run: "trimSpace (wiAction item) = WorkActionRun" using validItem_action [OF ok] by simp
    have rq: "runRequestOf (journal e) item = runRequestOf e item" "boundedCtx (journal e) woRuntimeStart = boundedCtx e woRuntimeStart"
      by (simp_all add: runRequestOf_def boundedCtx_def)
    obtain res al1 where res: "noting (crRun (exRuntime e) (boundedCtx e woRuntimeStart) (runRequestOf e item))
        (\<lambda>r. case r of Inl _ \<Rightarrow> [StartFailed] | Inr x \<Rightarrow> [Started x]) al = (res, al1)" by (metis prod.exhaust)
    show ?thesis
    proof (cases res)
      case (Inl rerr)
      have g: "grows al [StartFailed] al1" using noting_D [OF res] Inl by simp
      obtain q reason where q: "reportWithoutContainer (journal e) item (''runtime start failed: '' @ errText rerr) al1 = (q, reason, al')"
        and err: "err \<noteq> None"
        using assms(1) ok False res Inl rq
        by (auto simp: executeItem_def runWorkItem_def reportRuntimeStartFailure_def split: prod.splits sum.splits)
      obtain x where x: "reports e item [] x al1 al'" "riStatus x = StatusFailed" "riContainerName x = wiContainerName item"
        using without_container_noted [OF q net] by (auto simp: nonBlank_Cons isSpace_def)
      have "reports e item [StartFailed] x al al'" using reports_mono [OF x(1) g] by simp
      moreover have "round (exOpts e) item [StartFailed] x" by (rule round.notStarted [OF ok run x(2,3)])
      ultimately show ?thesis using err unfolding roundEnds_def append_Nil by blast
    next
      case (Inr r)
      have g: "grows al [Started r] al1" using noting_D [OF res] Inr by simp
      have "superviseRun (journal e) item r al1 = (rep, err, al')"
        using assms(1) ok False res Inr rq by (simp add: executeItem_def runWorkItem_def)
      then show ?thesis by (rule superviseRun_noted [OF _ net ok run g])
    qed
  qed
qed

text \<open>
  C5: Whatever the server, the engine and the container answer, a round that gets a work item sends
  exactly one report about it, as the last thing it does, for the node of the agent and the execution
  of the item, with a reason that is not blank (and of at most 400 bytes for a failure).  Before it,
  the round is one of five: an invalid item starts nothing; a deletion tries to stop exactly the
  item's container, and reports success if and only if the stop succeeded; a start that failed starts
  nothing; a run reported running was started, and the last of at most the configured number of
  probes of it got a status from 200 to 399; and a run that never gets ready is stopped, and reported
  failed.  A round without an error did not report a failure.
\<close>

theorem agent_reports_each_item:
  assumes "executeNext (journal e) (w, []) = (res, err, (w', es))" and "wrWorkItem res = Some item"
  shows "\<exists>trace rq. es = trace @ [Reported (woNodeID (exOpts e)) (wiExecutionID item) rq] \<and>
     round (exOpts e) item trace rq \<and> fitReason rq \<and> (err = None \<longrightarrow> riStatus rq \<noteq> StatusFailed)"
proof -
  obtain p al1 where p: "pollWork (journal e) (w, []) = (p, al1)" by (metis prod.exhaust)
  have item: "p = Inr (Some item)" and run: "\<exists>rep. executeItem (journal e) item al1 = (rep, err, (w', es))"
    using assms p by (auto simp: executeNext_def split: sum.splits option.splits prod.splits)
  obtain t where t: "grpcClient (exNet e) (exClient e) = Inr t"
    using p item by (auto simp: pollWork_def clientPollExecutionWork_def agentCall_def split: sum.splits)
  have "snd al1 = []"
  proof -
    obtain q al2 where q: "quietly (anPollWork (exNet e) t (boundedCtx (journal e) woPollWork)
        (withOutgoingMetadata (acToken (exClient e))) (woNodeID (exOpts e))) (w, [] :: work_event list) = (q, al2)" by (metis prod.exhaust)
    have "al1 = al2" using p item t q
      by (auto simp: pollWork_def clientPollExecutionWork_def agentCall_def split: sum.splits option.splits)
    then show ?thesis using quietly_D [OF q] by simp
  qed
  then show ?thesis using run executeItem_noted [OF _ t] unfolding roundEnds_def reports_def by fastforce
qed

section \<open>A round\<close>

text \<open>A server with one item, an engine that starts it, and a container that is ready at the second probe.\<close>

definition demoWork :: work_item where
  "demoWork = \<lparr>wiAction = ''run'', wiExecutionID = ''x1'', wiNodeID = ''n1'', wiServiceID = ''s1'', wiServiceName = ''web'',
     wiImage = ''img'', wiCommand = [], wiArgs = [], wiEnv = [], wiContainerPort = 80, wiReadinessPath = ''/ok'',
     wiContainerName = ''c1'', wiContainerID = [], wiHostPort = 0\<rparr>"

definition demoRecord :: execution_record where
  "demoRecord = \<lparr>erID = ''x1'', erNodeID = ''n1'', erImage = ''img'', erContainerName = ''c1'', erContainerID = ''d1'',
     erContainerPort = 80, erHostPort = 30000, erReadinessPath = ''/ok'', erStatus = ''running'', erStatusReason = [],
     erStartedAt = zeroTime, erFinishedAt = None, erCreatedAt = zeroTime, erUpdatedAt = zeroTime\<rparr>"

definition demoExecutor :: "nat executor" where
  "demoExecutor =
     \<lparr>exNet = \<lparr>anClientTLS = (\<lambda>_ _. Inr ()), anNewClient = (\<lambda>_. Inr ()),
        anRegisterNode = (\<lambda>_ _ _ _ w. (Inr (Some ''n1''), w)), anRecordHeartbeat = (\<lambda>_ _ _ _ _ w. (Inr None, w)),
        anPollWork = (\<lambda>_ _ _ _ w. (Inr (Some (Some demoWork)), w)),
        anReportExecution = (\<lambda>_ _ _ _ _ _ w. (Inr (Some (Some (Some demoRecord))), w))\<rparr>,
      exClient = \<lparr>acTarget = ''p:1'', acToken = ''t'', acTLSCA = []\<rparr>,
      exRuntime = \<lparr>crRun = (\<lambda>_ i w. (Inr \<lparr>rrContainerID = ''d1'', rrContainerName = ruContainerName i, rrHostPort = 30000\<rparr>, w)),
        crStop = (\<lambda>_ _ w. (Inr (), w)), crLogs = (\<lambda>_ _ _ w. (Inr [], w)), crResetNode = (\<lambda>_ _ w. (Inr (), w))\<rparr>,
      exProbe = \<lparr>hpCtxErr = (\<lambda>w. (None, w)), hpNow = (\<lambda>w. (zeroTime, w)), hpNewRequest = (\<lambda>_. Inr ()),
        hpDo = (\<lambda>_ _ w. (if w = 0 then Inl (Errorf ''refused'') else Inr 200, Suc w)),
        hpDrain = (\<lambda>w. (None, w)), hpCloseBody = (\<lambda>w. (None, w)), hpSleep = (\<lambda>_ w. (True, w))\<rparr>,
      exOpts = \<lparr>woNodeID = ''n1'', woPrivateIP = [], woHostPortMin = 30000, woHostPortMax = 30001, woReadinessAttempts = 3,
        woReadinessInterval = 1, woReadinessTimeout = 1, woRuntimeStart = 1, woRuntimeStop = 1, woRuntimeLogs = 1,
        woPollWork = 1, woReport = 1, woCleanupHard = 1, woPlatformName = [], woWorkloadOTLPEndpoint = [],
        woLogTail = 20, woProxyEndpoint = [], woNoProxy = []\<rparr>\<rparr>"

definition demoRound :: "work_event list" where
  "demoRound =
     [Started \<lparr>rrContainerID = ''d1'', rrContainerName = ''c1'', rrHostPort = 30000\<rparr>, Probed None, Probed (Some 200),
      Reported ''n1'' ''x1'' \<lparr>riStatus = ''running'', riReason = ''readiness check passed at http://127.0.0.1:30000/ok'',
        riContainerID = ''d1'', riContainerName = ''c1'', riHostPort = 30000\<rparr>]"

lemma demoRound_runs:
  "executeNext (journal demoExecutor) (0, []) =
     (\<lparr>wrWorkFound = True, wrWorkItem = Some demoWork, wrReport = Some demoRecord\<rparr>, None, (2, demoRound))"
  by code_simp

theorem agent_reports_each_item_witness:
  "\<exists>trace rq. demoRound = trace @ [Reported ''n1'' ''x1'' rq] \<and> round (exOpts demoExecutor) demoWork trace rq \<and> fitReason rq"
proof -
  have "woNodeID (exOpts demoExecutor) = ''n1''" "wiExecutionID demoWork = ''x1''"
    by (simp_all add: demoExecutor_def demoWork_def)
  then show ?thesis using agent_reports_each_item [OF demoRound_runs, of demoWork] by auto
qed

end
