(* ===== verification/RunText.thy ===== *)
theory RunText
  imports StoreHistory
begin

text \<open>
  The texts in the row of a run: what a node agent needs of a work item is never blank.
\<close>

definition run_text :: "run_row \<Rightarrow> bool" where
  "run_text r \<longleftrightarrow>
     runID r \<noteq> [] \<and> trimSpace (runID r) = runID r \<and> nonBlank (runImage r) \<and> hasPrefix (trimSpace (runReadinessPath r)) ''/'' \<and>
     (runContainerID r \<noteq> [] \<longrightarrow> nonBlank (runContainerName r))"

definition runs_text :: "db \<Rightarrow> bool" where
  "runs_text s \<longleftrightarrow> (\<forall>r\<in>set (runs s). run_text r)"

lemma nonBlankI: "c \<in> set s \<Longrightarrow> \<not> isSpace c \<Longrightarrow> nonBlank s"
  by (auto simp: nonBlank_def trimSpace_def trimBoth_eq_Nil_iff)

lemma runs_text_frame: "runs s' = runs s \<Longrightarrow> runs_text s \<Longrightarrow> runs_text s'"
  by (simp add: runs_text_def)

lemma runs_text_update:
  assumes "runs_text s" "runs s' = updateWhere p f (runs s)"
    and "\<And>r. r \<in> set (runs s) \<Longrightarrow> run_text r \<Longrightarrow> p r \<Longrightarrow> run_text (f r)"
  shows "runs_text s'"
  using assms by (auto simp: runs_text_def updateWhere_def)

lemma failRun_text [simp]: "run_text (failRun clk reason r) = run_text r"
  by (simp add: run_text_def failRun_def)

lemma offlineRun_text [simp]: "run_text (offlineRun clk cutoff ns r) = run_text r"
  by (simp add: offlineRun_def split: option.split)

lemma ClaimServiceRun_text:
  assumes op: "ClaimServiceRun clk nid s = Inr (w, s')" and t: "runs_text s"
  shows "runs_text s'"
  using op
proof (cases rule: ClaimServiceRun_cases)
  case idle
  then show ?thesis using t by simp
next
  case (delete n r v)
  have n: "nonBlank (wiContainerName (workItemOf r v))"
    using t delete(3,5,8) by (auto simp: runs_text_def run_text_def workItemOf_def Let_def WorkActionRun_def WorkActionDelete_def)
  show ?thesis unfolding delete(10)
    by (rule runs_text_update [OF t markServiceRunDeploying_runs]) (use n in \<open>simp add: run_text_def\<close>)
next
  case (run n r v)
  let ?w = "(workItemOf r v)\<lparr>wiNodeID := nid\<rparr>"
  have n: "nonBlank (wiContainerName (workItemOf r v))"
  proof (rule nonBlankI)
    show "CHR ''m'' \<in> set (wiContainerName (workItemOf r v))"
      using run(7) by (simp add: workItemOf_def WorkActionRun_def ServiceDesiredActive_def ServiceDesiredDeleted_def)
  qed (simp add: isSpace_def)
  have "runs s' = runs (markServiceRunDeploying clk (runID r) nid (wiContainerName (workItemOf r v)) WorkActionRun s)"
    using run by (simp add: reserveNodeAllocation_def)
  then show ?thesis
    by (intro runs_text_update [OF t trans [OF _ markServiceRunDeploying_runs]]) (use n in \<open>auto simp: run_text_def\<close>)
qed

lemma Report_text:
  assumes op: "UpdateExecutionFromNodeReport clk nid eid i s = Inr ((rec, t), s')" and tx: "runs_text s"
  shows "runs_text s'"
proof -
  have name: "nonBlank (riContainerName i)"
    using op by (auto simp: UpdateExecutionFromNodeReport_def bindR_Inr_iff validateReportInput_def split: if_splits)
  from op show ?thesis
  proof (cases rule: Report_cases)
    case repeated
    then show ?thesis using tx by simp
  next
    case (outcome r d fin)
    have u: "runs_text (updateServiceRunReport clk eid i fin s)"
      by (rule runs_text_update [OF tx, where p = "\<lambda>r. runID r = eid" and f = "reportedRun clk i fin"])
         (use name in \<open>auto simp: updateServiceRunReport_def run_text_def reportedRun_def\<close>)
    then show ?thesis unfolding outcome(10)
      by (auto simp: Let_def runs_text_def set_deleteWhere)
  qed
qed

lemma upsertServiceRunTx_text:
  assumes op: "upsertServiceRunTx clk e i s = Inr s'" and t: "runs_text s"
    and i: "nonBlank (sriImage i)" "hasPrefix (trimSpace (sriReadinessPath i)) ''/''"
  shows "runs_text s'"
proof (cases "findBy runServiceID (sriServiceID i) (runs s)")
  case None
  then obtain rid where rid: "newID ''run'' e = Inr rid" "s' = s\<lparr>runs := runs s @ [insertedRun clk rid i]\<rparr>"
    using op by (auto simp: upsertServiceRunTx_def bindR_Inr_iff split: if_splits)
  have plain: "\<not> isSpace c" if "c \<in> set rid" for c
  proof -
    obtain raw where "rid = ''run_'' @ hexEncode raw" using rid(1) by (auto simp: newID_def split: sum.splits)
    then have "c \<in> set ''run_'' \<or> c \<in> set (hexEncode raw)" using that by simp
    then show ?thesis
    proof
      assume "c \<in> set ''run_''"
      then show ?thesis by (auto simp: isSpace_def)
    qed (rule hexEncode_plain)
  qed
  have ne: "rid \<noteq> []" using rid(1) by (auto simp: newID_def split: sum.splits)
  have "trimSpace rid = rid" unfolding trimSpace_def by (rule trimBoth_id) (use plain ne in auto)
  then have "run_text (insertedRun clk rid i)" using i ne by (simp add: run_text_def insertedRun_def)
  then show ?thesis using t by (simp add: rid(2) runs_text_def)
next
  case (Some cur)
  from op show ?thesis
  proof (cases rule: upsertServiceRunTx_cases)
    case (replace cur s1)
    have "runs s1 = runs s" using replace(4) by auto
    then have u: "runs s' = updateWhere (\<lambda>r. runServiceID r = sriServiceID i) (replacedRun clk i) (runs s)"
      by (simp add: replace(5))
    show ?thesis
      by (rule runs_text_update [OF t u]) (use i in \<open>auto simp: run_text_def replacedRun_def preserveContainer_def\<close>)
  qed (use Some t in simp_all)
qed

lemma DeleteService_text:
  assumes op: "DeleteService clk i s = Inr s'" and t: "runs_text s"
  shows "runs_text s'"
proof -
  from op obtain cur gen where s': "s' = deleteServiceRunTx clk (dsID i) gen (s\<lparr>services :=
       updateWhere (\<lambda>v. serviceID v = dsID i) (deletedService clk gen) (services s)\<rparr>)"
    by (rule DeleteService_InrD)
  let ?s = "s\<lparr>services := updateWhere (\<lambda>v. serviceID v = dsID i) (deletedService clk gen) (services s)\<rparr>"
  have t1: "runs_text ?s" using t by (simp add: runs_text_def)
  show ?thesis
  proof (cases rule: deleteServiceRunTx_cases [where sid = "dsID i" and s = ?s and gen = gen and clk = clk])
    case none
    then show ?thesis using t1 s' by simp
  next
    case (stop run)
    show ?thesis unfolding s' stop(5)
      by (rule runs_text_update [OF t1, where p = "\<lambda>r. runServiceID r = dsID i" and f = "markedForDelete clk gen"])
         (auto simp: run_text_def markedForDelete_def)
  next
    case (remove run s1)
    then have "runs s1 = runs ?s" by auto
    then show ?thesis unfolding s' remove(4) using t1 by (auto simp: runs_text_def set_deleteWhere)
  qed
qed

lemma UpsertService_text:
  assumes op: "UpsertService clk e i s = Inr (v', s')" and t: "runs_text s"
  shows "runs_text s'"
proof -
  have spec: "nonBlank (sriImage (runInputOf w c m x))" "hasPrefix (trimSpace (sriReadinessPath (runInputOf w c m x))) ''/''"
    if "validateUpsertServiceInput i = Inr ()" "serviceSpec w = serviceSpec (serviceRowOf clk x i)" for w c m x
    using that validateServiceSpec_InrD [of "usSpec i"] validateUpsertServiceInput_InrD [of i]
    by (simp_all add: runInputOf_def serviceRowOf_def)
  from op show ?thesis
  proof (cases rule: UpsertService_cases)
    case (create c m x)
    then show ?thesis by (intro upsertServiceRunTx_text [OF create(6)] spec) (use t in \<open>simp_all add: runs_text_def\<close>)
  next
    case (update c m x v)
    then show ?thesis
      by (intro upsertServiceRunTx_text [OF update(7)] spec) (use t in \<open>simp_all add: runs_text_def updatedServiceRow_def\<close>)
  qed (use t in simp)
qed

lemma store_step_text: "store_step s s' \<Longrightarrow> store_inv s \<Longrightarrow> runs_text s \<Longrightarrow> runs_text s'"
proof (induction rule: store_step.induct)
  case (step_offline clk stale s c s')
  then show ?case by (auto simp: runs_text_def MarkStale_runs)
next
  case (step_claim clk nid s w s')
  then show ?case using ClaimServiceRun_text by blast
next
  case (step_report clk nid eid i s rec t s')
  then show ?case using Report_text by blast
next
  case (step_upsert clk e i s v s')
  then show ?case using UpsertService_text by blast
next
  case (step_delete clk i s s')
  then show ?case using DeleteService_text by blast
next
  case (step_run_failed clk sid reason s s')
  then show ?case by (auto simp: MarkServiceRunFailed_def runs_text_def updateWhere_def split: if_splits)
next
  case (step_pending_failed md5 clk prefix name reason s s')
  then show ?case
    by (auto simp: MarkPendingServiceRunFailedForProvisioningNode_def runs_text_def updateWhere_def split: if_splits)
qed (auto intro: runs_text_frame dest: node_op_frames)

lemma store_reachable_text: "store_reachable s \<Longrightarrow> runs_text s"
proof (induction rule: store_reachable.induct)
  case reach_init
  then show ?case by (simp add: runs_text_def emptyDB_def)
next
  case (reach_step s s')
  then show ?case using store_step_text store_reachable_inv by blast
qed

end
