(* ===== verification/AgentStore.thy ===== *)
theory AgentStore
  imports WorkProps RunText CloudApi
begin

text \<open>
  A node agent and its cloud-plane: the client of the agent connected to the handlers of the plane on
  their store.  What is claimed is valid for the agent, and what the agent reports settles the run.
\<close>

section \<open>The connection\<close>

text \<open>The world of both: the database of the plane, and whatever state 'a the node has.\<close>

record 'a agent_world = store_world +
  awNode :: 'a

definition onNode :: "('a \<Rightarrow> 'r \<times> 'a) \<Rightarrow> 'a agent_world \<Rightarrow> 'r \<times> 'a agent_world" where
  "onNode f w = (case f (awNode w) of (r, a) \<Rightarrow> (r, w\<lparr>awNode := a\<rparr>))"

definition nodeRuntime :: "'a container_runtime \<Rightarrow> 'a agent_world container_runtime" where
  "nodeRuntime rt =
     \<lparr>crRun = (\<lambda>cx i. onNode (crRun rt cx i)), crStop = (\<lambda>cx cid. onNode (crStop rt cx cid)),
      crLogs = (\<lambda>cx cid n. onNode (crLogs rt cx cid n)), crResetNode = (\<lambda>cx nid. onNode (crResetNode rt cx nid))\<rparr>"

definition nodeProbe :: "'a http_probe \<Rightarrow> 'a agent_world http_probe" where
  "nodeProbe hp =
     \<lparr>hpCtxErr = onNode (hpCtxErr hp), hpNow = onNode (hpNow hp), hpNewRequest = hpNewRequest hp,
      hpDo = (\<lambda>d url. onNode (hpDo hp d url)), hpDrain = onNode (hpDrain hp), hpCloseBody = onNode (hpCloseBody hp),
      hpSleep = (\<lambda>d. onNode (hpSleep hp d))\<rparr>"

text \<open>The stubs at the target addr are the handlers of nodeagent/server.go.\<close>

definition lifted :: "('r \<Rightarrow> 's) \<Rightarrow> 'r res \<times> 'w \<Rightarrow> 's res \<times> 'w" where
  "lifted f p = (case p of (Inl err, w) \<Rightarrow> (Inl err, w) | (Inr r, w) \<Rightarrow> (Inr (f r), w))"

definition agentRPC ::
  "(string \<Rightarrow> string) \<Rightarrow> string \<Rightarrow> string \<Rightarrow> 'e store_env_scheme \<Rightarrow> 'w store_world_scheme agent_net" where
  "agentRPC sha256 token addr e =
     \<lparr>anClientTLS = (\<lambda>_ _. Inr ()), anNewClient = (\<lambda>_. Inr ()),
      anRegisterNode = (\<lambda>t _ md i w.
        if t \<noteq> addr then (Inl (rpcError ''Unavailable'' ''no connection''), w)
        else lifted Some (handleRegisterNode sha256 token e md i w)),
      anRecordHeartbeat = (\<lambda>t _ md nid i w.
        if t \<noteq> addr then (Inl (rpcError ''Unavailable'' ''no connection''), w)
        else lifted Some (handleRecordHeartbeat sha256 token e md nid i w)),
      anPollWork = (\<lambda>t _ md nid w.
        if t \<noteq> addr then (Inl (rpcError ''Unavailable'' ''no connection''), w)
        else lifted Some (handlePollWork sha256 token e md nid w)),
      anReportExecution = (\<lambda>t _ md nid eid i w.
        if t \<noteq> addr then (Inl (rpcError ''Unavailable'' ''no connection''), w)
        else lifted (\<lambda>ack. Some (Some (Some (ackExecution ack)))) (handleReportExecution sha256 token e md nid eid i w))\<rparr>"

text \<open>An executor on such a connection; the parameters of its node are arbitrary.\<close>

definition joined ::
  "(string \<Rightarrow> string) \<Rightarrow> string \<Rightarrow> string \<Rightarrow> 'e store_env_scheme \<Rightarrow> agent_client \<Rightarrow> 'a container_runtime \<Rightarrow> 'a http_probe \<Rightarrow>
   work_options \<Rightarrow> 'a agent_world executor" where
  "joined sha256 token addr e c rt hp opts =
     \<lparr>exNet = agentRPC sha256 token addr e, exClient = c, exRuntime = nodeRuntime rt, exProbe = nodeProbe hp, exOpts = opts\<rparr>"

lemma joined_sel [simp]:
  "exNet (joined sha256 token addr e c rt hp opts) = agentRPC sha256 token addr e"
  "exRuntime (joined sha256 token addr e c rt hp opts) = nodeRuntime rt"
  "exProbe (joined sha256 token addr e c rt hp opts) = nodeProbe hp"
  "exOpts (joined sha256 token addr e c rt hp opts) = opts" "exClient (joined sha256 token addr e c rt hp opts) = c"
  by (simp_all add: joined_def)

section \<open>The node leaves the database alone\<close>

lemma onNode_wdb: "onNode f w = (r, w') \<Longrightarrow> wdb w' = wdb w"
  by (auto simp: onNode_def split: prod.splits)

lemma node_ops_wdb:
  "crRun (nodeRuntime rt) cx i w = (r1, w') \<Longrightarrow> wdb w' = wdb w"
  "crStop (nodeRuntime rt) cx cid w = (r2, w') \<Longrightarrow> wdb w' = wdb w"
  "crLogs (nodeRuntime rt) cx cid n w = (r3, w') \<Longrightarrow> wdb w' = wdb w"
  "hpCtxErr (nodeProbe hp) w = (r4, w') \<Longrightarrow> wdb w' = wdb w"
  "hpNow (nodeProbe hp) w = (r5, w') \<Longrightarrow> wdb w' = wdb w"
  "hpDo (nodeProbe hp) d url w = (r6, w') \<Longrightarrow> wdb w' = wdb w"
  "hpDrain (nodeProbe hp) w = (r7, w') \<Longrightarrow> wdb w' = wdb w"
  "hpCloseBody (nodeProbe hp) w = (r7, w') \<Longrightarrow> wdb w' = wdb w"
  "hpSleep (nodeProbe hp) d w = (r8, w') \<Longrightarrow> wdb w' = wdb w"
  by (auto simp: nodeRuntime_def nodeProbe_def intro: onNode_wdb)

lemma probe_wdb:
  assumes "probeReadiness (nodeProbe hp) cfg k w = (ob, w')"
  shows "wdb w' = wdb w"
proof -
  obtain now w1 where 1: "hpNow (nodeProbe hp) w = (now, w1)" by (metis prod.exhaust)
  obtain cerr w2 where 2: "hpCtxErr (nodeProbe hp) w1 = (cerr, w2)" by (metis prod.exhaust)
  obtain resp w3 where 3: "hpDo (nodeProbe hp) (rdTimeout cfg) (rdURL cfg) w2 = (resp, w3)" by (metis prod.exhaust)
  obtain derr w4 where 4: "hpDrain (nodeProbe hp) w3 = (derr, w4)" by (metis prod.exhaust)
  obtain kerr w5 where 5: "hpCloseBody (nodeProbe hp) w4 = (kerr, w5)" by (metis prod.exhaust)
  have "w' \<in> {w2, w3, w5}"
    using assms unfolding probeReadiness_def Let_def 1 2 3 4 5 prod.case
    by (auto simp: 3 4 5 split: option.splits sum.splits)
  moreover have "wdb w2 = wdb w" "wdb w3 = wdb w" "wdb w5 = wdb w"
    using node_ops_wdb(5) [OF 1] node_ops_wdb(4) [OF 2] node_ops_wdb(6) [OF 3] node_ops_wdb(7) [OF 4] node_ops_wdb(8) [OF 5]
    by simp_all
  ultimately show ?thesis by auto
qed

lemma waitLoop_wdb: "waitLoop (nodeProbe hp) cfg k n obs w = (r, w') \<Longrightarrow> wdb w' = wdb w"
proof (induction k arbitrary: n obs w)
  case (0 n obs w)
  then show ?case
    by (auto dest!: probe_wdb split: prod.splits if_splits) (metis node_ops_wdb(4) prod.collapse)
next
  case (Suc k n obs w)
  obtain ob w1 where p: "probeReadiness (nodeProbe hp) cfg n w = (ob, w1)" by (metis prod.exhaust)
  obtain c w2 where c: "hpCtxErr (nodeProbe hp) w1 = (c, w2)" by (metis prod.exhaust)
  obtain go w3 where g: "hpSleep (nodeProbe hp) (rdInterval cfg) w2 = (go, w3)" by (metis prod.exhaust)
  have w: "wdb w1 = wdb w" "wdb w2 = wdb w" "wdb w3 = wdb w"
    using probe_wdb [OF p] node_ops_wdb(4) [OF c] node_ops_wdb(9) [OF g] by simp_all
  show ?case using Suc.prems Suc.IH [of "n + 1" "obs @ [ob]" w3] p c g w
    by (auto split: if_splits option.splits bool.splits)
qed

lemma WaitReadiness_wdb: "WaitReadiness (nodeProbe hp) cfg w = (r, w') \<Longrightarrow> wdb w' = wdb w"
  by (auto simp: WaitReadiness_def Let_def dest: waitLoop_wdb)

section \<open>Claims are valid work\<close>

lemma trim_const [simp]:
  "trimSpace WorkActionRun = WorkActionRun" "trimSpace WorkActionDelete = WorkActionDelete"
  "WorkActionRun \<noteq> WorkActionDelete" "WorkActionDelete \<noteq> WorkActionRun"
  by (simp_all add: WorkActionRun_def WorkActionDelete_def trimSpace_def trimBoth_def isSpace_def)

lemma nonBlank_trimmed: "trimSpace s = s \<Longrightarrow> s \<noteq> [] \<Longrightarrow> nonBlank s"
  by (simp add: nonBlank_def)

lemma workItem_valid:
  assumes r: "run_ok s r" "run_text r" and v: "service_ok v" "serviceID v = runServiceID r"
    and nid: "nonBlank (wiNodeID it)" and it: "it = workItemOf r v\<lparr>wiNodeID := wiNodeID it\<rparr>"
    and act: "serviceDesired v = ServiceDesiredDeleted \<Longrightarrow> runContainerID r \<noteq> [] \<and> nonBlank (runContainerID r)"
  shows "validateWorkItem (protoWork it) = Inr ()"
proof -
  have port: "goInt32 (runContainerPort r) = runContainerPort r" "0 < runContainerPort r"
    using r(1) by (auto simp: run_ok_def intro!: goInt32_id)
  have sid: "nonBlank (runServiceID r)" using v by (auto simp: service_ok_def intro: nonBlank_trimmed)
  have rid: "nonBlank (runID r)" using r(2) by (auto simp: run_text_def intro: nonBlank_trimmed)
  have f: "wiAction (protoWork it) = wiAction (workItemOf r v)" "wiExecutionID (protoWork it) = runID r"
    "wiNodeID (protoWork it) = wiNodeID it" "wiServiceID (protoWork it) = runServiceID r"
    "wiImage (protoWork it) = runImage r" "wiContainerPort (protoWork it) = runContainerPort r"
    "wiReadinessPath (protoWork it) = runReadinessPath r" "wiContainerID (protoWork it) = runContainerID r"
    "wiContainerName (protoWork it) = wiContainerName (workItemOf r v)"
    by (subst it, simp add: protoWork_def workItemOf_def Let_def port)+
  show ?thesis
  proof (cases "serviceDesired v = ServiceDesiredDeleted")
    case True
    then have "nonBlank (wiContainerName (workItemOf r v))"
      using act r(2) by (simp add: workItemOf_def Let_def run_text_def)
    then show ?thesis using True act nid sid rid by (simp add: validateWorkItem_def Let_def f)
  next
    case False
    then have n: "nonBlank (wiContainerName (workItemOf r v))"
      by (simp add: workItemOf_def nonBlank_Cons isSpace_def)
    have p: "hasPrefix (trimSpace (runReadinessPath r)) ''/''" using r(2) by (simp add: run_text_def)
    then have "trimSpace (runReadinessPath r) \<noteq> []" by (auto simp: hasPrefix_def)
    then show ?thesis using False n p nid sid rid port(2) r(2)
      by (simp add: validateWorkItem_def Let_def f run_text_def)
  qed
qed

lemma claimed_valid:
  assumes "store_reachable s" and op: "ClaimServiceRun clk nid s = Inr (Some it, s')" and nid: "nonBlank nid"
    and del: "wiAction it = WorkActionDelete \<Longrightarrow> nonBlank (wiContainerID it)"
  shows "validateWorkItem (protoWork it) = Inr ()"
proof -
  have inv: "store_inv s" by (rule store_reachable_inv [OF assms(1)])
  have tx: "run_text r" if "r \<in> set (runs s)" for r
    using store_reachable_text [OF assms(1)] that by (simp add: runs_text_def)
  have v: "service_ok v" "serviceID v = k" if "findBy serviceID k (services s) = Some v" for k v
    using that store_invD(9) [OF inv] inv_find_service [OF inv] by auto
  from op show ?thesis
  proof (cases rule: ClaimServiceRun_cases)
    case (delete n r v)
    have n: "wiNodeID (workItemOf r v) = nid" using delete(7) by (simp add: workItemOf_def Let_def)
    show ?thesis
      by (rule workItem_valid [OF store_invD(10) [OF inv delete(3)] tx [OF delete(3)] v [OF delete(4)]])
         (use delete del nid n in auto)
  next
    case (run n r v)
    show ?thesis
      by (rule workItem_valid [OF store_invD(10) [OF inv run(5)] tx [OF run(5)] v [OF run(6)]])
         (use run(7,13) nid in \<open>auto simp: ServiceDesiredActive_def ServiceDesiredDeleted_def\<close>)
  qed simp
qed

lemma handlePollWork_claim:
  assumes "handlePollWork sha256 token e ctx nodeId w = (Inr (Some item), w')"
  obtains clk it where "ClaimServiceRun clk (trimSpace nodeId) (wdb (interfere e w)) = Inr (Some it, wdb w')"
    "item = protoWork it" "nonBlank (trimSpace nodeId)"
  using assms
  by (auto simp: handlePollWork_def storeOp_def Let_def nonBlank_def intro: that
      split: if_splits sum.splits option.splits prod.splits)


section \<open>Reports settle runs\<close>

lemma sendReport_store:
  assumes "sendReport (joined sha256 token addr (undisturbed e) c rt hp opts) item rq w = (Inr x, w')"
  shows "\<exists>clk rec t. UpdateExecutionFromNodeReport clk (trimSpace (woNodeID opts)) (trimSpace (wiExecutionID item)) rq (wdb w)
     = Inr ((rec, t), wdb w')"
proof -
  have "\<exists>md ack. handleReportExecution sha256 token (undisturbed e) md (woNodeID opts) (wiExecutionID item) rq w = (Inr ack, w')"
    using assms
    by (auto simp: sendReport_def clientReportExecution_def agentCall_def agentRPC_def lifted_def
        split: sum.splits if_splits prod.splits option.splits)
  then obtain md ack where "handleReportExecution sha256 token (undisturbed e) md (woNodeID opts) (wiExecutionID item) rq w = (Inr ack, w')"
    by blast
  then show ?thesis
    by (auto simp: handleReportExecution_def storeOp_undisturbed Let_def split: sum.splits if_splits prod.splits) blast
qed

text \<open>What is reported of an item whose round returned err, when the report was acknowledged.\<close>

definition reportedStatus :: "work_item \<Rightarrow> goerr option \<Rightarrow> string" where
  "reportedStatus item err =
     (if err \<noteq> None then StatusFailed
      else if trimSpace (wiAction item) = WorkActionDelete then StatusSucceeded else StatusRunning)"

text \<open>The acknowledged report of a part of a round that starts at w and leaves the store alone before it.\<close>

definition acknowledged ::
  "'a agent_world executor \<Rightarrow> work_item \<Rightarrow> goerr option \<Rightarrow> execution_record \<Rightarrow> 'a agent_world \<Rightarrow> 'a agent_world \<Rightarrow> bool" where
  "acknowledged e item err x w w' \<longleftrightarrow>
     (\<exists>w1 rq. wdb w1 = wdb w \<and> sendReport e item rq w1 = (Inr x, w') \<and> riStatus rq = reportedStatus item err)"

lemma acknowledged_after: "acknowledged e item err x w1 w' \<Longrightarrow> wdb w1 = wdb w \<Longrightarrow> acknowledged e item err x w w'"
  by (simp add: acknowledged_def)

lemma reportFailed_ack:
  "reportFailed e item rq w = (Inr x, w') \<Longrightarrow> acknowledged e item (Some err) x w w'"
  unfolding reportFailed_def acknowledged_def reportedStatus_def by fastforce

lemma without_container_ack:
  "reportWithoutContainer e item text w = (Inr x, reason, w') \<Longrightarrow> acknowledged e item (Some err) x w w'"
  by (auto simp: reportWithoutContainer_def Let_def intro: reportFailed_ack split: prod.splits)

lemma deleteWorkItem_ack:
  assumes "deleteWorkItem (joined sha256 token addr v c rt hp opts) item w = (Some x, err, w')"
    and "trimSpace (wiAction item) = WorkActionDelete"
  shows "acknowledged (joined sha256 token addr v c rt hp opts) item err x w w'"
proof -
  let ?e = "joined sha256 token addr v c rt hp opts"
  obtain st w1 where st: "crStop (nodeRuntime rt) (detachedCtx ?e woRuntimeStop) (wiContainerID item) w = (st, w1)"
    by (metis prod.exhaust)
  note same = node_ops_wdb(2) [OF st]
  show ?thesis
  proof (cases st)
    case (Inl stopErr)
    then have "err = Some stopErr" and "\<exists>rq. reportFailed ?e item rq w1 = (Inr x, w')"
      using assms(1) st by (auto simp: deleteWorkItem_def split: prod.splits sum.splits)
    then show ?thesis using reportFailed_ack acknowledged_after same by blast
  next
    case (Inr u)
    then have "err = None" and "\<exists>rq. sendReport ?e item rq w1 = (Inr x, w') \<and> riStatus rq = StatusSucceeded"
      using assms(1) st by (auto simp: deleteWorkItem_def split: prod.splits sum.splits)
    then show ?thesis using same assms(2) unfolding acknowledged_def reportedStatus_def by auto
  qed
qed

lemma superviseRun_ack:
  assumes "superviseRun (joined sha256 token addr v c rt hp opts) item r w = (Some x, err, w')"
    and "trimSpace (wiAction item) \<noteq> WorkActionDelete"
  shows "acknowledged (joined sha256 token addr v c rt hp opts) item err x w w'"
proof -
  let ?e = "joined sha256 token addr v c rt hp opts"
  let ?cfg = "\<lparr>rdURL = readinessURL opts item r, rdAttempts = woReadinessAttempts opts,
     rdInterval = woReadinessInterval opts, rdTimeout = woReadinessTimeout opts\<rparr>"
  obtain rd w1 where rd: "WaitReadiness (nodeProbe hp) ?cfg w = (rd, w1)" by (metis prod.exhaust)
  note same = WaitReadiness_wdb [OF rd]
  show ?thesis
  proof (cases "rsPassed rd")
    case True
    then have "reportRunning ?e item r (readinessURL opts item r) w1 = (Some x, err, w')"
      using assms(1) rd by (simp add: superviseRun_def Let_def)
    then have "err = None" and "\<exists>rq. sendReport ?e item rq w1 = (Inr x, w') \<and> riStatus rq = StatusRunning"
      by (auto simp: reportRunning_def split: prod.splits sum.splits)
    then show ?thesis using same assms(2) unfolding acknowledged_def reportedStatus_def by auto
  next
    case False
    then have c: "cleanupFailedRun ?e item r rd w1 = (Some x, err, w')"
      using assms(1) rd by (simp add: superviseRun_def Let_def)
    obtain lg w2 where lg: "crLogs (nodeRuntime rt) (detachedCtx ?e woRuntimeLogs) (rrContainerID r) (woLogTail opts) w1 = (lg, w2)"
      by (metis prod.exhaust)
    obtain st w3 where st: "crStop (nodeRuntime rt) (detachedCtx ?e woRuntimeStop) (rrContainerID r) w2 = (st, w3)"
      by (metis prod.exhaust)
    have "wdb w3 = wdb w" using node_ops_wdb(3) [OF lg] node_ops_wdb(2) [OF st] same by simp
    moreover have "\<exists>y. err = Some y" and "\<exists>rq. reportFailed ?e item rq w3 = (Inr x, w')"
      using c lg st by (auto simp: cleanupFailedRun_def Let_def split: prod.splits sum.splits)
    ultimately show ?thesis using reportFailed_ack acknowledged_after by blast
  qed
qed

lemma executeItem_ack:
  assumes "executeItem (joined sha256 token addr v c rt hp opts) item w = (Some x, err, w')"
  shows "acknowledged (joined sha256 token addr v c rt hp opts) item err x w w'"
proof -
  let ?e = "joined sha256 token addr v c rt hp opts"
  show ?thesis
  proof (cases "validateWorkItem item")
    case (Inl verr)
    then have "\<exists>reason. reportValidationFailure ?e item verr w = (Inr x, reason, w')" and "\<exists>y. err = Some y"
      using assms by (auto simp: executeItem_def split: sum.splits prod.splits)
    then show ?thesis using without_container_ack unfolding reportValidationFailure_def by blast
  next
    case (Inr u)
    then have ok: "validateWorkItem item = Inr ()" by simp
    show ?thesis
    proof (cases "trimSpace (wiAction item) = WorkActionDelete")
      case True
      then have "deleteWorkItem ?e item w = (Some x, err, w')" using assms ok by (simp add: executeItem_def)
      then show ?thesis by (rule deleteWorkItem_ack [OF _ True])
    next
      case False
      obtain res w1 where res: "crRun (nodeRuntime rt) (boundedCtx ?e woRuntimeStart) (runRequestOf ?e item) w = (res, w1)"
        by (metis prod.exhaust)
      note same = node_ops_wdb(1) [OF res]
      show ?thesis
      proof (cases res)
        case (Inl rerr)
        then have "\<exists>reason. reportRuntimeStartFailure ?e item rerr w1 = (Inr x, reason, w')" and "\<exists>y. err = Some y"
          using assms ok False res by (auto simp: executeItem_def runWorkItem_def split: sum.splits prod.splits)
        then show ?thesis using without_container_ack acknowledged_after same unfolding reportRuntimeStartFailure_def by blast
      next
        case (Inr r)
        then have "superviseRun ?e item r w1 = (Some x, err, w')"
          using assms ok False res by (simp add: executeItem_def runWorkItem_def)
        then show ?thesis using superviseRun_ack [OF _ False] acknowledged_after same by blast
      qed
    qed
  qed
qed

text \<open>The run of a claim is deploying on the node that claimed it, and the claim says what is wanted of it.\<close>

definition deployingFor :: "work_item \<Rightarrow> db \<Rightarrow> bool" where
  "deployingFor it s \<longleftrightarrow>
     (\<exists>r\<in>set (runs s). runID r = wiExecutionID it \<and> runStatus r = StatusDeploying \<and>
        (\<exists>v. findBy serviceID (runServiceID r) (services s) = Some v \<and>
           wiAction it = (if serviceDesired v = ServiceDesiredDeleted then WorkActionDelete else WorkActionRun)))"

lemma deployingFor_marked:
  assumes "r \<in> set (runs s)" "findBy serviceID (runServiceID r) (services s) = Some v"
    and "wiExecutionID it = runID r" "wiAction it = wiAction (workItemOf r v)"
  shows "deployingFor it (markServiceRunDeploying clk (runID r) nid cn act s)"
proof -
  let ?s = "markServiceRunDeploying clk (runID r) nid cn act s"
  obtain r' where "r' \<in> set (runs ?s)" "runID r' = runID r" "runStatus r' = StatusDeploying" "runServiceID r' = runServiceID r"
    unfolding markServiceRunDeploying_runs updateWhere_iff using assms(1) by force
  then show ?thesis
    unfolding deployingFor_def using assms(2-4)
    by (intro bexI [where x = r'] conjI exI [where x = v]) (simp_all add: markServiceRunDeploying_def)
qed

lemma claimed_deploying:
  assumes op: "ClaimServiceRun clk nid s = Inr (Some it, s')"
  shows "deployingFor it s'"
  using op
proof (cases rule: ClaimServiceRun_cases)
  case (delete n r v)
  then show ?thesis using deployingFor_marked [OF delete(3,4), of it] by simp
next
  case (run n r v)
  then have "deployingFor it (markServiceRunDeploying clk (runID r) nid (wiContainerName (workItemOf r v)) WorkActionRun s)"
    using deployingFor_marked [OF run(5,6), of it] by simp
  then show ?thesis unfolding run(14) by (simp add: deployingFor_def reserveNodeAllocation_def)
qed simp

text \<open>A report on the run of a claim takes effect.\<close>

lemma report_settles:
  assumes inv: "store_inv s" and d: "deployingFor it s"
    and op: "UpdateExecutionFromNodeReport clk nid (wiExecutionID it) rq s = Inr ((rec, t), s')"
    and st: "riStatus rq \<noteq> StatusDeploying"
  shows "if riStatus rq = StatusSucceeded \<and> wiAction it = WorkActionDelete
         then \<forall>r\<in>set (runs s'). runID r \<noteq> wiExecutionID it
         else \<exists>r\<in>set (runs s'). runID r = wiExecutionID it \<and> runStatus r = riStatus rq \<and> runNodeID r = Some nid \<and>
            runContainerID r = riContainerID rq \<and> runHostPort r = riHostPort rq"
proof -
  obtain q v where q: "q \<in> set (runs s)" "runID q = wiExecutionID it" "runStatus q = StatusDeploying"
    and v: "findBy serviceID (runServiceID q) (services s) = Some v"
    and act: "wiAction it = (if serviceDesired v = ServiceDesiredDeleted then WorkActionDelete else WorkActionRun)"
    using d unfolding deployingFor_def by blast
  have same: "r = q" if "r \<in> set (runs s)" "runID r = wiExecutionID it" for r
    by (rule inv_run_eqI [OF inv that(1) q(1)]) (simp add: that q)
  from op show ?thesis
  proof (cases rule: Report_cases)
    case (repeated r)
    then show ?thesis using same q(3) by blast
  next
    case (outcome r d fin)
    have r: "r = q" by (rule same [OF outcome(1,2)])
    have del: "riStatus rq = StatusSucceeded \<and> d = ServiceDesiredDeleted \<longleftrightarrow>
        riStatus rq = StatusSucceeded \<and> wiAction it = WorkActionDelete"
      using outcome(8) v r act by auto
    show ?thesis
    proof (cases "riStatus rq = StatusSucceeded \<and> wiAction it = WorkActionDelete")
      case True
      have "\<forall>r\<in>set (runs s'). runID r \<noteq> wiExecutionID it"
        using True del unfolding outcome(10) Let_def by (simp add: set_deleteWhere)
      then show ?thesis unfolding if_P [OF True] .
    next
      case False
      then have "runs s' = updateWhere (\<lambda>r. runID r = wiExecutionID it) (reportedRun clk rq fin) (runs s)"
        unfolding outcome(10) Let_def if_not_P [OF False [folded del]] by (simp add: updateServiceRunReport_def)
      then have "reportedRun clk rq fin q \<in> set (runs s')" using q by (auto simp: updateWhere_iff)
      then show ?thesis unfolding if_not_P [OF False]
        using outcome(3) r q(2) by (intro bexI [where x = "reportedRun clk rq fin q"]) (simp_all add: reportedRun_def)
    qed
  qed
qed

lemma deployingFor_same: "wdb w1 = wdb w2 \<Longrightarrow> deployingFor it (wdb w1) = deployingFor it (wdb w2)"
  by simp

text \<open>
  C2: Agent and cloud-plane together, while nothing else writes to the store: when a round got an
  item and its report was acknowledged, the run of the item is settled.  With no error, a deletion
  has removed the run, and a run is running, on the node of the agent, at a positive port; with an
  error the run is failed.  In no case is the run left deploying.
\<close>

theorem round_settles_run:
  assumes reach: "store_reachable (wdb w)"
    and run: "executeNext (joined sha256 token addr (undisturbed e) c rt hp opts) w = (res, err, w')"
    and item: "wrWorkItem res = Some item" and ack: "wrReport res = Some x"
  shows "if err = None \<and> wiAction item = WorkActionDelete
         then \<forall>r\<in>set (runs (wdb w')). runID r \<noteq> wiExecutionID item
         else \<exists>r\<in>set (runs (wdb w')). runID r = wiExecutionID item \<and>
           (if err = None then runStatus r = StatusRunning \<and> runNodeID r = Some (trimSpace (woNodeID opts)) \<and> 0 < runHostPort r
            else runStatus r = StatusFailed)"
proof -
  let ?e = "joined sha256 token addr (undisturbed e) c rt hp opts"
  obtain p w1 where p: "pollWork ?e w = (p, w1)" by (metis prod.exhaust)
  have pi: "p = Inr (Some item)" and ex: "executeItem ?e item w1 = (Some x, err, w')"
    using run item ack p by (auto simp: executeNext_def split: sum.splits option.splits prod.splits)
  have "\<exists>md. handlePollWork sha256 token (undisturbed e) md (woNodeID opts) w = (Inr (Some item), w1)"
    using p pi by (auto simp: pollWork_def clientPollExecutionWork_def agentCall_def agentRPC_def lifted_def
        split: sum.splits if_splits prod.splits option.splits)
  then obtain md where poll: "handlePollWork sha256 token (undisturbed e) md (woNodeID opts) w = (Inr (Some item), w1)" ..
  have "wdb (interfere (undisturbed e) w) = wdb w" by (simp add: interfere_def undisturbed_def)
  then obtain clk it where claim: "ClaimServiceRun clk (trimSpace (woNodeID opts)) (wdb w) = Inr (Some it, wdb w1)"
    and it: "item = protoWork it" using handlePollWork_claim [OF poll] by metis
  have fields: "wiExecutionID item = wiExecutionID it" "wiAction item = wiAction it" by (simp_all add: it protoWork_def)
  have reach1: "store_reachable (wdb w1)" by (rule reach_step [OF reach step_claim [OF claim]])
  have inv: "store_inv (wdb w1)" by (rule store_reachable_inv [OF reach1])
  have dep: "deployingFor it (wdb w1)" by (rule claimed_deploying [OF claim])
  then obtain r where r: "r \<in> set (runs (wdb w1))" "runID r = wiExecutionID item" and act: "trimSpace (wiAction it) = wiAction it"
    unfolding deployingFor_def by (auto simp: fields)
  have id: "trimSpace (wiExecutionID item) = wiExecutionID it"
    using store_reachable_text [OF reach1] r fields(1) by (auto simp: runs_text_def run_text_def)
  obtain w2 rq where w2: "wdb w2 = wdb w1" and send: "sendReport ?e item rq w2 = (Inr x, w')"
    and st: "riStatus rq = reportedStatus item err"
    using executeItem_ack [OF ex] unfolding acknowledged_def by blast
  obtain clk' rec t where rep: "UpdateExecutionFromNodeReport clk' (trimSpace (woNodeID opts)) (wiExecutionID it) rq (wdb w1)
      = Inr ((rec, t), wdb w')" using sendReport_store [OF send] unfolding id w2 by blast
  have "0 < riHostPort rq" if "riStatus rq = StatusRunning"
    using rep that by (auto simp: UpdateExecutionFromNodeReport_def bindR_Inr_iff validateReportInput_def split: if_splits)
  moreover have "riStatus rq \<noteq> StatusDeploying" unfolding st reportedStatus_def by auto
  ultimately show ?thesis
    using report_settles [OF inv dep rep] unfolding st reportedStatus_def fields act by (auto split: if_splits)
qed

end
