(* ===== verification/AgentDemo.thy ===== *)
theory AgentDemo
  imports AgentStore StoreDemo
begin

text \<open>A round of a node agent on the store of StoreDemo, whose first service is waiting for a node.\<close>

definition agentDemoEnv :: store_env where
  "agentDemoEnv = \<lparr>envClock = (\<lambda>k. t0), envEntropy = (\<lambda>k. Inr [k]), envFault = (\<lambda>_. None), envOther = (\<lambda>_ s. s)\<rparr>"

definition agentDemoWorld :: "nat agent_world" where
  "agentDemoWorld = \<lparr>wdb = d5, wtick = 0, awNode = 0\<rparr>"

definition demoBearer :: rpc_context where
  "demoBearer = \<lparr>rcAuthorization = [''Bearer t''], rcPeer = None\<rparr>"

definition demoPoll :: "work_item option res \<times> nat agent_world" where
  "demoPoll = handlePollWork (\<lambda>s. s) ''t'' agentDemoEnv demoBearer ''node_01'' agentDemoWorld"

definition polledItem :: "work_item option res \<times> 'w \<Rightarrow> work_item option" where
  "polledItem p = (case fst p of Inl _ \<Rightarrow> None | Inr it \<Rightarrow> it)"

lemma polledItem_Some: "polledItem p = Some it \<Longrightarrow> p = (Inr (Some it), snd p)"
  by (cases p) (auto simp: polledItem_def split: sum.splits)


text \<open>The node of the demo: the engine and the container of WorkProps.\<close>

definition joinedDemo :: "nat agent_world executor" where
  "joinedDemo = joined (\<lambda>s. s) ''t'' ''p:1'' (undisturbed agentDemoEnv) (exClient demoExecutor) (exRuntime demoExecutor)
     (exProbe demoExecutor) ((exOpts demoExecutor)\<lparr>woNodeID := ''node_01''\<rparr>)"

definition joinedRound :: "work_result \<times> goerr option \<times> nat agent_world" where
  "joinedRound = executeNext joinedDemo agentDemoWorld"

theorem round_settles_run_witness:
  "\<exists>r\<in>set (runs (wdb (snd (snd joinedRound)))). runID r = ''run_03'' \<and>
     runStatus r = StatusRunning \<and> runNodeID r = Some ''node_01'' \<and> 0 < runHostPort r"
proof -
  have c: "(map_option wiExecutionID (wrWorkItem (fst joinedRound)), map_option wiAction (wrWorkItem (fst joinedRound)),
      map_option erID (wrReport (fst joinedRound)), fst (snd joinedRound)) = (Some ''run_03'', Some ''run'', Some ''run_03'', None)"
    by code_simp
  then obtain item x where i: "wrWorkItem (fst joinedRound) = Some item" "wrReport (fst joinedRound) = Some x"
    "wiExecutionID item = ''run_03''" "wiAction item = ''run''" "fst (snd joinedRound) = None" by auto
  have run: "executeNext (joined (\<lambda>s. s) ''t'' ''p:1'' (undisturbed agentDemoEnv) (exClient demoExecutor) (exRuntime demoExecutor)
     (exProbe demoExecutor) ((exOpts demoExecutor)\<lparr>woNodeID := ''node_01''\<rparr>)) agentDemoWorld
     = (fst joinedRound, fst (snd joinedRound), snd (snd joinedRound))"
    by (simp add: joinedRound_def joinedDemo_def)
  have "store_reachable (wdb agentDemoWorld)" using demo_reachable(2) by (simp add: agentDemoWorld_def)
  from round_settles_run [OF this run i(1,2)] i(3-5) show ?thesis
    by (simp add: WorkActionDelete_def trimSpace_def trimBoth_def isSpace_def)
qed

end
