(* ===== verification/CloudConfig.thy ===== *)
theory CloudConfig
  imports GoText GoNet CloudModel
begin

text \<open>
  internal/cloudplane/config/config.go: the configuration of a cloud-plane, its normalisation and its
  validation.  The reading of the file, the YAML decoder and url.Parse are parameters.
\<close>

section \<open>The configuration\<close>

record config_credential =
  tcdSecretID :: string
  tcdSecretKey :: string
  tcdToken :: string

record aliyun_node_config =
  alImageID :: string
  alKeyPairName :: string
  alVSwitchID :: string
  alSecurityGroupID :: string
  alSystemDiskCategory :: string
  alSystemDiskSizeGiB :: int

record tencent_node_config =
  tnImageID :: string
  tnKeyIDs :: "string list"
  tnVPCID :: string
  tnSubnetID :: string
  tnSecurityGroupIDs :: "string list"
  tnSystemDiskType :: string
  tnSystemDiskSizeGiB :: int

record tls_files =
  tfCACert :: string
  tfCert :: string
  tfKey :: string

text \<open>Config; the structs with one or two fields are flattened.\<close>

record cloud_config =
  ccPath :: string
  ccListenGRPCAddr :: string
  ccTLS :: tls_files
  ccDatabaseURL :: string
  ccPlaneName :: string
  ccGRPCEndpoint :: string
  ccBearerToken :: string
  ccConnectEndpoint :: string
  ccAgentToken :: string
  ccAgentBinaryURL :: string
  ccProvider :: string
  ccRegionID :: string
  ccZoneID :: string
  ccTencentCredential :: config_credential
  ccInstanceType :: string
  ccRegistryMirrors :: "string list"
  ccWorkloadProxyEndpoint :: string
  ccAliyun :: aliyun_node_config
  ccTencent :: tencent_node_config
  ccBaseDomain :: string
  ccCaddyAdminURL :: string
  ccPublicOrigin :: string
  ccOTLPEndpoint :: string

definition CaddyListenHTTPAddr :: string where "CaddyListenHTTPAddr = ''0.0.0.0:80''"
definition CaddyArtifactListenAddr :: string where "CaddyArtifactListenAddr = ''0.0.0.0:18082''"
definition CaddyArtifactRoot :: string where "CaddyArtifactRoot = ''/opt/mini-cloud/artifacts''"

section \<open>Normalisation\<close>

definition trimConfigList :: "string list \<Rightarrow> string list" where
  "trimConfigList vs = filter (\<lambda>v. v \<noteq> []) (map trimSpace vs)"

definition normalizeCredential :: "config_credential \<Rightarrow> config_credential" where
  "normalizeCredential c = \<lparr>tcdSecretID = trimSpace (tcdSecretID c), tcdSecretKey = trimSpace (tcdSecretKey c),
     tcdToken = trimSpace (tcdToken c)\<rparr>"

definition normalizeAliyun :: "aliyun_node_config \<Rightarrow> aliyun_node_config" where
  "normalizeAliyun c = c\<lparr>alImageID := trimSpace (alImageID c), alKeyPairName := trimSpace (alKeyPairName c),
     alVSwitchID := trimSpace (alVSwitchID c), alSecurityGroupID := trimSpace (alSecurityGroupID c),
     alSystemDiskCategory := trimSpace (alSystemDiskCategory c)\<rparr>"

definition normalizeTencent :: "tencent_node_config \<Rightarrow> tencent_node_config" where
  "normalizeTencent c = c\<lparr>tnImageID := trimSpace (tnImageID c), tnKeyIDs := trimConfigList (tnKeyIDs c),
     tnVPCID := trimSpace (tnVPCID c), tnSubnetID := trimSpace (tnSubnetID c),
     tnSecurityGroupIDs := trimConfigList (tnSecurityGroupIDs c), tnSystemDiskType := trimSpace (tnSystemDiskType c)\<rparr>"

definition normalizeCloudConfig :: "cloud_config \<Rightarrow> cloud_config" where
  "normalizeCloudConfig c =
     c\<lparr>ccListenGRPCAddr := trimSpace (ccListenGRPCAddr c),
       ccTLS := \<lparr>tfCACert = trimSpace (tfCACert (ccTLS c)), tfCert = trimSpace (tfCert (ccTLS c)),
                 tfKey = trimSpace (tfKey (ccTLS c))\<rparr>,
       ccPlaneName := trimSpace (ccPlaneName c), ccGRPCEndpoint := trimSpace (ccGRPCEndpoint c),
       ccBearerToken := trimSpace (ccBearerToken c), ccProvider := toLower (trimSpace (ccProvider c)),
       ccRegionID := trimSpace (ccRegionID c), ccZoneID := trimSpace (ccZoneID c),
       ccTencentCredential := normalizeCredential (ccTencentCredential c),
       ccConnectEndpoint := trimSpace (ccConnectEndpoint c), ccAgentToken := trimSpace (ccAgentToken c),
       ccAgentBinaryURL := trimSpace (ccAgentBinaryURL c), ccInstanceType := trimSpace (ccInstanceType c),
       ccRegistryMirrors := trimConfigList (ccRegistryMirrors c),
       ccWorkloadProxyEndpoint := trimSpace (ccWorkloadProxyEndpoint c),
       ccAliyun := normalizeAliyun (ccAliyun c), ccTencent := normalizeTencent (ccTencent c),
       ccBaseDomain := trimDots (toLower (trimSpace (ccBaseDomain c))),
       ccCaddyAdminURL := trimSpace (ccCaddyAdminURL c), ccPublicOrigin := trimSpace (ccPublicOrigin c),
       ccOTLPEndpoint := trimSpace (ccOTLPEndpoint c)\<rparr>"

section \<open>Validation\<close>

fun afterStr :: "string \<Rightarrow> string \<Rightarrow> string" where
  "afterStr p [] = []"
| "afterStr p (c # s) = (if hasPrefix (c # s) p then drop (length p) (c # s) else afterStr p s)"

definition validateWorkloadProxyEndpoint :: "(string \<Rightarrow> url_parts res) \<Rightarrow> string \<Rightarrow> unit res" where
  "validateWorkloadProxyEndpoint urlParse value =
     (case urlParse (trimSpace value) of
        Inl err \<Rightarrow> Inl (wrap ''parse nodeProvisioning.workloadProxyEndpoint'' err)
      | Inr parsed \<Rightarrow>
          if urlScheme parsed \<noteq> ''http'' \<and> urlScheme parsed \<noteq> ''https'' then
            Inl (Errorf ''nodeProvisioning.workloadProxyEndpoint must use http or https'')
          else if urlHost parsed = [] then Inl (Errorf ''nodeProvisioning.workloadProxyEndpoint must include host'')
          else Inr ())"

definition validateGRPCEndpoint :: "string \<Rightarrow> unit res" where
  "validateGRPCEndpoint value =
     (let trimmed = trimSpace value; lower = toLower trimmed in
      if trimmed = [] then Inl (Errorf ''plane.grpcEndpoint is required'')
      else if list_ex (\<lambda>c. c \<in> {CHR '' '', CHR 0x09, CHR 0x0D, CHR 0x0A}) trimmed then
        Inl (Errorf ''plane.grpcEndpoint must not contain whitespace'')
      else if hasPrefix lower ''http://'' \<or> hasPrefix lower ''https://'' then
        Inl (Errorf ''plane.grpcEndpoint must be a gRPC target, not an HTTP URL'')
      else if hasPrefix lower ''grpc://'' \<or> hasPrefix lower ''grpcs://'' then
        (case splitHostPort (trimSpace (afterStr ''://'' trimmed)) of
           None \<Rightarrow> Inl (Errorf ''plane.grpcEndpoint must include host:port'')
         | Some (_, port) \<Rightarrow>
             if trimSpace port = [] then Inl (Errorf ''plane.grpcEndpoint must include host:port'') else Inr ())
      else if hasPrefix lower ''dns:///'' \<or> hasPrefix lower ''unix:///'' then Inr ()
      else (case splitHostPort trimmed of
              Some (_, port) \<Rightarrow>
                if trimSpace port \<noteq> [] then Inr () else Inl (Errorf ''plane.grpcEndpoint must include host:port'')
            | None \<Rightarrow> Inl (Errorf ''plane.grpcEndpoint must include host:port'')))"

definition validateCaddyAdminURL :: "(string \<Rightarrow> url_parts res) \<Rightarrow> string \<Rightarrow> unit res" where
  "validateCaddyAdminURL urlParse value =
     (case urlParse (trimSpace value) of
        Inl err \<Rightarrow> Inl (wrap ''parse ingress.caddyAdminURL'' err)
      | Inr parsed \<Rightarrow>
          let host = toLower (stripPort (urlHost parsed)) in
          if urlScheme parsed \<noteq> ''http'' \<and> urlScheme parsed \<noteq> ''https'' then
            Inl (Errorf ''ingress.caddyAdminURL must use http or https'')
          else if urlHost parsed = [] then Inl (Errorf ''ingress.caddyAdminURL must include host'')
          else if urlPort parsed = [] then Inl (Errorf ''ingress.caddyAdminURL must include port'')
          else if host \<noteq> ''localhost'' \<and> \<not> isLoopbackIP host then
            Inl (Errorf ''ingress.caddyAdminURL must point to localhost'')
          else Inr ())"

definition validateConnectEndpoint :: "string \<Rightarrow> unit res" where
  "validateConnectEndpoint value =
     (let trimmed = trimSpace value; lower = toLower trimmed;
          usable = (\<lambda>hp. case hp of None \<Rightarrow> False
                      | Some (host, port) \<Rightarrow> trimSpace host \<noteq> [] \<and> trimSpace port \<noteq> [])
      in if trimmed = [] then Inl (Errorf ''nodeAgent.connectEndpoint is required'')
         else if usable (splitHostPort trimmed) then Inr ()
         else if (hasPrefix lower ''grpc://'' \<or> hasPrefix lower ''grpcs://'')
           \<and> usable (splitHostPort (trimSpace (afterStr ''://'' trimmed))) then Inr ()
         else Inl (Errorf ''nodeAgent.connectEndpoint must be host:port, grpc://host:port, or grpcs://host:port''))"

definition validateAliyunNode :: "aliyun_node_config \<Rightarrow> unit res" where
  "validateAliyunNode c =
     (if \<not> nonBlank (alImageID c) then Inl (Errorf ''nodeProvisioning.aliyun.imageId is required'')
      else if \<not> nonBlank (alVSwitchID c) then Inl (Errorf ''nodeProvisioning.aliyun.vSwitchId is required'')
      else if \<not> nonBlank (alSecurityGroupID c) then Inl (Errorf ''nodeProvisioning.aliyun.securityGroupId is required'')
      else if alSystemDiskSizeGiB c < 0 then
        Inl (Errorf ''nodeProvisioning.aliyun.systemDiskSizeGiB must not be negative'')
      else Inr ())"

definition validateTencentNode :: "tencent_node_config \<Rightarrow> unit res" where
  "validateTencentNode c =
     (if \<not> nonBlank (tnImageID c) then Inl (Errorf ''nodeProvisioning.tencent.imageId is required'')
      else if \<not> nonBlank (tnVPCID c) then Inl (Errorf ''nodeProvisioning.tencent.vpcId is required'')
      else if \<not> nonBlank (tnSubnetID c) then Inl (Errorf ''nodeProvisioning.tencent.subnetId is required'')
      else if tnSecurityGroupIDs c = [] then Inl (Errorf ''nodeProvisioning.tencent.securityGroupIds is required'')
      else if tnSystemDiskSizeGiB c < 0 then
        Inl (Errorf ''nodeProvisioning.tencent.systemDiskSizeGiB must not be negative'')
      else Inr ())"

definition validateInfrastructure :: "cloud_config \<Rightarrow> unit res" where
  "validateInfrastructure c =
     (let provider = toLower (trimSpace (ccProvider c)) in
      if provider = [] then Inl (Errorf ''infrastructure.provider is required'')
      else if provider \<noteq> ''aliyun'' \<and> provider \<noteq> ''tencent'' then
        Inl (Errorf ''infrastructure.provider must be aliyun or tencent'')
      else if provider = ''tencent'' \<and> \<not> nonBlank (tcdSecretID (ccTencentCredential c)) then
        Inl (Errorf ''infrastructure.tencentCredential.secretId is required when provider is tencent'')
      else if provider = ''tencent'' \<and> \<not> nonBlank (tcdSecretKey (ccTencentCredential c)) then
        Inl (Errorf ''infrastructure.tencentCredential.secretKey is required when provider is tencent'')
      else if \<not> nonBlank (ccRegionID c) then Inl (Errorf ''infrastructure.regionId is required'')
      else if \<not> nonBlank (ccInstanceType c) then Inl (Errorf ''nodeProvisioning.instanceType is required'')
      else bindR (if provider = ''aliyun'' then validateAliyunNode (ccAliyun c) else Inr ()) (\<lambda>_.
        if provider = ''tencent'' then validateTencentNode (ccTencent c) else Inr ()))"

definition validateIngress :: "(string \<Rightarrow> url_parts res) \<Rightarrow> cloud_config \<Rightarrow> unit res" where
  "validateIngress urlParse c =
     bindR (if nonBlank (ccCaddyAdminURL c) then validateCaddyAdminURL urlParse (ccCaddyAdminURL c) else Inr ()) (\<lambda>_.
       if nonBlank (ccBaseDomain c) then
         (if \<not> nonBlank (ccCaddyAdminURL c) then
            Inl (Errorf ''ingress.caddyAdminURL is required when ingress is enabled'')
          else Inr ())
       else if nonBlank (ccPublicOrigin c) then
         Inl (Errorf ''ingress.baseDomain is required when ingress.publicOrigin is configured'')
       else Inr ())"

definition validateCloudConfig :: "(string \<Rightarrow> url_parts res) \<Rightarrow> cloud_config \<Rightarrow> unit res" where
  "validateCloudConfig urlParse c =
     (if \<not> nonBlank (ccListenGRPCAddr c) then Inl (Errorf ''server.listenGRPCAddr is required'')
      else if \<not> nonBlank (tfCACert (ccTLS c)) then Inl (Errorf ''tls.caCert is required'')
      else if \<not> nonBlank (tfCert (ccTLS c)) then Inl (Errorf ''tls.cert is required'')
      else if \<not> nonBlank (tfKey (ccTLS c)) then Inl (Errorf ''tls.key is required'')
      else if \<not> nonBlank (ccDatabaseURL c) then Inl (Errorf ''database.url is required'')
      else if \<not> nonBlank (ccPlaneName c) then Inl (Errorf ''plane.name is required'')
      else if \<not> nonBlank (ccGRPCEndpoint c) then Inl (Errorf ''plane.grpcEndpoint is required'')
      else bindR (validateGRPCEndpoint (ccGRPCEndpoint c)) (\<lambda>_.
        if \<not> nonBlank (ccBearerToken c) then Inl (Errorf ''controlPlane.bearerToken is required'')
        else if \<not> nonBlank (ccAgentToken c) then Inl (Errorf ''nodeAgent.token is required'')
        else if \<not> nonBlank (ccConnectEndpoint c) then Inl (Errorf ''nodeAgent.connectEndpoint is required'')
        else bindR (validateConnectEndpoint (ccConnectEndpoint c)) (\<lambda>_.
          bindR (validateInfrastructure c) (\<lambda>_.
            bindR (if nonBlank (ccWorkloadProxyEndpoint c)
                   then validateWorkloadProxyEndpoint urlParse (ccWorkloadProxyEndpoint c) else Inr ()) (\<lambda>_.
              bindR (validateIngress urlParse c) (\<lambda>_.
                if \<not> nonBlank (ccAgentBinaryURL c) then Inl (Errorf ''nodeAgent.binaryUrl is required'')
                else Inr ()))))))"

definition loadCloudConfig ::
  "(string \<Rightarrow> string res) \<Rightarrow> (string \<Rightarrow> cloud_config res) \<Rightarrow> (string \<Rightarrow> url_parts res) \<Rightarrow> string \<Rightarrow> cloud_config res" where
  "loadCloudConfig readFile decode urlParse path0 =
     (let path = trimSpace path0 in
      if path = [] then Inl (Errorf ''cloud-plane config path is empty'')
      else (case readFile path of
              Inl err \<Rightarrow> Inl (wrap (''read cloud-plane config '' @ goQuote path) err)
            | Inr data \<Rightarrow>
                (case decode data of
                   Inl err \<Rightarrow> Inl (wrap (''parse cloud-plane config '' @ goQuote path) err)
                 | Inr raw \<Rightarrow>
                     (let cfg = normalizeCloudConfig (raw\<lparr>ccPath := path\<rparr>)
                      in bindR (validateCloudConfig urlParse cfg) (\<lambda>_. Inr cfg)))))"

end
