(* ===== verification/Bootstrap.thy ===== *)
theory Bootstrap
  imports GoText
begin

text \<open>
  internal/cloudplane/infra/nodeprovider/cloud/bootstrap: the script that a new instance runs to
  become a node.  bootstrap.go builds the data of the template node_bootstrap.sh.tmpl, which is
  written out here as a function of that data; text/template is what joins the two, and neither it
  nor json.MarshalIndent can fail on these values.

  The specification reads the script back: the assignments at its head as bash reads them, and a
  double-quoted text that goes through a here-document into YAML.
\<close>

section \<open>bootstrap.go\<close>

record bootstrap_config =
  bcAgentBinaryURL :: string
  bcCACert :: string
  bcToken :: string
  bcConnectEndpoint :: string
  bcDockerRegistryMirrors :: "string list"
  bcInstanceName :: string
  bcInstanceType :: string
  bcMetadataBase :: string
  bcMetadataGetFunction :: string
  bcMetadataInit :: string
  bcMetadataInstanceIDPath :: string
  bcMetadataPrivateIPPath :: string
  bcNoProxyItems :: "string list"
  bcPlatformName :: string
  bcProvider :: string
  bcRegion :: string
  bcWorkloadProxyEndpoint :: string
  bcWorkloadOTLPEndpoint :: string
  bcCPUMilli :: int
  bcMemoryMi :: int

record template_data =
  tdInstallRoot :: string
  tdAgentBinaryURL :: string
  tdCACertBase64 :: string
  tdDockerDaemonJSONBase64 :: string
  tdDockerNoProxy :: string
  tdWorkloadProxyEndpoint :: string
  tdToken :: string
  tdBootstrapLog :: string
  tdMetadataBase :: string
  tdMetadataGetFunction :: string
  tdMetadataInit :: string
  tdMetadataInstanceIDPath :: string
  tdMetadataPrivateIPPath :: string
  tdInstanceName :: string
  tdConnectEndpoint :: string
  tdPlatformName :: string
  tdProvider :: string
  tdRegion :: string
  tdInstanceType :: string
  tdCPUMilli :: int
  tdMemoryMi :: int
  tdNoProxyItems :: "string list"
  tdWorkloadOTLPEndpoint :: string
  tdNodeAgentBinaryPath :: string
  tdNodeAgentConfigPath :: string

definition shellChar :: "char \<Rightarrow> string" where
  "shellChar ch =
     (if ch = CHR 0x5C \<or> ch = CHR 0x22 \<or> ch = CHR ''$'' \<or> ch = CHR 0x60 then [CHR 0x5C, ch]
      else if ch = CHR 0x0A then chBS @ ''n''
      else if ch = CHR 0x0D then chBS @ ''r''
      else if ch = CHR 0x09 then chBS @ ''t''
      else [ch])"

definition shellQuote :: "string \<Rightarrow> string" where
  "shellQuote v = chDQ @ concat (map shellChar v) @ chDQ"

definition shellQuoteItems :: "string list \<Rightarrow> string list" where
  "shellQuoteItems items = map shellQuote items"

definition cleanNoProxyItems :: "string list \<Rightarrow> string list" where
  "cleanNoProxyItems items = filter (\<lambda>i. i \<noteq> []) (map trimSpace items)"

definition buildDockerDaemonJSON :: "string list \<Rightarrow> string" where
  "buildDockerDaemonJSON mirrors =
     (let cleaned = filter (\<lambda>m. m \<noteq> []) (map trimSpace mirrors) in
      if cleaned = [] then []
      else ''{'' @ chNL @ ''  '' @ jsonString ''registry-mirrors'' @ '': ['' @ chNL
        @ joinStr ('','' @ chNL) (map (\<lambda>m. ''    '' @ jsonString m) cleaned) @ chNL @ ''  ]'' @ chNL @ ''}'' @ chNL)"

definition bootstrapData :: "bootstrap_config \<Rightarrow> template_data" where
  "bootstrapData cfg = \<lparr>
     tdInstallRoot = shellQuote ''/opt/mini-cloud'',
     tdAgentBinaryURL = shellQuote (bcAgentBinaryURL cfg),
     tdCACertBase64 = shellQuote (base64Std (trimSpace (bcCACert cfg))),
     tdDockerDaemonJSONBase64 = shellQuote (base64Std (buildDockerDaemonJSON (bcDockerRegistryMirrors cfg))),
     tdDockerNoProxy = shellQuote (joinStr '','' (cleanNoProxyItems (bcNoProxyItems cfg))),
     tdWorkloadProxyEndpoint = shellQuote (trimSpace (bcWorkloadProxyEndpoint cfg)),
     tdToken = shellQuote (trimSpace (bcToken cfg)),
     tdBootstrapLog = shellQuote ''/var/log/mini-cloud-node-bootstrap.log'',
     tdMetadataBase = shellQuote (bcMetadataBase cfg),
     tdMetadataGetFunction = trimSpace (bcMetadataGetFunction cfg),
     tdMetadataInit = trimSpace (bcMetadataInit cfg),
     tdMetadataInstanceIDPath = shellQuote (bcMetadataInstanceIDPath cfg),
     tdMetadataPrivateIPPath = shellQuote (bcMetadataPrivateIPPath cfg),
     tdInstanceName = shellQuote (bcInstanceName cfg),
     tdConnectEndpoint = shellQuote (trimRightSlash (bcConnectEndpoint cfg)),
     tdPlatformName = shellQuote (bcPlatformName cfg),
     tdProvider = shellQuote (bcProvider cfg),
     tdRegion = shellQuote (bcRegion cfg),
     tdInstanceType = shellQuote (bcInstanceType cfg),
     tdCPUMilli = bcCPUMilli cfg,
     tdMemoryMi = bcMemoryMi cfg,
     tdNoProxyItems = shellQuoteItems (bcNoProxyItems cfg),
     tdWorkloadOTLPEndpoint = shellQuote (trimSpace (bcWorkloadOTLPEndpoint cfg)),
     tdNodeAgentBinaryPath = shellQuote ''/opt/mini-cloud/bin/node-agent'',
     tdNodeAgentConfigPath = shellQuote ''/opt/mini-cloud/node-agent.yaml''\<rparr>"

section \<open>node_bootstrap.sh.tmpl\<close>

definition scriptVariables :: "template_data \<Rightarrow> string" where
  "scriptVariables d = concat [
     ''#!/usr/bin/env bash'', chNL, ''set -euo pipefail'', chNL, chNL, ''INSTALL_ROOT='', tdInstallRoot d,
     chNL, ''AGENT_BINARY_URL='', tdAgentBinaryURL d, chNL, ''CA_CERT_BASE64='', tdCACertBase64 d, chNL,
     ''DOCKER_DAEMON_JSON_BASE64='', tdDockerDaemonJSONBase64 d, chNL, ''DOCKER_NO_PROXY='',
     tdDockerNoProxy d, chNL, ''WORKLOAD_PROXY_ENDPOINT='', tdWorkloadProxyEndpoint d, chNL,
     ''NODE_AGENT_TOKEN='', tdToken d, chNL, ''BOOTSTRAP_LOG='', tdBootstrapLog d, chNL, ''METADATA_BASE='',
     tdMetadataBase d, chNL, chNL]"

definition scriptSetup :: "template_data \<Rightarrow> string" where
  "scriptSetup d = concat [
     ''log() {'', chNL, ''  printf '', chSQ, ''[mini-cloud node agent bootstrap] %s'', chBS, ''n'', chSQ,
     '' '', chDQ, ''$1'', chDQ, '' | tee -a '', chDQ, ''$BOOTSTRAP_LOG'', chDQ, chNL, ''}'', chNL, chNL,
     tdMetadataGetFunction d, chNL, chNL, ''if ! command -v apt-get >/dev/null 2>&1; then'', chNL,
     ''  log '', chSQ,
     ''image does not provide apt-get; node agent bootstrap currently expects a Debian/Ubuntu style image'',
     chSQ, chNL, ''  exit 1'', chNL, ''fi'', chNL, chNL, ''export DEBIAN_FRONTEND=noninteractive'', chNL,
     ''apt-get update'', chNL, ''apt-get install -y curl ca-certificates'', chNL, chNL, ''touch '', chDQ,
     ''$BOOTSTRAP_LOG'', chDQ, (if tdMetadataInit d = [] then [] else chNL @ tdMetadataInit d), chNL,
     ''INSTANCE_ID='', chDQ, ''$(metadata_get '', tdMetadataInstanceIDPath d, '')'', chDQ, chNL,
     ''PRIVATE_IP='', chDQ, ''$(metadata_get '', tdMetadataPrivateIPPath d, '')'', chDQ, chNL,
     ''INSTANCE_NAME='', tdInstanceName d, chNL, chNL, ''apt-get install -y docker.io'', chNL,
     ''install -d -m 0755 '', chDQ, ''$INSTALL_ROOT/bin'', chDQ,
     '' /var/lib/mini-cloud-node-agent /etc/docker'', chNL, chNL, ''if [[ -n '', chDQ,
     ''$DOCKER_DAEMON_JSON_BASE64'', chDQ, '' ]]; then'', chNL, ''  printf '', chSQ, ''%s'', chSQ, '' '',
     chDQ, ''$DOCKER_DAEMON_JSON_BASE64'', chDQ, '' | base64 -d >/etc/docker/daemon.json'', chNL, ''fi'',
     chNL, chNL, ''if [[ -n '', chDQ, ''$WORKLOAD_PROXY_ENDPOINT'', chDQ, '' ]]; then'', chNL,
     ''  install -d -m 0755 /etc/systemd/system/docker.service.d'', chNL,
     ''  cat >/etc/systemd/system/docker.service.d/proxy.conf <<EOF_DOCKER_PROXY'', chNL, ''[Service]'',
     chNL, ''Environment='', chDQ, ''HTTP_PROXY=$WORKLOAD_PROXY_ENDPOINT'', chDQ, chNL, ''Environment='',
     chDQ, ''HTTPS_PROXY=$WORKLOAD_PROXY_ENDPOINT'', chDQ, chNL, ''Environment='', chDQ,
     ''NO_PROXY=$DOCKER_NO_PROXY'', chDQ, chNL, ''EOF_DOCKER_PROXY'', chNL, ''fi'', chNL, chNL,
     ''systemctl daemon-reload || true'', chNL, ''systemctl enable --now docker'', chNL,
     ''systemctl restart docker'', chNL, chNL, ''log '', chDQ, ''download node-agent binary'', chDQ, chNL,
     ''curl -fsSL '', chDQ, ''$AGENT_BINARY_URL'', chDQ, '' -o '', chDQ, ''$INSTALL_ROOT/bin/node-agent'',
     chDQ, chNL, ''chmod 0755 '', chDQ, ''$INSTALL_ROOT/bin/node-agent'', chDQ, chNL, chNL, ''CA_CERT='',
     chDQ, ''$(printf '', chSQ, ''%s'', chSQ, '' '', chDQ, ''$CA_CERT_BASE64'', chDQ, '' | base64 -d)'',
     chDQ, chNL]"

definition scriptAgentConfig :: "template_data \<Rightarrow> string" where
  "scriptAgentConfig d = concat [
     ''cat >'', chDQ, ''$INSTALL_ROOT/node-agent.yaml'', chDQ, '' <<EOF_NODE_AGENT_CONFIG'', chNL,
     ''server:'', chNL, ''  url: '', tdConnectEndpoint d, chNL, ''  tlsCA: |'', chNL, ''$(printf '', chSQ,
     ''%s'', chBS, ''n'', chSQ, '' '', chDQ, ''$CA_CERT'', chDQ, '' | sed '', chSQ, ''s/^/    /'', chSQ,
     '')'', chNL, ''auth:'', chNL, ''  token: '', chDQ, ''$NODE_AGENT_TOKEN'', chDQ, chNL, ''platform:'',
     chNL, ''  name: '', tdPlatformName d, chNL, ''node:'', chNL, ''  provider: '', tdProvider d, chNL,
     ''  region: '', tdRegion d, chNL, ''  name: '', chDQ, ''$INSTANCE_NAME'', chDQ, chNL,
     ''  privateIP: '', chDQ, ''$PRIVATE_IP'', chDQ, chNL, ''  instanceID: '', chDQ, ''$INSTANCE_ID'', chDQ,
     chNL, ''  instanceType: '', tdInstanceType d, chNL, ''capacity:'', chNL, ''  total:'', chNL,
     ''    cpuMilli: '', itoa (tdCPUMilli d), chNL, ''    memoryMi: '', itoa (tdMemoryMi d), chNL,
     ''network:'', chNL, ''  workloadProxy:'', chNL, ''    endpoint: '', tdWorkloadProxyEndpoint d, chNL,
     ''    noProxy:'', chNL, concat (map (\<lambda>i. ''      - '' @ i @ chNL) (tdNoProxyItems d)),
     ''observability:'', chNL, ''  workloadOTLPEndpoint: '', tdWorkloadOTLPEndpoint d, chNL,
     ''EOF_NODE_AGENT_CONFIG'', chNL]"

definition scriptService :: "template_data \<Rightarrow> string" where
  "scriptService d = concat [
     ''chmod 0600 '', chDQ, ''$INSTALL_ROOT/node-agent.yaml'', chDQ, chNL, chNL, ''cat >'', chDQ,
     ''$INSTALL_ROOT/bin/start-agent.sh'', chDQ, '' <<EOF_AGENT_START'', chNL, ''#!/usr/bin/env bash'',
     chNL, ''set -euo pipefail'', chNL, ''exec '', tdNodeAgentBinaryPath d, '' --config '',
     tdNodeAgentConfigPath d, chNL, ''EOF_AGENT_START'', chNL, ''chmod 0755 '', chDQ,
     ''$INSTALL_ROOT/bin/start-agent.sh'', chDQ, chNL, chNL,
     ''cat >/etc/systemd/system/mini-cloud-node-agent.service <<EOF_SYSTEMD'', chNL, ''[Unit]'', chNL,
     ''Description=mini-cloud node agent'', chNL, ''After=network-online.target docker.service'', chNL,
     ''Wants=network-online.target docker.service'', chNL, chNL, ''[Service]'', chNL, ''Type=simple'', chNL,
     ''ExecStart=/opt/mini-cloud/bin/start-agent.sh'', chNL, ''Restart=always'', chNL, ''RestartSec=5'',
     chNL, chNL, ''[Install]'', chNL, ''WantedBy=multi-user.target'', chNL, ''EOF_SYSTEMD'', chNL, chNL,
     ''systemctl daemon-reload'', chNL, ''systemctl enable --now mini-cloud-node-agent.service'', chNL,
     ''log '', chSQ, ''node agent bootstrap completed'', chSQ, chNL]"

definition renderScript :: "template_data \<Rightarrow> string" where
  "renderScript d = scriptVariables d @ scriptSetup d @ scriptAgentConfig d @ scriptService d"

definition RenderBase64 :: "bootstrap_config \<Rightarrow> string" where
  "RenderBase64 cfg = base64Std (renderScript (bootstrapData cfg))"

section \<open>How the script is read\<close>

text \<open>
  The rest of a double-quoted word of bash: a backslash keeps its special meaning only before a
  dollar sign, a backquote, a double quote, a backslash or a newline; an unescaped dollar sign or
  backquote starts an expansion (None), and a double quote ends the word.
\<close>

fun bashQuoted :: "string \<Rightarrow> (string \<times> string) option" where
  "bashQuoted [] = None"
| "bashQuoted (c # s) =
     (if c = CHR 0x22 then Some ([], s)
      else if c = CHR ''$'' \<or> c = CHR 0x60 then None
      else if c = CHR 0x5C then
        (case s of
           [] \<Rightarrow> None
         | d # s' \<Rightarrow>
             if d \<in> {CHR ''$'', CHR 0x60, CHR 0x22, CHR 0x5C} then map_option (apfst (Cons d)) (bashQuoted s')
             else if d = CHR 0x0A then bashQuoted s'
             else map_option (apfst (Cons c)) (bashQuoted s))
      else map_option (apfst (Cons c)) (bashQuoted s))"

text \<open>The assignments NAME="word" on the first lines of a text, up to the first other line.\<close>

definition isNameChar :: "char \<Rightarrow> bool" where
  "isNameChar c \<longleftrightarrow> (CHR ''A'' \<le> c \<and> c \<le> CHR ''Z'') \<or> (CHR ''0'' \<le> c \<and> c \<le> CHR ''9'') \<or> c = CHR ''_''"

fun bashAssignments :: "nat \<Rightarrow> string \<Rightarrow> (string \<times> string) list" where
  "bashAssignments 0 s = []"
| "bashAssignments (Suc n) s =
     (let name = takeWhile isNameChar s; r = drop (length name) s in
      if name = [] \<or> \<not> hasPrefix r ([CHR ''=''] @ chDQ) then []
      else (case bashQuoted (drop 2 r) of
              Some (v, c # rest) \<Rightarrow> if c = CHR 0x0A then (name, v) # bashAssignments n rest else []
            | _ \<Rightarrow> []))"

fun skipLines :: "nat \<Rightarrow> string \<Rightarrow> string" where
  "skipLines 0 s = s"
| "skipLines (Suc n) s = skipLines n (drop 1 (dropWhile (\<lambda>c. c \<noteq> CHR 0x0A) s))"

text \<open>The variables set at the head of the script, after its first three lines.\<close>

definition scriptAssignments :: "string \<Rightarrow> (string \<times> string) list" where
  "scriptAssignments script = bashAssignments (length script) (skipLines 3 script)"

text \<open>What bash reads of a quoted value: control characters come back as two characters.\<close>

definition asRead :: "string \<Rightarrow> string" where
  "asRead v = concat (map (\<lambda>c. if c = CHR 0x0A then chBS @ ''n'' else if c = CHR 0x0D then chBS @ ''r''
     else if c = CHR 0x09 then chBS @ ''t'' else [c]) v)"

lemma asRead_plain: "list_all (\<lambda>c. c \<notin> {CHR 0x0A, CHR 0x0D, CHR 0x09}) v \<Longrightarrow> asRead v = v"
  by (induction v) (auto simp: asRead_def)

lemma bashQuoted_shellQuote:
  "bashQuoted (concat (map shellChar v) @ [CHR 0x22] @ rest) = Some (asRead v, rest)"
  by (induction v) (auto simp: asRead_def shellChar_def apfst_def map_prod_def)

lemma bashAssignments_line:
  assumes "list_all isNameChar name" and "name \<noteq> []"
  shows "bashAssignments (Suc n) (name @ [CHR ''=''] @ shellQuote v @ [CHR 0x0A] @ rest)
    = (name, asRead v) # bashAssignments n rest"
proof -
  have "takeWhile isNameChar (name @ [CHR ''=''] @ shellQuote v @ [CHR 0x0A] @ rest) = name"
    using assms(1) by (simp add: takeWhile_append list_all_iff isNameChar_def)
  moreover have "shellQuote v @ [CHR 0x0A] @ rest
      = CHR 0x22 # (concat (map shellChar v) @ [CHR 0x22] @ (CHR 0x0A # rest))"
    by (simp add: shellQuote_def)
  ultimately show ?thesis
    using assms(2) bashQuoted_shellQuote [of v "CHR 0x0A # rest"]
    by (simp add: hasPrefix_def)
qed

end
