(* ===== verification/NodeDriver.thy ===== *)
theory NodeDriver
  imports NodeReconciler
begin

text \<open>
  internal/cloudplane/infra/nodeprovider: what the drivers of the two providers share.  The struct of
  an instance type's capacity, declared alike in both, the conversions between int and float64, and
  the contract of the interface Driver as a locale.
\<close>

record instance_capacity =
  icInstanceType :: string
  icCPUMilli :: int
  icMemoryMi :: int

section \<open>Floating point\<close>

text \<open>
  float64 of an int64: exact below 2^53, otherwise rounded to 53 bits, ties to even; and the
  conversion of an integral float64 back to int, which gives the least int64 out of range (amd64).
\<close>

definition float64OfInt :: "int \<Rightarrow> int" where
  "float64OfInt n =
     (let a = \<bar>n\<bar>; k = length (filter (\<lambda>k. 2 ^ (53 + k) \<le> a) [0..<11]); q = a div 2 ^ k; r = a mod 2 ^ k;
          up = (k \<noteq> 0 \<and> (2 ^ k < 2 * r \<or> (2 * r = 2 ^ k \<and> q mod 2 = 1)));
          m = (if up then q + 1 else q) * 2 ^ k
      in if n < 0 then - m else m)"

definition intOfFloat64 :: "int \<Rightarrow> int" where
  "intOfFloat64 x = (if - (2 ^ 63) \<le> x \<and> x < 2 ^ 63 then x else - (2 ^ 63))"

lemma float64OfInt_small:
  assumes "0 \<le> n" and "n < 2 ^ 53"
  shows "float64OfInt n = n"
proof -
  have "\<not> 2 ^ (53 + k) \<le> n" for k :: nat
  proof -
    have "(2::int) ^ 53 \<le> 2 ^ (53 + k)" by (rule power_increasing) simp_all
    then show ?thesis using assms(2) by linarith
  qed
  then have "filter (\<lambda>k. 2 ^ (53 + k) \<le> \<bar>n\<bar>) [0..<11] = []"
    using assms(1) by (simp add: filter_empty_conv)
  then show ?thesis using assms(1) by (simp add: float64OfInt_def)
qed

text \<open>
  A finite float32, as mantissa and exponent, and math.Round of 1024 times it: halves away from zero.
  The product is exact in float64.
\<close>

record float32 =
  f32Mantissa :: int
  f32Exponent :: int

definition roundGiB :: "float32 \<Rightarrow> int" where
  "roundGiB f =
     (let e = f32Exponent f + 10; m = \<bar>f32Mantissa f\<bar>;
          r = (if 0 \<le> e then m * 2 ^ nat e else (2 * m + 2 ^ nat (- e)) div (2 * 2 ^ nat (- e)))
      in if f32Mantissa f < 0 then - r else r)"

lemma roundGiB_examples:
  "roundGiB \<lparr>f32Mantissa = 4, f32Exponent = 0\<rparr> = 4096"
  "roundGiB \<lparr>f32Mantissa = 1, f32Exponent = - 1\<rparr> = 512"
  "roundGiB \<lparr>f32Mantissa = 3, f32Exponent = - 11\<rparr> = 2"
  by code_simp+

section \<open>The contract of a driver\<close>

text \<open>
  What the node reconciler relies on, for a driver whose n-th calls are create n and delete n: an
  instance that was created carries the name of the request and the configured type, and no instance
  without an id is deleted.
\<close>

locale node_driver =
  fixes create :: "nat \<Rightarrow> create_request \<Rightarrow> create_result res"
    and delete :: "nat \<Rightarrow> string \<Rightarrow> unit res"
    and itype :: string
  assumes created: "create n rq = Inr r \<Longrightarrow>
      crInstanceName r = trimSpace (crName rq) \<and> crInstanceType r = itype
      \<and> nonBlank (crName rq) \<and> nonBlank (crClientToken rq) \<and> 0 < crCPUMilli rq \<and> 0 < crMemoryMi rq"
    and deleted: "delete n inst = Inr u \<Longrightarrow> nonBlank inst"

end
