(* ===== verification/TencentDriver.thy ===== *)
theory TencentDriver
  imports CloudConfig Bootstrap NodeDriver
begin

text \<open>
  internal/cloudplane/infra/nodeprovider/cloud/tencent/driver.go: instances of Tencent Cloud.  The
  client of the SDK is a parameter, and so is what ctx.Err() answers when it is read.  An operation
  returns its result and the calls it made.
\<close>

section \<open>The SDK\<close>

record cvm_type_config =
  tyInstanceType :: "string option"
  tyCPU :: "int option"
  tyMemory :: "int option"

record cvm_run_request =
  rrInstanceChargeType :: string
  rrImageId :: string
  rrInstanceType :: string
  rrInstanceCount :: int
  rrInstanceName :: string
  rrHostName :: string
  rrClientToken :: string
  rrSecurityGroupIds :: "string list"
  rrUserData :: string
  rrDiskType :: string
  rrDiskSize :: int
  rrVpcId :: string
  rrSubnetId :: string
  rrPublicIpAssigned :: bool
  rrInternetMaxBandwidthOut :: int
  rrSecurityService :: bool
  rrMonitorService :: bool
  rrTags :: "(string \<times> string) list"
  rrPlacementZone :: "string option"
  rrLoginKeyIds :: "string list option"

datatype cvm_call =
    DescribeInstanceTypeConfigs "(string \<times> string list) list"
  | RunInstances cvm_run_request
  | TerminateInstances "string list"

text \<open>
  The client: a response that is nil or has no body is None, a nil element of a list too.  The last
  two are the message and the request id of an SDK error.
\<close>

record cvm_client =
  cvCtxErr :: "nat \<Rightarrow> goerr option"
  cvDescribe :: "(string \<times> string list) list \<Rightarrow> cvm_type_config option list option res"
  cvRun :: "cvm_run_request \<Rightarrow> string option list option res"
  cvTerminate :: "string list \<Rightarrow> unit option res"
  cvMessage :: "goerr \<Rightarrow> string"
  cvRequestId :: "goerr \<Rightarrow> string"

section \<open>Helpers\<close>

definition tencentName :: string where "tencentName = ''tencent''"

definition tencentNodeNoProxy :: "string list" where
  "tencentNodeNoProxy = [''127.0.0.1'', ''localhost'', ''10.0.0.0/8'', ''172.16.0.0/12'', ''192.168.0.0/16'',
     ''169.254.169.254'', ''metadata.tencentyun.com'']"

definition buildNodeHostName :: "string \<Rightarrow> string" where
  "buildNodeHostName instanceName =
     (let cut = trimBoth (\<lambda>c. c = CHR ''.'' \<or> c = CHR ''-'');
          h1 = cut (trimSpace instanceName);
          hostName = (if 60 < length h1 then cut (take 60 h1) else h1)
      in if length hostName < 2 then ''mini-cloud-node'' else hostName)"

definition buildTencentRunInstanceTags :: "string \<Rightarrow> (string \<times> string) list" where
  "buildTencentRunInstanceTags platformName =
     (''managed-by'', ''mini-cloud'') #
     (if trimSpace platformName \<noteq> [] then [(''mini-cloud/platform'', trimSpace platformName)] else [])"

definition formatTencentSDKError :: "cvm_client \<Rightarrow> goerr \<Rightarrow> string" where
  "formatTencentSDKError api err =
     (case sdkCode err of
        Some code \<Rightarrow> ''sdk code='' @ code @ '' message='' @ cvMessage api err @ '' request_id='' @ cvRequestId api err
      | None \<Rightarrow> errText err)"

definition tencentSdkErrorCode :: "goerr \<Rightarrow> string" where
  "tencentSdkErrorCode err = (case sdkCode err of None \<Rightarrow> [] | Some code \<Rightarrow> code)"

definition isTencentNodeNotFound :: "goerr \<Rightarrow> bool" where
  "isTencentNodeNotFound err \<longleftrightarrow>
     (let code = toLower (trimSpace (tencentSdkErrorCode err)); message = toLower (errText err) in
      containsStr code ''invalidinstanceid.notfound'' \<or> containsStr code ''resource.notfound''
      \<or> containsStr message ''not found'')"

definition tencentStringPointers :: "string list \<Rightarrow> string list" where
  "tencentStringPointers vs = filter (\<lambda>v. v \<noteq> []) (map trimSpace vs)"

section \<open>The driver\<close>

record tencent_config =
  tgCloudPlane :: cloud_config
  tgProvider :: tencent_node_config

record tencent_driver =
  tvClient :: "cvm_client option"
  tvConfig :: tencent_config

definition tencentSpecDefaults :: "tencent_node_config \<Rightarrow> tencent_node_config" where
  "tencentSpecDefaults spec = spec\<lparr>
     tnSystemDiskType := (if tnSystemDiskType spec = [] then ''CLOUD_PREMIUM'' else tnSystemDiskType spec),
     tnSystemDiskSizeGiB := (if tnSystemDiskSizeGiB spec = 0 then 50 else tnSystemDiskSizeGiB spec)\<rparr>"

definition newTencentConfig :: "cloud_config \<Rightarrow> tencent_config res" where
  "newTencentConfig cfg =
     (let spec = tencentSpecDefaults (ccTencent cfg) in
      if \<not> equalFold (trimSpace (ccProvider cfg)) tencentName then
        Inl (Errorf (''cloud provider '' @ goQuote (ccProvider cfg) @ '' does not match '' @ goQuote tencentName))
      else if \<not> nonBlank (ccAgentToken cfg) then
        Inl (Errorf ''nodeAgent.token is required for tencent node provider driver'')
      else if \<not> nonBlank (ccInstanceType cfg) then
        Inl (Errorf ''nodeProvisioning.instanceType is required for tencent node provider driver'')
      else if \<not> nonBlank (tnImageID spec) then Inl (Errorf ''nodeProvisioning.tencent.imageId is required'')
      else if \<not> nonBlank (tnVPCID spec) then Inl (Errorf ''nodeProvisioning.tencent.vpcId is required'')
      else if \<not> nonBlank (tnSubnetID spec) then Inl (Errorf ''nodeProvisioning.tencent.subnetId is required'')
      else if tnSecurityGroupIDs spec = [] then Inl (Errorf ''nodeProvisioning.tencent.securityGroupIds is required'')
      else if tnSystemDiskSizeGiB spec \<le> 0 then
        Inl (Errorf ''nodeProvisioning.tencent.systemDiskSizeGiB must be greater than 0'')
      else Inr \<lparr>tgCloudPlane = cfg, tgProvider = spec\<rparr>)"

text \<open>The constructor of the SDK: the credential (id, key, token) and the region.\<close>

type_synonym cvm_constructor = "string \<times> string \<times> string \<Rightarrow> string \<Rightarrow> cvm_client res"

definition newCVMClient :: "cvm_constructor \<Rightarrow> string \<Rightarrow> config_credential \<Rightarrow> cvm_client res" where
  "newCVMClient construct regionID c =
     (let secretID = trimSpace (tcdSecretID c); secretKey = trimSpace (tcdSecretKey c) in
      if secretID = [] \<or> secretKey = [] then
        Inl (Errorf ''infrastructure.tencentCredential.secretId and secretKey are required'')
      else (case construct (secretID, secretKey, trimSpace (tcdToken c)) regionID of
              Inl err \<Rightarrow> Inl (wrap ''create tencent cvm client'' err)
            | Inr client \<Rightarrow> Inr client))"

definition NewTencentDriver :: "cvm_constructor \<Rightarrow> cloud_config \<Rightarrow> tencent_driver res" where
  "NewTencentDriver construct cfg =
     bindR (newTencentConfig cfg) (\<lambda>typed.
       bindR (newCVMClient construct (ccRegionID (tgCloudPlane typed)) (ccTencentCredential (tgCloudPlane typed)))
         (\<lambda>client. Inr \<lparr>tvClient = Some client, tvConfig = typed\<rparr>))"

definition tencentMetadataGetFunction :: string where
  "tencentMetadataGetFunction = concat [''metadata_get() {'', chNL, ''  local path='', chDQ, ''$1'', chDQ, chNL,
     ''  curl -fsS '', chDQ, ''$METADATA_BASE/$path'', chDQ, chNL, ''}'']"

definition tencentBootstrap :: "tencent_config \<Rightarrow> string \<Rightarrow> instance_capacity \<Rightarrow> bootstrap_config" where
  "tencentBootstrap cfg instanceName capacity =
     (let c = tgCloudPlane cfg in \<lparr>
        bcAgentBinaryURL = ccAgentBinaryURL c, bcCACert = tfCACert (ccTLS c), bcToken = ccAgentToken c,
        bcConnectEndpoint = ccConnectEndpoint c, bcDockerRegistryMirrors = ccRegistryMirrors c,
        bcInstanceName = instanceName, bcInstanceType = icInstanceType capacity,
        bcMetadataBase = ''http://metadata.tencentyun.com/latest/meta-data'',
        bcMetadataGetFunction = tencentMetadataGetFunction, bcMetadataInit = [],
        bcMetadataInstanceIDPath = ''instance-id'', bcMetadataPrivateIPPath = ''local-ipv4'',
        bcNoProxyItems = tencentNodeNoProxy, bcPlatformName = ccPlaneName c, bcProvider = ccProvider c,
        bcRegion = ccRegionID c, bcWorkloadProxyEndpoint = ccWorkloadProxyEndpoint c,
        bcWorkloadOTLPEndpoint = ccOTLPEndpoint c, bcCPUMilli = icCPUMilli capacity,
        bcMemoryMi = icMemoryMi capacity\<rparr>)"

definition tencentTypeFilters :: "tencent_config \<Rightarrow> (string \<times> string list) list" where
  "tencentTypeFilters cfg =
     (let zoneID = trimSpace (ccZoneID (tgCloudPlane cfg)) in
      (''instance-type'', [ccInstanceType (tgCloudPlane cfg)]) # (if zoneID \<noteq> [] then [(''zone'', [zoneID])] else []))"

definition tencentCapacityOf :: "tencent_config \<Rightarrow> cvm_type_config option list option \<Rightarrow> instance_capacity res" where
  "tencentCapacityOf cfg response =
     (let missing = Inl (Errorf (''DescribeInstanceTypeConfigs did not return configured instance type ''
            @ goQuote (ccInstanceType (tgCloudPlane cfg))))
      in case response of
           Some (Some item # _) \<Rightarrow>
             (case tyInstanceType item of
                None \<Rightarrow> missing
              | Some ity \<Rightarrow>
                  (let cpu = (case tyCPU item of None \<Rightarrow> 0 | Some v \<Rightarrow> v);
                       memoryGiB = (case tyMemory item of None \<Rightarrow> 0 | Some v \<Rightarrow> v);
                       cpuMilli = goInt64 (cpu * 1000); memoryMi = intOfFloat64 (float64OfInt memoryGiB * 1024)
                   in if cpuMilli \<le> 0 \<or> memoryMi \<le> 0 then
                        Inl (Errorf (''DescribeInstanceTypeConfigs returned invalid capacity for ''
                          @ goQuote (ccInstanceType (tgCloudPlane cfg))))
                      else Inr \<lparr>icInstanceType = trimSpace ity, icCPUMilli = cpuMilli, icMemoryMi = memoryMi\<rparr>))
         | _ \<Rightarrow> missing)"

text \<open>The context is read a second time, after the reading of Create.\<close>

definition tencentLookupCapacity ::
  "cvm_client \<Rightarrow> tencent_config \<Rightarrow> instance_capacity res \<times> cvm_call list" where
  "tencentLookupCapacity api cfg =
     (case cvCtxErr api 1 of
        Some err \<Rightarrow> (Inl err, [])
      | None \<Rightarrow>
          ((case cvDescribe api (tencentTypeFilters cfg) of
              Inl err \<Rightarrow> Inl (Errorf (''DescribeInstanceTypeConfigs failed: '' @ formatTencentSDKError api err))
            | Inr response \<Rightarrow> tencentCapacityOf cfg response),
           [DescribeInstanceTypeConfigs (tencentTypeFilters cfg)]))"

definition tencentRunRequest ::
  "tencent_config \<Rightarrow> string \<Rightarrow> string \<Rightarrow> instance_capacity \<Rightarrow> cvm_run_request" where
  "tencentRunRequest cfg instanceName clientToken capacity =
     (let c = tgCloudPlane cfg; s = tgProvider cfg; zoneID = trimSpace (ccZoneID c) in
      \<lparr>rrInstanceChargeType = ''POSTPAID_BY_HOUR'', rrImageId = tnImageID s, rrInstanceType = ccInstanceType c,
       rrInstanceCount = 1, rrInstanceName = instanceName, rrHostName = buildNodeHostName instanceName,
       rrClientToken = clientToken, rrSecurityGroupIds = tencentStringPointers (tnSecurityGroupIDs s),
       rrUserData = RenderBase64 (tencentBootstrap cfg instanceName capacity),
       rrDiskType = tnSystemDiskType s, rrDiskSize = tnSystemDiskSizeGiB s, rrVpcId = tnVPCID s,
       rrSubnetId = tnSubnetID s, rrPublicIpAssigned = False, rrInternetMaxBandwidthOut = 0,
       rrSecurityService = True, rrMonitorService = True, rrTags = buildTencentRunInstanceTags (ccPlaneName c),
       rrPlacementZone = (if zoneID \<noteq> [] then Some zoneID else None),
       rrLoginKeyIds = (if tnKeyIDs s \<noteq> [] then Some (tencentStringPointers (tnKeyIDs s)) else None)\<rparr>)"

definition tencentCreate ::
  "tencent_driver option \<Rightarrow> create_request \<Rightarrow> create_result res \<times> cvm_call list" where
  "tencentCreate p request =
     (let notReady = (Inl (Errorf ''tencent node provider driver is not initialized''), []);
          instanceName = trimSpace (crName request); clientToken = trimSpace (crClientToken request)
      in case p of None \<Rightarrow> notReady | Some d \<Rightarrow> (case tvClient d of None \<Rightarrow> notReady | Some api \<Rightarrow>
           (case cvCtxErr api 0 of
              Some err \<Rightarrow> (Inl err, [])
            | None \<Rightarrow>
                if instanceName = [] then (Inl (Errorf ''node name is required''), [])
                else if clientToken = [] then (Inl (Errorf ''node clientToken is required''), [])
                else if crCPUMilli request \<le> 0 then (Inl (Errorf ''node cpuMilli must be greater than 0''), [])
                else if crMemoryMi request \<le> 0 then (Inl (Errorf ''node memoryMi must be greater than 0''), [])
                else (case tencentLookupCapacity api (tvConfig d) of
                        (Inl err, calls) \<Rightarrow> (Inl err, calls)
                      | (Inr capacity, calls) \<Rightarrow>
                          if icCPUMilli capacity < crCPUMilli request \<or> icMemoryMi capacity < crMemoryMi request then
                            (Inl (Errorf (''configured instance type '' @ icInstanceType capacity @ '' only has ''
                               @ itoa (icCPUMilli capacity) @ ''m cpu / '' @ itoa (icMemoryMi capacity)
                               @ ''Mi memory, which cannot satisfy request '' @ itoa (crCPUMilli request) @ ''m / ''
                               @ itoa (crMemoryMi request) @ ''Mi'')), calls)
                          else
                            (let run = tencentRunRequest (tvConfig d) instanceName clientToken capacity in
                             ((case cvRun api run of
                                 Inl err \<Rightarrow> Inl (Errorf (''RunInstances failed: '' @ formatTencentSDKError api err))
                               | Inr (Some (Some inst # _)) \<Rightarrow>
                                   Inr \<lparr>crInstanceID = inst, crInstanceName = instanceName,
                                        crInstanceType = ccInstanceType (tgCloudPlane (tvConfig d))\<rparr>
                               | Inr _ \<Rightarrow> Inl (Errorf ''RunInstances returned no instance id'')),
                              calls @ [RunInstances run]))))))"

definition tencentDelete :: "tencent_driver option \<Rightarrow> string \<Rightarrow> unit res \<times> cvm_call list" where
  "tencentDelete p inst =
     (let notReady = (Inl (Errorf ''tencent node provider driver is not initialized''), []); instanceID = trimSpace inst
      in case p of None \<Rightarrow> notReady | Some d \<Rightarrow> (case tvClient d of None \<Rightarrow> notReady | Some api \<Rightarrow>
           if instanceID = [] then (Inl (Errorf ''node instanceID is required''), [])
           else (case cvCtxErr api 0 of
                   Some err \<Rightarrow> (Inl err, [])
                 | None \<Rightarrow>
                     ((case cvTerminate api [instanceID] of
                         Inl err \<Rightarrow> if isTencentNodeNotFound err then Inr ()
                                    else Inl (Errorf (''TerminateInstances failed: '' @ formatTencentSDKError api err))
                       | Inr None \<Rightarrow> Inl (Errorf ''TerminateInstances returned empty response'')
                       | Inr (Some _) \<Rightarrow> Inr ()),
                      [TerminateInstances [instanceID]]))))"

end
