(* ===== verification/AliyunDriver.thy ===== *)
theory AliyunDriver
  imports CloudConfig Bootstrap NodeDriver
begin

text \<open>
  internal/cloudplane/infra/nodeprovider/cloud/aliyun/driver.go: instances of Alibaba Cloud.  The
  client of the SDK and the credentials are parameters, and so is what ctx.Err() answers when it is
  read.  An operation returns its result and the calls it made.
\<close>

section \<open>The SDK\<close>

record ecs_type =
  etInstanceTypeId :: "string option"
  etCpuCoreCount :: "int option"
  etMemorySize :: "float32 option"

record ecs_run_request =
  erRegionId :: string
  erInstanceChargeType :: string
  erAutoPay :: bool
  erImageId :: string
  erInstanceType :: string
  erAmount :: int
  erClientToken :: string
  erInstanceName :: string
  erDescription :: string
  erHostName :: string
  erSecurityGroupId :: string
  erVSwitchId :: string
  erUserData :: string
  erInternetMaxBandwidthOut :: int
  erDiskCategory :: string
  erDiskSize :: string
  erTags :: "(string \<times> string) list"
  erZoneId :: "string option"
  erKeyPairName :: "string option"

record ecs_delete_request =
  edRegionId :: string
  edInstanceId :: "string list"
  edForce :: bool
  edForceStop :: bool

datatype ecs_call =
    DescribeInstanceTypes "string list" int
  | EcsRunInstances ecs_run_request
  | DeleteInstances ecs_delete_request

text \<open>
  The client: a response without the nested lists is None, a nil element of a list too.  The last two
  are the message and the data of an SDK error, the latter as %v prints it.
\<close>

record ecs_client =
  ecCtxErr :: "nat \<Rightarrow> goerr option"
  ecDescribe :: "string list \<Rightarrow> int \<Rightarrow> ecs_type option list option res"
  ecRun :: "ecs_run_request \<Rightarrow> string option list option res"
  ecDelete :: "ecs_delete_request \<Rightarrow> unit res"
  ecMessage :: "goerr \<Rightarrow> string"
  ecData :: "goerr \<Rightarrow> string"

section \<open>Helpers\<close>

definition aliyunName :: string where "aliyunName = ''aliyun''"

definition aliyunNodeNoProxy :: "string list" where
  "aliyunNodeNoProxy = [''127.0.0.1'', ''localhost'', ''10.0.0.0/8'', ''172.16.0.0/12'', ''192.168.0.0/16'',
     ''169.254.169.254'', ''100.100.100.200'']"

definition resolveECSEndpoint :: "string \<Rightarrow> string" where
  "resolveECSEndpoint regionID = ''ecs.'' @ regionID @ ''.aliyuncs.com''"

definition buildAliyunRunInstanceTags :: "string \<Rightarrow> (string \<times> string) list" where
  "buildAliyunRunInstanceTags platformName =
     (''managed-by'', ''mini-cloud'') #
     (if trimSpace platformName \<noteq> [] then [(''mini-cloud/platform'', trimSpace platformName)] else [])"

definition formatAliyunSDKError :: "ecs_client \<Rightarrow> goerr \<Rightarrow> string" where
  "formatAliyunSDKError api err =
     (case sdkCode err of
        Some code \<Rightarrow> ''sdk code='' @ code @ '' message='' @ ecMessage api err @ '' data='' @ ecData api err
      | None \<Rightarrow> errText err)"

definition aliyunSdkErrorCode :: "goerr \<Rightarrow> string" where
  "aliyunSdkErrorCode err = (case sdkCode err of None \<Rightarrow> [] | Some code \<Rightarrow> code)"

definition isAliyunNodeNotFound :: "goerr \<Rightarrow> bool" where
  "isAliyunNodeNotFound err \<longleftrightarrow>
     (let code = toLower (aliyunSdkErrorCode err); message = toLower (errText err) in
      containsStr code ''notfound'' \<or> containsStr code ''invalidinstanceid.notfound''
      \<or> containsStr message ''not found after write'')"

section \<open>The driver\<close>

record aliyun_config =
  agCloudPlane :: cloud_config
  agProvider :: aliyun_node_config

record aliyun_driver =
  avClient :: "ecs_client option"
  avConfig :: aliyun_config

definition aliyunSpecDefaults :: "aliyun_node_config \<Rightarrow> aliyun_node_config" where
  "aliyunSpecDefaults spec = spec\<lparr>
     alSystemDiskCategory := (if alSystemDiskCategory spec = [] then ''cloud_essd'' else alSystemDiskCategory spec),
     alSystemDiskSizeGiB := (if alSystemDiskSizeGiB spec = 0 then 40 else alSystemDiskSizeGiB spec)\<rparr>"

definition newAliyunConfig :: "cloud_config \<Rightarrow> aliyun_config res" where
  "newAliyunConfig cfg =
     (let spec = aliyunSpecDefaults (ccAliyun cfg) in
      if \<not> equalFold (trimSpace (ccProvider cfg)) aliyunName then
        Inl (Errorf (''cloud provider '' @ goQuote (ccProvider cfg) @ '' does not match '' @ goQuote aliyunName))
      else if \<not> nonBlank (ccAgentToken cfg) then
        Inl (Errorf ''nodeAgent.token is required for aliyun node provider driver'')
      else if \<not> nonBlank (ccInstanceType cfg) then
        Inl (Errorf ''nodeProvisioning.instanceType is required for aliyun node provider driver'')
      else if \<not> nonBlank (alImageID spec) then Inl (Errorf ''nodeProvisioning.aliyun.imageId is required'')
      else if \<not> nonBlank (alVSwitchID spec) then Inl (Errorf ''nodeProvisioning.aliyun.vSwitchId is required'')
      else if \<not> nonBlank (alSecurityGroupID spec) then
        Inl (Errorf ''nodeProvisioning.aliyun.securityGroupId is required'')
      else if alSystemDiskSizeGiB spec \<le> 0 then
        Inl (Errorf ''nodeProvisioning.aliyun.systemDiskSizeGiB must be greater than 0'')
      else Inr \<lparr>agCloudPlane = cfg, agProvider = spec\<rparr>)"

text \<open>The credential of the environment and the constructor of the SDK with the endpoint.\<close>

record 'c ecs_sdk =
  esCredential :: "'c res"
  esNewClient :: "string \<Rightarrow> 'c \<Rightarrow> ecs_client res"

definition newECSClient :: "'c ecs_sdk \<Rightarrow> string \<Rightarrow> ecs_client res" where
  "newECSClient sdk regionID =
     (case esCredential sdk of
        Inl err \<Rightarrow> Inl (wrap ''create aliyun credential'' err)
      | Inr credential \<Rightarrow>
          (case esNewClient sdk (resolveECSEndpoint regionID) credential of
             Inl err \<Rightarrow> Inl (wrap ''create ecs client'' err)
           | Inr client \<Rightarrow> Inr client))"

definition NewAliyunDriver :: "'c ecs_sdk \<Rightarrow> cloud_config \<Rightarrow> aliyun_driver res" where
  "NewAliyunDriver sdk cfg =
     bindR (newAliyunConfig cfg) (\<lambda>typed.
       bindR (newECSClient sdk (ccRegionID (agCloudPlane typed))) (\<lambda>client.
         Inr \<lparr>avClient = Some client, avConfig = typed\<rparr>))"

definition aliyunMetadataGetFunction :: string where
  "aliyunMetadataGetFunction = concat [''metadata_token() {'', chNL,
     ''  curl -fsS -X PUT '', chDQ, ''$METADATA_BASE/api/token'', chDQ, '' -H '', chSQ,
     ''X-aliyun-ecs-metadata-token-ttl-seconds: 21600'', chSQ, chNL, ''}'', chNL, chNL,
     ''metadata_get() {'', chNL, ''  local path='', chDQ, ''$1'', chDQ, chNL,
     ''  if [[ -n '', chDQ, ''${METADATA_TOKEN:-}'', chDQ, '' ]]; then'', chNL,
     ''    curl -fsS -H '', chDQ, ''X-aliyun-ecs-metadata-token: $METADATA_TOKEN'', chDQ, '' '', chDQ,
     ''$METADATA_BASE/meta-data/$path'', chDQ, chNL, ''    return'', chNL, ''  fi'', chNL,
     ''  curl -fsS '', chDQ, ''$METADATA_BASE/meta-data/$path'', chDQ, chNL, ''}'']"

definition aliyunBootstrap :: "aliyun_config \<Rightarrow> string \<Rightarrow> instance_capacity \<Rightarrow> bootstrap_config" where
  "aliyunBootstrap cfg instanceName capacity =
     (let c = agCloudPlane cfg in \<lparr>
        bcAgentBinaryURL = ccAgentBinaryURL c, bcCACert = tfCACert (ccTLS c), bcToken = ccAgentToken c,
        bcConnectEndpoint = ccConnectEndpoint c, bcDockerRegistryMirrors = ccRegistryMirrors c,
        bcInstanceName = instanceName, bcInstanceType = icInstanceType capacity,
        bcMetadataBase = ''http://100.100.100.200/latest'',
        bcMetadataGetFunction = aliyunMetadataGetFunction,
        bcMetadataInit = concat [''METADATA_TOKEN='', chDQ, ''$(metadata_token || true)'', chDQ],
        bcMetadataInstanceIDPath = ''instance-id'', bcMetadataPrivateIPPath = ''private-ipv4'',
        bcNoProxyItems = aliyunNodeNoProxy, bcPlatformName = ccPlaneName c, bcProvider = ccProvider c,
        bcRegion = ccRegionID c, bcWorkloadProxyEndpoint = ccWorkloadProxyEndpoint c,
        bcWorkloadOTLPEndpoint = ccOTLPEndpoint c, bcCPUMilli = icCPUMilli capacity,
        bcMemoryMi = icMemoryMi capacity\<rparr>)"

definition aliyunCapacityOf :: "aliyun_config \<Rightarrow> ecs_type option list option \<Rightarrow> instance_capacity res" where
  "aliyunCapacityOf cfg response =
     (case response of
        Some (Some item # _) \<Rightarrow>
          (let cpuMilli = goInt64 ((case etCpuCoreCount item of None \<Rightarrow> 0 | Some v \<Rightarrow> v) * 1000);
               memoryMi = (case etMemorySize item of None \<Rightarrow> 0 | Some v \<Rightarrow> intOfFloat64 (roundGiB v))
           in if cpuMilli \<le> 0 \<or> memoryMi \<le> 0 then
                Inl (Errorf (''DescribeInstanceTypes returned invalid capacity for ''
                  @ goQuote (ccInstanceType (agCloudPlane cfg))))
              else Inr \<lparr>icInstanceType = (case etInstanceTypeId item of None \<Rightarrow> [] | Some v \<Rightarrow> v),
                        icCPUMilli = cpuMilli, icMemoryMi = memoryMi\<rparr>)
      | _ \<Rightarrow> Inl (Errorf (''DescribeInstanceTypes did not return configured instance type ''
               @ goQuote (ccInstanceType (agCloudPlane cfg)))))"

text \<open>The context is read a second time, after the reading of Create.\<close>

definition aliyunLookupCapacity ::
  "ecs_client \<Rightarrow> aliyun_config \<Rightarrow> instance_capacity res \<times> ecs_call list" where
  "aliyunLookupCapacity api cfg =
     (case ecCtxErr api 1 of
        Some err \<Rightarrow> (Inl err, [])
      | None \<Rightarrow>
          ((case ecDescribe api [ccInstanceType (agCloudPlane cfg)] 1 of
              Inl err \<Rightarrow> Inl (Errorf (''DescribeInstanceTypes failed: '' @ formatAliyunSDKError api err))
            | Inr response \<Rightarrow> aliyunCapacityOf cfg response),
           [DescribeInstanceTypes [ccInstanceType (agCloudPlane cfg)] 1]))"

definition aliyunRunRequest ::
  "aliyun_config \<Rightarrow> string \<Rightarrow> string \<Rightarrow> instance_capacity \<Rightarrow> ecs_run_request" where
  "aliyunRunRequest cfg instanceName clientToken capacity =
     (let c = agCloudPlane cfg; s = agProvider cfg; zoneID = trimSpace (ccZoneID c);
          keyPairName = trimSpace (alKeyPairName s)
      in \<lparr>erRegionId = ccRegionID c, erInstanceChargeType = ''PostPaid'', erAutoPay = True, erImageId = alImageID s,
          erInstanceType = ccInstanceType c, erAmount = 1, erClientToken = clientToken, erInstanceName = instanceName,
          erDescription = ''mini-cloud node'', erHostName = instanceName, erSecurityGroupId = alSecurityGroupID s,
          erVSwitchId = alVSwitchID s, erUserData = RenderBase64 (aliyunBootstrap cfg instanceName capacity),
          erInternetMaxBandwidthOut = 0, erDiskCategory = alSystemDiskCategory s,
          erDiskSize = itoa (alSystemDiskSizeGiB s), erTags = buildAliyunRunInstanceTags (ccPlaneName c),
          erZoneId = (if zoneID \<noteq> [] then Some zoneID else None),
          erKeyPairName = (if keyPairName \<noteq> [] then Some keyPairName else None)\<rparr>)"

definition aliyunCreate ::
  "aliyun_driver option \<Rightarrow> create_request \<Rightarrow> create_result res \<times> ecs_call list" where
  "aliyunCreate p request =
     (let notReady = (Inl (Errorf ''aliyun node provider driver is not initialized''), []);
          instanceName = trimSpace (crName request); clientToken = trimSpace (crClientToken request)
      in case p of None \<Rightarrow> notReady | Some d \<Rightarrow> (case avClient d of None \<Rightarrow> notReady | Some api \<Rightarrow>
           (case ecCtxErr api 0 of
              Some err \<Rightarrow> (Inl err, [])
            | None \<Rightarrow>
                if instanceName = [] then (Inl (Errorf ''node name is required''), [])
                else if clientToken = [] then (Inl (Errorf ''node clientToken is required''), [])
                else if crCPUMilli request \<le> 0 then (Inl (Errorf ''node cpuMilli must be greater than 0''), [])
                else if crMemoryMi request \<le> 0 then (Inl (Errorf ''node memoryMi must be greater than 0''), [])
                else (case aliyunLookupCapacity api (avConfig d) of
                        (Inl err, calls) \<Rightarrow> (Inl err, calls)
                      | (Inr capacity, calls) \<Rightarrow>
                          if icCPUMilli capacity < crCPUMilli request \<or> icMemoryMi capacity < crMemoryMi request then
                            (Inl (Errorf (''configured instance type '' @ icInstanceType capacity @ '' only has ''
                               @ itoa (icCPUMilli capacity) @ ''m cpu / '' @ itoa (icMemoryMi capacity)
                               @ ''Mi memory, which cannot satisfy request '' @ itoa (crCPUMilli request) @ ''m / ''
                               @ itoa (crMemoryMi request) @ ''Mi'')), calls)
                          else
                            (let run = aliyunRunRequest (avConfig d) instanceName clientToken capacity in
                             ((case ecRun api run of
                                 Inl err \<Rightarrow> Inl (Errorf (''RunInstances failed: '' @ formatAliyunSDKError api err))
                               | Inr (Some (Some inst # _)) \<Rightarrow>
                                   Inr \<lparr>crInstanceID = inst, crInstanceName = instanceName,
                                        crInstanceType = ccInstanceType (agCloudPlane (avConfig d))\<rparr>
                               | Inr _ \<Rightarrow> Inl (Errorf ''RunInstances returned no instance id'')),
                              calls @ [EcsRunInstances run]))))))"

definition aliyunDelete :: "aliyun_driver option \<Rightarrow> string \<Rightarrow> unit res \<times> ecs_call list" where
  "aliyunDelete p inst =
     (let notReady = (Inl (Errorf ''aliyun node provider driver is not initialized''), []); instanceID = trimSpace inst
      in case p of None \<Rightarrow> notReady | Some d \<Rightarrow> (case avClient d of None \<Rightarrow> notReady | Some api \<Rightarrow>
           if instanceID = [] then (Inl (Errorf ''node instanceID is required''), [])
           else (case ecCtxErr api 0 of
                   Some err \<Rightarrow> (Inl err, [])
                 | None \<Rightarrow>
                     (let req = \<lparr>edRegionId = ccRegionID (agCloudPlane (avConfig d)), edInstanceId = [instanceID],
                                 edForce = True, edForceStop = False\<rparr>
                      in ((case ecDelete api req of
                             Inl err \<Rightarrow> if isAliyunNodeNotFound err then Inr ()
                                        else Inl (Errorf (''DeleteInstances failed: '' @ formatAliyunSDKError api err))
                           | Inr _ \<Rightarrow> Inr ()),
                          [DeleteInstances req])))))"

end
