(* ===== verification/NodeDrivers.thy ===== *)
theory NodeDrivers
  imports TencentDriver AliyunDriver
begin

text \<open>
  internal/cloudplane/infra/nodeprovider/cloud/factory.go: the driver of the configured provider.
  Both drivers keep the contract that the node reconciler relies on; a configuration that loads is
  one the drivers accept; and what a purchase does to the next pass.
\<close>

section \<open>factory.go\<close>

datatype node_driver_value = TencentNodes tencent_driver | AliyunNodes aliyun_driver

definition NewDriver :: "cvm_constructor \<Rightarrow> 'c ecs_sdk \<Rightarrow> cloud_config \<Rightarrow> node_driver_value res" where
  "NewDriver cvm ecs cfg =
     (let providerName = toLower (trimSpace (ccProvider cfg)) in
      if providerName = [] then Inl (Errorf ''infrastructure.provider is required'')
      else if providerName = aliyunName then bindR (NewAliyunDriver ecs cfg) (\<lambda>d. Inr (AliyunNodes d))
      else if providerName = tencentName then bindR (NewTencentDriver cvm cfg) (\<lambda>d. Inr (TencentNodes d))
      else Inl (Errorf (''node provider driver for provider '' @ goQuote (ccProvider cfg) @ '' is not implemented'')))"

section \<open>Both drivers keep the contract\<close>

text \<open>The n-th calls of a driver whose client then answers as apis n does.\<close>

definition tencentCreates ::
  "tencent_config \<Rightarrow> (nat \<Rightarrow> cvm_client) \<Rightarrow> nat \<Rightarrow> create_request \<Rightarrow> create_result res" where
  "tencentCreates cfg apis n rq = fst (tencentCreate (Some \<lparr>tvClient = Some (apis n), tvConfig = cfg\<rparr>) rq)"

definition tencentDeletes :: "tencent_config \<Rightarrow> (nat \<Rightarrow> cvm_client) \<Rightarrow> nat \<Rightarrow> string \<Rightarrow> unit res" where
  "tencentDeletes cfg apis n inst = fst (tencentDelete (Some \<lparr>tvClient = Some (apis n), tvConfig = cfg\<rparr>) inst)"

definition aliyunCreates ::
  "aliyun_config \<Rightarrow> (nat \<Rightarrow> ecs_client) \<Rightarrow> nat \<Rightarrow> create_request \<Rightarrow> create_result res" where
  "aliyunCreates cfg apis n rq = fst (aliyunCreate (Some \<lparr>avClient = Some (apis n), avConfig = cfg\<rparr>) rq)"

definition aliyunDeletes :: "aliyun_config \<Rightarrow> (nat \<Rightarrow> ecs_client) \<Rightarrow> nat \<Rightarrow> string \<Rightarrow> unit res" where
  "aliyunDeletes cfg apis n inst = fst (aliyunDelete (Some \<lparr>avClient = Some (apis n), avConfig = cfg\<rparr>) inst)"

interpretation tencent: node_driver "tencentCreates cfg apis" "tencentDeletes cfg apis" "ccInstanceType (tgCloudPlane cfg)"
  for cfg apis
proof
  fix n rq r
  assume "tencentCreates cfg apis n rq = Inr r"
  then show "crInstanceName r = trimSpace (crName rq) \<and> crInstanceType r = ccInstanceType (tgCloudPlane cfg)
    \<and> nonBlank (crName rq) \<and> nonBlank (crClientToken rq) \<and> 0 < crCPUMilli rq \<and> 0 < crMemoryMi rq"
    by (auto simp: tencentCreates_def tencentCreate_def Let_def nonBlank_def
        split: option.splits if_splits prod.splits sum.splits list.splits)
next
  fix n inst u
  assume "tencentDeletes cfg apis n inst = Inr u"
  then show "nonBlank inst"
    by (auto simp: tencentDeletes_def tencentDelete_def Let_def nonBlank_def split: if_splits)
qed

interpretation aliyun: node_driver "aliyunCreates cfg apis" "aliyunDeletes cfg apis" "ccInstanceType (agCloudPlane cfg)"
  for cfg apis
proof
  fix n rq r
  assume "aliyunCreates cfg apis n rq = Inr r"
  then show "crInstanceName r = trimSpace (crName rq) \<and> crInstanceType r = ccInstanceType (agCloudPlane cfg)
    \<and> nonBlank (crName rq) \<and> nonBlank (crClientToken rq) \<and> 0 < crCPUMilli rq \<and> 0 < crMemoryMi rq"
    by (auto simp: aliyunCreates_def aliyunCreate_def Let_def nonBlank_def
        split: option.splits if_splits prod.splits sum.splits list.splits)
next
  fix n inst u
  assume "aliyunDeletes cfg apis n inst = Inr u"
  then show "nonBlank inst"
    by (auto simp: aliyunDeletes_def aliyunDelete_def Let_def nonBlank_def split: if_splits)
qed

section \<open>A configuration that loads\<close>

lemma char_eq_nat: "c = d \<longleftrightarrow> (of_char c :: nat) = of_char d"
  by (simp add: of_char_eq_iff)

lemma isSpace_nat: "isSpace c \<longleftrightarrow> (of_char c :: nat) \<in> {9, 10, 11, 12, 13, 32}"
  by (simp only: isSpace_def insert_iff char_eq_nat) simp

lemma lowerChar_nat: "(of_char (lowerChar c) :: nat) =
    (if 65 \<le> (of_char c :: nat) \<and> of_char c \<le> (90::nat) then of_char c + 32 else of_char c)"
  by (simp add: lowerChar_def less_eq_char_def)

lemma isSpace_lowerChar [simp]: "isSpace (lowerChar c) = isSpace c"
  unfolding isSpace_nat lowerChar_nat by auto

lemma lowerChar_idem [simp]: "lowerChar (lowerChar c) = lowerChar c"
  unfolding char_eq_nat lowerChar_nat by auto

lemma toLower_trimBoth: "toLower (trimBoth isSpace s) = trimBoth isSpace (toLower s)"
  by (simp add: trimBoth_def toLower_def dropWhile_map rev_map comp_def)

lemma toLower_trim_idem: "toLower (trimSpace (toLower (trimSpace s))) = toLower (trimSpace s)"
  by (simp add: trimSpace_def flip: toLower_trimBoth) (simp add: toLower_def comp_def)

text \<open>Normalisation trims, so the drivers see what Validate saw.\<close>

lemma trimConfigList_idem: "trimConfigList (trimConfigList vs) = trimConfigList vs"
  by (induction vs) (auto simp: trimConfigList_def)

lemma loadCloudConfig_ok:
  assumes "loadCloudConfig readFile decode urlParse path = Inr cfg"
  obtains raw where "cfg = normalizeCloudConfig raw" and "validateCloudConfig urlParse cfg = Inr ()"
  using assms by (auto simp: loadCloudConfig_def Let_def res_simps split: if_splits sum.splits)

lemma validateCloudConfig_parts:
  assumes "validateCloudConfig urlParse cfg = Inr ()"
  shows "nonBlank (ccAgentToken cfg)" and "validateInfrastructure cfg = Inr ()" and "validateIngress urlParse cfg = Inr ()"
    and "nonBlank (ccPlaneName cfg)" and "validateConnectEndpoint (ccConnectEndpoint cfg) = Inr ()"
  using assms by (auto simp: validateCloudConfig_def res_simps split: if_splits)

lemma spec_defaults_valid:
  "validateTencentNode s = Inr () \<Longrightarrow> 0 < tnSystemDiskSizeGiB (tencentSpecDefaults s)"
  "validateAliyunNode a = Inr () \<Longrightarrow> 0 < alSystemDiskSizeGiB (aliyunSpecDefaults a)"
  by (auto simp: validateTencentNode_def validateAliyunNode_def tencentSpecDefaults_def aliyunSpecDefaults_def
      split: if_splits)

lemma newTencentConfig_loaded:
  assumes "validateCloudConfig urlParse cfg = Inr ()" and "toLower (trimSpace (ccProvider cfg)) = ''tencent''"
  shows "newTencentConfig cfg = Inr \<lparr>tgCloudPlane = cfg, tgProvider = tencentSpecDefaults (ccTencent cfg)\<rparr>"
proof -
  note p = validateCloudConfig_parts [OF assms(1)]
  have v: "validateTencentNode (ccTencent cfg) = Inr ()" and t: "nonBlank (ccInstanceType cfg)"
    using p(2) assms(2) by (auto simp: validateInfrastructure_def Let_def res_simps split: if_splits)
  moreover have "equalFold (trimSpace (ccProvider cfg)) tencentName"
    using assms(2) by (simp add: equalFold_def tencentName_def toLower_def lowerChar_def)
  moreover have "0 < tnSystemDiskSizeGiB (tencentSpecDefaults (ccTencent cfg))" using spec_defaults_valid(1) [OF v] .
  ultimately show ?thesis
    using p(1) by (auto simp: newTencentConfig_def validateTencentNode_def Let_def tencentSpecDefaults_def
        split: if_splits)
qed

lemma newAliyunConfig_loaded:
  assumes "validateCloudConfig urlParse cfg = Inr ()" and "toLower (trimSpace (ccProvider cfg)) = ''aliyun''"
  shows "newAliyunConfig cfg = Inr \<lparr>agCloudPlane = cfg, agProvider = aliyunSpecDefaults (ccAliyun cfg)\<rparr>"
proof -
  note p = validateCloudConfig_parts [OF assms(1)]
  have v: "validateAliyunNode (ccAliyun cfg) = Inr ()" and t: "nonBlank (ccInstanceType cfg)"
    using p(2) assms(2) by (auto simp: validateInfrastructure_def Let_def res_simps split: if_splits)
  moreover have "equalFold (trimSpace (ccProvider cfg)) aliyunName"
    using assms(2) by (simp add: equalFold_def aliyunName_def toLower_def lowerChar_def)
  moreover have "0 < alSystemDiskSizeGiB (aliyunSpecDefaults (ccAliyun cfg))" using spec_defaults_valid(2) [OF v] .
  ultimately show ?thesis
    using p(1) by (auto simp: newAliyunConfig_def validateAliyunNode_def Let_def aliyunSpecDefaults_def
        split: if_splits)
qed

lemma NewDriver_loaded:
  assumes "loadCloudConfig readFile decode urlParse path = Inr cfg"
    and "\<forall>c r. \<exists>cl. cvm c r = Inr cl" and "\<exists>c. esCredential ecs = Inr c" and "\<forall>en c. \<exists>cl. esNewClient ecs en c = Inr cl"
  shows "(\<exists>cl. NewDriver cvm ecs cfg = Inr (TencentNodes \<lparr>tvClient = Some cl,
            tvConfig = \<lparr>tgCloudPlane = cfg, tgProvider = tencentSpecDefaults (ccTencent cfg)\<rparr>\<rparr>))
       \<or> (\<exists>cl. NewDriver cvm ecs cfg = Inr (AliyunNodes \<lparr>avClient = Some cl,
            avConfig = \<lparr>agCloudPlane = cfg, agProvider = aliyunSpecDefaults (ccAliyun cfg)\<rparr>\<rparr>))"
proof -
  have v: "validateCloudConfig urlParse cfg = Inr ()" using assms(1) by (rule loadCloudConfig_ok)
  let ?p = "toLower (trimSpace (ccProvider cfg))"
  have inf: "validateInfrastructure cfg = Inr ()" using validateCloudConfig_parts(2) [OF v] .
  then have "?p = ''tencent'' \<or> ?p = ''aliyun''"
    by (auto simp: validateInfrastructure_def Let_def split: if_splits)
  then show ?thesis
  proof
    assume t: "?p = ''tencent''"
    then have "nonBlank (tcdSecretID (ccTencentCredential cfg))" "nonBlank (tcdSecretKey (ccTencentCredential cfg))"
      using inf by (auto simp: validateInfrastructure_def Let_def split: if_splits)
    moreover obtain cl where "cvm (trimSpace (tcdSecretID (ccTencentCredential cfg)),
        trimSpace (tcdSecretKey (ccTencentCredential cfg)), trimSpace (tcdToken (ccTencentCredential cfg)))
        (ccRegionID cfg) = Inr cl" using assms(2) by blast
    ultimately show ?thesis
      by (simp add: NewDriver_def Let_def t aliyunName_def tencentName_def NewTencentDriver_def newCVMClient_def
          newTencentConfig_loaded [OF v t] nonBlank_def)
  next
    assume a: "?p = ''aliyun''"
    obtain cr where cr: "esCredential ecs = Inr cr" using assms(3) by blast
    then obtain cl where "esNewClient ecs (resolveECSEndpoint (ccRegionID cfg)) cr = Inr cl" using assms(4) by blast
    then show ?thesis
      by (simp add: NewDriver_def Let_def a aliyunName_def NewAliyunDriver_def newECSClient_def cr
          newAliyunConfig_loaded [OF v a])
  qed
qed

section \<open>What a purchase does to the next pass\<close>

text \<open>
  The next pass recognises the instance that is being started by the name and the type of its row,
  which come from the driver's answer.
\<close>

lemma CreateProvisioningNode_Inr:
  "CreateProvisioningNode clk ent i s = Inr (n, s') \<Longrightarrow>
     s' = s\<lparr>nodes := nodes s @ [n]\<rparr> \<and> nodeStatus n = StatusProvisioning \<and> findBy nodeID (nodeID n) (nodes s) = None"
  by (auto simp: CreateProvisioningNode_def res_simps Let_def split: if_splits)

lemma BindProvisionedNode_Inr:
  assumes "BindProvisionedNode clk nid inst name ityp reason obs s = Inr (n, s')"
  shows "\<exists>m\<in>set (nodes s'). nodeStatus m = StatusProvisioning \<and> nodeName m = trimSpace name \<and>
      nodeInstanceType m = trimSpace ityp" and "runs s' = runs s"
proof -
  obtain n0 where f: "List.find (\<lambda>n. nodeID n = nid \<and> nodeStatus n = StatusProvisioning) (nodes s) = Some n0"
    using assms by (auto simp: BindProvisionedNode_def Let_def split: option.splits)
  note n0 = find_SomeD [OF f]
  show "runs s' = runs s"
    using assms f by (auto simp: BindProvisionedNode_def Let_def split: if_splits)
  show "\<exists>m\<in>set (nodes s'). nodeStatus m = StatusProvisioning \<and> nodeName m = trimSpace name \<and>
      nodeInstanceType m = trimSpace ityp"
  proof (rule bexI)
    show "n \<in> set (nodes s')"
      using assms f n0 by (auto simp: BindProvisionedNode_def Let_def updateWhere_def split: if_splits)
    show "nodeStatus n = StatusProvisioning \<and> nodeName n = trimSpace name \<and> nodeInstanceType n = trimSpace ityp"
      using assms f n0 by (auto simp: BindProvisionedNode_def Let_def split: if_splits)
  qed
qed

context node_driver
begin

lemma purchase_is_recognised:
  assumes "envCreate e = create" "envFault e = (\<lambda>_. None)" "envOther e = (\<lambda>_ s. s)"
    and "cfgInstanceType cfg = itype" "trimSpace itype = itype"
    and "\<And>r. trimSpace (provisioningNodeName (envMD5 e) (cfgPlaneName cfg @ NodeNameSuffix) r)
           = provisioningNodeName (envMD5 e) (cfgPlaneName cfg @ NodeNameSuffix) r"
    and "reconcilePendingExecutionCapacity e cfg w = ((True, err), w')"
  shows "reconcilePendingExecutionCapacity e cfg w' = ((False, None), w'\<lparr>wtick := Suc (wtick w')\<rparr>)"
proof -
  let ?prefix = "cfgPlaneName cfg @ NodeNameSuffix"
  let ?get = "GetNodeProvisioningCandidate (envMD5 e) ?prefix (cfgInstanceType cfg)"
  have calm: "storeOp e f w = (case f (envClock e (wtick w)) (envEntropy e (wtick w)) (wdb w) of
       Inl err \<Rightarrow> (Inl err, w\<lparr>wtick := Suc (wtick w)\<rparr>)
     | Inr (x, s') \<Rightarrow> (Inr x, w\<lparr>wtick := Suc (wtick w), wdb := s'\<rparr>))" for f w
    using assms(2,3) by (simp add: storeOp_def interfere_def Let_def split: sum.split prod.split)
  have rd: "readOp e ?get w = (Inr (?get (wdb w)), w\<lparr>wtick := Suc (wtick w)\<rparr>)" for w
    by (simp add: readOp_def calm)
  obtain c where c: "?get (wdb w) = Some c"
    using assms(7) rd [of w] by (cases "?get (wdb w)") (auto simp: reconcilePendingExecutionCapacity_def)
  have nc: "\<not> (pcHasCapacity c \<or> pcHasProvisioning c)"
    using assms(7) c rd [of w] by (auto simp: reconcilePendingExecutionCapacity_def split: if_splits)
  let ?cr = "\<lambda>clk ent. CreateProvisioningNode clk ent
      \<lparr>piProvider = cfgProvider cfg, piRegion = cfgRegionID cfg, piName = pcNodeName c,
       piInstanceType = pcInstanceType c, piStatusReason = ''pending execution requires more node capacity''\<rparr>"
  obtain r2 w2 where op2: "storeOp e ?cr (w\<lparr>wtick := Suc (wtick w)\<rparr>) = (r2, w2)" by fastforce
  obtain n where r2: "r2 = Inr n"
    using assms(7) c nc rd [of w] op2 by (cases r2) (auto simp: reconcilePendingExecutionCapacity_def)
  obtain r3 w3 where op3: "driverCreate e (createRequestOf c) w2 = (r3, w3)" by fastforce
  obtain result where r3: "r3 = Inr result"
    using assms(7) c nc rd [of w] op2 r2 op3
    by (cases r3) (auto simp: reconcilePendingExecutionCapacity_def Let_def split: prod.splits)
  obtain r4 w4 where op4: "storeOp e (\<lambda>clk _. BindProvisionedNode clk (nodeID n) (crInstanceID result)
      (crInstanceName result) (crInstanceType result) ''provider accepted node creation'' (Some (goNow clk))) w3 = (r4, w4)"
    by fastforce
  obtain m where r4: "r4 = Inr m" and w': "w' = w4"
    using assms(7) c nc rd [of w] op2 r2 op3 r3 op4
    by (cases r4) (auto simp: reconcilePendingExecutionCapacity_def Let_def split: prod.splits)
  have same: "runs (wdb w4) = runs (wdb w)"
  proof -
    have "runs (wdb w2) = runs (wdb w)"
      using op2 r2 by (auto simp: calm dest!: CreateProvisioningNode_Inr split: sum.splits prod.splits)
    moreover have "wdb w3 = wdb w2" using op3 by (auto simp: driverCreate_def interfere_def assms(3) Let_def)
    moreover have "runs (wdb w4) = runs (wdb w3)"
      using op4 r4 by (auto simp: calm dest!: BindProvisionedNode_Inr(2) split: sum.splits prod.splits)
    ultimately show ?thesis by simp
  qed
  have res: "crInstanceName result = trimSpace (pcNodeName c)" "crInstanceType result = itype"
    using created [of "wtick w2" "createRequestOf c" result] op3 r3 assms(1)
    by (auto simp: driverCreate_def Let_def createRequestOf_def)
  obtain r where r: "selectFirst (\<lambda>r. runStatus r = StatusPending) (\<lambda>r. (runCreatedAt r, runID r)) (runs (wdb w)) = Some r"
    using c by (auto simp: GetNodeProvisioningCandidate_def split: option.splits)
  then have name: "pcNodeName c = provisioningNodeName (envMD5 e) ?prefix r"
    using c by (auto simp: GetNodeProvisioningCandidate_def Let_def)
  obtain b where b: "b \<in> set (nodes (wdb w4))" "nodeStatus b = StatusProvisioning"
      "nodeName b = pcNodeName c" "nodeInstanceType b = cfgInstanceType cfg"
    using op4 r4 res assms(4,5,6) name
    by (auto simp: calm dest!: BindProvisionedNode_Inr(1) split: sum.splits prod.splits)
  then have "list_ex (\<lambda>n. nodeStatus n = StatusProvisioning \<and> nodeName n = pcNodeName c \<and>
      nodeInstanceType n = cfgInstanceType cfg) (nodes (wdb w4))"
    unfolding list_ex_iff by blast
  then obtain c' where "?get (wdb w4) = Some c'" "pcHasProvisioning c'"
    using r same name by (auto simp: GetNodeProvisioningCandidate_def Let_def)
  then show ?thesis
    using rd [of w4] unfolding w' by (auto simp: reconcilePendingExecutionCapacity_def)
qed

end

end
