(* ===== verification/NodeDriverProps.thy ===== *)
theory NodeDriverProps
  imports NodeDrivers ReconcilerProps
begin

text \<open>
  The node reconciler, the store and the drivers together: a loaded configuration yields a driver, an
  instance that is being started is not bought again.
\<close>

section \<open>A loaded configuration\<close>

definition planeConfigOf :: "cloud_config \<Rightarrow> plane_config" where
  "planeConfigOf cfg = \<lparr>cfgPlaneName = ccPlaneName cfg, cfgProvider = ccProvider cfg,
     cfgRegionID = ccRegionID cfg, cfgInstanceType = ccInstanceType cfg\<rparr>"

text \<open>
  A configuration that Load accepts always yields a node driver.  If the constructors of the SDKs
  succeed, NewDriver returns the driver of the configured provider, with the configuration unchanged,
  the default disk filled in and a disk size above zero: none of the checks of the drivers is left to
  fail after Load.
\<close>

theorem loaded_config_gets_its_driver:
  assumes "loadCloudConfig readFile decode urlParse path = Inr cfg"
    and "\<forall>c r. \<exists>cl. cvm c r = Inr cl" and "\<exists>c. esCredential ecs = Inr c" and "\<forall>en c. \<exists>cl. esNewClient ecs en c = Inr cl"
  shows "\<exists>d. NewDriver cvm ecs cfg = Inr d \<and>
    (case d of
       TencentNodes t \<Rightarrow> ccProvider cfg = ''tencent'' \<and> tvClient t \<noteq> None \<and> tgCloudPlane (tvConfig t) = cfg \<and>
         0 < tnSystemDiskSizeGiB (tgProvider (tvConfig t))
     | AliyunNodes a \<Rightarrow> ccProvider cfg = ''aliyun'' \<and> avClient a \<noteq> None \<and> agCloudPlane (avConfig a) = cfg \<and>
         0 < alSystemDiskSizeGiB (agProvider (avConfig a)))"
proof -
  obtain raw where n: "cfg = normalizeCloudConfig raw" and v: "validateCloudConfig urlParse cfg = Inr ()"
    using loadCloudConfig_ok [OF assms(1)] .
  have low: "toLower (trimSpace (ccProvider cfg)) = ccProvider cfg"
    using n by (simp add: normalizeCloudConfig_def toLower_trim_idem)
  have inf: "validateInfrastructure cfg = Inr ()" using validateCloudConfig_parts(2) [OF v] .
  from NewDriver_loaded [OF assms] show ?thesis
  proof (elim disjE exE)
    fix cl
    assume d: "NewDriver cvm ecs cfg = Inr (TencentNodes \<lparr>tvClient = Some cl,
      tvConfig = \<lparr>tgCloudPlane = cfg, tgProvider = tencentSpecDefaults (ccTencent cfg)\<rparr>\<rparr>)"
    then have p: "ccProvider cfg = ''tencent''"
      by (auto simp: NewDriver_def Let_def low tencentName_def res_simps split: if_splits)
    have "0 < tnSystemDiskSizeGiB (tencentSpecDefaults (ccTencent cfg))"
      using inf low [unfolded p] by (intro spec_defaults_valid) (auto simp: p validateInfrastructure_def Let_def res_simps split: if_splits)
    then show ?thesis using d p by simp
  next
    fix cl
    assume d: "NewDriver cvm ecs cfg = Inr (AliyunNodes \<lparr>avClient = Some cl,
      avConfig = \<lparr>agCloudPlane = cfg, agProvider = aliyunSpecDefaults (ccAliyun cfg)\<rparr>\<rparr>)"
    then have p: "ccProvider cfg = ''aliyun''"
      by (auto simp: NewDriver_def Let_def low aliyunName_def res_simps split: if_splits)
    have "0 < alSystemDiskSizeGiB (aliyunSpecDefaults (ccAliyun cfg))"
      using inf low [unfolded p] by (intro spec_defaults_valid) (auto simp: p validateInfrastructure_def Let_def res_simps split: if_splits)
    then show ?thesis using d p by simp
  qed
qed

section \<open>One purchase at a time\<close>

lemma nodeName_trimmed:
  assumes "trimSpace plane = plane" "plane \<noteq> []" "\<And>s. list_all (\<lambda>c. \<not> isSpace c) (md5 s)"
  shows "trimSpace (provisioningNodeName md5 (plane @ NodeNameSuffix) r) = provisioningNodeName md5 (plane @ NodeNameSuffix) r"
proof -
  let ?h = "toLower (take 10 (md5 (runServiceID r @ ''-'' @ itoa (runGeneration r))))"
  have "list_all (\<lambda>c. \<not> isSpace c) ?h"
    using assms(3) [of "runServiceID r @ ''-'' @ itoa (runGeneration r)"]
    by (auto simp: list_all_iff toLower_def isSpace_lowerChar dest: in_set_takeD)
  then have l: "?h \<noteq> [] \<Longrightarrow> \<not> isSpace (last ?h)" by (simp add: list_all_iff)
  have "\<not> isSpace (hd plane)"
    using trimBoth_hd [of isSpace plane] assms(1,2) by (simp add: trimSpace_def)
  then show ?thesis
    using assms(2) l unfolding trimSpace_def provisioningNodeName_def NodeNameSuffix_def
    by (intro trimBoth_id disjI2) (simp add: last_append isSpace_def)
qed


section \<open>Concrete drivers\<close>

text \<open>What a purchase answers when the SDK works: only the request and the capacity matter.\<close>

lemma tencentCreates_works:
  assumes "cvCtxErr (apis n) = (\<lambda>_. None)" and "cvDescribe (apis n) (tencentTypeFilters cfg) = Inr resp"
    and "tencentCapacityOf cfg resp = Inr cap" and "\<And>r. cvRun (apis n) r = Inr (Some [Some inst])"
    and "trimSpace (crName rq) \<noteq> []" "trimSpace (crClientToken rq) \<noteq> []" "0 < crCPUMilli rq" "0 < crMemoryMi rq"
    and "crCPUMilli rq \<le> icCPUMilli cap" "crMemoryMi rq \<le> icMemoryMi cap"
  shows "tencentCreates cfg apis n rq = Inr \<lparr>crInstanceID = inst, crInstanceName = trimSpace (crName rq),
     crInstanceType = ccInstanceType (tgCloudPlane cfg)\<rparr>"
  using assms by (simp add: tencentCreates_def tencentCreate_def tencentLookupCapacity_def Let_def)

definition demoCloud :: cloud_config where
  "demoCloud = \<lparr>ccPath = ''p'', ccListenGRPCAddr = '':1'', ccTLS = \<lparr>tfCACert = ''c'', tfCert = ''c'', tfKey = ''k''\<rparr>,
     ccDatabaseURL = ''d'', ccPlaneName = ''pl'', ccGRPCEndpoint = ''h:1'', ccBearerToken = ''b'',
     ccConnectEndpoint = ''h:2'', ccAgentToken = ''a'', ccAgentBinaryURL = ''u'', ccProvider = ''tencent'',
     ccRegionID = ''r'', ccZoneID = [],
     ccTencentCredential = \<lparr>tcdSecretID = ''i'', tcdSecretKey = ''k'', tcdToken = []\<rparr>,
     ccInstanceType = ''t'', ccRegistryMirrors = [], ccWorkloadProxyEndpoint = [],
     ccAliyun = \<lparr>alImageID = [], alKeyPairName = [], alVSwitchID = [], alSecurityGroupID = [],
        alSystemDiskCategory = [], alSystemDiskSizeGiB = 0\<rparr>,
     ccTencent = \<lparr>tnImageID = ''m'', tnKeyIDs = [], tnVPCID = ''v'', tnSubnetID = ''s'', tnSecurityGroupIDs = [''g''],
        tnSystemDiskType = [], tnSystemDiskSizeGiB = 0\<rparr>,
     ccBaseDomain = [], ccCaddyAdminURL = [], ccPublicOrigin = [], ccOTLPEndpoint = []\<rparr>"

definition demoURL :: "string \<Rightarrow> url_parts res" where
  "demoURL s = Inl (Errorf s)"

lemma demoCloud_loads: "loadCloudConfig (\<lambda>_. Inr []) (\<lambda>_. Inr demoCloud) demoURL ''p'' = Inr demoCloud"
  by code_simp

definition deafCvm :: cvm_client where
  "deafCvm = \<lparr>cvCtxErr = (\<lambda>_. None),
     cvDescribe = (\<lambda>_. Inr (Some [Some \<lparr>tyInstanceType = Some ''t'', tyCPU = Some 2, tyMemory = Some 2\<rparr>])),
     cvRun = (\<lambda>_. Inr (Some [Some ''i''])), cvTerminate = (\<lambda>_. Inr (Some ())), cvMessage = errText, cvRequestId = errText\<rparr>"

definition deafEcs :: ecs_client where
  "deafEcs = \<lparr>ecCtxErr = (\<lambda>_. None), ecDescribe = (\<lambda>_ _. Inr None), ecRun = (\<lambda>_. Inr None),
     ecDelete = (\<lambda>_. Inr ()), ecMessage = errText, ecData = errText\<rparr>"

theorem loaded_config_gets_its_driver_witness:
  "\<exists>d. NewDriver (\<lambda>_ _. Inr deafCvm) \<lparr>esCredential = Inr (), esNewClient = (\<lambda>_ _. Inr deafEcs)\<rparr> demoCloud = Inr d
     \<and> (\<exists>t. d = TencentNodes t \<and> tgCloudPlane (tvConfig t) = demoCloud)"
proof -
  let ?ecs = "\<lparr>esCredential = Inr (), esNewClient = (\<lambda>_ _. Inr deafEcs)\<rparr>"
  have p: "ccProvider demoCloud = ''tencent''" by (simp add: demoCloud_def)
  obtain d where d: "NewDriver (\<lambda>_ _. Inr deafCvm) ?ecs demoCloud = Inr d"
    "case d of TencentNodes t \<Rightarrow> ccProvider demoCloud = ''tencent'' \<and> tvClient t \<noteq> None \<and>
        tgCloudPlane (tvConfig t) = demoCloud \<and> 0 < tnSystemDiskSizeGiB (tgProvider (tvConfig t))
     | AliyunNodes a \<Rightarrow> ccProvider demoCloud = ''aliyun'' \<and> avClient a \<noteq> None \<and>
        agCloudPlane (avConfig a) = demoCloud \<and> 0 < alSystemDiskSizeGiB (agProvider (avConfig a))"
    using loaded_config_gets_its_driver [OF demoCloud_loads, of "\<lambda>_ _. Inr deafCvm" ?ecs] by auto
  show ?thesis
  proof (cases d)
    case (TencentNodes t)
    then show ?thesis using d by auto
  next
    case (AliyunNodes a)
    then show ?thesis using d(2) p by simp
  qed
qed

definition demoTencentNodes :: tencent_config where
  "demoTencentNodes = \<lparr>tgCloudPlane = demoCloud, tgProvider = tencentSpecDefaults (ccTencent demoCloud)\<rparr>"

text \<open>The driver over that client, with the request for the instance left out, which the client ignores.\<close>

definition soldCreate :: "nat \<Rightarrow> create_request \<Rightarrow> create_result res" where
  "soldCreate n rq =
     (if trimSpace (crName rq) = [] \<or> trimSpace (crClientToken rq) = [] \<or> crCPUMilli rq \<le> 0 \<or> crMemoryMi rq \<le> 0
        \<or> 2000 < crCPUMilli rq \<or> 2048 < crMemoryMi rq then tencentCreates demoTencentNodes (\<lambda>_. deafCvm) n rq
      else Inr \<lparr>crInstanceID = ''i'', crInstanceName = trimSpace (crName rq), crInstanceType = ''t''\<rparr>)"

lemma soldCreate_is_driver: "soldCreate = tencentCreates demoTencentNodes (\<lambda>_. deafCvm)"
proof (intro ext)
  fix n rq
  let ?resp = "Some [Some \<lparr>tyInstanceType = Some ''t'', tyCPU = Some 2, tyMemory = Some 2\<rparr>]"
  have cap: "tencentCapacityOf demoTencentNodes ?resp = Inr \<lparr>icInstanceType = ''t'', icCPUMilli = 2000, icMemoryMi = 2048\<rparr>"
    by code_simp
  have ty: "ccInstanceType (tgCloudPlane demoTencentNodes) = ''t''" by (simp add: demoTencentNodes_def demoCloud_def)
  show "soldCreate n rq = tencentCreates demoTencentNodes (\<lambda>_. deafCvm) n rq"
    using tencentCreates_works [of "\<lambda>_. deafCvm" n demoTencentNodes ?resp _ "''i''" rq, OF _ _ cap]
    by (simp add: soldCreate_def deafCvm_def ty)
qed

definition largeUpsert :: upsert_service_input where
  "largeUpsert = (demoUpsert ''s1'' ''web'' 1)\<lparr>usSpec := demoSpec\<lparr>specInstanceClass := ''large''\<rparr>\<rparr>"

definition g2 :: db where "g2 = resDB (UpsertService t0 (Inr [3]) largeUpsert emptyDB)"

lemma g2_reachable: "store_reachable g2"
proof -
  have "isOk (UpsertService t0 (Inr [3]) largeUpsert emptyDB)" by code_simp
  from isOkD [OF this] show ?thesis by (intro reach_step [OF reach_init step_upsert]) (simp add: g2_def)
qed

definition soldEnv :: environment where
  "soldEnv = \<lparr>envClock = (\<lambda>_. t0), envEntropy = (\<lambda>k. Inr [k]), envFault = (\<lambda>_. None),
     envOther = (\<lambda>_ s. s), envMD5 = (\<lambda>_. ''0123456789''), envCreate = soldCreate, envDelete = (\<lambda>_ _. Inr ())\<rparr>"

definition w6 :: world where
  "w6 = \<lparr>wdb = g2, wtick = 0, wlog = []\<rparr>"


end
