(* ===== verification/Repurchase.thy ===== *)
theory Repurchase
  imports NodeDriverProps
begin

text \<open>
  What happens when the node reconciler asks for an instance again with the client token of an
  instance that is already in use.
\<close>

definition smallHeartbeat :: heartbeat_input where
  "smallHeartbeat = \<lparr>hbCPUMilliAllocatable = 1800, hbMemoryMiAllocatable = 1280\<rparr>"

definition soldRegister :: register_input where
  "soldRegister = demoRegister\<lparr>rgProvider := ''tencent''\<rparr>"

text \<open>The database after the purchase, and once the instance registered and was given another run.\<close>

definition boughtNode :: node where
  "boughtNode = \<lparr>nodeID = ''node_03'', nodeProvider = ''tencent'', nodeRegion = ''r'',
     nodeName = ''pl-node-0123456789'', nodePrivateIP = [], nodeInstanceID = Some ''i'', nodeInstanceType = ''t'',
     nodeCPUTotal = 0, nodeMemTotal = 0, nodeCPUAllocatable = 0, nodeMemAllocatable = 0, nodeCPUAllocated = 0,
     nodeMemAllocated = 0, nodeStatus = ''provisioning'', nodeStatusReason = ''provider accepted node creation'',
     nodeSchedulable = False, nodeElastic = True, nodeLastHeartbeatAt = None, nodeCreatedAt = Instant 0,
     nodeUpdatedAt = Instant 0\<rparr>"

definition boughtDB :: db where
  "boughtDB = g2\<lparr>nodes := [boughtNode]\<rparr>"

definition registeredDB :: db where
  "registeredDB = orSame (UpsertService t0 (Inr [4]) (demoUpsert ''s2'' ''api'' 1))
     (orSame (RecordNodeHeartbeat t0 ''node_03'' smallHeartbeat)
       (orSame (RegisterNode t0 (Inr [2]) soldRegister) boughtDB))"

definition busyNode :: node where
  "busyNode = boughtNode\<lparr>nodeName := ''w'', nodePrivateIP := ''10.0.0.1'', nodeCPUTotal := 2000, nodeMemTotal := 2048,
     nodeCPUAllocatable := 1800, nodeMemAllocatable := 1280, nodeCPUAllocated := 500, nodeMemAllocated := 512,
     nodeStatus := ''ready'', nodeStatusReason := [], nodeSchedulable := True,
     nodeLastHeartbeatAt := Some (Instant 0)\<rparr>"

definition pendingLarge :: run_row where
  "pendingLarge = \<lparr>runID = ''run_03'', runServiceID = ''s1'', runServiceName = ''web'', runExposure = ''public'',
     runGeneration = 1, runNodeID = None, runImage = ''img'', runCommand = [], runArgs = [], runEnv = [],
     runContainerName = [], runContainerID = [], runContainerPort = 80, runHostPort = 0, runReadinessPath = ''/'',
     runCPU = 1500, runMem = 1536, runStatus = ''pending'', runStatusReason = ''service run accepted'',
     runStartedAt = None, runFinishedAt = None, runCreatedAt = Instant 0, runUpdatedAt = Instant 0\<rparr>"

definition deployingSmall :: run_row where
  "deployingSmall = pendingLarge\<lparr>runID := ''run_04'', runServiceID := ''s2'', runServiceName := ''api'',
     runNodeID := Some ''node_03'', runContainerName := ''mini-cloud-s2-g1'', runCPU := 500, runMem := 512,
     runStatus := ''deploying'', runStatusReason := ''agent on node node_03 claimed service run'',
     runStartedAt := Some (Instant 0)\<rparr>"

definition busyDB :: db where
  "busyDB = \<lparr>nodes = [busyNode], services = services registeredDB, runs = [pendingLarge, deployingSmall]\<rparr>"

lemma busyDB_comes_about: "store_step\<^sup>*\<^sup>* boughtDB busyDB"
proof -
  have "store_step\<^sup>*\<^sup>* s (orSame (RegisterNode t0 (Inr [2]) soldRegister) s)" for s
    by (rule orSame_steps) (rule step_register)
  moreover have "store_step\<^sup>*\<^sup>* s (orSame (RecordNodeHeartbeat t0 ''node_03'' smallHeartbeat) s)" for s
    by (rule orSame_steps) (rule step_heartbeat)
  moreover have "store_step\<^sup>*\<^sup>* s (orSame (UpsertService t0 (Inr [4]) (demoUpsert ''s2'' ''api'' 1)) s)" for s
    by (rule orSame_steps) (rule step_upsert)
  ultimately have "store_step\<^sup>*\<^sup>* boughtDB registeredDB"
    unfolding registeredDB_def by (meson rtranclp_trans)
  moreover have "store_step\<^sup>*\<^sup>* registeredDB (orSame (ClaimServiceRun t0 ''node_03'') registeredDB)"
    by (rule orSame_steps) (rule step_claim)
  moreover have "orSame (ClaimServiceRun t0 ''node_03'') registeredDB = busyDB" by code_simp
  ultimately show ?thesis by (simp only: rtranclp_trans)
qed

definition resoldEnv :: environment where
  "resoldEnv = soldEnv\<lparr>envOther := (\<lambda>k s. if k = 6 \<and> s = boughtDB then busyDB else s)\<rparr>"

definition firstCall :: "provider_call \<times> db" where
  "firstCall = (CreateCall \<lparr>crName = ''pl-node-0123456789'', crClientToken = ''s1-1'', crCPUMilli = 1500, crMemoryMi = 1536\<rparr>,
     g2\<lparr>nodes := [boughtNode\<lparr>nodeInstanceID := None,
       nodeStatusReason := ''pending execution requires more node capacity''\<rparr>]\<rparr>)"

definition boughtWorld :: world where
  "boughtWorld = \<lparr>wdb = boughtDB, wtick = 6, wlog = [firstCall]\<rparr>"

lemma bought_world: "snd (reconcileOnce resoldEnv (planeConfigOf demoCloud) w6) = boughtWorld"
  by code_simp

text \<open>
  C13: A purchase that is repeated deletes an instance in use.  The driver compares a run with the total
  capacity of the instance type, the store with what the agent offers of it.  A run between the two (a
  large service on an instance type with 2 CPUs and 2 GiB) is never placed on the node bought for it;
  the next pass asks again with the same client token.  A provider that answers equal tokens equally
  returns the same instance; its second binding violates the unique key, and the pass then deletes the
  instance of a ready node on which the run of another service is deploying.
\<close>

theorem repeated_purchase_deletes_busy_node:
  "\<exists>e spec apis w s n. store_reachable (wdb w) \<and> nodes (wdb w) = [] \<and> (\<forall>k s. store_step\<^sup>*\<^sup>* s (envOther e k s)) \<and>
     loadCloudConfig (\<lambda>_. Inr []) (\<lambda>_. Inr demoCloud) demoURL ''p'' = Inr demoCloud \<and>
     envCreate e = tencentCreates \<lparr>tgCloudPlane = demoCloud, tgProvider = spec\<rparr> apis \<and>
     (\<exists>answer. \<forall>k r. cvRun (apis k) r = answer (rrClientToken r)) \<and>
     (DeleteCall (instanceIDText n), s) \<in> set (wlog (snd (reconcileOnce e (planeConfigOf demoCloud)
        (snd (reconcileOnce e (planeConfigOf demoCloud) w))))) \<and>
     n \<in> set (nodes s) \<and> nodeStatus n = StatusReady \<and> list_ex (activeOn (nodeID n)) (runs s)"
proof -
  let ?p = "reconcileOnce resoldEnv (planeConfigOf demoCloud)"
  let ?l = "wlog (snd (?p boughtWorld))"
  let ?n = busyNode
  let ?s = "snd (last ?l)"
  have l: "?l \<noteq> []" "fst (last ?l) = DeleteCall ''i''" by code_simp+
  have n: "hd (nodes ?s) = busyNode" "nodes ?s \<noteq> []" by code_simp+
  have r: "runs ?s = [pendingLarge, deployingSmall]" by code_simp
  have "last ?l = (DeleteCall ''i'', ?s)" using l(2) by (rule fst_eqD_pair)
  then have "(DeleteCall ''i'', ?s) \<in> set ?l" using last_in_set [OF l(1)] by (rule subst)
  then obtain s where s: "(DeleteCall ''i'', s) \<in> set (wlog (snd (?p (snd (?p w6)))))" "busyNode \<in> set (nodes s)"
      "deployingSmall \<in> set (runs s)"
    using n r hd_in_set [OF n(2)] unfolding bought_world by auto
  moreover have "instanceIDText ?n = ''i''" "nodeStatus ?n = StatusReady" by code_simp+
  moreover have "activeOn (nodeID ?n) deployingSmall" by code_simp
  then have "list_ex (activeOn (nodeID ?n)) (runs s)" using s(3) by (auto simp: list_ex_iff)
  moreover have "\<forall>k s. store_step\<^sup>*\<^sup>* s (envOther resoldEnv k s)"
    using busyDB_comes_about by (simp add: resoldEnv_def soldEnv_def)
  moreover have "store_reachable (wdb w6)" "nodes (wdb w6) = []"
    using g2_reachable unfolding w6_def by (simp, code_simp)
  moreover have "envCreate resoldEnv = tencentCreates \<lparr>tgCloudPlane = demoCloud, tgProvider = tencentSpecDefaults (ccTencent demoCloud)\<rparr> (\<lambda>_. deafCvm)"
    by (simp add: resoldEnv_def soldEnv_def soldCreate_is_driver demoTencentNodes_def)
  moreover have "\<exists>answer. \<forall>k r. cvRun deafCvm r = answer (rrClientToken r)"
    by (intro exI [where x = "\<lambda>_. Inr (Some [Some ''i''])"]) (simp add: deafCvm_def)
  ultimately show ?thesis using demoCloud_loads by metis
qed

end
