(* ===== verification/Inventory.thy ===== *)
theory Inventory
  imports PlaneViews
begin

text \<open>
  internal/controlplane/api/inventory.go: the capacity of all planes, in total and by provider and
  region.  A ratio, a float64 quotient in the code, is the pair of its operands, with None for the
  value 0 of an empty capacity.

  The reference form sums the planes of each group.
\<close>

section \<open>Views\<close>

record inventory_summary =
  isPlanesTotal :: int
  isPlanesSyncing :: int
  isPlanesReady :: int
  isPlanesDegraded :: int
  isPlanesOffline :: int
  isNodesTotal :: int
  isNodesReady :: int
  isNodesUnavailable :: int
  isCPUMilliCapacity :: int
  isCPUMilliAllocated :: int
  isCPUMilliFree :: int
  isCPUAllocationRatio :: "(int \<times> int) option"
  isMemoryMiCapacity :: int
  isMemoryMiAllocated :: int
  isMemoryMiFree :: int
  isMemoryAllocationRatio :: "(int \<times> int) option"

record inventory_group =
  igName :: string
  igSummary :: inventory_summary

record inventory_plane =
  ipID :: string
  ipName :: string
  ipDisplayName :: string
  ipProvider :: string
  ipRegion :: string
  ipGRPCEndpoint :: string
  ipStatus :: string
  ipStatusMessage :: string
  ipLastHeartbeatAt :: "instant option"
  ipLastSyncAt :: "instant option"
  ipCapacityCapturedAt :: "instant option"
  ipNodesTotal :: int
  ipNodesReady :: int
  ipNodesUnavailable :: int
  ipCPUMilliCapacity :: int
  ipCPUMilliAllocated :: int
  ipCPUMilliFree :: int
  ipMemoryMiCapacity :: int
  ipMemoryMiAllocated :: int
  ipMemoryMiFree :: int

record inventory_view =
  ivSummary :: inventory_summary
  ivProviders :: "inventory_group list"
  ivRegions :: "inventory_group list"
  ivPlanes :: "inventory_plane list"

text \<open>model.NodeInventorySnapshot, without the plane id.\<close>

record node_inventory =
  niObservedAt :: instant
  niNodesTotal :: int
  niNodesReady :: int
  niCPUMilliCapacity :: int
  niCPUMilliAllocated :: int
  niMemoryMiCapacity :: int
  niMemoryMiAllocated :: int

section \<open>One plane\<close>

definition unavailableNodes :: "int \<Rightarrow> int \<Rightarrow> int" where
  "unavailableNodes tot ready = (if tot \<le> ready then 0 else tot - ready)"

definition freeCapacity :: "int \<Rightarrow> int \<Rightarrow> int" where
  "freeCapacity capacity allocated = (if capacity \<le> allocated then 0 else capacity - allocated)"

definition utilizationRatio :: "int \<Rightarrow> int \<Rightarrow> (int \<times> int) option" where
  "utilizationRatio allocated capacity = (if capacity \<le> 0 then None else Some (allocated, capacity))"

fun addNodes :: "plane_node option list \<Rightarrow> node_inventory \<Rightarrow> node_inventory" where
  "addNodes [] out = out"
| "addNodes (None # items) out = addNodes items out"
| "addNodes (Some item # items) out =
     addNodes items
       (out\<lparr>niNodesTotal := niNodesTotal out + 1,
            niNodesReady := (if pnStatus item = ''ready'' then niNodesReady out + 1 else niNodesReady out),
            niCPUMilliCapacity := niCPUMilliCapacity out + pnCpuAllocatable item,
            niCPUMilliAllocated := niCPUMilliAllocated out + pnCpuAllocated item,
            niMemoryMiCapacity := niMemoryMiCapacity out + pnMemAllocatable item,
            niMemoryMiAllocated := niMemoryMiAllocated out + pnMemAllocated item\<rparr>)"

definition nodeInventoryFromSnapshot :: "instant \<Rightarrow> plane_snapshot \<Rightarrow> node_inventory" where
  "nodeInventoryFromSnapshot now sn =
     addNodes (snNodes sn)
       \<lparr>niObservedAt = (case snObservedAt sn of None \<Rightarrow> now | Some t \<Rightarrow> t), niNodesTotal = 0, niNodesReady = 0,
        niCPUMilliCapacity = 0, niCPUMilliAllocated = 0, niMemoryMiCapacity = 0, niMemoryMiAllocated = 0\<rparr>"

definition buildPlane :: "instant \<Rightarrow> plane_view \<Rightarrow> inventory_plane" where
  "buildPlane now item =
     (let p = pvPlane item;
          plane = \<lparr>ipID = plID p, ipName = plName p, ipDisplayName = plDisplayName p, ipProvider = plProvider p,
             ipRegion = plRegion p, ipGRPCEndpoint = plGRPCEndpoint p, ipStatus = pstStatus (plStatus p),
             ipStatusMessage = pstMessage (plStatus p), ipLastHeartbeatAt = pstLastHeartbeatAt (plStatus p),
             ipLastSyncAt = pstLastSyncAt (plStatus p), ipCapacityCapturedAt = None, ipNodesTotal = 0,
             ipNodesReady = 0, ipNodesUnavailable = 0, ipCPUMilliCapacity = 0, ipCPUMilliAllocated = 0,
             ipCPUMilliFree = 0, ipMemoryMiCapacity = 0, ipMemoryMiAllocated = 0, ipMemoryMiFree = 0\<rparr>
      in case pvSnapshot item of
           None \<Rightarrow> plane
         | Some sn \<Rightarrow>
             (let r = nodeInventoryFromSnapshot now sn in
              plane\<lparr>ipNodesTotal := niNodesTotal r, ipNodesReady := niNodesReady r,
                ipNodesUnavailable := unavailableNodes (niNodesTotal r) (niNodesReady r),
                ipCPUMilliCapacity := niCPUMilliCapacity r, ipCPUMilliAllocated := niCPUMilliAllocated r,
                ipCPUMilliFree := freeCapacity (niCPUMilliCapacity r) (niCPUMilliAllocated r),
                ipMemoryMiCapacity := niMemoryMiCapacity r, ipMemoryMiAllocated := niMemoryMiAllocated r,
                ipMemoryMiFree := freeCapacity (niMemoryMiCapacity r) (niMemoryMiAllocated r),
                ipCapacityCapturedAt := Some (niObservedAt r)\<rparr>))"

section \<open>Sums\<close>

definition emptySummary :: inventory_summary where
  "emptySummary = \<lparr>isPlanesTotal = 0, isPlanesSyncing = 0, isPlanesReady = 0, isPlanesDegraded = 0,
     isPlanesOffline = 0, isNodesTotal = 0, isNodesReady = 0, isNodesUnavailable = 0, isCPUMilliCapacity = 0,
     isCPUMilliAllocated = 0, isCPUMilliFree = 0, isCPUAllocationRatio = None, isMemoryMiCapacity = 0,
     isMemoryMiAllocated = 0, isMemoryMiFree = 0, isMemoryAllocationRatio = None\<rparr>"

definition countStatus :: "string \<Rightarrow> inventory_summary \<Rightarrow> inventory_summary" where
  "countStatus st s =
     (if st = PlaneSyncing then s\<lparr>isPlanesSyncing := isPlanesSyncing s + 1\<rparr>
      else if st = PlaneReady then s\<lparr>isPlanesReady := isPlanesReady s + 1\<rparr>
      else if st = PlaneDegraded then s\<lparr>isPlanesDegraded := isPlanesDegraded s + 1\<rparr>
      else if st = PlaneOffline then s\<lparr>isPlanesOffline := isPlanesOffline s + 1\<rparr>
      else s)"

definition accumulateSummary :: "inventory_summary \<Rightarrow> inventory_plane \<Rightarrow> inventory_summary" where
  "accumulateSummary s0 p =
     (let s = countStatus (ipStatus p) (s0\<lparr>isPlanesTotal := isPlanesTotal s0 + 1\<rparr>) in
      s\<lparr>isNodesTotal := isNodesTotal s + ipNodesTotal p, isNodesReady := isNodesReady s + ipNodesReady p,
        isNodesUnavailable := isNodesUnavailable s + ipNodesUnavailable p,
        isCPUMilliCapacity := isCPUMilliCapacity s + ipCPUMilliCapacity p,
        isCPUMilliAllocated := isCPUMilliAllocated s + ipCPUMilliAllocated p,
        isMemoryMiCapacity := isMemoryMiCapacity s + ipMemoryMiCapacity p,
        isMemoryMiAllocated := isMemoryMiAllocated s + ipMemoryMiAllocated p\<rparr>)"

definition finalizeSummary :: "inventory_summary \<Rightarrow> inventory_summary" where
  "finalizeSummary s =
     s\<lparr>isCPUMilliFree := freeCapacity (isCPUMilliCapacity s) (isCPUMilliAllocated s),
       isMemoryMiFree := freeCapacity (isMemoryMiCapacity s) (isMemoryMiAllocated s),
       isCPUAllocationRatio := utilizationRatio (isCPUMilliAllocated s) (isCPUMilliCapacity s),
       isMemoryAllocationRatio := utilizationRatio (isMemoryMiAllocated s) (isMemoryMiCapacity s)\<rparr>"

section \<open>The view\<close>

text \<open>A map from names to summaries is an association list; the entry of a new name starts empty.\<close>

fun addToGroup :: "string \<Rightarrow> inventory_plane \<Rightarrow> (string \<times> inventory_summary) list \<Rightarrow> (string \<times> inventory_summary) list" where
  "addToGroup name p [] = [(name, accumulateSummary emptySummary p)]"
| "addToGroup name p ((n, s) # groups) =
     (if n = name then (n, accumulateSummary s p) # groups else (n, s) # addToGroup name p groups)"

record inventory_state =
  stPlanes :: "inventory_plane list"
  stSummary :: inventory_summary
  stProviders :: "(string \<times> inventory_summary) list"
  stRegions :: "(string \<times> inventory_summary) list"

fun inventoryLoop :: "instant \<Rightarrow> plane_view list \<Rightarrow> inventory_state \<Rightarrow> inventory_state" where
  "inventoryLoop now [] st = st"
| "inventoryLoop now (item # items) st =
     (let v = buildPlane now item in
      inventoryLoop now items
        (st\<lparr>stPlanes := stPlanes st @ [v], stSummary := accumulateSummary (stSummary st) v,
            stProviders := addToGroup (ipProvider v) v (stProviders st),
            stRegions := addToGroup (ipRegion v) v (stRegions st)\<rparr>))"

text \<open>Go ranges over the map in any order; the sort by the distinct names fixes it.\<close>

definition finishGroups :: "(string \<times> inventory_summary) list \<Rightarrow> inventory_group list" where
  "finishGroups groups = sort_key igName (map (\<lambda>(n, s). \<lparr>igName = n, igSummary = finalizeSummary s\<rparr>) groups)"

definition planeOrder :: "inventory_plane \<Rightarrow> string \<times> string \<times> string \<times> string" where
  "planeOrder p = (ipProvider p, ipRegion p, ipName p, ipID p)"

definition buildInventoryView :: "instant \<Rightarrow> plane_view list \<Rightarrow> inventory_view" where
  "buildInventoryView now items =
     (let st = inventoryLoop now items \<lparr>stPlanes = [], stSummary = emptySummary, stProviders = [], stRegions = []\<rparr> in
      \<lparr>ivSummary = finalizeSummary (stSummary st), ivProviders = finishGroups (stProviders st),
       ivRegions = finishGroups (stRegions st), ivPlanes = sort_key planeOrder (stPlanes st)\<rparr>)"

section \<open>The reference form\<close>

definition summaryOf :: "inventory_plane list \<Rightarrow> inventory_summary" where
  "summaryOf ps = foldl accumulateSummary emptySummary ps"

definition groupsBy :: "(inventory_plane \<Rightarrow> string) \<Rightarrow> inventory_plane list \<Rightarrow> inventory_group list" where
  "groupsBy k ps = map (\<lambda>n. \<lparr>igName = n, igSummary = finalizeSummary (summaryOf (filter (\<lambda>p. k p = n) ps))\<rparr>)
     (sort (remdups (map k ps)))"

lemma addToGroup_lookup:
  "map_of (addToGroup name p groups) =
     (map_of groups)(name \<mapsto> accumulateSummary (case map_of groups name of None \<Rightarrow> emptySummary | Some s \<Rightarrow> s) p)"
  by (induction name p groups rule: addToGroup.induct) (auto simp: fun_eq_iff)

lemma addToGroup_keys:
  "map fst (addToGroup name p groups) = (if name \<in> fst ` set groups then map fst groups else map fst groups @ [name])"
  by (induction name p groups rule: addToGroup.induct) auto

text \<open>What the map holds after the planes of a list.\<close>

definition holdsGroups :: "(inventory_plane \<Rightarrow> string) \<Rightarrow> inventory_plane list \<Rightarrow> (string \<times> inventory_summary) list \<Rightarrow> bool" where
  "holdsGroups k ps groups \<longleftrightarrow> distinct (map fst groups) \<and> fst ` set groups = set (map k ps) \<and>
     (\<forall>n. map_of groups n = (if n \<in> set (map k ps) then Some (summaryOf (filter (\<lambda>p. k p = n) ps)) else None))"

lemma holdsGroups_step:
  assumes "holdsGroups k ps groups"
  shows "holdsGroups k (ps @ [p]) (addToGroup (k p) p groups)"
proof -
  have "set (map fst (addToGroup (k p) p groups)) = insert (k p) (fst ` set groups)"
    by (auto simp: addToGroup_keys)
  moreover have "distinct (map fst (addToGroup (k p) p groups))"
    using assms by (auto simp: addToGroup_keys holdsGroups_def)
  moreover have "filter (\<lambda>q. k q = k p) ps = []" if "k p \<notin> k ` set ps"
    using that unfolding filter_empty_conv by (metis imageI)
  ultimately show ?thesis
    using assms by (auto simp: holdsGroups_def addToGroup_lookup summaryOf_def)
qed

lemma inventoryLoop_state:
  assumes "stSummary st = summaryOf ps" "stPlanes st = ps" "holdsGroups ipProvider ps (stProviders st)"
    "holdsGroups ipRegion ps (stRegions st)"
  shows "let st' = inventoryLoop now items st; ps' = ps @ map (buildPlane now) items in
     stSummary st' = summaryOf ps' \<and> stPlanes st' = ps' \<and> holdsGroups ipProvider ps' (stProviders st')
     \<and> holdsGroups ipRegion ps' (stRegions st')"
  using assms
proof (induction items arbitrary: st ps)
  case (Cons item items)
  let ?v = "buildPlane now item"
  show ?case
    using Cons.prems Cons.IH [of "st\<lparr>stPlanes := stPlanes st @ [?v], stSummary := accumulateSummary (stSummary st) ?v,
        stProviders := addToGroup (ipProvider ?v) ?v (stProviders st),
        stRegions := addToGroup (ipRegion ?v) ?v (stRegions st)\<rparr>" "ps @ [?v]"]
    by (simp add: summaryOf_def holdsGroups_step Let_def)
qed (simp add: Let_def)

lemma finishGroups_reference:
  assumes "holdsGroups k ps groups"
  shows "finishGroups groups = groupsBy k ps"
proof -
  let ?f = "\<lambda>(n, s). \<lparr>igName = n, igSummary = finalizeSummary s\<rparr>"
  let ?g = "\<lambda>n. \<lparr>igName = n, igSummary = finalizeSummary (summaryOf (filter (\<lambda>p. k p = n) ps))\<rparr>"
  have d: "distinct (map fst groups)" and ks: "set (map fst groups) = set (map k ps)"
    using assms by (simp_all add: holdsGroups_def)
  have "?f e = ?g (fst e)" if "e \<in> set groups" for e
  proof -
    have "map_of groups (fst e) = Some (snd e)" using d that by simp
    then show ?thesis using assms by (auto simp: holdsGroups_def split: if_splits prod.split)
  qed
  then have eq: "map ?f groups = map ?g (map fst groups)" by simp
  have "insort_key igName (?g n) (map ?g ns) = map ?g (insort n ns)" for n ns
    by (induction ns) auto
  then have "sort_key igName (map ?g ns) = map ?g (sort ns)" for ns
    by (induction ns) auto
  then have "finishGroups groups = map ?g (sort (map fst groups))"
    by (simp only: finishGroups_def eq)
  moreover have "sort (map fst groups) = sort (remdups (map k ps))"
    using d ks by (metis distinct_remdups set_remdups sorted_list_of_set_sort_remdups distinct_remdups_id)
  ultimately show ?thesis by (simp add: groupsBy_def)
qed


end
