(* ===== verification/BootstrapProps.thy ===== *)
theory BootstrapProps
  imports Bootstrap
begin

text \<open>
  What a new instance reads of the script it is given: the variables at its head, and the texts that
  go through the here-document into the agent's YAML configuration.
\<close>

section \<open>Texts that come back unchanged\<close>

lemma asRead_noctl: "list_all (\<lambda>c. \<not> isSpace c) v \<Longrightarrow> asRead v = v"
  by (intro asRead_plain) (auto simp: list_all_iff isSpace_def)

section \<open>The variables of the script\<close>

text \<open>What the script sets, with the values as configured.\<close>

definition bootstrapVariables :: "bootstrap_config \<Rightarrow> (string \<times> string) list" where
  "bootstrapVariables cfg =
     [(''INSTALL_ROOT'', ''/opt/mini-cloud''),
      (''AGENT_BINARY_URL'', bcAgentBinaryURL cfg),
      (''CA_CERT_BASE64'', base64Std (trimSpace (bcCACert cfg))),
      (''DOCKER_DAEMON_JSON_BASE64'', base64Std (buildDockerDaemonJSON (bcDockerRegistryMirrors cfg))),
      (''DOCKER_NO_PROXY'', joinStr '','' (cleanNoProxyItems (bcNoProxyItems cfg))),
      (''WORKLOAD_PROXY_ENDPOINT'', trimSpace (bcWorkloadProxyEndpoint cfg)),
      (''NODE_AGENT_TOKEN'', trimSpace (bcToken cfg)),
      (''BOOTSTRAP_LOG'', ''/var/log/mini-cloud-node-bootstrap.log''),
      (''METADATA_BASE'', bcMetadataBase cfg)]"

definition assignmentLine :: "string \<times> string \<Rightarrow> string" where
  "assignmentLine nv = fst nv @ [CHR ''=''] @ shellQuote (snd nv) @ [CHR 0x0A]"

definition scriptHeader :: string where
  "scriptHeader = ''#!/usr/bin/env bash'' @ [CHR 0x0A] @ ''set -euo pipefail'' @ [CHR 0x0A] @ [CHR 0x0A]"

lemma scriptVariables_lines:
  "scriptVariables (bootstrapData cfg) =
     scriptHeader @ concat (map assignmentLine (bootstrapVariables cfg)) @ [CHR 0x0A]"
  by (simp add: scriptVariables_def bootstrapData_def bootstrapVariables_def assignmentLine_def scriptHeader_def)

lemma skip_header: "skipLines 3 (scriptHeader @ s) = s"
  by (simp add: scriptHeader_def eval_nat_numeral)

lemma bashAssignments_lines:
  assumes "\<And>nv. nv \<in> set ls \<Longrightarrow> list_all isNameChar (fst nv) \<and> fst nv \<noteq> []"
  shows "bashAssignments (length ls + k) (concat (map assignmentLine ls) @ rest)
    = map (\<lambda>(n, v). (n, asRead v)) ls @ bashAssignments k rest"
  using assms
proof (induction ls)
  case (Cons nv ls)
  have "list_all isNameChar (fst nv)" "fst nv \<noteq> []" using Cons.prems [of nv] by auto
  from bashAssignments_line [OF this, of "length ls + k" "snd nv" "concat (map assignmentLine ls) @ rest"]
  moreover have "concat (map assignmentLine (nv # ls)) @ rest =
      fst nv @ [CHR ''=''] @ shellQuote (snd nv) @ [CHR 0x0A] @ concat (map assignmentLine ls) @ rest"
    by (simp add: assignmentLine_def)
  moreover have "length (nv # ls) + k = Suc (length ls + k)" by simp
  moreover have "bashAssignments (length ls + k) (concat (map assignmentLine ls) @ rest)
      = map (\<lambda>(n, v). (n, asRead v)) ls @ bashAssignments k rest"
    using Cons by simp
  ultimately show ?case by (simp only: list.map case_prod_unfold append_Cons)
qed simp

lemma bashAssignments_blank: "bashAssignments k (CHR 0x0A # s) = []"
  by (cases k) (simp_all add: isNameChar_def)

lemma bootstrapVariables_names:
  "list_all (\<lambda>nv. list_all isNameChar (fst nv) \<and> fst nv \<noteq> []) (bootstrapVariables cfg)"
  by (simp add: bootstrapVariables_def isNameChar_def)


section \<open>The agent's configuration\<close>

text \<open>
  A here-document without quotes: a backslash is special only before a dollar sign, a backquote, a
  backslash or a newline; an unescaped dollar sign or backquote starts an expansion (None).
\<close>

fun heredocText :: "string \<Rightarrow> string option" where
  "heredocText [] = Some []"
| "heredocText (c # s) =
     (if c = CHR ''$'' \<or> c = CHR 0x60 then None
      else if c = CHR 0x5C then
        (case s of
           [] \<Rightarrow> Some [c]
         | d # s' \<Rightarrow>
             if d \<in> {CHR ''$'', CHR 0x60, CHR 0x5C} then map_option (Cons d) (heredocText s')
             else if d = CHR 0x0A then heredocText s'
             else map_option (Cons c) (heredocText s))
      else map_option (Cons c) (heredocText s))"

text \<open>The rest of a double-quoted scalar of YAML on one line, with the escapes used here; None for others.\<close>

fun yamlQuoted :: "string \<Rightarrow> string option" where
  "yamlQuoted [] = None"
| "yamlQuoted (c # s) =
     (if c = CHR 0x22 then (if s = [] then Some [] else None)
      else if c = CHR 0x5C then
        (case s of
           [] \<Rightarrow> None
         | d # s' \<Rightarrow>
             (if d = CHR 0x22 \<or> d = CHR 0x5C then map_option (Cons d) (yamlQuoted s')
              else if d = CHR ''n'' then map_option (Cons (CHR 0x0A)) (yamlQuoted s')
              else if d = CHR ''r'' then map_option (Cons (CHR 0x0D)) (yamlQuoted s')
              else if d = CHR ''t'' then map_option (Cons (CHR 0x09)) (yamlQuoted s')
              else None))
      else map_option (Cons c) (yamlQuoted s))"

definition yamlScalar :: "string \<Rightarrow> string option" where
  "yamlScalar s = (if hasPrefix s [CHR 0x22] then yamlQuoted (drop 1 s) else None)"

lemma heredoc_shellChar:
  assumes "c \<noteq> CHR 0x5C" and "heredocText s = Some t"
  shows "\<exists>u. heredocText (shellChar c @ s) = Some (u @ t) \<and> (\<forall>r v. yamlQuoted r = Some v \<longrightarrow> yamlQuoted (u @ r) = Some (c # v))"
  using assms by (auto simp: shellChar_def)

lemma heredoc_value:
  assumes "CHR 0x5C \<notin> set v"
  shows "\<exists>t. heredocText (concat (map shellChar v) @ [CHR 0x22]) = Some t \<and> yamlQuoted t = Some v"
  using assms
proof (induction v)
  case (Cons c v)
  then obtain t where t: "heredocText (concat (map shellChar v) @ [CHR 0x22]) = Some t" "yamlQuoted t = Some v" by auto
  with heredoc_shellChar [of c "concat (map shellChar v) @ [CHR 0x22]" t] Cons.prems show ?case by fastforce
qed simp

text \<open>
  The agent reads the configured values.  A value of the agent's configuration that the template
  writes with its quotes (endpoint, platform, provider, region, instance type, proxy) comes through the
  here-document and YAML as it was configured, also with quotes, dollar signs, backquotes, newlines and
  tabs, as long as it has no backslash.
\<close>

theorem agent_config_reads_value:
  assumes "CHR 0x5C \<notin> set v"
  shows "Option.bind (heredocText (shellQuote v)) yamlScalar = Some v"
  using heredoc_value [OF assms] by (auto simp: shellQuote_def yamlScalar_def hasPrefix_def)

theorem agent_config_reads_value_witness:
  "Option.bind (heredocText (shellQuote ''a$b'')) yamlScalar = Some ''a$b''"
  by (rule agent_config_reads_value) simp

text \<open>With a backslash it does not: the here-document halves it and YAML takes it for an escape.\<close>

lemma agent_config_loses_backslash:
  "Option.bind (heredocText (shellQuote [CHR 0x5C, CHR ''n''])) yamlScalar = Some [CHR 0x0A]"
  by code_simp

end
