(* ===== verification/ControlAuth.thy ===== *)
theory ControlAuth
  imports PlaneViews GoText
begin

text \<open>
  internal/controlplane/api/auth.go and middleware.go: who may use the control-plane's HTTP API.  Gin's
  request is a record of what the code reads of it; HMAC-SHA256 and SHA-256 are parameters.
\<close>

section \<open>Requests and responses\<close>

text \<open>
  The path is the list of its segments, with the parameters already decoded; a missing header or query
  parameter is the empty text; a cookie is None when it is missing or cannot be decoded.
\<close>

record http_request =
  hqMethod :: string
  hqPath :: "string list"
  hqQuery :: "string \<Rightarrow> string"
  hqHeader :: "string \<Rightarrow> string"
  hqCookie :: "string \<Rightarrow> string option"
  hqTLS :: bool
  hqBody :: string

record http_cookie =
  hcName :: string
  hcValue :: string
  hcPath :: string
  hcExpires :: "instant option"
  hcMaxAge :: int
  hcHttpOnly :: bool
  hcSecure :: bool

section \<open>Integers and cuts\<close>

text \<open>strconv.ParseInt with base 10 and 64 bits.\<close>

definition parseInt64 :: "string \<Rightarrow> int option" where
  "parseInt64 s =
     (let neg = hasPrefix s ''-''; ds = (if hasPrefix s ''-'' \<or> hasPrefix s ''+'' then drop 1 s else s);
          n = foldl (\<lambda>n c. 10 * n + (of_char c - 48)) (0::int) ds; v = (if neg then - n else n)
      in if ds = [] \<or> \<not> list_all (\<lambda>c. CHR ''0'' \<le> c \<and> c \<le> CHR ''9'') ds then None
         else if v < - (2 ^ 63) \<or> 2 ^ 63 \<le> v then None
         else Some v)"

text \<open>strings.Cut at one character.\<close>

definition cutAt :: "char \<Rightarrow> string \<Rightarrow> (string \<times> string) option" where
  "cutAt sep s = (if sep \<in> set s then Some (takeWhile (\<lambda>c. c \<noteq> sep) s, drop 1 (dropWhile (\<lambda>c. c \<noteq> sep) s)) else None)"

section \<open>auth.go\<close>

definition sessionCookieName :: string where "sessionCookieName = ''mini_cloud_session''"

definition sessionTTL :: int where "sessionTTL = secondsDur (24 * 60 * 60)"

record admin_auth =
  aaToken :: string
  aaSHA256 :: "string \<Rightarrow> string"
  aaHMAC :: "string \<Rightarrow> string \<Rightarrow> string"

definition newAdminAuth :: "(string \<Rightarrow> string) \<Rightarrow> (string \<Rightarrow> string \<Rightarrow> string) \<Rightarrow> string \<Rightarrow> admin_auth" where
  "newAdminAuth sha hmac token = \<lparr>aaToken = trimSpace token, aaSHA256 = sha, aaHMAC = hmac\<rparr>"

definition sessionSignature :: "admin_auth \<Rightarrow> string \<Rightarrow> string" where
  "sessionSignature a expires = base64RawURL (aaHMAC a (aaToken a) (''mini-cloud-control-plane-session:'' @ expires))"

definition unixSeconds :: "instant \<Rightarrow> int" where
  "unixSeconds t = nanos t div 1000000000"

definition sessionCookieValue :: "admin_auth \<Rightarrow> instant \<Rightarrow> string" where
  "sessionCookieValue a expiresAt =
     (let expires = itoa (unixSeconds expiresAt) in expires @ ''.'' @ sessionSignature a expires)"

text \<open>time.Unix: the seconds since the year 1 are an int64 that wraps.\<close>

definition timeUnix :: "int \<Rightarrow> instant" where
  "timeUnix sec = Instant ((goInt64 (sec + 62135596800) - 62135596800) * 1000000000)"

definition validBearer :: "admin_auth \<Rightarrow> http_request \<Rightarrow> bool" where
  "validBearer a rq \<longleftrightarrow>
     (let authorization = trimSpace (hqHeader rq ''Authorization'') in
      if authorization = [] then False
      else (case ParseBearer authorization of
              None \<Rightarrow> False
            | Some s \<Rightarrow> BearerMatches (aaSHA256 a) s (aaToken a)))"

definition validSession :: "admin_auth \<Rightarrow> instant \<Rightarrow> http_request \<Rightarrow> bool" where
  "validSession a now rq \<longleftrightarrow>
     (case hqCookie rq sessionCookieName of
        None \<Rightarrow> False
      | Some cookie \<Rightarrow>
          (case cutAt CHR ''.'' cookie of
             None \<Rightarrow> False
           | Some (expiresAt, signature) \<Rightarrow>
               (case parseInt64 expiresAt of
                  None \<Rightarrow> False
                | Some expiresUnix \<Rightarrow>
                    if timeUnix expiresUnix < now then False
                    else signature = sessionSignature a expiresAt)))"

definition allowed :: "admin_auth \<Rightarrow> instant \<Rightarrow> http_request \<Rightarrow> bool" where
  "allowed a now rq \<longleftrightarrow> validBearer a rq \<or> validSession a now rq"

definition requestIsHTTPS :: "http_request \<Rightarrow> bool" where
  "requestIsHTTPS rq \<longleftrightarrow> hqTLS rq \<or> equalFold (hqHeader rq ''X-Forwarded-Proto'') ''https''
     \<or> equalFold (hqHeader rq ''X-Forwarded-Protocol'') ''https''"

text \<open>The outcome of a login: a status, and the cookie that is set.  Gin's decoder is a parameter.\<close>

definition loginOutcome ::
  "(string \<Rightarrow> string res) \<Rightarrow> admin_auth \<Rightarrow> instant \<Rightarrow> http_request \<Rightarrow> int \<times> string \<times> http_cookie option" where
  "loginOutcome decode a now rq =
     (case decode (hqBody rq) of
        Inl _ \<Rightarrow> (400, ''invalid json body'', None)
      | Inr token \<Rightarrow>
          if \<not> BearerMatches (aaSHA256 a) token (aaToken a) then (401, ''invalid admin token'', None)
          else
            (let expiresAt = addDur now sessionTTL in
             (200, [], Some \<lparr>hcName = sessionCookieName, hcValue = sessionCookieValue a expiresAt, hcPath = ''/'',
                hcExpires = Some expiresAt, hcMaxAge = sessionTTL div 1000000000, hcHttpOnly = True,
                hcSecure = requestIsHTTPS rq\<rparr>)))"

definition logoutCookie :: "http_request \<Rightarrow> http_cookie" where
  "logoutCookie rq = \<lparr>hcName = sessionCookieName, hcValue = [], hcPath = ''/'', hcExpires = None, hcMaxAge = - 1,
     hcHttpOnly = True, hcSecure = requestIsHTTPS rq\<rparr>"

section \<open>middleware.go\<close>

fun firstHeader :: "http_request \<Rightarrow> string list \<Rightarrow> string" where
  "firstHeader rq [] = []"
| "firstHeader rq (name # names) =
     (if trimSpace (hqHeader rq name) \<noteq> [] then trimSpace (hqHeader rq name) else firstHeader rq names)"

text \<open>internal/transport/request_id.go: the random bytes are None when reading them fails.\<close>

definition EnsureRequestID :: "nat list option \<Rightarrow> string \<Rightarrow> string" where
  "EnsureRequestID raw v =
     (if trimSpace v \<noteq> [] then trimSpace v
      else (case raw of Some bs \<Rightarrow> hexEncode bs | None \<Rightarrow> ''request-id-unavailable''))"

record request_context =
  rqRequestID :: string
  rqCredential :: "tencent_credential option"

definition ginRequestContext :: "nat list option \<Rightarrow> http_request \<Rightarrow> request_context" where
  "ginRequestContext raw rq =
     \<lparr>rqRequestID = EnsureRequestID raw (hqHeader rq ''X-Request-ID''),
      rqCredential = ContextWithTencentCredential None
        \<lparr>tcrSecretID = firstHeader rq [''X-Scf-Secret-Id'', ''X-Scf-Secret-ID''],
         tcrSecretKey = firstHeader rq [''X-Scf-Secret-Key''],
         tcrSessionToken = firstHeader rq [''X-Scf-Session-Token'', ''X-Scf-Token'']\<rparr>\<rparr>"

section \<open>A session is read back\<close>

definition decVal :: "string \<Rightarrow> int" where
  "decVal ds = foldl (\<lambda>n c. 10 * n + (of_char c - 48)) 0 ds"

lemma decDigits_props:
  "decVal (decDigits n) = int n \<and> list_all (\<lambda>c. CHR ''0'' \<le> c \<and> c \<le> CHR ''9'') (decDigits n) \<and> decDigits n \<noteq> []"
proof (induction n rule: decDigits.induct)
  case (1 n)
  have d: "CHR ''0'' \<le> char_of (48 + m) \<and> char_of (48 + m) \<le> CHR ''9'' \<and> (of_char (char_of (48 + m) :: char) :: int) = 48 + int m"
    if "m < 10" for m :: nat
  proof -
    have "m \<in> set [0..<10]" using that by simp
    moreover have "list_all (\<lambda>m. CHR ''0'' \<le> char_of (48 + m) \<and> char_of (48 + m) \<le> CHR ''9'' \<and>
        (of_char (char_of (48 + m) :: char) :: int) = 48 + int m) [0..<10]" by code_simp
    ultimately show ?thesis unfolding list_all_iff by blast
  qed
  show ?case
  proof (cases "n < 10")
    case True
    then show ?thesis using d [OF True] by (simp add: decDigits.simps [of n] decVal_def)
  next
    case False
    have "int n = 10 * int (n div 10) + int (n mod 10)" by presburger
    then show ?thesis
      using False 1 [OF False] d [of "n mod 10"] by (simp add: decDigits.simps [of n] decVal_def)
  qed
qed

lemma digit_not_special: "CHR ''0'' \<le> c \<Longrightarrow> c \<le> CHR ''9'' \<Longrightarrow> c \<noteq> CHR ''-'' \<and> c \<noteq> CHR ''+'' \<and> c \<noteq> CHR ''.''"
  by (auto simp: less_eq_char_def)

lemma parseInt64_itoa:
  assumes "0 \<le> i" "i < 2 ^ 63"
  shows "parseInt64 (itoa i) = Some i" and "CHR ''.'' \<notin> set (itoa i)"
proof -
  let ?ds = "decDigits (nat i)"
  have i: "itoa i = ?ds" using assms(1) by (simp add: itoa_def)
  have p: "decVal ?ds = i" "list_all (\<lambda>c. CHR ''0'' \<le> c \<and> c \<le> CHR ''9'') ?ds" "?ds \<noteq> []"
    using decDigits_props [of "nat i"] assms(1) by simp_all
  then obtain c cs where c: "?ds = c # cs" by (cases ?ds) auto
  then have "c \<noteq> CHR ''-''" "c \<noteq> CHR ''+''" using p(2) digit_not_special by auto
  then have "\<not> hasPrefix ?ds ''-''" "\<not> hasPrefix ?ds ''+''" using c by (simp_all add: hasPrefix_def)
  then show "parseInt64 (itoa i) = Some i"
    using p assms unfolding parseInt64_def i decVal_def by (simp add: Let_def)
  show "CHR ''.'' \<notin> set (itoa i)"
    using p(2) digit_not_special unfolding i list_all_iff by blast
qed

lemma cutAt_first: "sep \<notin> set x \<Longrightarrow> cutAt sep (x @ [sep] @ y) = Some (x, y)"
  by (simp add: cutAt_def takeWhile_append dropWhile_append)

lemma cutAt_SomeD:
  assumes "cutAt sep s = Some (x, y)"
  shows "s = x @ [sep] @ y"
proof -
  have "sep \<in> set s" using assms by (auto simp: cutAt_def split: if_splits)
  then obtain xs ys where s: "s = xs @ sep # ys" "sep \<notin> set xs" by (meson split_list_first)
  then have "cutAt sep s = Some (xs, ys)" using cutAt_first [of sep xs ys] by simp
  then show ?thesis using assms s(1) by simp
qed

lemma session_needs_signature:
  assumes "validSession a now rq"
  shows "\<exists>expires sec. hqCookie rq sessionCookieName = Some (expires @ [CHR ''.''] @ sessionSignature a expires)
     \<and> parseInt64 expires = Some sec \<and> \<not> timeUnix sec < now"
proof -
  obtain cookie expires signature sec where c: "hqCookie rq sessionCookieName = Some cookie"
      "cutAt CHR ''.'' cookie = Some (expires, signature)" "parseInt64 expires = Some sec"
      "\<not> timeUnix sec < now" "signature = sessionSignature a expires"
    using assms by (auto simp: validSession_def split: option.splits if_splits)
  then show ?thesis using cutAt_SomeD [OF c(2)] by blast
qed

text \<open>
  C38: A session lasts a day, and cannot be made up.  With the cookie that a login at a time after 1970
  set, a request passes exactly until the whole second in which the 24 hours end; and whatever cookie a
  request brings, it passes only if it is a decimal expiry that has not passed with the HMAC of that text
  under the admin token.
\<close>

theorem session_lasts_a_day:
  assumes "loginOutcome decode a t login = (200, [], Some cookie)"
    and "0 \<le> nanos t" "nanos t < 2 ^ 63" and "hqCookie rq sessionCookieName = Some (hcValue cookie)"
  shows "(validSession a now rq \<longleftrightarrow> nanos now \<le> (nanos t + sessionTTL) div 1000000000 * 1000000000) \<and>
    (validSession a now rq' \<longrightarrow>
       (\<exists>expires sec. hqCookie rq' sessionCookieName = Some (expires @ [CHR ''.''] @ sessionSignature a expires)
          \<and> parseInt64 expires = Some sec \<and> \<not> timeUnix sec < now))"
proof -
  let ?sec = "(nanos t + sessionTTL) div 1000000000"
  have ttl: "sessionTTL = 86400000000000" by (simp add: sessionTTL_def secondsDur_def)
  have r: "0 \<le> ?sec" "?sec < 2 ^ 62" using assms(2,3) by (simp_all add: ttl)
  have v: "hcValue cookie = itoa ?sec @ [CHR ''.''] @ sessionSignature a (itoa ?sec)"
    using assms(1) by (auto simp: loginOutcome_def Let_def sessionCookieValue_def unixSeconds_def addDur_def split: sum.splits if_splits)
  have "goInt64 (?sec + 62135596800) = ?sec + 62135596800" using r by (intro goInt64_id) simp_all
  then have u: "timeUnix ?sec = Instant (?sec * 1000000000)" by (simp add: timeUnix_def)
  have "?sec < 2 ^ 63" using r(2) by simp
  note p = parseInt64_itoa [OF r(1) this]
  have "validSession a now rq \<longleftrightarrow> \<not> timeUnix ?sec < now"
    unfolding validSession_def assms(4) v by (simp add: cutAt_first [OF p(2), simplified] p(1))
  then have "validSession a now rq \<longleftrightarrow> nanos now \<le> ?sec * 1000000000"
    by (simp add: u less_instant_def not_less)
  then show ?thesis using session_needs_signature by blast
qed

text \<open>A login with the right token; the digests are the texts themselves.\<close>

definition demoAuth :: admin_auth where
  "demoAuth = newAdminAuth id (\<lambda>k m. k @ m) ''secret''"

definition demoLogin :: http_request where
  "demoLogin = \<lparr>hqMethod = ''POST'', hqPath = [''api'', ''v1'', ''login''], hqQuery = (\<lambda>_. []), hqHeader = (\<lambda>_. []),
     hqCookie = (\<lambda>_. None), hqTLS = True, hqBody = ''secret''\<rparr>"

definition demoCookie :: http_cookie where
  "demoCookie = the (snd (snd (loginOutcome Inr demoAuth (Instant 0) demoLogin)))"

theorem session_lasts_a_day_witness:
  "validSession demoAuth (Instant sessionTTL) (demoLogin\<lparr>hqCookie := (\<lambda>_. Some (hcValue demoCookie))\<rparr>) \<and>
   \<not> validSession demoAuth (Instant (sessionTTL + 1)) (demoLogin\<lparr>hqCookie := (\<lambda>_. Some (hcValue demoCookie))\<rparr>)"
proof -
  have ok: "loginOutcome Inr demoAuth (Instant 0) demoLogin = (200, [], Some demoCookie)"
  proof -
    have "BearerMatches (aaSHA256 demoAuth) (hqBody demoLogin) (aaToken demoAuth)"
      by (simp add: BearerMatches_def demoAuth_def newAdminAuth_def demoLogin_def trimSpace_def trimBoth_def isSpace_def)
    then show ?thesis by (simp add: demoCookie_def loginOutcome_def Let_def)
  qed
  have t: "(sessionTTL::int) div 1000000000 * 1000000000 = sessionTTL" by (simp add: sessionTTL_def secondsDur_def)
  let ?rq = "demoLogin\<lparr>hqCookie := (\<lambda>_. Some (hcValue demoCookie))\<rparr>"
  have "validSession demoAuth (Instant n) ?rq \<longleftrightarrow> n \<le> sessionTTL" for n
    using session_lasts_a_day [OF ok, of ?rq "Instant n"] t by simp
  then show ?thesis by simp
qed

end
