(* ===== verification/ControlHttp.thy ===== *)
theory ControlHttp
  imports ControlAuth Inventory ServiceOps
begin

text \<open>
  internal/controlplane/api: the HTTP API of the control-plane (services.go, planes.go, metrics.go,
  router.go).  A handler takes a request and a world and returns a response and a world.  Gin is not
  modelled beyond what the code states: the matching of a path with a route, and the decoders of JSON
  bodies as parameters.  Metadata and spec of a service resource have the fields of the model's types
  and are those.
\<close>

section \<open>Resources\<close>

record service_resource =
  srMetadata :: cp_metadata
  srSpec :: cp_spec
  srPhase :: string
  srMessage :: string
  srObservedGeneration :: int
  srLastObservedAt :: "instant option"
  srRun :: run_status
  srFrontDoor :: cp_frontdoor

record service_create_request =
  sqName :: string
  sqDisplayName :: string
  sqSpec :: "cp_spec option"

record service_update_request =
  suDisplayName :: string
  suSpec :: "workload_spec option"

record plane_resource =
  prID :: string
  prName :: string
  prDisplayName :: string
  prProvider :: string
  prRegion :: string
  prGRPCEndpoint :: string
  prStatus :: plane_status

datatype http_body =
    ErrorBody string
  | StatusOK
  | DNSFailed string
  | Healthz string
  | ServiceBody service_resource
  | ServiceList "service_resource list"
  | PlaneBody plane_resource
  | PlaneList "plane_resource list"
  | InventoryBody inventory_view
  | MetricsText string
  | StaticBody string

record http_response =
  hrStatus :: int
  hrBody :: http_body
  hrCookie :: "http_cookie option"

definition answer :: "int \<Rightarrow> http_body \<Rightarrow> http_response" where
  "answer st body = \<lparr>hrStatus = st, hrBody = body, hrCookie = None\<rparr>"

definition internalError :: http_response where
  "internalError = answer 500 (ErrorBody ''internal server error'')"

section \<open>services.go\<close>

definition buildServiceRun :: "run_status \<Rightarrow> run_status" where
  "buildServiceRun r = \<lparr>rnPhase = rnPhase r, rnMessage = rnMessage r\<rparr>"

definition buildServiceFrontDoor :: "cp_frontdoor \<Rightarrow> cp_frontdoor" where
  "buildServiceFrontDoor f = \<lparr>cfCNAME = cfCNAME f, cfVerification = map_option
     (\<lambda>v. \<lparr>cdHost = cdHost v, cdRecordType = cdRecordType v, cdValue = cdValue v\<rparr>) (cfVerification f)\<rparr>"

definition serviceSpecFromModel :: "cp_spec \<Rightarrow> cp_spec" where
  "serviceSpecFromModel s = \<lparr>csPlaneID = csPlaneID s, csInstanceClass = csInstanceClass s, csExposure = csExposure s,
     csImage = csImage s, csCommand = csCommand s, csArgs = csArgs s, csDefaultPort = csDefaultPort s,
     csReadinessPath = csReadinessPath s, csEnv = csEnv s\<rparr>"

definition buildServiceResource :: "cp_service \<Rightarrow> service_resource" where
  "buildServiceResource v =
     \<lparr>srMetadata = \<lparr>cmID = cmID (cpMetadata v), cmName = cmName (cpMetadata v), cmDisplayName = cmDisplayName (cpMetadata v),
        cmHost = cmHost (cpMetadata v), cmGeneration = cmGeneration (cpMetadata v)\<rparr>,
      srSpec = serviceSpecFromModel (cpSpec v), srPhase = osPhase (cpObserved v), srMessage = osMessage (cpObserved v),
      srObservedGeneration = osObservedGeneration (cpObserved v), srLastObservedAt = osLastObservedAt (cpObserved v),
      srRun = buildServiceRun (cpRun v), srFrontDoor = buildServiceFrontDoor (cpFrontDoor v)\<rparr>"

definition errServiceSpecRequired :: goerr where
  "errServiceSpecRequired = Sentinel ''spec is required''"

definition toServiceSpec :: "cp_spec \<Rightarrow> cp_spec" where
  "toServiceSpec s = \<lparr>csPlaneID = trimSpace (csPlaneID s), csInstanceClass = trimSpace (csInstanceClass s),
     csExposure = trimSpace (csExposure s), csImage = trimSpace (csImage s), csCommand = csCommand s, csArgs = csArgs s,
     csDefaultPort = csDefaultPort s, csReadinessPath = trimSpace (csReadinessPath s), csEnv = csEnv s\<rparr>"

definition toWorkloadSpec :: "workload_spec \<Rightarrow> workload_spec" where
  "toWorkloadSpec s = \<lparr>wsInstanceClass = trimSpace (wsInstanceClass s), wsExposure = trimSpace (wsExposure s),
     wsImage = trimSpace (wsImage s), wsCommand = wsCommand s, wsArgs = wsArgs s, wsDefaultPort = wsDefaultPort s,
     wsReadinessPath = trimSpace (wsReadinessPath s), wsEnv = wsEnv s\<rparr>"

definition toCreateInput :: "service_create_request \<Rightarrow> create_service_input res" where
  "toCreateInput r =
     (case sqSpec r of
        None \<Rightarrow> Inl errServiceSpecRequired
      | Some s \<Rightarrow> Inr \<lparr>ciName = trimSpace (sqName r), ciDisplayName = trimSpace (sqDisplayName r), ciSpec = toServiceSpec s\<rparr>)"

definition toUpdateInput :: "service_update_request \<Rightarrow> string \<Rightarrow> string \<Rightarrow> update_service_input res" where
  "toUpdateInput r planeID sid =
     (case suSpec r of
        None \<Rightarrow> Inl errServiceSpecRequired
      | Some s \<Rightarrow> Inr \<lparr>uiPlaneID = trimSpace planeID, uiServiceID = trimSpace sid,
          uiDisplayName = trimSpace (suDisplayName r), uiSpec = toWorkloadSpec s\<rparr>)"

definition listServicesHTTP :: "'w service_operations \<Rightarrow> 'w \<Rightarrow> http_response \<times> 'w" where
  "listServicesHTTP so w =
     (case ListCPServices so w of
        (Inl _, w1) \<Rightarrow> (internalError, w1)
      | (Inr items, w1) \<Rightarrow> (answer 200 (ServiceList (map buildServiceResource items)), w1))"

definition createServiceHTTP ::
  "(string \<Rightarrow> service_create_request res) \<Rightarrow> 'w service_operations \<Rightarrow> nat list res \<Rightarrow> http_request \<Rightarrow> 'w \<Rightarrow> http_response \<times> 'w" where
  "createServiceHTTP decode so entropy rq w =
     (case decode (hqBody rq) of
        Inl _ \<Rightarrow> (answer 400 (ErrorBody ''invalid json body''), w)
      | Inr request \<Rightarrow>
          (case toCreateInput request of
             Inl err \<Rightarrow> (answer 400 (ErrorBody (errText err)), w)
           | Inr i \<Rightarrow>
               (case CreateService so entropy i w of
                  (Inl err, w1) \<Rightarrow>
                    ((if IsServiceInputError err then answer 400 (ErrorBody (errText err))
                      else if errorsIs err ErrPlaneNotFound then answer 404 (ErrorBody (errText err))
                      else internalError), w1)
                | (Inr v, w1) \<Rightarrow> (answer 201 (ServiceBody (buildServiceResource v)), w1))))"

definition getServiceHTTP :: "'w service_operations \<Rightarrow> string \<Rightarrow> http_request \<Rightarrow> 'w \<Rightarrow> http_response \<times> 'w" where
  "getServiceHTTP so param rq w =
     (let sid = trimSpace param; planeID = trimSpace (hqQuery rq ''planeID'') in
      if sid = [] then (answer 400 (ErrorBody ''serviceID is required''), w)
      else if planeID = [] then (answer 400 (ErrorBody ''planeID is required''), w)
      else (case GetService so planeID sid w of
              (Inl err, w1) \<Rightarrow>
                ((if errorsIs err ErrServiceNotFoundCP then answer 404 (ErrorBody (errText err)) else internalError), w1)
            | (Inr v, w1) \<Rightarrow> (answer 200 (ServiceBody (buildServiceResource v)), w1)))"

definition updateServiceHTTP ::
  "(string \<Rightarrow> service_update_request res) \<Rightarrow> 'w service_operations \<Rightarrow> string \<Rightarrow> http_request \<Rightarrow> 'w \<Rightarrow> http_response \<times> 'w" where
  "updateServiceHTTP decode so param rq w =
     (let sid = trimSpace param; planeID = trimSpace (hqQuery rq ''planeID'') in
      if sid = [] then (answer 400 (ErrorBody ''serviceID is required''), w)
      else (case decode (hqBody rq) of
              Inl _ \<Rightarrow> (answer 400 (ErrorBody ''invalid json body''), w)
            | Inr request \<Rightarrow>
                if planeID = [] then (answer 400 (ErrorBody ''planeID is required''), w)
                else (case toUpdateInput request planeID sid of
                        Inl err \<Rightarrow> (answer 400 (ErrorBody (errText err)), w)
                      | Inr i \<Rightarrow>
                          (case UpdateService so i w of
                             (Inl err, w1) \<Rightarrow>
                               ((if IsServiceInputError err then answer 400 (ErrorBody (errText err))
                                 else if errorsIs err ErrServiceNotFoundCP then answer 404 (ErrorBody (errText err))
                                 else if errorsIs err ErrPlaneNotFound then answer 404 (ErrorBody (errText err))
                                 else internalError), w1)
                           | (Inr v, w1) \<Rightarrow> (answer 200 (ServiceBody (buildServiceResource v)), w1)))))"

definition deleteServiceHTTP :: "'w service_operations \<Rightarrow> string \<Rightarrow> http_request \<Rightarrow> 'w \<Rightarrow> http_response \<times> 'w" where
  "deleteServiceHTTP so param rq w =
     (let sid = trimSpace param; planeID = trimSpace (hqQuery rq ''planeID'') in
      if sid = [] then (answer 400 (ErrorBody ''serviceID is required''), w)
      else if planeID = [] then (answer 400 (ErrorBody ''planeID is required''), w)
      else (case DeleteCPService so planeID sid w of
              (Inl err, w1) \<Rightarrow>
                ((if errorsIs err ErrServiceNotFoundCP then answer 404 (ErrorBody (errText err)) else internalError), w1)
            | (Inr v, w1) \<Rightarrow> (answer 200 (ServiceBody (buildServiceResource v)), w1)))"

section \<open>planes.go\<close>

definition buildPlaneResource :: "plane_view \<Rightarrow> plane_resource" where
  "buildPlaneResource v =
     (let p = pvPlane v; st = plStatus p in
      \<lparr>prID = plID p, prName = plName p, prDisplayName = plDisplayName p, prProvider = plProvider p,
       prRegion = plRegion p, prGRPCEndpoint = plGRPCEndpoint p,
       prStatus = \<lparr>pstPlaneID = pstPlaneID st, pstStatus = pstStatus st, pstMessage = pstMessage st,
         pstLastHeartbeatAt = pstLastHeartbeatAt st, pstLastSyncAt = pstLastSyncAt st\<rparr>\<rparr>)"

definition withViews ::
  "'w plane_syncer \<Rightarrow> ('w \<Rightarrow> plane_view list \<Rightarrow> http_body) \<Rightarrow> 'w \<Rightarrow> http_response \<times> 'w" where
  "withViews sy body w =
     (case ListPlaneSnapshotViews sy w of
        (Inl _, w1) \<Rightarrow> (internalError, w1)
      | (Inr views, w1) \<Rightarrow> (answer 200 (body w1 views), w1))"

definition listPlanesHTTP :: "'w plane_syncer \<Rightarrow> 'w \<Rightarrow> http_response \<times> 'w" where
  "listPlanesHTTP sy = withViews sy (\<lambda>_ views. PlaneList (map buildPlaneResource views))"

definition inventoryHTTP :: "'w plane_syncer \<Rightarrow> 'w \<Rightarrow> http_response \<times> 'w" where
  "inventoryHTTP sy = withViews sy (\<lambda>w views. InventoryBody (buildInventoryView (syNow sy w) views))"

definition checkDNSHTTP :: "'w plane_syncer \<Rightarrow> 'w \<Rightarrow> http_response \<times> 'w" where
  "checkDNSHTTP sy w =
     (case CheckDNS sy w of
        (Inl err, w1) \<Rightarrow> (answer 502 (DNSFailed (errText err)), w1)
      | (Inr _, w1) \<Rightarrow> (answer 200 StatusOK, w1))"

definition getPlaneHTTP :: "'w plane_syncer \<Rightarrow> string \<Rightarrow> 'w \<Rightarrow> http_response \<times> 'w" where
  "getPlaneHTTP sy planeID w =
     (if planeID = [] then (answer 400 (ErrorBody ''planeID is required''), w)
      else (case GetPlaneSnapshotView sy planeID w of
              (Inl err, w1) \<Rightarrow>
                ((if errorsIs err ErrPlaneNotFound then answer 404 (ErrorBody (errText err)) else internalError), w1)
            | (Inr v, w1) \<Rightarrow> (answer 200 (PlaneBody (buildPlaneResource v)), w1)))"

section \<open>metrics.go\<close>

text \<open>The text that %.0f prints of a duration in seconds, a float64, is a parameter.\<close>

definition metricLine :: "string \<Rightarrow> string" where
  "metricLine t = t @ [CHR 0x0A]"

definition planeMetrics :: "(int \<Rightarrow> string) \<Rightarrow> instant \<Rightarrow> plane_detail \<Rightarrow> string" where
  "planeMetrics fmtSeconds now item =
     concat (map (\<lambda>st. metricLine (''minicloud_plane_status{name='' @ goQuote (plName item) @ '',plane_id='' @ goQuote (plID item)
         @ '',status='' @ goQuote st @ ''} '' @ itoa (if pstStatus (plStatus item) = st then 1 else 0)))
       [PlaneSyncing, PlaneReady, PlaneDegraded, PlaneOffline])
     @ (case pstLastSyncAt (plStatus item) of
          None \<Rightarrow> []
        | Some t \<Rightarrow> metricLine (''minicloud_plane_last_sync_age_seconds{plane_id='' @ goQuote (plID item) @ ''} ''
            @ fmtSeconds (nanos now - nanos t)))"

definition renderControlMetrics :: "(int \<Rightarrow> string) \<Rightarrow> plane_detail list \<Rightarrow> instant \<Rightarrow> string" where
  "renderControlMetrics fmtSeconds planes now =
     metricLine ''# HELP minicloud_plane_count Current number of configured planes.''
     @ metricLine ''# TYPE minicloud_plane_count gauge''
     @ metricLine (''minicloud_plane_count '' @ itoa (int (length planes)))
     @ metricLine ''# HELP minicloud_plane_status Current plane status, emitted as one-hot samples per plane and status.''
     @ metricLine ''# TYPE minicloud_plane_status gauge''
     @ concat (map (planeMetrics fmtSeconds now) planes)"

section \<open>router.go\<close>

datatype endpoint =
    HealthzEP
  | LoginEP
  | LogoutEP
  | MetricsEP
  | ListServicesEP
  | CreateServiceEP
  | GetServiceEP string
  | UpdateServiceEP string
  | DeleteServiceEP string
  | CheckDNSEP
  | InventoryEP
  | ListPlanesEP
  | GetPlaneEP string

text \<open>The routes; None for the static files and what gin answers itself.\<close>

definition routeOf :: "string \<Rightarrow> string list \<Rightarrow> endpoint option" where
  "routeOf meth path =
     (let get = (meth = ''GET''); post = (meth = ''POST'');
          single = (take 3 path = [''api'', ''v1'', ''services''] \<and> length path = 4 \<and> last path \<noteq> []);
          plane = (take 4 path = [''api'', ''v1'', ''control'', ''planes''] \<and> length path = 5 \<and> last path \<noteq> [])
      in if get \<and> path = [''api'', ''healthz''] then Some HealthzEP
         else if post \<and> path = [''api'', ''v1'', ''login''] then Some LoginEP
         else if post \<and> path = [''api'', ''v1'', ''logout''] then Some LogoutEP
         else if get \<and> path = [''metrics'', ''control''] then Some MetricsEP
         else if get \<and> path = [''api'', ''v1'', ''services''] then Some ListServicesEP
         else if post \<and> path = [''api'', ''v1'', ''services''] then Some CreateServiceEP
         else if get \<and> single then Some (GetServiceEP (last path))
         else if meth = ''PUT'' \<and> single then Some (UpdateServiceEP (last path))
         else if meth = ''DELETE'' \<and> single then Some (DeleteServiceEP (last path))
         else if get \<and> path = [''api'', ''v1'', ''control'', ''dns'', ''check''] then Some CheckDNSEP
         else if get \<and> path = [''api'', ''v1'', ''control'', ''inventory''] then Some InventoryEP
         else if get \<and> path = [''api'', ''v1'', ''control'', ''planes''] then Some ListPlanesEP
         else if get \<and> plane then Some (GetPlaneEP (last path))
         else None)"

text \<open>The endpoints of the group that requires a token.\<close>

definition requiresToken :: "endpoint \<Rightarrow> bool" where
  "requiresToken ep \<longleftrightarrow> ep \<notin> {HealthzEP, LoginEP, LogoutEP}"

record 'w control_server =
  svAuth :: admin_auth
  svServices :: "'w service_operations"
  svSyncer :: "'w plane_syncer"
  svNow :: "'w \<Rightarrow> instant"
  svDecodeLogin :: "string \<Rightarrow> string res"
  svDecodeCreate :: "string \<Rightarrow> service_create_request res"
  svDecodeUpdate :: "string \<Rightarrow> service_update_request res"
  svFmtSeconds :: "int \<Rightarrow> string"
  svStatic :: "http_request \<Rightarrow> int \<times> string"

definition loginHTTP :: "'w control_server \<Rightarrow> http_request \<Rightarrow> 'w \<Rightarrow> http_response" where
  "loginHTTP srv rq w =
     (case loginOutcome (svDecodeLogin srv) (svAuth srv) (svNow srv w) rq of
        (st, message, cookie) \<Rightarrow>
          \<lparr>hrStatus = st, hrBody = (if st = 200 then StatusOK else ErrorBody message), hrCookie = cookie\<rparr>)"

definition serve :: "'w control_server \<Rightarrow> nat list res \<Rightarrow> endpoint \<Rightarrow> http_request \<Rightarrow> 'w \<Rightarrow> http_response \<times> 'w" where
  "serve srv entropy ep rq w =
     (let so = svServices srv; sy = svSyncer srv in
      case ep of
        HealthzEP \<Rightarrow> (answer 200 (Healthz (rfc3339 (svNow srv w))), w)
      | LoginEP \<Rightarrow> (loginHTTP srv rq w, w)
      | LogoutEP \<Rightarrow> (\<lparr>hrStatus = 200, hrBody = StatusOK, hrCookie = Some (logoutCookie rq)\<rparr>, w)
      | MetricsEP \<Rightarrow> withViews sy (\<lambda>w1 views. MetricsText
          (renderControlMetrics (svFmtSeconds srv) (map pvPlane views) (svNow srv w1))) w
      | ListServicesEP \<Rightarrow> listServicesHTTP so w
      | CreateServiceEP \<Rightarrow> createServiceHTTP (svDecodeCreate srv) so entropy rq w
      | GetServiceEP sid \<Rightarrow> getServiceHTTP so sid rq w
      | UpdateServiceEP sid \<Rightarrow> updateServiceHTTP (svDecodeUpdate srv) so sid rq w
      | DeleteServiceEP sid \<Rightarrow> deleteServiceHTTP so sid rq w
      | CheckDNSEP \<Rightarrow> checkDNSHTTP sy w
      | InventoryEP \<Rightarrow> inventoryHTTP sy w
      | ListPlanesEP \<Rightarrow> listPlanesHTTP sy w
      | GetPlaneEP pid \<Rightarrow> getPlaneHTTP sy pid w)"

definition handleHTTP :: "'w control_server \<Rightarrow> nat list res \<Rightarrow> http_request \<Rightarrow> 'w \<Rightarrow> http_response \<times> 'w" where
  "handleHTTP srv entropy rq w =
     (case routeOf (hqMethod rq) (hqPath rq) of
        None \<Rightarrow> (case svStatic srv rq of (st, body) \<Rightarrow> (answer st (StaticBody body), w))
      | Some ep \<Rightarrow>
          if requiresToken ep \<and> \<not> allowed (svAuth srv) (svNow srv w) rq then
            (answer 401 (ErrorBody ''login required''), w)
          else serve srv entropy ep rq w)"

end
