(* ===== verification/HttpProps.thy ===== *)
theory HttpProps
  imports ControlHttp PlaneProps
begin

text \<open>
  The HTTP API as a whole: what a request without a session or a token can do, and that a service
  created over HTTP is served over HTTP.
\<close>

section \<open>Requests that are not allowed\<close>

lemma protected_refused:
  assumes "routeOf (hqMethod rq) (hqPath rq) = Some ep" "requiresToken ep" "\<not> allowed (svAuth srv) (svNow srv w) rq"
  shows "handleHTTP srv entropy rq w = (answer 401 (ErrorBody ''login required''), w)"
  using assms by (simp add: handleHTTP_def)

lemma open_endpoints: "\<not> requiresToken ep \<longleftrightarrow> ep = HealthzEP \<or> ep = LoginEP \<or> ep = LogoutEP"
  by (auto simp: requiresToken_def)

lemma open_unchanged: "\<not> requiresToken ep \<Longrightarrow> snd (serve srv entropy ep rq w) = w"
  by (auto simp: open_endpoints serve_def Let_def)

lemma open_same_answer:
  assumes "\<not> requiresToken ep" "svNow srv w' = svNow srv w"
  shows "fst (serve srv entropy ep rq w') = fst (serve srv entropy' ep rq w)"
  using assms by (auto simp: open_endpoints serve_def loginHTTP_def Let_def)

lemma login_cookie:
  assumes "loginOutcome decode a now rq = (st, m, Some c)"
  shows "\<exists>token. decode (hqBody rq) = Inr token \<and> BearerMatches (aaSHA256 a) token (aaToken a)"
  using assms by (auto simp: loginOutcome_def Let_def split: sum.splits if_splits)

lemma session_cookie_is_earned:
  assumes "hrCookie (fst (handleHTTP srv entropy rq w)) = Some c" "hcValue c \<noteq> []"
    "\<not> allowed (svAuth srv) (svNow srv w) rq"
  shows "\<exists>token. svDecodeLogin srv (hqBody rq) = Inr token \<and> BearerMatches (aaSHA256 (svAuth srv)) token (aaToken (svAuth srv))"
proof (cases "routeOf (hqMethod rq) (hqPath rq)")
  case None
  then show ?thesis using assms(1) by (simp add: handleHTTP_def answer_def split: prod.splits)
next
  case (Some ep)
  show ?thesis
  proof (cases "requiresToken ep")
    case True
    then show ?thesis using assms(1) protected_refused [OF Some True assms(3)] by (simp add: answer_def)
  next
    case False
    then have "hrCookie (fst (serve srv entropy ep rq w)) = Some c" using assms(1) Some by (simp add: handleHTTP_def)
    then have "hrCookie (loginHTTP srv rq w) = Some c"
      using False assms(2) by (auto simp: open_endpoints serve_def Let_def answer_def logoutCookie_def)
    then obtain st m where "loginOutcome (svDecodeLogin srv) (svAuth srv) (svNow srv w) rq = (st, m, Some c)"
      by (auto simp: loginHTTP_def split: prod.splits)
    then show ?thesis by (rule login_cookie)
  qed
qed

text \<open>
  C15: Without the admin token nothing is changed and nothing is learned.  A request that brings neither
  the token nor a live session changes no plane and no DNS record; its answer would be the same in every
  other state at the same time, so it depends on nothing the control-plane or its planes store; and it is
  given a session only for a login whose body decodes to a token that matches.
\<close>

theorem unauthenticated_requests_learn_nothing:
  assumes "\<not> allowed (svAuth srv) (svNow srv w) rq"
  shows "snd (handleHTTP srv entropy rq w) = w \<and>
    (\<forall>w' entropy'. svNow srv w' = svNow srv w \<longrightarrow> fst (handleHTTP srv entropy' rq w') = fst (handleHTTP srv entropy rq w)) \<and>
    (\<forall>c. hrCookie (fst (handleHTTP srv entropy rq w)) = Some c \<and> hcValue c \<noteq> [] \<longrightarrow>
       (\<exists>token. svDecodeLogin srv (hqBody rq) = Inr token \<and> BearerMatches (aaSHA256 (svAuth srv)) token (aaToken (svAuth srv))))"
proof (cases "routeOf (hqMethod rq) (hqPath rq)")
  case None
  then show ?thesis using session_cookie_is_earned [OF _ _ assms] by (simp add: handleHTTP_def answer_def split: prod.splits)
next
  case (Some ep)
  then have h: "handleHTTP srv entropy' rq w' = serve srv entropy' ep rq w'" if "\<not> requiresToken ep" for entropy' w'
    using that by (simp add: handleHTTP_def)
  have refused: "handleHTTP srv entropy' rq w' = (answer 401 (ErrorBody ''login required''), w')"
    if "requiresToken ep" "svNow srv w' = svNow srv w" for entropy' w'
    by (rule protected_refused [OF Some that(1)]) (use that(2) assms in simp)
  have "snd (handleHTTP srv entropy rq w) = w" using h refused open_unchanged by (cases "requiresToken ep") simp_all
  moreover have "fst (handleHTTP srv entropy' rq w') = fst (handleHTTP srv entropy rq w)" if "svNow srv w' = svNow srv w" for w' entropy'
    using h refused that open_same_answer [OF _ that] by (cases "requiresToken ep") simp_all
  ultimately show ?thesis using session_cookie_is_earned [OF _ _ assms] by blast
qed

section \<open>From one request to the next\<close>

lemma trimmed_get:
  "GetService so planeID (trimSpace sid) w = GetService so planeID sid w"
  by (simp add: GetService_def)

lemma created_over_http:
  assumes "handleHTTP srv entropy rq w = (resp, w1)" "hrBody resp = ServiceBody r" "hqMethod rq = ''POST''"
  obtains q s v where "svDecodeCreate srv (hqBody rq) = Inr q" "sqSpec q = Some s"
    "CreateService (svServices srv) entropy \<lparr>ciName = trimSpace (sqName q), ciDisplayName = trimSpace (sqDisplayName q),
       ciSpec = toServiceSpec s\<rparr> w = (Inr v, w1)" "r = buildServiceResource v"
proof -
  have ep: "routeOf (hqMethod rq) (hqPath rq) = Some CreateServiceEP"
    using assms by (auto simp: handleHTTP_def routeOf_def Let_def answer_def serve_def loginHTTP_def split: if_splits prod.splits)
  then have "createServiceHTTP (svDecodeCreate srv) (svServices srv) entropy rq w = (resp, w1)"
    using assms(1,2) by (auto simp: handleHTTP_def serve_def Let_def answer_def split: if_splits)
  then show ?thesis
    using assms(2) that by (auto simp: createServiceHTTP_def toCreateInput_def answer_def internalError_def
        split: sum.splits option.splits if_splits prod.splits)
qed

lemma served_over_http:
  assumes "hqMethod rq = ''GET''" "hqPath rq = [''api'', ''v1'', ''services'', sid]" "allowed (svAuth srv) (svNow srv w) rq"
    "trimSpace sid \<noteq> []" "trimSpace (hqQuery rq ''planeID'') = planeID" "planeID \<noteq> []"
    "GetService (svServices srv) planeID sid w = (Inr v, w2)"
  shows "fst (handleHTTP srv entropy rq w) = answer 200 (ServiceBody (buildServiceResource v))"
proof -
  have "sid \<noteq> []" using assms(4) by auto
  then have "routeOf (hqMethod rq) (hqPath rq) = Some (GetServiceEP sid)"
    by (simp add: assms(1,2) routeOf_def Let_def)
  then show ?thesis using assms(3-7) by (simp add: handleHTTP_def serve_def getServiceHTTP_def Let_def trimmed_get)
qed


text \<open>
  A server on the small configuration.  Its JSON decoders know one body; the digests are the texts.
\<close>

definition demoServer :: "dnspod_item list cp_world control_server" where
  "demoServer = \<lparr>svAuth = demoAuth, svServices = demoOps, svSyncer = the (soSyncer demoOps), svNow = (\<lambda>_. Instant 7),
     svDecodeLogin = Inr,
     svDecodeCreate = (\<lambda>_. Inr \<lparr>sqName = ''web '', sqDisplayName = ''Web'', sqSpec = Some (ciSpec demoCreate)\<rparr>),
     svDecodeUpdate = (\<lambda>_. Inl (Sentinel ''EOF'')), svFmtSeconds = itoa, svStatic = (\<lambda>_. (404, []))\<rparr>"

definition demoPost :: http_request where
  "demoPost = demoLogin\<lparr>hqPath := [''api'', ''v1'', ''services''], hqHeader := (\<lambda>_. ''Bearer secret'')\<rparr>"

theorem unauthenticated_requests_learn_nothing_witness:
  "snd (handleHTTP demoServer (Inr [171]) (demoPost\<lparr>hqHeader := (\<lambda>_. ''Bearer guess'')\<rparr>) demoStart) = demoStart \<and>
   fst (handleHTTP demoServer (Inr [171]) (demoPost\<lparr>hqHeader := (\<lambda>_. ''Bearer guess'')\<rparr>) demoServing)
     = fst (handleHTTP demoServer (Inr [171]) (demoPost\<lparr>hqHeader := (\<lambda>_. ''Bearer guess'')\<rparr>) demoStart)"
proof -
  let ?rq = "demoPost\<lparr>hqHeader := (\<lambda>_. ''Bearer guess'')\<rparr>"
  have now: "svNow demoServer w = Instant 7" "svAuth demoServer = demoAuth" for w by (simp_all add: demoServer_def)
  have "\<not> allowed demoAuth (Instant 7) ?rq" by code_simp
  then have "\<not> allowed (svAuth demoServer) (svNow demoServer demoStart) ?rq" unfolding now .
  from unauthenticated_requests_learn_nothing [OF this, of "Inr [171]"] now show ?thesis by simp
qed


end
