(* ===== verification/GoTls.thy ===== *)
theory GoTls
  imports CloudConfig
begin

text \<open>
  internal/transport/tls.go: the TLS settings of a server and of a client.  crypto/x509 and the parser
  of key pairs are parameters: a pair 'k of a certificate and its key, and a pool 'p of certificates.
\<close>

record ('k, 'p) x509 =
  xzKeyPair :: "string \<Rightarrow> string \<Rightarrow> 'k res"
  xzPool :: "string \<Rightarrow> 'p option"

datatype client_auth = NoClientCert | VerifyClientCertIfGiven | RequireAndVerifyClientCert

record ('k, 'p) tls_config =
  tlCertificates :: "'k list"
  tlRootCAs :: "'p option"
  tlServerName :: string
  tlClientCAs :: "'p option"
  tlClientAuth :: client_auth

definition certPool :: "('k, 'p) x509 \<Rightarrow> string \<Rightarrow> 'p res" where
  "certPool x caCert =
     (let trimmed = trimSpace caCert in
      if trimmed = [] then Inl (Errorf ''ca certificate is required'')
      else (case xzPool x (trimmed @ [CHR 0x0A]) of
              None \<Rightarrow> Inl (Errorf ''parse ca certificate'')
            | Some pool \<Rightarrow> Inr pool))"

definition tlsServerName :: "string \<Rightarrow> string" where
  "tlsServerName v0 =
     (let v = trimSpace v0 in case splitHostPort v of Some (host, _) \<Rightarrow> host | None \<Rightarrow> v)"

definition ClientTLSConfig :: "('k, 'p) x509 \<Rightarrow> tls_files \<Rightarrow> string \<Rightarrow> ('k, 'p) tls_config res" where
  "ClientTLSConfig x material serverName =
     bindR (certPool x (tfCACert material)) (\<lambda>caPool.
       let cfg = \<lparr>tlCertificates = [], tlRootCAs = Some caPool, tlServerName = tlsServerName serverName,
             tlClientCAs = None, tlClientAuth = NoClientCert\<rparr>
       in if nonBlank (tfCert material) \<or> nonBlank (tfKey material) then
            (case xzKeyPair x (tfCert material) (tfKey material) of
               Inl err \<Rightarrow> Inl (wrap ''parse client certificate'' err)
             | Inr cert \<Rightarrow> Inr (cfg\<lparr>tlCertificates := [cert]\<rparr>))
          else Inr cfg)"

definition ServerTLSConfig :: "('k, 'p) x509 \<Rightarrow> tls_files \<Rightarrow> bool \<Rightarrow> ('k, 'p) tls_config res" where
  "ServerTLSConfig x material requireClientCert =
     (case xzKeyPair x (tfCert material) (tfKey material) of
        Inl err \<Rightarrow> Inl (wrap ''parse server certificate'' err)
      | Inr cert \<Rightarrow>
          (let cfg = \<lparr>tlCertificates = [cert], tlRootCAs = None, tlServerName = [], tlClientCAs = None,
                 tlClientAuth = NoClientCert\<rparr>
           in if requireClientCert then
                bindR (certPool x (tfCACert material)) (\<lambda>cas.
                  Inr (cfg\<lparr>tlClientCAs := Some cas, tlClientAuth := RequireAndVerifyClientCert\<rparr>))
              else if nonBlank (tfCACert material) then
                bindR (certPool x (tfCACert material)) (\<lambda>cas.
                  Inr (cfg\<lparr>tlClientCAs := Some cas, tlClientAuth := VerifyClientCertIfGiven\<rparr>))
              else Inr cfg))"

text \<open>The AuthInfo of a peer: nil, of another kind, or of TLS with its verified chains.\<close>

datatype auth_info = NoAuthInfo | OtherAuthInfo | TLSInfo "string list list"

definition HasVerifiedClientCertificate :: "auth_info option \<Rightarrow> bool" where
  "HasVerifiedClientCertificate p \<longleftrightarrow> (case p of Some (TLSInfo verified) \<Rightarrow> 0 < length verified | _ \<Rightarrow> False)"

end
