(* ===== verification/CloudApp.thy ===== *)
theory CloudApp
  imports GoTls Ingress Caddy AliyunCdn NodeDrivers
begin

text \<open>
  How a cloud-plane is put together: internal/cloudplane/app.go (Build), infra/store/db.go (Open),
  infra/frontdoor/service.go (NewService, newCDNClient) with the constructors of the two CDN clients,
  api/transport.go (the TLS settings) and control/reconciler.go (the passes).  The database driver, the
  SDKs, crypto/x509, Caddy and net/url are parameters.  A value of Go's interface RouteSyncer that holds
  a nil pointer is kept apart from the nil interface, and a dereference of nil is an outcome.
\<close>

section \<open>The store\<close>

record ('d, 'c, 'a, 'h, 'k, 'p) plane_host =
  phSqlOpen :: "string \<Rightarrow> 'd res"
  phPing :: "'d \<Rightarrow> goerr option"
  phClose :: "'d \<Rightarrow> goerr option"
  phMigrate :: "'d \<Rightarrow> goerr option"
  phStore :: "'d \<Rightarrow> store_env"
  phCvm :: cvm_constructor
  phEcs :: "'c ecs_sdk"
  phTencentCDN :: "config_credential \<Rightarrow> string \<Rightarrow> 'a tencent_cdn_api res"
  phAliyunCredential :: "unit res"
  phAliyunCDN :: "string \<Rightarrow> 'a aliyun_cdn_api res"
  phURL :: "string \<Rightarrow> url_parts res"
  phFingerprint :: "caddy_config \<Rightarrow> string"
  phHTTP :: "'h caddy_http"
  phX509 :: "('k, 'p) x509"

definition openStore :: "('d, 'c, 'a, 'h, 'k, 'p) plane_host \<Rightarrow> string \<Rightarrow> 'd res" where
  "openStore host databaseURL =
     (case phSqlOpen host databaseURL of
        Inl err \<Rightarrow> Inl (wrap ''open database'' err)
      | Inr d \<Rightarrow>
          (case phPing host d of
             None \<Rightarrow> Inr d
           | Some err \<Rightarrow>
               (case phClose host d of
                  Some closeErr \<Rightarrow>
                    Inl (Join [wrap ''ping database'' err, wrap ''close database after ping failure'' closeErr])
                | None \<Rightarrow> Inl (wrap ''ping database'' err))))"

text \<open>A step of Build that fails closes the database first.\<close>

definition closing :: "('d, 'c, 'a, 'h, 'k, 'p) plane_host \<Rightarrow> 'd \<Rightarrow> goerr \<Rightarrow> goerr" where
  "closing host d err = (case phClose host d of Some closeErr \<Rightarrow> Join [err, closeErr] | None \<Rightarrow> err)"

section \<open>The front door\<close>

record 'w front_door =
  fdBaseDomain :: string
  fdCDN :: "'w cdn_client"
  fdStore :: "'w domain_store option"

definition newTencentCDNClient ::
  "('d, 'c, 'a, 'h, 'k, 'p) plane_host \<Rightarrow> cloud_config \<Rightarrow> ('a, 'z) fd_world_scheme cdn_client res" where
  "newTencentCDNClient host cfg =
     (case phTencentCDN host (ccTencentCredential cfg) ''cdn.tencentcloudapi.com'' of
        Inl err \<Rightarrow> Inl (wrap ''create Tencent CDN client'' err)
      | Inr api \<Rightarrow> Inr (tencentCDN api (ccPublicOrigin cfg) (ccBaseDomain cfg)))"

definition newAliyunCDNClient ::
  "('d, 'c, 'a, 'h, 'k, 'p) plane_host \<Rightarrow> cloud_config \<Rightarrow> ('a, 'z) fd_world_scheme cdn_client res" where
  "newAliyunCDNClient host cfg =
     (case phAliyunCredential host of
        Inl err \<Rightarrow> Inl (wrap ''create aliyun credential'' err)
      | Inr _ \<Rightarrow>
          (case phAliyunCDN host ''cdn.aliyuncs.com'' of
             Inl err \<Rightarrow> Inl (wrap ''create aliyun CDN client'' err)
           | Inr api \<Rightarrow> Inr (aliyunCDN \<lparr>acRaw = Some api, acOrigin = ccPublicOrigin cfg\<rparr>)))"

definition newCDNClient ::
  "('d, 'c, 'a, 'h, 'k, 'p) plane_host \<Rightarrow> cloud_config \<Rightarrow> ('a, 'z) fd_world_scheme cdn_client res" where
  "newCDNClient host cfg =
     (let provider = toLower (trimSpace (ccProvider cfg)) in
      if provider = ''aliyun'' then newAliyunCDNClient host cfg
      else if provider = ''tencent'' then newTencentCDNClient host cfg
      else Inl (Errorf (''unsupported frontdoor CDN provider '' @ goQuote (ccProvider cfg))))"

text \<open>NewService: a nil pointer when no public origin is configured.\<close>

definition NewFrontDoor ::
  "('d, 'c, 'a, 'h, 'k, 'p) plane_host \<Rightarrow> cloud_config \<Rightarrow> ('a, 'z) fd_world_scheme domain_store \<Rightarrow>
   ('a, 'z) fd_world_scheme front_door option res" where
  "NewFrontDoor host cfg stores =
     (if \<not> nonBlank (ccPublicOrigin cfg) then Inr None
      else bindR (newCDNClient host cfg) (\<lambda>cdn.
        Inr (Some \<lparr>fdBaseDomain = cleanDomain (ccBaseDomain cfg), fdCDN = cdn, fdStore = Some stores\<rparr>)))"

section \<open>Values of the interface RouteSyncer\<close>

datatype 'a outcome = Returned 'a | Panicked

text \<open>nil; a nil *frontdoor.Service; a front door; a Caddy sink.\<close>

datatype 'w route_sink =
    NilSink
  | NilFrontDoor
  | FrontDoorSink "'w front_door"
  | CaddySink "'w route_syncer"

text \<open>The conversion of a *frontdoor.Service to the interface never gives the nil interface.\<close>

definition asRouteSyncer :: "'w front_door option \<Rightarrow> 'w route_sink" where
  "asRouteSyncer s = (case s of None \<Rightarrow> NilFrontDoor | Some fd \<Rightarrow> FrontDoorSink fd)"

text \<open>
  SyncRoutes reads s.baseDomain for the first host, and s.store after the loop when there is none: on a
  nil pointer it panics for every list of routes.
\<close>

definition callSink :: "'w route_sink \<Rightarrow> route list \<Rightarrow> 'w \<Rightarrow> (goerr option \<times> 'w) outcome" where
  "callSink sink routes w =
     (case sink of
        NilSink \<Rightarrow> Panicked
      | NilFrontDoor \<Rightarrow> Panicked
      | FrontDoorSink fd \<Rightarrow> Returned (frontDoorSyncRoutes (fdCDN fd) (fdStore fd) (fdBaseDomain fd) routes w)
      | CaddySink sync \<Rightarrow> Returned (sync routes w))"

definition isNilSink :: "'w route_sink \<Rightarrow> bool" where
  "isNilSink sink \<longleftrightarrow> (case sink of NilSink \<Rightarrow> True | _ \<Rightarrow> False)"

text \<open>The pass of the ingress reconciler on such values.\<close>

definition ingressPass ::
  "'w store_reader \<Rightarrow> ingress_config \<Rightarrow> 'w route_sink \<Rightarrow> 'w route_sink \<Rightarrow> 'w \<Rightarrow> (goerr option \<times> 'w) outcome" where
  "ingressPass rd cfg localSink frontDoorSink w =
     (let caddyEnabled = nonBlank (igCaddyAdminURL cfg);
          serviceIngressEnabled = nonBlank (igBaseDomain cfg)
      in if \<not> caddyEnabled \<and> \<not> serviceIngressEnabled then Returned (None, w)
         else
           (case (if serviceIngressEnabled then buildRoutes rd w else (Inr [], w)) of
              (Inl err, w1) \<Rightarrow> Returned (Some err, w1)
            | (Inr routes, w1) \<Rightarrow>
                if isNilSink localSink then Returned (Some (Errorf ''caddy route sink is required''), w1)
                else
                  (case callSink localSink routes w1 of
                     Panicked \<Rightarrow> Panicked
                   | Returned (Some err, w2) \<Rightarrow> Returned (Some err, w2)
                   | Returned (None, w2) \<Rightarrow>
                       if serviceIngressEnabled \<and> \<not> isNilSink frontDoorSink then callSink frontDoorSink routes w2
                       else Returned (None, w2))))"

text \<open>With sinks that are nil or can be called, this is the pass of the ingress reconciler.\<close>

definition liveSink :: "'w route_sink \<Rightarrow> 'w route_syncer option" where
  "liveSink sink =
     (case sink of
        FrontDoorSink fd \<Rightarrow> Some (frontDoorSyncRoutes (fdCDN fd) (fdStore fd) (fdBaseDomain fd))
      | CaddySink sync \<Rightarrow> Some sync
      | _ \<Rightarrow> None)"

lemma callSink_live:
  "callSink sink routes w = (case liveSink sink of None \<Rightarrow> Panicked | Some sync \<Rightarrow> Returned (sync routes w))"
  by (simp add: callSink_def liveSink_def split: route_sink.split)

lemma isNilSink_iff: "isNilSink sink \<longleftrightarrow> sink = NilSink"
  by (simp add: isNilSink_def split: route_sink.split)

lemma liveSink_None_iff: "liveSink sink = None \<longleftrightarrow> sink = NilSink \<or> sink = NilFrontDoor"
  by (simp add: liveSink_def split: route_sink.split)

lemma ingressPass_live:
  assumes "localSink \<noteq> NilFrontDoor" "frontDoorSink \<noteq> NilFrontDoor"
  shows "ingressPass rd cfg localSink frontDoorSink w
    = Returned (reconcileIngressOnce rd cfg (liveSink localSink) (liveSink frontDoorSink) w)"
  using assms liveSink_None_iff [of localSink] liveSink_None_iff [of frontDoorSink]
  by (auto simp: ingressPass_def reconcileIngressOnce_def callSink_live isNilSink_iff Let_def
      split: prod.splits sum.splits option.splits outcome.splits)

section \<open>Build\<close>

record ('a, 'h) app_world = "'a fd_world" +
  awFingerprint :: string
  awCaddy :: 'h

text \<open>NewSink with the addresses of the configuration package.\<close>

definition caddyConfigOf :: "cloud_config \<Rightarrow> caddy_sink_config" where
  "caddyConfigOf cfg =
     \<lparr>ccListenHTTPAddr = CaddyListenHTTPAddr, ccArtifactListenAddr = CaddyArtifactListenAddr,
      ccArtifactDocumentRoot = CaddyArtifactRoot, ccAdminURL = ccCaddyAdminURL cfg\<rparr>"

definition appCaddy ::
  "('d, 'c, 'a, 'h, 'k, 'p) plane_host \<Rightarrow> cloud_config \<Rightarrow> ('a, 'h) app_world route_syncer" where
  "appCaddy host cfg routes w =
     (case caddySyncRoutes (phURL host) (phFingerprint host) (phHTTP host) (caddyConfigOf cfg) routes
             (awFingerprint w, awCaddy w) of
        (err, (fingerprint, h)) \<Rightarrow> (err, w\<lparr>awFingerprint := fingerprint, awCaddy := h\<rparr>))"

record ('d, 'a, 'h, 'k, 'p) cloud_app =
  apConfig :: cloud_config
  apDB :: 'd
  apDriver :: node_driver_value
  apLocalIngress :: "('a, 'h) app_world route_sink"
  apFrontDoor :: "('a, 'h) app_world route_sink"
  apTLS :: "('k, 'p) tls_config"

definition buildCloudApp ::
  "('d, 'c, 'a, 'h, 'k, 'p) plane_host \<Rightarrow> cloud_config \<Rightarrow> ('d, 'a, 'h, 'k, 'p) cloud_app res" where
  "buildCloudApp host cfg =
     bindR (NewDriver (phCvm host) (phEcs host) cfg) (\<lambda>driver.
       bindR (openStore host (ccDatabaseURL cfg)) (\<lambda>d.
         case phMigrate host d of
           Some err \<Rightarrow> Inl (closing host d err)
         | None \<Rightarrow>
             (case NewFrontDoor host cfg (frontDoorStore (phStore host d)) of
                Inl err \<Rightarrow> Inl (closing host d err)
              | Inr frontDoorService \<Rightarrow>
                  (let localIngress = (if ccCaddyAdminURL cfg \<noteq> [] then CaddySink (appCaddy host cfg) else NilSink) in
                   case ServerTLSConfig (phX509 host) (ccTLS cfg) False of
                     Inl err \<Rightarrow> Inl err
                   | Inr tls \<Rightarrow>
                       Inr \<lparr>apConfig = cfg, apDB = d, apDriver = driver, apLocalIngress = localIngress,
                         apFrontDoor = asRouteSyncer frontDoorService, apTLS = tls\<rparr>))))"

section \<open>The passes of reconciler.go\<close>

definition storeReader :: "'e store_env_scheme \<Rightarrow> 'w store_world_scheme store_reader" where
  "storeReader e =
     \<lparr>srListIngressRouteSources = readOp e ListIngressRouteSources,
      srGetNode = (\<lambda>i. storeOp e (\<lambda>_ _ s. bindR (GetNode i s) (\<lambda>n. Inr (n, s))))\<rparr>"

definition appIngress ::
  "('d, 'c, 'a, 'h, 'k, 'p) plane_host \<Rightarrow> ('d, 'a, 'h, 'k, 'p) cloud_app \<Rightarrow> ('a, 'h) app_world \<Rightarrow>
   (goerr option \<times> ('a, 'h) app_world) outcome" where
  "appIngress host app =
     ingressPass (storeReader (phStore host (apDB app)))
       \<lparr>igCaddyAdminURL = ccCaddyAdminURL (apConfig app), igBaseDomain = ccBaseDomain (apConfig app)\<rparr>
       (apLocalIngress app) (apFrontDoor app)"

definition nodeHealthStaleAfter :: int where
  "nodeHealthStaleAfter = secondsDur (3 * 60)"

definition appNodeHealth :: "'e store_env_scheme \<Rightarrow> 'w store_world_scheme \<Rightarrow> goerr option \<times> 'w store_world_scheme" where
  "appNodeHealth e w =
     (case storeOp e (\<lambda>clk _ s. MarkStaleNodeHeartbeatsOffline clk nodeHealthStaleAfter s) w of (r, w1) \<Rightarrow> (errOf r, w1))"

end
