(* ===== verification/CloudAppProps.thy ===== *)
theory CloudAppProps
  imports CloudApp NodeDriverProps
begin

text \<open>What a cloud-plane built from a loaded configuration does in a pass of its ingress reconciler.\<close>

lemma loaded_ingress:
  assumes "loadCloudConfig readFile decode urlParse path = Inr cfg"
  shows "nonBlank (ccBaseDomain cfg) \<Longrightarrow> ccCaddyAdminURL cfg \<noteq> []" and "nonBlank (ccCaddyAdminURL cfg) \<longleftrightarrow> ccCaddyAdminURL cfg \<noteq> []"
proof -
  obtain raw where raw: "cfg = normalizeCloudConfig raw" "validateCloudConfig urlParse cfg = Inr ()"
    using loadCloudConfig_ok [OF assms] .
  have "validateIngress urlParse cfg = Inr ()" by (rule validateCloudConfig_parts(3) [OF raw(2)])
  then show "nonBlank (ccBaseDomain cfg) \<Longrightarrow> ccCaddyAdminURL cfg \<noteq> []"
    by (auto simp: validateIngress_def Let_def res_simps split: if_splits)
  show "nonBlank (ccCaddyAdminURL cfg) \<longleftrightarrow> ccCaddyAdminURL cfg \<noteq> []"
    by (simp add: raw(1) normalizeCloudConfig_def nonBlank_def)
qed

lemma built_sinks:
  assumes "buildCloudApp host cfg = Inr app"
  shows "apConfig app = cfg"
    and "apLocalIngress app = (if ccCaddyAdminURL cfg \<noteq> [] then CaddySink (appCaddy host cfg) else NilSink)"
    and "apFrontDoor app = NilFrontDoor \<longleftrightarrow> \<not> nonBlank (ccPublicOrigin cfg)"
    and "apFrontDoor app \<noteq> NilSink"
  using assms
  by (auto simp: buildCloudApp_def NewFrontDoor_def asRouteSyncer_def Let_def res_simps
      split: option.splits sum.splits if_splits)

text \<open>
  C39: A plane with ingress and without a public origin dies in its first successful pass.  A cloud-plane
  built from a configuration that Load accepts panics in a pass of the ingress reconciler exactly when a
  base domain is configured, no public origin is, and reading the routes and loading them into Caddy
  succeed: NewService answers a nil pointer, which is not a nil RouteSyncer.  Any other pass returns what
  the reconciler's pass over the store, Caddy and the front door returns.
\<close>

theorem ingress_panics_without_public_origin:
  assumes "loadCloudConfig readFile decode (phURL host) path = Inr cfg" "buildCloudApp host cfg = Inr app"
  shows "(appIngress host app w = Panicked \<longleftrightarrow>
       nonBlank (ccBaseDomain cfg) \<and> \<not> nonBlank (ccPublicOrigin cfg) \<and>
       (\<exists>routes w1 w2. buildRoutes (storeReader (phStore host (apDB app))) w = (Inr routes, w1)
          \<and> appCaddy host cfg routes w1 = (None, w2))) \<and>
    (appIngress host app w \<noteq> Panicked \<longrightarrow>
       appIngress host app w = Returned (reconcileIngressOnce (storeReader (phStore host (apDB app)))
         \<lparr>igCaddyAdminURL = ccCaddyAdminURL cfg, igBaseDomain = ccBaseDomain cfg\<rparr>
         (liveSink (apLocalIngress app)) (liveSink (apFrontDoor app)) w))"
proof -
  note b = built_sinks [OF assms(2)] and l = loaded_ingress [OF assms(1)]
  let ?rd = "storeReader (phStore host (apDB app))"
  let ?icfg = "\<lparr>igCaddyAdminURL = ccCaddyAdminURL cfg, igBaseDomain = ccBaseDomain cfg\<rparr>"
  have app: "appIngress host app w = ingressPass ?rd ?icfg (apLocalIngress app) (apFrontDoor app) w"
    by (simp add: appIngress_def b(1))
  show ?thesis
  proof (cases "apFrontDoor app = NilFrontDoor")
    case False
    have "apLocalIngress app \<noteq> NilFrontDoor" by (simp add: b(2))
    then show ?thesis using ingressPass_live [OF _ False, of "apLocalIngress app"] False b(3) by (simp add: app)
  next
    case True
    have live: "liveSink NilFrontDoor = None" "callSink NilFrontDoor r x = Panicked" "\<not> isNilSink NilFrontDoor" for r x
      by (simp_all add: liveSink_def callSink_def isNilSink_def)
    have local: "liveSink (apLocalIngress app) = (if ccCaddyAdminURL cfg \<noteq> [] then Some (appCaddy host cfg) else None)"
      "isNilSink (apLocalIngress app) \<longleftrightarrow> ccCaddyAdminURL cfg = []"
      by (simp_all add: b(2) liveSink_def isNilSink_def)
    show ?thesis
    proof (cases "nonBlank (ccBaseDomain cfg)")
      case base: True
      then show ?thesis
        using True b(3) l local
        by (auto simp: app ingressPass_def reconcileIngressOnce_def callSink_live live Let_def
            split: prod.splits sum.splits option.splits outcome.splits)
    next
      case base: False
      then show ?thesis
        using True b(3) l local
        by (auto simp: app ingressPass_def reconcileIngressOnce_def callSink_live live Let_def
            split: prod.splits sum.splits option.splits outcome.splits)
    qed
  qed
qed

text \<open>A plane with a base domain and Caddy, and no public origin, on an empty database.\<close>

definition demoIngress :: cloud_config where
  "demoIngress = demoCloud\<lparr>ccBaseDomain := ''a.io'', ccCaddyAdminURL := ''http://[::1]:2019''\<rparr>"

definition caddyURL :: "string \<Rightarrow> url_parts res" where
  "caddyURL s = Inr \<lparr>urlScheme = ''http'', urlHost = ''[::1]:2019'', urlPort = ''2019''\<rparr>"

definition demoHost :: "(unit, unit, unit, unit, unit, unit) plane_host" where
  "demoHost = \<lparr>phSqlOpen = (\<lambda>_. Inr ()), phPing = (\<lambda>_. None), phClose = (\<lambda>_. None), phMigrate = (\<lambda>_. None),
     phStore = (\<lambda>_. \<lparr>envClock = (\<lambda>k. \<lparr>goNow = Instant (int k), dbNow = Instant (int k)\<rparr>),
        envEntropy = (\<lambda>k. Inr [k]), envFault = (\<lambda>_. None), envOther = (\<lambda>_ s. s)\<rparr>),
     phCvm = (\<lambda>_ _. Inr deafCvm), phEcs = \<lparr>esCredential = Inr (), esNewClient = (\<lambda>_ _. Inr deafEcs)\<rparr>,
     phTencentCDN = (\<lambda>_ _. Inl (Errorf [])), phAliyunCredential = Inr (), phAliyunCDN = (\<lambda>_. Inl (Errorf [])),
     phURL = caddyURL, phFingerprint = (\<lambda>_. ''f''), phHTTP = (\<lambda>_ _ h. (Inr (200, []), h)),
     phX509 = \<lparr>xzKeyPair = (\<lambda>_ _. Inr ()), xzPool = (\<lambda>_. Some ())\<rparr>\<rparr>"

definition demoPlane :: "(unit, unit) app_world" where
  "demoPlane = \<lparr>wdb = emptyDB, wtick = 0, fdAPI = (), awFingerprint = [], awCaddy = ()\<rparr>"

theorem ingress_panics_without_public_origin_witness:
  "\<exists>app. buildCloudApp demoHost demoIngress = Inr app \<and> appIngress demoHost app demoPlane = Panicked"
proof -
  have load: "loadCloudConfig (\<lambda>_. Inr []) (\<lambda>_. Inr demoIngress) (phURL demoHost) ''p'' = Inr demoIngress" by code_simp
  have "isOk (buildCloudApp demoHost demoIngress)" by code_simp
  then obtain app where app: "buildCloudApp demoHost demoIngress = Inr app" by (auto simp: isOk_def split: sum.splits)
  have "nonBlank (ccBaseDomain demoIngress)" "\<not> nonBlank (ccPublicOrigin demoIngress)" by code_simp+
  moreover have "buildRoutes (storeReader (phStore demoHost ())) demoPlane = (Inr [], demoPlane\<lparr>wtick := 1\<rparr>)"
    by code_simp
  moreover have "fst (appCaddy demoHost demoIngress [] (demoPlane\<lparr>wtick := 1\<rparr>)) = None" by code_simp
  then have "appCaddy demoHost demoIngress [] (demoPlane\<lparr>wtick := 1\<rparr>)
      = (None, snd (appCaddy demoHost demoIngress [] (demoPlane\<lparr>wtick := 1\<rparr>)))" by (metis prod.collapse)
  ultimately show ?thesis using ingress_panics_without_public_origin [OF load app] app by (metis (full_types) old.unit.exhaust)
qed

end
