(* ===== verification/CommandLine.thy ===== *)
theory CommandLine
  imports CloudApp ControlPlane AgentClient AgentConfig
begin

text \<open>
  cli.go of the cloud-plane, of the control-plane and of the node agent: the command line of the three
  daemons, which is the same, and how it leads to a loaded and built program.  Go's package flag is
  modelled for the one flag that is defined.
\<close>

section \<open>parseConfigPath\<close>

definition ErrHelp :: goerr where "ErrHelp = Sentinel ''flag: help requested''"

definition errConfigRequired :: goerr where "errConfigRequired = Sentinel ''config is required''"

text \<open>A flag and its value: the name up to the first equals sign that is not the first character.\<close>

definition flagParts :: "string \<Rightarrow> string \<times> string option" where
  "flagParts name =
     (if CHR ''='' \<in> set name then
        (takeWhile (\<lambda>c. c \<noteq> CHR ''='') name, Some (drop 1 (dropWhile (\<lambda>c. c \<noteq> CHR ''='') name)))
      else (name, None))"

fun parseFlags :: "string \<Rightarrow> string list \<Rightarrow> (string \<times> string list) res" where
  "parseFlags v [] = Inr (v, [])"
| "parseFlags v (s # args) =
     (if length s < 2 \<or> hd s \<noteq> CHR ''-'' then Inr (v, s # args)
      else if s = ''--'' then Inr (v, args)
      else
        (let name = (if hasPrefix s ''--'' then drop 2 s else drop 1 s) in
         if name = [] \<or> hd name = CHR ''-'' \<or> hd name = CHR ''='' then Inl (Errorf (''bad flag syntax: '' @ s))
         else
           (case flagParts name of
              (n, x) \<Rightarrow>
                if n \<noteq> ''config'' then
                  (if n = ''help'' \<or> n = ''h'' then Inl ErrHelp
                   else Inl (Errorf (''flag provided but not defined: -'' @ n)))
                else
                  (case x of
                     Some y \<Rightarrow> parseFlags y args
                   | None \<Rightarrow>
                       (case args of
                          [] \<Rightarrow> Inl (Errorf (''flag needs an argument: -'' @ n))
                        | y # rest \<Rightarrow> parseFlags y rest)))))"

definition parseConfigPath :: "string list \<Rightarrow> string res" where
  "parseConfigPath args =
     (if args = [''help''] then Inl ErrHelp
      else bindR (parseFlags [] args) (\<lambda>(configPath, rest).
        if rest \<noteq> [] then Inl ErrHelp
        else if trimSpace configPath = [] then Inl errConfigRequired
        else Inr (trimSpace configPath)))"

section \<open>RunCLI, up to the start of the program\<close>

definition startCloudPlane ::
  "(string \<Rightarrow> string res) \<Rightarrow> (string \<Rightarrow> cloud_config res) \<Rightarrow> ('d, 'c, 'a, 'h, 'k, 'p) plane_host \<Rightarrow> string list \<Rightarrow>
   ('d, 'a, 'h, 'k, 'p) cloud_app res" where
  "startCloudPlane readFile decode host args =
     bindR (parseConfigPath args) (\<lambda>path.
       bindR (loadCloudConfig readFile decode (phURL host) path) (buildCloudApp host))"

definition startControlPlane ::
  "(string \<Rightarrow> string res) \<Rightarrow> (string \<Rightarrow> control_config res) \<Rightarrow> 'w surroundings \<Rightarrow> string list \<Rightarrow>
   ('w plane_syncer \<times> 'w service_operations) res" where
  "startControlPlane readFile decode su args =
     bindR (parseConfigPath args) (\<lambda>path.
       bindR (loadControlConfig readFile decode path) (buildControlPlane su))"

text \<open>The container runtime 'r is made after the client, which is only a value until it is used.\<close>

definition startNodeAgent ::
  "(string \<Rightarrow> string res) \<Rightarrow> (string \<Rightarrow> agent_config res) \<Rightarrow> agent_host \<Rightarrow> 'r res \<Rightarrow> string list \<Rightarrow>
   (agent_config \<times> agent_client \<times> 'r) res" where
  "startNodeAgent readFile decode host engine args =
     bindR (parseConfigPath args) (\<lambda>path.
       bindR (loadAgentConfig readFile decode host path) (\<lambda>cfg.
         bindR engine (\<lambda>runtime.
           Inr (cfg, newAgentClient (ahParse host) (acServerURL cfg) (acAuthToken cfg) (acServerTLSCA cfg), runtime))))"

section \<open>What the command line may be\<close>

datatype config_flag = Separate bool string | Joined bool string

definition dashes :: "bool \<Rightarrow> string" where
  "dashes double = (if double then ''--config'' else ''-config'')"

fun flagArgs :: "config_flag \<Rightarrow> string list" where
  "flagArgs (Separate d v) = [dashes d, v]"
| "flagArgs (Joined d v) = [dashes d @ ''='' @ v]"

fun flagValue :: "config_flag \<Rightarrow> string" where
  "flagValue (Separate d v) = v"
| "flagValue (Joined d v) = v"

lemma flagParts_config:
  "flagParts ''config'' = (''config'', None)" "flagParts (''config='' @ v) = (''config'', Some v)"
  by (simp_all add: flagParts_def)

lemma parseFlags_args:
  "parseFlags v (flagArgs f @ args) = parseFlags (flagValue f) args"
  by (cases f) (auto simp: dashes_def hasPrefix_def flagParts_def)

lemma parseFlags_concat:
  "parseFlags v (concat (map flagArgs fs) @ args) = parseFlags (if fs = [] then v else flagValue (last fs)) args"
proof (induction fs arbitrary: v)
  case (Cons f fs)
  then show ?case by (simp add: parseFlags_args)
qed simp

lemma flagParts_SomeD:
  assumes "flagParts name = (n, Some x)"
  shows "name = n @ ''='' @ x"
proof -
  have "CHR ''='' \<in> set name" using assms by (auto simp: flagParts_def split: if_splits)
  then obtain xs ys where s: "name = xs @ CHR ''='' # ys" "CHR ''='' \<notin> set xs" by (meson split_list_first)
  then have "flagParts name = (xs, Some ys)" by (simp add: flagParts_def takeWhile_append dropWhile_append)
  then show ?thesis using assms s(1) by simp
qed

lemma flagParts_NoneD: "flagParts name = (n, None) \<Longrightarrow> name = n"
  by (simp add: flagParts_def split: if_splits)

lemma parseFlags_shape:
  "parseFlags v args = Inr (c, []) \<Longrightarrow>
     \<exists>fs rest. args = concat (map flagArgs fs) @ rest \<and> (rest = [] \<or> rest = [''--'']) \<and> c = (if fs = [] then v else flagValue (last fs))"
proof (induction v args rule: parseFlags.induct)
  case (1 v)
  then show ?case by (intro exI [of _ "[]"]) simp
next
  case (2 v s args)
  show ?case
  proof (cases "s = ''--''")
    case True
    then show ?thesis using 2(3) by (intro exI [of _ "[]"] exI [of _ "s # args"]) simp
  next
    case False
    let ?name = "if hasPrefix s ''--'' then drop 2 s else drop 1 s"
    have len: "\<not> (length s < 2 \<or> hd s \<noteq> CHR ''-'')" using 2(3) by (auto split: if_splits)
    have nm: "\<not> (?name = [] \<or> hd ?name = CHR ''-'' \<or> hd ?name = CHR ''='')"
      using 2(3) False len by (auto simp: Let_def split: if_splits)
    obtain n x where p: "flagParts ?name = (n, x)" by fastforce
    have n: "n = ''config''" using 2(3) False len nm p by (auto simp: Let_def split: if_splits)
    obtain d where s: "s = (if d then ''--'' else ''-'') @ ?name"
    proof (cases "hasPrefix s ''--''")
      case True
      then have "take 2 s = ''--''" by (simp add: hasPrefix_def numeral_2_eq_2)
      then have "s = ''--'' @ drop 2 s" by (metis append_take_drop_id)
      then show ?thesis using that [of True] True by simp
    next
      case f: False
      have "s = ''-'' @ drop 1 s" using len by (cases s) auto
      then show ?thesis using that [of False] f by simp
    qed
    show ?thesis
    proof (cases x)
      case (Some y)
      then have eq: "s # args = flagArgs (Joined d y) @ args"
        using s flagParts_SomeD [of ?name n y] p n by (auto simp: dashes_def)
      have "parseFlags y args = Inr (c, [])" using 2(3) parseFlags_args [of v "Joined d y" args] eq by simp
      then obtain fs rest where "args = concat (map flagArgs fs) @ rest" "rest = [] \<or> rest = [''--'']"
          "c = (if fs = [] then y else flagValue (last fs))"
        using 2(2) [OF len False refl nm p [symmetric] _ Some] n by blast
      then show ?thesis using eq by (intro exI [of _ "Joined d y # fs"] exI [of _ rest]) simp
    next
      case None
      then obtain y tail where t: "args = y # tail" using 2(3) False len nm p n by (cases args) (auto simp: Let_def)
      then have eq: "s # args = flagArgs (Separate d y) @ tail"
        using s flagParts_NoneD [of ?name n] p n None by (auto simp: dashes_def)
      have "parseFlags y tail = Inr (c, [])" using 2(3) parseFlags_args [of v "Separate d y" tail] eq by simp
      then obtain fs rest where "tail = concat (map flagArgs fs) @ rest" "rest = [] \<or> rest = [''--'']"
          "c = (if fs = [] then y else flagValue (last fs))"
        using 2(1) [OF len False refl nm p [symmetric] _ None t] n by blast
      then show ?thesis using eq by (intro exI [of _ "Separate d y # fs"] exI [of _ rest]) simp
    qed
  qed
qed

text \<open>
  A daemon starts to load a file exactly when its arguments are -config flags, with one or two dashes,
  joined or separate, perhaps followed by the terminator: it is the last one's value, trimmed, and not
  blank.
\<close>

theorem only_config_flags_are_accepted:
  "parseConfigPath args = Inr path \<longleftrightarrow>
     (\<exists>fs rest. args = concat (map flagArgs fs) @ rest \<and> (rest = [] \<or> rest = [''--'']) \<and> fs \<noteq> []
        \<and> path = trimSpace (flagValue (last fs)) \<and> path \<noteq> [])"
proof
  assume r: "parseConfigPath args = Inr path"
  then have "args \<noteq> [''help'']" by (auto simp: parseConfigPath_def)
  moreover obtain c rest0 where p: "parseFlags [] args = Inr (c, rest0)"
    using r by (cases "parseFlags [] args") (auto simp: parseConfigPath_def bindR_def split: if_splits)
  ultimately have "rest0 = []" and c': "trimSpace c \<noteq> []" "path = trimSpace c"
    using r by (simp_all add: parseConfigPath_def bindR_def split: if_splits)
  then have c: "parseFlags [] args = Inr (c, [])" using p by simp
  obtain fs rest where "args = concat (map flagArgs fs) @ rest" "rest = [] \<or> rest = [''--'']"
      "c = (if fs = [] then [] else flagValue (last fs))"
    using parseFlags_shape [OF c(1)] by blast
  then show "\<exists>fs rest. args = concat (map flagArgs fs) @ rest \<and> (rest = [] \<or> rest = [''--'']) \<and> fs \<noteq> []
        \<and> path = trimSpace (flagValue (last fs)) \<and> path \<noteq> []"
    using c' by (intro exI [of _ fs] exI [of _ rest]) (auto split: if_splits)
next
  assume "\<exists>fs rest. args = concat (map flagArgs fs) @ rest \<and> (rest = [] \<or> rest = [''--'']) \<and> fs \<noteq> []
        \<and> path = trimSpace (flagValue (last fs)) \<and> path \<noteq> []"
  then obtain fs rest where f: "args = concat (map flagArgs fs) @ rest" "rest = [] \<or> rest = [''--'']" "fs \<noteq> []"
      "path = trimSpace (flagValue (last fs))" "path \<noteq> []" by blast
  obtain g gs where g: "fs = g # gs" using f(3) by (cases fs) auto
  have "args \<noteq> [''help'']" using f(1) by (cases g) (auto simp: g dashes_def)
  moreover have "parseFlags [] args = Inr (flagValue (last fs), [])"
    using f(1-3) by (auto simp: parseFlags_concat)
  ultimately show "parseConfigPath args = Inr path" using f(4,5) by (simp add: parseConfigPath_def bindR_def)
qed

end
