(* ===== verification/OpsConfig.thy ===== *)
theory OpsConfig
  imports GoText
begin

text \<open>
  internal/ops/config.go: the settings of the operations tool minictl, their defaults and their
  validation.  The YAML decoder and the file system are parameters; filepath is modelled as far as it is
  used (Join, Clean, IsAbs and Abs with the home and working directories of the process).
\<close>

section \<open>Paths\<close>

record path_env =
  peHome :: "string res"
  peCwd :: "string res"

text \<open>The segments that Clean keeps, in reverse.\<close>

fun cleanSegments :: "bool \<Rightarrow> string list \<Rightarrow> string list \<Rightarrow> string list" where
  "cleanSegments rooted done [] = done"
| "cleanSegments rooted done (s # segs) =
     (if s = [] \<or> s = ''.'' then cleanSegments rooted done segs
      else if s = ''..'' then
        (case done of
           [] \<Rightarrow> cleanSegments rooted (if rooted then [] else [''..'']) segs
         | d # ds \<Rightarrow> cleanSegments rooted (if d = ''..'' then ''..'' # done else ds) segs)
      else cleanSegments rooted (s # done) segs)"

definition cleanPath :: "string \<Rightarrow> string" where
  "cleanPath p =
     (let rooted = hasPrefix p ''/'';
          out = (if rooted then ''/'' else []) @ joinStr ''/'' (rev (cleanSegments rooted [] (splitOn CHR ''/'' p)))
      in if out = [] then ''.'' else out)"

definition pathJoin :: "string list \<Rightarrow> string" where
  "pathJoin elems = (case filter (\<lambda>e. e \<noteq> []) elems of [] \<Rightarrow> [] | es \<Rightarrow> cleanPath (joinStr ''/'' es))"

definition expandHome :: "path_env \<Rightarrow> string \<Rightarrow> string" where
  "expandHome pe path0 =
     (let path = trimSpace path0 in
      case peHome pe of
        Inl _ \<Rightarrow> path
      | Inr home \<Rightarrow>
          if home = [] then path
          else if path = ''~'' then home
          else if hasPrefix path ''~/'' then pathJoin [home, drop 2 path]
          else path)"

definition absolutePath :: "path_env \<Rightarrow> string \<Rightarrow> string" where
  "absolutePath pe path0 =
     (let path = trimSpace path0 in
      if path = [] \<or> hasPrefix path ''/'' then path
      else (case peCwd pe of Inl _ \<Rightarrow> path | Inr cwd \<Rightarrow> pathJoin [cwd, path]))"

section \<open>The settings\<close>

record ops_terraform =
  trDir :: string
  trWorkspace :: string
  trVarFile :: string

record ops_ssh =
  shHost :: string
  shKeyPath :: string
  shOptions :: "string list"

record scf_settings =
  sfRegion :: string
  sfNamespace :: string
  sfFunctionName :: string
  sfRole :: string
  sfImage :: string
  sfPublicDomain :: string
  sfDescription :: string
  sfMemoryMB :: int
  sfTimeoutSec :: int
  sfInitSec :: int

record ops_plane =
  opName :: string
  opProvider :: string
  opRegion :: string
  opSSH :: ops_ssh
  opTerraform :: ops_terraform
  opRegistryMirror :: string

text \<open>Config; the structs Install, Binaries, Tokens, Provider and Observability are flattened.\<close>

record ops_config =
  ocPath :: string
  ocSCF :: scf_settings
  ocPlanes :: "ops_plane list"
  ocSSH :: ops_ssh
  ocInstallRoot :: string
  ocIngressBaseDomain :: string
  ocInstallRegistryMirror :: string
  ocControlPlaneBinary :: string
  ocCloudPlaneBinary :: string
  ocNodeAgentBinary :: string
  ocWebDist :: string
  ocAdminToken :: string
  ocSouthboundToken :: string
  ocNodeAgentToken :: string
  ocTencentCredentialFile :: string
  ocWorkloadOTLPEndpoint :: string

section \<open>Defaults\<close>

definition defaultString :: "string \<Rightarrow> string \<Rightarrow> string" where
  "defaultString v fallback = (if trimSpace v = [] then fallback else trimSpace v)"

definition defaultInt :: "int \<Rightarrow> int \<Rightarrow> int" where
  "defaultInt v fallback = (if v = 0 then fallback else v)"

definition sshDefaults :: "ops_ssh \<Rightarrow> ops_ssh \<Rightarrow> ops_ssh" where
  "sshDefaults parent s =
     \<lparr>shHost = defaultString (shHost s) (shHost parent), shKeyPath = defaultString (shKeyPath s) (shKeyPath parent),
      shOptions = (if shOptions s = [] then shOptions parent else shOptions s)\<rparr>"

definition planeDefaults :: "path_env \<Rightarrow> ops_ssh \<Rightarrow> ops_plane \<Rightarrow> ops_plane" where
  "planeDefaults pe parent p =
     (let name = trimSpace (opName p); provider = toLower (trimSpace (opProvider p)); t = opTerraform p in
      \<lparr>opName = name, opProvider = provider, opRegion = trimSpace (opRegion p), opSSH = sshDefaults parent (opSSH p),
       opTerraform =
         \<lparr>trDir = defaultString (trDir t) (pathJoin [''deploy'', ''terraform'', ''ops'', provider]),
          trWorkspace = defaultString (trWorkspace t) name,
          trVarFile = absolutePath pe (expandHome pe (trVarFile t))\<rparr>,
       opRegistryMirror = trimSpace (opRegistryMirror p)\<rparr>)"

definition scfDefaults :: "scf_settings \<Rightarrow> scf_settings" where
  "scfDefaults s =
     \<lparr>sfRegion = defaultString (sfRegion s) ''ap-guangzhou'', sfNamespace = defaultString (sfNamespace s) ''default'',
      sfFunctionName = defaultString (sfFunctionName s) ''mini-cloud-control-plane'',
      sfRole = defaultString (sfRole s) ''mini-cloud'', sfImage = sfImage s, sfPublicDomain = cleanDomain (sfPublicDomain s),
      sfDescription = defaultString (sfDescription s) ''mini-cloud control-plane'',
      sfMemoryMB = defaultInt (sfMemoryMB s) 512, sfTimeoutSec = defaultInt (sfTimeoutSec s) 30,
      sfInitSec = defaultInt (sfInitSec s) 30\<rparr>"

definition applyOpsDefaults :: "path_env \<Rightarrow> ops_config \<Rightarrow> ops_config" where
  "applyOpsDefaults pe c =
     c\<lparr>ocInstallRoot := defaultString (ocInstallRoot c) ''/opt/mini-cloud'',
       ocIngressBaseDomain := trimDots (trimSpace (ocIngressBaseDomain c)),
       ocSCF := scfDefaults (ocSCF c),
       ocControlPlaneBinary := defaultString (ocControlPlaneBinary c) ''dist/release/linux-amd64/control-plane'',
       ocCloudPlaneBinary := defaultString (ocCloudPlaneBinary c) ''dist/release/linux-amd64/cloud-plane'',
       ocNodeAgentBinary := defaultString (ocNodeAgentBinary c) ''dist/release/linux-amd64/node-agent'',
       ocWebDist := defaultString (ocWebDist c) ''web/dist'',
       ocTencentCredentialFile :=
         expandHome pe (defaultString (ocTencentCredentialFile c) ''~/.tccli/default.credential''),
       ocAdminToken := trimSpace (ocAdminToken c), ocSouthboundToken := trimSpace (ocSouthboundToken c),
       ocNodeAgentToken := trimSpace (ocNodeAgentToken c),
       ocPlanes := map (planeDefaults pe (ocSSH c)) (ocPlanes c)\<rparr>"

section \<open>Validation\<close>

text \<open>The maps of the names and of the hosts that were seen; a host that no name owns is one that was not.\<close>

definition validateOpsPlane :: "string list \<Rightarrow> (string \<times> string) list \<Rightarrow> ops_plane \<Rightarrow> unit res" where
  "validateOpsPlane seen hosts p =
     (let quoted = goQuote (opName p); host = shHost (opSSH p);
          owner = (case map_of hosts host of None \<Rightarrow> [] | Some n \<Rightarrow> n) in
      if \<not> nonBlank (opName p) then Inl (Errorf ''planes.name is required'')
      else if opName p \<in> set seen then Inl (Errorf (''duplicate plane name '' @ quoted))
      else if opProvider p \<noteq> ''aliyun'' \<and> opProvider p \<noteq> ''tencent'' then
        Inl (Errorf (''plane '' @ quoted @ '' provider must be aliyun or tencent''))
      else if \<not> nonBlank (opRegion p) then Inl (Errorf (''plane '' @ quoted @ '' region is required''))
      else if \<not> nonBlank host then Inl (Errorf (''plane '' @ quoted @ '' ssh.host is required''))
      else if owner \<noteq> [] then
        Inl (Errorf (''planes '' @ goQuote owner @ '' and '' @ quoted @ '' use the same ssh.host '' @ goQuote host
          @ ''; a host can run only one cloud-plane''))
      else if \<not> nonBlank (trDir (opTerraform p)) then Inl (Errorf (''plane '' @ quoted @ '' terraform.dir is required''))
      else if \<not> nonBlank (trWorkspace (opTerraform p)) then
        Inl (Errorf (''plane '' @ quoted @ '' terraform.workspace is required''))
      else if \<not> nonBlank (trVarFile (opTerraform p)) then
        Inl (Errorf (''plane '' @ quoted @ '' terraform.varFile is required''))
      else Inr ())"

fun validateOpsPlanes :: "string list \<Rightarrow> (string \<times> string) list \<Rightarrow> ops_plane list \<Rightarrow> unit res" where
  "validateOpsPlanes seen hosts [] = Inr ()"
| "validateOpsPlanes seen hosts (p # ps) =
     (case validateOpsPlane seen hosts p of
        Inl err \<Rightarrow> Inl err
      | Inr _ \<Rightarrow> validateOpsPlanes (opName p # seen) ((shHost (opSSH p), opName p) # hosts) ps)"

definition validateOpsBase :: "ops_config \<Rightarrow> unit res" where
  "validateOpsBase c =
     (let s = ocSCF c in
      if \<not> nonBlank (sfRegion s) then Inl (Errorf ''controlPlane.scf.region is required'')
      else if \<not> nonBlank (sfNamespace s) then Inl (Errorf ''controlPlane.scf.namespace is required'')
      else if \<not> nonBlank (sfFunctionName s) then Inl (Errorf ''controlPlane.scf.functionName is required'')
      else if \<not> nonBlank (sfRole s) then Inl (Errorf ''controlPlane.scf.role is required'')
      else if \<not> nonBlank (sfImage s) then Inl (Errorf ''controlPlane.scf.image is required'')
      else if \<not> nonBlank (sfPublicDomain s) then Inl (Errorf ''controlPlane.scf.publicDomain is required'')
      else if \<not> nonBlank (ocInstallRoot c) then Inl (Errorf ''install.root is required'')
      else if ocPlanes c = [] then Inl (Errorf ''planes is required'')
      else validateOpsPlanes [] [] (ocPlanes c))"

definition validateDeploy :: "ops_config \<Rightarrow> unit res" where
  "validateDeploy c =
     (if \<not> nonBlank (ocIngressBaseDomain c) then Inl (Errorf ''install.ingressBaseDomain is required'')
      else if \<not> nonBlank (ocAdminToken c) then Inl (Errorf ''tokens.controlPlaneAdmin is required'')
      else if \<not> nonBlank (ocSouthboundToken c) then Inl (Errorf ''tokens.controlPlaneSouthbound is required'')
      else if \<not> nonBlank (ocNodeAgentToken c) then Inl (Errorf ''tokens.nodeAgent is required'')
      else Inr ())"

text \<open>os.Stat: whether the file is a directory, an error, and whether the error is that it does not exist.\<close>

type_synonym file_stat = "string \<Rightarrow> (bool \<times> goerr) + bool"

definition missingText :: "string \<Rightarrow> string" where
  "missingText path = path @ '' does not exist; run make release first or update deploy/ops/config.yaml''"

definition requireFile :: "file_stat \<Rightarrow> string \<Rightarrow> unit res" where
  "requireFile stat path =
     (case stat path of
        Inl (notExist, err) \<Rightarrow> if notExist then Inl (Errorf (missingText path)) else Inl (wrap (''stat '' @ path) err)
      | Inr _ \<Rightarrow> Inr ())"

definition requireDir :: "file_stat \<Rightarrow> string \<Rightarrow> unit res" where
  "requireDir stat path =
     (case stat path of
        Inl (notExist, err) \<Rightarrow> if notExist then Inl (Errorf (missingText path)) else Inl (wrap (''stat '' @ path) err)
      | Inr isDir \<Rightarrow> if \<not> isDir then Inl (Errorf (path @ '' is not a directory'')) else Inr ())"

definition validateControlPlaneArtifacts :: "file_stat \<Rightarrow> ops_config \<Rightarrow> unit res" where
  "validateControlPlaneArtifacts stat c =
     bindR (requireFile stat (ocControlPlaneBinary c)) (\<lambda>_. requireDir stat (ocWebDist c))"

definition validateCloudPlaneArtifacts :: "file_stat \<Rightarrow> ops_config \<Rightarrow> unit res" where
  "validateCloudPlaneArtifacts stat c =
     bindR (requireFile stat (ocCloudPlaneBinary c)) (\<lambda>_. requireFile stat (ocNodeAgentBinary c))"

definition validateArtifacts :: "file_stat \<Rightarrow> ops_config \<Rightarrow> unit res" where
  "validateArtifacts stat c = bindR (validateControlPlaneArtifacts stat c) (\<lambda>_. validateCloudPlaneArtifacts stat c)"

definition loadOpsConfig ::
  "path_env \<Rightarrow> (string \<Rightarrow> string res) \<Rightarrow> (string \<Rightarrow> ops_config res) \<Rightarrow> string \<Rightarrow> ops_config res" where
  "loadOpsConfig pe readFile decode path0 =
     (let path = trimSpace path0 in
      if path = [] then Inl (Errorf ''ops config path is required'')
      else (case readFile path of
              Inl err \<Rightarrow> Inl (wrap (''read ops config '' @ goQuote path) err)
            | Inr data \<Rightarrow>
                (case decode data of
                   Inl err \<Rightarrow> Inl (wrap (''parse ops config '' @ goQuote path) err)
                 | Inr raw \<Rightarrow>
                     (let cfg = applyOpsDefaults pe (raw\<lparr>ocPath := path\<rparr>)
                      in bindR (validateOpsBase cfg) (\<lambda>_. Inr cfg)))))"

section \<open>What a loaded configuration is known to be\<close>

lemma validateOpsPlane_ok:
  assumes "validateOpsPlane seen hosts p = Inr ()"
  shows "nonBlank (opName p)" "opName p \<notin> set seen" "opProvider p = ''aliyun'' \<or> opProvider p = ''tencent''"
    "nonBlank (shHost (opSSH p))" "\<forall>n. map_of hosts (shHost (opSSH p)) = Some n \<longrightarrow> n = []"
  using assms by (auto simp: validateOpsPlane_def Let_def split: if_splits)

text \<open>The names and the hosts of accepted planes are distinct, and differ from those that were seen.\<close>

lemma validateOpsPlanes_ok:
  assumes "validateOpsPlanes seen hosts ps = Inr ()" "\<forall>(h, n)\<in>set hosts. n \<noteq> []"
  shows "distinct (map opName ps) \<and> set (map opName ps) \<inter> set seen = {} \<and> distinct (map (\<lambda>p. shHost (opSSH p)) ps)
     \<and> set (map (\<lambda>p. shHost (opSSH p)) ps) \<inter> fst ` set hosts = {}
     \<and> (\<forall>p\<in>set ps. nonBlank (opName p) \<and> (opProvider p = ''aliyun'' \<or> opProvider p = ''tencent''))"
  using assms
proof (induction ps arbitrary: seen hosts)
  case Nil
  then show ?case by simp
next
  case (Cons p ps)
  then have v: "validateOpsPlane seen hosts p = Inr ()"
      "validateOpsPlanes (opName p # seen) ((shHost (opSSH p), opName p) # hosts) ps = Inr ()"
    by (auto split: sum.splits)
  note ok = validateOpsPlane_ok [OF v(1)]
  have "opName p \<noteq> []" using ok(1) by auto
  then have "\<forall>(h, n)\<in>set ((shHost (opSSH p), opName p) # hosts). n \<noteq> []" using Cons.prems(2) by auto
  note ih = Cons.IH [OF v(2) this]
  have "shHost (opSSH p) \<notin> fst ` set hosts"
  proof
    assume "shHost (opSSH p) \<in> fst ` set hosts"
    then obtain n where n: "map_of hosts (shHost (opSSH p)) = Some n" by (meson map_of_eq_None_iff not_None_eq)
    then show False using ok(5) Cons.prems(2) map_of_SomeD [OF n] by auto
  qed
  then show ?case using ih ok(1-3) by auto
qed

end
