(* ===== verification/OpsCommands.thy ===== *)
theory OpsCommands
  imports OpsConfig
begin

text \<open>
  internal/ops: how minictl runs commands (command.go), terraform (terraform.go), ssh (ssh.go) and the
  tasks of all planes (parallel.go).  The commands are those of the host, a parameter: what a command
  answers may depend on a world 'w, in which other tasks and other people act as well.  JSON decoders are
  parameters of the calls.
\<close>

section \<open>command.go\<close>

text \<open>What a command whose output is captured left: its output or error, what it wrote to stderr, and the
  error of its context.\<close>

record command_answer =
  caResult :: "string res"
  caStderr :: string
  caCtxErr :: "goerr option"

text \<open>A command is its name and its arguments.  Waiting ends with an error when the context ends.\<close>

record 'w ops_host =
  ohOutput :: "string list \<Rightarrow> 'w \<Rightarrow> command_answer \<times> 'w"
  ohRun :: "string \<Rightarrow> string list \<Rightarrow> 'w \<Rightarrow> goerr option \<times> 'w"
  ohWait :: "int \<Rightarrow> 'w \<Rightarrow> goerr option \<times> 'w"
  ohSleep :: "int \<Rightarrow> 'w \<Rightarrow> 'w"
  ohNow :: "'w \<Rightarrow> instant"

definition commandText :: "string list \<Rightarrow> string" where
  "commandText cmd = joinStr '' '' cmd"

definition runInteractive :: "'w ops_host \<Rightarrow> string list \<Rightarrow> 'w \<Rightarrow> goerr option \<times> 'w" where
  "runInteractive host cmd w =
     (case ohRun host [] cmd w of
        (Some err, w1) \<Rightarrow> (Some (wrap (commandText cmd) err), w1)
      | (None, w1) \<Rightarrow> (None, w1))"

definition runInput :: "'w ops_host \<Rightarrow> string \<Rightarrow> string list \<Rightarrow> 'w \<Rightarrow> goerr option \<times> 'w" where
  "runInput host stdin cmd w =
     (case ohRun host stdin cmd w of
        (Some err, w1) \<Rightarrow> (Some (wrap (commandText cmd) err), w1)
      | (None, w1) \<Rightarrow> (None, w1))"

definition cloudCLI :: "string \<Rightarrow> bool" where
  "cloudCLI name \<longleftrightarrow> name = ''aliyun'' \<or> name = ''tccli''"

definition errContains :: "goerr \<Rightarrow> string \<Rightarrow> bool" where
  "errContains err fragment \<longleftrightarrow> containsStr (toLower (errText err)) (toLower fragment)"

definition temporaryCommandFailure :: "goerr \<Rightarrow> bool" where
  "temporaryCommandFailure err \<longleftrightarrow> list_ex (containsStr (toLower (errText err)))
     [''temporary failure in name resolution'', ''nameresolutionerror'', ''failed to resolve'',
      ''context deadline exceeded'', ''max retries exceeded'', ''connection timed out'', ''timeout'']"

definition outputError :: "string list \<Rightarrow> command_answer \<Rightarrow> goerr \<Rightarrow> goerr" where
  "outputError cmd a err =
     (case caCtxErr a of
        Some ctxErr \<Rightarrow> wrap (commandText cmd) ctxErr
      | None \<Rightarrow> Wrapf (commandText cmd @ '': '') err ('': '' @ trimSpace (caStderr a)))"

text \<open>The attempts from one on, with the number of those that are left after it.\<close>

fun outputAttempts :: "'w ops_host \<Rightarrow> string list \<Rightarrow> int \<Rightarrow> nat \<Rightarrow> 'w \<Rightarrow> string res \<times> 'w" where
  "outputAttempts host cmd attempt 0 w =
     (case ohOutput host cmd w of
        (a, w1) \<Rightarrow> (case caResult a of Inr data \<Rightarrow> (Inr data, w1) | Inl err \<Rightarrow> (Inl (outputError cmd a err), w1)))"
| "outputAttempts host cmd attempt (Suc left) w =
     (case ohOutput host cmd w of
        (a, w1) \<Rightarrow>
          (case caResult a of
             Inr data \<Rightarrow> (Inr data, w1)
           | Inl err \<Rightarrow>
               if \<not> temporaryCommandFailure (outputError cmd a err) then (Inl (outputError cmd a err), w1)
               else
                 (case ohWait host (secondsDur (attempt * 5)) w1 of
                    (Some ctxErr, w2) \<Rightarrow> (Inl ctxErr, w2)
                  | (None, w2) \<Rightarrow> outputAttempts host cmd (attempt + 1) left w2)))"

definition runOutput :: "'w ops_host \<Rightarrow> string list \<Rightarrow> 'w \<Rightarrow> string res \<times> 'w" where
  "runOutput host cmd = outputAttempts host cmd 1 (if cmd \<noteq> [] \<and> cloudCLI (hd cmd) then 2 else 0)"

definition runJSON :: "'w ops_host \<Rightarrow> (string \<Rightarrow> 'x res) \<Rightarrow> string list \<Rightarrow> 'w \<Rightarrow> 'x res \<times> 'w" where
  "runJSON host decode cmd w =
     (case runOutput host cmd w of
        (Inl err, w1) \<Rightarrow> (Inl err, w1)
      | (Inr data, w1) \<Rightarrow>
          (case decode data of
             Inl err \<Rightarrow> (Inl (Wrapf (''parse '' @ commandText cmd @ '' output: '') err []), w1)
           | Inr x \<Rightarrow> (Inr x, w1)))"

text \<open>A command whose output does not matter.\<close>

definition runQuiet :: "'w ops_host \<Rightarrow> string list \<Rightarrow> 'w \<Rightarrow> goerr option \<times> 'w" where
  "runQuiet host cmd w = (case runOutput host cmd w of (Inl err, w1) \<Rightarrow> (Some err, w1) | (Inr _, w1) \<Rightarrow> (None, w1))"

section \<open>ssh.go\<close>

definition sshArgs :: "ops_ssh \<Rightarrow> string list" where
  "sshArgs cfg = (if trimSpace (shKeyPath cfg) \<noteq> [] then [''-i'', trimSpace (shKeyPath cfg)] else []) @ shOptions cfg"

definition becomeRoot :: string where
  "becomeRoot = ''if [ '' @ [CHR 0x22] @ ''$(id -u)'' @ [CHR 0x22] @ '' = 0 ]; then bash -s; else sudo -n bash -s; fi''"

definition sshScript :: "'w ops_host \<Rightarrow> ops_ssh \<Rightarrow> string \<Rightarrow> string \<Rightarrow> 'w \<Rightarrow> goerr option \<times> 'w" where
  "sshScript host cfg target script = runInput host script ([''ssh''] @ sshArgs cfg @ [target, becomeRoot])"

definition isDecimal :: "string \<Rightarrow> bool" where
  "isDecimal s \<longleftrightarrow> s \<noteq> [] \<and> list_all (\<lambda>c. CHR ''0'' \<le> c \<and> c \<le> CHR ''9'') s"

text \<open>strconv.Atoi on the second part of an address; a sign is allowed.\<close>

definition private172 :: "string \<Rightarrow> bool" where
  "private172 v =
     (case splitOn CHR ''.'' v of
        p1 # p2 # _ \<Rightarrow>
          p1 = ''172'' \<and>
          (let ds = (if hasPrefix p2 ''-'' \<or> hasPrefix p2 ''+'' then drop 1 p2 else p2);
               n = foldl (\<lambda>n c. 10 * n + (of_char c - 48)) (0::int) ds; second = (if hasPrefix p2 ''-'' then - n else n)
           in isDecimal ds \<and> 16 \<le> second \<and> second \<le> 31)
      | _ \<Rightarrow> False)"

definition detectPrivateIP :: "'w ops_host \<Rightarrow> ops_ssh \<Rightarrow> string \<Rightarrow> 'w \<Rightarrow> string res \<times> 'w" where
  "detectPrivateIP host cfg target w =
     (case runOutput host ([''ssh''] @ sshArgs cfg @ [target, ''hostname -I'']) w of
        (Inl err, w1) \<Rightarrow> (Inl err, w1)
      | (Inr data, w1) \<Rightarrow>
          (case List.find (\<lambda>f. hasPrefix f ''10.'' \<or> hasPrefix f ''192.168.'' \<or> private172 f) (fieldsOf data) of
             Some f \<Rightarrow> (Inr f, w1)
           | None \<Rightarrow> (Inl (Errorf (''could not detect a private IP on '' @ target)), w1)))"

fun quoteEach :: "string \<Rightarrow> string" where
  "quoteEach [] = []"
| "quoteEach (c # s) =
     (if c = CHR 0x27 then [CHR 0x27, CHR 0x22, CHR 0x27, CHR 0x22, CHR 0x27] @ quoteEach s else c # quoteEach s)"

definition opsShellQuote :: "string \<Rightarrow> string" where
  "opsShellQuote v = (if v = [] then [CHR 0x27, CHR 0x27] else [CHR 0x27] @ quoteEach v @ [CHR 0x27])"

section \<open>terraform.go\<close>

record ops_platform =
  ofName :: string
  ofInstanceID :: string
  ofPublicIP :: string
  ofPrivateIP :: string
  ofSSHHost :: string
  ofGRPCEndpoint :: string

record ops_network =
  onSubnetCIDRBlock :: string
  onCloudPlaneGRPCPort :: int
  onIngressHTTPPort :: int
  onWorkloadProxyPort :: int
  onArtifactHTTPPort :: int

record install_env =
  iePlatformPublicIP :: string
  iePlatformPrivateIP :: string
  iePlatformSSHHost :: string
  ieRegionID :: string
  ieZoneID :: string

record node_provider_config =
  npProvider :: string
  npInstanceType :: string
  npImageID :: string
  npKeyPairName :: string
  npVSwitchID :: string
  npSecurityGroupID :: string
  npSystemDiskCategory :: string
  npSystemDiskSizeGiB :: int
  npKeyIDs :: "string list"
  npVPCID :: string
  npSubnetID :: string
  npSecurityGroupIDs :: "string list"
  npSystemDiskType :: string

record terraform_output =
  toProvider :: string
  toPlatformMode :: string
  toPlatform :: ops_platform
  toNetwork :: ops_network
  toCCN :: "string option"
  toNodeProvider :: node_provider_config
  toInstallEnv :: install_env

definition ProviderName :: "terraform_output \<Rightarrow> string" where
  "ProviderName out = toLower (trimSpace (toProvider out))"

definition PlatformModeName :: "terraform_output \<Rightarrow> string" where
  "PlatformModeName out = toLower (trimSpace (toPlatformMode out))"

definition outRegionID :: "terraform_output \<Rightarrow> string" where
  "outRegionID out = trimSpace (ieRegionID (toInstallEnv out))"

definition outPlatformHost :: "terraform_output \<Rightarrow> string" where
  "outPlatformHost out =
     (if nonBlank (ofSSHHost (toPlatform out)) then trimSpace (ofSSHHost (toPlatform out))
      else if nonBlank (iePlatformSSHHost (toInstallEnv out)) then trimSpace (iePlatformSSHHost (toInstallEnv out))
      else if nonBlank (ofPublicIP (toPlatform out)) then ''root@'' @ trimSpace (ofPublicIP (toPlatform out))
      else [])"

definition platformHost :: "ops_plane \<Rightarrow> terraform_output \<Rightarrow> string res" where
  "platformHost p out =
     (if nonBlank (shHost (opSSH p)) then Inr (trimSpace (shHost (opSSH p)))
      else if outPlatformHost out = [] then Inl (Errorf (''platform SSH host is missing for plane '' @ opName p))
      else Inr (outPlatformHost out))"

definition tfCommand :: "ops_plane \<Rightarrow> string list \<Rightarrow> string list" where
  "tfCommand p args = [''terraform'', ''-chdir='' @ trDir (opTerraform p)] @ args"

definition terraform :: "'w ops_host \<Rightarrow> ops_plane \<Rightarrow> string list \<Rightarrow> 'w \<Rightarrow> goerr option \<times> 'w" where
  "terraform host p args = runInteractive host (tfCommand p args)"

text \<open>The waiting follows every failed attempt, the last one too.\<close>

fun initAttempts :: "'w ops_host \<Rightarrow> ops_plane \<Rightarrow> int \<Rightarrow> nat \<Rightarrow> goerr option \<Rightarrow> 'w \<Rightarrow> goerr option \<times> 'w" where
  "initAttempts host p attempt 0 lastErr w = (lastErr, w)"
| "initAttempts host p attempt (Suc left) lastErr w =
     (case terraform host p [''init''] w of
        (None, w1) \<Rightarrow> (None, w1)
      | (Some err, w1) \<Rightarrow>
          (case ohWait host (secondsDur (attempt * 5)) w1 of
             (Some ctxErr, w2) \<Rightarrow> (Some ctxErr, w2)
           | (None, w2) \<Rightarrow> initAttempts host p (attempt + 1) left (Some err) w2))"

definition terraformInit :: "'w ops_host \<Rightarrow> ops_plane \<Rightarrow> 'w \<Rightarrow> goerr option \<times> 'w" where
  "terraformInit host p = initAttempts host p 1 3 None"

definition selectTerraformWorkspace :: "'w ops_host \<Rightarrow> ops_plane \<Rightarrow> 'w \<Rightarrow> goerr option \<times> 'w" where
  "selectTerraformWorkspace host p w =
     (case runOutput host (tfCommand p [''workspace'', ''select'', trWorkspace (opTerraform p)]) w of
        (Inr _, w1) \<Rightarrow> (None, w1)
      | (Inl _, w1) \<Rightarrow> runInteractive host (tfCommand p [''workspace'', ''new'', trWorkspace (opTerraform p)]) w1)"

definition varFileArg :: "string \<Rightarrow> string list" where
  "varFileArg path = (if trimSpace path = [] then [] else [''-var-file='' @ trimSpace path])"

definition terraformApplyArgs :: "ops_plane \<Rightarrow> string list" where
  "terraformApplyArgs p = [''apply''] @ varFileArg (trVarFile (opTerraform p)) @ [''-auto-approve'']"

definition terraformDestroyArgs :: "ops_plane \<Rightarrow> string list" where
  "terraformDestroyArgs p = [''destroy''] @ varFileArg (trVarFile (opTerraform p)) @ [''-auto-approve'']"

definition terraformOutput ::
  "'w ops_host \<Rightarrow> (string \<Rightarrow> terraform_output res) \<Rightarrow> ops_plane \<Rightarrow> 'w \<Rightarrow> terraform_output res \<times> 'w" where
  "terraformOutput host decode p w =
     (case runOutput host (tfCommand p [''output'', ''-json'']) w of
        (Inl err, w1) \<Rightarrow> (Inl err, w1)
      | (Inr data, w1) \<Rightarrow>
          (case decode data of
             Inl err \<Rightarrow> (Inl (wrap ''parse terraform output'' err), w1)
           | Inr out \<Rightarrow> (Inr out, w1)))"

section \<open>parallel.go\<close>

text \<open>The errors of the tasks of the planes, each in its goroutine, joined in the order of the planes.\<close>

definition joinPlaneTasks :: "ops_plane list \<Rightarrow> goerr option list \<Rightarrow> goerr option" where
  "joinPlaneTasks ps errs =
     errorsJoin (map2 (\<lambda>p e. map_option (wrap (''plane '' @ opName p)) e) ps errs)"

section \<open>Polling\<close>

text \<open>
  The loops that probe something until it is settled, a deadline has passed or the context ends.  A probe
  settles the loop or leaves what the next rounds remember.  The number of rounds is fuel: a loop that
  ends does so within the rounds that fit before the deadline (poll_enough).
\<close>

fun poll ::
  "'w ops_host \<Rightarrow> int \<Rightarrow> instant \<Rightarrow> ('s \<Rightarrow> 'w \<Rightarrow> ('r + 's) \<times> 'w) \<Rightarrow> ('s \<Rightarrow> 'r) \<Rightarrow> (goerr \<Rightarrow> 'r) \<Rightarrow> nat \<Rightarrow> 's \<Rightarrow> 'w \<Rightarrow> 'r \<times> 'w" where
  "poll host d deadline probe late ended 0 s w = (late s, w)"
| "poll host d deadline probe late ended (Suc n) s w =
     (case probe s w of
        (Inl r, w1) \<Rightarrow> (r, w1)
      | (Inr s1, w1) \<Rightarrow>
          if deadline < ohNow host w1 then (late s1, w1)
          else (case ohWait host d w1 of
                  (Some ctxErr, w2) \<Rightarrow> (ended ctxErr, w2)
                | (None, w2) \<Rightarrow> poll host d deadline probe late ended n s1 w2))"

text \<open>The rounds that fit into a time, with the waiting between them.\<close>

definition pollRounds :: "int \<Rightarrow> int \<Rightarrow> nat" where
  "pollRounds time d = nat (time div d) + 2"

lemma poll_enough:
  assumes "0 < d" and wait: "\<And>w w'. ohWait host d w = (None, w') \<Longrightarrow> nanos (ohNow host w) + d \<le> nanos (ohNow host w')"
    and probe: "\<And>s w r w'. probe s w = (r, w') \<Longrightarrow> nanos (ohNow host w) \<le> nanos (ohNow host w')"
  shows "nanos deadline - nanos (ohNow host w) \<le> int k * d - d \<Longrightarrow> k < n \<Longrightarrow> k < m \<Longrightarrow>
    poll host d deadline probe late ended n s w = poll host d deadline probe late ended m s w"
proof (induction k arbitrary: n m s w)
  case 0
  then obtain n' m' where nm: "n = Suc n'" "m = Suc m'" by (metis gr0_implies_Suc)
  obtain r w1 where r: "probe s w = (r, w1)" by fastforce
  have "nanos deadline < nanos (ohNow host w1)" using 0(1) probe [OF r] assms(1) by simp
  then have "deadline < ohNow host w1" by (simp add: less_instant_def)
  then show ?case by (simp add: nm r split: sum.splits)
next
  case (Suc k)
  obtain n' m' where nm: "n = Suc n'" "m = Suc m'" "k < n'" "k < m'" using Suc.prems(2,3) by (cases n; cases m) auto
  obtain r w1 where r: "probe s w = (r, w1)" by fastforce
  have later: "nanos deadline - nanos (ohNow host w2) \<le> int k * d - d" if "ohWait host d w1 = (None, w2)" for w2
    using wait [OF that] probe [OF r] Suc.prems(1) by (simp add: algebra_simps)
  show ?case
    using Suc.IH [OF later nm(3,4)] by (auto simp: nm(1,2) r split: sum.splits prod.splits option.splits)
qed

section \<open>Commands that keep a contract\<close>

text \<open>
  A host that remembers what its commands answered, and a rule that says which commands those answers
  permit: more answers permit more.  The operations of minictl are shown to run permitted commands only,
  one lemma for each.
\<close>

type_synonym answers = "string list \<Rightarrow> string \<Rightarrow> bool"

locale command_contract =
  fixes host :: "'w ops_host"
    and saw :: "'w \<Rightarrow> answers"
    and permits :: "answers \<Rightarrow> string list \<Rightarrow> bool"
    and I :: "'w \<Rightarrow> bool"
  assumes permits_mono: "permits S cmd \<Longrightarrow> (\<And>c d. S c d \<Longrightarrow> S' c d) \<Longrightarrow> permits S' cmd"
    and output_law: "I w \<Longrightarrow> permits (saw w) cmd \<Longrightarrow> ohOutput host cmd w = (a, w') \<Longrightarrow>
      I w' \<and> saw w \<le> saw w' \<and> (\<forall>data. caResult a = Inr data \<longrightarrow> saw w' cmd data)"
    and run_law: "I w \<Longrightarrow> permits (saw w) cmd \<Longrightarrow> ohRun host stdin cmd w = (e, w') \<Longrightarrow>
      I w' \<and> saw w \<le> saw w' \<and> (e = None \<longrightarrow> saw w' cmd [])"
    and wait_law: "I w \<Longrightarrow> ohWait host d w = (e, w') \<Longrightarrow> I w' \<and> saw w \<le> saw w'"
    and sleep_law: "I w \<Longrightarrow> I (ohSleep host d w) \<and> saw w \<le> saw (ohSleep host d w)"
begin

lemma permits_later: "permits (saw w) cmd \<Longrightarrow> saw w \<le> saw w' \<Longrightarrow> permits (saw w') cmd"
  by (erule permits_mono) (auto simp: le_fun_def)

definition moves :: "'w \<Rightarrow> 'w \<Rightarrow> bool" where
  "moves w w' \<longleftrightarrow> I w' \<and> saw w \<le> saw w'"

lemma moves_trans [trans]: "moves w w1 \<Longrightarrow> moves w1 w2 \<Longrightarrow> moves w w2"
  by (auto simp: moves_def)

lemma moves_refl: "I w \<Longrightarrow> moves w w"
  by (simp add: moves_def)

lemma moves_inv: "moves w w' \<Longrightarrow> I w'"
  by (simp add: moves_def)

lemma moves_permits: "moves w w' \<Longrightarrow> permits (saw w) cmd \<Longrightarrow> permits (saw w') cmd"
  by (auto simp: moves_def intro: permits_later)

lemma moves_saw: "moves w w' \<Longrightarrow> saw w c d \<Longrightarrow> saw w' c d"
  by (auto simp: moves_def le_fun_def)

lemma outputAttempts_moves:
  "I w \<Longrightarrow> permits (saw w) cmd \<Longrightarrow> outputAttempts host cmd attempt left w = (r, w') \<Longrightarrow>
     moves w w' \<and> (\<forall>data. r = Inr data \<longrightarrow> saw w' cmd data)"
proof (induction left arbitrary: attempt w)
  case 0
  obtain a w1 where o1: "ohOutput host cmd w = (a, w1)" by fastforce
  show ?case using 0(3) output_law [OF 0(1,2) o1] o1 by (auto simp: moves_def split: sum.splits)
next
  case (Suc left)
  obtain a w1 where o1: "ohOutput host cmd w = (a, w1)" by fastforce
  note l1 = output_law [OF Suc.prems(1,2) o1]
  obtain e w2 where o2: "ohWait host (secondsDur (attempt * 5)) w1 = (e, w2)" by fastforce
  have l2: "I w2 \<and> saw w1 \<le> saw w2" using wait_law o2 l1 by blast
  have m2: "moves w w2" using l1 l2 by (auto simp: moves_def)
  note ih = Suc.IH [OF moves_inv [OF m2] moves_permits [OF m2 Suc.prems(2)]]
  show ?case
    using Suc.prems(3) o1 o2 l1 l2 m2 ih moves_trans [OF m2]
    by (auto simp: moves_def split: sum.splits option.splits if_splits)
qed

lemma runOutput_moves:
  "I w \<Longrightarrow> permits (saw w) cmd \<Longrightarrow> runOutput host cmd w = (r, w') \<Longrightarrow>
     moves w w' \<and> (\<forall>data. r = Inr data \<longrightarrow> saw w' cmd data)"
  unfolding runOutput_def by (rule outputAttempts_moves)

lemma runQuiet_moves: "I w \<Longrightarrow> permits (saw w) cmd \<Longrightarrow> runQuiet host cmd w = (r, w') \<Longrightarrow> moves w w'"
  using runOutput_moves by (fastforce simp: runQuiet_def split: prod.splits sum.splits)

lemma runJSON_moves:
  "I w \<Longrightarrow> permits (saw w) cmd \<Longrightarrow> runJSON host decode cmd w = (r, w') \<Longrightarrow>
     moves w w' \<and> (\<forall>x. r = Inr x \<longrightarrow> (\<exists>data. saw w' cmd data \<and> decode data = Inr x))"
  using runOutput_moves by (fastforce simp: runJSON_def split: prod.splits sum.splits)

lemma runInteractive_moves:
  "I w \<Longrightarrow> permits (saw w) cmd \<Longrightarrow> runInteractive host cmd w = (r, w') \<Longrightarrow> moves w w' \<and> (r = None \<longrightarrow> saw w' cmd [])"
  using run_law by (fastforce simp: runInteractive_def moves_def split: prod.splits option.splits)

lemma runInput_moves: "I w \<Longrightarrow> permits (saw w) cmd \<Longrightarrow> runInput host stdin cmd w = (r, w') \<Longrightarrow> moves w w'"
  using run_law by (fastforce simp: runInput_def moves_def split: prod.splits option.splits)

lemma poll_moves:
  assumes "\<And>s w r w'. moves w0 w \<Longrightarrow> probe s w = (r, w') \<Longrightarrow> moves w w'"
  shows "moves w0 w \<Longrightarrow> poll host d deadline probe late ended n s w = (r, w') \<Longrightarrow> moves w w'"
proof (induction n arbitrary: s w)
  case 0
  then show ?case by (auto simp: moves_refl dest: moves_inv)
next
  case (Suc n)
  obtain x w1 where p: "probe s w = (x, w1)" by fastforce
  have m1: "moves w w1" by (rule assms [OF Suc.prems(1) p])
  obtain e w2 where o2: "ohWait host d w1 = (e, w2)" by fastforce
  have m2: "moves w1 w2" using wait_law [OF moves_inv [OF m1] o2] by (simp add: moves_def)
  have m02: "moves w0 w2" using Suc.prems(1) m1 m2 moves_trans by blast
  show ?case
    using Suc.prems(2) p o2 m1 m2 Suc.IH [OF m02] moves_trans [OF moves_trans [OF m1 m2]] moves_trans [OF m1 m2]
    by (auto split: sum.splits option.splits if_splits)
qed

end

section \<open>The host of a log\<close>

text \<open>A host whose commands are written down, with what they answered; one whose output is not read answers [].\<close>

type_synonym command_log = "(string list \<times> string option) list"

definition loggedHost :: "'w ops_host \<Rightarrow> ('w \<times> command_log) ops_host" where
  "loggedHost host =
     \<lparr>ohOutput = (\<lambda>cmd (w, log). case ohOutput host cmd w of
        (a, w1) \<Rightarrow> (a, (w1, log @ [(cmd, case caResult a of Inl _ \<Rightarrow> None | Inr data \<Rightarrow> Some data)]))),
      ohRun = (\<lambda>stdin cmd (w, log). case ohRun host stdin cmd w of (e, w1) \<Rightarrow> (e, (w1, log @ [(cmd, case e of None \<Rightarrow> Some [] | Some _ \<Rightarrow> None)]))),
      ohWait = (\<lambda>d (w, log). case ohWait host d w of (e, w1) \<Rightarrow> (e, (w1, log))),
      ohSleep = (\<lambda>d (w, log). (ohSleep host d w, log)),
      ohNow = (\<lambda>w. ohNow host (fst w))\<rparr>"

definition answered :: "command_log \<Rightarrow> answers" where
  "answered log cmd data \<longleftrightarrow> (cmd, Some data) \<in> set log"

text \<open>Every command of a log was permitted by the answers before it.\<close>

definition orderly :: "(answers \<Rightarrow> string list \<Rightarrow> bool) \<Rightarrow> command_log \<Rightarrow> bool" where
  "orderly permits log \<longleftrightarrow> (\<forall>i<length log. permits (answered (take i log)) (fst (log ! i)))"

lemma orderly_Nil [simp]: "orderly permits []"
  by (simp add: orderly_def)

lemma orderly_snoc: "orderly permits log \<Longrightarrow> permits (answered log) cmd \<Longrightarrow> orderly permits (log @ [(cmd, a)])"
  by (auto simp: orderly_def nth_append less_Suc_eq)

definition monotone :: "(answers \<Rightarrow> string list \<Rightarrow> bool) \<Rightarrow> bool" where
  "monotone permits \<longleftrightarrow> (\<forall>S S' cmd. permits S cmd \<longrightarrow> (\<forall>c d. S c d \<longrightarrow> S' c d) \<longrightarrow> permits S' cmd)"

text \<open>A rule that more answers can only relax, on a logged host.\<close>

definition guarded :: "(answers \<Rightarrow> string list \<Rightarrow> bool) \<Rightarrow> answers \<Rightarrow> string list \<Rightarrow> bool" where
  "guarded permits S cmd \<longleftrightarrow> (\<exists>T. (\<forall>c d. T c d \<longrightarrow> S c d) \<and> permits T cmd)"

lemma guarded_permits: "monotone permits \<Longrightarrow> guarded permits S cmd \<longleftrightarrow> permits S cmd"
  unfolding guarded_def monotone_def by blast

interpretation logged: command_contract "loggedHost host" "\<lambda>w. answered (snd w)" "guarded permits" "\<lambda>w. orderly (guarded permits) (snd w)"
  for host permits
proof
  fix S S' :: answers and cmd
  assume "guarded permits S cmd" "\<And>c d. S c d \<Longrightarrow> S' c d"
  then show "guarded permits S' cmd" unfolding guarded_def by blast
next
  fix w w' :: "'a \<times> command_log" and cmd a
  assume "orderly (guarded permits) (snd w)" "guarded permits (answered (snd w)) cmd" "ohOutput (loggedHost host) cmd w = (a, w')"
  then show "orderly (guarded permits) (snd w') \<and> answered (snd w) \<le> answered (snd w') \<and>
      (\<forall>data. caResult a = Inr data \<longrightarrow> answered (snd w') cmd data)"
    using orderly_snoc by (cases w) (auto simp: loggedHost_def answered_def le_fun_def split: prod.splits)
next
  fix w w' :: "'a \<times> command_log" and cmd stdin e
  assume "orderly (guarded permits) (snd w)" "guarded permits (answered (snd w)) cmd" "ohRun (loggedHost host) stdin cmd w = (e, w')"
  then show "orderly (guarded permits) (snd w') \<and> answered (snd w) \<le> answered (snd w') \<and> (e = None \<longrightarrow> answered (snd w') cmd [])"
    using orderly_snoc by (cases w) (auto simp: loggedHost_def answered_def le_fun_def split: prod.splits)
next
  fix w w' :: "'a \<times> command_log" and d e
  assume "orderly (guarded permits) (snd w)" "ohWait (loggedHost host) d w = (e, w')"
  then show "orderly (guarded permits) (snd w') \<and> answered (snd w) \<le> answered (snd w')"
    by (cases w) (auto simp: loggedHost_def split: prod.splits)
next
  fix w :: "'a \<times> command_log" and d
  assume "orderly (guarded permits) (snd w)"
  then show "orderly (guarded permits) (snd (ohSleep (loggedHost host) d w)) \<and> answered (snd w) \<le> answered (snd (ohSleep (loggedHost host) d w))"
    by (cases w) (simp add: loggedHost_def)
qed

end
