(* ===== verification/OpsCleanup.thy ===== *)
theory OpsCleanup
  imports OpsCommands Frontdoor GoText
begin

text \<open>
  internal/ops/frontdoor.go, destroy.go and what tencent.go removes: how minictl takes a plane and the
  control-plane down.  The decoders of the commands' JSON and the rendering of the script that uninstalls a
  cloud-plane are parameters; cleanDomain and domainIsUnder are the same functions as the front door's.
\<close>

section \<open>Answers of the clouds\<close>

record ops_record =
  orID :: int
  orName :: string
  orType :: string
  orValue :: string
  orRemark :: string

record firewall_rule =
  fwProtocol :: string
  fwPort :: string
  fwCidrBlock :: string
  fwAction :: string
  fwDescription :: string

record ccn_instance =
  ciCcnID :: string
  ciType :: string
  ciInstanceID :: string
  ciState :: string
  ciDescription :: string

text \<open>An aliyun CDN domain is its name and status, an attachment of a network its id and state.\<close>

record ops_decoders =
  dcAliyunDomains :: "string \<Rightarrow> (string \<times> string) list res"
  dcTencentDomains :: "string \<Rightarrow> string list res"
  dcRecords :: "string \<Rightarrow> ops_record list res"
  dcAliyunInstances :: "string \<Rightarrow> string list res"
  dcTencentInstances :: "string \<Rightarrow> string list res"
  dcImageTags :: "string \<Rightarrow> string list res"
  dcTerraform :: "string \<Rightarrow> terraform_output res"
  dcAttachments :: "string \<Rightarrow> (string \<times> string) list res"
  dcCcnInstances :: "string \<Rightarrow> ccn_instance list res"
  dcFirewall :: "string \<Rightarrow> firewall_rule list res"

definition missingResource :: "goerr \<Rightarrow> bool" where
  "missingResource err \<longleftrightarrow> list_ex (containsStr (toLower (errText err)))
     [''not found'', ''notfound'', ''not exist'', ''does not exist'', ''not exists'', ''unexist'', ''resourcenotfound'',
      ''domainnotexist'', [CHR 0xE6, CHR 0x9C, CHR 0xAA, CHR 0xE6, CHR 0x89, CHR 0xBE, CHR 0xE5, CHR 0x88, CHR 0xB0]]"

definition aliyunCDNDeleteRetryable :: "goerr \<Rightarrow> bool" where
  "aliyunCDNDeleteRetryable err \<longleftrightarrow>
     errContains err ''servicebusy'' \<or> errContains err ''configuring'' \<or> errContains err ''processing''"

text \<open>A deletion of something that may be gone.\<close>

definition runUnlessMissing :: "'w ops_host \<Rightarrow> string list \<Rightarrow> 'w \<Rightarrow> goerr option \<times> 'w" where
  "runUnlessMissing host cmd w =
     (case runQuiet host cmd w of
        (None, w1) \<Rightarrow> (None, w1)
      | (Some err, w1) \<Rightarrow> (if missingResource err then None else Some err, w1))"

fun eachUntilError :: "('x \<Rightarrow> 'w \<Rightarrow> goerr option \<times> 'w) \<Rightarrow> 'x list \<Rightarrow> 'w \<Rightarrow> goerr option \<times> 'w" where
  "eachUntilError f [] w = (None, w)"
| "eachUntilError f (x # xs) w =
     (case f x w of (Some err, w1) \<Rightarrow> (Some err, w1) | (None, w1) \<Rightarrow> eachUntilError f xs w1)"

definition andThen :: "('w \<Rightarrow> goerr option \<times> 'w) \<Rightarrow> ('w \<Rightarrow> goerr option \<times> 'w) \<Rightarrow> 'w \<Rightarrow> goerr option \<times> 'w" where
  "andThen f g w = (case f w of (Some err, w1) \<Rightarrow> (Some err, w1) | (None, w1) \<Rightarrow> g w1)"

section \<open>CDN domains\<close>

definition aliyunDomainsCmd :: "string \<Rightarrow> string \<Rightarrow> string \<Rightarrow> string list" where
  "aliyunDomainsCmd domain search pageSize =
     [''aliyun'', ''cdn'', ''DescribeUserDomains'', ''--DomainName'', domain, ''--DomainSearchType'', search,
      ''--PageNumber'', ''1'', ''--PageSize'', pageSize]"

definition aliyunStopCmd :: "string \<Rightarrow> string list" where
  "aliyunStopCmd h = [''aliyun'', ''cdn'', ''StopCdnDomain'', ''--DomainName'', h]"

definition aliyunDeleteCmd :: "string \<Rightarrow> string list" where
  "aliyunDeleteCmd h = [''aliyun'', ''cdn'', ''DeleteCdnDomain'', ''--DomainName'', h]"

definition aliyunCDNDomainStatus ::
  "'w ops_host \<Rightarrow> ops_decoders \<Rightarrow> string \<Rightarrow> 'w \<Rightarrow> string option res \<times> 'w" where
  "aliyunCDNDomainStatus host dc h w =
     (case runJSON host (dcAliyunDomains dc) (aliyunDomainsCmd h ''full_match'' ''10'') w of
        (Inl err, w1) \<Rightarrow> (Inl err, w1)
      | (Inr items, w1) \<Rightarrow>
          (Inr (map_option (\<lambda>(_, st). trimSpace st) (List.find (\<lambda>(name, _). cleanDomain name = h) items)), w1))"

text \<open>One round of the deletion: the error or success that ends it, or what to report when it is too late.\<close>

definition aliyunDeleteRound ::
  "'w ops_host \<Rightarrow> ops_decoders \<Rightarrow> string \<Rightarrow> goerr \<Rightarrow> 'w \<Rightarrow> (goerr option + goerr) \<times> 'w" where
  "aliyunDeleteRound host dc h s w =
     (case aliyunCDNDomainStatus host dc h w of
        (Inl err, w1) \<Rightarrow> (Inl (Some err), w1)
      | (Inr None, w1) \<Rightarrow> (Inl None, w1)
      | (Inr (Some st), w1) \<Rightarrow>
          if toLower st = ''online'' then
            (case runQuiet host (aliyunStopCmd h) w1 of
               (None, w2) \<Rightarrow> (Inr (Errorf (''delete aliyun CDN domain '' @ h @ '' timed out'')), w2)
             | (Some err, w2) \<Rightarrow>
                 (if \<not> aliyunCDNDeleteRetryable err \<and> \<not> missingResource err then Inl (Some err) else Inr err, w2))
          else if toLower st = ''offline'' then
            (case runQuiet host (aliyunDeleteCmd h) w1 of
               (None, w2) \<Rightarrow> (Inl None, w2)
             | (Some err, w2) \<Rightarrow>
                 (if missingResource err then Inl None
                  else if \<not> aliyunCDNDeleteRetryable err then Inl (Some err)
                  else Inr err, w2))
          else (Inr (Errorf (''aliyun CDN domain '' @ h @ '' is '' @ st)), w1))"

definition tenMinutes :: int where "tenMinutes = secondsDur (10 * 60)"

definition deleteAliyunCDNDomain :: "'w ops_host \<Rightarrow> ops_decoders \<Rightarrow> string \<Rightarrow> 'w \<Rightarrow> goerr option \<times> 'w" where
  "deleteAliyunCDNDomain host dc h w =
     poll host (secondsDur 15) (addDur (ohNow host w) tenMinutes) (aliyunDeleteRound host dc h) Some Some
       (pollRounds tenMinutes (secondsDur 15)) (Errorf []) w"

definition deleteAliyunCDNDomains :: "'w ops_host \<Rightarrow> ops_decoders \<Rightarrow> string \<Rightarrow> 'w \<Rightarrow> goerr option \<times> 'w" where
  "deleteAliyunCDNDomains host dc baseDomain w =
     (case runJSON host (dcAliyunDomains dc) (aliyunDomainsCmd baseDomain ''suf_match'' ''500'') w of
        (Inl err, w1) \<Rightarrow> (Some err, w1)
      | (Inr items, w1) \<Rightarrow>
          eachUntilError (\<lambda>(name, _) v.
            if \<not> domainIsUnder (cleanDomain name) baseDomain then (None, v)
            else deleteAliyunCDNDomain host dc (cleanDomain name) v) items w1)"

definition tencentDomainsCmd :: "string \<Rightarrow> string \<Rightarrow> string list" where
  "tencentDomainsCmd region baseDomain =
     [''tccli'', ''cdn'', ''DescribeDomains'', ''--region'', region, ''--Filters'',
      ''[{'' @ chDQ @ ''Name'' @ chDQ @ '':'' @ chDQ @ ''domain'' @ chDQ @ '','' @ chDQ @ ''Value'' @ chDQ @ '':['' @ chDQ
      @ baseDomain @ chDQ @ ''],'' @ chDQ @ ''Fuzzy'' @ chDQ @ '':true}]'']"

definition tencentStopCmd :: "string \<Rightarrow> string \<Rightarrow> string list" where
  "tencentStopCmd region h = [''tccli'', ''cdn'', ''StopCdnDomain'', ''--region'', region, ''--Domain'', h]"

definition tencentDeleteCmd :: "string \<Rightarrow> string \<Rightarrow> string list" where
  "tencentDeleteCmd region h = [''tccli'', ''cdn'', ''DeleteCdnDomain'', ''--region'', region, ''--Domain'', h]"

definition deleteTencentCDNDomains ::
  "'w ops_host \<Rightarrow> ops_decoders \<Rightarrow> string \<Rightarrow> string \<Rightarrow> 'w \<Rightarrow> goerr option \<times> 'w" where
  "deleteTencentCDNDomains host dc region baseDomain w =
     (case runJSON host (dcTencentDomains dc) (tencentDomainsCmd region baseDomain) w of
        (Inl err, w1) \<Rightarrow> (Some err, w1)
      | (Inr items, w1) \<Rightarrow>
          eachUntilError (\<lambda>name.
            if \<not> domainIsUnder (cleanDomain name) baseDomain then (\<lambda>v. (None, v))
            else andThen (runUnlessMissing host (tencentStopCmd region (cleanDomain name)))
                   (runUnlessMissing host (tencentDeleteCmd region (cleanDomain name)))) items w1)"

section \<open>DNS records\<close>

definition opsRootDomain :: "string \<Rightarrow> string" where
  "opsRootDomain baseDomain =
     (let parts = splitOn CHR ''.'' (trimDots (trimSpace baseDomain))
      in if length parts \<le> 2 then joinStr ''.'' parts else joinStr ''.'' (drop (length parts - 2) parts))"

definition dnsPodRecordHost :: "string \<Rightarrow> string \<Rightarrow> string" where
  "dnsPodRecordHost name0 root0 =
     (let name = trimDots (trimSpace name0); root = cleanDomain root0 in
      if name = [] \<or> name = ''@'' then root else cleanDomain (name @ ''.'' @ root))"

definition dnsPodSubdomain :: "string \<Rightarrow> string \<Rightarrow> string" where
  "dnsPodSubdomain host0 root0 =
     (let host = cleanDomain host0; root = cleanDomain root0 in
      if host = root then ''@''
      else if hasSuffix host (''.'' @ root) then take (length host - length (''.'' @ root)) host else host)"

definition providerOwnsCNAME :: "string \<Rightarrow> string \<Rightarrow> bool" where
  "providerOwnsCNAME provider v \<longleftrightarrow>
     (if provider = ''aliyun'' then hasSuffix (cleanDomain v) ''.w.kunlunaq.com''
      else if provider = ''tencent'' then hasSuffix (cleanDomain v) ''.cdn.dnsv1.com''
      else False)"

definition zoneRecordsCmd :: "string \<Rightarrow> string \<Rightarrow> string list" where
  "zoneRecordsCmd root rtype =
     [''tccli'', ''dnspod'', ''DescribeRecordList'', ''--cli-unfold-argument'', ''--Domain'', root, ''--RecordType'', rtype,
      ''--ErrorOnEmpty'', ''no'']"

definition subdomainRecordsCmd :: "string \<Rightarrow> string \<Rightarrow> string \<Rightarrow> string list" where
  "subdomainRecordsCmd root subdomain rtype =
     [''tccli'', ''dnspod'', ''DescribeRecordList'', ''--cli-unfold-argument'', ''--Domain'', root, ''--Subdomain'', subdomain,
      ''--RecordType'', rtype, ''--ErrorOnEmpty'', ''no'']"

definition deleteRecordCmd :: "string \<Rightarrow> int \<Rightarrow> string list" where
  "deleteRecordCmd root rid =
     [''tccli'', ''dnspod'', ''DeleteRecord'', ''--cli-unfold-argument'', ''--Domain'', root, ''--RecordId'', itoa rid]"

text \<open>The records of a listing that are chosen are deleted in order.\<close>

definition deleteChosenRecords ::
  "'w ops_host \<Rightarrow> ops_decoders \<Rightarrow> string \<Rightarrow> string list \<Rightarrow> (ops_record \<Rightarrow> bool) \<Rightarrow> 'w \<Rightarrow> goerr option \<times> 'w" where
  "deleteChosenRecords host dc root listing chosen w =
     (case runJSON host (dcRecords dc) listing w of
        (Inl err, w1) \<Rightarrow> (Some err, w1)
      | (Inr items, w1) \<Rightarrow>
          eachUntilError (\<lambda>r v. if chosen r then runUnlessMissing host (deleteRecordCmd root (orID r)) v else (None, v)) items w1)"

definition ownCNAME :: "string \<Rightarrow> string \<Rightarrow> string \<Rightarrow> ops_record \<Rightarrow> bool" where
  "ownCNAME root baseDomain provider r \<longleftrightarrow>
     toUpper (trimSpace (orType r)) = ''CNAME'' \<and> domainIsUnder (dnsPodRecordHost (orName r) root) baseDomain
     \<and> providerOwnsCNAME provider (orValue r)"

definition deleteDNSPodCNAMERecords ::
  "'w ops_host \<Rightarrow> ops_decoders \<Rightarrow> string \<Rightarrow> string \<Rightarrow> 'w \<Rightarrow> goerr option \<times> 'w" where
  "deleteDNSPodCNAMERecords host dc baseDomain provider w =
     (let root = cleanDomain (opsRootDomain baseDomain) in
      if root = [] then (None, w)
      else deleteChosenRecords host dc root (zoneRecordsCmd root ''CNAME'')
             (ownCNAME root baseDomain (toLower (trimSpace provider))) w)"

definition ownVerifyTXT :: "string \<Rightarrow> string \<Rightarrow> ops_record \<Rightarrow> bool" where
  "ownVerifyTXT subdomain pre r \<longleftrightarrow>
     trimSpace (orName r) = subdomain \<and> toUpper (trimSpace (orType r)) = ''TXT'' \<and> hasPrefix (trimSpace (orValue r)) pre"

definition deleteAliyunVerifyTXTRecord :: "'w ops_host \<Rightarrow> ops_decoders \<Rightarrow> string \<Rightarrow> 'w \<Rightarrow> goerr option \<times> 'w" where
  "deleteAliyunVerifyTXTRecord host dc baseDomain w =
     (let root = cleanDomain (opsRootDomain baseDomain) in
      if root = [] then (None, w)
      else deleteChosenRecords host dc root (subdomainRecordsCmd root ''verification'' ''TXT'')
             (ownVerifyTXT ''verification'' ''verify_'') w)"

definition deleteTencentVerifyTXTRecord :: "'w ops_host \<Rightarrow> ops_decoders \<Rightarrow> string \<Rightarrow> 'w \<Rightarrow> goerr option \<times> 'w" where
  "deleteTencentVerifyTXTRecord host dc baseDomain w =
     (let root = cleanDomain (opsRootDomain baseDomain) in
      if root = [] then (None, w)
      else deleteChosenRecords host dc root (subdomainRecordsCmd root ''_cdnauth'' ''TXT'')
             (ownVerifyTXT ''_cdnauth'' []) w)"

definition dnspodRecord ::
  "'w ops_host \<Rightarrow> ops_decoders \<Rightarrow> string \<Rightarrow> string \<Rightarrow> string \<Rightarrow> 'w \<Rightarrow> ops_record option res \<times> 'w" where
  "dnspodRecord host dc root subdomain rtype w =
     (case runJSON host (dcRecords dc) (subdomainRecordsCmd root subdomain rtype) w of
        (Inl err, w1) \<Rightarrow> (Inl err, w1)
      | (Inr items, w1) \<Rightarrow>
          (Inr (List.find (\<lambda>r. trimSpace (orName r) = subdomain \<and> equalFold (orType r) rtype) items), w1))"

definition deleteDNSPodRecordByRemark ::
  "'w ops_host \<Rightarrow> ops_decoders \<Rightarrow> string \<Rightarrow> string \<Rightarrow> string \<Rightarrow> 'w \<Rightarrow> goerr option \<times> 'w" where
  "deleteDNSPodRecordByRemark host dc h rtype0 remark0 w =
     (let root = cleanDomain (opsRootDomain h); subdomain = dnsPodSubdomain h root;
          rtype = toUpper (trimSpace rtype0); remark = trimSpace remark0 in
      if root = [] \<or> subdomain = [] \<or> rtype = [] \<or> remark = [] then (None, w)
      else (case dnspodRecord host dc root subdomain rtype w of
              (Inl err, w1) \<Rightarrow> (Some err, w1)
            | (Inr None, w1) \<Rightarrow> (None, w1)
            | (Inr (Some r), w1) \<Rightarrow>
                if trimSpace (orRemark r) \<noteq> remark then (None, w1)
                else runUnlessMissing host (deleteRecordCmd root (orID r)) w1))"

section \<open>The front doors of a plane\<close>

definition deleteServiceFrontDoorsForProvider ::
  "'w ops_host \<Rightarrow> ops_decoders \<Rightarrow> ops_config \<Rightarrow> string \<Rightarrow> string \<Rightarrow> 'w \<Rightarrow> goerr option \<times> 'w" where
  "deleteServiceFrontDoorsForProvider host dc cfg provider0 regionID w =
     (let baseDomain = cleanDomain (ocIngressBaseDomain cfg); provider = toLower (trimSpace provider0);
          region = trimSpace regionID in
      if baseDomain = [] then (None, w)
      else
        andThen
          (if provider = ''aliyun'' then
             andThen (deleteAliyunCDNDomains host dc baseDomain) (deleteAliyunVerifyTXTRecord host dc baseDomain)
           else if provider = ''tencent'' then
             andThen (if region \<noteq> [] then deleteTencentCDNDomains host dc region baseDomain else (\<lambda>v. (None, v)))
               (deleteTencentVerifyTXTRecord host dc baseDomain)
           else (\<lambda>v. (None, v)))
          (deleteDNSPodCNAMERecords host dc baseDomain provider) w)"

section \<open>Worker nodes\<close>

definition aliyunInstancesCmd :: "terraform_output \<Rightarrow> string list" where
  "aliyunInstancesCmd out =
     [''aliyun'', ''ecs'', ''DescribeInstances'', ''--RegionId'', outRegionID out, ''--Tag.1.Key'', ''managed-by'',
      ''--Tag.1.Value'', ''mini-cloud'', ''--Tag.2.Key'', ''mini-cloud/platform'', ''--Tag.2.Value'', ofName (toPlatform out)]"

definition workerIDs :: "terraform_output \<Rightarrow> string list \<Rightarrow> string list" where
  "workerIDs out ids = filter (\<lambda>i. i \<noteq> [] \<and> i \<noteq> trimSpace (ofInstanceID (toPlatform out))) ids"

definition aliyunWorkerNodeIDs ::
  "'w ops_host \<Rightarrow> ops_decoders \<Rightarrow> terraform_output \<Rightarrow> 'w \<Rightarrow> string list res \<times> 'w" where
  "aliyunWorkerNodeIDs host dc out w =
     (case runJSON host (dcAliyunInstances dc) (aliyunInstancesCmd out) w of
        (Inl err, w1) \<Rightarrow> (Inl err, w1)
      | (Inr ids, w1) \<Rightarrow> (Inr (workerIDs out ids), w1))"

fun instanceArgs :: "int \<Rightarrow> string list \<Rightarrow> string list" where
  "instanceArgs n [] = []"
| "instanceArgs n (i # ids) = (''--InstanceId.'' @ itoa n) # i # instanceArgs (n + 1) ids"

definition aliyunDeleteInstancesCmd :: "terraform_output \<Rightarrow> string list \<Rightarrow> string list" where
  "aliyunDeleteInstancesCmd out ids =
     [''aliyun'', ''ecs'', ''DeleteInstances'', ''--RegionId'', outRegionID out, ''--Force'', ''true''] @ instanceArgs 1 ids"

definition deleteAliyunWorkerNodes ::
  "'w ops_host \<Rightarrow> ops_decoders \<Rightarrow> terraform_output \<Rightarrow> 'w \<Rightarrow> goerr option \<times> 'w" where
  "deleteAliyunWorkerNodes host dc out w =
     (case aliyunWorkerNodeIDs host dc out w of
        (Inl err, w1) \<Rightarrow> (Some err, w1)
      | (Inr ids, w1) \<Rightarrow> if ids = [] then (None, w1) else runQuiet host (aliyunDeleteInstancesCmd out ids) w1)"

definition tencentInstancesCmd :: "terraform_output \<Rightarrow> string list" where
  "tencentInstancesCmd out =
     [''tccli'', ''cvm'', ''DescribeInstances'', ''--region'', outRegionID out, ''--Filters'',
      ''[{'' @ chDQ @ ''Name'' @ chDQ @ '':'' @ chDQ @ ''tag:managed-by'' @ chDQ @ '','' @ chDQ @ ''Values'' @ chDQ @ '':['' @ chDQ
      @ ''mini-cloud'' @ chDQ @ '']},{'' @ chDQ @ ''Name'' @ chDQ @ '':'' @ chDQ @ ''tag:mini-cloud/platform'' @ chDQ @ '','' @ chDQ
      @ ''Values'' @ chDQ @ '':['' @ chDQ @ ofName (toPlatform out) @ chDQ @ '']}]'']"

definition tencentWorkerNodeIDs ::
  "'w ops_host \<Rightarrow> ops_decoders \<Rightarrow> terraform_output \<Rightarrow> 'w \<Rightarrow> string list res \<times> 'w" where
  "tencentWorkerNodeIDs host dc out w =
     (case runJSON host (dcTencentInstances dc) (tencentInstancesCmd out) w of
        (Inl err, w1) \<Rightarrow> (Inl err, w1)
      | (Inr ids, w1) \<Rightarrow> (Inr (workerIDs out ids), w1))"

definition jsonList :: "string list \<Rightarrow> string" where
  "jsonList xs = ''['' @ joinStr '','' xs @ '']''"

definition tencentTerminateCmd :: "terraform_output \<Rightarrow> string list \<Rightarrow> string list" where
  "tencentTerminateCmd out ids =
     [''tccli'', ''cvm'', ''TerminateInstances'', ''--region'', outRegionID out, ''--InstanceIds'', jsonList (map jsonString ids)]"

fun awaitTerminated ::
  "'w ops_host \<Rightarrow> ops_decoders \<Rightarrow> terraform_output \<Rightarrow> nat \<Rightarrow> string list \<Rightarrow> 'w \<Rightarrow> goerr option \<times> 'w" where
  "awaitTerminated host dc out 0 ids w =
     (Some (Errorf (''timed out waiting for Tencent nodes to terminate: ['' @ joinStr '' '' ids @ '']'')), w)"
| "awaitTerminated host dc out (Suc n) ids w =
     (case tencentWorkerNodeIDs host dc out w of
        (Inl err, w1) \<Rightarrow> (Some err, w1)
      | (Inr ids1, w1) \<Rightarrow>
          if ids1 = [] then (None, w1) else awaitTerminated host dc out n ids1 (ohSleep host (secondsDur 5) w1))"

definition deleteTencentWorkerNodes ::
  "'w ops_host \<Rightarrow> ops_decoders \<Rightarrow> terraform_output \<Rightarrow> 'w \<Rightarrow> goerr option \<times> 'w" where
  "deleteTencentWorkerNodes host dc out w =
     (case tencentWorkerNodeIDs host dc out w of
        (Inl err, w1) \<Rightarrow> (Some err, w1)
      | (Inr ids, w1) \<Rightarrow>
          if ids = [] then (None, w1)
          else andThen (runQuiet host (tencentTerminateCmd out ids)) (awaitTerminated host dc out 60 ids) w1)"

section \<open>The Lighthouse network\<close>

definition firewallKey :: "string \<Rightarrow> string \<Rightarrow> string \<Rightarrow> string" where
  "firewallKey protocol port cidr = protocol @ ''|'' @ port @ ''|'' @ cidr"

definition keyOf :: "firewall_rule \<Rightarrow> string" where
  "keyOf r = firewallKey (fwProtocol r) (fwPort r) (fwCidrBlock r)"

definition ruleJSON :: "firewall_rule \<Rightarrow> string" where
  "ruleJSON r =
     (let field = (\<lambda>k v. jsonString k @ '':'' @ jsonString v)
      in ''{'' @ joinStr '','' ([field ''Protocol'' (fwProtocol r), field ''Port'' (fwPort r), field ''CidrBlock'' (fwCidrBlock r),
           field ''Action'' (fwAction r)]
           @ (if fwDescription r = [] then [] else [field ''FirewallRuleDescription'' (fwDescription r)])) @ ''}'')"

definition firewallCmd :: "string \<Rightarrow> string \<Rightarrow> string \<Rightarrow> string list" where
  "firewallCmd verb region inst = [''tccli'', ''lighthouse'', verb, ''--region'', region, ''--InstanceId'', inst]"

text \<open>The rules that minictl adds, and the one of an earlier release.\<close>

definition platformRuleKeys :: "terraform_output \<Rightarrow> string list" where
  "platformRuleKeys out =
     (let n = toNetwork out; subnet = trimSpace (onSubnetCIDRBlock n) in
      [firewallKey ''TCP'' (itoa (onCloudPlaneGRPCPort n)) ''0.0.0.0/0'',
       firewallKey ''TCP'' (itoa (onWorkloadProxyPort n)) subnet,
       firewallKey ''TCP'' (itoa (onArtifactHTTPPort n)) subnet,
       firewallKey ''TCP'' ''18080'' ''0.0.0.0/0''])"

definition doomedRule :: "terraform_output \<Rightarrow> firewall_rule \<Rightarrow> bool" where
  "doomedRule out r \<longleftrightarrow> fwAction r = ''ACCEPT'' \<and> keyOf r \<in> set (platformRuleKeys out)"

definition platformInstance :: "terraform_output \<Rightarrow> string" where
  "platformInstance out = trimSpace (ofInstanceID (toPlatform out))"

definition deleteRulesCmd :: "terraform_output \<Rightarrow> firewall_rule list \<Rightarrow> string list" where
  "deleteRulesCmd out rules =
     firewallCmd ''DeleteFirewallRules'' (outRegionID out) (platformInstance out) @ [''--FirewallRules'', jsonList (map ruleJSON rules)]"

definition deleteLighthouseFirewallRules ::
  "'w ops_host \<Rightarrow> ops_decoders \<Rightarrow> terraform_output \<Rightarrow> 'w \<Rightarrow> goerr option \<times> 'w" where
  "deleteLighthouseFirewallRules host dc out w =
     (if outRegionID out = [] \<or> platformInstance out = [] \<or> trimSpace (onSubnetCIDRBlock (toNetwork out)) = [] then (None, w)
      else (case runJSON host (dcFirewall dc) (firewallCmd ''DescribeFirewallRules'' (outRegionID out) (platformInstance out)) w of
              (Inl err, w1) \<Rightarrow> (Some err, w1)
            | (Inr rules, w1) \<Rightarrow>
                if filter (doomedRule out) rules = [] then (None, w1)
                else runQuiet host (deleteRulesCmd out (filter (doomedRule out) rules)) w1))"

definition attachmentsCmd :: "string \<Rightarrow> string list" where
  "attachmentsCmd region = [''tccli'', ''lighthouse'', ''DescribeCcnAttachedInstances'', ''--region'', region]"

definition detachCmd :: "string \<Rightarrow> string \<Rightarrow> string list" where
  "detachCmd region ccnID = [''tccli'', ''lighthouse'', ''DetachCcn'', ''--region'', region, ''--CcnId'', ccnID]"

definition ccnState :: "(string \<times> string) list \<Rightarrow> string \<Rightarrow> string" where
  "ccnState items ccnID = (case map_of items ccnID of None \<Rightarrow> [] | Some st \<Rightarrow> st)"

definition lighthouseCCNState ::
  "'w ops_host \<Rightarrow> ops_decoders \<Rightarrow> string \<Rightarrow> string \<Rightarrow> 'w \<Rightarrow> string res \<times> 'w" where
  "lighthouseCCNState host dc region ccnID w =
     (case runJSON host (dcAttachments dc) (attachmentsCmd region) w of
        (Inl err, w1) \<Rightarrow> (Inl err, w1)
      | (Inr items, w1) \<Rightarrow> (Inr (ccnState items ccnID), w1))"

definition detached :: "string \<Rightarrow> bool" where
  "detached st \<longleftrightarrow> st = [] \<or> st = ''DELETED''"

fun awaitDetached ::
  "'w ops_host \<Rightarrow> ops_decoders \<Rightarrow> string \<Rightarrow> string \<Rightarrow> nat \<Rightarrow> 'w \<Rightarrow> goerr option \<times> 'w" where
  "awaitDetached host dc region ccnID 0 w =
     (Some (Errorf (''timed out waiting for Lighthouse to detach from CCN '' @ ccnID)), w)"
| "awaitDetached host dc region ccnID (Suc n) w =
     (case lighthouseCCNState host dc region ccnID w of
        (Inl err, w1) \<Rightarrow> (Some err, w1)
      | (Inr st, w1) \<Rightarrow>
          if detached st then (None, w1) else awaitDetached host dc region ccnID n (ohSleep host (secondsDur 5) w1))"

definition detachLighthouseCCN ::
  "'w ops_host \<Rightarrow> ops_decoders \<Rightarrow> terraform_output \<Rightarrow> 'w \<Rightarrow> goerr option \<times> 'w" where
  "detachLighthouseCCN host dc out w =
     (case toCCN out of
        None \<Rightarrow> (None, w)
      | Some c \<Rightarrow>
          (let ccnID = trimSpace c; region = outRegionID out in
           if ccnID = [] then (None, w)
           else (case lighthouseCCNState host dc region ccnID w of
                   (Inl err, w1) \<Rightarrow> (Some err, w1)
                 | (Inr st, w1) \<Rightarrow>
                     andThen (if detached st then (\<lambda>v. (None, v)) else runQuiet host (detachCmd region ccnID))
                       (awaitDetached host dc region ccnID 24) w1)))"

section \<open>A plane\<close>

definition destroyPlaneCloudResources ::
  "'w ops_host \<Rightarrow> ops_decoders \<Rightarrow> ops_config \<Rightarrow> terraform_output \<Rightarrow> 'w \<Rightarrow> goerr option \<times> 'w" where
  "destroyPlaneCloudResources host dc cfg out =
     (let frontDoors = deleteServiceFrontDoorsForProvider host dc cfg (ProviderName out) (outRegionID out) in
      if ProviderName out = ''aliyun'' then andThen frontDoors (deleteAliyunWorkerNodes host dc out)
      else if ProviderName out = ''tencent'' then
        andThen frontDoors (andThen (deleteTencentWorkerNodes host dc out)
          (if PlatformModeName out = ''existing_lighthouse'' then
             andThen (deleteLighthouseFirewallRules host dc out) (detachLighthouseCCN host dc out)
           else (\<lambda>v. (None, v))))
      else (\<lambda>v. (None, v)))"

definition terraformOutputUnavailable :: "goerr \<Rightarrow> bool" where
  "terraformOutputUnavailable err \<longleftrightarrow> list_ex (containsStr (toLower (errText err)))
     [''no state file was found'', ''state file either has no outputs'', ''has no outputs'']"

definition tryTerraformOutput ::
  "'w ops_host \<Rightarrow> ops_decoders \<Rightarrow> ops_plane \<Rightarrow> 'w \<Rightarrow> terraform_output option res \<times> 'w" where
  "tryTerraformOutput host dc p w =
     (case terraformOutput host (dcTerraform dc) p w of
        (Inr out, w1) \<Rightarrow> (Inr (if ProviderName out = [] then None else Some out), w1)
      | (Inl err, w1) \<Rightarrow> (if \<not> terraformOutputUnavailable err then Inl err else Inr None, w1))"

definition uninstallCloudPlaneAtHost ::
  "'w ops_host \<Rightarrow> (string \<Rightarrow> string res) \<Rightarrow> ops_config \<Rightarrow> ops_ssh \<Rightarrow> string \<Rightarrow> 'w \<Rightarrow> goerr option \<times> 'w" where
  "uninstallCloudPlaneAtHost host render cfg ssh target w =
     (case render (ocInstallRoot cfg) of
        Inl err \<Rightarrow> (Some (wrap ''render remote cloud-plane uninstall script'' err), w)
      | Inr script \<Rightarrow> sshScript host ssh target script w)"

definition uninstallCloudPlane ::
  "'w ops_host \<Rightarrow> (string \<Rightarrow> string res) \<Rightarrow> ops_config \<Rightarrow> ops_plane \<Rightarrow> terraform_output \<Rightarrow> 'w \<Rightarrow> goerr option \<times> 'w" where
  "uninstallCloudPlane host render cfg p out w =
     (case platformHost p out of
        Inl err \<Rightarrow> (Some err, w)
      | Inr target \<Rightarrow> uninstallCloudPlaneAtHost host render cfg (opSSH p) target w)"

definition destroyPlane ::
  "'w ops_host \<Rightarrow> ops_decoders \<Rightarrow> (string \<Rightarrow> string res) \<Rightarrow> ops_config \<Rightarrow> ops_plane \<Rightarrow> 'w \<Rightarrow> goerr option \<times> 'w" where
  "destroyPlane host dc render cfg p =
     andThen (terraformInit host p) (andThen (selectTerraformWorkspace host p) (\<lambda>w.
       case tryTerraformOutput host dc p w of
         (Inl err, w1) \<Rightarrow> (Some err, w1)
       | (Inr (Some out), w1) \<Rightarrow>
           andThen (uninstallCloudPlane host render cfg p out)
             (andThen (destroyPlaneCloudResources host dc cfg out) (terraform host p (terraformDestroyArgs p))) w1
       | (Inr None, w1) \<Rightarrow>
           andThen (if nonBlank (shHost (opSSH p)) then uninstallCloudPlaneAtHost host render cfg (opSSH p) (shHost (opSSH p))
                    else (\<lambda>v. (None, v)))
             (andThen (deleteServiceFrontDoorsForProvider host dc cfg (opProvider p) (opRegion p))
               (terraform host p (terraformDestroyArgs p))) w1))"

section \<open>The control-plane\<close>

definition controlPlaneImageRepo :: "string \<Rightarrow> string res" where
  "controlPlaneImageRepo img =
     (let v = trimSpace img; missing = Inl (Errorf (''controlPlane.scf.image must include repository path, got '' @ goQuote img)) in
      if v = [] then Inr []
      else if hasPrefix v ''http://'' \<or> hasPrefix v ''https://'' then
        Inl (Errorf (''controlPlane.scf.image must be a container image reference, got '' @ goQuote img))
      else if CHR ''/'' \<notin> set v \<or> drop 1 (dropWhile (\<lambda>c. c \<noteq> CHR ''/'') v) = [] then missing
      else
        (let repo = drop 1 (dropWhile (\<lambda>c. c \<noteq> CHR ''/'') v);
             untagged = (if CHR '':'' \<in> set repo then rev (drop 1 (dropWhile (\<lambda>c. c \<noteq> CHR '':'') (rev repo))) else repo);
             name = trimBoth (\<lambda>c. c = CHR ''/'') untagged
         in if name = [] then missing else Inr name))"

definition isControlPlaneE2ETag :: "string \<Rightarrow> bool" where
  "isControlPlaneE2ETag tag \<longleftrightarrow> hasPrefix (trimSpace tag) ''e2e-''"

definition imageTagsCmd :: "string \<Rightarrow> string \<Rightarrow> string list" where
  "imageTagsCmd region repo =
     [''tccli'', ''tcr'', ''DescribeImagePersonal'', ''--region'', region, ''--RepoName'', repo, ''--Limit'', ''100'']"

definition deleteImageCmd :: "string \<Rightarrow> string \<Rightarrow> string \<Rightarrow> string list" where
  "deleteImageCmd region repo tag =
     [''tccli'', ''tcr'', ''DeleteImagePersonal'', ''--region'', region, ''--RepoName'', repo, ''--Tag'', tag]"

definition deleteControlPlaneE2EImages :: "'w ops_host \<Rightarrow> ops_decoders \<Rightarrow> ops_config \<Rightarrow> 'w \<Rightarrow> goerr option \<times> 'w" where
  "deleteControlPlaneE2EImages host dc cfg w =
     (case controlPlaneImageRepo (sfImage (ocSCF cfg)) of
        Inl err \<Rightarrow> (Some err, w)
      | Inr repo \<Rightarrow>
          if repo = [] then (None, w)
          else
            (case runOutput host (imageTagsCmd (sfRegion (ocSCF cfg)) repo) w of
               (Inl err, w1) \<Rightarrow> (if missingResource err then None else Some err, w1)
             | (Inr data, w1) \<Rightarrow>
                 (case dcImageTags dc data of
                    Inl err \<Rightarrow> (Some (wrap ''parse TCR image list'' err), w1)
                  | Inr tags \<Rightarrow>
                      eachUntilError (\<lambda>tag.
                        if \<not> isControlPlaneE2ETag (trimSpace tag) then (\<lambda>v. (None, v))
                        else runUnlessMissing host (deleteImageCmd (sfRegion (ocSCF cfg)) repo (trimSpace tag))) tags w1)))"

definition deleteCustomDomainCmd :: "scf_settings \<Rightarrow> string list" where
  "deleteCustomDomainCmd s =
     [''tccli'', ''scf'', ''DeleteCustomDomain'', ''--region'', sfRegion s, ''--Domain'', sfPublicDomain s]"

definition deleteFunctionCmd :: "scf_settings \<Rightarrow> string list" where
  "deleteFunctionCmd s =
     [''tccli'', ''scf'', ''DeleteFunction'', ''--region'', sfRegion s, ''--Namespace'', sfNamespace s, ''--FunctionName'', sfFunctionName s]"

definition controlPlaneRemark :: string where "controlPlaneRemark = ''mini-cloud control-plane''"

definition uninstallControlPlane :: "'w ops_host \<Rightarrow> ops_decoders \<Rightarrow> ops_config \<Rightarrow> 'w \<Rightarrow> goerr option \<times> 'w" where
  "uninstallControlPlane host dc cfg =
     (let s = ocSCF cfg in
      if \<not> nonBlank (sfFunctionName s) then (\<lambda>v. (None, v))
      else
        andThen
          (if nonBlank (sfPublicDomain s) then
             andThen (runUnlessMissing host (deleteCustomDomainCmd s))
               (deleteDNSPodRecordByRemark host dc (sfPublicDomain s) ''CNAME'' controlPlaneRemark)
           else (\<lambda>v. (None, v)))
          (andThen (runUnlessMissing host (deleteFunctionCmd s)) (deleteControlPlaneE2EImages host dc cfg)))"

text \<open>Destroy, from what the tasks of the planes and the control-plane returned.\<close>

definition destroyResult :: "ops_plane list \<Rightarrow> goerr option list \<Rightarrow> goerr option \<Rightarrow> goerr option" where
  "destroyResult ps planeErrs controlErr = errorsJoin [joinPlaneTasks ps planeErrs, controlErr]"

end
