(* ===== verification/OpsDeploy.thy ===== *)
theory OpsDeploy
  imports OpsCleanup
begin

text \<open>
  How minictl brings the infrastructure of a plane up (internal/ops/bootstrap.go and the network of a
  Lighthouse platform in tencent.go) and finds out what to install on it (the plans of install.go).
\<close>

section \<open>The network of a Lighthouse platform\<close>

definition lighthouseAttachedCCN :: "'w ops_host \<Rightarrow> ops_decoders \<Rightarrow> string \<Rightarrow> 'w \<Rightarrow> string res \<times> 'w" where
  "lighthouseAttachedCCN host dc region w =
     (case runJSON host (dcAttachments dc) (attachmentsCmd region) w of
        (Inl err, w1) \<Rightarrow> (Inl err, w1)
      | (Inr items, w1) \<Rightarrow>
          (Inr (case List.find (\<lambda>(_, st). st \<noteq> ''DELETED'') items of None \<Rightarrow> [] | Some (i, _) \<Rightarrow> i), w1))"

definition ccnInstancesCmd :: "string \<Rightarrow> string \<Rightarrow> string list" where
  "ccnInstancesCmd region ccnID = [''tccli'', ''vpc'', ''DescribeCcnAttachedInstances'', ''--region'', region, ''--CcnId'', ccnID]"

definition pendingLighthouseVPC ::
  "'w ops_host \<Rightarrow> ops_decoders \<Rightarrow> string \<Rightarrow> string \<Rightarrow> 'w \<Rightarrow> string res \<times> 'w" where
  "pendingLighthouseVPC host dc region ccnID w =
     (case runJSON host (dcCcnInstances dc) (ccnInstancesCmd region ccnID) w of
        (Inl err, w1) \<Rightarrow> (Inl err, w1)
      | (Inr items, w1) \<Rightarrow>
          (Inr (case List.find (\<lambda>i. ciCcnID i = ccnID \<and> ciType i = ''VPC'' \<and> ciState i = ''PENDING'' \<and> ciDescription i = ''Lighthouse VPC'') items of
                  None \<Rightarrow> [] | Some i \<Rightarrow> ciInstanceID i), w1))"

definition attachCmd :: "string \<Rightarrow> string \<Rightarrow> string list" where
  "attachCmd region ccnID = [''tccli'', ''lighthouse'', ''AttachCcn'', ''--region'', region, ''--CcnId'', ccnID]"

definition acceptCmd :: "string \<Rightarrow> string \<Rightarrow> string \<Rightarrow> string list" where
  "acceptCmd region ccnID pending =
     [''tccli'', ''vpc'', ''AcceptAttachCcnInstances'', ''--region'', region, ''--cli-unfold-argument'', ''--CcnId'', ccnID,
      ''--Instances.0.InstanceType'', ''VPC'', ''--Instances.0.InstanceId'', pending, ''--Instances.0.InstanceRegion'', region]"

text \<open>Accepting the attachment that the network of the platform waits for, if there is one.\<close>

definition acceptPending :: "'w ops_host \<Rightarrow> ops_decoders \<Rightarrow> string \<Rightarrow> string \<Rightarrow> 'w \<Rightarrow> goerr option \<times> 'w" where
  "acceptPending host dc region ccnID w =
     (case pendingLighthouseVPC host dc region ccnID w of
        (Inl err, w1) \<Rightarrow> (Some err, w1)
      | (Inr pending, w1) \<Rightarrow> if pending = [] then (None, w1) else runQuiet host (acceptCmd region ccnID pending) w1)"

fun attachRounds ::
  "'w ops_host \<Rightarrow> ops_decoders \<Rightarrow> string \<Rightarrow> string \<Rightarrow> nat \<Rightarrow> string \<Rightarrow> 'w \<Rightarrow> goerr option \<times> 'w" where
  "attachRounds host dc region ccnID 0 st w =
     (Some (Errorf (if st = ''PENDING'' then ''lighthouse CCN attachment is still PENDING after automatic accept attempt''
        else ''lighthouse CCN attachment did not become ACTIVE; current state: '' @ defaultString st ''unknown'')), w)"
| "attachRounds host dc region ccnID (Suc n) st0 w =
     (case lighthouseCCNState host dc region ccnID w of
        (Inl err, w1) \<Rightarrow> (Some err, w1)
      | (Inr st, w1) \<Rightarrow>
          if st = ''ACTIVE'' then (None, w1)
          else andThen (if st = ''PENDING'' then acceptPending host dc region ccnID else (\<lambda>v. (None, v)))
                 (\<lambda>v. attachRounds host dc region ccnID n st (ohSleep host (secondsDur 5) v)) w1)"

definition attachLighthouseCCN ::
  "'w ops_host \<Rightarrow> ops_decoders \<Rightarrow> terraform_output \<Rightarrow> 'w \<Rightarrow> goerr option \<times> 'w" where
  "attachLighthouseCCN host dc out w =
     (let region = outRegionID out; ccnID = (case toCCN out of None \<Rightarrow> [] | Some c \<Rightarrow> trimSpace c) in
      if ccnID = [] then (Some (Errorf ''ccn.id output is required for existing_lighthouse mode''), w)
      else (case lighthouseAttachedCCN host dc region w of
              (Inl err, w1) \<Rightarrow> (Some err, w1)
            | (Inr current, w1) \<Rightarrow>
                if current \<noteq> [] \<and> current \<noteq> ccnID then
                  (Some (Errorf (''lighthouse is already attached to '' @ current @ ''; detach it before attaching '' @ ccnID)), w1)
                else andThen (if current \<noteq> ccnID then runQuiet host (attachCmd region ccnID) else (\<lambda>v. (None, v)))
                       (attachRounds host dc region ccnID 12 []) w1))"

text \<open>The ports that the platform needs: the port, the addresses it is open for and a description.\<close>

definition wantedPorts :: "terraform_output \<Rightarrow> (int \<times> string \<times> string) list" where
  "wantedPorts out =
     (let n = toNetwork out; subnet = trimSpace (onSubnetCIDRBlock n) in
      [(onCloudPlaneGRPCPort n, ''0.0.0.0/0'', ''mini-cloud control-plane to cloud-plane''),
       (onWorkloadProxyPort n, subnet, ''mini-cloud node to workload proxy''),
       (onArtifactHTTPPort n, subnet, ''mini-cloud node to node-agent artifact server'')])"

definition wantedRule :: "int \<times> string \<times> string \<Rightarrow> firewall_rule" where
  "wantedRule w =
     (case w of (port, cidr, description) \<Rightarrow>
       \<lparr>fwProtocol = ''TCP'', fwPort = itoa port, fwCidrBlock = cidr, fwAction = ''ACCEPT'', fwDescription = description\<rparr>)"

definition createRuleCmd :: "terraform_output \<Rightarrow> firewall_rule \<Rightarrow> string list" where
  "createRuleCmd out r =
     firewallCmd ''CreateFirewallRules'' (outRegionID out) (platformInstance out) @ [''--FirewallRules'', jsonList [ruleJSON r]]"

definition ensureLighthouseFirewallRules ::
  "'w ops_host \<Rightarrow> ops_decoders \<Rightarrow> terraform_output \<Rightarrow> 'w \<Rightarrow> goerr option \<times> 'w" where
  "ensureLighthouseFirewallRules host dc out w =
     (if outRegionID out = [] \<or> platformInstance out = [] \<or> trimSpace (onSubnetCIDRBlock (toNetwork out)) = [] then
        (Some (Errorf ''terraform outputs are incomplete for Lighthouse firewall rules''), w)
      else if list_ex (\<lambda>(port, cidr, _). port = 0 \<or> cidr = []) (wantedPorts out) then
        (Some (Errorf ''terraform network outputs are incomplete for Lighthouse firewall rules''), w)
      else (case runJSON host (dcFirewall dc) (firewallCmd ''DescribeFirewallRules'' (outRegionID out) (platformInstance out)) w of
              (Inl err, w1) \<Rightarrow> (Some err, w1)
            | (Inr rules, w1) \<Rightarrow>
                eachUntilError (\<lambda>want.
                  if keyOf (wantedRule want) \<in> set (map keyOf (filter (\<lambda>r. fwAction r = ''ACCEPT'') rules)) then (\<lambda>v. (None, v))
                  else runQuiet host (createRuleCmd out (wantedRule want))) (wantedPorts out) w1))"

section \<open>The infrastructure of a plane\<close>

definition bootstrapPlane :: "'w ops_host \<Rightarrow> ops_decoders \<Rightarrow> ops_plane \<Rightarrow> 'w \<Rightarrow> goerr option \<times> 'w" where
  "bootstrapPlane host dc p =
     andThen (terraformInit host p) (andThen (selectTerraformWorkspace host p) (andThen (terraform host p (terraformApplyArgs p)) (\<lambda>w.
       case terraformOutput host (dcTerraform dc) p w of
         (Inl err, w1) \<Rightarrow> (Some err, w1)
       | (Inr out, w1) \<Rightarrow>
           andThen (if ProviderName out = ''tencent'' \<and> PlatformModeName out = ''existing_lighthouse'' then
                      andThen (attachLighthouseCCN host dc out) (ensureLighthouseFirewallRules host dc out)
                    else (\<lambda>v. (None, v)))
             (terraform host p [''output'', ''platform'']) w1)))"

section \<open>The plan of an installation\<close>

record cloud_plan =
  cpPlane :: ops_plane
  cpOutput :: terraform_output
  cpHost :: string
  cpPrivateIP :: string
  cpGRPCEndpoint :: string

definition planeGRPCEndpoint :: "terraform_output \<Rightarrow> string \<Rightarrow> string" where
  "planeGRPCEndpoint out privateEndpoint =
     (let endpoint = trimSpace (ofGRPCEndpoint (toPlatform out)); publicIP = trimSpace (ofPublicIP (toPlatform out));
          port = onCloudPlaneGRPCPort (toNetwork out) in
      if endpoint \<noteq> [] then (if containsStr endpoint ''://'' then endpoint else ''grpcs://'' @ endpoint)
      else if publicIP \<noteq> [] \<and> port \<noteq> 0 then ''grpcs://'' @ publicIP @ '':'' @ itoa port
      else privateEndpoint)"

definition privateEndpointOf :: "string \<Rightarrow> terraform_output \<Rightarrow> string" where
  "privateEndpointOf privateIP out = ''grpcs://'' @ privateIP @ '':'' @ itoa (onCloudPlaneGRPCPort (toNetwork out))"

text \<open>The private address of the platform, which terraform knows or the machine is asked for.\<close>

definition platformPrivateIP ::
  "'w ops_host \<Rightarrow> ops_plane \<Rightarrow> terraform_output \<Rightarrow> string \<Rightarrow> 'w \<Rightarrow> string res \<times> 'w" where
  "platformPrivateIP host p out target w =
     (if nonBlank (ofPrivateIP (toPlatform out)) then (Inr (trimSpace (ofPrivateIP (toPlatform out))), w)
      else if nonBlank (iePlatformPrivateIP (toInstallEnv out)) then (Inr (trimSpace (iePlatformPrivateIP (toInstallEnv out))), w)
      else detectPrivateIP host (opSSH p) target w)"

definition prepareCloudPlaneInstallPlan ::
  "'w ops_host \<Rightarrow> ops_decoders \<Rightarrow> ops_plane \<Rightarrow> 'w \<Rightarrow> cloud_plan res \<times> 'w" where
  "prepareCloudPlaneInstallPlan host dc p w =
     (case andThen (terraformInit host p) (selectTerraformWorkspace host p) w of
        (Some err, w1) \<Rightarrow> (Inl err, w1)
      | (None, w1) \<Rightarrow>
          (case terraformOutput host (dcTerraform dc) p w1 of
             (Inl err, w2) \<Rightarrow> (Inl err, w2)
           | (Inr out, w2) \<Rightarrow>
               (case platformHost p out of
                  Inl err \<Rightarrow> (Inl err, w2)
                | Inr target \<Rightarrow>
                    (case platformPrivateIP host p out target w2 of
                       (Inl err, w3) \<Rightarrow> (Inl err, w3)
                     | (Inr ip, w3) \<Rightarrow>
                         (Inr \<lparr>cpPlane = p, cpOutput = out, cpHost = target, cpPrivateIP = ip,
                            cpGRPCEndpoint = planeGRPCEndpoint out (privateEndpointOf ip out)\<rparr>, w3)))))"

section \<open>What the firewall is left with\<close>

text \<open>The rules that are created are among those that the destruction removes.\<close>

lemma created_rules_are_doomed:
  assumes "want \<in> set (wantedPorts out)"
  shows "doomedRule out (wantedRule want)"
  using assms by (auto simp: doomedRule_def wantedPorts_def wantedRule_def platformRuleKeys_def keyOf_def Let_def)

end
