(* ===== verification/OpsRelease.thy ===== *)
theory OpsRelease
  imports OpsDeploy GoNet Dns
begin

text \<open>
  How minictl installs a release: the certificates (internal/ops/certs.go), the configuration of the
  planes and the control-plane (install.go), the control-plane's function (scf.go, http.go, and its CNAME in
  frontdoor.go), files (ssh.go) and the checks before an update (check.go).  The file system, the templates,
  JSON, rsa, x509 and pem are parameters.
\<close>

section \<open>Files\<close>

text \<open>Reading answers an error with whether the file does not exist.  Modes are their octal digits.\<close>

record 'w ops_files =
  flRead :: "string \<Rightarrow> 'w \<Rightarrow> (bool \<times> goerr) + string"
  flWrite :: "string \<Rightarrow> string \<Rightarrow> string \<Rightarrow> 'w \<Rightarrow> goerr option \<times> 'w"
  flMkdir :: "string \<Rightarrow> string \<Rightarrow> 'w \<Rightarrow> goerr option \<times> 'w"
  flCreateTemp :: "string \<Rightarrow> 'w \<Rightarrow> string res \<times> 'w"
  flFill :: "string \<Rightarrow> string \<Rightarrow> 'w \<Rightarrow> goerr option \<times> 'w"
  flClose :: "string \<Rightarrow> 'w \<Rightarrow> goerr option \<times> 'w"
  flChmod :: "string \<Rightarrow> string \<Rightarrow> 'w \<Rightarrow> goerr option \<times> 'w"
  flRemove :: "string \<Rightarrow> 'w \<Rightarrow> 'w"
  flStat :: "'w \<Rightarrow> file_stat"
  flLookPath :: "string \<Rightarrow> 'w \<Rightarrow> bool"

definition writeTempFile :: "'w ops_files \<Rightarrow> string \<Rightarrow> string \<Rightarrow> string \<Rightarrow> 'w \<Rightarrow> string res \<times> 'w" where
  "writeTempFile fs pat data mode w =
     (case flCreateTemp fs pat w of
        (Inl err, w1) \<Rightarrow> (Inl err, w1)
      | (Inr path, w1) \<Rightarrow>
          (case flFill fs path data w1 of
             (Some err, w2) \<Rightarrow> (Inl err, flRemove fs path (snd (flClose fs path w2)))
           | (None, w2) \<Rightarrow>
               (case flClose fs path w2 of
                  (Some err, w3) \<Rightarrow> (Inl err, flRemove fs path w3)
                | (None, w3) \<Rightarrow>
                    (case flChmod fs path mode w3 of
                       (Some err, w4) \<Rightarrow> (Inl err, flRemove fs path w4)
                     | (None, w4) \<Rightarrow> (Inr path, w4)))))"

fun removeFiles :: "'w ops_files \<Rightarrow> string list \<Rightarrow> 'w \<Rightarrow> 'w" where
  "removeFiles fs [] w = w"
| "removeFiles fs (p # ps) w = removeFiles fs ps (if p = [] then w else flRemove fs p w)"

text \<open>A deferred removal.\<close>

definition removing :: "'w ops_files \<Rightarrow> string list \<Rightarrow> ('w \<Rightarrow> 'r \<times> 'w) \<Rightarrow> 'w \<Rightarrow> 'r \<times> 'w" where
  "removing fs paths f w = (case f w of (r, w1) \<Rightarrow> (r, removeFiles fs paths w1))"

definition pathDir :: "string \<Rightarrow> string" where
  "pathDir p = cleanPath (rev (dropWhile (\<lambda>c. c \<noteq> CHR ''/'') (rev p)))"

definition uploadFile ::
  "'w ops_host \<Rightarrow> 'w ops_files \<Rightarrow> ops_ssh \<Rightarrow> string \<Rightarrow> string \<Rightarrow> string \<Rightarrow> string \<Rightarrow> 'w \<Rightarrow> goerr option \<times> 'w" where
  "uploadFile host fs cfg target local remote mode w =
     (case flRead fs local w of
        Inl (_, err) \<Rightarrow> (Some err, w)
      | Inr data \<Rightarrow>
          (case ohRun host data ([''ssh''] @ sshArgs cfg @ [target,
                ''mkdir -p '' @ opsShellQuote (pathDir remote) @ '' && cat > '' @ opsShellQuote remote @ '' && chmod '' @ mode @ '' ''
                @ opsShellQuote remote]) w of
             (Some err, w1) \<Rightarrow> (Some (wrap (''upload '' @ local @ '' to '' @ target @ '':'' @ remote) err), w1)
           | (None, w1) \<Rightarrow> (None, w1)))"

text \<open>The function of the templates.\<close>

definition indentText :: "nat \<Rightarrow> string \<Rightarrow> string" where
  "indentText spaces v =
     (let body = rev (dropWhile (\<lambda>c. c = CHR 0x0A) (rev v))
      in joinStr [CHR 0x0A] (map (\<lambda>l. replicate spaces CHR '' '' @ l) (splitOn (CHR 0x0A) body)) @ [CHR 0x0A])"

section \<open>Certificates\<close>

record ops_tls =
  otCACert :: string
  otCert :: string
  otKey :: string

definition noTLS :: ops_tls where "noTLS = \<lparr>otCACert = [], otCert = [], otKey = []\<rparr>"

text \<open>The state file; an association list stands for the map of the planes.\<close>

record cert_state =
  csCA :: ops_tls
  csControlPlane :: ops_tls
  csCloudPlanes :: "(string \<times> ops_tls) list"

definition emptyCertState :: cert_state where
  "emptyCertState = \<lparr>csCA = noTLS, csControlPlane = noTLS, csCloudPlanes = []\<rparr>"

text \<open>
  What is asked of x509.CreateCertificate: the subject's name, the years of validity, the addresses (as
  their 16 bytes) and whether it is for an authority, a client or a server.
\<close>

datatype cert_use = AuthorityCert | ClientCert | ServerCert

record cert_request =
  crCommonName :: string
  crYears :: nat
  crNames :: "string list"
  crAddresses :: "nat list list"
  crUse :: cert_use

text \<open>
  Keys 'k and certificates 'c.  Issuing generates a key and a serial number, signs with the authority (None: with
  itself) at the present time and parses the result.  Texts are PEM; a text is decoded to its type and bytes.
\<close>

record ('k, 'c, 'w) cert_env =
  ceIssue :: "cert_request \<Rightarrow> ('c \<times> 'k) option \<Rightarrow> 'w \<Rightarrow> ('c \<times> 'k) res \<times> 'w"
  ceCertPEM :: "'c \<Rightarrow> string"
  ceKeyPEM :: "'k \<Rightarrow> string"
  ceDecodePEM :: "string \<Rightarrow> (string \<times> string) option"
  ceParseCert :: "string \<Rightarrow> 'c res"
  ceParseKey :: "string \<Rightarrow> 'k res"
  ceNameValid :: "'c \<Rightarrow> string \<Rightarrow> bool"
  ceAddressValid :: "'c \<Rightarrow> nat list \<Rightarrow> bool"
  ceEncodeState :: "cert_state \<Rightarrow> string res"
  ceDecodeState :: "string \<Rightarrow> cert_state res"

definition certificateStatePath :: "ops_config \<Rightarrow> string" where
  "certificateStatePath cfg =
     (let dir = pathDir (ocPath cfg) in pathJoin [if dir = ''.'' \<or> dir = [] then ''deploy/ops'' else dir, ''state'', ''tls.json''])"

definition readCertificateState :: "('k, 'c, 'w) cert_env \<Rightarrow> 'w ops_files \<Rightarrow> string \<Rightarrow> 'w \<Rightarrow> cert_state res" where
  "readCertificateState ce fs path w =
     (case flRead fs path w of
        Inl (notExist, err) \<Rightarrow> if notExist then Inr emptyCertState else Inl (wrap (''read TLS state '' @ goQuote path) err)
      | Inr data \<Rightarrow>
          (case ceDecodeState ce data of
             Inl err \<Rightarrow> Inl (wrap (''parse TLS state '' @ goQuote path) err)
           | Inr st \<Rightarrow> Inr st))"

definition writeCertificateState ::
  "('k, 'c, 'w) cert_env \<Rightarrow> 'w ops_files \<Rightarrow> string \<Rightarrow> cert_state \<Rightarrow> 'w \<Rightarrow> goerr option \<times> 'w" where
  "writeCertificateState ce fs path st w =
     (case flMkdir fs (pathDir path) ''0700'' w of
        (Some err, w1) \<Rightarrow> (Some (wrap ''create TLS state directory'' err), w1)
      | (None, w1) \<Rightarrow>
          (case ceEncodeState ce st of
             Inl err \<Rightarrow> (Some (wrap ''encode TLS state'' err), w1)
           | Inr data \<Rightarrow>
               (case flWrite fs path (data @ [CHR 0x0A]) ''0600'' w1 of
                  (Some err, w2) \<Rightarrow> (Some (wrap (''write TLS state '' @ goQuote path) err), w2)
                | (None, w2) \<Rightarrow> (None, w2))))"

definition parseCertificateAuthority :: "('k, 'c, 'w) cert_env \<Rightarrow> ops_tls \<Rightarrow> ('c \<times> 'k) res" where
  "parseCertificateAuthority ce m =
     (case ceDecodePEM ce (otCert m) of
        Some (t, der) \<Rightarrow>
          if t \<noteq> ''CERTIFICATE'' then Inl (Errorf ''TLS state CA certificate is invalid'')
          else (case ceParseCert ce der of
                  Inl err \<Rightarrow> Inl (wrap ''parse TLS state CA certificate'' err)
                | Inr cert \<Rightarrow>
                    (case ceDecodePEM ce (otKey m) of
                       Some (t2, kder) \<Rightarrow>
                         if t2 \<noteq> ''RSA PRIVATE KEY'' then Inl (Errorf ''TLS state CA private key is invalid'')
                         else (case ceParseKey ce kder of
                                 Inl err \<Rightarrow> Inl (wrap ''parse TLS state CA private key'' err)
                               | Inr key \<Rightarrow> Inr (cert, key))
                     | None \<Rightarrow> Inl (Errorf ''TLS state CA private key is invalid'')))
      | None \<Rightarrow> Inl (Errorf ''TLS state CA certificate is invalid''))"

definition newCertificateAuthority :: "('k, 'c, 'w) cert_env \<Rightarrow> 'w \<Rightarrow> ('c \<times> 'k) res \<times> 'w" where
  "newCertificateAuthority ce =
     ceIssue ce \<lparr>crCommonName = ''mini-cloud private ca'', crYears = 5, crNames = [], crAddresses = [], crUse = AuthorityCert\<rparr> None"

definition issueLeaf :: "('k, 'c, 'w) cert_env \<Rightarrow> 'c \<times> 'k \<Rightarrow> string \<Rightarrow> cert_request \<Rightarrow> 'w \<Rightarrow> ops_tls res \<times> 'w" where
  "issueLeaf ce ca caPEM req w =
     (case ceIssue ce req (Some ca) w of
        (Inl err, w1) \<Rightarrow> (Inl err, w1)
      | (Inr (cert, key), w1) \<Rightarrow> (Inr \<lparr>otCACert = caPEM, otCert = ceCertPEM ce cert, otKey = ceKeyPEM ce key\<rparr>, w1))"

definition issueControlPlaneCertificate :: "('k, 'c, 'w) cert_env \<Rightarrow> 'c \<times> 'k \<Rightarrow> string \<Rightarrow> 'w \<Rightarrow> ops_tls res \<times> 'w" where
  "issueControlPlaneCertificate ce ca caPEM =
     issueLeaf ce ca caPEM \<lparr>crCommonName = ''mini-cloud-control-plane'', crYears = 2, crNames = [], crAddresses = [], crUse = ClientCert\<rparr>"

text \<open>net.ParseIP: the 16 bytes of an address.\<close>

definition ipBytes :: "string \<Rightarrow> nat list option" where
  "ipBytes s =
     (if \<not> validIP s then None
      else if CHR '':'' \<in> set s then Some (v6Value s)
      else Some (replicate 10 0 @ [255, 255] @ v6Part s))"

definition trimPrefix :: "string \<Rightarrow> string \<Rightarrow> string" where
  "trimPrefix s p = (if hasPrefix s p then drop (length p) s else s)"

definition certHost :: "string \<Rightarrow> string" where
  "certHost v0 =
     (let v = trimPrefix (trimPrefix (trimSpace v0) ''grpcs://'') ''grpc://''
      in trimSpace (case splitHostPort v of Some (host, _) \<Rightarrow> host | None \<Rightarrow> v))"

text \<open>The names and addresses of a plane; the code's maps keep each once, in no particular order.\<close>

definition certificateNames :: "cloud_plan \<Rightarrow> string list \<times> nat list list" where
  "certificateNames plan =
     (let out = cpOutput plan;
          hosts = filter (\<lambda>h. h \<noteq> []) (map certHost [cpPrivateIP plan, ofPrivateIP (toPlatform out), ofPublicIP (toPlatform out),
            ofSSHHost (toPlatform out), iePlatformPrivateIP (toInstallEnv out), iePlatformPublicIP (toInstallEnv out), cpGRPCEndpoint plan])
      in (remdups (filter (\<lambda>h. ipBytes h = None) hosts), remdups (List.map_filter ipBytes hosts)))"

definition issueCloudPlaneCertificate ::
  "('k, 'c, 'w) cert_env \<Rightarrow> 'c \<times> 'k \<Rightarrow> string \<Rightarrow> cloud_plan \<Rightarrow> 'w \<Rightarrow> ops_tls res \<times> 'w" where
  "issueCloudPlaneCertificate ce ca caPEM plan =
     (case certificateNames plan of (names, ips) \<Rightarrow>
       issueLeaf ce ca caPEM \<lparr>crCommonName = ''mini-cloud-cloud-plane-'' @ opName (cpPlane plan), crYears = 2,
         crNames = names, crAddresses = ips, crUse = ServerCert\<rparr>)"

definition cloudPlaneCertificateNeedsIssue :: "('k, 'c, 'w) cert_env \<Rightarrow> ops_tls \<Rightarrow> string \<Rightarrow> cloud_plan \<Rightarrow> bool" where
  "cloudPlaneCertificateNeedsIssue ce m caPEM plan \<longleftrightarrow>
     otCert m = [] \<or> otKey m = [] \<or> otCACert m \<noteq> caPEM \<or>
     (case ceDecodePEM ce (otCert m) of
        None \<Rightarrow> True
      | Some (t, der) \<Rightarrow>
          t \<noteq> ''CERTIFICATE'' \<or>
          (case ceParseCert ce der of
             Inl _ \<Rightarrow> True
           | Inr cert \<Rightarrow> \<not> list_all (ceNameValid ce cert) (fst (certificateNames plan))
               \<or> \<not> list_all (ceAddressValid ce cert) (snd (certificateNames plan))))"

text \<open>Each step of loadCertificateState: what it makes of the state and whether it changed it.\<close>

definition ensureAuthority :: "('k, 'c, 'w) cert_env \<Rightarrow> cert_state \<Rightarrow> 'w \<Rightarrow> (cert_state \<times> bool) res \<times> 'w" where
  "ensureAuthority ce st w =
     (if otCert (csCA st) = [] \<or> otKey (csCA st) = [] then
        (case newCertificateAuthority ce w of
           (Inl err, w1) \<Rightarrow> (Inl err, w1)
         | (Inr (cert, key), w1) \<Rightarrow>
             (Inr (st\<lparr>csCA := \<lparr>otCACert = ceCertPEM ce cert, otCert = ceCertPEM ce cert, otKey = ceKeyPEM ce key\<rparr>\<rparr>, True), w1))
      else if otCACert (csCA st) = [] then (Inr (st\<lparr>csCA := (csCA st)\<lparr>otCACert := otCert (csCA st)\<rparr>\<rparr>, True), w)
      else (Inr (st, False), w))"

definition ensureControlPlane ::
  "('k, 'c, 'w) cert_env \<Rightarrow> 'c \<times> 'k \<Rightarrow> cert_state \<Rightarrow> 'w \<Rightarrow> (cert_state \<times> bool) res \<times> 'w" where
  "ensureControlPlane ce ca st w =
     (let m = csControlPlane st in
      if otCert m = [] \<or> otKey m = [] \<or> otCACert m \<noteq> otCert (csCA st) then
        (case issueControlPlaneCertificate ce ca (otCert (csCA st)) w of
           (Inl err, w1) \<Rightarrow> (Inl err, w1)
         | (Inr cert, w1) \<Rightarrow> (Inr (st\<lparr>csControlPlane := cert\<rparr>, True), w1))
      else (Inr (st, False), w))"

definition loadCertificateState ::
  "('k, 'c, 'w) cert_env \<Rightarrow> 'w ops_files \<Rightarrow> ops_config \<Rightarrow> 'w \<Rightarrow> (cert_state \<times> ('c \<times> 'k) \<times> bool) res \<times> 'w" where
  "loadCertificateState ce fs cfg w =
     (case readCertificateState ce fs (certificateStatePath cfg) w of
        Inl err \<Rightarrow> (Inl err, w)
      | Inr st0 \<Rightarrow>
          (case ensureAuthority ce st0 w of
             (Inl err, w1) \<Rightarrow> (Inl err, w1)
           | (Inr (st1, ch1), w1) \<Rightarrow>
               (case parseCertificateAuthority ce (csCA st1) of
                  Inl err \<Rightarrow> (Inl err, w1)
                | Inr ca \<Rightarrow>
                    (case ensureControlPlane ce ca st1 w1 of
                       (Inl err, w2) \<Rightarrow> (Inl err, w2)
                     | (Inr (st2, ch2), w2) \<Rightarrow> (Inr (st2, ca, ch1 \<or> ch2), w2)))))"

fun issueMissing ::
  "('k, 'c, 'w) cert_env \<Rightarrow> 'c \<times> 'k \<Rightarrow> cloud_plan list \<Rightarrow> cert_state \<Rightarrow> bool \<Rightarrow> 'w \<Rightarrow> (cert_state \<times> bool) res \<times> 'w" where
  "issueMissing ce ca [] st changed w = (Inr (st, changed), w)"
| "issueMissing ce ca (plan # plans) st changed w =
     (let name = opName (cpPlane plan); current = (case map_of (csCloudPlanes st) name of None \<Rightarrow> noTLS | Some m \<Rightarrow> m) in
      if \<not> cloudPlaneCertificateNeedsIssue ce current (otCert (csCA st)) plan then issueMissing ce ca plans st changed w
      else (case issueCloudPlaneCertificate ce ca (otCert (csCA st)) plan w of
              (Inl err, w1) \<Rightarrow> (Inl err, w1)
            | (Inr cert, w1) \<Rightarrow> issueMissing ce ca plans (st\<lparr>csCloudPlanes := AList.update name cert (csCloudPlanes st)\<rparr>) True w1))"

definition storeCertificates ::
  "('k, 'c, 'w) cert_env \<Rightarrow> 'w ops_files \<Rightarrow> ops_config \<Rightarrow> cert_state \<Rightarrow> bool \<Rightarrow> 'w \<Rightarrow> cert_state res \<times> 'w" where
  "storeCertificates ce fs cfg st changed w =
     (if \<not> changed then (Inr st, w)
      else (case writeCertificateState ce fs (certificateStatePath cfg) st w of
              (Some err, w1) \<Rightarrow> (Inl err, w1)
            | (None, w1) \<Rightarrow> (Inr st, w1)))"

definition loadCertificateBundle ::
  "('k, 'c, 'w) cert_env \<Rightarrow> 'w ops_files \<Rightarrow> ops_config \<Rightarrow> cloud_plan list \<Rightarrow> 'w \<Rightarrow> cert_state res \<times> 'w" where
  "loadCertificateBundle ce fs cfg plans w =
     (case loadCertificateState ce fs cfg w of
        (Inl err, w1) \<Rightarrow> (Inl err, w1)
      | (Inr (st, ca, changed), w1) \<Rightarrow>
          (case issueMissing ce ca plans st changed w1 of
             (Inl err, w2) \<Rightarrow> (Inl err, w2)
           | (Inr (st2, changed2), w2) \<Rightarrow> storeCertificates ce fs cfg st2 changed2 w2))"

definition loadControlPlaneCertificate ::
  "('k, 'c, 'w) cert_env \<Rightarrow> 'w ops_files \<Rightarrow> ops_config \<Rightarrow> 'w \<Rightarrow> ops_tls res \<times> 'w" where
  "loadControlPlaneCertificate ce fs cfg w =
     (case loadCertificateState ce fs cfg w of
        (Inl err, w1) \<Rightarrow> (Inl err, w1)
      | (Inr (st, _, changed), w1) \<Rightarrow>
          (case storeCertificates ce fs cfg st changed w1 of (Inl err, w2) \<Rightarrow> (Inl err, w2) | (Inr st2, w2) \<Rightarrow> (Inr (csControlPlane st2), w2)))"

section \<open>What is installed\<close>

definition planeID :: "string \<Rightarrow> string" where
  "planeID name = ''pln_'' @ map (\<lambda>c. if c = CHR ''-'' then CHR ''_'' else c) (trimSpace name)"

record control_entry =
  keID :: string
  keName :: string
  keDisplayName :: string
  keProvider :: string
  keRegion :: string
  keGRPCEndpoint :: string

record control_template =
  kcHTTPAddr :: string
  kcInstallRoot :: string
  kcAdminToken :: string
  kcSouthboundToken :: string
  kcSouthboundTLS :: ops_tls
  kcServiceBaseDomain :: string
  kcDNSPodDomain :: string
  kcPlanes :: "control_entry list"

record ops_credential =
  ocdSecretID :: string
  ocdSecretKey :: string
  ocdToken :: string

record cloud_template =
  ktListenGRPCAddr :: string
  ktTLS :: ops_tls
  ktPlaneName :: string
  ktPlaneGRPCEndpoint :: string
  ktSouthboundToken :: string
  ktNodeAgentConnectEndpoint :: string
  ktNodeAgentToken :: string
  ktNodeAgentBinaryURL :: string
  ktProvider :: string
  ktRegionID :: string
  ktZoneID :: string
  ktTencentCredential :: ops_credential
  ktInstanceType :: string
  ktRegistryMirrors :: "string list"
  ktWorkloadProxyEndpoint :: string
  ktNodeProvider :: node_provider_config
  ktIngressBaseDomain :: string
  ktIngressPublicOrigin :: string
  ktOTLPEndpoint :: string

record remote_template =
  krInstallRoot :: string
  krIngressHTTPPort :: int
  krWorkloadProxyPort :: int
  krArtifactHTTPPort :: int
  krSubnetCIDRBlock :: string
  krRegistryMirror :: string
  krCloudPlaneGRPCPort :: int

text \<open>The templates, and the JSON of a credential file: secretId, secretKey, sessionToken and token.\<close>

record release_env =
  reControl :: "control_template \<Rightarrow> string res"
  reCloud :: "cloud_template \<Rightarrow> string res"
  reInstall :: "remote_template \<Rightarrow> string res"
  reCredential :: "string \<Rightarrow> (string \<times> string \<times> string \<times> string) res"

definition controlEntry :: "cloud_plan \<Rightarrow> control_entry" where
  "controlEntry plan =
     (let p = cpPlane plan; out = cpOutput plan in
      \<lparr>keID = planeID (opName p), keName = opName p, keDisplayName = opName p,
       keProvider = (if ProviderName out = [] then opProvider p else ProviderName out),
       keRegion = (if outRegionID out = [] then opRegion p else outRegionID out), keGRPCEndpoint = cpGRPCEndpoint plan\<rparr>)"

definition renderControlPlaneInstallFiles ::
  "'w ops_files \<Rightarrow> release_env \<Rightarrow> ops_config \<Rightarrow> cloud_plan list \<Rightarrow> ops_tls \<Rightarrow> 'w \<Rightarrow> string res \<times> 'w" where
  "renderControlPlaneInstallFiles fs re cfg plans m w =
     (case reControl re
        \<lparr>kcHTTPAddr = ''0.0.0.0:9000'', kcInstallRoot = ocInstallRoot cfg, kcAdminToken = ocAdminToken cfg,
         kcSouthboundToken = ocSouthboundToken cfg, kcSouthboundTLS = m, kcServiceBaseDomain = trimDots (ocIngressBaseDomain cfg),
         kcDNSPodDomain = opsRootDomain (ocIngressBaseDomain cfg), kcPlanes = map controlEntry plans\<rparr> of
        Inl err \<Rightarrow> (Inl err, w)
      | Inr data \<Rightarrow> writeTempFile fs ''mini-cloud-control-plane-*.yaml'' data ''0600'' w)"

definition parseTencentCredentialData :: "release_env \<Rightarrow> string \<Rightarrow> ops_credential res" where
  "parseTencentCredentialData re data =
     (let trimmed = trimSpace data in
      if trimmed = [] then Inl (Errorf ''credential file is empty'')
      else bindR (reCredential re trimmed) (\<lambda>(i, k, session, token).
        Inr \<lparr>ocdSecretID = trimSpace i, ocdSecretKey = trimSpace k, ocdToken = defaultString session token\<rparr>))"

definition readTencentCredentialFile :: "'w ops_files \<Rightarrow> release_env \<Rightarrow> string \<Rightarrow> 'w \<Rightarrow> ops_credential res" where
  "readTencentCredentialFile fs re path w =
     (case flRead fs path w of
        Inl (_, err) \<Rightarrow> Inl (wrap (''read Tencent credential file '' @ goQuote path) err)
      | Inr data \<Rightarrow>
          (case parseTencentCredentialData re data of
             Inl err \<Rightarrow> Inl (wrap (''parse Tencent credential file '' @ goQuote path) err)
           | Inr c \<Rightarrow> Inr c))"

definition credentialIncomplete :: goerr where
  "credentialIncomplete = Errorf ''provider.tencentCredentialFile must contain secretId and secretKey''"

definition releaseCredential :: "'w ops_files \<Rightarrow> release_env \<Rightarrow> ops_config \<Rightarrow> string \<Rightarrow> 'w \<Rightarrow> ops_credential res" where
  "releaseCredential fs re cfg provider w =
     (if provider \<noteq> ''tencent'' then Inr \<lparr>ocdSecretID = [], ocdSecretKey = [], ocdToken = []\<rparr>
      else bindR (readTencentCredentialFile fs re (ocTencentCredentialFile cfg) w) (\<lambda>c.
        if \<not> nonBlank (ocdSecretID c) \<or> \<not> nonBlank (ocdSecretKey c) then Inl credentialIncomplete else Inr c))"

definition registryMirror :: "ops_config \<Rightarrow> ops_plane \<Rightarrow> string \<Rightarrow> string" where
  "registryMirror cfg p provider =
     (if nonBlank (opRegistryMirror p) then trimSpace (opRegistryMirror p)
      else if nonBlank (ocInstallRegistryMirror cfg) then trimSpace (ocInstallRegistryMirror cfg)
      else if provider = ''tencent'' then ''https://mirror.ccs.tencentyun.com''
      else ''https://docker.m.daocloud.io'')"

definition publicIPOf :: "terraform_output \<Rightarrow> string" where
  "publicIPOf out =
     (if nonBlank (ofPublicIP (toPlatform out)) then trimSpace (ofPublicIP (toPlatform out))
      else trimSpace (iePlatformPublicIP (toInstallEnv out)))"

text \<open>The data of the two templates of a plane, or why there is none.\<close>

definition cloudTemplateData ::
  "'w ops_files \<Rightarrow> release_env \<Rightarrow> ops_config \<Rightarrow> ops_plane \<Rightarrow> terraform_output \<Rightarrow> string \<Rightarrow> ops_tls \<Rightarrow> 'w \<Rightarrow> (cloud_template \<times> remote_template) res" where
  "cloudTemplateData fs re cfg p out ip m w =
     (let provider = ProviderName out; np = toNodeProvider out; n = toNetwork out; mirror = registryMirror cfg p provider;
          instanceType = trimSpace (npInstanceType np) in
      if provider = [] then Inl (Errorf ''terraform provider output is empty'')
      else if opProvider p \<noteq> [] \<and> provider \<noteq> opProvider p then
        Inl (Errorf (''plane '' @ opName p @ '' expected provider '' @ opProvider p @ '', terraform output is '' @ provider))
      else if npProvider np \<noteq> [] \<and> npProvider np \<noteq> provider then
        Inl (Errorf (''node_provider_config provider '' @ npProvider np @ '' does not match terraform provider '' @ provider))
      else if instanceType = [] then Inl (Errorf ''node_provider_config.instanceType is required'')
      else bindR (releaseCredential fs re cfg provider w) (\<lambda>credential.
        if onArtifactHTTPPort n = 0 \<or> onCloudPlaneGRPCPort n = 0 \<or> onWorkloadProxyPort n = 0 \<or> onIngressHTTPPort n = 0 then
          Inl (Errorf ''terraform network outputs are incomplete'')
        else if nonBlank (ocIngressBaseDomain cfg) \<and> publicIPOf out = [] then
          Inl (Errorf ''platform public IP is required when ingress is enabled'')
        else Inr
          (\<lparr>ktListenGRPCAddr = ''0.0.0.0:'' @ itoa (onCloudPlaneGRPCPort n), ktTLS = m, ktPlaneName = ofName (toPlatform out),
            ktPlaneGRPCEndpoint = planeGRPCEndpoint out (privateEndpointOf ip out), ktSouthboundToken = ocSouthboundToken cfg,
            ktNodeAgentConnectEndpoint = privateEndpointOf ip out, ktNodeAgentToken = ocNodeAgentToken cfg,
            ktNodeAgentBinaryURL = ''http://'' @ ip @ '':'' @ itoa (onArtifactHTTPPort n) @ ''/node-agent-linux-amd64'',
            ktProvider = provider, ktRegionID = outRegionID out, ktZoneID = ieZoneID (toInstallEnv out), ktTencentCredential = credential,
            ktInstanceType = instanceType, ktRegistryMirrors = [mirror],
            ktWorkloadProxyEndpoint = ''http://'' @ ip @ '':'' @ itoa (onWorkloadProxyPort n), ktNodeProvider = np,
            ktIngressBaseDomain = ocIngressBaseDomain cfg, ktIngressPublicOrigin = publicIPOf out, ktOTLPEndpoint = ocWorkloadOTLPEndpoint cfg\<rparr>,
           \<lparr>krInstallRoot = ocInstallRoot cfg, krIngressHTTPPort = onIngressHTTPPort n, krWorkloadProxyPort = onWorkloadProxyPort n,
            krArtifactHTTPPort = onArtifactHTTPPort n, krSubnetCIDRBlock = onSubnetCIDRBlock n, krRegistryMirror = mirror,
            krCloudPlaneGRPCPort = onCloudPlaneGRPCPort n\<rparr>)))"

definition renderCloudPlaneFiles ::
  "'w ops_files \<Rightarrow> release_env \<Rightarrow> ops_config \<Rightarrow> ops_plane \<Rightarrow> terraform_output \<Rightarrow> string \<Rightarrow> ops_tls \<Rightarrow> 'w \<Rightarrow> (string \<times> string) res \<times> 'w" where
  "renderCloudPlaneFiles fs re cfg p out ip m w =
     (case bindR (cloudTemplateData fs re cfg p out ip m w) (\<lambda>(kt, kr).
             bindR (reCloud re kt) (\<lambda>config. bindR (reInstall re kr) (\<lambda>script. Inr (config, script)))) of
        Inl err \<Rightarrow> (Inl err, w)
      | Inr (config, script) \<Rightarrow>
          (case writeTempFile fs ''mini-cloud-cloud-plane-*.yaml'' config ''0600'' w of
             (Inl err, w1) \<Rightarrow> (Inl err, w1)
           | (Inr cloudPath, w1) \<Rightarrow>
               (case writeTempFile fs ''mini-cloud-install-*.sh'' script ''0700'' w1 of
                  (Inl err, w2) \<Rightarrow> (Inl err, flRemove fs cloudPath w2)
                | (Inr scriptPath, w2) \<Rightarrow> (Inr (cloudPath, scriptPath), w2))))"

definition runCloudPlaneScript ::
  "'w ops_host \<Rightarrow> 'w ops_files \<Rightarrow> ops_config \<Rightarrow> cloud_plan \<Rightarrow> string \<Rightarrow> string \<Rightarrow> 'w \<Rightarrow> goerr option \<times> 'w" where
  "runCloudPlaneScript host fs cfg plan config script =
     (let upload = uploadFile host fs (opSSH (cpPlane plan)) (cpHost plan) in
      removing fs [config, script]
        (andThen (upload (ocCloudPlaneBinary cfg) ''/tmp/mini-cloud-cloud-plane'' ''0755'')
          (andThen (upload (ocNodeAgentBinary cfg) ''/tmp/mini-cloud-node-agent'' ''0755'')
            (andThen (upload config ''/tmp/mini-cloud-cloud-plane.yaml'' ''0600'')
              (\<lambda>w. case flRead fs script w of
                 Inl (_, err) \<Rightarrow> (Some err, w)
               | Inr data \<Rightarrow> sshScript host (opSSH (cpPlane plan)) (cpHost plan) data w)))))"

definition installCloudPlane ::
  "'w ops_host \<Rightarrow> 'w ops_files \<Rightarrow> release_env \<Rightarrow> ops_config \<Rightarrow> cloud_plan \<Rightarrow> ops_tls \<Rightarrow> 'w \<Rightarrow> goerr option \<times> 'w" where
  "installCloudPlane host fs re cfg plan m w =
     (case renderCloudPlaneFiles fs re cfg (cpPlane plan) (cpOutput plan) (cpPrivateIP plan) m w of
        (Inl err, w1) \<Rightarrow> (Some err, w1)
      | (Inr (config, script), w1) \<Rightarrow> runCloudPlaneScript host fs cfg plan config script w1)"

text \<open>One task of installCloudPlanes, and what the tasks make together.\<close>

definition installTask ::
  "'w ops_host \<Rightarrow> 'w ops_files \<Rightarrow> release_env \<Rightarrow> ops_config \<Rightarrow> (string \<times> ops_tls) list \<Rightarrow> cloud_plan \<Rightarrow> 'w \<Rightarrow> goerr option \<times> 'w" where
  "installTask host fs re cfg certs plan w =
     (case map_of certs (opName (cpPlane plan)) of
        None \<Rightarrow> (Some (Errorf (''missing cloud-plane certificate for '' @ opName (cpPlane plan))), w)
      | Some m \<Rightarrow>
          (case installCloudPlane host fs re cfg plan m w of
             (Some err, w1) \<Rightarrow> (Some (wrap (''plane '' @ opName (cpPlane plan)) err), w1)
           | (None, w1) \<Rightarrow> (None, w1)))"

text \<open>What the parallel preparation makes of the plans: those that are ready, in their places, and the errors.\<close>

definition preparedPlans :: "ops_plane list \<Rightarrow> cloud_plan res list \<Rightarrow> cloud_plan list res" where
  "preparedPlans ps results =
     (case joinPlaneTasks ps (map (\<lambda>r. case r of Inl err \<Rightarrow> Some err | Inr _ \<Rightarrow> None) results) of
        Some err \<Rightarrow> Inl err
      | None \<Rightarrow> Inr (concat (map (\<lambda>r. case r of Inl _ \<Rightarrow> [] | Inr plan \<Rightarrow> [plan]) results)))"

definition prepareRelease ::
  "('k, 'c, 'w) cert_env \<Rightarrow> 'w ops_files \<Rightarrow> ops_config \<Rightarrow> ('w \<Rightarrow> cloud_plan res list \<times> 'w) \<Rightarrow> 'w \<Rightarrow> (cloud_plan list \<times> cert_state) res \<times> 'w" where
  "prepareRelease ce fs cfg tasks w =
     (case bindR (validateDeploy cfg) (\<lambda>_. validateArtifacts (flStat fs w) cfg) of
        Inl err \<Rightarrow> (Inl err, w)
      | Inr _ \<Rightarrow>
          (case tasks w of
             (results, w1) \<Rightarrow>
               (case preparedPlans (ocPlanes cfg) results of
                  Inl err \<Rightarrow> (Inl err, w1)
                | Inr plans \<Rightarrow>
                    (case loadCertificateBundle ce fs cfg plans w1 of
                       (Inl err, w2) \<Rightarrow> (Inl err, w2)
                     | (Inr st, w2) \<Rightarrow> (Inr (plans, st), w2)))))"

definition prepareControlPlaneRelease ::
  "('k, 'c, 'w) cert_env \<Rightarrow> 'w ops_files \<Rightarrow> ops_config \<Rightarrow> ('w \<Rightarrow> cloud_plan res list \<times> 'w) \<Rightarrow> 'w \<Rightarrow> (cloud_plan list \<times> ops_tls) res \<times> 'w" where
  "prepareControlPlaneRelease ce fs cfg tasks w =
     (case bindR (validateDeploy cfg) (\<lambda>_. validateControlPlaneArtifacts (flStat fs w) cfg) of
        Inl err \<Rightarrow> (Inl err, w)
      | Inr _ \<Rightarrow>
          (case tasks w of
             (results, w1) \<Rightarrow>
               (case preparedPlans (ocPlanes cfg) results of
                  Inl err \<Rightarrow> (Inl err, w1)
                | Inr plans \<Rightarrow>
                    (case loadControlPlaneCertificate ce fs cfg w1 of
                       (Inl err, w2) \<Rightarrow> (Inl err, w2)
                     | (Inr m, w2) \<Rightarrow> (Inr (plans, m), w2)))))"

definition opsBuild :: "'w ops_host \<Rightarrow> 'w ops_files \<Rightarrow> ops_config \<Rightarrow> 'w \<Rightarrow> goerr option \<times> 'w" where
  "opsBuild host fs cfg w =
     (case runInteractive host [''make'', ''release''] w of
        (Some err, w1) \<Rightarrow> (Some err, w1)
      | (None, w1) \<Rightarrow> (case validateArtifacts (flStat fs w1) cfg of Inl err \<Rightarrow> Some err | Inr _ \<Rightarrow> None, w1))"

section \<open>Checks\<close>

definition requiredTools :: "string list" where
  "requiredTools = [''go'', ''make'', ''npm'', ''terraform'', ''ssh'', ''tccli'', ''aliyun'']"

definition checkTencentCredentialFile :: "'w ops_files \<Rightarrow> release_env \<Rightarrow> ops_config \<Rightarrow> 'w \<Rightarrow> unit res" where
  "checkTencentCredentialFile fs re cfg w =
     (let path = trimSpace (ocTencentCredentialFile cfg) in
      if path = [] then Inl (Errorf ''provider.tencentCredentialFile is required'')
      else bindR (readTencentCredentialFile fs re path w) (\<lambda>c.
        if \<not> nonBlank (ocdSecretID c) \<or> \<not> nonBlank (ocdSecretKey c) then Inl credentialIncomplete else Inr ()))"

definition checkPlane :: "'w ops_host \<Rightarrow> 'w ops_files \<Rightarrow> ops_plane \<Rightarrow> 'w \<Rightarrow> goerr option \<times> 'w" where
  "checkPlane host fs p w =
     (let t = opTerraform p; plane = ''plane '' @ opName p;
          unreadable = (\<lambda>what path. case flStat fs w path of
             Inl (_, err) \<Rightarrow> Some (wrap (plane @ '' '' @ what @ '' '' @ goQuote path @ '' is not readable'') err)
           | Inr _ \<Rightarrow> None) in
      if \<not> nonBlank (trVarFile t) then (Some (Errorf (plane @ '' terraform.varFile is required'')), w)
      else (case unreadable ''terraform.varFile'' (trVarFile t) of
        Some err \<Rightarrow> (Some err, w)
      | None \<Rightarrow>
          if \<not> nonBlank (trDir t) then (Some (Errorf (plane @ '' terraform.dir is required'')), w)
          else (case unreadable ''terraform.dir'' (trDir t) of
            Some err \<Rightarrow> (Some err, w)
          | None \<Rightarrow>
              if \<not> nonBlank (shHost (opSSH p)) then (Some (Errorf (plane @ '' ssh.host is required'')), w)
              else (case sshScript host (opSSH p) (shHost (opSSH p)) (''true'' @ [CHR 0x0A]) w of
                (Some err, w1) \<Rightarrow> (Some (wrap (plane @ '' ssh check failed'') err), w1)
              | (None, w1) \<Rightarrow> (None, w1)))))"

definition opsCheck :: "'w ops_host \<Rightarrow> 'w ops_files \<Rightarrow> release_env \<Rightarrow> ops_config \<Rightarrow> 'w \<Rightarrow> goerr option \<times> 'w" where
  "opsCheck host fs re cfg w =
     (case bindR (validateDeploy cfg) (\<lambda>_.
             case List.find (\<lambda>tool. \<not> flLookPath fs tool w) requiredTools of
               Some tool \<Rightarrow> Inl (Errorf (''required tool '' @ goQuote tool @ '' is not available in PATH''))
             | None \<Rightarrow> checkTencentCredentialFile fs re cfg w) of
        Inl err \<Rightarrow> (Some err, w)
      | Inr _ \<Rightarrow> eachUntilError (checkPlane host fs) (ocPlanes cfg) w)"

section \<open>The control-plane's function\<close>

record scf_trigger =
  sgType :: string
  sgName :: string
  sgDesc :: string

record scf_function =
  snStatus :: string
  snTriggers :: "scf_trigger list"

text \<open>Decoders, with the ExtranetUrl of a trigger's description, and json.Marshal.\<close>

record scf_json =
  sjFunction :: "string \<Rightarrow> scf_function res"
  sjTriggerURL :: "string \<Rightarrow> string res"
  sjDomain :: "string \<Rightarrow> unit res"
  sjEncode :: "jval \<Rightarrow> string res"

text \<open>The status of a GET within a time, and the canonical name of a host.\<close>

record 'w ops_net =
  neGet :: "string \<Rightarrow> int \<Rightarrow> 'w \<Rightarrow> int res \<times> 'w"
  neCNAME :: "string \<Rightarrow> 'w \<Rightarrow> string res \<times> 'w"

definition functionArgs :: "scf_settings \<Rightarrow> string list" where
  "functionArgs s = [''--region'', sfRegion s, ''--Namespace'', sfNamespace s, ''--FunctionName'', sfFunctionName s]"

definition getFunctionCmd :: "scf_settings \<Rightarrow> string list" where
  "getFunctionCmd s = [''tccli'', ''scf'', ''GetFunction''] @ functionArgs s"

definition scfFunctionExists :: "'w ops_host \<Rightarrow> scf_json \<Rightarrow> scf_settings \<Rightarrow> 'w \<Rightarrow> bool res \<times> 'w" where
  "scfFunctionExists host sj s w =
     (case runJSON host (sjFunction sj) (getFunctionCmd s) w of
        (Inr _, w1) \<Rightarrow> (Inr True, w1)
      | (Inl err, w1) \<Rightarrow>
          (if missingResource err \<or> errContains err ''function not found'' \<or> errContains err ''notfound'' then Inr False else Inl err, w1))"

definition withJSONFile ::
  "'w ops_files \<Rightarrow> scf_json \<Rightarrow> string \<Rightarrow> jval \<Rightarrow> (string \<Rightarrow> 'w \<Rightarrow> goerr option \<times> 'w) \<Rightarrow> 'w \<Rightarrow> goerr option \<times> 'w" where
  "withJSONFile fs sj pat v body w =
     (case sjEncode sj v of
        Inl err \<Rightarrow> (Some err, w)
      | Inr data \<Rightarrow>
          (case writeTempFile fs pat data ''0600'' w of
             (Inl err, w1) \<Rightarrow> (Some err, w1)
           | (Inr path, w1) \<Rightarrow> removing fs [path] (body path) w1))"

definition imageCode :: "string \<Rightarrow> jval" where
  "imageCode img = JObj [(''ImageConfig'', JObj [(''ImageType'', JStr ''personal''), (''ImageUri'', JStr img), (''ImagePort'', JNum ''9000'')])]"

definition functionName :: "scf_settings \<Rightarrow> (string \<times> jval) list" where
  "functionName s = [(''FunctionName'', JStr (sfFunctionName s)), (''Namespace'', JStr (sfNamespace s))]"

definition functionSettings :: "scf_settings \<Rightarrow> (string \<times> jval) list" where
  "functionSettings s =
     [(''Role'', JStr (sfRole s)), (''Description'', JStr (sfDescription s)), (''MemorySize'', JNum (itoa (sfMemoryMB s))),
      (''Timeout'', JNum (itoa (sfTimeoutSec s))), (''InitTimeout'', JNum (itoa (sfInitSec s)))]"

definition jsonInputCmd :: "string \<Rightarrow> scf_settings \<Rightarrow> string \<Rightarrow> string list" where
  "jsonInputCmd verb s path = [''tccli'', ''scf'', verb, ''--region'', sfRegion s, ''--cli-input-json'', ''file://'' @ path]"

definition createSCFFunction ::
  "'w ops_host \<Rightarrow> 'w ops_files \<Rightarrow> scf_json \<Rightarrow> scf_settings \<Rightarrow> string \<Rightarrow> 'w \<Rightarrow> goerr option \<times> 'w" where
  "createSCFFunction host fs sj s img =
     withJSONFile fs sj ''mini-cloud-scf-create-*.json''
       (JObj (functionName s @ functionSettings s @ [(''Runtime'', JStr ''CustomImage''), (''Type'', JStr ''HTTP''), (''Code'', imageCode img)]))
       (\<lambda>path. runInteractive host (jsonInputCmd ''CreateFunction'' s path))"

definition scfStatus :: "'w ops_host \<Rightarrow> scf_json \<Rightarrow> scf_settings \<Rightarrow> 'w \<Rightarrow> string res \<times> 'w" where
  "scfStatus host sj s w =
     (case runJSON host (sjFunction sj) (getFunctionCmd s) w of
        (Inl err, w1) \<Rightarrow> (Inl err, w1)
      | (Inr f, w1) \<Rightarrow> (Inr (trimSpace (snStatus f)), w1))"

definition activeRound :: "'w ops_host \<Rightarrow> scf_json \<Rightarrow> scf_settings \<Rightarrow> string \<Rightarrow> 'w \<Rightarrow> (goerr option + string) \<times> 'w" where
  "activeRound host sj s _ w =
     (case scfStatus host sj s w of
        (Inl err, w1) \<Rightarrow> (Inl (Some err), w1)
      | (Inr st, w1) \<Rightarrow> (if equalFold st ''Active'' \<or> equalFold st ''Available'' then Inl None else Inr st, w1))"

definition waitForSCFActive :: "'w ops_host \<Rightarrow> scf_json \<Rightarrow> scf_settings \<Rightarrow> 'w \<Rightarrow> goerr option \<times> 'w" where
  "waitForSCFActive host sj s w =
     poll host (secondsDur 5) (addDur (ohNow host w) tenMinutes) (activeRound host sj s)
       (\<lambda>st. Some (Errorf (''timed out waiting for SCF function '' @ sfFunctionName s @ '' to become active; current status: '' @ st)))
       Some (pollRounds tenMinutes (secondsDur 5)) [] w"

definition updateSCFFunction ::
  "'w ops_host \<Rightarrow> 'w ops_files \<Rightarrow> scf_json \<Rightarrow> scf_settings \<Rightarrow> string \<Rightarrow> 'w \<Rightarrow> goerr option \<times> 'w" where
  "updateSCFFunction host fs sj s img =
     withJSONFile fs sj ''mini-cloud-scf-code-*.json'' (JObj (functionName s @ [(''Code'', imageCode img)])) (\<lambda>codePath.
       andThen (runInteractive host (jsonInputCmd ''UpdateFunctionCode'' s codePath))
         (andThen (waitForSCFActive host sj s)
           (withJSONFile fs sj ''mini-cloud-scf-config-*.json'' (JObj (functionName s @ functionSettings s)) (\<lambda>path.
              runInteractive host (jsonInputCmd ''UpdateFunctionConfiguration'' s path)))))"

fun firstURL :: "scf_json \<Rightarrow> scf_trigger list \<Rightarrow> string res" where
  "firstURL sj [] = Inr []"
| "firstURL sj (t # ts) =
     (if toLower (trimSpace (sgType t)) \<noteq> ''http'' then firstURL sj ts
      else (case sjTriggerURL sj (sgDesc t) of
              Inl err \<Rightarrow> Inl (wrap (''parse SCF trigger '' @ sgName t) err)
            | Inr url \<Rightarrow> if trimSpace url \<noteq> [] then Inr (trimRightSlash (trimSpace url)) else firstURL sj ts))"

definition scfURL :: "'w ops_host \<Rightarrow> scf_json \<Rightarrow> scf_settings \<Rightarrow> 'w \<Rightarrow> string res \<times> 'w" where
  "scfURL host sj s w =
     (case runJSON host (sjFunction sj) (getFunctionCmd s) w of
        (Inl err, w1) \<Rightarrow> (Inl err, w1)
      | (Inr f, w1) \<Rightarrow> (firstURL sj (snTriggers f), w1))"

definition triggerDesc :: string where
  "triggerDesc =
     ''{'' @ chDQ @ ''AuthType'' @ chDQ @ '':'' @ chDQ @ ''NONE'' @ chDQ @ '','' @ chDQ @ ''NetConfig'' @ chDQ @ '':{'' @ chDQ
     @ ''EnableExtranet'' @ chDQ @ '':true},'' @ chDQ @ ''ApiGwCompatible'' @ chDQ @ '':false}''"

definition ensureSCFHTTPTrigger :: "'w ops_host \<Rightarrow> scf_json \<Rightarrow> scf_settings \<Rightarrow> 'w \<Rightarrow> goerr option \<times> 'w" where
  "ensureSCFHTTPTrigger host sj s w =
     (case scfURL host sj s w of
        (Inl err, w1) \<Rightarrow> (Some err, w1)
      | (Inr url, w1) \<Rightarrow>
          if url \<noteq> [] then (None, w1)
          else (case runInteractive host ([''tccli'', ''scf'', ''CreateTrigger''] @ functionArgs s
                    @ [''--Type'', ''http'', ''--TriggerName'', ''mini-cloud-http'', ''--TriggerDesc'', triggerDesc]) w1 of
                  (Some err, w2) \<Rightarrow> (if errContains err ''already'' \<or> errContains err ''exist'' then None else Some err, w2)
                | (None, w2) \<Rightarrow> (None, w2)))"

definition cutDash :: "string \<Rightarrow> (string \<times> string) option" where
  "cutDash h = (if CHR ''-'' \<in> set h then Some (takeWhile (\<lambda>c. c \<noteq> CHR ''-'') h, drop 1 (dropWhile (\<lambda>c. c \<noteq> CHR ''-'') h)) else None)"

definition scfCustomDomainCNAMETarget :: "string \<Rightarrow> string" where
  "scfCustomDomainCNAMETarget url =
     (let h = trimPrefix (trimPrefix (trimRightSlash (trimSpace url)) ''https://'') ''http://''
      in case cutDash h of
           None \<Rightarrow> cleanDomain h
         | Some (first, suffix) \<Rightarrow>
             if CHR ''.'' \<in> set suffix then cleanDomain (first @ dropWhile (\<lambda>c. c \<noteq> CHR ''.'') suffix) else cleanDomain h)"

definition recordArgs :: "string \<Rightarrow> string \<Rightarrow> string \<Rightarrow> string list" where
  "recordArgs subdomain target remark =
     [''--SubDomain'', subdomain, ''--RecordType'', ''CNAME'', ''--RecordLine'', defaultLine, ''--Value'', target, ''--TTL'', ''600'',
      ''--Remark'', remark]"

definition ensureDNSPodCNAMERecord ::
  "'w ops_host \<Rightarrow> ops_decoders \<Rightarrow> string \<Rightarrow> string \<Rightarrow> string \<Rightarrow> 'w \<Rightarrow> goerr option \<times> 'w" where
  "ensureDNSPodCNAMERecord host dc h target0 remark0 w =
     (let root = cleanDomain (opsRootDomain h); subdomain = dnsPodSubdomain h root; target = cleanDomain target0; remark = trimSpace remark0 in
      if root = [] \<or> subdomain = [] \<or> target = [] \<or> remark = [] then
        (Some (Errorf (''invalid DNSPod CNAME '' @ goQuote h @ '' -> '' @ goQuote target)), w)
      else
        (case dnspodRecord host dc root subdomain ''CNAME'' w of
           (Inl err, w1) \<Rightarrow> (Some err, w1)
         | (Inr (Some r), w1) \<Rightarrow>
             if trimSpace (orRemark r) \<noteq> remark then
               (Some (Errorf (''DNS record '' @ h @ '' already exists and is not owned by '' @ remark)), w1)
             else if cleanDomain (orValue r) = target then (None, w1)
             else runQuiet host ([''tccli'', ''dnspod'', ''ModifyRecord'', ''--cli-unfold-argument'', ''--Domain'', root,
                    ''--RecordId'', itoa (orID r)] @ recordArgs subdomain target remark) w1
         | (Inr None, w1) \<Rightarrow>
             runQuiet host ([''tccli'', ''dnspod'', ''CreateRecord'', ''--cli-unfold-argument'', ''--Domain'', root]
               @ recordArgs subdomain target remark) w1))"

definition cnameResolvesTo :: "'w ops_net \<Rightarrow> string \<Rightarrow> string \<Rightarrow> 'w \<Rightarrow> bool \<times> 'w" where
  "cnameResolvesTo ne h target w =
     (case neCNAME ne (cleanDomain h) w of
        (Inl _, w1) \<Rightarrow> (False, w1)
      | (Inr cname, w1) \<Rightarrow> (cleanDomain cname = cleanDomain target, w1))"

definition cnameRound ::
  "'w ops_host \<Rightarrow> 'w ops_net \<Rightarrow> ops_decoders \<Rightarrow> string \<Rightarrow> string \<Rightarrow> unit \<Rightarrow> 'w \<Rightarrow> (goerr option + unit) \<times> 'w" where
  "cnameRound host ne dc h target _ w =
     (let root = cleanDomain (opsRootDomain h) in
      case dnspodRecord host dc root (dnsPodSubdomain h root) ''CNAME'' w of
        (Inl err, w1) \<Rightarrow> (Inl (Some err), w1)
      | (Inr None, w1) \<Rightarrow> (Inr (), w1)
      | (Inr (Some r), w1) \<Rightarrow>
          if cleanDomain (orValue r) = target then
            (case cnameResolvesTo ne h target w1 of (ok, w2) \<Rightarrow> (if ok then Inl None else Inr (), w2))
          else (Inr (), w1))"

definition waitForDNSPodCNAMERecord ::
  "'w ops_host \<Rightarrow> 'w ops_net \<Rightarrow> ops_decoders \<Rightarrow> string \<Rightarrow> string \<Rightarrow> 'w \<Rightarrow> goerr option \<times> 'w" where
  "waitForDNSPodCNAMERecord host ne dc h target w =
     poll host (secondsDur 5) (addDur (ohNow host w) tenMinutes) (cnameRound host ne dc h (cleanDomain target))
       (\<lambda>_. Some (Errorf (''timed out waiting for DNSPod CNAME '' @ h @ '' -> '' @ cleanDomain target @ '' to resolve'')))
       Some (pollRounds tenMinutes (secondsDur 5)) () w"

definition scfCustomDomainCNAMEPending :: "goerr \<Rightarrow> bool" where
  "scfCustomDomainCNAMEPending err \<longleftrightarrow>
     errContains err ''FailedOperation.CNAME''
     \<or> errContains err (''CNAME'' @ [CHR 0xE8, CHR 0xAE, CHR 0xB0, CHR 0xE5, CHR 0xBD, CHR 0x95])
     \<or> errContains err ''CNAME record'' \<or> errContains err ''must add CNAME''"

definition scfCustomDomainEndpoint :: "scf_settings \<Rightarrow> string \<Rightarrow> jval" where
  "scfCustomDomainEndpoint s path = JObj (functionName s @ [(''Qualifier'', JStr ''$LATEST''), (''PathMatch'', JStr path)])"

definition scfCustomDomainExists :: "'w ops_host \<Rightarrow> scf_json \<Rightarrow> scf_settings \<Rightarrow> string \<Rightarrow> 'w \<Rightarrow> bool res \<times> 'w" where
  "scfCustomDomainExists host sj s domain w =
     (case runJSON host (sjDomain sj) [''tccli'', ''scf'', ''GetCustomDomain'', ''--region'', sfRegion s, ''--Domain'', domain] w of
        (Inr _, w1) \<Rightarrow> (Inr True, w1)
      | (Inl err, w1) \<Rightarrow>
          (if missingResource err \<or> errContains err ''not found'' \<or> errContains err ''not exist'' then Inr False else Inl err, w1))"

definition bindingRound ::
  "'w ops_host \<Rightarrow> scf_json \<Rightarrow> scf_settings \<Rightarrow> string \<Rightarrow> goerr \<Rightarrow> 'w \<Rightarrow> (goerr option + goerr) \<times> 'w" where
  "bindingRound host sj s path _ w =
     (case scfCustomDomainExists host sj s (sfPublicDomain s) w of
        (Inl err, w1) \<Rightarrow> (Inl (Some err), w1)
      | (Inr exists, w1) \<Rightarrow>
          (case runQuiet host (jsonInputCmd (if exists then ''UpdateCustomDomain'' else ''CreateCustomDomain'') s path) w1 of
             (None, w2) \<Rightarrow> (Inl None, w2)
           | (Some err, w2) \<Rightarrow>
               (if errContains err ''already'' \<or> errContains err ''exist'' then Inl None
                else if \<not> scfCustomDomainCNAMEPending err then Inl (Some err)
                else Inr err, w2)))"

definition ensureSCFCustomDomainBinding ::
  "'w ops_host \<Rightarrow> 'w ops_files \<Rightarrow> scf_json \<Rightarrow> scf_settings \<Rightarrow> 'w \<Rightarrow> goerr option \<times> 'w" where
  "ensureSCFCustomDomainBinding host fs sj s =
     withJSONFile fs sj ''mini-cloud-scf-domain-*.json''
       (JObj [(''Domain'', JStr (sfPublicDomain s)), (''Protocol'', JStr ''HTTP''),
          (''EndpointsConfig'', JList (map (scfCustomDomainEndpoint s) [''/'', ''/api/*'', ''/assets/*'']))])
       (\<lambda>path w. poll host (secondsDur 5) (addDur (ohNow host w) tenMinutes) (bindingRound host sj s path)
          (\<lambda>err. Some (wrap (''timed out waiting for SCF to accept CNAME for '' @ sfPublicDomain s) err)) Some
          (pollRounds tenMinutes (secondsDur 5)) (Errorf []) w)"

definition ensureSCFCustomDomain ::
  "'w ops_host \<Rightarrow> 'w ops_files \<Rightarrow> 'w ops_net \<Rightarrow> ops_decoders \<Rightarrow> scf_json \<Rightarrow> scf_settings \<Rightarrow> 'w \<Rightarrow> goerr option \<times> 'w" where
  "ensureSCFCustomDomain host fs ne dc sj s w =
     (if \<not> nonBlank (sfPublicDomain s) then (None, w)
      else (case scfURL host sj s w of
              (Inl err, w1) \<Rightarrow> (Some err, w1)
            | (Inr url, w1) \<Rightarrow>
                (let target = scfCustomDomainCNAMETarget url in
                 if target = [] then (Some (Errorf ''SCF HTTP trigger URL is missing''), w1)
                 else andThen (ensureDNSPodCNAMERecord host dc (sfPublicDomain s) target controlPlaneRemark)
                   (andThen (waitForDNSPodCNAMERecord host ne dc (sfPublicDomain s) target)
                     (ensureSCFCustomDomainBinding host fs sj s)) w1)))"

definition upsertSCFFunction ::
  "'w ops_host \<Rightarrow> 'w ops_files \<Rightarrow> 'w ops_net \<Rightarrow> ops_decoders \<Rightarrow> scf_json \<Rightarrow> scf_settings \<Rightarrow> string \<Rightarrow> 'w \<Rightarrow> goerr option \<times> 'w" where
  "upsertSCFFunction host fs ne dc sj s img w =
     (case scfFunctionExists host sj s w of
        (Inl err, w1) \<Rightarrow> (Some err, w1)
      | (Inr exists, w1) \<Rightarrow>
          andThen (if exists then updateSCFFunction host fs sj s img else createSCFFunction host fs sj s img)
            (andThen (waitForSCFActive host sj s)
              (andThen (ensureSCFHTTPTrigger host sj s)
                (andThen (waitForSCFActive host sj s) (ensureSCFCustomDomain host fs ne dc sj s)))) w1)"

definition controlPlanePublicURL :: "'w ops_host \<Rightarrow> scf_json \<Rightarrow> scf_settings \<Rightarrow> 'w \<Rightarrow> string \<times> 'w" where
  "controlPlanePublicURL host sj s w =
     (if nonBlank (sfPublicDomain s) then (''http://'' @ trimRightSlash (trimSpace (sfPublicDomain s)), w)
      else (case scfURL host sj s w of (Inl _, w1) \<Rightarrow> ([], w1) | (Inr url, w1) \<Rightarrow> (trimRightSlash url, w1)))"

text \<open>What a probe of the health remembers: the last error and the last status.\<close>

definition healthRound :: "'w ops_net \<Rightarrow> string \<Rightarrow> goerr option \<times> int \<Rightarrow> 'w \<Rightarrow> (goerr option + goerr option \<times> int) \<times> 'w" where
  "healthRound ne url seen w =
     (case neGet ne url (secondsDur 20) w of
        (Inl err, w1) \<Rightarrow> (Inr (Some err, snd seen), w1)
      | (Inr status, w1) \<Rightarrow> (if status = 200 then Inl None else Inr (fst seen, status), w1))"

definition healthLate :: "goerr option \<times> int \<Rightarrow> goerr option" where
  "healthLate seen =
     (case fst seen of
        Some err \<Rightarrow> Some (wrap ''timed out waiting for control-plane healthz'' err)
      | None \<Rightarrow> Some (Errorf (''timed out waiting for control-plane healthz; last status: '' @ itoa (snd seen))))"

definition waitForControlPlaneSCF :: "'w ops_host \<Rightarrow> 'w ops_net \<Rightarrow> scf_json \<Rightarrow> scf_settings \<Rightarrow> 'w \<Rightarrow> goerr option \<times> 'w" where
  "waitForControlPlaneSCF host ne sj s w =
     (case controlPlanePublicURL host sj s w of
        (url, w1) \<Rightarrow>
          if url = [] then (Some (Errorf ''SCF HTTP trigger URL is missing''), w1)
          else (case controlPlanePublicURL host sj s w1 of
                  (publicURL, w2) \<Rightarrow>
                    poll host (secondsDur 5) (addDur (ohNow host w1) tenMinutes) (healthRound ne (publicURL @ ''/api/healthz''))
                      healthLate Some (pollRounds tenMinutes (secondsDur 5)) (None, 0) w2))"

section \<open>The image of the control-plane\<close>

definition copyControlPlaneConfigForDocker :: "'w ops_files \<Rightarrow> string \<Rightarrow> 'w \<Rightarrow> string res \<times> 'w" where
  "copyControlPlaneConfigForDocker fs configPath w =
     (case flRead fs configPath w of
        Inl (_, err) \<Rightarrow> (Inl err, w)
      | Inr data \<Rightarrow>
          (case flMkdir fs ''dist/ops'' ''0700'' w of
             (Some err, w1) \<Rightarrow> (Inl err, w1)
           | (None, w1) \<Rightarrow>
               (case flWrite fs ''dist/ops/control-plane.yaml'' data ''0600'' w1 of
                  (Some err, w2) \<Rightarrow> (Inl err, w2)
                | (None, w2) \<Rightarrow> (Inr ''dist/ops/control-plane.yaml'', w2))))"

definition imageTime :: "instant \<Rightarrow> string" where
  "imageTime t =
     (let secs = nanos t div 1000000000; sod = nat (secs mod 86400)
      in (case civilOf (secs div 86400) of (y, m, d) \<Rightarrow>
        pad4 (nat y) @ pad2 (nat m) @ pad2 (nat d) @ pad2 (sod div 3600) @ pad2 (sod div 60 mod 60) @ pad2 (sod mod 60)))"

definition localImage :: string where "localImage = ''mini-cloud/control-plane:e2e''"

definition dockerBuildCmd :: "string \<Rightarrow> string list" where
  "dockerBuildCmd config =
     [''docker'', ''build'', ''--platform'', ''linux/amd64'', ''--provenance=false'', ''-f'', ''deploy/container/control-plane.Dockerfile'',
      ''--build-arg'', ''CONTROL_PLANE_CONFIG='' @ config, ''-t'', localImage, ''.'']"

definition buildAndPushControlPlaneImage ::
  "'w ops_host \<Rightarrow> 'w ops_files \<Rightarrow> scf_settings \<Rightarrow> string \<Rightarrow> 'w \<Rightarrow> string res \<times> 'w" where
  "buildAndPushControlPlaneImage host fs s configPath w =
     (let repo = rev (dropWhile (\<lambda>c. c = CHR '':'') (rev (trimSpace (sfImage s)))) in
      if repo = [] then (Inl (Errorf ''controlPlane.scf.image is required''), w)
      else (case copyControlPlaneConfigForDocker fs configPath w of
              (Inl err, w1) \<Rightarrow> (Inl err, w1)
            | (Inr config, w1) \<Rightarrow>
                (let img = repo @ '':e2e-'' @ imageTime (ohNow host w1) in
                 removing fs [config] (\<lambda>v.
                   case andThen (runInteractive host (dockerBuildCmd config))
                          (andThen (runInteractive host [''docker'', ''tag'', localImage, img]) (runInteractive host [''docker'', ''push'', img])) v of
                     (Some err, v1) \<Rightarrow> (Inl err, v1)
                   | (None, v1) \<Rightarrow> (Inr img, v1)) w1)))"

definition deployControlPlaneSCF ::
  "'w ops_host \<Rightarrow> 'w ops_files \<Rightarrow> 'w ops_net \<Rightarrow> ops_decoders \<Rightarrow> scf_json \<Rightarrow> scf_settings \<Rightarrow> string \<Rightarrow> 'w \<Rightarrow> goerr option \<times> 'w" where
  "deployControlPlaneSCF host fs ne dc sj s configPath w =
     (case buildAndPushControlPlaneImage host fs s configPath w of
        (Inl err, w1) \<Rightarrow> (Some err, w1)
      | (Inr img, w1) \<Rightarrow> andThen (upsertSCFFunction host fs ne dc sj s img) (waitForControlPlaneSCF host ne sj s) w1)"

definition updateControlPlane ::
  "'w ops_host \<Rightarrow> 'w ops_files \<Rightarrow> 'w ops_net \<Rightarrow> ops_decoders \<Rightarrow> scf_json \<Rightarrow> release_env \<Rightarrow> ops_config \<Rightarrow> cloud_plan list \<Rightarrow> ops_tls
    \<Rightarrow> 'w \<Rightarrow> goerr option \<times> 'w" where
  "updateControlPlane host fs ne dc sj re cfg plans m w =
     (case renderControlPlaneInstallFiles fs re cfg plans m w of
        (Inl err, w1) \<Rightarrow> (Some err, w1)
      | (Inr config, w1) \<Rightarrow> removing fs [config, []] (deployControlPlaneSCF host fs ne dc sj (ocSCF cfg) config) w1)"

text \<open>install and update, with the parallel preparation and installation of the planes as parameters.\<close>

definition opsInstall ::
  "('k, 'c, 'w) cert_env \<Rightarrow> 'w ops_host \<Rightarrow> 'w ops_files \<Rightarrow> 'w ops_net \<Rightarrow> ops_decoders \<Rightarrow> scf_json \<Rightarrow> release_env \<Rightarrow> ops_config
    \<Rightarrow> ('w \<Rightarrow> cloud_plan res list \<times> 'w) \<Rightarrow> ((string \<times> ops_tls) list \<Rightarrow> cloud_plan list \<Rightarrow> 'w \<Rightarrow> goerr option list \<times> 'w) \<Rightarrow> 'w \<Rightarrow> goerr option \<times> 'w" where
  "opsInstall ce host fs ne dc sj re cfg prepare installs w =
     (case prepareRelease ce fs cfg prepare w of
        (Inl err, w1) \<Rightarrow> (Some err, w1)
      | (Inr (plans, certs), w1) \<Rightarrow>
          andThen (updateControlPlane host fs ne dc sj re cfg plans (csControlPlane certs))
            (\<lambda>v. case installs (csCloudPlanes certs) plans v of (errs, v1) \<Rightarrow> (errorsJoin errs, v1)) w1)"

definition opsUpdate ::
  "('k, 'c, 'w) cert_env \<Rightarrow> 'w ops_host \<Rightarrow> 'w ops_files \<Rightarrow> 'w ops_net \<Rightarrow> ops_decoders \<Rightarrow> scf_json \<Rightarrow> release_env \<Rightarrow> ops_config
    \<Rightarrow> ('w \<Rightarrow> cloud_plan res list \<times> 'w) \<Rightarrow> 'w \<Rightarrow> goerr option \<times> 'w" where
  "opsUpdate ce host fs ne dc sj re cfg prepare =
     andThen (opsCheck host fs re cfg) (\<lambda>w.
       case prepareControlPlaneRelease ce fs cfg prepare w of
         (Inl err, w1) \<Rightarrow> (Some err, w1)
       | (Inr (plans, m), w1) \<Rightarrow> updateControlPlane host fs ne dc sj re cfg plans m w1)"

end
