(* ===== verification/OpsProps.thy ===== *)
theory OpsProps
  imports OpsCleanup NodeDrivers
begin

text \<open>
  What minictl may run when it takes a plane down: a rule for its commands, and the proof that the clean-up
  of a plane's cloud resources runs nothing else.
\<close>

section \<open>The rule\<close>

text \<open>The domain under which the services of the planes have their hosts, and a listing's domains under it.\<close>

definition baseOf :: "ops_config \<Rightarrow> string" where
  "baseOf cfg = cleanDomain (ocIngressBaseDomain cfg)"

definition zoneOf :: "ops_config \<Rightarrow> string" where
  "zoneOf cfg = cleanDomain (opsRootDomain (baseOf cfg))"

definition isDescribe :: "string list \<Rightarrow> bool" where
  "isDescribe cmd \<longleftrightarrow> 3 \<le> length cmd \<and> cloudCLI (hd cmd) \<and> hasPrefix (cmd ! 2) ''Describe''"

text \<open>
  The permitted commands, given what was answered so far.  A CDN domain is stopped or deleted only when a
  listing named it and it lies under the base domain, and at aliyun it is deleted only after it was seen
  offline.  A record is deleted only when a listing of the zone answered it as a CNAME under the base
  domain to this cloud's CDN, or as the verification record of this cloud.  Machines are deleted only when
  a listing of the platform's nodes answered them, and never the platform's own.  A firewall rule is
  deleted only when it is one of minictl's own rules that the machine has; only the network of the
  terraform output is detached.
\<close>

inductive destroyRule :: "ops_decoders \<Rightarrow> ops_config \<Rightarrow> terraform_output \<Rightarrow> answers \<Rightarrow> string list \<Rightarrow> bool"
  for dc cfg out S where
  look: "isDescribe cmd \<Longrightarrow> destroyRule dc cfg out S cmd"
| aliyun_stop: "ProviderName out = ''aliyun'' \<Longrightarrow> domainIsUnder h (baseOf cfg) \<Longrightarrow>
    S (aliyunDomainsCmd (baseOf cfg) ''suf_match'' ''500'') data \<Longrightarrow> dcAliyunDomains dc data = Inr items \<Longrightarrow>
    (name, st) \<in> set items \<Longrightarrow> h = cleanDomain name \<Longrightarrow> destroyRule dc cfg out S (aliyunStopCmd h)"
| aliyun_delete: "ProviderName out = ''aliyun'' \<Longrightarrow> domainIsUnder h (baseOf cfg) \<Longrightarrow>
    S (aliyunDomainsCmd h ''full_match'' ''10'') data \<Longrightarrow> dcAliyunDomains dc data = Inr items \<Longrightarrow>
    (name, st) \<in> set items \<Longrightarrow> h = cleanDomain name \<Longrightarrow> toLower (trimSpace st) = ''offline'' \<Longrightarrow>
    destroyRule dc cfg out S (aliyunDeleteCmd h)"
| tencent_cdn: "ProviderName out = ''tencent'' \<Longrightarrow> domainIsUnder h (baseOf cfg) \<Longrightarrow>
    S (tencentDomainsCmd (outRegionID out) (baseOf cfg)) data \<Longrightarrow> dcTencentDomains dc data = Inr names \<Longrightarrow>
    name \<in> set names \<Longrightarrow> h = cleanDomain name \<Longrightarrow>
    cmd = tencentStopCmd (outRegionID out) h \<or> cmd = tencentDeleteCmd (outRegionID out) h \<Longrightarrow> destroyRule dc cfg out S cmd"
| cname: "S (zoneRecordsCmd (zoneOf cfg) ''CNAME'') data \<Longrightarrow> dcRecords dc data = Inr items \<Longrightarrow> r \<in> set items \<Longrightarrow>
    toUpper (trimSpace (orType r)) = ''CNAME'' \<Longrightarrow> domainIsUnder (dnsPodRecordHost (orName r) (zoneOf cfg)) (baseOf cfg) \<Longrightarrow>
    providerOwnsCNAME (ProviderName out) (orValue r) \<Longrightarrow> destroyRule dc cfg out S (deleteRecordCmd (zoneOf cfg) (orID r))"
| verification: "S (subdomainRecordsCmd (zoneOf cfg) sub ''TXT'') data \<Longrightarrow> dcRecords dc data = Inr items \<Longrightarrow> r \<in> set items \<Longrightarrow>
    toUpper (trimSpace (orType r)) = ''TXT'' \<Longrightarrow> trimSpace (orName r) = sub \<Longrightarrow>
    ProviderName out = ''aliyun'' \<and> sub = ''verification'' \<and> hasPrefix (trimSpace (orValue r)) ''verify_''
      \<or> ProviderName out = ''tencent'' \<and> sub = ''_cdnauth'' \<Longrightarrow>
    destroyRule dc cfg out S (deleteRecordCmd (zoneOf cfg) (orID r))"
| aliyun_nodes: "ProviderName out = ''aliyun'' \<Longrightarrow> S (aliyunInstancesCmd out) data \<Longrightarrow> dcAliyunInstances dc data = Inr known \<Longrightarrow>
    ids \<noteq> [] \<Longrightarrow> set ids \<subseteq> set known \<Longrightarrow> [] \<notin> set ids \<Longrightarrow> platformInstance out \<notin> set ids \<Longrightarrow>
    destroyRule dc cfg out S (aliyunDeleteInstancesCmd out ids)"
| tencent_nodes: "ProviderName out = ''tencent'' \<Longrightarrow> S (tencentInstancesCmd out) data \<Longrightarrow> dcTencentInstances dc data = Inr known \<Longrightarrow>
    ids \<noteq> [] \<Longrightarrow> set ids \<subseteq> set known \<Longrightarrow> [] \<notin> set ids \<Longrightarrow> platformInstance out \<notin> set ids \<Longrightarrow>
    destroyRule dc cfg out S (tencentTerminateCmd out ids)"
| firewall: "PlatformModeName out = ''existing_lighthouse'' \<Longrightarrow>
    S (firewallCmd ''DescribeFirewallRules'' (outRegionID out) (platformInstance out)) data \<Longrightarrow> dcFirewall dc data = Inr known \<Longrightarrow>
    rules \<noteq> [] \<Longrightarrow> set rules \<subseteq> set known \<Longrightarrow> list_all (\<lambda>r. fwAction r = ''ACCEPT'' \<and> keyOf r \<in> set (platformRuleKeys out)) rules \<Longrightarrow>
    destroyRule dc cfg out S (deleteRulesCmd out rules)"
| network: "PlatformModeName out = ''existing_lighthouse'' \<Longrightarrow> toCCN out = Some c \<Longrightarrow> trimSpace c \<noteq> [] \<Longrightarrow>
    destroyRule dc cfg out S (detachCmd (outRegionID out) (trimSpace c))"

lemma destroyRule_mono:
  assumes "destroyRule dc cfg out S cmd" "\<And>c d. S c d \<Longrightarrow> S' c d"
  shows "destroyRule dc cfg out S' cmd"
  using assms(1)
proof cases
  case (aliyun_stop h data items name st)
  then show ?thesis using assms(2) destroyRule.aliyun_stop by blast
next
  case (aliyun_delete h data items name st)
  then show ?thesis using assms(2) destroyRule.aliyun_delete by blast
next
  case (tencent_cdn h data names name)
  then show ?thesis using assms(2) destroyRule.tencent_cdn by blast
next
  case (cname data items r)
  then show ?thesis using assms(2) destroyRule.cname by blast
next
  case (verification sub data items r)
  then show ?thesis using assms(2) destroyRule.verification by blast
next
  case (aliyun_nodes data known ids)
  then show ?thesis using assms(2) destroyRule.aliyun_nodes by blast
next
  case (tencent_nodes data known ids)
  then show ?thesis using assms(2) destroyRule.tencent_nodes by blast
next
  case (firewall data known rules)
  then show ?thesis using assms(2) destroyRule.firewall by blast
qed (blast intro: destroyRule.look destroyRule.network)+

lemma destroyRule_monotone: "monotone (destroyRule dc cfg out)"
  unfolding monotone_def by (blast intro: destroyRule_mono)

lemma describe_permitted [simp]:
  "isDescribe (aliyunDomainsCmd d s n)" "isDescribe (tencentDomainsCmd reg d)" "isDescribe (zoneRecordsCmd z t)"
  "isDescribe (subdomainRecordsCmd z sub t)" "isDescribe (aliyunInstancesCmd out)" "isDescribe (tencentInstancesCmd out)"
  "isDescribe (firewallCmd ''DescribeFirewallRules'' reg inst)" "isDescribe (attachmentsCmd reg)"
  by (simp_all add: isDescribe_def aliyunDomainsCmd_def tencentDomainsCmd_def zoneRecordsCmd_def subdomainRecordsCmd_def
      aliyunInstancesCmd_def tencentInstancesCmd_def firewallCmd_def attachmentsCmd_def hasPrefix_def cloudCLI_def)

section \<open>Actions that keep a contract\<close>

context command_contract
begin

text \<open>An action that runs permitted commands only, in every world after w0.\<close>

definition steady :: "'w \<Rightarrow> ('w \<Rightarrow> goerr option \<times> 'w) \<Rightarrow> bool" where
  "steady w0 f \<longleftrightarrow> (\<forall>w r w'. moves w0 w \<longrightarrow> f w = (r, w') \<longrightarrow> moves w w')"

lemma steadyI: "(\<And>w r w'. moves w0 w \<Longrightarrow> f w = (r, w') \<Longrightarrow> moves w w') \<Longrightarrow> steady w0 f"
  by (simp add: steady_def)

lemma steadyD: "steady w0 f \<Longrightarrow> moves w0 w \<Longrightarrow> f w = (r, w') \<Longrightarrow> moves w w'"
  by (simp add: steady_def)

lemma steady_later: "steady w0 f \<Longrightarrow> moves w0 w1 \<Longrightarrow> steady w1 f"
  by (rule steadyI) (rule steadyD [OF _ moves_trans])

lemma steady_skip: "steady w0 (\<lambda>v. (None, v))"
  by (rule steadyI) (auto intro: moves_refl moves_inv)

lemma steady_fail: "steady w0 (\<lambda>v. (Some err, v))"
  by (rule steadyI) (auto intro: moves_refl moves_inv)

lemma steady_if: "(c \<Longrightarrow> steady w0 f) \<Longrightarrow> (\<not> c \<Longrightarrow> steady w0 g) \<Longrightarrow> steady w0 (\<lambda>v. if c then f v else g v)"
  by (cases c) simp_all

lemma steady_andThen: "steady w0 f \<Longrightarrow> steady w0 g \<Longrightarrow> steady w0 (andThen f g)"
proof (rule steadyI)
  fix w r w'
  assume st: "steady w0 f" "steady w0 g" and m: "moves w0 w" and run: "andThen f g w = (r, w')"
  obtain e w1 where f: "f w = (e, w1)" by fastforce
  have m1: "moves w w1" by (rule steadyD [OF st(1) m f])
  show "moves w w'"
    using run f m1 steadyD [OF st(2) moves_trans [OF m m1]] moves_trans [OF m1]
    by (auto simp: andThen_def split: option.splits)
qed

lemma steady_each: "(\<And>x. x \<in> set xs \<Longrightarrow> steady w0 (f x)) \<Longrightarrow> steady w0 (eachUntilError f xs)"
proof (induction xs)
  case Nil
  show ?case using steady_skip by (simp add: steady_def)
next
  case (Cons x xs)
  have eq: "eachUntilError f (x # xs) = andThen (f x) (eachUntilError f xs)"
    by (rule ext) (simp add: andThen_def)
  show ?case unfolding eq using Cons by (intro steady_andThen) simp_all
qed

lemma steady_quiet: "permits (saw w0) cmd \<Longrightarrow> steady w0 (runQuiet host cmd)"
  by (rule steadyI) (rule runQuiet_moves [OF moves_inv moves_permits])

lemma steady_unlessMissing: "permits (saw w0) cmd \<Longrightarrow> steady w0 (runUnlessMissing host cmd)"
proof (rule steadyI)
  fix w r w'
  assume "permits (saw w0) cmd" "moves w0 w" "runUnlessMissing host cmd w = (r, w')"
  then show "moves w w'"
    using steadyD [OF steady_quiet] by (auto simp: runUnlessMissing_def split: prod.splits option.splits)
qed

lemma steady_sleep: "steady w0 f \<Longrightarrow> steady w0 (\<lambda>v. f (ohSleep host d v))"
proof (rule steadyI)
  fix w r w'
  assume st: "steady w0 f" and m: "moves w0 w" and run: "f (ohSleep host d w) = (r, w')"
  have s: "moves w (ohSleep host d w)" using sleep_law [OF moves_inv [OF m]] by (simp add: moves_def)
  show "moves w w'" by (rule moves_trans [OF s steadyD [OF st moves_trans [OF m s] run]])
qed

text \<open>An action that goes on with what a listing answered.\<close>

lemma steady_listing:
  assumes "permits (saw w0) cmd"
    and "\<And>w1 data x. moves w0 w1 \<Longrightarrow> saw w1 cmd data \<Longrightarrow> decode data = Inr x \<Longrightarrow> steady w1 (g x)"
  shows "steady w0 (\<lambda>w. case runJSON host decode cmd w of (Inl err, w1) \<Rightarrow> (Some err, w1) | (Inr x, w1) \<Rightarrow> g x w1)"
proof (rule steadyI)
  fix w r w'
  assume m: "moves w0 w" and run: "(case runJSON host decode cmd w of (Inl err, w1) \<Rightarrow> (Some err, w1) | (Inr x, w1) \<Rightarrow> g x w1) = (r, w')"
  obtain a w1 where j: "runJSON host decode cmd w = (a, w1)" by fastforce
  note s = runJSON_moves [OF moves_inv [OF m] moves_permits [OF m assms(1)] j]
  show "moves w w'"
  proof (cases a)
    case (Inl err)
    then show ?thesis using run j s by simp
  next
    case (Inr x)
    then obtain data where d: "saw w1 cmd data" "decode data = Inr x" using s by blast
    have m1: "moves w w1" using s by blast
    have "moves w1 w'"
      by (rule steadyD [OF assms(2) [OF moves_trans [OF m m1] d] moves_refl]) (use run j Inr m1 moves_inv in auto)
    then show ?thesis using m1 moves_trans by blast
  qed
qed

end

section \<open>The clean-up of a plane\<close>

text \<open>A contract that allows what the rule permits.\<close>

locale destroy_contract = command_contract host saw permits I
  for host :: "'w ops_host" and saw :: "'w \<Rightarrow> answers" and permits :: "answers \<Rightarrow> string list \<Rightarrow> bool" and I :: "'w \<Rightarrow> bool" +
  fixes dc :: ops_decoders and cfg :: ops_config and out :: terraform_output
  assumes allows: "destroyRule dc cfg out S cmd \<Longrightarrow> permits S cmd"
begin

lemma looks: "isDescribe cmd \<Longrightarrow> permits S cmd"
  by (rule allows [OF destroyRule.look])

lemma aliyun_domain_steady:
  assumes "ProviderName out = ''aliyun''" "domainIsUnder h (baseOf cfg)"
    and listed: "saw w0 (aliyunDomainsCmd (baseOf cfg) ''suf_match'' ''500'') data" "dcAliyunDomains dc data = Inr items"
      "(name, st) \<in> set items" "h = cleanDomain name"
  shows "steady w0 (deleteAliyunCDNDomain host dc h)"
proof (rule steadyI)
  fix w r w'
  assume m: "moves w0 w" and run: "deleteAliyunCDNDomain host dc h w = (r, w')"
  have round: "moves v v'" if mv: "moves w0 v" and rd: "aliyunDeleteRound host dc h s v = (x, v')" for s v x v'
  proof -
    obtain a w1 where j: "runJSON host (dcAliyunDomains dc) (aliyunDomainsCmd h ''full_match'' ''10'') v = (a, w1)" by fastforce
    note jm = runJSON_moves [OF moves_inv [OF mv] looks j, simplified]
    then have m1: "moves v w1" by blast
    have stop: "permits (saw w1) (aliyunStopCmd h)"
      by (rule moves_permits [OF moves_trans [OF mv m1]]) (use allows destroyRule.aliyun_stop assms in blast)
    have deletes: "permits (saw w1) (aliyunDeleteCmd h)"
      if its: "a = Inr its" "List.find (\<lambda>(n, _). cleanDomain n = h) its = Some (n, t)" "toLower (trimSpace t) = ''offline''" for its n t
    proof -
      obtain d where d: "saw w1 (aliyunDomainsCmd h ''full_match'' ''10'') d" "dcAliyunDomains dc d = Inr its" using jm its(1) by blast
      have n: "(n, t) \<in> set its" "h = cleanDomain n" using its(2) by (auto simp: find_Some_iff) (metis nth_mem)
      show ?thesis using allows destroyRule.aliyun_delete assms(1,2) d n its(3) by blast
    qed
    show ?thesis
      using rd m1 moves_trans [OF m1] runQuiet_moves [OF moves_inv [OF m1] stop] runQuiet_moves [OF moves_inv [OF m1] deletes]
      by (auto simp: aliyunDeleteRound_def aliyunCDNDomainStatus_def j split: prod.splits sum.splits option.splits if_splits)
  qed
  show "moves w w'"
    by (rule poll_moves [of w0 "aliyunDeleteRound host dc h", OF round m run [unfolded deleteAliyunCDNDomain_def]])
qed

lemma aliyun_domains_steady:
  assumes "ProviderName out = ''aliyun''"
  shows "steady w0 (deleteAliyunCDNDomains host dc (baseOf cfg))"
  unfolding deleteAliyunCDNDomains_def
proof (rule steady_listing)
  fix w1 data items
  assume "saw w1 (aliyunDomainsCmd (baseOf cfg) ''suf_match'' ''500'') data" "dcAliyunDomains dc data = Inr items"
  then show "steady w1 (eachUntilError (\<lambda>(name, _) v. if \<not> domainIsUnder (cleanDomain name) (baseOf cfg) then (None, v)
      else deleteAliyunCDNDomain host dc (cleanDomain name) v) items)"
    by (intro steady_each) (auto intro!: steady_if steady_skip aliyun_domain_steady assms)
qed (simp add: looks)

lemma tencent_domains_steady:
  assumes "ProviderName out = ''tencent''"
  shows "steady w0 (deleteTencentCDNDomains host dc (outRegionID out) (baseOf cfg))"
  unfolding deleteTencentCDNDomains_def
proof (rule steady_listing)
  fix w1 data items
  assume "saw w1 (tencentDomainsCmd (outRegionID out) (baseOf cfg)) data" "dcTencentDomains dc data = Inr items"
  then show "steady w1 (eachUntilError (\<lambda>name. if \<not> domainIsUnder (cleanDomain name) (baseOf cfg) then (\<lambda>v. (None, v))
      else andThen (runUnlessMissing host (tencentStopCmd (outRegionID out) (cleanDomain name)))
        (runUnlessMissing host (tencentDeleteCmd (outRegionID out) (cleanDomain name)))) items)"
    by (intro steady_each) (auto simp: steady_skip intro!: steady_andThen steady_unlessMissing intro: allows destroyRule.tencent_cdn [OF assms])
qed (simp add: looks)

lemma chosen_records_steady:
  assumes "isDescribe listing" and
    "\<And>w1 data items r. saw w1 listing data \<Longrightarrow> dcRecords dc data = Inr items \<Longrightarrow> r \<in> set items \<Longrightarrow> chosen r \<Longrightarrow>
       permits (saw w1) (deleteRecordCmd zone (orID r))"
  shows "steady w0 (deleteChosenRecords host dc zone listing chosen)"
  unfolding deleteChosenRecords_def
proof (rule steady_listing)
  fix w1 data items
  assume "saw w1 listing data" "dcRecords dc data = Inr items"
  then show "steady w1 (eachUntilError (\<lambda>r v. if chosen r then runUnlessMissing host (deleteRecordCmd zone (orID r)) v else (None, v)) items)"
    by (intro steady_each steady_if) (auto simp: steady_skip intro!: steady_unlessMissing assms(2))
qed (simp add: looks assms(1))

lemma cnames_steady: "steady w0 (deleteDNSPodCNAMERecords host dc (baseOf cfg) (ProviderName out))"
proof -
  have p: "toLower (trimSpace (ProviderName out)) = ProviderName out"
    by (simp add: ProviderName_def toLower_trim_idem)
  show ?thesis
    unfolding deleteDNSPodCNAMERecords_def Let_def p zoneOf_def [symmetric]
    by (intro steady_if steady_skip chosen_records_steady) (auto simp: ownCNAME_def intro: allows destroyRule.cname)
qed

lemma verification_steady:
  "ProviderName out = ''aliyun'' \<Longrightarrow> steady w0 (deleteAliyunVerifyTXTRecord host dc (baseOf cfg))"
  "ProviderName out = ''tencent'' \<Longrightarrow> steady w0 (deleteTencentVerifyTXTRecord host dc (baseOf cfg))"
  unfolding deleteAliyunVerifyTXTRecord_def deleteTencentVerifyTXTRecord_def Let_def zoneOf_def [symmetric]
  by (intro steady_if steady_skip chosen_records_steady; auto simp: ownVerifyTXT_def intro: allows destroyRule.verification)+

lemma front_doors_steady: "steady w0 (deleteServiceFrontDoorsForProvider host dc cfg (ProviderName out) (outRegionID out))"
proof -
  have p: "toLower (trimSpace (ProviderName out)) = ProviderName out"
    by (simp add: ProviderName_def toLower_trim_idem)
  have q: "trimSpace (outRegionID out) = outRegionID out" by (simp add: outRegionID_def)
  show ?thesis
    unfolding deleteServiceFrontDoorsForProvider_def Let_def p q baseOf_def [symmetric]
    by (auto intro!: steady_if steady_skip steady_andThen aliyun_domains_steady tencent_domains_steady verification_steady cnames_steady)
qed

lemma workers_permitted:
  assumes "workerIDs out known \<noteq> []"
  shows "ProviderName out = ''aliyun'' \<Longrightarrow> S (aliyunInstancesCmd out) data \<Longrightarrow> dcAliyunInstances dc data = Inr known \<Longrightarrow>
      permits S (aliyunDeleteInstancesCmd out (workerIDs out known))"
    and "ProviderName out = ''tencent'' \<Longrightarrow> S (tencentInstancesCmd out) data \<Longrightarrow> dcTencentInstances dc data = Inr known \<Longrightarrow>
      permits S (tencentTerminateCmd out (workerIDs out known))"
  using assms by (auto intro!: allows intro: destroyRule.aliyun_nodes destroyRule.tencent_nodes simp: workerIDs_def platformInstance_def)

lemma aliyun_workers_steady:
  assumes "ProviderName out = ''aliyun''"
  shows "steady w0 (deleteAliyunWorkerNodes host dc out)"
proof -
  have eq: "deleteAliyunWorkerNodes host dc out =
      (\<lambda>w. case runJSON host (dcAliyunInstances dc) (aliyunInstancesCmd out) w of (Inl err, w1) \<Rightarrow> (Some err, w1)
        | (Inr known, w1) \<Rightarrow> (\<lambda>v. if workerIDs out known = [] then (None, v)
            else runQuiet host (aliyunDeleteInstancesCmd out (workerIDs out known)) v) w1)"
    by (rule ext) (simp add: deleteAliyunWorkerNodes_def aliyunWorkerNodeIDs_def split: prod.splits sum.splits)
  show ?thesis
    unfolding eq by (intro steady_listing steady_if steady_skip steady_quiet workers_permitted assms looks) simp_all
qed

lemma await_steady: "steady w0 (awaitTerminated host dc out n ids)"
proof (induction n arbitrary: ids w0)
  case 0
  show ?case using steady_fail by (simp add: steady_def)
next
  case (Suc n)
  have eq: "awaitTerminated host dc out (Suc n) ids =
      (\<lambda>w. case runJSON host (dcTencentInstances dc) (tencentInstancesCmd out) w of (Inl err, w1) \<Rightarrow> (Some err, w1)
        | (Inr known, w1) \<Rightarrow> (\<lambda>v. if workerIDs out known = [] then (None, v)
            else awaitTerminated host dc out n (workerIDs out known) (ohSleep host (secondsDur 5) v)) w1)"
    by (rule ext) (simp add: tencentWorkerNodeIDs_def split: prod.splits sum.splits)
  show ?case
    unfolding eq by (intro steady_listing steady_if steady_skip steady_sleep Suc looks) simp_all
qed

lemma tencent_workers_steady:
  assumes "ProviderName out = ''tencent''"
  shows "steady w0 (deleteTencentWorkerNodes host dc out)"
proof -
  have eq: "deleteTencentWorkerNodes host dc out =
      (\<lambda>w. case runJSON host (dcTencentInstances dc) (tencentInstancesCmd out) w of (Inl err, w1) \<Rightarrow> (Some err, w1)
        | (Inr known, w1) \<Rightarrow> (\<lambda>v. if workerIDs out known = [] then (None, v)
            else andThen (runQuiet host (tencentTerminateCmd out (workerIDs out known))) (awaitTerminated host dc out 60 (workerIDs out known)) v) w1)"
    by (rule ext) (simp add: deleteTencentWorkerNodes_def tencentWorkerNodeIDs_def split: prod.splits sum.splits)
  show ?thesis
    unfolding eq
    by (intro steady_listing steady_if steady_skip steady_andThen steady_quiet await_steady workers_permitted assms looks) simp_all
qed

lemma firewall_steady:
  assumes "PlatformModeName out = ''existing_lighthouse''"
  shows "steady w0 (deleteLighthouseFirewallRules host dc out)"
proof -
  have permitted: "permits (saw w1) (deleteRulesCmd out (filter (doomedRule out) known))"
    if "saw w1 (firewallCmd ''DescribeFirewallRules'' (outRegionID out) (platformInstance out)) data" "dcFirewall dc data = Inr known"
      "filter (doomedRule out) known \<noteq> []" for w1 data known
    by (rule allows, rule destroyRule.firewall [where data = data and known = known]) (use assms that in \<open>auto simp: list_all_iff doomedRule_def\<close>)
  show ?thesis
    unfolding deleteLighthouseFirewallRules_def
    by (intro steady_if steady_skip steady_listing steady_quiet permitted looks) simp_all
qed

lemma detached_steady: "steady w0 (awaitDetached host dc region ccnID n)"
proof (induction n arbitrary: w0)
  case 0
  show ?case using steady_fail by (simp add: steady_def)
next
  case (Suc n)
  have eq: "awaitDetached host dc region ccnID (Suc n) =
      (\<lambda>w. case runJSON host (dcAttachments dc) (attachmentsCmd region) w of (Inl err, w1) \<Rightarrow> (Some err, w1)
        | (Inr items, w1) \<Rightarrow> (\<lambda>v. if detached (ccnState items ccnID) then (None, v)
            else awaitDetached host dc region ccnID n (ohSleep host (secondsDur 5) v)) w1)"
    by (rule ext) (simp add: lighthouseCCNState_def split: prod.splits sum.splits)
  show ?case
    unfolding eq by (intro steady_listing steady_if steady_skip steady_sleep Suc looks) simp_all
qed

lemma network_steady:
  assumes "PlatformModeName out = ''existing_lighthouse''"
  shows "steady w0 (detachLighthouseCCN host dc out)"
proof (cases "toCCN out")
  case None
  then show ?thesis using steady_skip by (simp add: detachLighthouseCCN_def [abs_def])
next
  case (Some c)
  have eq: "detachLighthouseCCN host dc out =
      (\<lambda>w. if trimSpace c = [] then (None, w)
        else (\<lambda>w. case runJSON host (dcAttachments dc) (attachmentsCmd (outRegionID out)) w of (Inl err, w1) \<Rightarrow> (Some err, w1)
          | (Inr items, w1) \<Rightarrow>
              andThen (if detached (ccnState items (trimSpace c)) then (\<lambda>v. (None, v))
                       else runQuiet host (detachCmd (outRegionID out) (trimSpace c)))
                (awaitDetached host dc (outRegionID out) (trimSpace c) 24) w1) w)"
    by (rule ext) (simp add: detachLighthouseCCN_def Some lighthouseCCNState_def Let_def split: prod.splits sum.splits)
  have permitted: "permits S (detachCmd (outRegionID out) (trimSpace c))" if "trimSpace c \<noteq> []" for S
    by (rule allows [OF destroyRule.network [OF assms Some that]])
  have detaching: "steady w1 (if detached st then (\<lambda>v. (None, v)) else runQuiet host (detachCmd (outRegionID out) (trimSpace c)))"
    if "trimSpace c \<noteq> []" for w1 st
    by (simp add: steady_skip steady_quiet permitted [OF that])
  show ?thesis
    unfolding eq by (intro steady_if steady_skip steady_listing steady_andThen detaching detached_steady looks) simp_all
qed

theorem cleanup_steady: "steady w0 (destroyPlaneCloudResources host dc cfg out)"
proof -
  have fd: "steady w0 (deleteServiceFrontDoorsForProvider host dc cfg p (outRegionID out))"
    if "ProviderName out = p" for p
    using front_doors_steady [of w0] that by simp
  show ?thesis
    unfolding destroyPlaneCloudResources_def Let_def
    by (auto intro!: steady_skip steady_andThen fd aliyun_workers_steady tencent_workers_steady firewall_steady network_steady)
qed

lemma cleanup_moves: "I w \<Longrightarrow> destroyPlaneCloudResources host dc cfg out w = (r, w') \<Longrightarrow> moves w w'"
  using steadyD [OF cleanup_steady moves_refl] by blast

end

interpretation logged_destroy: destroy_contract "loggedHost host" "\<lambda>w. answered (snd w)" "destroyRule dc cfg out"
    "\<lambda>w. orderly (destroyRule dc cfg out) (snd w)" dc cfg out
  for host dc cfg out
proof -
  have eq: "guarded (destroyRule dc cfg out) = destroyRule dc cfg out" for dc cfg out
    by (intro ext) (rule guarded_permits [OF destroyRule_monotone])
  have "command_contract (loggedHost host) (\<lambda>w. answered (snd w)) (destroyRule dc cfg out) (\<lambda>w. orderly (destroyRule dc cfg out) (snd w))"
    for host :: "'a ops_host" and dc cfg out
    using logged.command_contract_axioms [of host "destroyRule dc cfg out"] unfolding eq .
  then show "destroy_contract (loggedHost host) (\<lambda>w. answered (snd w)) (destroyRule dc cfg out)
      (\<lambda>w. orderly (destroyRule dc cfg out) (snd w)) dc cfg out"
    for host :: "'a ops_host" and dc cfg out
    by (intro destroy_contract.intro destroy_contract_axioms.intro)
qed


end
