(* ===== verification/OpsWorkspaces.thy ===== *)
theory OpsWorkspaces
  imports OpsProps OpsDeploy
begin

text \<open>
  The tasks of the planes run at the same time (internal/ops/parallel.go), each with terraform in the
  directory of its plane.  The workspace of a directory is terraform's state: `workspace select' and
  `workspace new' change it for everyone who uses the directory.
\<close>

section \<open>Tasks\<close>

datatype plane_task = BootstrapTask | PrepareTask | DestroyTask

definition runTask ::
  "plane_task \<Rightarrow> 'w ops_host \<Rightarrow> ops_decoders \<Rightarrow> (string \<Rightarrow> string res) \<Rightarrow> ops_config \<Rightarrow> ops_plane \<Rightarrow> 'w \<Rightarrow> goerr option \<times> 'w" where
  "runTask t host dc render cfg p w =
     (case t of
        BootstrapTask \<Rightarrow> bootstrapPlane host dc p w
      | PrepareTask \<Rightarrow> (case prepareCloudPlaneInstallPlan host dc p w of (Inl err, w1) \<Rightarrow> (Some err, w1) | (Inr _, w1) \<Rightarrow> (None, w1))
      | DestroyTask \<Rightarrow> destroyPlane host dc render cfg p w)"

text \<open>The order in which the commands of several tasks take effect: each log grows by its next command.\<close>

inductive interleaving :: "'a list list \<Rightarrow> 'a list \<Rightarrow> bool" where
  start: "interleaving (replicate n []) []"
| advance: "interleaving logs log \<Longrightarrow> i < length logs \<Longrightarrow> interleaving (logs[i := logs ! i @ [x]]) (log @ [x])"

section \<open>Workspaces\<close>

definition selectArgs :: "ops_plane \<Rightarrow> string list" where
  "selectArgs p = [''workspace'', ''select'', trWorkspace (opTerraform p)]"

definition newArgs :: "ops_plane \<Rightarrow> string list" where
  "newArgs p = [''workspace'', ''new'', trWorkspace (opTerraform p)]"

text \<open>The workspace that a command puts its directory into, if it succeeded.\<close>

definition switches :: "string \<Rightarrow> string list \<times> string option \<Rightarrow> string option" where
  "switches dir e =
     (case e of
        ([t, d, k, verb, ws], Some _) \<Rightarrow>
          if t = ''terraform'' \<and> d = ''-chdir='' @ dir \<and> k = ''workspace'' \<and> (verb = ''select'' \<or> verb = ''new'') then Some ws else None
      | _ \<Rightarrow> None)"

definition currentWorkspace :: "string \<Rightarrow> command_log \<Rightarrow> string option" where
  "currentWorkspace dir log = foldl (\<lambda>cur e. case switches dir e of None \<Rightarrow> cur | Some ws \<Rightarrow> Some ws) None log"

lemma currentWorkspace_simps [simp]:
  "currentWorkspace dir [] = None"
  "currentWorkspace dir (log @ [e]) = (case switches dir e of None \<Rightarrow> currentWorkspace dir log | Some ws \<Rightarrow> Some ws)"
  by (simp_all add: currentWorkspace_def split: option.splits)

definition acts :: "ops_plane \<Rightarrow> string list \<Rightarrow> bool" where
  "acts p cmd \<longleftrightarrow> (\<exists>verb args. cmd = tfCommand p (verb # args) \<and> verb \<in> {''apply'', ''destroy'', ''output''})"

text \<open>Every apply, destroy and output of a plane was run while its directory was in its workspace.\<close>

definition inOwnWorkspaces :: "ops_plane list \<Rightarrow> command_log \<Rightarrow> bool" where
  "inOwnWorkspaces ps log \<longleftrightarrow>
     (\<forall>i<length log. \<forall>p\<in>set ps. acts p (fst (log ! i)) \<longrightarrow>
        currentWorkspace (trDir (opTerraform p)) (take i log) = Some (trWorkspace (opTerraform p)))"

lemma inOwnWorkspaces_snoc:
  "inOwnWorkspaces ps (log @ [e]) \<longleftrightarrow> inOwnWorkspaces ps log \<and>
     (\<forall>p\<in>set ps. acts p (fst e) \<longrightarrow> currentWorkspace (trDir (opTerraform p)) log = Some (trWorkspace (opTerraform p)))"
proof -
  have "nth (log @ [e]) i = log ! i" "take i (log @ [e]) = take i log" if "i < length log" for i
    using that by (auto simp: nth_append)
  then show ?thesis
    unfolding inOwnWorkspaces_def by (auto simp: less_Suc_eq)
qed

section \<open>What one task runs\<close>

definition selected :: "ops_plane \<Rightarrow> answers \<Rightarrow> bool" where
  "selected p S \<longleftrightarrow> (\<exists>d. S (tfCommand p (selectArgs p)) d) \<or> (\<exists>d. S (tfCommand p (newArgs p)) d)"

text \<open>
  The terraform commands of a task: in the directory of the plane, into no other workspace than its own,
  and acting only once that was selected or made.
\<close>

definition taskRule :: "ops_plane \<Rightarrow> answers \<Rightarrow> string list \<Rightarrow> bool" where
  "taskRule p S cmd \<longleftrightarrow> hd cmd \<noteq> ''terraform'' \<or> cmd = tfCommand p [''init''] \<or> cmd = tfCommand p (selectArgs p)
     \<or> cmd = tfCommand p (newArgs p) \<or> acts p cmd \<and> selected p S"

lemma taskRule_monotone: "monotone (taskRule p)"
  unfolding monotone_def taskRule_def selected_def by blast

lemma not_terraform:
  assumes "destroyRule dc cfg out S cmd"
  shows "taskRule p S' cmd"
  using assms
  by cases (auto simp: taskRule_def isDescribe_def cloudCLI_def aliyunStopCmd_def aliyunDeleteCmd_def tencentStopCmd_def
      tencentDeleteCmd_def deleteRecordCmd_def aliyunDeleteInstancesCmd_def tencentTerminateCmd_def deleteRulesCmd_def
      firewallCmd_def detachCmd_def)

locale task_contract = command_contract host saw permits I
  for host :: "'w ops_host" and saw :: "'w \<Rightarrow> answers" and permits :: "answers \<Rightarrow> string list \<Rightarrow> bool" and I :: "'w \<Rightarrow> bool" +
  fixes p :: ops_plane
  assumes allows: "taskRule p S cmd \<Longrightarrow> permits S cmd"
begin

lemma others: "hd cmd \<noteq> ''terraform'' \<Longrightarrow> permits S cmd"
  by (rule allows) (simp add: taskRule_def)

lemma cleaning: "destroy_contract host saw permits I dc cfg out"
  by unfold_locales (blast intro: allows not_terraform)

lemma acting: "selected p (saw w) \<Longrightarrow> verb \<in> {''apply'', ''destroy'', ''output''} \<Longrightarrow> permits (saw w) (tfCommand p (verb # args))"
  by (rule allows) (auto simp: taskRule_def acts_def)

lemma selected_later: "selected p (saw w) \<Longrightarrow> moves w w1 \<Longrightarrow> selected p (saw w1)"
  unfolding selected_def by (blast dest: moves_saw)

lemma steady_then:
  assumes "steady w0 f" "\<And>w w1. moves w0 w \<Longrightarrow> f w = (None, w1) \<Longrightarrow> moves w0 w1 \<Longrightarrow> steady w1 g"
  shows "steady w0 (andThen f g)"
proof (rule steadyI)
  fix w r w'
  assume m: "moves w0 w" and run: "andThen f g w = (r, w')"
  obtain e w1 where f: "f w = (e, w1)" by fastforce
  have m1: "moves w w1" by (rule steadyD [OF assms(1) m f])
  show "moves w w'"
  proof (cases e)
    case None
    have "steady w1 g" by (rule assms(2) [OF m f [unfolded None] moves_trans [OF m m1]])
    then have "moves w1 w'" by (rule steadyD [OF _ moves_refl [OF moves_inv [OF m1]]]) (use run f None in \<open>simp add: andThen_def\<close>)
    then show ?thesis by (rule moves_trans [OF m1])
  qed (use run f m1 in \<open>simp add: andThen_def\<close>)
qed

lemma terraform_steady: "permits (saw w0) (tfCommand p args) \<Longrightarrow> steady w0 (terraform host p args)"
  unfolding terraform_def by (rule steadyI) (rule conjunct1 [OF runInteractive_moves [OF moves_inv moves_permits]])

lemma wait_steady: "moves w0 w \<Longrightarrow> ohWait host d w = (e, w1) \<Longrightarrow> moves w w1"
  unfolding moves_def by (rule wait_law) (simp_all add: moves_def)

lemma init_steady: "steady w0 (initAttempts host p attempt n prev)"
proof (induction n arbitrary: attempt prev w0)
  case 0
  then show ?case by (intro steadyI) (auto intro: moves_refl moves_inv)
next
  case (Suc n)
  show ?case
  proof (rule steadyI)
    fix w r w'
    assume m: "moves w0 w" and run: "initAttempts host p attempt (Suc n) prev w = (r, w')"
    obtain e w1 where t: "terraform host p [''init''] w = (e, w1)" by fastforce
    have m1: "moves w w1"
      by (rule steadyD [OF terraform_steady moves_refl [OF moves_inv [OF m]] t]) (simp add: allows taskRule_def)
    obtain c w2 where v: "ohWait host (secondsDur (attempt * 5)) w1 = (c, w2)" by fastforce
    have m2: "moves w w2" by (rule moves_trans [OF m1 wait_steady [OF m1 v]])
    have m3: "moves w w'" if "initAttempts host p (attempt + 1) n prev' w2 = (r, w')" for prev'
      by (rule moves_trans [OF m2 steadyD [OF Suc.IH moves_refl [OF moves_inv [OF m2]] that]])
    show "moves w w'" using run t v m1 m2 m3 by (auto split: option.splits)
  qed
qed

lemma terraformInit_steady: "steady w0 (terraformInit host p)"
  unfolding terraformInit_def by (rule init_steady)

lemma select_moves:
  assumes "moves w0 w" "selectTerraformWorkspace host p w = (r, w')"
  shows "moves w w' \<and> (r = None \<longrightarrow> selected p (saw w'))"
proof -
  obtain a w1 where o: "runOutput host (tfCommand p (selectArgs p)) w = (a, w1)" by fastforce
  have p1: "permits S (tfCommand p (selectArgs p))" and p2: "permits S (tfCommand p (newArgs p))" for S
    by (simp_all add: allows taskRule_def)
  note s = runOutput_moves [OF moves_inv [OF assms(1)] p1 o]
  then have m1: "moves w w1" by blast
  show ?thesis
    using assms(2) o s runInteractive_moves [OF moves_inv [OF m1] p2] moves_trans [OF m1]
    by (fastforce simp: selectTerraformWorkspace_def selectArgs_def newArgs_def selected_def split: sum.splits)
qed

lemma select_steady: "steady w0 (selectTerraformWorkspace host p)"
  by (rule steadyI) (blast dest: select_moves)

text \<open>What follows the selection may act.\<close>

lemma steady_selected:
  assumes "\<And>w1. selected p (saw w1) \<Longrightarrow> steady w1 g"
  shows "steady w0 (andThen (selectTerraformWorkspace host p) g)"
  by (rule steady_then [OF select_steady]) (blast dest: select_moves intro: assms)

lemma terraform_output_steady:
  assumes "selected p (saw w0)" "\<And>w1 out. moves w0 w1 \<Longrightarrow> steady w1 (g out)" "\<And>w1 err. moves w0 w1 \<Longrightarrow> steady w1 (h err)"
  shows "steady w0 (\<lambda>w. case terraformOutput host decode p w of (Inl err, w1) \<Rightarrow> h err w1 | (Inr out, w1) \<Rightarrow> g out w1)"
proof (rule steadyI)
  fix w r w'
  assume m: "moves w0 w" and run: "(case terraformOutput host decode p w of (Inl err, w1) \<Rightarrow> h err w1 | (Inr out, w1) \<Rightarrow> g out w1) = (r, w')"
  obtain a w1 where o: "runOutput host (tfCommand p [''output'', ''-json'']) w = (a, w1)" by fastforce
  have m1: "moves w w1"
    using runOutput_moves [OF moves_inv [OF m] acting [OF selected_later [OF assms(1) m]] o] by simp
  have g1: "moves w1 w'" if "g out w1 = (r, w')" for out
    by (rule steadyD [OF assms(2) [OF moves_trans [OF m m1]] moves_refl [OF moves_inv [OF m1]] that])
  have h1: "moves w1 w'" if "h err w1 = (r, w')" for err
    by (rule steadyD [OF assms(3) [OF moves_trans [OF m m1]] moves_refl [OF moves_inv [OF m1]] that])
  show "moves w w'"
    using run o moves_trans [OF m1 g1] moves_trans [OF m1 h1]
    by (auto simp: terraformOutput_def split: sum.splits)
qed

lemma quiet_other: "hd cmd \<noteq> ''terraform'' \<Longrightarrow> steady w0 (runQuiet host cmd)"
  by (intro steady_quiet others)

lemma listing_other:
  assumes "hd cmd \<noteq> ''terraform''" "\<And>w1 x. steady w1 (g x)"
  shows "steady w0 (\<lambda>w. case runJSON host decode cmd w of (Inl err, w1) \<Rightarrow> (Some err, w1) | (Inr x, w1) \<Rightarrow> g x w1)"
  by (rule steady_listing [OF others [OF assms(1)] assms(2)])

lemma ssh_steady: "steady w0 (sshScript host cfg target script)"
  unfolding sshScript_def
  by (rule steadyI) (rule runInput_moves [OF moves_inv others], simp_all)

subsection \<open>Bootstrap\<close>

lemma hd_commands [simp]:
  "hd (attachmentsCmd reg) = ''tccli''" "hd (ccnInstancesCmd reg ccn) = ''tccli''" "hd (attachCmd reg ccn) = ''tccli''"
  "hd (acceptCmd reg ccn vpc) = ''tccli''" "hd (firewallCmd verb reg inst) = ''tccli''" "hd (createRuleCmd out rl) = ''tccli''"
  by (simp_all add: attachmentsCmd_def ccnInstancesCmd_def attachCmd_def acceptCmd_def firewallCmd_def createRuleCmd_def)

lemma attach_rounds_steady: "steady w0 (attachRounds host dc reg ccn n st)"
proof (induction n arbitrary: st w0)
  case 0
  show ?case using steady_fail by (simp add: steady_def)
next
  case (Suc n)
  have accept: "steady w0 (acceptPending host dc reg ccn)" for w0
  proof -
    have eq: "acceptPending host dc reg ccn = (\<lambda>w. case runJSON host (dcCcnInstances dc) (ccnInstancesCmd reg ccn) w of
        (Inl err, w1) \<Rightarrow> (Some err, w1)
      | (Inr items, w1) \<Rightarrow> (let pending = (case List.find (\<lambda>i. ciCcnID i = ccn \<and> ciType i = ''VPC'' \<and> ciState i = ''PENDING'' \<and> ciDescription i = ''Lighthouse VPC'') items of
                  None \<Rightarrow> [] | Some i \<Rightarrow> ciInstanceID i)
           in (\<lambda>v. if pending = [] then (None, v) else runQuiet host (acceptCmd reg ccn pending) v)) w1)"
      by (rule ext) (simp add: acceptPending_def pendingLighthouseVPC_def Let_def split: prod.splits sum.splits)
    show ?thesis unfolding eq Let_def by (intro listing_other steady_if steady_skip quiet_other) simp_all
  qed
  have eq: "attachRounds host dc reg ccn (Suc n) st = (\<lambda>w. case runJSON host (dcAttachments dc) (attachmentsCmd reg) w of
        (Inl err, w1) \<Rightarrow> (Some err, w1)
      | (Inr items, w1) \<Rightarrow> (\<lambda>v. if ccnState items ccn = ''ACTIVE'' then (None, v)
          else andThen (if ccnState items ccn = ''PENDING'' then acceptPending host dc reg ccn else (\<lambda>v. (None, v)))
             (\<lambda>v. attachRounds host dc reg ccn n (ccnState items ccn) (ohSleep host (secondsDur 5) v)) v) w1)"
    by (rule ext) (simp add: lighthouseCCNState_def split: prod.splits sum.splits)
  have first: "steady w0 (if c then acceptPending host dc reg ccn else (\<lambda>v. (None, v)))" for c w0
    by (cases c) (simp_all add: accept steady_skip)
  show ?case
    unfolding eq by (intro listing_other steady_if steady_skip steady_andThen steady_sleep Suc first) simp_all
qed

lemma attach_steady: "steady w0 (attachLighthouseCCN host dc out)"
proof -
  define ccn where "ccn = (case toCCN out of None \<Rightarrow> [] | Some c \<Rightarrow> trimSpace c)"
  define attached :: "(string \<times> string) list \<Rightarrow> string" where
    "attached = (\<lambda>items. case List.find (\<lambda>(_, st). st \<noteq> ''DELETED'') items of None \<Rightarrow> [] | Some (i, _) \<Rightarrow> i)"
  have eq: "attachLighthouseCCN host dc out = (\<lambda>w. if ccn = [] then (Some (Errorf ''ccn.id output is required for existing_lighthouse mode''), w)
      else (\<lambda>w. case runJSON host (dcAttachments dc) (attachmentsCmd (outRegionID out)) w of (Inl err, w1) \<Rightarrow> (Some err, w1)
        | (Inr items, w1) \<Rightarrow> (\<lambda>v. if attached items \<noteq> [] \<and> attached items \<noteq> ccn then
              (Some (Errorf (''lighthouse is already attached to '' @ attached items @ ''; detach it before attaching '' @ ccn)), v)
            else andThen (if attached items \<noteq> ccn then runQuiet host (attachCmd (outRegionID out) ccn) else (\<lambda>v. (None, v)))
                   (attachRounds host dc (outRegionID out) ccn 12 []) v) w1) w)"
    by (rule ext) (simp add: attachLighthouseCCN_def lighthouseAttachedCCN_def ccn_def attached_def Let_def split: prod.splits sum.splits)
  have first: "steady w0 (if c then runQuiet host (attachCmd reg ccn) else (\<lambda>v. (None, v)))" for c w0 reg
    by (cases c) (simp_all add: quiet_other steady_skip)
  show ?thesis
    unfolding eq by (intro listing_other steady_if steady_skip steady_fail steady_andThen attach_rounds_steady first) simp_all
qed

lemma ensure_steady: "steady w0 (ensureLighthouseFirewallRules host dc out)"
proof -
  have create: "steady w0 (eachUntilError (\<lambda>want. if have want then (\<lambda>v. (None, v)) else runQuiet host (createRuleCmd out (wantedRule want))) wants)"
    for w0 wants and "have"
    by (intro steady_each) (auto simp: steady_skip intro: quiet_other)
  show ?thesis
    unfolding ensureLighthouseFirewallRules_def
    by (intro steady_if steady_fail listing_other create) simp_all
qed

lemma bootstrap_steady: "steady w0 (bootstrapPlane host dc p)"
proof -
  have network: "steady w0 (if c then andThen (attachLighthouseCCN host dc out) (ensureLighthouseFirewallRules host dc out) else (\<lambda>v. (None, v)))"
    for c out w0
    by (cases c) (simp_all add: steady_andThen attach_steady ensure_steady steady_skip)
  have final: "steady w1 (terraform host p [''output'', ''platform''])" if "selected p (saw w1)" for w1
    by (rule terraform_steady [OF acting [OF that]]) simp
  show ?thesis
    unfolding bootstrapPlane_def
  proof (rule steady_andThen [OF terraformInit_steady steady_selected], rule steady_andThen)
    fix w1
    assume sel: "selected p (saw w1)"
    show "steady w1 (terraform host p (terraformApplyArgs p))"
      unfolding terraformApplyArgs_def using terraform_steady [OF acting [OF sel]] by simp
    show "steady w1 (\<lambda>w. case terraformOutput host (dcTerraform dc) p w of (Inl err, w1) \<Rightarrow> (Some err, w1)
       | (Inr out, w1) \<Rightarrow> andThen (if ProviderName out = ''tencent'' \<and> PlatformModeName out = ''existing_lighthouse'' then
            andThen (attachLighthouseCCN host dc out) (ensureLighthouseFirewallRules host dc out) else (\<lambda>v. (None, v)))
           (terraform host p [''output'', ''platform'']) w1)"
      by (intro terraform_output_steady sel steady_andThen network steady_fail) (blast intro: final selected_later sel)
  qed
qed

subsection \<open>The plan of an installation\<close>

lemma private_ip_steady: "steady w0 (\<lambda>w. case platformPrivateIP host p out target w of (Inl err, w1) \<Rightarrow> (Some err, w1) | (Inr _, w1) \<Rightarrow> (None, w1))"
proof (rule steadyI)
  fix w r w'
  assume m: "moves w0 w" and run: "(case platformPrivateIP host p out target w of (Inl err, w1) \<Rightarrow> (Some err, w1) | (Inr _, w1) \<Rightarrow> (None, w1)) = (r, w')"
  have other: "permits (saw w) ([''ssh''] @ sshArgs (opSSH p) @ [target, ''hostname -I''])" by (rule others) simp
  obtain a w1 where o: "runOutput host ([''ssh''] @ sshArgs (opSSH p) @ [target, ''hostname -I'']) w = (a, w1)" by fastforce
  have m1: "moves w w1" using runOutput_moves [OF moves_inv [OF m] other o] by simp
  show "moves w w'"
    using run o m1 moves_refl [OF moves_inv [OF m]]
    by (auto simp: platformPrivateIP_def detectPrivateIP_def split: if_splits sum.splits option.splits)
qed

lemma prepare_steady: "steady w0 (runTask PrepareTask host dc render cfg p)"
proof -
  have eq: "runTask PrepareTask host dc render cfg p =
      andThen (terraformInit host p) (andThen (selectTerraformWorkspace host p) (\<lambda>w. case terraformOutput host (dcTerraform dc) p w of
        (Inl err, w1) \<Rightarrow> (Some err, w1)
      | (Inr out, w1) \<Rightarrow> (case platformHost p out of Inl err \<Rightarrow> (\<lambda>v. (Some err, v))
          | Inr target \<Rightarrow> (\<lambda>v. case platformPrivateIP host p out target v of (Inl err, w1) \<Rightarrow> (Some err, w1) | (Inr _, w1) \<Rightarrow> (None, w1))) w1))"
    by (rule ext) (auto simp: runTask_def prepareCloudPlaneInstallPlan_def andThen_def split: prod.splits sum.splits option.splits)
  have rest: "steady w1 (case platformHost p out of Inl err \<Rightarrow> (\<lambda>v. (Some err, v))
      | Inr target \<Rightarrow> (\<lambda>v. case platformPrivateIP host p out target v of (Inl err, w1) \<Rightarrow> (Some err, w1) | (Inr _, w1) \<Rightarrow> (None, w1)))" for w1 out
    by (cases "platformHost p out") (simp_all add: steady_fail private_ip_steady)
  show ?thesis
    unfolding eq by (intro steady_andThen [OF terraformInit_steady steady_selected] terraform_output_steady steady_fail rest)
qed

subsection \<open>Destroy\<close>

lemma uninstall_steady: "steady w0 (uninstallCloudPlaneAtHost host render cfg ssh target)"
  unfolding uninstallCloudPlaneAtHost_def by (cases "render (ocInstallRoot cfg)") (simp_all add: steady_fail ssh_steady)

lemma uninstall_plane_steady: "steady w0 (uninstallCloudPlane host render cfg p out)"
  unfolding uninstallCloudPlane_def by (cases "platformHost p out") (simp_all add: steady_fail uninstall_steady)

text \<open>The front doors of a provider and region are those of an output with them.\<close>

lemma provider_doors_steady: "steady w0 (deleteServiceFrontDoorsForProvider host dc cfg provider region)"
proof -
  define out where "out = (undefined :: terraform_output)\<lparr>toProvider := provider,
    toInstallEnv := (undefined :: install_env)\<lparr>ieRegionID := region\<rparr>\<rparr>"
  have p: "ProviderName out = toLower (trimSpace provider)" "outRegionID out = trimSpace region"
    by (simp_all add: out_def ProviderName_def outRegionID_def)
  have "deleteServiceFrontDoorsForProvider host dc cfg provider region =
      deleteServiceFrontDoorsForProvider host dc cfg (ProviderName out) (outRegionID out)"
    by (rule ext) (simp add: deleteServiceFrontDoorsForProvider_def p toLower_trim_idem)
  then show ?thesis using destroy_contract.front_doors_steady [OF cleaning] by simp
qed

lemma destroy_steady: "steady w0 (destroyPlane host dc render cfg p)"
proof -
  define known where "known out = andThen (uninstallCloudPlane host render cfg p out)
      (andThen (destroyPlaneCloudResources host dc cfg out) (terraform host p (terraformDestroyArgs p)))" for out
  define unknown where "unknown = andThen (if nonBlank (shHost (opSSH p)) then uninstallCloudPlaneAtHost host render cfg (opSSH p) (shHost (opSSH p))
        else (\<lambda>v. (None, v)))
      (andThen (deleteServiceFrontDoorsForProvider host dc cfg (opProvider p) (opRegion p)) (terraform host p (terraformDestroyArgs p)))"
  have eq: "destroyPlane host dc render cfg p =
      andThen (terraformInit host p) (andThen (selectTerraformWorkspace host p) (\<lambda>w. case terraformOutput host (dcTerraform dc) p w of
        (Inl err, w1) \<Rightarrow> (if \<not> terraformOutputUnavailable err then (\<lambda>v. (Some err, v)) else unknown) w1
      | (Inr out, w1) \<Rightarrow> (if ProviderName out = [] then unknown else known out) w1))"
    unfolding destroyPlane_def known_def unknown_def
    by (intro arg_cong [where f = "andThen _"] ext) (simp add: tryTerraformOutput_def split: prod.splits sum.splits)
  have gone: "steady w1 (terraform host p (terraformDestroyArgs p))" if "selected p (saw w1)" for w1
    unfolding terraformDestroyArgs_def using terraform_steady [OF acting [OF that]] by simp
  have k: "steady w1 (known out)" if "selected p (saw w1)" for w1 out
    unfolding known_def
    by (intro steady_andThen uninstall_plane_steady destroy_contract.cleanup_steady [OF cleaning] gone that)
  have u: "steady w1 unknown" if "selected p (saw w1)" for w1
    unfolding unknown_def
    by (cases "nonBlank (shHost (opSSH p))")
       (simp_all add: steady_andThen uninstall_steady provider_doors_steady gone that steady_skip)
  show ?thesis
    unfolding eq
  proof (intro steady_andThen [OF terraformInit_steady steady_selected] terraform_output_steady)
    fix w1 w2 out err
    assume sel: "selected p (saw w1)" and m: "moves w1 w2"
    note sel2 = selected_later [OF sel m]
    show "steady w2 (if ProviderName out = [] then unknown else known out)"
      by (cases "ProviderName out = []") (simp_all add: u k sel2)
    show "steady w2 (if \<not> terraformOutputUnavailable err then (\<lambda>v. (Some err, v)) else unknown)"
      by (cases "terraformOutputUnavailable err") (simp_all add: u sel2 steady_fail)
  qed
qed

theorem task_steady: "steady w0 (runTask t host dc render cfg p)"
proof (cases t)
  case BootstrapTask
  have "runTask BootstrapTask host dc render cfg p = bootstrapPlane host dc p" by (rule ext) (simp add: runTask_def)
  then show ?thesis using BootstrapTask bootstrap_steady by simp
next
  case PrepareTask
  then show ?thesis using prepare_steady by simp
next
  case DestroyTask
  have "runTask DestroyTask host dc render cfg p = destroyPlane host dc render cfg p" by (rule ext) (simp add: runTask_def)
  then show ?thesis using DestroyTask destroy_steady by simp
qed

lemma task_moves: "I w \<Longrightarrow> runTask t host dc render cfg p w = (r, w') \<Longrightarrow> moves w w'"
  using steadyD [OF task_steady moves_refl] by blast

end

interpretation logged_task: task_contract "loggedHost host" "\<lambda>w. answered (snd w)" "taskRule p" "\<lambda>w. orderly (taskRule p) (snd w)" p
  for host p
proof -
  have eq: "guarded (taskRule p) = taskRule p" for p
    by (intro ext) (rule guarded_permits [OF taskRule_monotone])
  have "command_contract (loggedHost host) (\<lambda>w. answered (snd w)) (taskRule p) (\<lambda>w. orderly (taskRule p) (snd w))"
    for host :: "'a ops_host" and p
    using logged.command_contract_axioms [of host "taskRule p"] unfolding eq .
  then show "task_contract (loggedHost host) (\<lambda>w. answered (snd w)) (taskRule p) (\<lambda>w. orderly (taskRule p) (snd w)) p"
    for host :: "'a ops_host" and p
    by (intro task_contract.intro task_contract_axioms.intro)
qed

text \<open>What a task leaves in its log.\<close>

definition taskLog ::
  "plane_task \<Rightarrow> 'w ops_host \<Rightarrow> ops_decoders \<Rightarrow> (string \<Rightarrow> string res) \<Rightarrow> ops_config \<Rightarrow> ops_plane \<Rightarrow> 'w \<Rightarrow> command_log" where
  "taskLog t host dc render cfg p w = snd (snd (runTask t (loggedHost host) dc render cfg p (w, [])))"

lemma taskLog_orderly: "orderly (taskRule p) (taskLog t host dc render cfg p w)"
proof -
  obtain r w' where run: "runTask t (loggedHost host) dc render cfg p (w, []) = (r, w')" by (rule prod.exhaust)
  have "logged_task.moves p (w, []) w'" by (rule logged_task.task_moves [OF _ run]) simp
  then show ?thesis by (simp add: taskLog_def run logged_task.moves_def)
qed

section \<open>Isolation\<close>

lemma orderly_snocD: "orderly permits (log @ [e]) \<Longrightarrow> orderly permits log \<and> permits (answered log) (fst e)"
proof -
  assume o: "orderly permits (log @ [e])"
  have "permits (answered (take i log)) (fst (log ! i))" if "i < length log" for i
    using o that unfolding orderly_def by (metis Suc_lessD butlast_snoc length_append_singleton less_SucI not_less_eq nth_append take_butlast)
  moreover have "permits (answered log) (fst e)"
    using o unfolding orderly_def by (metis append_eq_conv_conj length_append_singleton lessI nth_append_length)
  ultimately show ?thesis by (simp add: orderly_def)
qed

lemma switches_tfCommand:
  "switches dir (tfCommand p args, a) =
     (case args of [k, verb, ws] \<Rightarrow>
        if trDir (opTerraform p) = dir \<and> k = ''workspace'' \<and> (verb = ''select'' \<or> verb = ''new'') \<and> a \<noteq> None then Some ws else None
      | _ \<Rightarrow> None)"
  by (auto simp: switches_def tfCommand_def split: list.splits option.splits)

text \<open>A task switches its own directory only, and only to its own workspace.\<close>

lemma rule_switches:
  assumes "taskRule p S (fst e)" "switches dir e = Some ws"
  shows "dir = trDir (opTerraform p) \<and> ws = trWorkspace (opTerraform p)"
proof -
  obtain cmd a where e: "e = (cmd, a)" by fastforce
  have tf: "hd cmd = ''terraform''"
    using assms(2) by (auto simp: switches_def e split: list.splits option.splits if_splits)
  then show ?thesis
    using assms by (auto simp: e taskRule_def selectArgs_def newArgs_def acts_def switches_tfCommand split: list.splits if_splits)
qed

lemma selected_switches:
  assumes "(tfCommand p (selectArgs p), Some d) \<in> set log \<or> (tfCommand p (newArgs p), Some d) \<in> set log" "orderly (taskRule p) log"
  shows "currentWorkspace (trDir (opTerraform p)) log = Some (trWorkspace (opTerraform p))"
  using assms
proof (induction log rule: rev_induct)
  case (snoc e log)
  note o = orderly_snocD [OF snoc.prems(2)]
  show ?case
  proof (cases "switches (trDir (opTerraform p)) e")
    case None
    then have "e \<noteq> (tfCommand p (selectArgs p), Some d) \<and> e \<noteq> (tfCommand p (newArgs p), Some d)"
      by (auto simp: switches_tfCommand selectArgs_def newArgs_def)
    then show ?thesis using snoc o None by auto
  next
    case (Some ws)
    then show ?thesis using rule_switches [OF conjunct2 [OF o] Some] by simp
  qed
qed simp

lemma acts_selected:
  assumes "taskRule p (answered log) cmd" "orderly (taskRule p) log" "acts q cmd" "trDir (opTerraform q) = trDir (opTerraform p)"
  shows "currentWorkspace (trDir (opTerraform p)) log = Some (trWorkspace (opTerraform p))"
proof -
  have "selected p (answered log)"
    using assms(1,3,4) by (auto simp: taskRule_def acts_def tfCommand_def selectArgs_def newArgs_def)
  then show ?thesis using selected_switches [OF _ assms(2)] unfolding selected_def answered_def by blast
qed

lemma acts_dir:
  assumes "taskRule p S cmd" "acts q cmd"
  shows "trDir (opTerraform q) = trDir (opTerraform p)"
  using assms by (auto simp: taskRule_def acts_def tfCommand_def selectArgs_def newArgs_def)

lemma interleaving_isolated:
  assumes "interleaving logs log" "length logs = length ps" "distinct (map (\<lambda>p. trDir (opTerraform p)) ps)"
    "\<forall>i<length ps. orderly (taskRule (ps ! i)) (logs ! i)"
  shows "inOwnWorkspaces ps log \<and>
    (\<forall>i<length ps. currentWorkspace (trDir (opTerraform (ps ! i))) log = currentWorkspace (trDir (opTerraform (ps ! i))) (logs ! i))"
  using assms
proof (induction rule: interleaving.induct)
  case (start n)
  then show ?case by (simp add: inOwnWorkspaces_def)
next
  case (advance logs log i x)
  let ?dir = "\<lambda>i. trDir (opTerraform (ps ! i))"
  have len: "length logs = length ps" using advance.prems by simp
  have i: "i < length ps" using advance.hyps len by simp
  have own: "orderly (taskRule (ps ! i)) (logs ! i @ [x])" using advance.prems(3) i len by auto
  note o = orderly_snocD [OF own]
  have others: "orderly (taskRule (ps ! j)) (logs ! j)" if j: "j < length ps" for j
  proof (cases "j = i")
    case False
    then show ?thesis using advance.prems(3) j by (metis nth_list_update_neq)
  qed (simp add: o)
  then have "\<forall>j<length ps. orderly (taskRule (ps ! j)) (logs ! j)" by blast
  note ih = advance.IH [OF len advance.prems(2) this]
  have dirs: "?dir j = ?dir k \<longleftrightarrow> j = k" if "j < length ps" "k < length ps" for j k
    using advance.prems(2) that by (auto simp: distinct_conv_nth)
  have acting: "currentWorkspace (trDir (opTerraform q)) log = Some (trWorkspace (opTerraform q))" if q: "q \<in> set ps" "acts q (fst x)" for q
  proof -
    obtain j where j: "j < length ps" "q = ps ! j" using q(1) by (metis in_set_conv_nth)
    have "?dir j = ?dir i" using acts_dir [OF conjunct2 [OF o] q(2)] j by simp
    then have "j = i" using dirs i j by simp
    then show ?thesis
      using acts_selected [OF conjunct2 [OF o] conjunct1 [OF o] q(2)] ih i j by simp
  qed
  have current: "currentWorkspace (?dir j) (log @ [x]) = currentWorkspace (?dir j) (logs[i := logs ! i @ [x]] ! j)" if j: "j < length ps" for j
  proof (cases "j = i")
    case True
    have "currentWorkspace (?dir i) log = currentWorkspace (?dir i) (logs ! i)" using ih i by blast
    then show ?thesis using True i len by (simp split: option.splits)
  next
    case False
    then have "switches (?dir j) x = None"
      using rule_switches [OF conjunct2 [OF o]] dirs [OF j i] by (metis not_Some_eq)
    then show ?thesis using ih j False len by simp
  qed
  show ?case using ih acting current by (simp add: inOwnWorkspaces_snoc)
qed

text \<open>
  C19: when the planes have directories of their own, their tasks can run at the same time: in every order
  in which the commands of all tasks may take effect, and whatever they answer, terraform applies, destroys
  and reads a plane only while the directory is in the workspace of that plane.
\<close>

theorem parallel_tasks_keep_their_workspaces:
  assumes "distinct (map (\<lambda>p. trDir (opTerraform p)) ps)"
    and "interleaving (map (\<lambda>i. taskLog t (hosts i) dc render cfg (ps ! i) (worlds i)) [0..<length ps]) log"
  shows "inOwnWorkspaces ps log"
proof (rule conjunct1 [OF interleaving_isolated [OF assms(2) _ assms(1)]])
  show "\<forall>i<length ps. orderly (taskRule (ps ! i)) (map (\<lambda>i. taskLog t (hosts i) dc render cfg (ps ! i) (worlds i)) [0..<length ps] ! i)"
    by (simp add: taskLog_orderly)
qed simp

section \<open>Orders that are possible\<close>

lemma interleaving_grow: "interleaving logs log \<Longrightarrow> i < length logs \<Longrightarrow> interleaving (logs[i := logs ! i @ xs]) (log @ xs)"
proof (induction xs rule: rev_induct)
  case (snoc x xs)
  then have "interleaving ((logs[i := logs ! i @ xs])[i := logs[i := logs ! i @ xs] ! i @ [x]]) ((log @ xs) @ [x])"
    by (intro interleaving.advance) simp_all
  then show ?case using snoc.prems by simp
qed simp

lemma interleaving_two:
  "interleaving [xs, ys] (xs @ ys)"
  "interleaving [[a1, a2, a3, a4], [b1, b2, b3, b4]] [a1, b1, a2, b2, a3, a4, b3, b4]"
proof -
  have "interleaving [[], []] ([] :: 'a list)" using interleaving.start [of 2] by (simp add: numeral_2_eq_2)
  note s = this
  show "interleaving [xs, ys] (xs @ ys)"
    using interleaving_grow [OF interleaving_grow [OF s, where i = 0 and xs = xs], where i = 1 and xs = ys] by simp
  show "interleaving [[a1, a2, a3, a4], [b1, b2, b3, b4]] [a1, b1, a2, b2, a3, a4, b3, b4]" for a1 a2 a3 a4 b1 b2 b3 b4 :: 'b
  proof -
    note g = interleaving_grow
    have "interleaving [[], []] ([] :: 'b list)" using interleaving.start [of 2] by (simp add: numeral_2_eq_2)
    from g [OF this, where i = 0 and xs = "[a1]"] have "interleaving [[a1], []] [a1]" by simp
    from g [OF this, where i = 1 and xs = "[b1]"] have "interleaving [[a1], [b1]] [a1, b1]" by simp
    from g [OF this, where i = 0 and xs = "[a2]"] have "interleaving [[a1, a2], [b1]] [a1, b1, a2]" by simp
    from g [OF this, where i = 1 and xs = "[b2]"] have "interleaving [[a1, a2], [b1, b2]] [a1, b1, a2, b2]" by simp
    from g [OF this, where i = 0 and xs = "[a3, a4]"] have "interleaving [[a1, a2, a3, a4], [b1, b2]] [a1, b1, a2, b2, a3, a4]" by simp
    from g [OF this, where i = 1 and xs = "[b3, b4]"] show ?thesis by simp
  qed
qed

section \<open>Two planes\<close>

text \<open>A host whose commands all succeed; the decoders find nothing.\<close>

definition easyHost :: "unit ops_host" where
  "easyHost =
     \<lparr>ohOutput = (\<lambda>cmd w. (\<lparr>caResult = Inr [], caStderr = [], caCtxErr = None\<rparr>, w)), ohRun = (\<lambda>stdin cmd w. (None, w)),
      ohWait = (\<lambda>d w. (None, w)), ohSleep = (\<lambda>d w. w), ohNow = (\<lambda>w. Instant 0)\<rparr>"

definition emptyDecoders :: ops_decoders where
  "emptyDecoders =
     \<lparr>dcAliyunDomains = (\<lambda>_. Inr []), dcTencentDomains = (\<lambda>_. Inr []), dcRecords = (\<lambda>_. Inr []), dcAliyunInstances = (\<lambda>_. Inr []),
      dcTencentInstances = (\<lambda>_. Inr []), dcImageTags = (\<lambda>_. Inr []), dcTerraform = (\<lambda>_. Inl (Errorf ''EOF'')),
      dcAttachments = (\<lambda>_. Inr []), dcCcnInstances = (\<lambda>_. Inr []), dcFirewall = (\<lambda>_. Inr [])\<rparr>"

lemma easy_bootstrap:
  "taskLog BootstrapTask easyHost emptyDecoders render cfg p () =
     [(tfCommand p [''init''], Some []), (tfCommand p (selectArgs p), Some []), (tfCommand p (terraformApplyArgs p), Some []),
      (tfCommand p [''output'', ''-json''], Some [])]"
  by (simp add: taskLog_def runTask_def bootstrapPlane_def andThen_def terraformInit_def terraform_def runInteractive_def
      selectTerraformWorkspace_def runOutput_def terraformOutput_def easyHost_def emptyDecoders_def loggedHost_def
      selectArgs_def tfCommand_def cloudCLI_def numeral_3_eq_3)

definition demoPlane :: "string \<Rightarrow> string \<Rightarrow> ops_plane" where
  "demoPlane name dir =
     \<lparr>opName = name, opProvider = ''aliyun'', opRegion = ''cn-hangzhou'',
      opSSH = \<lparr>shHost = ''root@'' @ name, shKeyPath = [], shOptions = []\<rparr>,
      opTerraform = \<lparr>trDir = dir, trWorkspace = [], trVarFile = ''/etc/'' @ name @ ''.tfvars''\<rparr>, opRegistryMirror = []\<rparr>"

definition demoOps :: "ops_plane list \<Rightarrow> ops_config" where
  "demoOps ps =
     \<lparr>ocPath = [], ocSCF = \<lparr>sfRegion = [], sfNamespace = [], sfFunctionName = [], sfRole = [], sfImage = ''ccr.ccs.tencentyun.com/demo/mini-cloud'',
        sfPublicDomain = ''cloud.example.com'', sfDescription = [], sfMemoryMB = 0, sfTimeoutSec = 0, sfInitSec = 0\<rparr>,
      ocPlanes = ps, ocSSH = \<lparr>shHost = [], shKeyPath = [], shOptions = []\<rparr>, ocInstallRoot = [], ocIngressBaseDomain = [],
      ocInstallRegistryMirror = [], ocControlPlaneBinary = [], ocCloudPlaneBinary = [], ocNodeAgentBinary = [], ocWebDist = [],
      ocAdminToken = [], ocSouthboundToken = [], ocNodeAgentToken = [], ocTencentCredentialFile = [], ocWorkloadOTLPEndpoint = []\<rparr>"

definition demoEnv :: path_env where
  "demoEnv = \<lparr>peHome = Inr ''/root'', peCwd = Inr ''/root''\<rparr>"

definition loadDemo :: "ops_plane list \<Rightarrow> ops_config res" where
  "loadDemo ps = loadOpsConfig demoEnv (\<lambda>_. Inr []) (\<lambda>_. Inr (demoOps ps)) ''config.yaml''"

text \<open>The planes of a configuration that is loaded from two planes of one provider.\<close>

definition demoPlanes :: "string \<Rightarrow> string \<Rightarrow> ops_plane list" where
  "demoPlanes d1 d2 = (case loadDemo [demoPlane ''a'' d1, demoPlane ''b'' d2] of Inl _ \<Rightarrow> [] | Inr cfg \<Rightarrow> ocPlanes cfg)"

definition demoDefaults :: "string \<Rightarrow> string \<Rightarrow> ops_plane" where
  "demoDefaults name dir = planeDefaults demoEnv \<lparr>shHost = [], shKeyPath = [], shOptions = []\<rparr> (demoPlane name dir)"

lemma demo_paths:
  "trDir (opTerraform (demoDefaults ''a'' ''tf/a'')) = ''tf/a''" "trDir (opTerraform (demoDefaults ''b'' ''tf/b'')) = ''tf/b''"
  "trDir (opTerraform (demoDefaults n [])) = ''deploy/terraform/ops/aliyun''"
  "trWorkspace (opTerraform (demoDefaults ''a'' d)) = ''a''" "trWorkspace (opTerraform (demoDefaults ''b'' d)) = ''b''"
  by (simp_all add: demoDefaults_def planeDefaults_def demoPlane_def Let_def) code_simp+

lemma demo_planes:
  "demoPlanes ''tf/a'' ''tf/b'' = [demoDefaults ''a'' ''tf/a'', demoDefaults ''b'' ''tf/b'']"
  "demoPlanes [] [] = [demoDefaults ''a'' [], demoDefaults ''b'' []]"
  by code_simp+

theorem parallel_tasks_keep_their_workspaces_witness:
  "inOwnWorkspaces (demoPlanes ''tf/a'' ''tf/b'')
     (concat (map (\<lambda>p. taskLog BootstrapTask easyHost emptyDecoders Inr (demoOps []) p ()) (demoPlanes ''tf/a'' ''tf/b'')))"
proof (rule parallel_tasks_keep_their_workspaces
    [where hosts = "\<lambda>_. easyHost" and worlds = "\<lambda>_. ()" and t = BootstrapTask and dc = emptyDecoders and render = Inr and cfg = "demoOps []"])
  show "distinct (map (\<lambda>p. trDir (opTerraform p)) (demoPlanes ''tf/a'' ''tf/b''))"
    by (simp add: demo_planes demo_paths)
  show "interleaving (map (\<lambda>i. taskLog BootstrapTask easyHost emptyDecoders Inr (demoOps []) (demoPlanes ''tf/a'' ''tf/b'' ! i) ())
      [0..<length (demoPlanes ''tf/a'' ''tf/b'')])
    (concat (map (\<lambda>p. taskLog BootstrapTask easyHost emptyDecoders Inr (demoOps []) p ()) (demoPlanes ''tf/a'' ''tf/b'')))"
    by (simp add: demo_planes upt_rec interleaving_two(1))
qed

text \<open>
  Planes of one provider that leave terraform.dir to its default share a directory: the configuration is
  loaded, and in a possible order of the commands the first plane is applied, with its variables, in the
  workspace of the second.
\<close>

theorem shared_directory_mixes_workspaces:
  "\<exists>log. interleaving (map (\<lambda>p. taskLog BootstrapTask easyHost emptyDecoders Inr (demoOps []) p ()) (demoPlanes [] [])) log
     \<and> \<not> inOwnWorkspaces (demoPlanes [] []) log"
proof -
  let ?a = "demoDefaults ''a'' []" and ?b = "demoDefaults ''b'' []"
  define log where "log =
    [(tfCommand ?a [''init''], Some []), (tfCommand ?b [''init''], Some []), (tfCommand ?a (selectArgs ?a), Some []),
     (tfCommand ?b (selectArgs ?b), Some []), (tfCommand ?a (terraformApplyArgs ?a), Some []), (tfCommand ?a [''output'', ''-json''], Some []),
     (tfCommand ?b (terraformApplyArgs ?b), Some []), (tfCommand ?b [''output'', ''-json''], Some ([] :: string))]"
  have shared: "interleaving (map (\<lambda>p. taskLog BootstrapTask easyHost emptyDecoders Inr (demoOps []) p ()) (demoPlanes [] [])) log"
    by (simp add: demo_planes easy_bootstrap interleaving_two(2) log_def)
  have cur: "currentWorkspace (trDir (opTerraform ?a)) (take 4 log) = Some ''b''"
    by (simp add: log_def currentWorkspace_def switches_tfCommand selectArgs_def demo_paths)
  have act: "acts ?a (fst (log ! 4))"
    by (auto simp: log_def acts_def terraformApplyArgs_def)
  have "\<not> inOwnWorkspaces (demoPlanes [] []) log"
  proof
    assume own: "inOwnWorkspaces (demoPlanes [] []) log"
    have "4 < length log" by (simp add: log_def)
    then have "currentWorkspace (trDir (opTerraform ?a)) (take 4 log) = Some (trWorkspace (opTerraform ?a))"
      using own act unfolding inOwnWorkspaces_def by (simp add: demo_planes)
    then show False using cur by (simp add: demo_paths)
  qed
  then show ?thesis using shared by blast
qed

end
