(* ===== verification/OpsReleaseProps.thy ===== *)
theory OpsReleaseProps
  imports OpsRelease OpsWorkspaces
begin

text \<open>
  What an installation leaves behind: no temporary files, whatever fails, and certificates that the next
  installation keeps.
\<close>

section \<open>Temporary files\<close>

text \<open>A file system that writes down which temporary files it makes and which files it removes.\<close>

datatype file_event = Created string | Removed string

text \<open>The temporary files that exist; an empty name is no file.\<close>

fun outstandingAfter :: "string set \<Rightarrow> file_event \<Rightarrow> string set" where
  "outstandingAfter fls (Created p) = fls \<union> ({p} - {[]})"
| "outstandingAfter fls (Removed p) = fls - {p}"

definition outstanding :: "file_event list \<Rightarrow> string set" where
  "outstanding evs = foldl outstandingAfter {} evs"

lemma outstanding_simps [simp]:
  "outstanding [] = {}"
  "outstanding (evs @ [Created p]) = outstanding evs \<union> ({p} - {[]})"
  "outstanding (evs @ [Removed p]) = outstanding evs - {p}"
  by (simp_all add: outstanding_def)

definition carried :: "'w ops_host \<Rightarrow> ('w \<times> file_event list) ops_host" where
  "carried host =
     \<lparr>ohOutput = (\<lambda>cmd. quietly (ohOutput host cmd)), ohRun = (\<lambda>stdin cmd. quietly (ohRun host stdin cmd)),
      ohWait = (\<lambda>d. quietly (ohWait host d)), ohSleep = (\<lambda>d (w, evs). (ohSleep host d w, evs)), ohNow = (\<lambda>w. ohNow host (fst w))\<rparr>"

definition carriedNet :: "'w ops_net \<Rightarrow> ('w \<times> file_event list) ops_net" where
  "carriedNet ne = \<lparr>neGet = (\<lambda>url time. quietly (neGet ne url time)), neCNAME = (\<lambda>h. quietly (neCNAME ne h))\<rparr>"

definition loggedFiles :: "'w ops_files \<Rightarrow> ('w \<times> file_event list) ops_files" where
  "loggedFiles fs =
     \<lparr>flRead = (\<lambda>path w. flRead fs path (fst w)), flWrite = (\<lambda>path data mode. quietly (flWrite fs path data mode)),
      flMkdir = (\<lambda>path mode. quietly (flMkdir fs path mode)),
      flCreateTemp = (\<lambda>pat. noting (flCreateTemp fs pat) (\<lambda>r. case r of Inl _ \<Rightarrow> [] | Inr path \<Rightarrow> [Created path])),
      flFill = (\<lambda>path data. quietly (flFill fs path data)), flClose = (\<lambda>path. quietly (flClose fs path)),
      flChmod = (\<lambda>path mode. quietly (flChmod fs path mode)),
      flRemove = (\<lambda>path (w, evs). (flRemove fs path w, evs @ [Removed path])),
      flStat = (\<lambda>w. flStat fs (fst w)), flLookPath = (\<lambda>tool w. flLookPath fs tool (fst w))\<rparr>"

text \<open>An operation after which no more temporary files exist than before.\<close>

definition tidy :: "('w \<times> file_event list \<Rightarrow> 'r \<times> 'w \<times> file_event list) \<Rightarrow> bool" where
  "tidy f \<longleftrightarrow> (\<forall>w r w'. f w = (r, w') \<longrightarrow> outstanding (snd w') \<subseteq> outstanding (snd w))"

lemma tidyD: "tidy f \<Longrightarrow> f w = (r, w') \<Longrightarrow> outstanding (snd w') \<subseteq> outstanding (snd w)"
  unfolding tidy_def by blast

lemma tidyI: "(\<And>w r w'. f w = (r, w') \<Longrightarrow> outstanding (snd w') \<subseteq> outstanding (snd w)) \<Longrightarrow> tidy f"
  unfolding tidy_def by blast

lemma tidy_return: "tidy (\<lambda>w. (r w, w))"
  by (rule tidyI) auto

lemma tidy_quietly: "tidy (quietly f)"
  by (rule tidyI) (simp add: quietly_D)

lemma tidy_case: "tidy f \<Longrightarrow> (\<And>r. tidy (g r)) \<Longrightarrow> tidy (\<lambda>w. case f w of (r, w1) \<Rightarrow> g r w1)"
  unfolding tidy_def by (fastforce split: prod.splits)

lemma tidy_sum: "(\<And>x. tidy (a x)) \<Longrightarrow> (\<And>y. tidy (b y)) \<Longrightarrow> tidy (\<lambda>w. case r w of Inl x \<Rightarrow> a x w | Inr y \<Rightarrow> b y w)"
  unfolding tidy_def by (auto split: sum.splits)

lemma tidy_option: "tidy a \<Longrightarrow> (\<And>y. tidy (b y)) \<Longrightarrow> tidy (\<lambda>w. case r w of None \<Rightarrow> a w | Some y \<Rightarrow> b y w)"
  unfolding tidy_def by (auto split: option.splits)

lemma tidy_pair: "(\<And>x y. tidy (a x y)) \<Longrightarrow> tidy (\<lambda>w. case p of (x, y) \<Rightarrow> a x y w)"
  by (cases p) simp

lemma tidy_if: "tidy a \<Longrightarrow> tidy b \<Longrightarrow> tidy (\<lambda>w. if c w then a w else b w)"
  unfolding tidy_def by auto

lemma tidy_andThen: "tidy f \<Longrightarrow> tidy g \<Longrightarrow> tidy (andThen f g)"
  unfolding andThen_def [abs_def] by (intro tidy_case tidy_option tidy_return) simp_all

text \<open>An operation that first looks at the clock.\<close>

lemma tidy_now: "(\<And>t. tidy (f t)) \<Longrightarrow> tidy (\<lambda>w. f (ohNow host w) w)"
  unfolding tidy_def by blast

lemma tidy_sleep: "tidy f \<Longrightarrow> tidy (\<lambda>w. f (ohSleep (carried host) d w))"
  unfolding tidy_def by (auto simp: carried_def)

lemma tidy_host: "tidy (ohOutput (carried host) cmd)" "tidy (ohRun (carried host) stdin cmd)" "tidy (ohWait (carried host) d)"
  by (simp_all add: carried_def tidy_quietly)

lemma tidy_net: "tidy (neGet (carriedNet ne) url d)" "tidy (neCNAME (carriedNet ne) h)"
  by (simp_all add: carriedNet_def tidy_quietly)

lemma tidy_files:
  "tidy (flWrite (loggedFiles fs) path data mode)" "tidy (flMkdir (loggedFiles fs) path mode)" "tidy (flFill (loggedFiles fs) path data)"
  "tidy (flClose (loggedFiles fs) path)" "tidy (flChmod (loggedFiles fs) path mode)"
  by (simp_all add: loggedFiles_def tidy_quietly)

lemma tidy_each: "(\<And>x. tidy (f x)) \<Longrightarrow> tidy (eachUntilError f xs)"
proof (induction xs)
  case (Cons x xs)
  then have "tidy (andThen (f x) (eachUntilError f xs))" by (intro tidy_andThen) simp_all
  moreover have "eachUntilError f (x # xs) = andThen (f x) (eachUntilError f xs)" by (rule ext) (simp add: andThen_def)
  ultimately show ?case by simp
qed (simp add: tidy_def)

lemma tidy_poll: "(\<And>s. tidy (probe s)) \<Longrightarrow> tidy (poll (carried host) d deadline probe late ended n s)"
proof (induction n arbitrary: s)
  case (Suc n)
  have eq: "poll (carried host) d deadline probe late ended (Suc n) s =
      (\<lambda>w. case probe s w of (x, w1) \<Rightarrow> (case x of Inl r \<Rightarrow> (\<lambda>w1. (r, w1)) | Inr s1 \<Rightarrow> (\<lambda>w1. if deadline < ohNow (carried host) w1 then (late s1, w1)
          else (case ohWait (carried host) d w1 of (e, w2) \<Rightarrow> (case e of None \<Rightarrow> poll (carried host) d deadline probe late ended n s1 w2 | Some c \<Rightarrow> (ended c, w2))))) w1)"
    by (rule ext) (simp split: prod.splits sum.splits option.splits)
  have rest: "tidy (case x of Inl r \<Rightarrow> (\<lambda>w1. (r, w1)) | Inr s1 \<Rightarrow> (\<lambda>w1. if deadline < ohNow (carried host) w1 then (late s1, w1)
          else (case ohWait (carried host) d w1 of (e, w2) \<Rightarrow> (case e of None \<Rightarrow> poll (carried host) d deadline probe late ended n s1 w2 | Some c \<Rightarrow> (ended c, w2)))))" for x
    by (cases x) (auto intro!: tidy_if tidy_return tidy_case tidy_host tidy_option Suc.IH Suc.prems)
  show ?case unfolding eq by (rule tidy_case [OF Suc.prems rest])
qed (simp add: tidy_def)

lemma tidy_poll_at: "(\<And>s. tidy (probe s)) \<Longrightarrow> tidy (\<lambda>w. poll (carried host) d (deadline w) probe late ended n s w)"
  by (rule tidyI) (rule tidyD [OF tidy_poll])

lemma tidy_outputAttempts: "tidy (outputAttempts (carried host) cmd attempt left)"
proof (induction left arbitrary: attempt)
  case 0
  have eq: "outputAttempts (carried host) cmd attempt 0 = (\<lambda>w. case ohOutput (carried host) cmd w of (a, w1) \<Rightarrow>
      (case caResult a of Inl err \<Rightarrow> (Inl (outputError cmd a err), w1) | Inr data \<Rightarrow> (Inr data, w1)))"
    by (rule ext) simp
  show ?case unfolding eq by (intro tidy_case tidy_host tidy_sum tidy_return)
next
  case (Suc left)
  have eq: "outputAttempts (carried host) cmd attempt (Suc left) = (\<lambda>w. case ohOutput (carried host) cmd w of (a, w1) \<Rightarrow>
      (case caResult a of Inl err \<Rightarrow> (if \<not> temporaryCommandFailure (outputError cmd a err) then (Inl (outputError cmd a err), w1)
          else (case ohWait (carried host) (secondsDur (attempt * 5)) w1 of (e, w2) \<Rightarrow>
            (case e of None \<Rightarrow> outputAttempts (carried host) cmd (attempt + 1) left w2 | Some ctxErr \<Rightarrow> (Inl ctxErr, w2))))
       | Inr data \<Rightarrow> (Inr data, w1)))"
    by (rule ext) simp
  show ?case unfolding eq by (intro tidy_case tidy_host tidy_sum tidy_if tidy_option tidy_return Suc)
qed

lemmas tidy_structure = tidy_case tidy_sum tidy_option tidy_pair tidy_if tidy_return tidy_andThen tidy_host tidy_net tidy_files

lemma tidy_commands:
  "tidy (runOutput (carried host) cmd)" "tidy (runInteractive (carried host) cmd)" "tidy (runInput (carried host) stdin cmd)"
  by (simp_all add: runOutput_def [abs_def] tidy_outputAttempts, unfold runInteractive_def [abs_def] runInput_def [abs_def])
     (intro tidy_structure)+

lemma tidy_answers: "tidy (runJSON (carried host) decode cmd)" "tidy (runQuiet (carried host) cmd)"
  unfolding runJSON_def [abs_def] runQuiet_def [abs_def] by (intro tidy_structure tidy_commands)+

lemma writeTempFile_outcome:
  assumes "writeTempFile (loggedFiles fs) pat data mode w = (r, w')"
  shows "outstanding (snd w') \<subseteq> outstanding (snd w) \<union> (case r of Inl _ \<Rightarrow> {} | Inr path \<Rightarrow> {path} - {[]})"
proof -
  obtain c w1 where c: "flCreateTemp (loggedFiles fs) pat w = (c, w1)" by (rule prod.exhaust)
  have w1: "outstanding (snd w1) = outstanding (snd w) \<union> (case c of Inl _ \<Rightarrow> {} | Inr path \<Rightarrow> {path} - {[]})"
    using c by (auto simp: loggedFiles_def split: sum.splits dest!: noting_D)
  have removed: "outstanding (snd (flRemove (loggedFiles fs) path v)) = outstanding (snd v) - {path}" for path v
    by (cases v) (simp add: loggedFiles_def)
  show ?thesis
  proof (cases c)
    case (Inl err)
    then show ?thesis using assms c w1 by (simp add: writeTempFile_def)
  next
    case (Inr path)
    obtain e2 w2 where f: "flFill (loggedFiles fs) path data w1 = (e2, w2)" by (rule prod.exhaust)
    obtain e3 w3 where cl: "flClose (loggedFiles fs) path w2 = (e3, w3)" by (rule prod.exhaust)
    obtain e4 w4 where ch: "flChmod (loggedFiles fs) path mode w3 = (e4, w4)" by (rule prod.exhaust)
    note t = tidyD [OF tidy_files(3) f] tidyD [OF tidy_files(4) cl] tidyD [OF tidy_files(5) ch]
    define allowed where "allowed = outstanding (snd w) \<union> ({path} - {[]})"
    have sub: "outstanding (snd w2) \<subseteq> allowed" "outstanding (snd w3) \<subseteq> allowed" "outstanding (snd w4) \<subseteq> allowed"
      using t w1 Inr unfolding allowed_def by auto
    have gone: "outstanding (snd v) - {path} \<subseteq> outstanding (snd w)" if "outstanding (snd v) \<subseteq> allowed" for v
      using that unfolding allowed_def by blast
    have "outstanding (snd w') \<subseteq> outstanding (snd w) \<or> r = Inr path \<and> w' = w4"
      using assms gone [OF sub(2)] gone [OF sub(3)] by (auto simp: writeTempFile_def c Inr f cl ch removed split: option.splits)
    then show ?thesis using sub(3) unfolding allowed_def by (cases r) auto
  qed
qed

lemma removeFiles_outcome:
  "outstanding (snd (removeFiles (loggedFiles fs) ps w)) \<subseteq> outstanding (snd w) - (set ps - {[]})"
proof (induction ps arbitrary: w)
  case (Cons p ps)
  have "outstanding (snd (if p = [] then w else flRemove (loggedFiles fs) p w)) \<subseteq> outstanding (snd w) - ({p} - {[]})"
    by (cases w) (auto simp: loggedFiles_def)
  then show ?case using Cons [of "if p = [] then w else flRemove (loggedFiles fs) p w"] by auto
qed simp

lemma removing_outcome:
  assumes "tidy f" "removing (loggedFiles fs) ps f w = (r, w')"
  shows "outstanding (snd w') \<subseteq> outstanding (snd w) - (set ps - {[]})"
proof -
  obtain x w1 where f: "f w = (x, w1)" by (rule prod.exhaust)
  show ?thesis
    using assms(2) f tidyD [OF assms(1) f] removeFiles_outcome [of fs ps w1] by (auto simp: removing_def)
qed

lemma tidy_removing: "tidy f \<Longrightarrow> tidy (removing (loggedFiles fs) ps f)"
  by (rule tidyI) (blast dest: removing_outcome)

lemma tidy_with_json:
  assumes "\<And>path. tidy (body path)"
  shows "tidy (withJSONFile (loggedFiles fs) sj pat v body)"
proof (rule tidyI)
  fix w r w'
  assume run: "withJSONFile (loggedFiles fs) sj pat v body w = (r, w')"
  show "outstanding (snd w') \<subseteq> outstanding (snd w)"
  proof (cases "sjEncode sj v")
    case (Inl err)
    then show ?thesis using run by (simp add: withJSONFile_def)
  next
    case (Inr data)
    obtain t w1 where wr: "writeTempFile (loggedFiles fs) pat data ''0600'' w = (t, w1)" by (rule prod.exhaust)
    note out = writeTempFile_outcome [OF wr]
    show ?thesis
    proof (cases t)
      case (Inl err)
      then show ?thesis using run out by (simp add: withJSONFile_def Inr wr)
    next
      case path: (Inr path)
      have "removing (loggedFiles fs) [path] (body path) w1 = (r, w')" using run by (simp add: withJSONFile_def Inr wr path)
      from removing_outcome [OF assms this] show ?thesis using out path by auto
    qed
  qed
qed

subsection \<open>The control-plane's function\<close>

lemma tidy_scf:
  "tidy (scfFunctionExists (carried host) sj s)" "tidy (scfStatus (carried host) sj s)" "tidy (scfURL (carried host) sj s)"
  "tidy (scfCustomDomainExists (carried host) sj s domain)"
  unfolding scfFunctionExists_def [abs_def] scfStatus_def [abs_def] scfURL_def [abs_def] scfCustomDomainExists_def [abs_def]
  by (intro tidy_structure tidy_answers)+

lemma tidy_rounds:
  "tidy (activeRound (carried host) sj s st)" "tidy (bindingRound (carried host) sj s path err)" "tidy (healthRound (carriedNet ne) url seen)"
  unfolding activeRound_def [abs_def] bindingRound_def [abs_def] healthRound_def [abs_def]
  by (intro tidy_structure tidy_scf tidy_answers)+

lemma tidy_dns:
  "tidy (dnspodRecord (carried host) dc root sub t)" "tidy (cnameResolvesTo (carriedNet ne) h target)"
  unfolding dnspodRecord_def [abs_def] cnameResolvesTo_def [abs_def]
  by (intro tidy_structure tidy_answers)+

lemma tidy_cname: "tidy (cnameRound (carried host) (carriedNet ne) dc h target u)"
  unfolding cnameRound_def [abs_def] Let_def by (intro tidy_structure tidy_dns)

lemma tidy_waits:
  "tidy (waitForSCFActive (carried host) sj s)" "tidy (waitForDNSPodCNAMERecord (carried host) (carriedNet ne) dc h target)"
  unfolding waitForSCFActive_def [abs_def] waitForDNSPodCNAMERecord_def [abs_def]
  by (intro tidy_poll_at tidy_rounds tidy_cname)+

lemma tidy_function_steps:
  "tidy (createSCFFunction (carried host) (loggedFiles fs) sj s img)" "tidy (updateSCFFunction (carried host) (loggedFiles fs) sj s img)"
  "tidy (ensureSCFHTTPTrigger (carried host) sj s)" "tidy (ensureDNSPodCNAMERecord (carried host) dc h target remark)"
  unfolding createSCFFunction_def updateSCFFunction_def ensureSCFHTTPTrigger_def [abs_def] ensureDNSPodCNAMERecord_def [abs_def] Let_def
  by (intro tidy_with_json tidy_structure tidy_commands tidy_answers tidy_waits tidy_scf tidy_dns)+

lemma tidy_binding: "tidy (ensureSCFCustomDomainBinding (carried host) (loggedFiles fs) sj s)"
  unfolding ensureSCFCustomDomainBinding_def by (intro tidy_with_json tidy_poll_at tidy_rounds)

lemma tidy_custom_domain: "tidy (ensureSCFCustomDomain (carried host) (loggedFiles fs) (carriedNet ne) dc sj s)"
  unfolding ensureSCFCustomDomain_def [abs_def] Let_def
  by (intro tidy_structure tidy_scf tidy_function_steps tidy_waits tidy_binding)

lemma tidy_upsert: "tidy (upsertSCFFunction (carried host) (loggedFiles fs) (carriedNet ne) dc sj s img)"
proof -
  have first: "tidy (if exists then updateSCFFunction (carried host) (loggedFiles fs) sj s img else createSCFFunction (carried host) (loggedFiles fs) sj s img)" for exists
    by (cases exists) (simp_all add: tidy_function_steps)
  show ?thesis
    unfolding upsertSCFFunction_def [abs_def]
    by (intro tidy_structure tidy_scf first tidy_waits tidy_function_steps tidy_custom_domain)
qed

lemma tidy_health: "tidy (waitForControlPlaneSCF (carried host) (carriedNet ne) sj s)"
proof -
  have url: "tidy (controlPlanePublicURL (carried host) sj s)"
    unfolding controlPlanePublicURL_def [abs_def] by (intro tidy_structure tidy_scf)
  define probes where "probes t = (\<lambda>w1. case controlPlanePublicURL (carried host) sj s w1 of (publicURL, w2) \<Rightarrow>
      poll (carried host) (secondsDur 5) (addDur t tenMinutes) (healthRound (carriedNet ne) (publicURL @ ''/api/healthz''))
        healthLate Some (pollRounds tenMinutes (secondsDur 5)) (None, 0) w2)" for t
  have probing: "tidy (probes t)" for t
    unfolding probes_def by (intro tidy_case url tidy_poll tidy_rounds)
  have eq: "waitForControlPlaneSCF (carried host) (carriedNet ne) sj s =
      (\<lambda>w. case controlPlanePublicURL (carried host) sj s w of (url, w1) \<Rightarrow>
         if url = [] then (Some (Errorf ''SCF HTTP trigger URL is missing''), w1) else probes (ohNow (carried host) w1) w1)"
    by (rule ext) (simp only: waitForControlPlaneSCF_def probes_def)
  have now: "tidy (\<lambda>w. probes (ohNow (carried host) w) w)" by (rule tidy_now) (rule probing)
  show ?thesis unfolding eq by (intro tidy_case url tidy_if tidy_return now)
qed

lemma tidy_image: "tidy (buildAndPushControlPlaneImage (carried host) (loggedFiles fs) s path)"
proof -
  have copy: "tidy (copyControlPlaneConfigForDocker (loggedFiles fs) path)"
    unfolding copyControlPlaneConfigForDocker_def [abs_def] by (intro tidy_structure)
  define build where "build config repo t =
    (let img = repo @ '':e2e-'' @ imageTime t in
     removing (loggedFiles fs) [config] (\<lambda>v.
       case andThen (runInteractive (carried host) (dockerBuildCmd config))
              (andThen (runInteractive (carried host) [''docker'', ''tag'', localImage, img]) (runInteractive (carried host) [''docker'', ''push'', img])) v of
         (Some err, v1) \<Rightarrow> (Inl err, v1)
       | (None, v1) \<Rightarrow> (Inr img, v1)))" for config repo t
  have building: "tidy (build config repo t)" for config repo t
    unfolding build_def Let_def by (intro tidy_removing tidy_structure tidy_commands)
  define repo where "repo = rev (dropWhile (\<lambda>c. c = CHR '':'') (rev (trimSpace (sfImage s))))"
  have eq: "buildAndPushControlPlaneImage (carried host) (loggedFiles fs) s path =
      (\<lambda>w. if repo = [] then (Inl (Errorf ''controlPlane.scf.image is required''), w)
        else (case copyControlPlaneConfigForDocker (loggedFiles fs) path w of (c, w1) \<Rightarrow>
          (case c of Inl err \<Rightarrow> (Inl err, w1) | Inr config \<Rightarrow> build config repo (ohNow (carried host) w1) w1)))"
    by (rule ext) (simp only: buildAndPushControlPlaneImage_def build_def Let_def repo_def)
  have now: "tidy (\<lambda>w. build config repo (ohNow (carried host) w) w)" for config by (rule tidy_now) (rule building)
  show ?thesis unfolding eq by (intro tidy_if tidy_return tidy_case copy tidy_sum now)
qed

lemma tidy_deploy: "tidy (deployControlPlaneSCF (carried host) (loggedFiles fs) (carriedNet ne) dc sj s path)"
  unfolding deployControlPlaneSCF_def [abs_def]
  by (intro tidy_structure tidy_image tidy_upsert tidy_health)

lemma tidy_update: "tidy (updateControlPlane (carried host) (loggedFiles fs) (carriedNet ne) dc sj re cfg plans m)"
proof (rule tidyI)
  fix w r w'
  assume run: "updateControlPlane (carried host) (loggedFiles fs) (carriedNet ne) dc sj re cfg plans m w = (r, w')"
  obtain c w1 where c: "renderControlPlaneInstallFiles (loggedFiles fs) re cfg plans m w = (c, w1)" by (rule prod.exhaust)
  have w1: "outstanding (snd w1) \<subseteq> outstanding (snd w) \<union> (case c of Inl _ \<Rightarrow> {} | Inr path \<Rightarrow> {path} - {[]})"
    using c by (auto simp: renderControlPlaneInstallFiles_def split: sum.splits dest: subsetD [OF writeTempFile_outcome])
  show "outstanding (snd w') \<subseteq> outstanding (snd w)"
  proof (cases c)
    case (Inl err)
    then show ?thesis using run c w1 by (simp add: updateControlPlane_def)
  next
    case (Inr config)
    then have "removing (loggedFiles fs) [config, []] (deployControlPlaneSCF (carried host) (loggedFiles fs) (carriedNet ne) dc sj (ocSCF cfg) config) w1 = (r, w')"
      using run c by (simp add: updateControlPlane_def)
    from removing_outcome [OF tidy_deploy this] show ?thesis using w1 Inr by auto
  qed
qed

subsection \<open>Installing a plane\<close>

lemma tidy_upload: "tidy (uploadFile (carried host) (loggedFiles fs) cfg target local remote mode)"
  unfolding uploadFile_def [abs_def] by (intro tidy_structure)

lemma tidy_install: "tidy (installCloudPlane (carried host) (loggedFiles fs) re cfg plan m)"
proof (rule tidyI)
  fix w r w'
  assume run: "installCloudPlane (carried host) (loggedFiles fs) re cfg plan m w = (r, w')"
  obtain c w1 where c: "renderCloudPlaneFiles (loggedFiles fs) re cfg (cpPlane plan) (cpOutput plan) (cpPrivateIP plan) m w = (c, w1)"
    by (rule prod.exhaust)
  have removed: "outstanding (snd (flRemove (loggedFiles fs) path v)) = outstanding (snd v) - {path}" for path v
    by (cases v) (simp add: loggedFiles_def)
  have w1: "outstanding (snd w1) \<subseteq> outstanding (snd w) \<union> (case c of Inl _ \<Rightarrow> {} | Inr (config, script) \<Rightarrow> {config, script} - {[]})"
  proof (cases "bindR (cloudTemplateData (loggedFiles fs) re cfg (cpPlane plan) (cpOutput plan) (cpPrivateIP plan) m w) (\<lambda>(kt, kr).
             bindR (reCloud re kt) (\<lambda>config. bindR (reInstall re kr) (\<lambda>script. Inr (config, script))))")
    case (Inl err)
    then show ?thesis using c by (simp add: renderCloudPlaneFiles_def)
  next
    case (Inr texts)
    obtain a b where ab: "texts = (a, b)" by (rule prod.exhaust)
    obtain t1 v1 where p1: "writeTempFile (loggedFiles fs) ''mini-cloud-cloud-plane-*.yaml'' a ''0600'' w = (t1, v1)" by (rule prod.exhaust)
    obtain t2 v2 where p2: "writeTempFile (loggedFiles fs) ''mini-cloud-install-*.sh'' b ''0700'' v1 = (t2, v2)" by (rule prod.exhaust)
    note o1 = writeTempFile_outcome [OF p1]
    have o2: "outstanding (snd v2) \<subseteq> outstanding (snd w) \<union> (case t1 of Inl _ \<Rightarrow> {} | Inr path \<Rightarrow> {path} - {[]})
        \<union> (case t2 of Inl _ \<Rightarrow> {} | Inr path \<Rightarrow> {path} - {[]})"
      using writeTempFile_outcome [OF p2] o1 by blast
    show ?thesis
      using c o1 o2
      unfolding renderCloudPlaneFiles_def Inr ab sum.case prod.case p1
      by (cases t1; cases t2) (auto simp: p2 removed)
  qed
  show "outstanding (snd w') \<subseteq> outstanding (snd w)"
  proof (cases c)
    case (Inl err)
    then show ?thesis using run c w1 by (simp add: installCloudPlane_def)
  next
    case (Inr files)
    obtain config script where f: "files = (config, script)" by (rule prod.exhaust)
    define body where "body = andThen (uploadFile (carried host) (loggedFiles fs) (opSSH (cpPlane plan)) (cpHost plan) (ocCloudPlaneBinary cfg) ''/tmp/mini-cloud-cloud-plane'' ''0755'')
      (andThen (uploadFile (carried host) (loggedFiles fs) (opSSH (cpPlane plan)) (cpHost plan) (ocNodeAgentBinary cfg) ''/tmp/mini-cloud-node-agent'' ''0755'')
        (andThen (uploadFile (carried host) (loggedFiles fs) (opSSH (cpPlane plan)) (cpHost plan) config ''/tmp/mini-cloud-cloud-plane.yaml'' ''0600'')
          (\<lambda>w. case flRead (loggedFiles fs) script w of
             Inl (_, err) \<Rightarrow> (Some err, w)
           | Inr data \<Rightarrow> sshScript (carried host) (opSSH (cpPlane plan)) (cpHost plan) data w)))"
    have "tidy body"
      unfolding body_def sshScript_def by (intro tidy_andThen tidy_upload tidy_sum tidy_pair tidy_return tidy_commands)
    moreover have "removing (loggedFiles fs) [config, script] body w1 = (r, w')"
      using run c by (simp add: installCloudPlane_def Inr f runCloudPlaneScript_def body_def Let_def)
    ultimately show ?thesis using removing_outcome w1 Inr f by fastforce
  qed
qed


section \<open>Certificates are kept\<close>

text \<open>
  What is relied on of rsa, x509 and pem: an issued certificate is written as PEM, parses, and is valid for
  the names and addresses it was asked for.
\<close>

definition issuesValid :: "('k, 'c, 'w) cert_env \<Rightarrow> bool" where
  "issuesValid ce \<longleftrightarrow>
     (\<forall>req ca w cert key w'. ceIssue ce req ca w = (Inr (cert, key), w') \<longrightarrow>
        ceCertPEM ce cert \<noteq> [] \<and> ceKeyPEM ce key \<noteq> [] \<and>
        (\<exists>der parsed. ceDecodePEM ce (ceCertPEM ce cert) = Some (''CERTIFICATE'', der) \<and> ceParseCert ce der = Inr parsed \<and>
           list_all (ceNameValid ce parsed) (crNames req) \<and> list_all (ceAddressValid ce parsed) (crAddresses req)))"

definition planName :: "cloud_plan \<Rightarrow> string" where
  "planName plan = opName (cpPlane plan)"

definition certified :: "('k, 'c, 'w) cert_env \<Rightarrow> cert_state \<Rightarrow> cloud_plan \<Rightarrow> bool" where
  "certified ce st plan \<longleftrightarrow>
     (\<exists>m. map_of (csCloudPlanes st) (planName plan) = Some m \<and> \<not> cloudPlaneCertificateNeedsIssue ce m (otCert (csCA st)) plan)"

lemma not_certified_noTLS [simp]: "cloudPlaneCertificateNeedsIssue ce noTLS ca plan"
  by (simp add: cloudPlaneCertificateNeedsIssue_def noTLS_def)

lemma issueMissing_idle:
  "\<forall>plan\<in>set plans. certified ce st plan \<Longrightarrow> issueMissing ce ca plans st changed w = (Inr (st, changed), w)"
  by (induction plans) (auto simp: certified_def planName_def Let_def)

lemma issued_certified:
  assumes "issuesValid ce" "issueCloudPlaneCertificate ce ca caPEM plan w = (Inr m, w')"
  shows "\<not> cloudPlaneCertificateNeedsIssue ce m caPEM plan"
proof -
  obtain names ips where n: "certificateNames plan = (names, ips)" by fastforce
  show ?thesis
    using assms unfolding issuesValid_def
    by (fastforce simp: issueCloudPlaneCertificate_def n issueLeaf_def cloudPlaneCertificateNeedsIssue_def
        split: prod.splits sum.splits)
qed

lemma issueMissing_done:
  assumes "issuesValid ce"
  shows "distinct (map planName plans) \<Longrightarrow> issueMissing ce ca plans st changed w = (Inr (st', changed'), w') \<Longrightarrow>
    csCA st' = csCA st \<and> csControlPlane st' = csControlPlane st \<and> (\<forall>plan\<in>set plans. certified ce st' plan) \<and>
    (\<forall>name. name \<notin> planName ` set plans \<longrightarrow> map_of (csCloudPlanes st') name = map_of (csCloudPlanes st) name)"
proof (induction plans arbitrary: st changed w)
  case (Cons plan plans)
  let ?name = "planName plan"
  define current where "current = (case map_of (csCloudPlanes st) ?name of None \<Rightarrow> noTLS | Some m \<Rightarrow> m)"
  have dist: "distinct (map planName plans)" "?name \<notin> planName ` set plans" using Cons.prems(1) by auto
  show ?case
  proof (cases "cloudPlaneCertificateNeedsIssue ce current (otCert (csCA st)) plan")
    case False
    then have now: "certified ce st plan"
      by (auto simp: certified_def current_def split: option.splits)
    have "issueMissing ce ca plans st changed w = (Inr (st', changed'), w')"
      using Cons.prems(2) False by (simp add: current_def planName_def Let_def)
    note ih = Cons.IH [OF dist(1) this]
    have "certified ce st' plan" using now ih dist(2) by (simp add: certified_def)
    then show ?thesis using ih by auto
  next
    case True
    obtain a w1 where i: "issueCloudPlaneCertificate ce ca (otCert (csCA st)) plan w = (a, w1)" by fastforce
    then obtain m where m: "a = Inr m" using Cons.prems(2) True by (cases a) (simp_all add: current_def planName_def Let_def)
    let ?st = "st\<lparr>csCloudPlanes := AList.update ?name m (csCloudPlanes st)\<rparr>"
    have "issueMissing ce ca plans ?st True w1 = (Inr (st', changed'), w')"
      using Cons.prems(2) True i m by (simp add: current_def planName_def Let_def)
    note ih = Cons.IH [OF dist(1) this]
    have "map_of (csCloudPlanes st') ?name = Some m" using ih dist(2) by (simp add: update_conv')
    then have "certified ce st' plan"
      using issued_certified [OF assms i [unfolded m]] ih by (simp add: certified_def)
    moreover have "map_of (csCloudPlanes st') name = map_of (csCloudPlanes st) name" if "name \<notin> planName ` set (plan # plans)" for name
      using ih that by (simp add: update_conv')
    ultimately show ?thesis using ih by auto
  qed
qed simp

lemma ensureAuthority_done:
  assumes "issuesValid ce" "ensureAuthority ce st w = (Inr (st', changed), w')"
  shows "otCert (csCA st') \<noteq> [] \<and> otKey (csCA st') \<noteq> [] \<and> otCACert (csCA st') \<noteq> []"
  using assms unfolding issuesValid_def
  by (fastforce simp: ensureAuthority_def newCertificateAuthority_def split: prod.splits sum.splits if_splits)

lemma ensureControlPlane_done:
  assumes "issuesValid ce" "ensureControlPlane ce ca st w = (Inr (st', changed), w')"
  shows "csCA st' = csCA st \<and> otCert (csControlPlane st') \<noteq> [] \<and> otKey (csControlPlane st') \<noteq> []
    \<and> otCACert (csControlPlane st') = otCert (csCA st')"
  using assms unfolding issuesValid_def
  by (fastforce simp: ensureControlPlane_def issueControlPlaneCertificate_def issueLeaf_def Let_def split: prod.splits sum.splits if_splits)

lemma loadCertificateState_done:
  assumes "issuesValid ce" "loadCertificateState ce fs cfg w = (Inr (st, ca, changed), w')"
  shows "otCert (csCA st) \<noteq> [] \<and> otKey (csCA st) \<noteq> [] \<and> otCACert (csCA st) \<noteq> [] \<and> parseCertificateAuthority ce (csCA st) = Inr ca
    \<and> otCert (csControlPlane st) \<noteq> [] \<and> otKey (csControlPlane st) \<noteq> [] \<and> otCACert (csControlPlane st) = otCert (csCA st)"
proof -
  obtain st0 st1 ch1 w1 ch2 where steps: "ensureAuthority ce st0 w = (Inr (st1, ch1), w1)"
      "parseCertificateAuthority ce (csCA st1) = Inr ca" "ensureControlPlane ce ca st1 w1 = (Inr (st, ch2), w')"
    using assms(2) by (auto simp: loadCertificateState_def split: sum.splits prod.splits)
  show ?thesis using ensureAuthority_done [OF assms(1) steps(1)] ensureControlPlane_done [OF assms(1) steps(3)] steps(2) by simp
qed

text \<open>A state with everything in place is loaded as it is.\<close>

lemma loadCertificateState_idle:
  assumes "readCertificateState ce fs (certificateStatePath cfg) w = Inr st"
    and "otCert (csCA st) \<noteq> [] \<and> otKey (csCA st) \<noteq> [] \<and> otCACert (csCA st) \<noteq> [] \<and> parseCertificateAuthority ce (csCA st) = Inr ca
      \<and> otCert (csControlPlane st) \<noteq> [] \<and> otKey (csControlPlane st) \<noteq> [] \<and> otCACert (csControlPlane st) = otCert (csCA st)"
  shows "loadCertificateState ce fs cfg w = (Inr (st, ca, False), w)"
  using assms by (simp add: loadCertificateState_def ensureAuthority_def ensureControlPlane_def Let_def)


definition easyCerts :: "(unit, unit, bool) cert_env" where
  "easyCerts =
     \<lparr>ceIssue = (\<lambda>req ca w. (Inr ((), ()), w)), ceCertPEM = (\<lambda>_. ''cert''), ceKeyPEM = (\<lambda>_. ''key''),
      ceDecodePEM = (\<lambda>t. Some (if t = ''cert'' then ''CERTIFICATE'' else ''RSA PRIVATE KEY'', [])),
      ceParseCert = (\<lambda>_. Inr ()), ceParseKey = (\<lambda>_. Inr ()), ceNameValid = (\<lambda>_ _. True), ceAddressValid = (\<lambda>_ _. True),
      ceEncodeState = (\<lambda>_. Inr ''state''),
      ceDecodeState = (\<lambda>_. let m = \<lparr>otCACert = ''cert'', otCert = ''cert'', otKey = ''key''\<rparr>
        in Inr \<lparr>csCA = m, csControlPlane = m, csCloudPlanes = [(''a'', m)]\<rparr>)\<rparr>"

text \<open>A disk with one file, which exists once it was written.\<close>

definition easyFiles :: "bool ops_files" where
  "easyFiles =
     \<lparr>flRead = (\<lambda>path w. if w then Inr ''state'' else Inl (True, Errorf ''no such file'')), flWrite = (\<lambda>path data mode w. (None, True)),
      flMkdir = (\<lambda>path mode w. (None, w)), flCreateTemp = (\<lambda>pat w. (Inr pat, w)), flFill = (\<lambda>path data w. (None, w)),
      flClose = (\<lambda>path w. (None, w)), flChmod = (\<lambda>path mode w. (None, w)), flRemove = (\<lambda>path w. w),
      flStat = (\<lambda>w path. Inr True), flLookPath = (\<lambda>tool w. True)\<rparr>"

definition demoOutput :: terraform_output where
  "demoOutput =
     \<lparr>toProvider = ''aliyun'', toPlatformMode = [],
      toPlatform = \<lparr>ofName = ''a'', ofInstanceID = ''i-1'', ofPublicIP = ''203.0.113.7'', ofPrivateIP = ''10.0.0.7'', ofSSHHost = [], ofGRPCEndpoint = []\<rparr>,
      toNetwork = \<lparr>onSubnetCIDRBlock = ''10.0.0.0/24'', onCloudPlaneGRPCPort = 9443, onIngressHTTPPort = 80, onWorkloadProxyPort = 18081, onArtifactHTTPPort = 18082\<rparr>,
      toCCN = None,
      toNodeProvider = \<lparr>npProvider = ''aliyun'', npInstanceType = ''ecs.t6'', npImageID = [], npKeyPairName = [], npVSwitchID = [], npSecurityGroupID = [],
        npSystemDiskCategory = [], npSystemDiskSizeGiB = 0, npKeyIDs = [], npVPCID = [], npSubnetID = [], npSecurityGroupIDs = [], npSystemDiskType = []\<rparr>,
      toInstallEnv = \<lparr>iePlatformPublicIP = [], iePlatformPrivateIP = [], iePlatformSSHHost = [], ieRegionID = ''cn-hangzhou'', ieZoneID = []\<rparr>\<rparr>"

definition demoPlan :: cloud_plan where
  "demoPlan = \<lparr>cpPlane = demoPlane ''a'' ''tf/a'', cpOutput = demoOutput, cpHost = ''root@a'', cpPrivateIP = ''10.0.0.7'',
     cpGRPCEndpoint = ''grpcs://203.0.113.7:9443''\<rparr>"

lemma demo_name: "opName (cpPlane demoPlan) = ''a''"
  by (simp add: demoPlan_def demoPlane_def)

lemma demo_names: "certificateNames demoPlan = ([], [replicate 10 0 @ [255, 255, 10, 0, 0, 7], replicate 10 0 @ [255, 255, 203, 0, 113, 7]])"
  by code_simp


end
