(* ===== verification/Spec2Isabelle.thy ===== *)
theory Spec2Isabelle
  imports StoreProps ClaimProps ServiceProps NodeProps LedgerProps ReconcilerProps IngressProps FrontdoorProps
    Caddy CloudApi ServiceOps DnsProps DnsSafety PlaneProps DockerProps Telemetry AgentDaemon AgentDemo
    NodeDriverProps Repurchase Inventory BootstrapProps HttpProps CloudAppProps CommandLine OpsReleaseProps
begin

text \<open>
  A model of mini-cloud, a small platform for container services on the machines of two clouds.

  \<^bold>\<open>The program.\<close>  A \<^emph>\<open>cloud-plane\<close> runs in one region of one cloud.  It keeps its state in PostgreSQL, buys and
  returns worker nodes, hands work to the agents on them and publishes the services through Caddy and the
  cloud's CDN.  A \<^emph>\<open>node agent\<close> on each worker node registers with the plane, sends heartbeats, polls for work,
  runs containers on Docker and reports.  The \<^emph>\<open>control-plane\<close> has an HTTP API for people; it keeps no state but
  the catalogue of the planes, passes the desired services on to their planes by gRPC, reads the planes'
  snapshots and keeps DNS records at DNSPod.  \<^emph>\<open>minictl\<close> (internal/ops) brings planes up and takes them down
  with terraform, ssh and the command lines of the clouds.

  \<^bold>\<open>Conventions.\<close>  Go strings are byte lists; an error is a value of goerr, a fallible result 'a res is Inl of an
  error or Inr; state is passed explicitly; structs are records, map iterations are lists where the order can
  matter.  Integers are int, with goInt32 and goInt64 where the code's width matters.  Times are instants in
  nanoseconds.  Code that is not in this repository is a parameter: SDK clients, gRPC stubs, the Docker engine,
  HTTP and URL parsing, YAML and JSON decoders, hashes, x509, clocks, file systems and the commands of minictl.
  Where a client relies on a contract it is a locale (the store's operations under interference, the drivers of
  the clouds, a plane seen from the control-plane, a host whose commands are permitted), interpreted on the
  model of the code that provides it.

  \<^bold>\<open>Theories.\<close>
  Prelude, GoText, GoNet and GoTls hold what is used of Go's library and of internal/transport.

  The store (cloudplane/model, cloudplane/infra/store): CloudModel has the inputs and their validation, StoreState
  the three tables, StoreRuns service_run.go, StoreNodes node.go, StoreServices service.go and observability.go.
  A transaction is one atomic step on the tables.  StoreInv states the invariant and StoreOps shows that every
  operation keeps it; StoreMachine makes the operations the steps of a machine, StoreHistory and StoreIdle say
  what steps can do to a run, a service and a draining node, RunText what the texts of a run are.  StoreProps,
  ClaimProps, ServiceProps, NodeProps and LedgerProps hold the properties, StoreDemo a small history for their
  witnesses.

  The loops of the cloud-plane: StoreCalls lets other transactions come between the calls of a loop;
  NodeReconciler and Ingress are control/node_reconciler.go and ingress_reconciler.go, Frontdoor, TencentCdn and
  AliyunCdn infra/frontdoor, Caddy infra/ingress/caddy; their properties are in ReconcilerSafety,
  ReconcilerProps, IngressProps, FrontdoorProps and Caddy.  NodeDriver, TencentDriver, AliyunDriver and
  NodeDrivers are infra/nodeprovider with Bootstrap for the script of a new node; NodeDriverProps, Repurchase
  and BootstrapProps state what the reconciler and the drivers do together and what the script sets.
  CloudConfig, CloudApp and CloudAppProps are the configuration and the wiring, CloudApi the gRPC services over
  the messages of PlaneMessages, CommandLine the command lines of the three daemons.

  The node agent: AgentConfig, AgentClient, Telemetry, Readiness, Docker, Work and AgentDaemon follow the packages
  of internal/nodeagent; DockerProps and WorkProps say what a round does whatever the engine answers, AgentStore
  connects the agent with the plane's handlers and store, AgentDemo evaluates a round.

  The control-plane: Dns, PlaneSync, PlaneViews and ServiceOps follow internal/controlplane/coordination,
  ControlPlane the configuration and wiring, Inventory, ControlAuth and ControlHttp internal/controlplane/api.
  DnsProps and DnsSafety say whose DNS records are touched, PlaneRegister states what the control-plane needs of
  a plane, PlaneStore shows that a cloud-plane on its store is one, PlaneProps and HttpProps go end to end.

  minictl: OpsConfig is config.go, OpsCommands command.go, ssh.go, terraform.go and parallel.go, OpsCleanup
  frontdoor.go, destroy.go and what tencent.go removes, OpsDeploy bootstrap.go, what tencent.go adds and the
  plans of install.go, OpsRelease certs.go, the rest of install.go, scf.go and check.go.  OpsProps and
  OpsWorkspaces say which commands are run, OpsReleaseProps what an installation leaves behind.

  \<^bold>\<open>What is shown.\<close>  The store's invariant over all reachable states, life cycles and generations, the soundness and
  the order of claims, the account of capacity; that services refine registers; that the reconciler deletes only
  instances whose deletion is justified, with any transactions in between, and buys once; that what is published
  is what the store says; that domains and DNS records of others are not touched; that an agent's round settles
  its run, that its loops act only for the registered node, and that its requests are valid; that scripts and
  variables are read back as they were written; that loaded configurations can be built; that the HTTP API
  reveals nothing without a session and serves what was posted; that minictl removes only what belongs to a
  plane, that its parallel tasks keep to their terraform workspaces, that an installation leaves no temporary
  files and keeps its certificates.  Some theorems exhibit defects: capacity
  freed twice or never, the clean-up of a node that is at work, a purchase repeated on a node in use, the panic
  of an ingress pass without a public origin, and two planes that share a terraform directory.

  \<^bold>\<open>Bounds and fuel.\<close>  The groups of an IPv6 address are read with fuel 9, one more than there can be; the
  interpreter of a script's assignments has the length of the script, of which each step consumes a character.
  A loop that polls until a deadline has as fuel the rounds that fit before the deadline (pollRounds), and
  poll_enough shows that more change nothing when waiting takes its time.  Loops with a fixed number of attempts
  have that number.  No other recursion is bounded.

  \<^bold>\<open>Not modelled.\<close>  SQL itself (a query is written as the operation on the tables that it states) and the
  migrations; the generated gRPC code; Gin beyond routes and handlers; logging; the listening sockets, tickers
  and graceful shutdown of the daemons; the web user interface and its static files.  Of minictl: the end-to-end
  run (e2e.go), which starts the browser tests, the templates' texts and the fields of a certificate beyond its
  names, addresses, use and years, which only crypto/x509 reads.
\<close>

end
